(* ===== verification/Prelude.thy ===== *)
theory Prelude
  imports Complex_Main "HOL-Library.AList" "HOL-Library.Multiset" "HOL-Library.List_Lexorder"
begin

text \<open>
  Shared vocabulary of the development: Python strings as lists of Unicode code points, the
  values that \<^verbatim>\<open>json.load\<close> produces, insertion-ordered dictionaries as association lists,
  exceptions as values of a sum type, Python's slicing, stripping, stable sorting and
  truthiness, and the generic lemmas the component theories use.  Collections of rewrite
  rules: \<open>py_simps\<close> unfolds the small Python primitives, \<open>exn_simps\<close> the result combinators.
\<close>

named_theorems py_simps
named_theorems exn_simps

section \<open>Strings\<close>

text \<open>
  A Python \<^verbatim>\<open>str\<close> is a sequence of code points, so \<^verbatim>\<open>len\<close> and slicing count code points.
  \<open>lit\<close> embeds an ASCII literal; literals with Chinese characters are written as lists of
  code points where they occur.
\<close>

type_synonym pystr = "nat list"

definition lit :: "string \<Rightarrow> pystr" where
  "lit s = map of_char s"

lemma lit_Nil [simp]: "lit [] = []"
  by (simp add: lit_def)

lemma lit_eq_iff [simp]: "lit s = lit t \<longleftrightarrow> s = t"
proof -
  have "inj (of_char :: char \<Rightarrow> nat)"
    by (simp add: inj_def)
  then show ?thesis
    by (simp add: lit_def inj_map_eq_map)
qed

lemma lit_eq_Nil_iff [simp]: "lit s = [] \<longleftrightarrow> s = []" "[] = lit s \<longleftrightarrow> s = []"
  by (auto simp: lit_def)

lemma length_lit [simp]: "length (lit s) = length s"
  by (simp add: lit_def)

text \<open>The code points that \<^verbatim>\<open>str.strip()\<close> and \<^verbatim>\<open>str.split()\<close> treat as white space.\<close>

definition is_space :: "nat \<Rightarrow> bool" where
  "is_space c \<longleftrightarrow> (9 \<le> c \<and> c \<le> 13) \<or> (28 \<le> c \<and> c \<le> 32) \<or> c = 133 \<or> c = 160 \<or> c = 5760 \<or>
     (8192 \<le> c \<and> c \<le> 8202) \<or> c = 8232 \<or> c = 8233 \<or> c = 8239 \<or> c = 8287 \<or> c = 12288"

definition py_lstrip :: "pystr \<Rightarrow> pystr" where
  "py_lstrip s = dropWhile is_space s"

definition py_rstrip :: "pystr \<Rightarrow> pystr" where
  "py_rstrip s = rev (dropWhile is_space (rev s))"

definition py_strip :: "pystr \<Rightarrow> pystr" where
  "py_strip s = py_rstrip (py_lstrip s)"

text \<open>
  \<^verbatim>\<open>str.lower()\<close> on the ASCII range.  The strings the program lowers are platform names, model names, provider messages,
  header names and file extensions; other code points are left as they are.
\<close>

definition lower_char :: "nat \<Rightarrow> nat" where
  "lower_char c = (if 65 \<le> c \<and> c \<le> 90 then c + 32 else c)"

definition py_lower :: "pystr \<Rightarrow> pystr" where
  "py_lower s = map lower_char s"

lemma lower_char_idem [simp]: "lower_char (lower_char c) = lower_char c"
  by (auto simp: lower_char_def)

lemma py_lower_idem [simp]: "py_lower (py_lower s) = py_lower s"
  by (simp add: py_lower_def)

text \<open>Joining with a separator, as \<^verbatim>\<open>sep.join(parts)\<close> does.\<close>

fun py_join :: "pystr \<Rightarrow> pystr list \<Rightarrow> pystr" where
  "py_join sep [] = []"
| "py_join sep [x] = x"
| "py_join sep (x # y # ys) = x @ sep @ py_join sep (y # ys)"

lemma length_py_join:
  "length (py_join sep xs) = sum_list (map length xs) + length sep * (length xs - 1)"
  by (induction sep xs rule: py_join.induct) simp_all

lemma py_join_snoc: "xs \<noteq> [] \<Longrightarrow> py_join sep (xs @ [x]) = py_join sep xs @ sep @ x"
  by (induction sep xs rule: py_join.induct) simp_all

text \<open>Slices \<^verbatim>\<open>s[i:j]\<close>, with negative indices counting from the end and clamping.\<close>

definition py_index :: "nat \<Rightarrow> int \<Rightarrow> nat" where
  "py_index n i = (if i < 0 then nat (max 0 (i + int n)) else min n (nat i))"

definition py_slice :: "'a list \<Rightarrow> int \<Rightarrow> int \<Rightarrow> 'a list" where
  "py_slice xs i j = (let a = py_index (length xs) i; b = py_index (length xs) j
     in take (b - a) (drop a xs))"

lemma py_index_le: "py_index n i \<le> n"
  by (auto simp: py_index_def)

lemma py_slice_nat: "py_slice xs (int a) (int b) = take (b - a) (drop a xs)"
proof (cases "b \<le> length xs")
  case True
  then show ?thesis
    by (cases "a \<le> length xs") (simp_all add: py_slice_def py_index_def Let_def)
next
  case False
  then show ?thesis
    by (cases "a \<le> length xs") (simp_all add: py_slice_def py_index_def Let_def)
qed

text \<open>Decimal rendering of integers, \<^verbatim>\<open>str(n)\<close>.\<close>

fun nat_digits :: "nat \<Rightarrow> pystr" where
  "nat_digits n = (if n < 10 then [48 + n] else nat_digits (n div 10) @ [48 + n mod 10])"

declare nat_digits.simps [simp del]

definition int_str :: "int \<Rightarrow> pystr" where
  "int_str i = (if i < 0 then 45 # nat_digits (nat (- i)) else nat_digits (nat i))"

lemma nat_digits_nonempty: "nat_digits n \<noteq> []"
  by (subst nat_digits.simps) simp

lemma int_str_nonempty: "int_str i \<noteq> []"
  by (simp add: int_str_def nat_digits_nonempty)

subsection \<open>Stripping\<close>

lemma set_py_lstrip: "set (py_lstrip s) \<subseteq> set s"
  by (auto simp: py_lstrip_def dest: set_dropWhileD)

lemma set_py_strip: "set (py_strip s) \<subseteq> set s"
  by (auto simp: py_strip_def py_rstrip_def py_lstrip_def dest!: set_dropWhileD)

lemma length_py_strip_le: "length (py_strip s) \<le> length s"
proof -
  have "length (py_strip s) \<le> length (py_lstrip s)"
    using length_dropWhile_le [of is_space "rev (py_lstrip s)"]
    by (simp add: py_strip_def py_rstrip_def)
  also have "\<dots> \<le> length s"
    by (simp add: py_lstrip_def length_dropWhile_le)
  finally show ?thesis .
qed

lemma py_strip_eq_Nil_iff: "py_strip s = [] \<longleftrightarrow> (\<forall>c \<in> set s. is_space c)"
proof -
  have "py_strip s = [] \<longleftrightarrow> (\<forall>c \<in> set (py_lstrip s). is_space c)"
    by (simp add: py_strip_def py_rstrip_def)
  also have "\<dots> \<longleftrightarrow> (\<forall>c \<in> set s. is_space c)"
    unfolding py_lstrip_def by (induction s) auto
  finally show ?thesis .
qed

lemma nonspace_in_strip: "c \<in> set s \<Longrightarrow> \<not> is_space c \<Longrightarrow> c \<in> set (py_strip s)"
proof -
  have drop: "c \<in> set (dropWhile is_space xs)" if "c \<in> set xs" "\<not> is_space c" for xs
    using that by (induction xs) auto
  assume "c \<in> set s" "\<not> is_space c"
  then show ?thesis
    unfolding py_strip_def py_rstrip_def py_lstrip_def
    by (simp add: drop)
qed

lemma py_lstrip_idem_rstrip: "py_lstrip (py_rstrip (py_lstrip s)) = py_rstrip (py_lstrip s)"
proof (cases "py_lstrip s")
  case Nil
  then show ?thesis unfolding Nil by (simp add: py_rstrip_def py_lstrip_def)
next
  case (Cons c cs)
  have "\<not> is_space c"
    using Cons by (simp add: py_lstrip_def dropWhile_eq_Cons_conv)
  then have "dropWhile is_space (rev cs @ [c]) = dropWhile is_space (rev cs) @ [c]"
    by (simp add: dropWhile_append)
  with \<open>\<not> is_space c\<close> Cons show ?thesis
    by (simp add: py_rstrip_def py_lstrip_def)
qed

lemma py_strip_idem [simp]: "py_strip (py_strip s) = py_strip s"
proof -
  have "py_rstrip (py_rstrip t) = py_rstrip t" for t
    by (simp add: py_rstrip_def dropWhile_idem)
  then show ?thesis
    by (simp add: py_strip_def py_lstrip_idem_rstrip)
qed

section \<open>JSON values and dictionaries\<close>

text \<open>
  What \<^verbatim>\<open>json.load\<close> and \<^verbatim>\<open>json.loads\<close> return.  Dictionaries keep insertion order, so they are
  association lists; \<open>AList.update\<close> replaces a present key in place and appends a new one, as
  \<^verbatim>\<open>d[k] = v\<close> does, and \<open>AList.delete\<close> is \<^verbatim>\<open>d.pop(k, None)\<close>.  Finite floats are rationals.
\<close>

datatype pyval =
    PyNone
  | PyBool bool
  | PyInt int
  | PyFloat rat
  | PyStr pystr
  | PyList "pyval list"
  | PyDict "(pystr \<times> pyval) list"

type_synonym pydict = "(pystr \<times> pyval) list"

definition dget :: "('k \<times> 'v) list \<Rightarrow> 'k \<Rightarrow> 'v option" where
  "dget d k = map_of d k"

definition dget_or :: "('k \<times> 'v) list \<Rightarrow> 'k \<Rightarrow> 'v \<Rightarrow> 'v" where
  "dget_or d k v = (case map_of d k of None \<Rightarrow> v | Some w \<Rightarrow> w)"

definition dhas :: "('k \<times> 'v) list \<Rightarrow> 'k \<Rightarrow> bool" where
  "dhas d k \<longleftrightarrow> map_of d k \<noteq> None"

abbreviation dset :: "('k \<times> 'v) list \<Rightarrow> 'k \<Rightarrow> 'v \<Rightarrow> ('k \<times> 'v) list" where
  "dset d k v \<equiv> AList.update k v d"

abbreviation dpop :: "('k \<times> 'v) list \<Rightarrow> 'k \<Rightarrow> ('k \<times> 'v) list" where
  "dpop d k \<equiv> AList.delete k d"

lemma dget_dset [simp]: "dget (dset d k v) k' = (if k' = k then Some v else dget d k')"
  by (simp add: dget_def update_conv)

lemma dget_dpop [simp]: "dget (dpop d k) k' = (if k' = k then None else dget d k')"
  by (simp add: dget_def delete_conv)

lemma dget_Nil [simp]: "dget [] k = None"
  by (simp add: dget_def)

lemma dget_Cons [simp]: "dget ((k, v) # d) k' = (if k' = k then Some v else dget d k')"
  by (simp add: dget_def)

lemma dhas_iff_dget: "dhas d k \<longleftrightarrow> dget d k \<noteq> None"
  by (simp add: dhas_def dget_def)

lemma dget_or_dget: "dget_or d k v = (case dget d k of None \<Rightarrow> v | Some w \<Rightarrow> w)"
  by (simp add: dget_or_def dget_def)

lemma set_dset: "distinct (map fst d) \<Longrightarrow> set (dset d k v) = insert (k, v) (set d - {k} \<times> UNIV)"
  by (induction d) (auto simp: image_iff)

lemma set_dpop: "set (dpop d k) = set d - {k} \<times> UNIV"
  by (auto simp: AList.delete_eq)

fun truthy :: "pyval \<Rightarrow> bool" where
  "truthy PyNone = False"
| "truthy (PyBool b) = b"
| "truthy (PyInt i) = (i \<noteq> 0)"
| "truthy (PyFloat q) = (q \<noteq> 0)"
| "truthy (PyStr s) = (s \<noteq> [])"
| "truthy (PyList xs) = (xs \<noteq> [])"
| "truthy (PyDict d) = (d \<noteq> [])"

text \<open>Python's \<^verbatim>\<open>==\<close> against an integer: booleans and floats compare by value.\<close>

fun py_eq_int :: "pyval \<Rightarrow> int \<Rightarrow> bool" where
  "py_eq_int (PyBool b) n = ((if b then 1 else 0) = n)"
| "py_eq_int (PyInt i) n = (i = n)"
| "py_eq_int (PyFloat q) n = (q = of_int n)"
| "py_eq_int _ n = False"

section \<open>Exceptions\<close>

datatype exc_type =
    ValueError | TypeErr | KeyErr | AttributeErr | IndexErr | ZeroDivisionErr | RuntimeErr
  | TimeoutErr | OSErr | FileNotFoundErr | JSONDecodeErr | ConnectionErr | HttpxTransportErr
  | ZepApiErr "int option" "(pystr \<times> pystr) list" | NotFoundErr | ImportErr | UnicodeDecodeErr
  | DrainDeadlineExceeded nat | SimulationStopPending | GraphInUseErr | AssertionErr
  | LLMResponseErr pyval | OtherExc

text \<open>An exception is its class and \<^verbatim>\<open>str(e)\<close>.\<close>

datatype exn = Exn (exn_kind: exc_type) (exn_msg: pystr)

type_synonym 'a res = "exn + 'a"

definition bind_res :: "'a res \<Rightarrow> ('a \<Rightarrow> 'b res) \<Rightarrow> 'b res" where
  "bind_res r f = (case r of Inl e \<Rightarrow> Inl e | Inr x \<Rightarrow> f x)"

lemma bind_res_simps [simp, exn_simps]:
  "bind_res (Inl e) f = Inl e"
  "bind_res (Inr x) f = f x"
  by (simp_all add: bind_res_def)

lemma bind_res_eq_Inr [exn_simps]: "bind_res r f = Inr y \<longleftrightarrow> (\<exists>x. r = Inr x \<and> f x = Inr y)"
  by (cases r) simp_all

text \<open>
  Sequencing of code that changes a state and may raise: an exception keeps the changes made
  before it.
\<close>

definition st_bind :: "'a res \<times> 's \<Rightarrow> ('a \<Rightarrow> 's \<Rightarrow> 'b res \<times> 's) \<Rightarrow> 'b res \<times> 's" where
  "st_bind x f = (case x of (Inl e, s) \<Rightarrow> (Inl e, s) | (Inr a, s) \<Rightarrow> f a s)"

lemma st_bind_simps [simp, exn_simps]:
  "st_bind (Inl e, s) f = (Inl e, s)"
  "st_bind (Inr a, s) f = f a s"
  by (simp_all add: st_bind_def)

fun is_ok :: "'a res \<Rightarrow> bool" where
  "is_ok (Inr _) = True"
| "is_ok (Inl _) = False"

fun map_res :: "('a \<Rightarrow> 'b res) \<Rightarrow> 'a list \<Rightarrow> ('b list) res" where
  "map_res f [] = Inr []"
| "map_res f (x # xs) =
     (case f x of Inl e \<Rightarrow> Inl e
      | Inr y \<Rightarrow> (case map_res f xs of Inl e \<Rightarrow> Inl e | Inr ys \<Rightarrow> Inr (y # ys)))"

lemma map_res_ok_iff: "(\<exists>ys. map_res f xs = Inr ys) \<longleftrightarrow> (\<forall>x \<in> set xs. \<exists>y. f x = Inr y)"
  by (induction xs) (auto split: sum.splits)

lemma length_map_res: "map_res f xs = Inr ys \<Longrightarrow> length ys = length xs"
  by (induction xs arbitrary: ys) (auto split: sum.splits)

section \<open>Sorting\<close>

text \<open>
  \<^verbatim>\<open>sorted(xs, key=k, reverse=True)\<close> is stable: elements with equal keys keep their order.
  \<open>sort_key\<close> is the library's stable sort; reversing the input and the output gives Python's
  reverse order.
\<close>

definition sorted_desc :: "('a \<Rightarrow> 'k::linorder) \<Rightarrow> 'a list \<Rightarrow> 'a list" where
  "sorted_desc k xs = rev (sort_key k (rev xs))"

lemma mset_sorted_desc [simp]: "mset (sorted_desc k xs) = mset xs"
  by (simp add: sorted_desc_def)

lemma set_sorted_desc [simp]: "set (sorted_desc k xs) = set xs"
  by (simp add: sorted_desc_def)

lemma length_sorted_desc [simp]: "length (sorted_desc k xs) = length xs"
  by (simp add: sorted_desc_def)

lemma sorted_desc_sorted: "sorted_wrt (\<lambda>x y. k y \<le> k x) (sorted_desc k xs)"
proof -
  have "sorted (map k (sort_key k (rev xs)))"
    by simp
  then show ?thesis
    by (simp add: sorted_desc_def sorted_wrt_rev sorted_map)
qed

lemma sorted_desc_stable: "filter (\<lambda>x. k x = a) (sorted_desc k xs) = filter (\<lambda>x. k x = a) xs"
proof -
  have "filter (\<lambda>x. k x = a) (sort_key k (rev xs)) = filter (\<lambda>x. k x = a) (rev xs)"
    using sort_key_stable [of k a "rev xs"] by (simp add: eq_commute)
  then show ?thesis
    by (simp add: sorted_desc_def flip: rev_filter)
qed

text \<open>\<^verbatim>\<open>sorted(set)\<close> of strings.\<close>

definition py_sorted :: "'a::linorder list \<Rightarrow> 'a list" where
  "py_sorted xs = sort (remdups xs)"

lemma set_py_sorted [simp]: "set (py_sorted xs) = set xs"
  by (simp add: py_sorted_def)

lemma sorted_py_sorted [simp]: "sorted (py_sorted xs)" "distinct (py_sorted xs)"
  by (simp_all add: py_sorted_def)

end
