(* ===== verification/Zep_Access.thy ===== *)
theory Zep_Access
  imports Prelude
begin

text \<open>
  Shared access policy for Zep Cloud and for LLM providers: request normalisation and the
  read-retry loop of \<^verbatim>\<open>app/utils/zep.py\<close>, and the generic back-off loops of
  \<^verbatim>\<open>app/utils/retry.py\<close>.

  An operation that talks to a service is a function \<open>'w \<Rightarrow> 'a res \<times> 'w\<close> on an arbitrary
  world \<open>'w\<close>; the service itself is a parameter.  \<^verbatim>\<open>time.sleep\<close> is a world transformer, and
  Python's \<^verbatim>\<open>float()\<close> on header text is the parameter \<open>fl\<close>.
\<close>

type_synonym ('w, 'a) action = "'w \<Rightarrow> 'a res \<times> 'w"

section \<open>Request limits\<close>

definition MAX_ZEP_SEARCH_QUERY_CHARS :: nat where
  "MAX_ZEP_SEARCH_QUERY_CHARS = 400"

definition MAX_ZEP_SEARCH_RESULTS :: int where
  "MAX_ZEP_SEARCH_RESULTS = 50"

definition ZEP_INGESTION_WAIT_TIMEOUT_SECONDS :: rat where
  "ZEP_INGESTION_WAIT_TIMEOUT_SECONDS = 600"

definition ZEP_HTTP_REQUEST_TIMEOUT_SECONDS :: rat where
  "ZEP_HTTP_REQUEST_TIMEOUT_SECONDS = 60"

definition normalize_zep_search_query :: "pyval \<Rightarrow> pystr res" where
  "normalize_zep_search_query query =
     (case query of
        PyStr s \<Rightarrow>
          (let normalized = py_strip s in
           if normalized = [] then Inl (Exn ValueError (lit ''Zep search query must not be empty''))
           else Inr (take MAX_ZEP_SEARCH_QUERY_CHARS normalized))
      | _ \<Rightarrow> Inl (Exn ValueError (lit ''Zep search query must be a string'')))"

text \<open>
  \<^verbatim>\<open>int(limit)\<close>: integers and booleans convert, finite floats truncate towards zero, text goes
  through the parameter \<open>parse_int\<close>, everything else raises \<^verbatim>\<open>TypeError\<close>.
\<close>

definition rat_trunc :: "rat \<Rightarrow> int" where
  "rat_trunc q = (if q < 0 then \<lceil>q\<rceil> else \<lfloor>q\<rfloor>)"

definition py_int :: "(pystr \<Rightarrow> int option) \<Rightarrow> pyval \<Rightarrow> int option" where
  "py_int parse_int v =
     (case v of PyInt i \<Rightarrow> Some i | PyBool b \<Rightarrow> Some (if b then 1 else 0)
      | PyFloat q \<Rightarrow> Some (rat_trunc q) | PyStr s \<Rightarrow> parse_int s | _ \<Rightarrow> None)"

definition normalize_zep_search_limit :: "(pystr \<Rightarrow> int option) \<Rightarrow> pyval \<Rightarrow> int res" where
  "normalize_zep_search_limit parse_int limit =
     (case py_int parse_int limit of
        None \<Rightarrow> Inl (Exn ValueError (lit ''Zep search limit must be an integer''))
      | Some normalized \<Rightarrow>
          if normalized < 1
          then Inl (Exn ValueError (lit ''Zep search limit must be at least 1''))
          else Inr (min normalized MAX_ZEP_SEARCH_RESULTS))"

lemma normalized_query_bounds:
  assumes "normalize_zep_search_query q = Inr s"
  shows "s \<noteq> [] \<and> length s \<le> MAX_ZEP_SEARCH_QUERY_CHARS"
  using assms
  by (auto simp: normalize_zep_search_query_def Let_def MAX_ZEP_SEARCH_QUERY_CHARS_def
      split: pyval.splits if_splits)

lemma normalized_limit_bounds:
  assumes "normalize_zep_search_limit p v = Inr n"
  shows "1 \<le> n \<and> n \<le> MAX_ZEP_SEARCH_RESULTS"
  using assms
  by (auto simp: normalize_zep_search_limit_def MAX_ZEP_SEARCH_RESULTS_def
      split: option.splits if_splits)

section \<open>The shared client\<close>

text \<open>
  \<^verbatim>\<open>get_zep_client\<close> before the cached constructor call: the configuration checks and the key and
  timeout the cache is asked for.  \<open>env_url\<close> is \<^verbatim>\<open>ZEP_API_URL\<close>, \<open>config_key\<close> is
  \<^verbatim>\<open>Config.ZEP_API_KEY\<close>.
\<close>

definition zh_not_configured :: pystr where
  "zh_not_configured = lit ''ZEP_API_KEY '' @ [26410, 37197, 32622]"

definition or_str :: "pystr option \<Rightarrow> pystr option \<Rightarrow> pystr option" where
  "or_str a b = (case a of Some s \<Rightarrow> (if s \<noteq> [] then a else b) | None \<Rightarrow> b)"

definition get_zep_client ::
  "pystr option \<Rightarrow> pystr option \<Rightarrow> pystr option \<Rightarrow> rat option \<Rightarrow> (pystr \<times> rat) res" where
  "get_zep_client env_url config_key api_key timeout =
     (if env_url \<noteq> None \<and> env_url \<noteq> Some []
      then Inl (Exn ValueError (lit ''ZEP_API_URL is unsupported; unset it to use Zep Cloud''))
      else
        let normalized_key = py_strip (case or_str api_key config_key of Some s \<Rightarrow> s | None \<Rightarrow> [])
        in if normalized_key = [] then Inl (Exn ValueError zh_not_configured)
           else
             let request_timeout = (case timeout of Some t \<Rightarrow> t | None \<Rightarrow> ZEP_HTTP_REQUEST_TIMEOUT_SECONDS)
             in if request_timeout \<le> 0
                then Inl (Exn ValueError (lit ''Zep request timeout must be greater than 0''))
                else Inr (normalized_key, request_timeout))"

section \<open>Retrying reads\<close>

fun is_retryable_zep_error :: "exn \<Rightarrow> bool" where
  "is_retryable_zep_error (Exn k m) =
     (case k of
        HttpxTransportErr \<Rightarrow> True
      | ConnectionErr \<Rightarrow> True | TimeoutErr \<Rightarrow> True | OSErr \<Rightarrow> True | FileNotFoundErr \<Rightarrow> True
      | DrainDeadlineExceeded _ \<Rightarrow> True | SimulationStopPending \<Rightarrow> True
      | ZepApiErr status _ \<Rightarrow>
          (case status of None \<Rightarrow> False
           | Some c \<Rightarrow> c = 408 \<or> c = 429 \<or> (500 \<le> c \<and> c \<le> 599))
      | _ \<Rightarrow> False)"

definition retry_after_seconds :: "(pystr \<Rightarrow> rat option) \<Rightarrow> exn \<Rightarrow> rat option" where
  "retry_after_seconds fl e =
     (case exn_kind e of
        ZepApiErr _ headers \<Rightarrow>
          (case find (\<lambda>(n, v). py_lower n = lit ''retry-after'') headers of
             None \<Rightarrow> None
           | Some (_, value) \<Rightarrow> map_option (max 0) (fl value))
      | _ \<Rightarrow> None)"

definition retry_delay_for :: "(pystr \<Rightarrow> rat option) \<Rightarrow> rat \<Rightarrow> rat \<Rightarrow> nat \<Rightarrow> exn \<Rightarrow> rat" where
  "retry_delay_for fl initial_delay max_delay attempt e =
     min (case retry_after_seconds fl e of
            Some s \<Rightarrow> s
          | None \<Rightarrow> initial_delay * 2 ^ (attempt - 1)) max_delay"

function zep_attempts ::
  "(pystr \<Rightarrow> rat option) \<Rightarrow> ('w, 'a) action \<Rightarrow> (rat \<Rightarrow> 'w \<Rightarrow> 'w) \<Rightarrow> rat \<Rightarrow> rat \<Rightarrow> nat \<Rightarrow> nat \<Rightarrow> ('w, 'a) action"
where
  "zep_attempts fl operation sleep initial_delay max_delay attempt max_attempts w =
     (if max_attempts < attempt then (Inl (Exn AssertionErr (lit ''unreachable'')), w)
      else
        (case operation w of
           (Inr x, w') \<Rightarrow> (Inr x, w')
         | (Inl e, w') \<Rightarrow>
             if attempt = max_attempts \<or> \<not> is_retryable_zep_error e then (Inl e, w')
             else zep_attempts fl operation sleep initial_delay max_delay (Suc attempt) max_attempts
                    (sleep (retry_delay_for fl initial_delay max_delay attempt e) w')))"
  by pat_completeness auto
termination
  by (relation "measure (\<lambda>(_, _, _, _, _, attempt, max_attempts, _). Suc max_attempts - attempt)") auto

declare zep_attempts.simps [simp del]

definition call_zep_read_with_retry ::
  "(pystr \<Rightarrow> rat option) \<Rightarrow> (rat \<Rightarrow> 'w \<Rightarrow> 'w) \<Rightarrow> int \<Rightarrow> rat \<Rightarrow> rat \<Rightarrow> ('w, 'a) action \<Rightarrow> ('w, 'a) action" where
  "call_zep_read_with_retry fl sleep max_attempts initial_delay max_delay operation w =
     (if max_attempts < 1 then (Inl (Exn ValueError (lit ''max_attempts must be at least 1'')), w)
      else zep_attempts fl operation sleep initial_delay max_delay 1 (nat max_attempts) w)"

subsection \<open>A scripted service\<close>

text \<open>
  An operation without arguments is, over one run, the sequence of the outcomes of its calls.
  The scripted service answers call number \<open>n\<close> with \<open>outs n\<close>; its world counts the calls and
  logs the delays slept.  Statements over all scripts are statements over all services.
\<close>

type_synonym script_world = "nat \<times> rat list"

definition script_op :: "(nat \<Rightarrow> 'a res) \<Rightarrow> (script_world, 'a) action" where
  "script_op outs = (\<lambda>(n, ds). (outs n, (Suc n, ds)))"

definition log_sleep :: "rat \<Rightarrow> script_world \<Rightarrow> script_world" where
  "log_sleep d = (\<lambda>(n, ds). (n, ds @ [d]))"

lemma zep_attempts_scripted:
  assumes "attempt \<le> max_attempts"
    and "zep_attempts fl (script_op outs) log_sleep d0 dmax attempt max_attempts (n, ds) = (r, (n', ds'))"
  shows "n < n' \<and> n' - n \<le> Suc max_attempts - attempt \<and> r = outs (n' - 1)
    \<and> (\<forall>i. n \<le> i \<and> i < n' - 1 \<longrightarrow> (\<exists>e. outs i = Inl e \<and> is_retryable_zep_error e))
    \<and> (is_ok r \<or> n' - n = Suc max_attempts - attempt \<or> (\<exists>e. r = Inl e \<and> \<not> is_retryable_zep_error e))
    \<and> (\<exists>new. ds' = ds @ new \<and> Suc (length new) = n' - n \<and> (\<forall>d \<in> set new. d \<le> dmax))"
  using assms
proof (induction "Suc max_attempts - attempt" arbitrary: attempt n ds)
  case 0
  then show ?case by simp
next
  case (Suc k)
  show ?case
  proof (cases "outs n")
    case (Inr x)
    then have "is_ok (outs n)" by simp
    with Inr Suc.prems show ?thesis
      by (subst (asm) zep_attempts.simps) (auto simp: script_op_def)
  next
    case (Inl e)
    show ?thesis
    proof (cases "attempt = max_attempts \<or> \<not> is_retryable_zep_error e")
      case True
      with Inl Suc.prems show ?thesis
        by (subst (asm) zep_attempts.simps) (auto simp: script_op_def)
    next
      case False
      define d where "d = retry_delay_for fl d0 dmax attempt e"
      have d: "d \<le> dmax"
        by (simp add: d_def retry_delay_for_def)
      have rec: "zep_attempts fl (script_op outs) log_sleep d0 dmax (Suc attempt) max_attempts (Suc n, ds @ [d])
          = (r, (n', ds'))"
        using False Inl Suc.prems
        by (subst (asm) zep_attempts.simps) (auto simp: script_op_def log_sleep_def d_def)
      have le: "Suc attempt \<le> max_attempts" "k = Suc max_attempts - Suc attempt"
        using False Suc.prems(1) Suc.hyps(2) by auto
      note IH = Suc.hyps(1) [OF le(2) le(1) rec]
      have retry: "\<exists>e. outs i = Inl e \<and> is_retryable_zep_error e" if "n \<le> i" "i < n' - 1" for i
        using IH Inl False that by (cases "i = n") auto
      from IH obtain new where new: "ds' = ds @ [d] @ new" "Suc (length new) = n' - Suc n"
        "\<forall>d \<in> set new. d \<le> dmax"
        by auto
      have "\<exists>new. ds' = ds @ new \<and> Suc (length new) = n' - n \<and> (\<forall>d \<in> set new. d \<le> dmax)"
        using new d IH by (intro exI [of _ "d # new"]) auto
      with IH retry le show ?thesis
        by auto
    qed
  qed
qed

text \<open>
  C28: Retried Zep reads.  With \<open>max_attempts \<ge> 1\<close> and any sequence of service outcomes, the read
  makes between one and \<open>max_attempts\<close> calls, returns exactly the outcome of its last call,
  every earlier call failed with a retryable error, it gives up only on success, on a
  non-retryable error or after the last permitted attempt, and it slept once between
  consecutive calls, never longer than \<open>max_delay\<close>.
\<close>

theorem zep_read_retry_contract:
  assumes "1 \<le> max_attempts"
    and "call_zep_read_with_retry fl log_sleep (int max_attempts) d0 dmax (script_op outs) (0, []) = (r, (n, ds))"
  shows "1 \<le> n \<and> n \<le> max_attempts \<and> r = outs (n - 1)
    \<and> (\<forall>i < n - 1. \<exists>e. outs i = Inl e \<and> is_retryable_zep_error e)
    \<and> (is_ok r \<or> n = max_attempts \<or> (\<exists>e. r = Inl e \<and> \<not> is_retryable_zep_error e))
    \<and> Suc (length ds) = n \<and> (\<forall>d \<in> set ds. d \<le> dmax)"
proof -
  have "zep_attempts fl (script_op outs) log_sleep d0 dmax 1 max_attempts (0, []) = (r, (n, ds))"
    using assms by (simp add: call_zep_read_with_retry_def)
  from zep_attempts_scripted [OF assms(1) this] show ?thesis
    by auto
qed

definition flaky :: "nat \<Rightarrow> int res" where
  "flaky n = (if n < 2 then Inl (Exn (ZepApiErr (Some 503) []) []) else Inr 7)"

theorem zep_read_retry_contract_witness:
  "call_zep_read_with_retry (\<lambda>_. None) log_sleep (int 3) 2 60 (script_op flaky) (0, []) = (Inr 7, (3, [2, 4]))
   \<and> (Inr 7 :: int res) = flaky (3 - 1) \<and> Suc (length [2, 4 :: rat]) = 3 \<and> (2 :: rat) \<le> 60 \<and> (4 :: rat) \<le> 60"
proof -
  have run: "call_zep_read_with_retry (\<lambda>_. None) log_sleep (int 3) 2 60 (script_op flaky) (0, [])
      = (Inr 7, (3, [2, 4]))"
    by (simp add: call_zep_read_with_retry_def zep_attempts.simps script_op_def log_sleep_def
        flaky_def retry_delay_for_def retry_after_seconds_def)
  from zep_read_retry_contract [OF _ run] run show ?thesis
    by simp
qed

section \<open>The reader interface\<close>

text \<open>
  What the pagination, the episode polling and the entity reader rely on: a reader passes a
  successful answer through unchanged, and whatever it returns as a success was answered by
  the operation it was given.
\<close>

locale retrying_reader =
  fixes read :: "('w, 'a) action \<Rightarrow> ('w, 'a) action"
  assumes read_ok: "operation w = (Inr x, w') \<Longrightarrow> read operation w = (Inr x, w')"
    and read_sound: "read operation w = (Inr x, w') \<Longrightarrow> \<exists>w1. operation w1 = (Inr x, w')"
begin

lemma read_preserves:
  assumes "\<And>w1 x w2. operation w1 = (Inr x, w2) \<Longrightarrow> P x"
    and "read operation w = (Inr x, w')"
  shows "P x"
  using read_sound [OF assms(2)] assms(1) by blast

end

lemma zep_attempts_sound:
  "zep_attempts fl operation sleep d0 dmax attempt m w = (Inr x, w') \<Longrightarrow> \<exists>w1. operation w1 = (Inr x, w')"
proof (induction fl operation sleep d0 dmax attempt m w rule: zep_attempts.induct)
  case (1 fl operation sleep d0 dmax attempt m w)
  show ?case
  proof (cases "operation w")
    case (Pair r w'')
    show ?thesis
    proof (cases r)
      case (Inl e)
      with Pair "1.prems" show ?thesis
        by (subst (asm) zep_attempts.simps) (auto split: if_splits dest: "1.IH" [rotated 4])
    next
      case (Inr y)
      with Pair "1.prems" show ?thesis
        by (subst (asm) zep_attempts.simps) (auto split: if_splits)
    qed
  qed
qed

lemma zep_reader:
  assumes m: "1 \<le> m"
  shows "retrying_reader (call_zep_read_with_retry fl sleep m d0 dmax)"
proof
  fix operation w x w'
  show "call_zep_read_with_retry fl sleep m d0 dmax operation w = (Inr x, w')"
    if "operation w = (Inr x, w')"
    using m that by (subst call_zep_read_with_retry_def, subst zep_attempts.simps) auto
  show "\<exists>w1. operation w1 = (Inr x, w')"
    if "call_zep_read_with_retry fl sleep m d0 dmax operation w = (Inr x, w')"
    using that by (auto simp: call_zep_read_with_retry_def split: if_splits dest: zep_attempts_sound)
qed

text \<open>The default policy of \<^verbatim>\<open>zep.py\<close>: three attempts, two seconds, capped at sixty.\<close>

interpretation zep_read: retrying_reader "call_zep_read_with_retry fl sleep 3 2 60" for fl sleep
  by (rule zep_reader) simp

end
