(* ===== verification/Backoff.thy ===== *)
theory Backoff
  imports Zep_Access
begin

text \<open>
  The generic back-off loops of \<^verbatim>\<open>app/utils/retry.py\<close>: the decorator \<^verbatim>\<open>retry_with_backoff\<close>, its
  asynchronous copy, and \<^verbatim>\<open>RetryableAPIClient\<close>.  \<open>catches\<close> is the \<^verbatim>\<open>exceptions\<close> tuple as a
  predicate, \<open>random\<close> is \<^verbatim>\<open>random.random()\<close>, \<open>on_retry\<close> the optional callback (which may raise).
\<close>

record RetryableAPIClient =
  max_retries :: int
  initial_delay :: rat
  max_delay :: rat
  backoff_factor :: rat

definition raise_none :: exn where
  "raise_none = Exn TypeErr (lit ''exceptions must derive from BaseException'')"

function backoff_attempts ::
  "RetryableAPIClient \<Rightarrow> bool \<Rightarrow> (exn \<Rightarrow> bool) \<Rightarrow> (exn \<Rightarrow> nat \<Rightarrow> ('w, unit) action) option \<Rightarrow>
   (rat \<Rightarrow> 'w \<Rightarrow> 'w) \<Rightarrow> ('w \<Rightarrow> rat \<times> 'w) \<Rightarrow> ('w, 'a) action \<Rightarrow> nat \<Rightarrow> rat \<Rightarrow> ('w, 'a) action"
where
  "backoff_attempts c jitter catches on_retry sleep random func attempt delay w =
     (if max_retries c < int attempt then (Inl raise_none, w)
      else
        (case func w of
           (Inr x, w') \<Rightarrow> (Inr x, w')
         | (Inl e, w') \<Rightarrow>
             if \<not> catches e then (Inl e, w')
             else if int attempt = max_retries c then (Inl e, w')
             else
               let current_delay = min delay (max_delay c);
                   (current_delay, w2) =
                     (if jitter then (case random w' of (u, w2) \<Rightarrow> (current_delay * (1 / 2 + u), w2))
                      else (current_delay, w'));
                   (cb, w3) =
                     (case on_retry of None \<Rightarrow> (Inr (), w2) | Some f \<Rightarrow> f e (Suc attempt) w2)
               in (case cb of
                     Inl e' \<Rightarrow> (Inl e', w3)
                   | Inr _ \<Rightarrow>
                       backoff_attempts c jitter catches on_retry sleep random func (Suc attempt)
                         (delay * backoff_factor c) (sleep current_delay w3))))"
  by pat_completeness auto
termination
  by (relation "measure (\<lambda>(c, _, _, _, _, _, _, attempt, _, _). nat (max_retries c + 1 - int attempt))")
     auto

declare backoff_attempts.simps [simp del]

definition retry_with_backoff ::
  "RetryableAPIClient \<Rightarrow> bool \<Rightarrow> (exn \<Rightarrow> bool) \<Rightarrow> (exn \<Rightarrow> nat \<Rightarrow> ('w, unit) action) option \<Rightarrow>
   (rat \<Rightarrow> 'w \<Rightarrow> 'w) \<Rightarrow> ('w \<Rightarrow> rat \<times> 'w) \<Rightarrow> ('w, 'a) action \<Rightarrow> ('w, 'a) action" where
  "retry_with_backoff c jitter catches on_retry sleep random func =
     backoff_attempts c jitter catches on_retry sleep random func 0 (initial_delay c)"

text \<open>The asynchronous decorator runs the same loop; \<^verbatim>\<open>await\<close> only yields to other tasks.\<close>

definition retry_with_backoff_async ::
  "RetryableAPIClient \<Rightarrow> bool \<Rightarrow> (exn \<Rightarrow> bool) \<Rightarrow> (exn \<Rightarrow> nat \<Rightarrow> ('w, unit) action) option \<Rightarrow>
   (rat \<Rightarrow> 'w \<Rightarrow> 'w) \<Rightarrow> ('w \<Rightarrow> rat \<times> 'w) \<Rightarrow> ('w, 'a) action \<Rightarrow> ('w, 'a) action" where
  "retry_with_backoff_async c jitter catches on_retry sleep random func w =
     backoff_attempts c jitter catches on_retry sleep random func 0 (initial_delay c) w"

definition call_with_retry ::
  "RetryableAPIClient \<Rightarrow> (exn \<Rightarrow> bool) \<Rightarrow> (rat \<Rightarrow> 'w \<Rightarrow> 'w) \<Rightarrow> ('w \<Rightarrow> rat \<times> 'w) \<Rightarrow>
   ('w, 'a) action \<Rightarrow> ('w, 'a) action" where
  "call_with_retry c catches sleep random func =
     backoff_attempts c True catches None sleep random func 0 (initial_delay c)"

fun batch_loop ::
  "(('w, 'b) action \<Rightarrow> ('w, 'b) action) \<Rightarrow> ('i \<Rightarrow> ('w, 'b) action) \<Rightarrow> bool \<Rightarrow> nat \<Rightarrow> 'i list \<Rightarrow>
   'b list \<Rightarrow> (nat \<times> 'i \<times> pystr) list \<Rightarrow> ('w, 'b list \<times> (nat \<times> 'i \<times> pystr) list) action"
where
  "batch_loop call process continue_on_failure idx [] results failures w = (Inr (results, failures), w)"
| "batch_loop call process continue_on_failure idx (item # items) results failures w =
     (case call (process item) w of
        (Inr r, w') \<Rightarrow>
          batch_loop call process continue_on_failure (Suc idx) items (results @ [r]) failures w'
      | (Inl e, w') \<Rightarrow>
          if \<not> continue_on_failure then (Inl e, w')
          else batch_loop call process continue_on_failure (Suc idx) items results
                 (failures @ [(idx, item, exn_msg e)]) w')"

definition call_batch_with_retry ::
  "RetryableAPIClient \<Rightarrow> (exn \<Rightarrow> bool) \<Rightarrow> (rat \<Rightarrow> 'w \<Rightarrow> 'w) \<Rightarrow> ('w \<Rightarrow> rat \<times> 'w) \<Rightarrow>
   'i list \<Rightarrow> ('i \<Rightarrow> ('w, 'b) action) \<Rightarrow> bool \<Rightarrow> ('w, 'b list \<times> (nat \<times> 'i \<times> pystr) list) action" where
  "call_batch_with_retry c catches sleep random items process continue_on_failure =
     batch_loop (call_with_retry c catches sleep random) process continue_on_failure 0 items [] []"

section \<open>The back-off schedule\<close>

definition script_random :: "(nat \<Rightarrow> rat) \<Rightarrow> script_world \<Rightarrow> rat \<times> script_world" where
  "script_random us = (\<lambda>(n, ds). (us n, (n, ds)))"

lemma backoff_scripted:
  assumes "int attempt \<le> max_retries c"
    and "backoff_attempts c True catches None log_sleep (script_random us) (script_op outs) attempt delay (n, ds)
         = (r, (n', ds'))"
  shows "n < n' \<and> int (n' - n) \<le> max_retries c + 1 - int attempt \<and> r = outs (n' - 1)
    \<and> (\<forall>i. n \<le> i \<and> i < n' - 1 \<longrightarrow> (\<exists>e. outs i = Inl e \<and> catches e))
    \<and> (is_ok r \<or> int (n' - n) = max_retries c + 1 - int attempt \<or> (\<exists>e. r = Inl e \<and> \<not> catches e))
    \<and> ds' = ds @ map (\<lambda>i. min (delay * backoff_factor c ^ i) (max_delay c) * (1 / 2 + us (Suc (n + i))))
                   [0 ..< n' - n - 1]"
  using assms
proof (induction "nat (max_retries c + 1 - int attempt)" arbitrary: attempt delay n ds)
  case 0
  then show ?case by simp
next
  case (Suc k)
  show ?case
  proof (cases "outs n")
    case (Inr x)
    then have "is_ok (outs n)" by simp
    with Inr Suc.prems show ?thesis
      by (subst (asm) backoff_attempts.simps) (auto simp: script_op_def)
  next
    case (Inl e)
    show ?thesis
    proof (cases "\<not> catches e \<or> int attempt = max_retries c")
      case True
      then have "(r, (n', ds')) = (Inl e, (Suc n, ds))"
        using Inl Suc.prems
        by (subst (asm) backoff_attempts.simps) (auto simp: script_op_def split: if_splits)
      with Inl True Suc.prems(1) show ?thesis by auto
    next
      case False
      define d where "d = min delay (max_delay c) * (1 / 2 + us (Suc n))"
      have rec: "backoff_attempts c True catches None log_sleep (script_random us) (script_op outs)
          (Suc attempt) (delay * backoff_factor c) (Suc n, ds @ [d]) = (r, (n', ds'))"
        using False Inl Suc.prems
        by (subst (asm) backoff_attempts.simps)
           (simp add: script_op_def log_sleep_def script_random_def d_def)
      have le: "k = nat (max_retries c + 1 - int (Suc attempt))" "int (Suc attempt) \<le> max_retries c"
        using False Suc.prems(1) Suc.hyps(2) by auto
      note IH = Suc.hyps(1) [OF le rec]
      have retry: "\<exists>e. outs i = Inl e \<and> catches e" if "n \<le> i" "i < n' - 1" for i
        using IH Inl False that by (cases "i = n") auto
      let ?d = "\<lambda>i. min (delay * backoff_factor c ^ i) (max_delay c) * (1 / 2 + us (Suc (n + i)))"
      obtain m where m: "n' - n - 1 = Suc m" "n' - Suc (Suc n) = m"
        using IH by (cases "n' - n - 1") auto
      have "ds' = ds @ [d] @ map (\<lambda>i. ?d (Suc i)) [0 ..< m]"
        using IH m by (simp add: mult.assoc)
      also have "[d] @ map (\<lambda>i. ?d (Suc i)) [0 ..< m] = map ?d [0 ..< Suc m]"
        by (simp add: d_def upt_conv_Cons del: upt_Suc flip: map_Suc_upt)
      finally have "ds' = ds @ map ?d [0 ..< n' - n - 1]"
        by (simp only: m)
      moreover have "n < n'" "int (n' - n) \<le> max_retries c + 1 - int attempt" "r = outs (n' - 1)"
        "is_ok r \<or> int (n' - n) = max_retries c + 1 - int attempt \<or> (\<exists>e. r = Inl e \<and> \<not> catches e)"
        using IH by auto
      ultimately show ?thesis
        using retry by blast
    qed
  qed
qed

text \<open>
  Exponential back-off of \<^verbatim>\<open>RetryableAPIClient.call_with_retry\<close>.  For \<open>max_retries \<ge> 0\<close> and
  any sequence of outcomes and random numbers, the call makes between one and
  \<open>max_retries + 1\<close> calls, returns the outcome of the last one, every earlier outcome was a
  caught exception, it stops only on success, on an exception it does not catch or after the
  last retry, and the delays slept are exactly
  \<open>min (initial_delay * factor ^ i) max_delay * (0.5 + u)\<close>.
\<close>

theorem call_with_retry_contract:
  assumes "0 \<le> max_retries c"
    and "call_with_retry c catches log_sleep (script_random us) (script_op outs) (0, []) = (r, (n, ds))"
  shows "1 \<le> n \<and> int n \<le> max_retries c + 1 \<and> r = outs (n - 1)
    \<and> (\<forall>i < n - 1. \<exists>e. outs i = Inl e \<and> catches e)
    \<and> (is_ok r \<or> int n = max_retries c + 1 \<or> (\<exists>e. r = Inl e \<and> \<not> catches e))
    \<and> ds = map (\<lambda>i. min (initial_delay c * backoff_factor c ^ i) (max_delay c) * (1 / 2 + us (Suc i)))
               [0 ..< n - 1]"
proof -
  have "int 0 \<le> max_retries c"
    using assms(1) by simp
  from backoff_scripted [OF this assms(2) [unfolded call_with_retry_def]] show ?thesis
    by auto
qed

definition default_client :: RetryableAPIClient where
  "default_client = \<lparr>max_retries = 3, initial_delay = 1, max_delay = 30, backoff_factor = 2\<rparr>"

theorem call_with_retry_contract_witness:
  "call_with_retry default_client (\<lambda>_. True) log_sleep (script_random (\<lambda>_. 1 / 2)) (script_op flaky) (0, [])
     = (Inr 7, (3, [1, 2]))
   \<and> 0 \<le> max_retries default_client \<and> flaky 2 = Inr 7
   \<and> [1, 2] = map (\<lambda>i. min (initial_delay default_client * backoff_factor default_client ^ i)
                        (max_delay default_client) * (1 / 2 + 1 / 2)) [0 ..< 3 - 1 :: nat]"
proof -
  have run: "call_with_retry default_client (\<lambda>_. True) log_sleep (script_random (\<lambda>_. 1 / 2))
      (script_op flaky) (0, []) = (Inr 7, (3, [1, 2]))"
    by (simp add: call_with_retry_def default_client_def backoff_attempts.simps script_op_def
        log_sleep_def script_random_def flaky_def)
  have "0 \<le> max_retries default_client"
    by (simp add: default_client_def)
  from call_with_retry_contract [OF this run] run this show ?thesis
    by simp
qed

section \<open>Batches\<close>

definition successes :: "'b res list \<Rightarrow> 'b list" where
  "successes rs = [x. Inr x \<leftarrow> rs]"

fun failed_items :: "nat \<Rightarrow> 'i list \<Rightarrow> 'b res list \<Rightarrow> (nat \<times> 'i \<times> pystr) list" where
  "failed_items k (item # items) (Inl e # rs) = (k, item, exn_msg e) # failed_items (Suc k) items rs"
| "failed_items k (item # items) (Inr _ # rs) = failed_items (Suc k) items rs"
| "failed_items k _ _ = []"

lemma successes_simps [simp]:
  "successes [] = []"
  "successes (Inl e # rs) = successes rs"
  "successes (Inr x # rs) = x # successes rs"
  by (simp_all add: successes_def)

lemma split_count:
  "length rs = length items \<Longrightarrow> length (successes rs) + length (failed_items k items rs) = length items"
  by (induction k items rs rule: failed_items.induct) auto

lemma batch_loop_outcomes:
  "\<exists>rs w'. length rs = length items
     \<and> batch_loop call process True k items results failures w
       = (Inr (results @ successes rs, failures @ failed_items k items rs), w')"
proof (induction items arbitrary: k results failures w)
  case Nil
  show ?case by simp
next
  case (Cons item items)
  obtain r w1 where call: "call (process item) w = (r, w1)"
    by (cases "call (process item) w") auto
  show ?case
  proof (cases r)
    case (Inl e)
    from Cons [of "Suc k" results "failures @ [(k, item, exn_msg e)]" w1]
    obtain rs w' where "length rs = length items"
      "batch_loop call process True (Suc k) items results (failures @ [(k, item, exn_msg e)]) w1
       = (Inr (results @ successes rs, failures @ [(k, item, exn_msg e)] @ failed_items (Suc k) items rs), w')"
      by auto
    with call Inl show ?thesis
      by (intro exI [of _ "r # rs"] exI [of _ w']) simp
  next
    case (Inr x)
    from Cons [of "Suc k" "results @ [x]" failures w1]
    obtain rs w' where "length rs = length items"
      "batch_loop call process True (Suc k) items (results @ [x]) failures w1
       = (Inr (results @ [x] @ successes rs, failures @ failed_items (Suc k) items rs), w')"
      by auto
    with call Inr show ?thesis
      by (intro exI [of _ "r # rs"] exI [of _ w']) simp
  qed
qed

text \<open>
  Batches account for every item.  With \<open>continue_on_failure\<close> the batch always returns, and
  its two lists are the split of one outcome per item: the successes in item order, and for
  each failed item its index, the item and the error text; no item is dropped or reported
  twice.
\<close>

theorem call_batch_accounts_for_every_item:
  "\<exists>rs w'. length rs = length items
     \<and> call_batch_with_retry c catches sleep random items process True w
       = (Inr (successes rs, failed_items 0 items rs), w')
     \<and> length (successes rs) + length (failed_items 0 items rs) = length items"
proof -
  from batch_loop_outcomes [of items "call_with_retry c catches sleep random" process 0 "[]" "[]" w]
  obtain rs w' where "length rs = length items"
    "call_batch_with_retry c catches sleep random items process True w
     = (Inr (successes rs, failed_items 0 items rs), w')"
    unfolding call_batch_with_retry_def by auto
  with split_count [of rs items 0] show ?thesis
    by auto
qed

end
