(* ===== verification/Zep_Paging.thy ===== *)
theory Zep_Paging
  imports Zep_Access
begin

text \<open>
  Cursor pagination of Zep graph nodes and edges, \<^verbatim>\<open>app/utils/zep_paging.py\<close>.  The SDK call
  \<open>api_call limit cursor\<close> is a parameter; it is wrapped by the retrying reader.  A server could
  hand out fresh cursors for ever, so the loop is a \<^theory_text>\<open>partial_function (option)\<close>: \<open>None\<close> means
  that it never returns.
\<close>

record 'i page =
  page_data :: "'i list option"
  page_headers :: "(pystr \<times> pystr) list option"

definition NEXT_CURSOR_HEADER :: pystr where
  "NEXT_CURSOR_HEADER = lit ''zep-next-cursor''"

definition header_value :: "(pystr \<times> pystr) list option \<Rightarrow> pystr \<Rightarrow> pystr option" where
  "header_value headers name =
     (case headers of
        None \<Rightarrow> None
      | Some hs \<Rightarrow>
          (case dget hs name of
             Some v \<Rightarrow> Some v
           | None \<Rightarrow> map_option snd (find (\<lambda>(n, _). py_lower n = py_lower name) hs)))"

definition page_items :: "'i page \<Rightarrow> 'i list" where
  "page_items p = (case page_data p of None \<Rightarrow> [] | Some xs \<Rightarrow> xs)"

definition next_cursor :: "'i page \<Rightarrow> pystr option" where
  "next_cursor p = header_value (page_headers p) NEXT_CURSOR_HEADER"

definition cursor_stuck :: "pystr \<Rightarrow> pystr \<Rightarrow> exn" where
  "cursor_stuck item_name graph_id =
     Exn RuntimeErr (lit ''Zep '' @ item_name @ lit '' pagination cursor did not advance for graph '' @ graph_id)"

partial_function (option) fetch_pages ::
  "(('w, 'i page) action \<Rightarrow> ('w, 'i page) action) \<Rightarrow> (int \<Rightarrow> pystr option \<Rightarrow> ('w, 'i page) action) \<Rightarrow>
   exn \<Rightarrow> int \<Rightarrow> nat option \<Rightarrow> pystr option \<Rightarrow> pystr set \<Rightarrow> 'i list \<Rightarrow> 'w \<Rightarrow> ('i list res \<times> 'w) option"
where
  "fetch_pages read api_call stuck page_size max_items cursor seen all_items w =
     (case read (api_call page_size cursor) w of
        (Inl e, w') \<Rightarrow> Some (Inl e, w')
      | (Inr response, w') \<Rightarrow>
          (let items = all_items @ page_items response in
           if (case max_items of None \<Rightarrow> False | Some m \<Rightarrow> m \<le> length items)
           then Some (Inr (case max_items of None \<Rightarrow> items | Some m \<Rightarrow> take m items), w')
           else
             (case next_cursor response of
                None \<Rightarrow> Some (Inr items, w')
              | Some nc \<Rightarrow>
                  if nc \<in> seen \<or> Some nc = cursor then Some (Inl stuck, w')
                  else fetch_pages read api_call stuck page_size max_items (Some nc)
                         (insert nc seen) items w')))"

declare fetch_pages.simps [code]

definition fetch_all ::
  "(('w, 'i page) action \<Rightarrow> ('w, 'i page) action) \<Rightarrow> (int \<Rightarrow> pystr option \<Rightarrow> ('w, 'i page) action) \<Rightarrow>
   pystr \<Rightarrow> pystr \<Rightarrow> int \<Rightarrow> int option \<Rightarrow> 'w \<Rightarrow> ('i list res \<times> 'w) option" where
  "fetch_all read api_call item_name graph_id page_size max_items w =
     (if \<not> (1 \<le> page_size \<and> page_size \<le> 100)
      then Some (Inl (Exn ValueError (lit ''page_size must be between 1 and 100'')), w)
      else if (case max_items of None \<Rightarrow> False | Some m \<Rightarrow> m < 1)
      then Some (Inl (Exn ValueError (lit ''max_items must be at least 1 when provided'')), w)
      else fetch_pages read api_call (cursor_stuck item_name graph_id) page_size
             (map_option nat max_items) None {} [] w)"

definition fetch_page_with_retry ::
  "(pystr \<Rightarrow> rat option) \<Rightarrow> (rat \<Rightarrow> 'w \<Rightarrow> 'w) \<Rightarrow> int \<Rightarrow> rat \<Rightarrow> ('w, 'i page) action \<Rightarrow> ('w, 'i page) action" where
  "fetch_page_with_retry fl sleep max_retries retry_delay =
     call_zep_read_with_retry fl sleep max_retries retry_delay 60"

definition fetch_all_nodes ::
  "(pystr \<Rightarrow> rat option) \<Rightarrow> (rat \<Rightarrow> 'w \<Rightarrow> 'w) \<Rightarrow> (pystr \<Rightarrow> int \<Rightarrow> pystr option \<Rightarrow> ('w, 'i page) action) \<Rightarrow>
   pystr \<Rightarrow> int \<Rightarrow> int option \<Rightarrow> int \<Rightarrow> rat \<Rightarrow> 'w \<Rightarrow> ('i list res \<times> 'w) option" where
  "fetch_all_nodes fl sleep get_nodes graph_id page_size max_items max_retries retry_delay =
     fetch_all (fetch_page_with_retry fl sleep max_retries retry_delay) (get_nodes graph_id)
       (lit ''nodes'') graph_id page_size max_items"

definition fetch_all_edges ::
  "(pystr \<Rightarrow> rat option) \<Rightarrow> (rat \<Rightarrow> 'w \<Rightarrow> 'w) \<Rightarrow> (pystr \<Rightarrow> int \<Rightarrow> pystr option \<Rightarrow> ('w, 'i page) action) \<Rightarrow>
   pystr \<Rightarrow> int \<Rightarrow> int \<Rightarrow> rat \<Rightarrow> int option \<Rightarrow> 'w \<Rightarrow> ('i list res \<times> 'w) option" where
  "fetch_all_edges fl sleep get_edges graph_id page_size max_retries retry_delay max_items =
     fetch_all (fetch_page_with_retry fl sleep max_retries retry_delay) (get_edges graph_id)
       (lit ''edges'') graph_id page_size max_items"

section \<open>Completeness\<close>

text \<open>
  A graph that does not change while it is read is a function from cursors to pages;
  \<open>cursor_chain\<close> lists the cursors a reader meets after the one it holds.
\<close>

fun cursor_chain :: "(pystr option \<Rightarrow> 'i page) \<Rightarrow> pystr option \<Rightarrow> pystr list \<Rightarrow> bool" where
  "cursor_chain srv cur [] \<longleftrightarrow> next_cursor (srv cur) = None"
| "cursor_chain srv cur (c # cs) \<longleftrightarrow> next_cursor (srv cur) = Some c \<and> cursor_chain srv (Some c) cs"

definition chain_items :: "(pystr option \<Rightarrow> 'i page) \<Rightarrow> pystr option \<Rightarrow> pystr list \<Rightarrow> 'i list" where
  "chain_items srv cur cs = concat (map (page_items \<circ> srv) (cur # map Some cs))"

lemma fetch_pages_complete:
  assumes served: "\<And>cur w. \<exists>w'. read (api_call page_size cur) w = (Inr (srv cur), w')"
  shows "cursor_chain srv cur cs \<Longrightarrow> distinct cs \<Longrightarrow> set cs \<inter> seen = {} \<Longrightarrow>
    (case cur of None \<Rightarrow> True | Some c \<Rightarrow> c \<in> seen) \<Longrightarrow>
    \<exists>w'. fetch_pages read api_call stuck page_size None cur seen acc w
         = Some (Inr (acc @ chain_items srv cur cs), w')"
proof (induction cs arbitrary: cur seen acc w)
  case Nil
  obtain w' where "read (api_call page_size cur) w = (Inr (srv cur), w')"
    using served by blast
  with Nil show ?case
    by (subst fetch_pages.simps) (simp add: chain_items_def)
next
  case (Cons c cs)
  obtain w' where rd: "read (api_call page_size cur) w = (Inr (srv cur), w')"
    using served by blast
  have fresh: "c \<notin> seen" "Some c \<noteq> cur"
    using Cons.prems by (auto split: option.splits)
  have "\<exists>w''. fetch_pages read api_call stuck page_size None (Some c) (insert c seen)
          (acc @ page_items (srv cur)) w'
        = Some (Inr ((acc @ page_items (srv cur)) @ chain_items srv (Some c) cs), w'')"
    by (rule Cons.IH) (use Cons.prems in auto)
  with rd fresh Cons.prems(1) show ?case
    by (subst fetch_pages.simps) (auto simp: chain_items_def)
qed

locale page_reader = retrying_reader read
  for read :: "('w, 'i page) action \<Rightarrow> ('w, 'i page) action"
begin

text \<open>
  Termination: if the service only ever hands out cursors from a finite set, the loop makes at
  most one page more than there are cursors, whatever else the service does.
\<close>

lemma fetch_pages_terminates:
  assumes "finite C"
    and "\<And>cur w p w'. api_call page_size cur w = (Inr p, w') \<Longrightarrow> next_cursor p \<in> insert None (Some ` C)"
  shows "\<exists>r. fetch_pages read api_call stuck page_size m cur seen acc w = Some r"
proof (induction "card (C - seen)" arbitrary: cur seen acc w rule: less_induct)
  case less
  show ?case
  proof (cases "read (api_call page_size cur) w")
    case (Pair r w')
    show ?thesis
    proof (cases r)
      case (Inl e)
      with Pair show ?thesis by (subst fetch_pages.simps) simp
    next
      case (Inr p)
      have nc: "next_cursor p \<in> insert None (Some ` C)"
        using read_preserves [of "api_call page_size cur" "\<lambda>p. next_cursor p \<in> insert None (Some ` C)"]
          assms(2) Pair Inr by blast
      have rec: "\<exists>r. fetch_pages read api_call stuck page_size m (Some c) (insert c seen) acc' w' = Some r"
        if "next_cursor p = Some c" "c \<notin> seen" for c acc'
      proof (rule less)
        have "C - insert c seen \<subset> C - seen" using nc that by auto
        then show "card (C - insert c seen) < card (C - seen)"
          using assms(1) by (intro psubset_card_mono) simp_all
      qed
      let ?items = "acc @ page_items p"
      have step: "fetch_pages read api_call stuck page_size m cur seen acc w =
         (if (case m of None \<Rightarrow> False | Some k \<Rightarrow> k \<le> length ?items)
          then Some (Inr (case m of None \<Rightarrow> ?items | Some k \<Rightarrow> take k ?items), w')
          else (case next_cursor p of None \<Rightarrow> Some (Inr ?items, w')
            | Some nc \<Rightarrow> if nc \<in> seen \<or> Some nc = cur then Some (Inl stuck, w')
                else fetch_pages read api_call stuck page_size m (Some nc) (insert nc seen) ?items w'))"
        using Pair Inr by (subst fetch_pages.simps) (simp add: Let_def)
      show ?thesis
        unfolding step using rec [of _ ?items] by (cases "next_cursor p") simp_all
    qed
  qed
qed

end

lemma fetch_page_reader:
  "1 \<le> m \<Longrightarrow> page_reader (fetch_page_with_retry fl sleep m d)"
  unfolding page_reader_def fetch_page_with_retry_def by (rule zep_reader)

interpretation page_read: page_reader "fetch_page_with_retry fl sleep 3 2" for fl sleep
  by (rule fetch_page_reader) simp

text \<open>
  C27: Complete pagination.  When every (retried) page request is eventually answered with the
  page of a fixed graph and the graph's cursor chain has no repetition, \<^verbatim>\<open>fetch_all_nodes\<close>
  without a cap returns the items of all pages of the chain, in order.
\<close>

theorem fetch_all_nodes_complete:
  assumes "\<And>cur w. \<exists>w'. fetch_page_with_retry fl sleep m d (get_nodes g page_size cur) w = (Inr (srv cur), w')"
    and "1 \<le> page_size" and "page_size \<le> 100"
    and "cursor_chain srv None cs" and "distinct cs"
  shows "\<exists>w'. fetch_all_nodes fl sleep get_nodes g page_size None m d w
           = Some (Inr (chain_items srv None cs), w')"
proof -
  have "\<exists>w'. fetch_pages (fetch_page_with_retry fl sleep m d) (get_nodes g)
           (cursor_stuck (lit ''nodes'') g) page_size None None {} [] w
         = Some (Inr ([] @ chain_items srv None cs), w')"
    by (rule fetch_pages_complete) (use assms in auto)
  with assms(2,3) show ?thesis
    by (simp add: fetch_all_nodes_def fetch_all_def)
qed

definition two_pages :: "pystr option \<Rightarrow> int page" where
  "two_pages cur =
     (if cur = None then \<lparr>page_data = Some [1, 2], page_headers = Some [(lit ''Zep-Next-Cursor'', lit ''c1'')]\<rparr>
      else \<lparr>page_data = Some [3], page_headers = Some []\<rparr>)"

lemma two_pages_next: "next_cursor (two_pages cur) = (if cur = None then Some (lit ''c1'') else None)"
proof -
  have "py_lower (lit ''Zep-Next-Cursor'') = py_lower NEXT_CURSOR_HEADER"
    by (simp add: NEXT_CURSOR_HEADER_def py_lower_def lit_def lower_char_def)
  moreover have "lit ''Zep-Next-Cursor'' \<noteq> NEXT_CURSOR_HEADER"
    by (simp add: NEXT_CURSOR_HEADER_def)
  ultimately show ?thesis
    by (auto simp: two_pages_def next_cursor_def header_value_def dget_def)
qed

theorem fetch_all_nodes_complete_witness:
  "\<exists>w'. fetch_all_nodes (\<lambda>_. None) (\<lambda>_ w. w) (\<lambda>_ _ cur w. (Inr (two_pages cur), w)) (lit ''g'') 100 None 3 2 ()
      = Some (Inr [1, 2, 3], w')"
proof -
  have "\<exists>w'. fetch_all_nodes (\<lambda>_. None) (\<lambda>_ w. w) (\<lambda>_ _ cur w. (Inr (two_pages cur), w)) (lit ''g'') 100 None 3 2 ()
      = Some (Inr (chain_items two_pages None [lit ''c1'']), w')"
    by (rule fetch_all_nodes_complete)
       (auto simp: page_read.read_ok two_pages_next)
  then show ?thesis
    by (simp add: chain_items_def two_pages_def page_items_def)
qed

text \<open>
  Pagination terminates.  Against an arbitrary service that only hands out cursors from a
  finite set (otherwise free to answer anything, fail, or repeat cursors), \<^verbatim>\<open>fetch_all_edges\<close>
  returns or raises; it never loops.
\<close>

theorem fetch_all_edges_terminates:
  assumes "finite C" and "1 \<le> m"
    and "\<And>cur w p w'. get_edges g page_size cur w = (Inr p, w') \<Longrightarrow> next_cursor p \<in> insert None (Some ` C)"
  shows "\<exists>r w'. fetch_all_edges fl sleep get_edges g page_size m d max_items w = Some (r, w')"
proof -
  have "\<exists>r. fetch_pages (fetch_page_with_retry fl sleep m d) (get_edges g)
      (cursor_stuck (lit ''edges'') g) page_size (map_option nat max_items) None {} [] w = Some r"
    by (rule page_reader.fetch_pages_terminates [OF fetch_page_reader]) (use assms in auto)
  then show ?thesis
    by (auto simp: fetch_all_edges_def fetch_all_def)
qed

theorem fetch_all_edges_terminates_witness:
  "\<exists>r w'. fetch_all_edges (\<lambda>_. None) (\<lambda>_ w. w) (\<lambda>_ _ cur w. (Inr (two_pages cur), w)) (lit ''g'') 100 3 2 None ()
      = Some (r, w')"
proof (rule fetch_all_edges_terminates [where C = "{lit ''c1''}"])
  fix cur w p w'
  assume "(Inr (two_pages cur), w) = (Inr p, w')"
  then show "next_cursor p \<in> insert None (Some ` {lit ''c1''})"
    by (cases cur) (auto simp: two_pages_next)
qed simp_all

lemma fetch_pages_cap:
  assumes "fetch_pages read api_call stuck page_size (Some m) cur seen acc w = Some (Inr xs, w')"
  shows "length xs \<le> m"
  using fetch_pages.raw_induct [of "\<lambda>read api_call stuck page_size mi cur seen acc w r.
      \<forall>m. mi = Some m \<longrightarrow> (\<forall>xs w'. r = (Inr xs, w') \<longrightarrow> length xs \<le> m)", OF _ assms]
  by (fastforce simp: Let_def split: sum.splits prod.splits option.splits if_splits)

text \<open>
  The explicit cap.  A fetch capped at \<open>max_items\<close> that succeeds had a cap of at least one and
  never returns more than \<open>max_items\<close> items.
\<close>

theorem fetch_all_nodes_capped:
  assumes "fetch_all_nodes fl sleep get_nodes g page_size (Some m) k d w = Some (Inr xs, w')"
  shows "1 \<le> m \<and> int (length xs) \<le> m"
proof -
  have "1 \<le> m" and "length xs \<le> nat m"
    using assms fetch_pages_cap
    by (auto simp: fetch_all_nodes_def fetch_all_def split: if_splits)
  then show ?thesis by simp
qed

theorem fetch_all_nodes_capped_witness:
  "fetch_all_nodes (\<lambda>_. None) (\<lambda>_ w. w) (\<lambda>_ _ cur w. (Inr (two_pages cur), w)) (lit ''g'') 100 (Some 1) 3 2 ()
     = Some (Inr [1], ()) \<and> int (length [1 :: int]) \<le> 1"
proof -
  have run: "fetch_all_nodes (\<lambda>_. None) (\<lambda>_ w. w) (\<lambda>_ _ cur w. (Inr (two_pages cur), w)) (lit ''g'') 100 (Some 1) 3 2 ()
     = Some (Inr [1], ())"
    by (simp add: fetch_all_nodes_def fetch_all_def fetch_pages.simps page_read.read_ok two_pages_def page_items_def)
  from fetch_all_nodes_capped [OF run] run show ?thesis by simp
qed

end
