(* ===== verification/Text_Chunks.thy ===== *)
theory Text_Chunks
  imports Prelude
begin

text \<open>
  Document text: extraction and merging of uploaded files and the chunking loop of
  \<^verbatim>\<open>app/utils/file_parser.py\<close>, and the clean-up of \<^verbatim>\<open>app/services/text_processor.py\<close>.  Decoders,
  the PDF library and the file system are parameters.  The chunk loop moves its start by
  \<open>end - overlap\<close>, which need not be forward, so it is a \<^theory_text>\<open>partial_function (option)\<close>.
\<close>

section \<open>Chunking\<close>

definition SEPARATORS :: "pystr list" where
  "SEPARATORS = [[12290], [65281], [65311], [46, 10], [33, 10], [63, 10], [10, 10],
                 [46, 32], [33, 32], [63, 32]]"

definition rfind :: "pystr \<Rightarrow> pystr \<Rightarrow> nat option" where
  "rfind s sep = find (\<lambda>i. take (length sep) (drop i s) = sep) (rev [0 ..< Suc (length s) - length sep])"

text \<open>
  The first separator whose last occurrence in the window lies beyond thirty per cent of the
  chunk size decides the end of the chunk.  The product \<^verbatim>\<open>chunk_size * 0.3\<close> is compared with an
  integer; for chunk sizes below \<open>2 ^ 50\<close> the rounded product decides as the exact one.
\<close>

fun sentence_end :: "pystr \<Rightarrow> int \<Rightarrow> int \<Rightarrow> int \<Rightarrow> pystr list \<Rightarrow> int" where
  "sentence_end window start end_pos chunk_size [] = end_pos"
| "sentence_end window start end_pos chunk_size (sep # seps) =
     (case rfind window sep of
        Some last_sep \<Rightarrow>
          if 3 * chunk_size < 10 * int last_sep then start + int last_sep + int (length sep)
          else sentence_end window start end_pos chunk_size seps
      | None \<Rightarrow> sentence_end window start end_pos chunk_size seps)"

definition chunk_end :: "pystr \<Rightarrow> int \<Rightarrow> int \<Rightarrow> int" where
  "chunk_end txt chunk_size start =
     (let end_pos = start + chunk_size in
      if end_pos < int (length txt)
      then sentence_end (py_slice txt start end_pos) start end_pos chunk_size SEPARATORS
      else end_pos)"

partial_function (option) chunk_loop ::
  "pystr \<Rightarrow> int \<Rightarrow> int \<Rightarrow> int \<Rightarrow> pystr list \<Rightarrow> pystr list option"
where
  "chunk_loop txt chunk_size overlap start chunks =
     (if start < int (length txt) then
        (let end_pos = chunk_end txt chunk_size start;
             chunk = py_strip (py_slice txt start end_pos);
             chunks' = (if chunk \<noteq> [] then chunks @ [chunk] else chunks)
         in chunk_loop txt chunk_size overlap
              (if end_pos < int (length txt) then end_pos - overlap else int (length txt)) chunks')
      else Some chunks)"

definition split_text_into_chunks :: "pystr \<Rightarrow> int \<Rightarrow> int \<Rightarrow> pystr list option" where
  "split_text_into_chunks txt chunk_size overlap =
     (if int (length txt) \<le> chunk_size then Some (if py_strip txt \<noteq> [] then [txt] else [])
      else chunk_loop txt chunk_size overlap 0 [])"

definition split_text :: "pystr \<Rightarrow> int \<Rightarrow> int \<Rightarrow> pystr list option" where
  "split_text txt chunk_size overlap = split_text_into_chunks txt chunk_size overlap"

subsection \<open>Where a chunk ends\<close>

lemma find_in_set: "find P xs = Some x \<Longrightarrow> x \<in> set xs \<and> P x"
  by (induction xs) (auto split: if_splits)

lemma rfind_bound: "rfind s sep = Some i \<Longrightarrow> i + length sep \<le> length s"
  by (auto simp: rfind_def dest!: find_in_set)

lemma sentence_end_cases:
  assumes "length window \<le> nat chunk_size" "end_pos = start + chunk_size" "0 < chunk_size"
    "\<forall>sep \<in> set seps. sep \<noteq> []"
  shows "sentence_end window start end_pos chunk_size seps = end_pos \<or>
    (start < sentence_end window start end_pos chunk_size seps \<and>
     3 * chunk_size < 10 * (sentence_end window start end_pos chunk_size seps - start - 1) \<and>
     sentence_end window start end_pos chunk_size seps \<le> end_pos)"
  using assms
proof (induction seps)
  case (Cons sep seps)
  then have rest: "sentence_end window start end_pos chunk_size seps = end_pos \<or>
    (start < sentence_end window start end_pos chunk_size seps \<and>
     3 * chunk_size < 10 * (sentence_end window start end_pos chunk_size seps - start - 1) \<and>
     sentence_end window start end_pos chunk_size seps \<le> end_pos)"
    by simp
  have sep: "1 \<le> length sep"
    using Cons.prems by (cases sep) auto
  show ?case
  proof (cases "rfind window sep")
    case (Some i)
    with rfind_bound [OF Some] Cons.prems sep rest show ?thesis by auto
  qed (use rest in simp)
qed simp

lemma SEPARATORS_nonempty: "\<forall>sep \<in> set SEPARATORS. sep \<noteq> []"
  by (simp add: SEPARATORS_def)

lemma length_py_slice_window:
  assumes "0 < k" and "int n = k"
    and "k < int (length xs)"
  shows "length (py_slice xs a (a + k)) \<le> n"
  using assms by (auto simp: py_slice_def py_index_def Let_def)

lemma chunk_end_cases:
  assumes "0 < chunk_size" "chunk_size < int (length txt)"
  shows "chunk_end txt chunk_size start = start + chunk_size \<or>
    (3 * chunk_size < 10 * (chunk_end txt chunk_size start - start - 1) \<and>
     chunk_end txt chunk_size start \<le> start + chunk_size)"
proof -
  have "length (py_slice txt start (start + chunk_size)) \<le> nat chunk_size"
    using assms by (intro length_py_slice_window [where k = chunk_size]) auto
  from sentence_end_cases [OF this refl assms(1) SEPARATORS_nonempty, of start] show ?thesis
    by (auto simp: chunk_end_def Let_def)
qed

subsection \<open>Windows\<close>

text \<open>
  The specification of chunking: a list of windows that starts at \<open>a\<close>, in which every window is
  longer than the overlap and at most \<open>cs\<close> long, each next window starts \<open>ov\<close> before the end of
  the one before, and the last window reaches the end \<open>n\<close> of the text.
\<close>

fun windows_ok :: "nat \<Rightarrow> nat \<Rightarrow> nat \<Rightarrow> nat \<Rightarrow> (nat \<times> nat) list \<Rightarrow> bool" where
  "windows_ok n cs ov a [] \<longleftrightarrow> n \<le> a"
| "windows_ok n cs ov a ((x, y) # ws) \<longleftrightarrow>
     x = a \<and> a < n \<and> a + ov < y \<and> y \<le> a + cs \<and> windows_ok n cs ov (if y < n then y - ov else n) ws"

definition window_chunks :: "pystr \<Rightarrow> (nat \<times> nat) list \<Rightarrow> pystr list" where
  "window_chunks txt ws =
     filter (\<lambda>c. c \<noteq> []) (map (\<lambda>(x, y). py_strip (take (y - x) (drop x txt))) ws)"

lemma chunk_loop_windows:
  assumes "0 < cs" "10 * ov \<le> 3 * cs" "cs < length txt"
  shows "\<exists>ws. windows_ok (length txt) cs ov a ws \<and>
    chunk_loop txt (int cs) (int ov) (int a) chunks = Some (chunks @ window_chunks txt ws)"
proof (induction "length txt - a" arbitrary: a chunks rule: less_induct)
  case less
  show ?case
  proof (cases "a < length txt")
    case False
    then show ?thesis
      by (subst chunk_loop.simps) (intro exI [of _ "[]"], simp add: window_chunks_def)
  next
    case True
    have ends: "chunk_end txt (int cs) (int a) = int a + int cs \<or>
      (3 * int cs < 10 * (chunk_end txt (int cs) (int a) - int a - 1) \<and>
       chunk_end txt (int cs) (int a) \<le> int a + int cs)"
      by (rule chunk_end_cases) (use assms in auto)
    then have fwd: "int a + int ov < chunk_end txt (int cs) (int a)"
      "chunk_end txt (int cs) (int a) \<le> int a + int cs"
      using assms by auto
    then obtain y where y: "chunk_end txt (int cs) (int a) = int y" "a + ov < y" "y \<le> a + cs"
      using zero_le_imp_eq_int [of "chunk_end txt (int cs) (int a)"] by force
    define b where "b = (if y < length txt then y - ov else length txt)"
    define chunk where "chunk = py_strip (take (y - a) (drop a txt))"
    have step: "chunk_loop txt (int cs) (int ov) (int a) chunks =
        chunk_loop txt (int cs) (int ov) (int b) (if chunk \<noteq> [] then chunks @ [chunk] else chunks)"
      using True y
      by (subst chunk_loop.simps) (simp add: py_slice_nat b_def chunk_def)
    have "length txt - b < length txt - a"
      using True y by (auto simp: b_def)
    from less [OF this, of "if chunk \<noteq> [] then chunks @ [chunk] else chunks"] obtain ws where
      ws: "windows_ok (length txt) cs ov b ws"
        "chunk_loop txt (int cs) (int ov) (int a) chunks
         = Some ((if chunk \<noteq> [] then chunks @ [chunk] else chunks) @ window_chunks txt ws)"
      unfolding step by blast
    have "windows_ok (length txt) cs ov a ((a, y) # ws)"
      using ws(1) True y by (simp add: b_def)
    moreover have "(if chunk \<noteq> [] then chunks @ [chunk] else chunks) @ window_chunks txt ws
        = chunks @ window_chunks txt ((a, y) # ws)"
      by (simp add: window_chunks_def chunk_def)
    ultimately show ?thesis
      using ws(2) by metis
  qed
qed

text \<open>
  C29: Chunking terminates and tiles the text.  For a positive chunk size and an overlap of at
  most thirty per cent of it (the defaults are 500 and 50), splitting a text longer than the
  chunk size returns, and the chunks are the stripped, non-blank contents of windows that
  start at 0, are longer than the overlap and at most \<open>chunk_size\<close> long, overlap by exactly
  \<open>overlap\<close> and reach the end of the text.
\<close>

theorem split_text_tiles:
  assumes "0 < cs" and "10 * ov \<le> 3 * cs" and "cs < length txt"
  shows "\<exists>ws. windows_ok (length txt) cs ov 0 ws \<and>
    split_text_into_chunks txt (int cs) (int ov) = Some (window_chunks txt ws)"
  using chunk_loop_windows [OF assms, of 0 "[]"] assms(3)
  by (simp add: split_text_into_chunks_def)

theorem split_text_tiles_witness:
  "\<exists>ws. windows_ok (length (lit ''Ab cd. Ef gh.'')) 10 3 0 ws \<and>
    split_text_into_chunks (lit ''Ab cd. Ef gh.'') (int 10) (int 3)
      = Some (window_chunks (lit ''Ab cd. Ef gh.'') ws)"
  by (rule split_text_tiles) simp_all

subsection \<open>Nothing is lost\<close>

lemma windows_cover:
  assumes "windows_ok n cs ov a ws" and "a \<le> i" and "i < n"
  shows "\<exists>(x, y) \<in> set ws. x \<le> i \<and> i < y"
  using assms
proof (induction n cs ov a ws rule: windows_ok.induct)
  case (2 n cs ov a x y ws)
  show ?case
  proof (cases "i < y")
    case True
    with 2 show ?thesis by auto
  next
    case False
    with 2 have "\<exists>(x, y) \<in> set ws. x \<le> i \<and> i < y"
      by (auto split: if_splits)
    then show ?thesis by auto
  qed
qed auto

lemma windows_short: "windows_ok n cs ov a ws \<Longrightarrow> (x, y) \<in> set ws \<Longrightarrow> y - x \<le> cs"
  by (induction n cs ov a ws rule: windows_ok.induct) auto

lemma window_chunks_cover:
  assumes "windows_ok (length txt) cs ov 0 ws" and "i < length txt" and "\<not> is_space (txt ! i)"
  shows "\<exists>c \<in> set (window_chunks txt ws). txt ! i \<in> set c"
proof -
  obtain x y where xy: "(x, y) \<in> set ws" "x \<le> i" "i < y"
    using windows_cover [OF assms(1) _ assms(2)] by auto
  let ?w = "take (y - x) (drop x txt)"
  have "?w ! (i - x) = txt ! i" "i - x < length ?w"
    using xy assms(2) by auto
  then have "txt ! i \<in> set (py_strip ?w)"
    using nonspace_in_strip [OF _ assms(3), of ?w] nth_mem [of "i - x" ?w] by simp
  moreover from this have "py_strip ?w \<in> set (window_chunks txt ws)"
    using xy(1) by (force simp: window_chunks_def image_iff)
  ultimately show ?thesis by blast
qed

lemma window_chunks_wf:
  assumes "windows_ok (length txt) cs ov 0 ws" and "c \<in> set (window_chunks txt ws)"
  shows "c \<noteq> [] \<and> py_strip c = c \<and> length c \<le> cs"
proof -
  from assms(2) obtain x y where "(x, y) \<in> set ws" "c \<noteq> []" "c = py_strip (take (y - x) (drop x txt))"
    by (auto simp: window_chunks_def)
  moreover have "length (take (y - x) (drop x txt)) \<le> y - x"
    by simp
  ultimately show ?thesis
    using length_py_strip_le [of "take (y - x) (drop x txt)"] windows_short [OF assms(1)]
    by fastforce
qed

text \<open>
  No text is lost in chunking.  Under the conditions of C12 every chunk is non-empty,
  stripped and at most \<open>chunk_size\<close> code points long, and every non-space character of the
  text occurs in some chunk.
\<close>

theorem split_text_keeps_text:
  assumes "0 < cs" and "10 * ov \<le> 3 * cs" and "cs < length txt"
  shows "\<exists>chunks. split_text_into_chunks txt (int cs) (int ov) = Some chunks \<and>
    (\<forall>c \<in> set chunks. c \<noteq> [] \<and> py_strip c = c \<and> length c \<le> cs) \<and>
    (\<forall>i < length txt. \<not> is_space (txt ! i) \<longrightarrow> (\<exists>c \<in> set chunks. txt ! i \<in> set c))"
proof -
  obtain ws where "windows_ok (length txt) cs ov 0 ws"
    "split_text_into_chunks txt (int cs) (int ov) = Some (window_chunks txt ws)"
    using chunk_loop_windows [OF assms, of 0 "[]"] assms(3) by (auto simp: split_text_into_chunks_def)
  then show ?thesis
    using window_chunks_cover window_chunks_wf by blast
qed

theorem split_text_keeps_text_witness:
  "\<exists>chunks. split_text_into_chunks (lit ''Ab cd. Ef gh.'') (int 10) (int 3) = Some chunks \<and>
    (\<forall>c \<in> set chunks. c \<noteq> [] \<and> py_strip c = c \<and> length c \<le> 10) \<and>
    (\<forall>i < length (lit ''Ab cd. Ef gh.''). \<not> is_space (lit ''Ab cd. Ef gh.'' ! i) \<longrightarrow>
       (\<exists>c \<in> set chunks. lit ''Ab cd. Ef gh.'' ! i \<in> set c))"
  by (rule split_text_keeps_text) simp_all

subsection \<open>An overlap that the API accepts and the loop does not survive\<close>

lemma chunk_loop_stuck:
  assumes "start < int (length txt)" and "chunk_end txt cs start < int (length txt)"
    and "chunk_end txt cs start - ov = start"
  shows "chunk_loop txt cs ov start chunks = None"
proof (rule ccontr)
  assume "chunk_loop txt cs ov start chunks \<noteq> None"
  then obtain r where r: "chunk_loop txt cs ov start chunks = Some r" by auto
  have "\<not> (txt = txt \<and> cs = cs \<and> ov = ov \<and> start = start)"
  proof (rule chunk_loop.raw_induct
      [where P = "\<lambda>t c v s _ _. \<not> (t = txt \<and> c = cs \<and> v = ov \<and> s = start)", OF _ r])
    fix f t c ov' s cks res
    assume IH: "\<And>t c ov' s cks res. f t c ov' s cks = Some res \<Longrightarrow> \<not> (t = txt \<and> c = cs \<and> ov' = ov \<and> s = start)"
      and eq: "(if s < int (length t) then
          (let end_pos = chunk_end t c s; chunk = py_strip (py_slice t s end_pos);
               cks' = (if chunk \<noteq> [] then cks @ [chunk] else cks)
           in f t c ov' (if end_pos < int (length t) then end_pos - ov' else int (length t)) cks')
        else Some cks) = Some res"
    show "\<not> (t = txt \<and> c = cs \<and> ov' = ov \<and> s = start)"
      using eq IH assms by (auto simp: Let_def split: if_splits)
  qed
  then show False by simp
qed

lemma find_cong_set: "(\<And>x. x \<in> set xs \<Longrightarrow> P x = Q x) \<Longrightarrow> find P xs = find Q xs"
  by (induction xs) auto

lemma rfind_snoc: "rfind (s @ [d]) [c] = (if d = c then Some (length s) else rfind s [c])"
proof -
  have "find (\<lambda>i. take 1 (drop i (s @ [d])) = [c]) (rev [0 ..< length s])
      = find (\<lambda>i. take 1 (drop i s) = [c]) (rev [0 ..< length s])"
    by (rule find_cong_set) simp
  then show ?thesis
    by (simp add: rfind_def)
qed

lemma rfind_char: "c \<notin> set ys \<Longrightarrow> rfind (xs @ c # ys) [c] = Some (length xs)"
proof (induction ys rule: rev_induct)
  case Nil
  then show ?case by (simp add: rfind_snoc)
next
  case (snoc y ys)
  have "rfind ((xs @ c # ys) @ [y]) [c] = rfind (xs @ c # ys) [c]"
    using snoc.prems by (subst rfind_snoc) auto
  with snoc show ?case by simp
qed

text \<open>The full stop of Chinese text in the middle of letters \<^verbatim>\<open>x\<close>.\<close>

definition stop_text :: "nat \<Rightarrow> nat \<Rightarrow> pystr" where
  "stop_text before after = replicate before 120 @ 12290 # replicate after 120"

text \<open>
  Chunking can diverge on an accepted request.  \<^verbatim>\<open>build_graph\<close> accepts every overlap with
  \<open>0 \<le> overlap < chunk_size\<close>; whenever the overlap reaches beyond thirty per cent of the chunk
  size there is a text on which the loop returns to its start position for ever.
\<close>

theorem split_text_diverges:
  assumes "ov < cs" and "3 * cs < 10 * (ov - 1)"
  shows "split_text_into_chunks (stop_text (ov - 1) (Suc cs - ov)) (int cs) (int ov) = None"
proof -
  let ?t = "stop_text (ov - 1) (Suc cs - ov)"
  have ov: "0 < ov" using assms by auto
  have len: "length ?t = Suc cs"
    using assms ov by (simp add: stop_text_def)
  have "take cs ?t = replicate (ov - 1) 120 @ 12290 # replicate (cs - ov) 120"
  proof -
    obtain j k where "ov = Suc j" "cs = Suc (ov + k)"
      using assms(1) ov less_imp_Suc_add gr0_implies_Suc by metis
    then show ?thesis by (simp add: stop_text_def flip: replicate_Suc)
  qed
  then have "rfind (take cs ?t) [12290] = Some (ov - 1)"
    using rfind_char [of 12290 "replicate (cs - ov) 120" "replicate (ov - 1) 120"] by simp
  moreover have "py_slice ?t 0 (int cs) = take cs ?t"
    using py_slice_nat [of ?t 0 cs] by simp
  moreover have "3 * int cs < 10 * int (ov - 1)"
    using assms(2) by linarith
  ultimately have "chunk_end ?t (int cs) 0 = int ov"
    using assms(1) ov len by (simp add: chunk_end_def SEPARATORS_def Let_def of_nat_diff)
  then have "chunk_loop ?t (int cs) (int ov) 0 [] = None"
    using assms len by (intro chunk_loop_stuck) auto
  then show ?thesis
    using len by (simp add: split_text_into_chunks_def)
qed

theorem split_text_diverges_witness:
  "split_text_into_chunks (stop_text 199 301) (int 500) (int 200) = None"
  using split_text_diverges [of 200 500] by simp

section \<open>File formats\<close>

text \<open>
  \<^verbatim>\<open>Path(p).name\<close> and \<^verbatim>\<open>Path(p).suffix\<close>: the last non-empty component, and its text from the
  last dot when that dot is neither the first nor the last character.
\<close>

fun split_on :: "nat \<Rightarrow> pystr \<Rightarrow> pystr list" where
  "split_on c [] = [[]]"
| "split_on c (x # xs) =
     (if x = c then [] # split_on c xs
      else (case split_on c xs of [] \<Rightarrow> [[x]] | y # ys \<Rightarrow> (x # y) # ys))"

definition path_name :: "pystr \<Rightarrow> pystr" where
  "path_name p = (let cs = filter (\<lambda>c. c \<noteq> [] \<and> c \<noteq> [46]) (split_on 47 p) in if cs = [] then [] else last cs)"

definition path_suffix :: "pystr \<Rightarrow> pystr" where
  "path_suffix p =
     (let name = path_name p in
      case rfind name [46] of
        Some i \<Rightarrow> if 0 < i \<and> i < length name - 1 then drop i name else []
      | None \<Rightarrow> [])"

definition SUPPORTED_EXTENSIONS :: "pystr list" where
  "SUPPORTED_EXTENSIONS = [lit ''.pdf'', lit ''.md'', lit ''.markdown'', lit ''.txt'']"

definition is_supported :: "pystr \<Rightarrow> bool" where
  "is_supported file_path \<longleftrightarrow> py_lower (path_suffix file_path) \<in> set SUPPORTED_EXTENSIONS"

text \<open>
  Decoding with fall-backs: strict UTF-8, the encoding \<^verbatim>\<open>charset_normalizer\<close> finds, the one
  \<^verbatim>\<open>chardet\<close> finds (either library may be missing or fail: \<open>None\<close>), and UTF-8 with replacement.
\<close>

definition read_text_with_fallback ::
  "('b \<Rightarrow> pystr option) \<Rightarrow> ('b \<Rightarrow> pystr option) \<Rightarrow> ('b \<Rightarrow> pystr option) \<Rightarrow> (pystr \<Rightarrow> 'b \<Rightarrow> pystr res) \<Rightarrow>
   'b \<Rightarrow> pystr res" where
  "read_text_with_fallback decode_utf8 charset_best chardet_detect decode_replace bytes =
     (case decode_utf8 bytes of
        Some s \<Rightarrow> Inr s
      | None \<Rightarrow>
          let encoding = (case charset_best bytes of Some e \<Rightarrow> (if e \<noteq> [] then Some e else None) | None \<Rightarrow> None);
              encoding = (case encoding of Some e \<Rightarrow> Some e | None \<Rightarrow> chardet_detect bytes);
              encoding = (case encoding of Some e \<Rightarrow> (if e \<noteq> [] then e else lit ''utf-8'') | None \<Rightarrow> lit ''utf-8'')
          in decode_replace encoding bytes)"

definition extract_from_pdf :: "pystr list \<Rightarrow> pystr" where
  "extract_from_pdf pages = py_join [10, 10] (filter (\<lambda>p. py_strip p \<noteq> []) pages)"

definition zh_no_file :: pystr where
  "zh_no_file = [25991, 20214, 19981, 23384, 22312] @ lit '': ''"

definition zh_bad_format :: pystr where
  "zh_bad_format = [19981, 25903, 25345, 30340, 25991, 20214, 26684, 24335] @ lit '': ''"

definition extract_text ::
  "(pystr \<Rightarrow> bool) \<Rightarrow> (pystr \<Rightarrow> pystr list res) \<Rightarrow> (pystr \<Rightarrow> pystr res) \<Rightarrow> pystr \<Rightarrow> pystr res" where
  "extract_text exists pdf_pages read_text file_path =
     (if \<not> exists file_path then Inl (Exn FileNotFoundErr (zh_no_file @ file_path))
      else
        let suffix = py_lower (path_suffix file_path) in
        if suffix \<notin> set SUPPORTED_EXTENSIONS then Inl (Exn ValueError (zh_bad_format @ suffix))
        else if suffix = lit ''.pdf'' then bind_res (pdf_pages file_path) (\<lambda>ps. Inr (extract_from_pdf ps))
        else read_text file_path)"

definition zh_document :: pystr where
  "zh_document = lit ''=== '' @ [25991, 26723] @ lit '' ''"

definition zh_failed :: pystr where
  "zh_failed = lit '' ('' @ [25552, 21462, 22833, 36133] @ lit '': ''"

definition document_section :: "nat \<Rightarrow> pystr \<Rightarrow> pystr res \<Rightarrow> pystr" where
  "document_section i file_path r =
     (case r of
        Inr txt \<Rightarrow> zh_document @ int_str (int i) @ lit '': '' @ path_name file_path @ lit '' ==='' @ [10] @ txt
      | Inl e \<Rightarrow> zh_document @ int_str (int i) @ lit '': '' @ file_path @ zh_failed @ exn_msg e @ lit '') ===''
     )"

definition extract_from_multiple ::
  "(pystr \<Rightarrow> bool) \<Rightarrow> (pystr \<Rightarrow> pystr list res) \<Rightarrow> (pystr \<Rightarrow> pystr res) \<Rightarrow> pystr list \<Rightarrow> pystr" where
  "extract_from_multiple exists pdf_pages read_text file_paths =
     py_join [10, 10]
       (map (\<lambda>(i, p). document_section i p (extract_text exists pdf_pages read_text p))
          (zip [1 ..< Suc (length file_paths)] file_paths))"

section \<open>Clean-up\<close>

fun replace_crlf :: "pystr \<Rightarrow> pystr" where
  "replace_crlf (c # d # s) = (if c = 13 \<and> d = 10 then 10 # replace_crlf s else c # replace_crlf (d # s))"
| "replace_crlf s = s"

definition replace_cr :: "pystr \<Rightarrow> pystr" where
  "replace_cr s = map (\<lambda>c. if c = 13 then 10 else c) s"

text \<open>\<^verbatim>\<open>re.sub(r'\n{3,}', '\n\n', s)\<close>: \<open>k\<close> newlines of the current run have been kept.\<close>

fun squeeze_newlines :: "nat \<Rightarrow> pystr \<Rightarrow> pystr" where
  "squeeze_newlines k [] = []"
| "squeeze_newlines k (c # s) =
     (if c = 10 then (if k < 2 then 10 # squeeze_newlines (Suc k) s else squeeze_newlines k s)
      else c # squeeze_newlines 0 s)"

definition preprocess_text :: "pystr \<Rightarrow> pystr" where
  "preprocess_text txt =
     (let txt = replace_cr (replace_crlf txt);
          txt = squeeze_newlines 0 txt;
          lines = map py_strip (split_on 10 txt)
      in py_strip (py_join [10] lines))"

fun count_words :: "bool \<Rightarrow> pystr \<Rightarrow> nat" where
  "count_words inside [] = 0"
| "count_words inside (c # s) =
     (if is_space c then count_words False s
      else if inside then count_words True s else Suc (count_words True s))"

definition get_text_stats :: "pystr \<Rightarrow> nat \<times> nat \<times> nat" where
  "get_text_stats txt = (length txt, count_list txt 10 + 1, count_words False txt)"

text \<open>
  Blank lines survive the clean-up.  \<^verbatim>\<open>preprocess_text\<close> squeezes runs of newlines before it
  strips the lines, so lines of blanks leave three newlines in a row where at most two are
  documented, and a second pass changes the text again.
\<close>

theorem preprocess_text_not_idempotent:
  "preprocess_text [97, 10, 32, 10, 32, 10, 98] = [97, 10, 10, 10, 98] \<and>
   preprocess_text (preprocess_text [97, 10, 32, 10, 32, 10, 98]) = [97, 10, 10, 98]"
  by (simp add: preprocess_text_def replace_cr_def py_strip_def py_lstrip_def py_rstrip_def is_space_def)

end
