(* ===== verification/Ontology.thy ===== *)
theory Ontology
  imports Prelude
begin

text \<open>
  Validation of LLM-generated ontology fragments, \<^verbatim>\<open>app/utils/ontology.py\<close>: attribute definitions
  and source-target pairs are untyped JSON and come out within the limits of Zep.
\<close>

definition MAX_ONTOLOGY_TYPES :: nat where
  "MAX_ONTOLOGY_TYPES = 10"

definition MAX_ONTOLOGY_ATTRIBUTES :: nat where
  "MAX_ONTOLOGY_ATTRIBUTES = 10"

definition MAX_ONTOLOGY_SOURCE_TARGETS :: nat where
  "MAX_ONTOLOGY_SOURCE_TARGETS = 10"

definition FALLBACK_ATTRIBUTE :: pydict where
  "FALLBACK_ATTRIBUTE =
     [(lit ''name'', PyStr (lit ''details'')),
      (lit ''type'', PyStr (lit ''text'')),
      (lit ''description'', PyStr (lit ''Additional details about this ontology type.''))]"

definition nonempty_str :: "pyval option \<Rightarrow> bool" where
  "nonempty_str v = (case v of Some (PyStr s) \<Rightarrow> s \<noteq> [] | _ \<Rightarrow> False)"

definition normalize_ontology_attribute :: "pyval \<Rightarrow> pydict option" where
  "normalize_ontology_attribute attribute =
     (case attribute of
        PyStr s \<Rightarrow>
          if py_strip s = [] then None
          else Some [(lit ''name'', PyStr s), (lit ''type'', PyStr (lit ''text'')), (lit ''description'', PyStr s)]
      | PyDict d \<Rightarrow>
          (case dget d (lit ''name'') of
             Some (PyStr name) \<Rightarrow>
               if py_strip name = [] then None
               else Some (if nonempty_str (dget d (lit ''description'')) then d
                          else dset d (lit ''description'') (PyStr name))
           | _ \<Rightarrow> None)
      | _ \<Rightarrow> None)"

fun attribute_loop :: "pydict list \<Rightarrow> pyval list \<Rightarrow> pydict list" where
  "attribute_loop acc [] = acc"
| "attribute_loop acc (a # as) =
     (case normalize_ontology_attribute a of
        None \<Rightarrow> attribute_loop acc as
      | Some n \<Rightarrow>
          let acc' = acc @ [n] in
          if length acc' = MAX_ONTOLOGY_ATTRIBUTES then acc' else attribute_loop acc' as)"

definition list_or_empty :: "pyval \<Rightarrow> pyval list" where
  "list_or_empty v = (case v of PyList xs \<Rightarrow> xs | _ \<Rightarrow> [])"

definition normalize_ontology_attributes :: "pyval \<Rightarrow> pydict list" where
  "normalize_ontology_attributes attributes =
     (let normalized = attribute_loop [] (list_or_empty attributes) in
      if normalized = [] then [FALLBACK_ATTRIBUTE] else normalized)"

definition source_target_pair :: "pyval \<Rightarrow> (pystr \<times> pystr) option" where
  "source_target_pair v =
     (case v of
        PyDict d \<Rightarrow>
          (case (dget d (lit ''source''), dget d (lit ''target'')) of
             (Some (PyStr s), Some (PyStr t)) \<Rightarrow>
               if py_strip s = [] \<or> py_strip t = [] then None else Some (py_strip s, py_strip t)
           | _ \<Rightarrow> None)
      | _ \<Rightarrow> None)"

definition pair_dict :: "pystr \<times> pystr \<Rightarrow> pydict" where
  "pair_dict p = [(lit ''source'', PyStr (fst p)), (lit ''target'', PyStr (snd p))]"

fun target_loop :: "nat option \<Rightarrow> (pystr \<times> pystr) list \<Rightarrow> pyval list \<Rightarrow> (pystr \<times> pystr) list" where
  "target_loop limit acc [] = acc"
| "target_loop limit acc (v # vs) =
     (case source_target_pair v of
        None \<Rightarrow> target_loop limit acc vs
      | Some pair \<Rightarrow>
          if pair \<in> set acc then target_loop limit acc vs
          else
            let acc' = acc @ [pair] in
            if limit = Some (length acc') then acc' else target_loop limit acc' vs)"

definition normalize_ontology_source_targets :: "nat option \<Rightarrow> pyval \<Rightarrow> pydict list" where
  "normalize_ontology_source_targets limit source_targets =
     map pair_dict (target_loop limit [] (list_or_empty source_targets))"

section \<open>Attributes\<close>

definition wf_attribute :: "pydict \<Rightarrow> bool" where
  "wf_attribute d \<longleftrightarrow>
     (\<exists>n. dget d (lit ''name'') = Some (PyStr n) \<and> py_strip n \<noteq> []) \<and> nonempty_str (dget d (lit ''description''))"

lemma nonempty_if_strip: "py_strip s \<noteq> [] \<Longrightarrow> s \<noteq> []"
  by (auto simp: py_strip_def py_lstrip_def py_rstrip_def)

lemma normalize_attribute_wf: "normalize_ontology_attribute a = Some d \<Longrightarrow> wf_attribute d"
  by (auto simp: normalize_ontology_attribute_def wf_attribute_def nonempty_str_def dget_def
      update_conv nonempty_if_strip split: pyval.splits option.splits if_splits)

lemma attribute_loop_spec:
  "length acc < MAX_ONTOLOGY_ATTRIBUTES \<Longrightarrow>
   attribute_loop acc as
   = acc @ take (MAX_ONTOLOGY_ATTRIBUTES - length acc) (List.map_filter normalize_ontology_attribute as)"
proof (induction as arbitrary: acc)
  case (Cons a as)
  show ?case
  proof (cases "normalize_ontology_attribute a")
    case None
    with Cons show ?thesis by (simp add: map_filter_simps)
  next
    case (Some n)
    show ?thesis
    proof (cases "Suc (length acc) = MAX_ONTOLOGY_ATTRIBUTES")
      case True
      have "MAX_ONTOLOGY_ATTRIBUTES - length acc = Suc 0"
        unfolding True [symmetric] by simp
      with True Some show ?thesis by (simp add: map_filter_simps)
    next
      case False
      with Cons.prems have "length (acc @ [n]) < MAX_ONTOLOGY_ATTRIBUTES" by simp
      moreover have "MAX_ONTOLOGY_ATTRIBUTES - length acc = Suc (MAX_ONTOLOGY_ATTRIBUTES - length (acc @ [n]))"
        using Cons.prems by simp
      ultimately show ?thesis
        using False Some Cons.IH [of "acc @ [n]"] by (simp add: map_filter_simps)
    qed
  qed
qed (simp add: map_filter_simps)

text \<open>
  Attribute normalisation.  On any JSON value the result has between one and ten
  attributes, each with a non-blank name and a non-empty description, and it is the first
  ten usable entries in order, or the fall-back attribute when none is usable.
\<close>

theorem normalize_attributes_spec:
  "normalize_ontology_attributes v =
     (let usable = take MAX_ONTOLOGY_ATTRIBUTES (List.map_filter normalize_ontology_attribute (list_or_empty v))
      in if usable = [] then [FALLBACK_ATTRIBUTE] else usable)
   \<and> normalize_ontology_attributes v \<noteq> []
   \<and> length (normalize_ontology_attributes v) \<le> MAX_ONTOLOGY_ATTRIBUTES
   \<and> list_all wf_attribute (normalize_ontology_attributes v)"
proof -
  let ?us = "take MAX_ONTOLOGY_ATTRIBUTES (List.map_filter normalize_ontology_attribute (list_or_empty v))"
  have eq: "normalize_ontology_attributes v = (if ?us = [] then [FALLBACK_ATTRIBUTE] else ?us)"
    using attribute_loop_spec [of "[]" "list_or_empty v"]
    by (simp add: normalize_ontology_attributes_def Let_def MAX_ONTOLOGY_ATTRIBUTES_def)
  have "wf_attribute FALLBACK_ATTRIBUTE"
    by (simp add: wf_attribute_def FALLBACK_ATTRIBUTE_def dget_def nonempty_str_def py_strip_eq_Nil_iff
        lit_def is_space_def)
  moreover have "list_all wf_attribute ?us"
    by (auto simp: list_all_iff List.map_filter_def normalize_attribute_wf dest!: in_set_takeD)
  ultimately have "list_all wf_attribute (normalize_ontology_attributes v)"
    unfolding eq by simp
  then show ?thesis
    unfolding eq by (simp add: Let_def MAX_ONTOLOGY_ATTRIBUTES_def)
qed

section \<open>Source-target pairs\<close>

definition wf_pair :: "pystr \<times> pystr \<Rightarrow> bool" where
  "wf_pair p \<longleftrightarrow> fst p \<noteq> [] \<and> snd p \<noteq> [] \<and> py_strip (fst p) = fst p \<and> py_strip (snd p) = snd p"

lemma source_target_pair_wf: "source_target_pair v = Some p \<Longrightarrow> wf_pair p"
  by (auto simp: source_target_pair_def wf_pair_def split: pyval.splits option.splits if_splits)

lemma source_target_pair_dict: "wf_pair p \<Longrightarrow> source_target_pair (PyDict (pair_dict p)) = Some p"
  by (auto simp: source_target_pair_def pair_dict_def dget_def wf_pair_def)

lemma target_loop_inv:
  assumes "distinct acc" "list_all wf_pair acc"
    "case limit of None \<Rightarrow> True | Some k \<Rightarrow> length acc < k"
  shows "distinct (target_loop limit acc vs) \<and> list_all wf_pair (target_loop limit acc vs)
    \<and> (case limit of None \<Rightarrow> True | Some k \<Rightarrow> length (target_loop limit acc vs) \<le> k)"
  using assms
proof (induction vs arbitrary: acc)
  case (Cons v vs)
  show ?case
  proof (cases "source_target_pair v")
    case (Some p)
    have "wf_pair p" by (rule source_target_pair_wf [OF Some])
    consider (dup) "p \<in> set acc" | (full) "p \<notin> set acc" "limit = Some (Suc (length acc))"
      | (more) "p \<notin> set acc" "limit \<noteq> Some (Suc (length acc))"
      by blast
    then show ?thesis
    proof cases
      case dup
      then have eq: "target_loop limit acc (v # vs) = target_loop limit acc vs"
        using Some by simp
      show ?thesis
        unfolding eq using Cons.prems by (rule Cons.IH)
    next
      case full
      with Some Cons.prems \<open>wf_pair p\<close> show ?thesis by simp
    next
      case more
      with Some Cons.prems \<open>wf_pair p\<close> Cons.IH [of "acc @ [p]"] show ?thesis
        by (auto simp: Let_def split: option.splits)
    qed
  next
    case None
    then have eq: "target_loop limit acc (v # vs) = target_loop limit acc vs"
      by simp
    show ?thesis
      unfolding eq using Cons.prems by (rule Cons.IH)
  qed
qed (auto split: option.splits)

lemma target_loop_id:
  "distinct (acc @ ps) \<Longrightarrow> list_all wf_pair ps \<Longrightarrow>
   (case limit of None \<Rightarrow> True | Some k \<Rightarrow> length acc + length ps \<le> k) \<Longrightarrow>
   target_loop limit acc (map (PyDict \<circ> pair_dict) ps) = acc @ ps"
proof (induction ps arbitrary: acc)
  case (Cons p ps)
  have p: "source_target_pair (PyDict (pair_dict p)) = Some p" "p \<notin> set acc"
    using Cons.prems by (auto simp: source_target_pair_dict)
  show ?case
  proof (cases "limit = Some (Suc (length acc))")
    case True
    with Cons.prems have "ps = []" by simp
    with True p show ?thesis by simp
  next
    case False
    with p Cons.IH [of "acc @ [p]"] Cons.prems show ?thesis
      by (auto simp: Let_def split: option.splits)
  qed
qed simp

text \<open>
  Source-target normalisation is a projection.  With a positive limit the pairs that come
  out of any JSON value are distinct, non-empty, stripped and at most \<open>limit\<close> many, and
  normalising the result again returns it unchanged.
\<close>

theorem normalize_source_targets_projection:
  assumes "0 < k"
  shows "\<exists>ps. normalize_ontology_source_targets (Some k) v = map pair_dict ps
    \<and> distinct ps \<and> list_all wf_pair ps \<and> length ps \<le> k
    \<and> normalize_ontology_source_targets (Some k)
        (PyList (map PyDict (normalize_ontology_source_targets (Some k) v)))
      = normalize_ontology_source_targets (Some k) v"
proof -
  define ps where "ps = target_loop (Some k) [] (list_or_empty v)"
  have ps: "distinct ps" "list_all wf_pair ps" "length ps \<le> k"
    using target_loop_inv [of "[]" "Some k" "list_or_empty v"] assms by (simp_all add: ps_def)
  have "target_loop (Some k) [] (map (PyDict \<circ> pair_dict) ps) = ps"
    using target_loop_id [of "[]" ps "Some k"] ps by simp
  then show ?thesis
    using ps
    by (intro exI [of _ ps]) (simp add: normalize_ontology_source_targets_def ps_def list_or_empty_def)
qed

theorem normalize_source_targets_projection_witness:
  "\<exists>ps. normalize_ontology_source_targets (Some 10)
      (PyList [PyDict (pair_dict (lit '' A'', lit ''B'')), PyDict (pair_dict (lit ''A'', lit ''B ''))])
      = map pair_dict ps \<and> distinct ps \<and> list_all wf_pair ps \<and> length ps \<le> 10"
  using normalize_source_targets_projection
    [of 10 "PyList [PyDict (pair_dict (lit '' A'', lit ''B'')), PyDict (pair_dict (lit ''A'', lit ''B ''))]"]
  by auto

end
