(* ===== verification/Stores.thy ===== *)
theory Stores
  imports Prelude
begin

text \<open>
  The interface of the program's keyed stores, the task registry and the simulation state
  files.  A store is looked up by key, written one document at a time and
  a document can be dropped; writing may stamp the document.  The history lemmas are proved
  once here and reused through the interpretations in the component theories.
\<close>

datatype 'v store_op = Put 'v | Drop pystr

text \<open>Documents that are looked up and written.\<close>

locale document_store =
  fixes lookup :: "'s \<Rightarrow> pystr \<Rightarrow> 'v option"
    and put :: "'v \<Rightarrow> 's \<Rightarrow> 's"
    and key :: "'v \<Rightarrow> pystr"
    and stamp :: "'v \<Rightarrow> 'v"
  assumes lookup_put: "lookup (put v s) k = (if k = key v then Some (stamp v) else lookup s k)"
begin

lemma put_put: "key v = key v' \<Longrightarrow> lookup (put v (put v' s)) k = lookup (put v s) k"
  by (simp add: lookup_put)

lemma put_commute: "key v \<noteq> key v' \<Longrightarrow> lookup (put v (put v' s)) k = lookup (put v' (put v s)) k"
  by (simp add: lookup_put)

text \<open>The last document written under a key is the one found there.\<close>

lemma last_put_wins:
  "lookup (fold put vs s) k =
     (case filter (\<lambda>v. key v = k) vs of [] \<Rightarrow> lookup s k | us \<Rightarrow> Some (stamp (last us)))"
proof (induction vs arbitrary: s)
  case (Cons v vs)
  show ?case
    unfolding fold_Cons comp_def Cons.IH
    by (auto simp: lookup_put split: list.splits)
qed simp

end

text \<open>Stores that can also drop a document.\<close>

locale keyed_store = document_store lookup put key stamp
  for lookup :: "'s \<Rightarrow> pystr \<Rightarrow> 'v option" and put and key and stamp +
  fixes remove :: "pystr \<Rightarrow> 's \<Rightarrow> 's"
  assumes lookup_remove: "lookup (remove k' s) k = (if k = k' then None else lookup s k)"
begin

fun exec :: "'v store_op \<Rightarrow> 's \<Rightarrow> 's" where
  "exec (Put v) s = put v s"
| "exec (Drop k) s = remove k s"

fun op_key :: "'v store_op \<Rightarrow> pystr" where
  "op_key (Put v) = key v"
| "op_key (Drop k) = k"

fun outcome :: "'v store_op \<Rightarrow> 'v option" where
  "outcome (Put v) = Some (stamp v)"
| "outcome (Drop k) = None"

lemma lookup_exec: "lookup (exec p s) k = (if k = op_key p then outcome p else lookup s k)"
  by (cases p) (auto simp: lookup_put lookup_remove)

text \<open>The last operation on a key decides what a lookup returns.\<close>

lemma last_write_wins:
  "lookup (fold exec ops s) k =
     (case filter (\<lambda>p. op_key p = k) ops of [] \<Rightarrow> lookup s k | ps \<Rightarrow> outcome (last ps))"
proof (induction ops arbitrary: s)
  case (Cons p ops)
  show ?case
    unfolding fold_Cons comp_def Cons.IH
    by (auto simp: lookup_exec split: list.splits)
qed simp

lemma dropped_keys: "lookup (fold remove ks s) k = (if k \<in> set ks then None else lookup s k)"
  by (induction ks arbitrary: s) (auto simp: lookup_remove)

end

end
