(* ===== verification/Task_Manager.thy ===== *)
theory Task_Manager
  imports Stores
begin

text \<open>
  The in-memory registry of long-running tasks, \<^verbatim>\<open>app/models/task.py\<close>.  Every public method takes
  the registry lock for its whole effect, so each is one atomic operation on the ordered
  dictionary of tasks; \<open>now\<close> (microseconds) and the fresh UUID are inputs, \<open>tr\<close> is the message
  catalogue \<^verbatim>\<open>t()\<close>.
\<close>

datatype TaskStatus = TASK_PENDING | TASK_PROCESSING | TASK_COMPLETED | TASK_FAILED

fun task_status_value :: "TaskStatus \<Rightarrow> pystr" where
  "task_status_value TASK_PENDING = lit ''pending''"
| "task_status_value TASK_PROCESSING = lit ''processing''"
| "task_status_value TASK_COMPLETED = lit ''completed''"
| "task_status_value TASK_FAILED = lit ''failed''"

record Task =
  task_id :: pystr
  task_type :: pystr
  task_status :: TaskStatus
  task_created_at :: int
  task_updated_at :: int
  task_progress :: int
  task_message :: pystr
  task_result :: "pydict option"
  task_error :: "pystr option"
  task_metadata :: pydict
  task_progress_detail :: pydict

definition str_or_none :: "pystr option \<Rightarrow> pyval" where
  "str_or_none s = (case s of None \<Rightarrow> PyNone | Some x \<Rightarrow> PyStr x)"

definition dict_or_none :: "pydict option \<Rightarrow> pyval" where
  "dict_or_none d = (case d of None \<Rightarrow> PyNone | Some x \<Rightarrow> PyDict x)"

text \<open>\<open>isofmt\<close> stands for \<^verbatim>\<open>datetime.isoformat\<close>.\<close>

definition task_to_dict :: "(int \<Rightarrow> pystr) \<Rightarrow> Task \<Rightarrow> pydict" where
  "task_to_dict isofmt k =
     [(lit ''task_id'', PyStr (task_id k)),
      (lit ''task_type'', PyStr (task_type k)),
      (lit ''status'', PyStr (task_status_value (task_status k))),
      (lit ''created_at'', PyStr (isofmt (task_created_at k))),
      (lit ''updated_at'', PyStr (isofmt (task_updated_at k))),
      (lit ''progress'', PyInt (task_progress k)),
      (lit ''message'', PyStr (task_message k)),
      (lit ''progress_detail'', PyDict (task_progress_detail k)),
      (lit ''result'', dict_or_none (task_result k)),
      (lit ''error'', str_or_none (task_error k)),
      (lit ''metadata'', PyDict (task_metadata k))]"

type_synonym task_registry = "(pystr \<times> Task) list"

definition create_task ::
  "pystr \<Rightarrow> int \<Rightarrow> pystr \<Rightarrow> pydict option \<Rightarrow> task_registry \<Rightarrow> pystr \<times> task_registry" where
  "create_task uuid now ttype metadata tasks =
     (let task = \<lparr>task_id = uuid, task_type = ttype, task_status = TASK_PENDING,
                  task_created_at = now, task_updated_at = now, task_progress = 0,
                  task_message = [], task_result = None, task_error = None,
                  task_metadata = (case metadata of None \<Rightarrow> [] | Some m \<Rightarrow> m),
                  task_progress_detail = []\<rparr>
      in (uuid, dset tasks uuid task))"

definition get_task :: "task_registry \<Rightarrow> pystr \<Rightarrow> Task option" where
  "get_task tasks tid = dget tasks tid"

definition assign :: "('v \<Rightarrow> 'r \<Rightarrow> 'r) \<Rightarrow> 'v option \<Rightarrow> 'r \<Rightarrow> 'r" where
  "assign setter v r = (case v of None \<Rightarrow> r | Some x \<Rightarrow> setter x r)"

definition apply_update ::
  "int \<Rightarrow> TaskStatus option \<Rightarrow> int option \<Rightarrow> pystr option \<Rightarrow> pydict option \<Rightarrow> pystr option \<Rightarrow>
   pydict option \<Rightarrow> Task \<Rightarrow> Task" where
  "apply_update now st pr msg res err detail k =
     assign (\<lambda>v k. k\<lparr>task_progress_detail := v\<rparr>) detail
      (assign (\<lambda>v k. k\<lparr>task_error := Some v\<rparr>) err
       (assign (\<lambda>v k. k\<lparr>task_result := Some v\<rparr>) res
        (assign (\<lambda>v k. k\<lparr>task_message := v\<rparr>) msg
         (assign (\<lambda>v k. k\<lparr>task_progress := v\<rparr>) pr
          (assign (\<lambda>v k. k\<lparr>task_status := v\<rparr>) st
           (k\<lparr>task_updated_at := now\<rparr>))))))"

definition update_task ::
  "int \<Rightarrow> pystr \<Rightarrow> TaskStatus option \<Rightarrow> int option \<Rightarrow> pystr option \<Rightarrow> pydict option \<Rightarrow> pystr option \<Rightarrow>
   pydict option \<Rightarrow> task_registry \<Rightarrow> task_registry" where
  "update_task now tid st pr msg res err detail tasks =
     (case dget tasks tid of
        None \<Rightarrow> tasks
      | Some k \<Rightarrow> dset tasks tid (apply_update now st pr msg res err detail k))"

definition complete_task :: "(pystr \<Rightarrow> pystr) \<Rightarrow> int \<Rightarrow> pystr \<Rightarrow> pydict \<Rightarrow> task_registry \<Rightarrow> task_registry" where
  "complete_task tr now tid res =
     update_task now tid (Some TASK_COMPLETED) (Some 100) (Some (tr (lit ''progress.taskComplete'')))
       (Some res) None None"

definition fail_task :: "(pystr \<Rightarrow> pystr) \<Rightarrow> int \<Rightarrow> pystr \<Rightarrow> pystr \<Rightarrow> task_registry \<Rightarrow> task_registry" where
  "fail_task tr now tid err =
     update_task now tid (Some TASK_FAILED) None (Some (tr (lit ''progress.taskFailed'')))
       None (Some err) None"

definition list_tasks :: "(int \<Rightarrow> pystr) \<Rightarrow> pystr option \<Rightarrow> task_registry \<Rightarrow> pydict list" where
  "list_tasks isofmt ttype tasks =
     (let ts = map snd tasks;
          ts = (case ttype of None \<Rightarrow> ts
                | Some ty \<Rightarrow> if ty = [] then ts else filter (\<lambda>k. task_type k = ty) ts)
      in map (task_to_dict isofmt) (sorted_desc task_created_at ts))"

definition stale :: "int \<Rightarrow> Task \<Rightarrow> bool" where
  "stale cutoff k \<longleftrightarrow> task_created_at k < cutoff \<and> task_status k \<in> {TASK_COMPLETED, TASK_FAILED}"

definition cleanup_old_tasks :: "int \<Rightarrow> int \<Rightarrow> task_registry \<Rightarrow> task_registry" where
  "cleanup_old_tasks now max_age_hours tasks =
     (let cutoff = now - max_age_hours * 3600000000;
          old_ids = map fst (filter (\<lambda>(tid, k). stale cutoff k) tasks)
      in fold (\<lambda>tid ts. dpop ts tid) old_ids tasks)"

section \<open>The registry invariant\<close>

datatype task_op =
    OpCreate pystr int pystr "pydict option"
  | OpUpdate int pystr "TaskStatus option" "int option" "pystr option" "pydict option" "pystr option"
      "pydict option"
  | OpComplete int pystr pydict
  | OpFail int pystr pystr
  | OpCleanup int int

fun task_step :: "(pystr \<Rightarrow> pystr) \<Rightarrow> task_registry \<Rightarrow> task_op \<Rightarrow> task_registry" where
  "task_step tr ts (OpCreate u now ty m) = snd (create_task u now ty m ts)"
| "task_step tr ts (OpUpdate now tid st pr msg res err d) = update_task now tid st pr msg res err d ts"
| "task_step tr ts (OpComplete now tid res) = complete_task tr now tid res ts"
| "task_step tr ts (OpFail now tid err) = fail_task tr now tid err ts"
| "task_step tr ts (OpCleanup now h) = cleanup_old_tasks now h ts"

definition registry_ok :: "task_registry \<Rightarrow> bool" where
  "registry_ok ts \<longleftrightarrow> distinct (map fst ts) \<and> (\<forall>(tid, k) \<in> set ts. task_id k = tid)"

lemma apply_update_frame [simp]:
  "task_id (apply_update now st pr msg res err d k) = task_id k"
  "task_type (apply_update now st pr msg res err d k) = task_type k"
  "task_created_at (apply_update now st pr msg res err d k) = task_created_at k"
  "task_metadata (apply_update now st pr msg res err d k) = task_metadata k"
  "task_updated_at (apply_update now st pr msg res err d k) = now"
  by (simp_all add: apply_update_def assign_def split: option.splits)

lemma registry_ok_dset: "registry_ok ts \<Longrightarrow> task_id k = tid \<Longrightarrow> registry_ok (dset ts tid k)"
  by (auto simp: registry_ok_def set_dset distinct_update)

lemma registry_ok_dpop: "registry_ok ts \<Longrightarrow> registry_ok (dpop ts tid)"
  unfolding registry_ok_def set_dpop by (auto intro: distinct_delete)

lemma registry_ok_get: "registry_ok ts \<Longrightarrow> dget ts tid = Some k \<Longrightarrow> task_id k = tid"
  by (auto simp: registry_ok_def dget_def dest: map_of_SomeD)

lemma registry_ok_update: "registry_ok ts \<Longrightarrow> registry_ok (update_task now tid st pr msg res err d ts)"
  by (auto simp: update_task_def registry_ok_get intro: registry_ok_dset split: option.splits)

lemma registry_ok_cleanup: "registry_ok ts \<Longrightarrow> registry_ok (cleanup_old_tasks now h ts)"
proof -
  have "registry_ok (fold (\<lambda>tid ts. dpop ts tid) ids ts)" if "registry_ok ts" for ids ts
    using that by (induction ids arbitrary: ts) (auto intro: registry_ok_dpop)
  then show "registry_ok ts \<Longrightarrow> registry_ok (cleanup_old_tasks now h ts)"
    by (simp add: cleanup_old_tasks_def Let_def)
qed

lemma registry_ok_step: "registry_ok ts \<Longrightarrow> registry_ok (task_step tr ts p)"
  by (cases p)
     (auto simp: create_task_def complete_task_def fail_task_def
      intro: registry_ok_dset registry_ok_update registry_ok_cleanup)

lemma registry_ok_run: "registry_ok ts \<Longrightarrow> registry_ok (foldl (task_step tr) ts ops)"
  by (induction ops arbitrary: ts) (auto intro: registry_ok_step)

text \<open>
  Registry consistency.  After any sequence of task operations from the empty registry
  every task is stored once, under its own identifier.
\<close>

theorem task_registry_consistent:
  "registry_ok (foldl (task_step tr) [] ops)"
  by (rule registry_ok_run) (simp add: registry_ok_def)

section \<open>Lookup laws\<close>

lemma get_update_task:
  "get_task (update_task now tid st pr msg res err d ts) tid' =
     (if tid' = tid then map_option (apply_update now st pr msg res err d) (get_task ts tid)
      else get_task ts tid')"
  by (auto simp: get_task_def update_task_def split: option.splits)

definition put_task :: "Task \<Rightarrow> task_registry \<Rightarrow> task_registry" where
  "put_task k ts = dset ts (task_id k) k"

interpretation tasks: keyed_store get_task put_task task_id id "\<lambda>tid ts. dpop ts tid"
  by unfold_locales (simp_all add: get_task_def put_task_def)

text \<open>
  Clean-up removes exactly the stale tasks.  In a consistent registry a lookup after
  \<^verbatim>\<open>cleanup_old_tasks\<close> finds a task iff it was there and is not a completed or failed task
  created before the cut-off; pending and processing tasks are never removed.
\<close>

theorem cleanup_removes_exactly_stale:
  assumes "registry_ok ts"
  shows "get_task (cleanup_old_tasks now h ts) tid =
    (case get_task ts tid of
       None \<Rightarrow> None
     | Some k \<Rightarrow>
         if task_created_at k < now - h * 3600000000 \<and> task_status k \<in> {TASK_COMPLETED, TASK_FAILED}
         then None else Some k)"
proof -
  have uniq: "k = k'" if "(tid, k) \<in> set ts" "(tid, k') \<in> set ts" for k k'
    using assms that eq_key_imp_eq_value unfolding registry_ok_def by metis
  let ?old = "map fst (filter (\<lambda>(tid, k). stale (now - h * 3600000000) k) ts)"
  have "get_task (cleanup_old_tasks now h ts) tid = (if tid \<in> set ?old then None else dget ts tid)"
    using tasks.dropped_keys [of ?old ts tid] by (simp only: get_task_def cleanup_old_tasks_def Let_def)
  moreover have "tid \<in> set ?old \<longleftrightarrow> (\<exists>k. dget ts tid = Some k \<and> stale (now - h * 3600000000) k)"
  proof
    assume "tid \<in> set ?old"
    then obtain k where "(tid, k) \<in> set ts" "stale (now - h * 3600000000) k"
      by auto
    then show "\<exists>k. dget ts tid = Some k \<and> stale (now - h * 3600000000) k"
      using assms by (auto simp: dget_def registry_ok_def)
  qed (force simp: dget_def dest: map_of_SomeD)
  ultimately show ?thesis
    by (auto simp: get_task_def stale_def split: option.splits)
qed

definition demo_registry :: task_registry where
  "demo_registry = foldl (task_step id) []
     [OpCreate (lit ''a'') 0 (lit ''graph_build'') None, OpComplete 5 (lit ''a'') [],
      OpCreate (lit ''b'') 0 (lit ''graph_build'') None]"

theorem cleanup_removes_exactly_stale_witness:
  "get_task (cleanup_old_tasks 86400000001 24 demo_registry) (lit ''a'') = None \<and>
   get_task (cleanup_old_tasks 86400000001 24 demo_registry) (lit ''b'') \<noteq> None"
proof -
  have "registry_ok demo_registry"
    unfolding demo_registry_def by (rule registry_ok_run) (simp add: registry_ok_def)
  from cleanup_removes_exactly_stale [OF this] show ?thesis
    by (simp add: demo_registry_def create_task_def complete_task_def update_task_def apply_update_def
        assign_def get_task_def)
qed

text \<open>
  Listing.  \<^verbatim>\<open>list_tasks\<close> with a task type renders exactly the tasks of that type, newest first.
\<close>

theorem list_tasks_sorted_filter:
  "\<exists>ks. list_tasks isofmt (Some ty) ts = map (task_to_dict isofmt) ks
     \<and> sorted_wrt (\<lambda>a b. task_created_at b \<le> task_created_at a) ks
     \<and> mset ks = mset (if ty = [] then map snd ts else filter (\<lambda>k. task_type k = ty) (map snd ts))"
proof -
  let ?sel = "if ty = [] then map snd ts else filter (\<lambda>k. task_type k = ty) (map snd ts)"
  have "list_tasks isofmt (Some ty) ts = map (task_to_dict isofmt) (sorted_desc task_created_at ?sel)"
    by (simp add: list_tasks_def)
  then show ?thesis
    using sorted_desc_sorted [of task_created_at ?sel] mset_sorted_desc [of task_created_at ?sel] by blast
qed

end
