(* ===== verification/Agent_Activity.thy ===== *)
theory Agent_Activity
  imports Prelude
begin

text \<open>
  Agent activities and the episode texts made of them: \<^verbatim>\<open>AgentActivity\<close> and
  \<^verbatim>\<open>ZepGraphMemoryUpdater._build_episode_payloads\<close> of
  \<^verbatim>\<open>app/services/zep_graph_memory_updater.py\<close>.

  The fields of an activity come unchecked from a JSON log line, so they are JSON values.  The
  text of a value inside an f-string is \<open>fmt rp v\<close>, where \<open>rp\<close> stands for Python's rendering
  of floats and containers.  Chinese literals are lists of code points.
\<close>

section \<open>Rendering values\<close>

definition fmt :: "(pyval \<Rightarrow> pystr) \<Rightarrow> pyval \<Rightarrow> pystr" where
  "fmt rp v = (case v of PyStr s \<Rightarrow> s | PyInt i \<Rightarrow> int_str i
     | PyBool b \<Rightarrow> (if b then lit ''True'' else lit ''False'') | PyNone \<Rightarrow> lit ''None'' | _ \<Rightarrow> rp v)"

text \<open>\<^verbatim>\<open>d.get(k, "")\<close> and \<^verbatim>\<open>d.get(k, "") or d.get(k2, "")\<close>.\<close>

definition arg :: "pydict \<Rightarrow> string \<Rightarrow> pyval" where
  "arg d k = dget_or d (lit k) (PyStr [])"

definition arg_or :: "pydict \<Rightarrow> string \<Rightarrow> string \<Rightarrow> pyval" where
  "arg_or d k k2 = (if truthy (arg d k) then arg d k else arg d k2)"

section \<open>Activities\<close>

record AgentActivity =
  act_platform :: pystr
  act_agent_id :: pyval
  act_agent_name :: pyval
  act_action_type :: pyval
  act_action_args :: pyval
  act_round_num :: pyval
  act_timestamp :: pyval

text \<open>
  The sentence shape shared by likes, dislikes and reposts: a verb, then the author and the
  quoted content when they are present.
\<close>

definition about_content :: "(pyval \<Rightarrow> pystr) \<Rightarrow> pystr \<Rightarrow> pystr \<Rightarrow> pyval \<Rightarrow> pyval \<Rightarrow> pystr" where
  "about_content rp verb noun content author =
     (if truthy content \<and> truthy author
      then verb @ fmt rp author @ [30340] @ noun @ [65306, 12300] @ fmt rp content @ [12301]
      else if truthy content then verb @ [19968, 26465] @ noun @ [65306, 12300] @ fmt rp content @ [12301]
      else if truthy author then verb @ fmt rp author @ [30340, 19968, 26465] @ noun
      else verb @ [19968, 26465] @ noun)"

definition zh_post :: pystr where
  "zh_post = [24086, 23376]"

definition zh_comment :: pystr where
  "zh_comment = [35780, 35770]"

definition describe_create_post :: "(pyval \<Rightarrow> pystr) \<Rightarrow> pydict \<Rightarrow> pystr" where
  "describe_create_post rp d =
     (let content = arg d ''content''
      in if truthy content then [21457, 24067, 20102, 19968, 26465, 24086, 23376, 65306, 12300] @ fmt rp content @ [12301]
         else [21457, 24067, 20102, 19968, 26465, 24086, 23376])"

definition describe_like_post :: "(pyval \<Rightarrow> pystr) \<Rightarrow> pydict \<Rightarrow> pystr" where
  "describe_like_post rp d =
     about_content rp ([28857, 36190, 20102]) zh_post (arg d ''post_content'') (arg d ''post_author_name'')"

definition describe_dislike_post :: "(pyval \<Rightarrow> pystr) \<Rightarrow> pydict \<Rightarrow> pystr" where
  "describe_dislike_post rp d =
     about_content rp ([36393, 20102]) zh_post (arg d ''post_content'') (arg d ''post_author_name'')"

definition describe_repost :: "(pyval \<Rightarrow> pystr) \<Rightarrow> pydict \<Rightarrow> pystr" where
  "describe_repost rp d =
     about_content rp ([36716, 21457, 20102]) zh_post (arg d ''original_content'') (arg d ''original_author_name'')"

definition describe_quote_post :: "(pyval \<Rightarrow> pystr) \<Rightarrow> pydict \<Rightarrow> pystr" where
  "describe_quote_post rp d =
     (let content = arg d ''original_content''; author = arg d ''original_author_name'';
          quote_content = arg_or d ''quote_content'' ''content'';
          base = (if truthy content \<and> truthy author
                  then [24341, 29992, 20102] @ fmt rp author @ [30340, 24086, 23376, 12300] @ fmt rp content @ [12301]
                  else if truthy content then [24341, 29992, 20102, 19968, 26465, 24086, 23376, 12300] @ fmt rp content @ [12301]
                  else if truthy author then [24341, 29992, 20102] @ fmt rp author @ [30340, 19968, 26465, 24086, 23376]
                  else [24341, 29992, 20102, 19968, 26465, 24086, 23376])
      in if truthy quote_content then base @ [65292, 24182, 35780, 35770, 36947, 65306, 12300] @ fmt rp quote_content @ [12301]
         else base)"

definition describe_follow :: "(pyval \<Rightarrow> pystr) \<Rightarrow> pydict \<Rightarrow> pystr" where
  "describe_follow rp d =
     (let target = arg d ''target_user_name''
      in if truthy target then [20851, 27880, 20102, 29992, 25143, 12300] @ fmt rp target @ [12301] else [20851, 27880, 20102, 19968, 20010, 29992, 25143])"

definition describe_create_comment :: "(pyval \<Rightarrow> pystr) \<Rightarrow> pydict \<Rightarrow> pystr" where
  "describe_create_comment rp d =
     (let content = arg d ''content''; post_content = arg d ''post_content'';
          post_author = arg d ''post_author_name''
      in if truthy content
         then if truthy post_content \<and> truthy post_author
              then [22312] @ fmt rp post_author @ [30340, 24086, 23376, 12300] @ fmt rp post_content
                     @ [12301, 19979, 35780, 35770, 36947, 65306, 12300] @ fmt rp content @ [12301]
              else if truthy post_content
              then [22312, 24086, 23376, 12300] @ fmt rp post_content @ [12301, 19979, 35780, 35770, 36947, 65306, 12300] @ fmt rp content @ [12301]
              else if truthy post_author
              then [22312] @ fmt rp post_author @ [30340, 24086, 23376, 19979, 35780, 35770, 36947, 65306, 12300] @ fmt rp content @ [12301]
              else [35780, 35770, 36947, 65306, 12300] @ fmt rp content @ [12301]
         else [21457, 34920, 20102, 35780, 35770])"

definition describe_like_comment :: "(pyval \<Rightarrow> pystr) \<Rightarrow> pydict \<Rightarrow> pystr" where
  "describe_like_comment rp d =
     about_content rp ([28857, 36190, 20102]) zh_comment (arg d ''comment_content'') (arg d ''comment_author_name'')"

definition describe_dislike_comment :: "(pyval \<Rightarrow> pystr) \<Rightarrow> pydict \<Rightarrow> pystr" where
  "describe_dislike_comment rp d =
     about_content rp ([36393, 20102]) zh_comment (arg d ''comment_content'') (arg d ''comment_author_name'')"

definition describe_search :: "(pyval \<Rightarrow> pystr) \<Rightarrow> pydict \<Rightarrow> pystr" where
  "describe_search rp d =
     (let query = arg_or d ''query'' ''keyword''
      in if truthy query then [25628, 32034, 20102, 12300] @ fmt rp query @ [12301] else [36827, 34892, 20102, 25628, 32034])"

definition describe_search_user :: "(pyval \<Rightarrow> pystr) \<Rightarrow> pydict \<Rightarrow> pystr" where
  "describe_search_user rp d =
     (let query = arg_or d ''query'' ''username''
      in if truthy query then [25628, 32034, 20102, 29992, 25143, 12300] @ fmt rp query @ [12301] else [25628, 32034, 20102, 29992, 25143])"

definition describe_mute :: "(pyval \<Rightarrow> pystr) \<Rightarrow> pydict \<Rightarrow> pystr" where
  "describe_mute rp d =
     (let target = arg d ''target_user_name''
      in if truthy target then [23631, 34109, 20102, 29992, 25143, 12300] @ fmt rp target @ [12301] else [23631, 34109, 20102, 19968, 20010, 29992, 25143])"

definition describe_generic :: "(pyval \<Rightarrow> pystr) \<Rightarrow> pyval \<Rightarrow> pystr" where
  "describe_generic rp action_type = [25191, 34892, 20102] @ fmt rp action_type @ [25805, 20316]"

definition action_descriptions :: "(pyval \<Rightarrow> pystr) \<Rightarrow> (pystr \<times> (pydict \<Rightarrow> pystr)) list" where
  "action_descriptions rp =
     [(lit ''CREATE_POST'', describe_create_post rp), (lit ''LIKE_POST'', describe_like_post rp),
      (lit ''DISLIKE_POST'', describe_dislike_post rp), (lit ''REPOST'', describe_repost rp),
      (lit ''QUOTE_POST'', describe_quote_post rp), (lit ''FOLLOW'', describe_follow rp),
      (lit ''CREATE_COMMENT'', describe_create_comment rp), (lit ''LIKE_COMMENT'', describe_like_comment rp),
      (lit ''DISLIKE_COMMENT'', describe_dislike_comment rp), (lit ''SEARCH_POSTS'', describe_search rp),
      (lit ''SEARCH_USER'', describe_search_user rp), (lit ''MUTE'', describe_mute rp)]"

text \<open>
  The dispatch: a list or a dict as action type is unhashable; a described action type reads
  \<^verbatim>\<open>action_args\<close>, which raises \<^verbatim>\<open>AttributeError\<close> unless it is a dict; any other action type
  gets the generic description.
\<close>

definition hashable :: "pyval \<Rightarrow> bool" where
  "hashable v = (case v of PyList _ \<Rightarrow> False | PyDict _ \<Rightarrow> False | _ \<Rightarrow> True)"

definition describe :: "(pyval \<Rightarrow> pystr) \<Rightarrow> AgentActivity \<Rightarrow> pystr res" where
  "describe rp a =
     (if \<not> hashable (act_action_type a) then Inl (Exn TypeErr (lit ''unhashable type''))
      else
        (case (case act_action_type a of PyStr s \<Rightarrow> dget (action_descriptions rp) s | _ \<Rightarrow> None) of
           None \<Rightarrow> Inr (describe_generic rp (act_action_type a))
         | Some describe_func \<Rightarrow>
             (case act_action_args a of
                PyDict d \<Rightarrow> Inr (describe_func d)
              | _ \<Rightarrow> Inl (Exn AttributeErr (lit ''object has no attribute get'')))))"

definition to_episode_text :: "(pyval \<Rightarrow> pystr) \<Rightarrow> AgentActivity \<Rightarrow> pystr res" where
  "to_episode_text rp a =
     bind_res (describe rp a) (\<lambda>description.
       Inr (lit ''['' @ fmt rp (act_timestamp a) @ lit ''] ['' @ act_platform a @ lit '' round ''
            @ fmt rp (act_round_num a) @ lit ''] '' @ fmt rp (act_agent_name a) @ lit '': '' @ description))"

definition described_types :: "pystr list" where
  "described_types = map fst (action_descriptions (\<lambda>_. []))"

definition describable :: "AgentActivity \<Rightarrow> bool" where
  "describable a =
     (case act_action_type a of
        PyStr s \<Rightarrow> s \<in> set described_types \<longrightarrow> (case act_action_args a of PyDict _ \<Rightarrow> True | _ \<Rightarrow> False)
      | v \<Rightarrow> hashable v)"

lemma dget_action_descriptions_None:
  "dget (action_descriptions rp) s = None \<longleftrightarrow> s \<notin> set described_types"
  by (simp add: action_descriptions_def described_types_def)

lemma to_episode_text_ok_iff: "is_ok (to_episode_text rp a) \<longleftrightarrow> describable a"
proof -
  have "is_ok (to_episode_text rp a) \<longleftrightarrow> is_ok (describe rp a)"
    by (cases "describe rp a") (simp_all add: to_episode_text_def)
  also have "\<dots> \<longleftrightarrow> describable a"
  proof (cases "act_action_type a")
    case (PyStr s)
    then show ?thesis
      using dget_action_descriptions_None [of rp s]
      by (cases "dget (action_descriptions rp) s"; cases "act_action_args a")
         (simp_all add: describe_def describable_def hashable_def)
  qed (simp_all add: describe_def describable_def hashable_def)
  finally show ?thesis .
qed

section \<open>Episode payloads\<close>

definition BATCH_SIZE :: nat where
  "BATCH_SIZE = 5"

definition MAX_EPISODE_CHARS :: nat where
  "MAX_EPISODE_CHARS = 9500"

definition truncation_marker :: pystr where
  "truncation_marker = lit ''... [truncated by Robin Swarm]''"

definition clip_text :: "pystr \<Rightarrow> pystr" where
  "clip_text tx =
     (if MAX_EPISODE_CHARS < length tx
      then py_slice tx 0 (int MAX_EPISODE_CHARS - int (length truncation_marker)) @ truncation_marker
      else tx)"

type_synonym payload = "AgentActivity list \<times> pystr"

definition close_payload :: "payload list \<Rightarrow> AgentActivity list \<Rightarrow> pystr list \<Rightarrow> payload list" where
  "close_payload payloads acts lines = payloads @ [(acts, py_join [10] lines)]"

fun payload_loop ::
  "(pyval \<Rightarrow> pystr) \<Rightarrow> payload list \<Rightarrow> AgentActivity list \<Rightarrow> pystr list \<Rightarrow> nat \<Rightarrow> AgentActivity list \<Rightarrow> payload list res"
where
  "payload_loop rp payloads acts lines len [] =
     Inr (if lines \<noteq> [] then close_payload payloads acts lines else payloads)"
| "payload_loop rp payloads acts lines len (a # rest) =
     (case to_episode_text rp a of
        Inl e \<Rightarrow> Inl e
      | Inr raw \<Rightarrow>
          (let tx = clip_text raw;
               projected = len + (if lines \<noteq> [] then 1 else 0) + length tx
           in if lines \<noteq> [] \<and> MAX_EPISODE_CHARS < projected
              then payload_loop rp (close_payload payloads acts lines) [a] [tx] (length tx) rest
              else payload_loop rp payloads (acts @ [a]) (lines @ [tx])
                     (len + (if lines \<noteq> [] then 1 else 0) + length tx) rest))"

definition build_episode_payloads :: "(pyval \<Rightarrow> pystr) \<Rightarrow> AgentActivity list \<Rightarrow> payload list res" where
  "build_episode_payloads rp activities = payload_loop rp [] [] [] 0 activities"

lemma length_clip_text: "length (clip_text tx) \<le> MAX_EPISODE_CHARS"
proof -
  have "py_slice tx 0 (int MAX_EPISODE_CHARS - int (length truncation_marker)) = take 9470 tx"
    using py_slice_nat [of tx 0 9470]
    by (simp add: MAX_EPISODE_CHARS_def truncation_marker_def)
  then show ?thesis
    by (simp add: clip_text_def MAX_EPISODE_CHARS_def truncation_marker_def)
qed

definition episode_line :: "(pyval \<Rightarrow> pystr) \<Rightarrow> AgentActivity \<Rightarrow> pystr res" where
  "episode_line rp a = bind_res (to_episode_text rp a) (\<lambda>t. Inr (clip_text t))"

text \<open>What a payload must be: a non-empty run of activities, one clipped line each, within the limit.\<close>

definition payload_ok :: "(pyval \<Rightarrow> pystr) \<Rightarrow> payload \<Rightarrow> bool" where
  "payload_ok rp = (\<lambda>(acts, tx). acts \<noteq> [] \<and> length tx \<le> MAX_EPISODE_CHARS \<and>
     (case map_res (episode_line rp) acts of Inl _ \<Rightarrow> False | Inr lines \<Rightarrow> tx = py_join [10] lines))"

lemma map_res_snoc:
  "map_res f xs = Inr ys \<Longrightarrow> f x = Inr y \<Longrightarrow> map_res f (xs @ [x]) = Inr (ys @ [y])"
  by (induction xs arbitrary: ys) (auto split: sum.splits)

lemma length_py_join_snoc:
  "length (py_join [10] (lines @ [t])) = length (py_join [10] lines) + (if lines \<noteq> [] then 1 else 0) + length t"
  by (cases "lines = []") (simp_all add: py_join_snoc)

lemma payload_loop_spec:
  assumes "payload_loop rp payloads acts lines len rest = Inr ps"
    and "map_res (episode_line rp) acts = Inr lines"
    and "len = length (py_join [10] lines)" and "len \<le> MAX_EPISODE_CHARS"
    and "\<forall>p \<in> set payloads. payload_ok rp p"
  shows "concat (map fst ps) = concat (map fst payloads) @ acts @ rest \<and> (\<forall>p \<in> set ps. payload_ok rp p)"
  using assms
proof (induction rp payloads acts lines len rest arbitrary: ps rule: payload_loop.induct)
  case (1 rp payloads acts lines len)
  have "acts = [] \<longleftrightarrow> lines = []"
    using length_map_res [OF "1.prems"(2)] by auto
  then show ?case
    using "1.prems" by (auto simp: close_payload_def payload_ok_def)
next
  case (2 rp payloads acts lines len a rest)
  obtain raw where raw: "to_episode_text rp a = Inr raw"
    using "2.prems"(1) by (cases "to_episode_text rp a") simp_all
  define tx where "tx = clip_text raw"
  have line: "episode_line rp a = Inr tx"
    by (simp add: episode_line_def raw tx_def)
  have le: "length tx \<le> MAX_EPISODE_CHARS"
    by (simp add: tx_def length_clip_text)
  let ?new = "len + (if lines \<noteq> [] then 1 else 0) + length tx"
  show ?case
  proof (cases "lines \<noteq> [] \<and> MAX_EPISODE_CHARS < ?new")
    case True
    have "acts \<noteq> []"
      using length_map_res [OF "2.prems"(2)] True by auto
    then have ok: "\<forall>p \<in> set (close_payload payloads acts lines). payload_ok rp p"
      using "2.prems" by (auto simp: close_payload_def payload_ok_def)
    have run: "payload_loop rp (close_payload payloads acts lines) [a] [tx] (length tx) rest = Inr ps"
      using "2.prems"(1) raw True by (auto simp: tx_def Let_def)
    have "concat (map fst ps) = concat (map fst (close_payload payloads acts lines)) @ [a] @ rest
        \<and> (\<forall>p \<in> set ps. payload_ok rp p)"
      by (rule "2.IH"(1) [OF raw tx_def refl True run]) (simp_all add: line le ok)
    then show ?thesis by (simp add: close_payload_def)
  next
    case False
    have run: "payload_loop rp payloads (acts @ [a]) (lines @ [tx]) ?new rest = Inr ps"
      using "2.prems"(1) raw False by (auto simp: tx_def Let_def)
    have "concat (map fst ps) = concat (map fst payloads) @ (acts @ [a]) @ rest \<and> (\<forall>p \<in> set ps. payload_ok rp p)"
    proof (rule "2.IH"(2) [OF raw tx_def refl False run])
      show "map_res (episode_line rp) (acts @ [a]) = Inr (lines @ [tx])"
        by (rule map_res_snoc [OF "2.prems"(2) line])
      show "?new = length (py_join [10] (lines @ [tx]))"
        using "2.prems"(3) by (simp add: length_py_join_snoc)
      show "?new \<le> MAX_EPISODE_CHARS"
        using False le "2.prems"(3) by (cases "lines = []") auto
    qed (rule "2.prems"(5))
    then show ?thesis by simp
  qed
qed

lemma payload_loop_ok_iff:
  "is_ok (payload_loop rp payloads acts lines len rest) \<longleftrightarrow> (\<forall>a \<in> set rest. describable a)"
proof (induction rp payloads acts lines len rest rule: payload_loop.induct)
  case (2 rp payloads acts lines len a rest)
  show ?case
    using 2 to_episode_text_ok_iff [of rp a]
    by (cases "to_episode_text rp a") (auto simp: Let_def)
qed simp

text \<open>
  C23: Episode payloads.  Building the payloads succeeds exactly when every activity can be
  described; the payloads then split the activities into consecutive non-empty runs without
  losing, duplicating or reordering any, each text is the newline-joined clipped lines of its
  run, and no text is longer than \<^verbatim>\<open>MAX_EPISODE_CHARS\<close>.
\<close>

theorem build_episode_payloads_spec:
  "(case build_episode_payloads rp acts of
      Inl e \<Rightarrow> \<not> list_all describable acts
    | Inr ps \<Rightarrow> list_all describable acts \<and> concat (map fst ps) = acts \<and> list_all (payload_ok rp) ps)"
proof -
  have "is_ok (build_episode_payloads rp acts) \<longleftrightarrow> list_all describable acts"
    unfolding build_episode_payloads_def payload_loop_ok_iff by (simp add: list_all_iff)
  moreover have "concat (map fst ps) = acts \<and> list_all (payload_ok rp) ps"
    if "build_episode_payloads rp acts = Inr ps" for ps
    using payload_loop_spec [of rp "[]" "[]" "[]" 0 acts ps] that
    by (simp add: build_episode_payloads_def list_all_iff)
  ultimately show ?thesis
    by (cases "build_episode_payloads rp acts") auto
qed

end
