(* ===== verification/Memory_Updater.thy ===== *)
theory Memory_Updater
  imports Agent_Activity Zep_Access
begin

text \<open>
  The graph memory updater of \<^verbatim>\<open>app/services/zep_graph_memory_updater.py\<close>: a producer queue, a
  worker thread that batches activities per platform and submits them to Zep, and the drain
  that \<^verbatim>\<open>stop()\<close> performs.

  The object is the record \<open>ZepGraphMemoryUpdater\<close>.  The worker thread is a program counter in
  that record and \<open>worker_step\<close> its next atomic action; producers, the worker and \<^verbatim>\<open>stop()\<close>
  interleave in the relation \<open>updater_run\<close>.  Zep, the clock and Python's text conversions are
  the fields of an environment \<open>'w updater_env\<close> over an arbitrary world \<open>'w\<close>.
\<close>

section \<open>Environment\<close>

record add_request =
  req_graph_id :: pystr
  req_data :: pystr
  req_created_at :: pystr
  req_metadata :: pydict

record episode =
  ep_uuid_attr :: "pystr option"
  ep_uuid :: "pystr option"

record 'w updater_env =
  env_graph_add :: "add_request \<Rightarrow> ('w, episode) action"
  env_episode_get :: "pystr \<Rightarrow> ('w, bool) action"
  env_time :: "'w \<Rightarrow> rat \<times> 'w"
  env_sleep :: "rat \<Rightarrow> 'w \<Rightarrow> 'w"
  env_float :: "pystr \<Rightarrow> rat option"
  env_repr :: "pyval \<Rightarrow> pystr"
  env_rfc3339 :: "pystr \<Rightarrow> pystr option"
  env_now :: "'w \<Rightarrow> pystr"

section \<open>Comparing JSON values\<close>

fun py_num :: "pyval \<Rightarrow> rat option" where
  "py_num (PyBool b) = Some (if b then 1 else 0)"
| "py_num (PyInt i) = Some (of_int i)"
| "py_num (PyFloat q) = Some q"
| "py_num _ = None"

text \<open>\<^verbatim>\<open>a == b\<close> and \<^verbatim>\<open>a < b\<close>; \<open>None\<close> is a \<^verbatim>\<open>TypeError\<close>.\<close>

function (sequential) py_eq :: "pyval \<Rightarrow> pyval \<Rightarrow> bool" and py_eq_list :: "pyval list \<Rightarrow> pyval list \<Rightarrow> bool"
  and py_eq_items :: "(pystr \<times> pyval) list \<Rightarrow> (pystr \<times> pyval) list \<Rightarrow> bool" where
  "py_eq PyNone PyNone = True"
| "py_eq (PyStr s) (PyStr t) = (s = t)"
| "py_eq (PyList xs) (PyList ys) = py_eq_list xs ys"
| "py_eq (PyDict d) (PyDict e) = (length d = length e \<and> py_eq_items d e)"
| "py_eq a b = (py_num a \<noteq> None \<and> py_num a = py_num b)"
| "py_eq_list [] [] = True"
| "py_eq_list (x # xs) (y # ys) = (py_eq x y \<and> py_eq_list xs ys)"
| "py_eq_list _ _ = False"
| "py_eq_items [] e = True"
| "py_eq_items ((k, v) # d) e =
     ((case map_of e k of None \<Rightarrow> False | Some w \<Rightarrow> py_eq v w) \<and> py_eq_items d e)"
  by pat_completeness auto
termination
  by (relation "measure (\<lambda>p. case p of Inl (a, b) \<Rightarrow> size a
        | Inr (Inl (xs, ys)) \<Rightarrow> size_list size xs
        | Inr (Inr (d, e)) \<Rightarrow> size_list (size_prod (\<lambda>_. 0) size) d)") (auto simp: size_list_conv_sum_list)

fun py_lt :: "pyval \<Rightarrow> pyval \<Rightarrow> bool option" and py_lt_list :: "pyval list \<Rightarrow> pyval list \<Rightarrow> bool option" where
  "py_lt (PyStr s) (PyStr t) = Some (s < t)"
| "py_lt (PyList xs) (PyList ys) = py_lt_list xs ys"
| "py_lt a b = (case (py_num a, py_num b) of (Some x, Some y) \<Rightarrow> Some (x < y) | _ \<Rightarrow> None)"
| "py_lt_list [] [] = Some False"
| "py_lt_list [] (y # ys) = Some True"
| "py_lt_list (x # xs) [] = Some False"
| "py_lt_list (x # xs) (y # ys) = (if py_eq x y then py_lt_list xs ys else py_lt x y)"


definition TypeError :: exn where
  "TypeError = Exn TypeErr (lit ''unsupported operand types'')"

text \<open>\<^verbatim>\<open>min(...)\<close> and \<^verbatim>\<open>max(...)\<close> of a non-empty sequence, comparing from the left.\<close>

fun py_min_from :: "pyval \<Rightarrow> pyval list \<Rightarrow> pyval res" where
  "py_min_from m [] = Inr m"
| "py_min_from m (v # vs) =
     (case py_lt v m of None \<Rightarrow> Inl TypeError | Some b \<Rightarrow> py_min_from (if b then v else m) vs)"

fun py_max_from :: "pyval \<Rightarrow> pyval list \<Rightarrow> pyval res" where
  "py_max_from m [] = Inr m"
| "py_max_from m (v # vs) =
     (case py_lt m v of None \<Rightarrow> Inl TypeError | Some b \<Rightarrow> py_max_from (if b then v else m) vs)"

text \<open>
  \<^verbatim>\<open>sorted({...})\<close>: unhashable members raise; equal members collapse to the first; a set of two
  or more members sorts when all are numbers or all are strings and raises otherwise.
\<close>

fun py_dedup :: "pyval list \<Rightarrow> pyval list \<Rightarrow> pyval list" where
  "py_dedup acc [] = acc"
| "py_dedup acc (v # vs) = (if list_ex (\<lambda>a. py_eq a v) acc then py_dedup acc vs else py_dedup (acc @ [v]) vs)"

fun str_of :: "pyval \<Rightarrow> pystr option" where
  "str_of (PyStr s) = Some s"
| "str_of _ = None"

definition sorted_set :: "pyval list \<Rightarrow> pyval list res" where
  "sorted_set vs =
     (if \<not> list_all hashable vs then Inl TypeError
      else let s = py_dedup [] vs in
        if length s \<le> 1 then Inr s
        else if list_all (\<lambda>v. py_num v \<noteq> None) s then Inr (sort_key (\<lambda>v. the (py_num v)) s)
        else if list_all (\<lambda>v. str_of v \<noteq> None) s then Inr (sort_key (\<lambda>v. the (str_of v)) s)
        else Inl TypeError)"

section \<open>The updater object\<close>

record failed_batch =
  fb_platform :: pystr
  fb_activities :: "AgentActivity list"
  fb_error :: pystr

datatype worker =
    NoWorker
  | WorkerLoop
  | WorkerHolding AgentActivity
  | WorkerSending "AgentActivity list" pystr
  | WorkerDone

record ZepGraphMemoryUpdater =
  up_graph_id :: pystr
  up_simulation_id :: pystr
  up_queue :: "AgentActivity list"
  up_buffers :: "(pystr \<times> AgentActivity list) list"
  up_running :: bool
  up_worker :: worker
  up_total_activities :: nat
  up_total_sent :: nat
  up_total_items_sent :: nat
  up_failed_count :: nat
  up_skipped_count :: nat
  up_failed_batches :: "failed_batch list"
  up_pending :: "pystr list"

definition fresh_updater :: "pystr \<Rightarrow> pystr \<Rightarrow> ZepGraphMemoryUpdater" where
  "fresh_updater graph_id simulation_id =
     \<lparr>up_graph_id = graph_id, up_simulation_id = simulation_id, up_queue = [],
      up_buffers = [(lit ''twitter'', []), (lit ''reddit'', [])], up_running = False,
      up_worker = NoWorker, up_total_activities = 0, up_total_sent = 0, up_total_items_sent = 0,
      up_failed_count = 0, up_skipped_count = 0, up_failed_batches = [], up_pending = []\<rparr>"

definition new_updater :: "pystr option \<Rightarrow> pystr option \<Rightarrow> pystr \<Rightarrow> pystr option \<Rightarrow> ZepGraphMemoryUpdater res" where
  "new_updater env_url config_key graph_id simulation_id =
     (case or_str None config_key of
        None \<Rightarrow> Inl (Exn ValueError (lit ''ZEP_API_KEY'' @ [26410, 37197, 32622]))
      | Some [] \<Rightarrow> Inl (Exn ValueError (lit ''ZEP_API_KEY'' @ [26410, 37197, 32622]))
      | Some api_key \<Rightarrow>
          bind_res (get_zep_client env_url config_key (Some api_key) None) (\<lambda>_.
            Inr (fresh_updater graph_id
              (case or_str simulation_id None of Some s \<Rightarrow> s | None \<Rightarrow> lit ''unknown''))))"

definition platform_display_name :: "pystr \<Rightarrow> pystr" where
  "platform_display_name platform =
     dget_or [(lit ''twitter'', [19990, 30028] @ lit ''1''), (lit ''reddit'', [19990, 30028] @ lit ''2'')] (py_lower platform) platform"

definition worker_alive :: "ZepGraphMemoryUpdater \<Rightarrow> bool" where
  "worker_alive u \<longleftrightarrow> up_worker u \<noteq> NoWorker \<and> up_worker u \<noteq> WorkerDone"

definition start_updater :: "ZepGraphMemoryUpdater \<Rightarrow> ZepGraphMemoryUpdater" where
  "start_updater u = (if up_running u then u else u\<lparr>up_running := True, up_worker := WorkerLoop\<rparr>)"

definition add_activity :: "AgentActivity \<Rightarrow> ZepGraphMemoryUpdater \<Rightarrow> unit res \<times> ZepGraphMemoryUpdater" where
  "add_activity a u =
     (if act_action_type a = PyStr (lit ''DO_NOTHING'')
      then (Inr (), u\<lparr>up_skipped_count := up_skipped_count u + 1\<rparr>)
      else if \<not> up_running u then (Inl (Exn RuntimeErr (lit ''Zep graph updater is not running'')), u)
      else (Inr (), u\<lparr>up_queue := up_queue u @ [a], up_total_activities := up_total_activities u + 1\<rparr>))"

definition activity_of_dict :: "pystr \<Rightarrow> pydict \<Rightarrow> pystr \<Rightarrow> AgentActivity" where
  "activity_of_dict now data platform =
     \<lparr>act_platform = platform,
      act_agent_id = dget_or data (lit ''agent_id'') (PyInt 0),
      act_agent_name = dget_or data (lit ''agent_name'') (PyStr []),
      act_action_type = dget_or data (lit ''action_type'') (PyStr []),
      act_action_args = dget_or data (lit ''action_args'') (PyDict []),
      act_round_num = dget_or data (lit ''round'') (PyInt 0),
      act_timestamp = dget_or data (lit ''timestamp'') (PyStr now)\<rparr>"

definition add_activity_from_dict ::
  "pystr \<Rightarrow> pydict \<Rightarrow> pystr \<Rightarrow> ZepGraphMemoryUpdater \<Rightarrow> unit res \<times> ZepGraphMemoryUpdater" where
  "add_activity_from_dict now data platform u =
     (if dhas data (lit ''event_type'') then (Inr (), u)
      else if dget data (lit ''success'') = Some (PyBool False)
      then (Inr (), u\<lparr>up_skipped_count := up_skipped_count u + 1\<rparr>)
      else add_activity (activity_of_dict now data platform) u)"

section \<open>Submitting a batch\<close>

definition to_rfc3339 :: "(pystr \<Rightarrow> pystr option) \<Rightarrow> pystr \<Rightarrow> pyval \<Rightarrow> pystr" where
  "to_rfc3339 rfc now v =
     (case v of
        PyStr s \<Rightarrow>
          (case rfc (concat (map (\<lambda>c. if c = 90 then lit ''+00:00'' else [c]) s)) of
             Some t \<Rightarrow> t | None \<Rightarrow> now)
      | _ \<Rightarrow> now)"

definition batch_metadata ::
  "(pyval \<Rightarrow> pystr) \<Rightarrow> pystr \<Rightarrow> pystr \<Rightarrow> AgentActivity list \<Rightarrow> pydict res" where
  "batch_metadata rp simulation_id platform acts =
     (let rounds = map act_round_num acts in
      bind_res (py_min_from (hd rounds) (tl rounds)) (\<lambda>first_round.
      bind_res (py_max_from (hd rounds) (tl rounds)) (\<lambda>last_round.
      bind_res (sorted_set (map act_agent_id acts)) (\<lambda>ids.
      bind_res (sorted_set (map act_action_type acts)) (\<lambda>types.
        (let named = filter truthy types in
         if \<not> list_all (\<lambda>v. str_of v \<noteq> None) named then Inl TypeError
         else
           let joined = py_join (lit '','') (map (\<lambda>v. the (str_of v)) named) in
           Inr [(lit ''source'', PyStr (lit ''robin-swarm_simulation'')),
                (lit ''simulation_id'', PyStr simulation_id),
                (lit ''platform'', PyStr platform),
                (lit ''activity_count'', PyInt (int (length acts))),
                (lit ''first_round'', first_round),
                (lit ''last_round'', last_round),
                (lit ''agent_ids'', PyStr (py_join (lit '','') (map (fmt rp) ids))),
                (lit ''action_types'', PyStr (if joined = [] then lit ''unknown'' else joined))]))))))"

definition record_failure ::
  "pystr \<Rightarrow> AgentActivity list \<Rightarrow> exn \<Rightarrow> ZepGraphMemoryUpdater \<Rightarrow> ZepGraphMemoryUpdater" where
  "record_failure platform acts e u =
     u\<lparr>up_failed_count := up_failed_count u + 1,
       up_failed_batches := up_failed_batches u @
         [\<lparr>fb_platform = platform, fb_activities = acts, fb_error = exn_msg e\<rparr>]\<rparr>"

definition record_success ::
  "AgentActivity list \<Rightarrow> pystr \<Rightarrow> ZepGraphMemoryUpdater \<Rightarrow> ZepGraphMemoryUpdater" where
  "record_success acts uuid u =
     u\<lparr>up_pending := up_pending u @ [uuid],
       up_total_sent := up_total_sent u + 1,
       up_total_items_sent := up_total_items_sent u + length acts\<rparr>"

definition add_request_for ::
  "'w updater_env \<Rightarrow> ZepGraphMemoryUpdater \<Rightarrow> AgentActivity list \<Rightarrow> pystr \<Rightarrow> pydict \<Rightarrow> 'w \<Rightarrow> add_request" where
  "add_request_for env u acts combined_text md w =
     \<lparr>req_graph_id = up_graph_id u, req_data = combined_text,
      req_created_at = to_rfc3339 (env_rfc3339 env) (env_now env w) (act_timestamp (last acts)),
      req_metadata = md\<rparr>"

definition send_payload ::
  "'w updater_env \<Rightarrow> pystr \<Rightarrow> payload \<Rightarrow> ZepGraphMemoryUpdater \<Rightarrow> 'w \<Rightarrow> ZepGraphMemoryUpdater \<times> 'w" where
  "send_payload env platform p u w =
     (case p of (acts, combined_text) \<Rightarrow>
        (case batch_metadata (env_repr env) (up_simulation_id u) platform acts of
           Inl e \<Rightarrow> (record_failure platform acts e u, w)
         | Inr md \<Rightarrow>
             (case env_graph_add env (add_request_for env u acts combined_text md w) w of
                (Inl e, w') \<Rightarrow> (record_failure platform acts e u, w')
              | (Inr ep, w') \<Rightarrow>
                  (case or_str (ep_uuid_attr ep) (ep_uuid ep) of
                     Some uuid \<Rightarrow>
                       if uuid = []
                       then (record_failure platform acts
                               (Exn RuntimeErr (lit ''Zep graph.add returned no episode UUID'')) u, w')
                       else (record_success acts uuid u, w')
                   | None \<Rightarrow>
                       (record_failure platform acts
                          (Exn RuntimeErr (lit ''Zep graph.add returned no episode UUID'')) u, w')))))"

definition drain_msg :: pystr where
  "drain_msg = lit ''Zep updater drain deadline elapsed''"

fun send_payloads ::
  "'w updater_env \<Rightarrow> pystr \<Rightarrow> rat option \<Rightarrow> nat \<Rightarrow> payload list \<Rightarrow> ZepGraphMemoryUpdater \<Rightarrow> 'w \<Rightarrow>
   nat res \<times> ZepGraphMemoryUpdater \<times> 'w"
where
  "send_payloads env platform deadline processed [] u w = (Inr processed, u, w)"
| "send_payloads env platform deadline processed (p # ps) u w =
     (case (case deadline of
              None \<Rightarrow> (False, w)
            | Some d \<Rightarrow> (case env_time env w of (t, w') \<Rightarrow> (d \<le> t, w'))) of
        (True, w') \<Rightarrow> (Inl (Exn (DrainDeadlineExceeded processed) drain_msg), u, w')
      | (False, w') \<Rightarrow>
          (case send_payload env platform p u w' of
             (u', w'') \<Rightarrow> send_payloads env platform deadline (processed + length (fst p)) ps u' w''))"

definition send_batch_activities ::
  "'w updater_env \<Rightarrow> AgentActivity list \<Rightarrow> pystr \<Rightarrow> rat option \<Rightarrow> ZepGraphMemoryUpdater \<Rightarrow> 'w \<Rightarrow>
   nat res \<times> ZepGraphMemoryUpdater \<times> 'w"
where
  "send_batch_activities env acts platform deadline u w =
     (if acts = [] then (Inr 0, u, w)
      else
        (case build_episode_payloads (env_repr env) acts of
           Inl e \<Rightarrow> (Inl e, u, w)
         | Inr ps \<Rightarrow> send_payloads env platform deadline 0 ps u w))"

section \<open>The worker thread\<close>

definition buffer_of :: "ZepGraphMemoryUpdater \<Rightarrow> pystr \<Rightarrow> AgentActivity list" where
  "buffer_of u p = dget_or (up_buffers u) p []"

definition buffer_activity :: "AgentActivity \<Rightarrow> ZepGraphMemoryUpdater \<Rightarrow> ZepGraphMemoryUpdater" where
  "buffer_activity a u =
     (let p = py_lower (act_platform a)
      in u\<lparr>up_buffers := dset (up_buffers u) p (buffer_of u p @ [a])\<rparr>)"

definition worker_buffer :: "AgentActivity \<Rightarrow> ZepGraphMemoryUpdater \<Rightarrow> ZepGraphMemoryUpdater" where
  "worker_buffer a u =
     (let p = py_lower (act_platform a); u = buffer_activity a u; b = buffer_of u p
      in if BATCH_SIZE \<le> length b
         then u\<lparr>up_buffers := dset (up_buffers u) p (drop BATCH_SIZE b),
                up_worker := WorkerSending (take BATCH_SIZE b) p\<rparr>
         else u\<lparr>up_worker := WorkerLoop\<rparr>)"

definition SEND_INTERVAL :: rat where
  "SEND_INTERVAL = 1 / 2"

definition worker_step ::
  "'w updater_env \<Rightarrow> ZepGraphMemoryUpdater \<times> 'w \<Rightarrow> ZepGraphMemoryUpdater \<times> 'w" where
  "worker_step env uw =
     (case uw of (u, w) \<Rightarrow>
        (case up_worker u of
           WorkerLoop \<Rightarrow>
             if up_running u \<or> up_queue u \<noteq> []
             then (case up_queue u of
                     [] \<Rightarrow> (u, env_sleep env 1 w)
                   | a # q \<Rightarrow> (u\<lparr>up_queue := q, up_worker := WorkerHolding a\<rparr>, w))
             else (u\<lparr>up_worker := WorkerDone\<rparr>, w)
         | WorkerHolding a \<Rightarrow> (worker_buffer a u, w)
         | WorkerSending batch p \<Rightarrow>
             (case send_batch_activities env batch p None u w of
                (r, u', w') \<Rightarrow>
                  (u'\<lparr>up_worker := WorkerLoop\<rparr>, env_sleep env (if is_ok r then SEND_INTERVAL else 1) w'))
         | _ \<Rightarrow> (u, w)))"

section \<open>Draining\<close>

definition flush_queue :: "ZepGraphMemoryUpdater \<Rightarrow> ZepGraphMemoryUpdater" where
  "flush_queue u = fold buffer_activity (up_queue u) (u\<lparr>up_queue := []\<rparr>)"

definition drop_buffered :: "pystr \<Rightarrow> nat \<Rightarrow> ZepGraphMemoryUpdater \<Rightarrow> ZepGraphMemoryUpdater" where
  "drop_buffered p n u = u\<lparr>up_buffers := dset (up_buffers u) p (drop n (buffer_of u p))\<rparr>"

definition flush_platform ::
  "'w updater_env \<Rightarrow> rat \<Rightarrow> pystr \<Rightarrow> ZepGraphMemoryUpdater \<Rightarrow> 'w \<Rightarrow> unit res \<times> ZepGraphMemoryUpdater \<times> 'w"
where
  "flush_platform env deadline p u w =
     (if buffer_of u p = [] then (Inr (), u, w)
      else
        (case env_time env w of (t, w) \<Rightarrow>
           if deadline \<le> t
           then (Inl (Exn TimeoutErr (lit ''Zep updater drain deadline elapsed before flushing all activities'')), u, w)
           else
             (case send_batch_activities env (buffer_of u p) p (Some deadline) u w of
                (Inr processed, u', w') \<Rightarrow> (Inr (), drop_buffered p processed u', w')
              | (Inl (Exn (DrainDeadlineExceeded processed) msg), u', w') \<Rightarrow>
                  (Inl (Exn TimeoutErr msg), drop_buffered p processed u', w')
              | (Inl e, u', w') \<Rightarrow> (Inl e, u', w'))))"

fun flush_platforms ::
  "'w updater_env \<Rightarrow> rat \<Rightarrow> pystr list \<Rightarrow> ZepGraphMemoryUpdater \<Rightarrow> 'w \<Rightarrow> unit res \<times> ZepGraphMemoryUpdater \<times> 'w"
where
  "flush_platforms env deadline [] u w = (Inr (), u, w)"
| "flush_platforms env deadline (p # ps) u w =
     (case flush_platform env deadline p u w of
        (Inr _, u', w') \<Rightarrow> flush_platforms env deadline ps u' w'
      | (Inl e, u', w') \<Rightarrow> (Inl e, u', w'))"

definition flush_remaining ::
  "'w updater_env \<Rightarrow> rat \<Rightarrow> ZepGraphMemoryUpdater \<Rightarrow> 'w \<Rightarrow> unit res \<times> ZepGraphMemoryUpdater \<times> 'w" where
  "flush_remaining env deadline u w =
     (let u = flush_queue u in flush_platforms env deadline (map fst (up_buffers u)) u w)"

text \<open>
  Polling the submitted episodes.  The set of pending identifiers is kept as a list without
  duplicates; the order in which Python iterates it is not specified.
\<close>

fun poll_pending ::
  "'w updater_env \<Rightarrow> pystr list \<Rightarrow> pystr list \<Rightarrow> 'w \<Rightarrow> pystr list res \<times> 'w" where
  "poll_pending env [] pending w = (Inr pending, w)"
| "poll_pending env (uuid # uuids) pending w =
     (case call_zep_read_with_retry (env_float env) (env_sleep env) 3 2 60 (env_episode_get env uuid) w of
        (Inl e, w') \<Rightarrow> (Inl e, w')
      | (Inr processed, w') \<Rightarrow>
          poll_pending env uuids (if processed then remove1 uuid pending else pending) w')"

definition wait_timeout :: "nat \<Rightarrow> exn" where
  "wait_timeout n = Exn TimeoutErr (lit ''Zep simulation ingestion timed out with '' @ int_str (int n)
     @ lit '' episode(s) pending'')"

partial_function (option) wait_loop ::
  "'w updater_env \<Rightarrow> rat \<Rightarrow> pystr list \<Rightarrow> 'w \<Rightarrow> (unit res \<times> 'w) option" where
  "wait_loop env deadline pending w =
     (if pending = [] then Some (Inr (), w)
      else
        (case env_time env w of (t, w) \<Rightarrow>
           if deadline \<le> t then Some (Inl (wait_timeout (length pending)), w)
           else
             (case poll_pending env pending pending w of
                (Inl e, w') \<Rightarrow> Some (Inl e, w')
              | (Inr rest, w') \<Rightarrow>
                  wait_loop env deadline rest (if rest \<noteq> [] then env_sleep env 3 w' else w'))))"

definition wait_for_pending_episodes ::
  "'w updater_env \<Rightarrow> rat \<Rightarrow> ZepGraphMemoryUpdater \<Rightarrow> 'w \<Rightarrow> (unit res \<times> ZepGraphMemoryUpdater \<times> 'w) option" where
  "wait_for_pending_episodes env deadline u w =
     (let pending = remdups (up_pending u) in
      if pending = [] then Some (Inr (), u, w)
      else
        (case wait_loop env deadline pending w of
           None \<Rightarrow> None
         | Some (Inl e, w') \<Rightarrow> Some (Inl e, u, w')
         | Some (Inr _, w') \<Rightarrow> Some (Inr (), u\<lparr>up_pending := []\<rparr>, w')))"

definition incomplete_msg :: "nat \<Rightarrow> pystr" where
  "incomplete_msg n = int_str (int n) @
     lit '' Zep activity batch(es) failed; simulation graph ingestion is incomplete''"

definition drain ::
  "'w updater_env \<Rightarrow> rat \<Rightarrow> ZepGraphMemoryUpdater \<Rightarrow> 'w \<Rightarrow> (unit res \<times> ZepGraphMemoryUpdater \<times> 'w) option" where
  "drain env deadline u w =
     (case flush_remaining env deadline u w of
        (Inl e, u', w') \<Rightarrow> Some (Inl e, u', w')
      | (Inr _, u', w') \<Rightarrow>
          if up_failed_batches u' \<noteq> []
          then Some (Inl (Exn RuntimeErr (incomplete_msg (length (up_failed_batches u')))), u', w')
          else wait_for_pending_episodes env deadline u' w')"

definition close_acceptance :: "ZepGraphMemoryUpdater \<Rightarrow> ZepGraphMemoryUpdater" where
  "close_acceptance u = u\<lparr>up_running := False\<rparr>"

text \<open>
  \<^verbatim>\<open>stop()\<close>.  While the caller is blocked in \<^verbatim>\<open>join\<close> the worker makes \<open>k\<close> further steps, as many as
  the scheduler and the time-out allow; every statement about \<open>stop_drain\<close> holds for every \<open>k\<close>.
\<close>

definition round_half_even :: "rat \<Rightarrow> int" where
  "round_half_even q =
     (let f = \<lfloor>q\<rfloor>; r = q - of_int f
      in if r < 1 / 2 then f else if 1 / 2 < r then f + 1 else if even f then f else f + 1)"

definition join_timeout_msg :: "rat \<Rightarrow> pystr" where
  "join_timeout_msg q =
     lit ''Zep updater worker did not stop within '' @ int_str (round_half_even q) @ lit ''s''"

definition stop_drain ::
  "'w updater_env \<Rightarrow> nat \<Rightarrow> ZepGraphMemoryUpdater \<Rightarrow> 'w \<Rightarrow> (unit res \<times> ZepGraphMemoryUpdater \<times> 'w) option" where
  "stop_drain env k u w =
     (case env_time env w of (t, w) \<Rightarrow>
        let deadline = t + ZEP_INGESTION_WAIT_TIMEOUT_SECONDS; u = close_acceptance u in
        if worker_alive u
        then (case env_time env w of (t', w) \<Rightarrow>
               (case (worker_step env ^^ k) (u, w) of (u', w') \<Rightarrow>
                  if worker_alive u'
                  then Some (Inl (Exn TimeoutErr (join_timeout_msg (max 0 (deadline - t')))), u', w')
                  else drain env deadline u' w'))
        else drain env deadline u w)"

definition get_stats :: "ZepGraphMemoryUpdater \<Rightarrow> pydict" where
  "get_stats u =
     [(lit ''graph_id'', PyStr (up_graph_id u)),
      (lit ''batch_size'', PyInt (int BATCH_SIZE)),
      (lit ''total_activities'', PyInt (int (up_total_activities u))),
      (lit ''batches_sent'', PyInt (int (up_total_sent u))),
      (lit ''items_sent'', PyInt (int (up_total_items_sent u))),
      (lit ''failed_count'', PyInt (int (up_failed_count u))),
      (lit ''pending_episode_count'', PyInt (int (length (up_pending u)))),
      (lit ''skipped_count'', PyInt (int (up_skipped_count u))),
      (lit ''queue_size'', PyInt (int (length (up_queue u)))),
      (lit ''buffer_sizes'', PyDict (map (\<lambda>(p, b). (p, PyInt (int (length b)))) (up_buffers u))),
      (lit ''running'', PyBool (up_running u))]"

end
