(* ===== verification/Updater_Drain.thy ===== *)
theory Updater_Drain
  imports Memory_Updater
begin

text \<open>
  Safety of the graph memory updater: the interleavings of producers, worker and drain as an
  inductive relation, conservation of activities over it, and what a successful \<^verbatim>\<open>stop()\<close>
  guarantees.
\<close>

section \<open>Accounting\<close>

definition held_acts :: "ZepGraphMemoryUpdater \<Rightarrow> AgentActivity list" where
  "held_acts u = (case up_worker u of WorkerHolding a \<Rightarrow> [a] | WorkerSending b _ \<Rightarrow> b | _ \<Rightarrow> [])"

definition buffered_acts :: "ZepGraphMemoryUpdater \<Rightarrow> AgentActivity list" where
  "buffered_acts u = concat (map snd (up_buffers u))"

definition in_flight :: "ZepGraphMemoryUpdater \<Rightarrow> AgentActivity list" where
  "in_flight u = up_queue u @ held_acts u @ buffered_acts u"

definition settled :: "ZepGraphMemoryUpdater \<Rightarrow> nat" where
  "settled u = up_total_items_sent u + sum_list (map (length \<circ> fb_activities) (up_failed_batches u))"

text \<open>What submitting payloads leaves alone.\<close>

definition same_queues :: "ZepGraphMemoryUpdater \<Rightarrow> ZepGraphMemoryUpdater \<Rightarrow> bool" where
  "same_queues u u' \<longleftrightarrow> up_queue u' = up_queue u \<and> up_buffers u' = up_buffers u \<and> up_running u' = up_running u
     \<and> up_worker u' = up_worker u \<and> up_total_activities u' = up_total_activities u
     \<and> up_graph_id u' = up_graph_id u \<and> up_simulation_id u' = up_simulation_id u"

lemma same_queues_refl [simp]: "same_queues u u"
  by (simp add: same_queues_def)

lemma same_queues_trans: "same_queues u v \<Longrightarrow> same_queues v w \<Longrightarrow> same_queues u w"
  by (simp add: same_queues_def)

lemma record_failure_frame [simp]:
  "same_queues u (record_failure p acts e u)"
  "settled (record_failure p acts e u) = settled u + length acts"
  "up_failed_count (record_failure p acts e u) = up_failed_count u + 1"
  "length (up_failed_batches (record_failure p acts e u)) = length (up_failed_batches u) + 1"
  by (simp_all add: record_failure_def same_queues_def settled_def)

lemma record_success_frame [simp]:
  "same_queues u (record_success acts uuid u)"
  "settled (record_success acts uuid u) = settled u + length acts"
  "up_failed_count (record_success acts uuid u) = up_failed_count u"
  "up_failed_batches (record_success acts uuid u) = up_failed_batches u"
  by (simp_all add: record_success_def same_queues_def settled_def)

lemma send_payload_frame:
  assumes "send_payload env p (acts, t) u w = (u', w')"
  shows "same_queues u u' \<and> settled u' = settled u + length acts
    \<and> up_failed_count u' + length (up_failed_batches u) = up_failed_count u + length (up_failed_batches u')"
  using assms
  by (auto simp: send_payload_def split: sum.splits prod.splits option.splits if_splits)

definition sizes :: "payload list \<Rightarrow> nat" where
  "sizes ps = length (concat (map fst ps))"

lemma sizes_simps [simp]: "sizes [] = 0" "sizes ((acts, t) # ps) = length acts + sizes ps"
  by (simp_all add: sizes_def)

lemma send_payloads_frame:
  assumes "send_payloads env p deadline processed ps u w = (r, u', w')"
  shows "\<exists>n. same_queues u u' \<and> settled u' = settled u + n
    \<and> up_failed_count u' + length (up_failed_batches u) = up_failed_count u + length (up_failed_batches u')
    \<and> (r = Inr (processed + n) \<and> n = sizes ps
       \<or> r = Inl (Exn (DrainDeadlineExceeded (processed + n)) drain_msg) \<and> n \<le> sizes ps \<and> deadline \<noteq> None)"
  using assms
proof (induction env p deadline processed ps u w rule: send_payloads.induct)
  case (2 env p deadline processed pl ps u w)
  obtain acts t where pl: "pl = (acts, t)" by (cases pl)
  obtain late w1 where due: "(case deadline of None \<Rightarrow> (False, w)
      | Some d \<Rightarrow> (case env_time env w of (t, w') \<Rightarrow> (d \<le> t, w'))) = (late, w1)"
    by (cases "case deadline of None \<Rightarrow> (False, w)
      | Some d \<Rightarrow> (case env_time env w of (t, w') \<Rightarrow> (d \<le> t, w'))")
  show ?case
  proof (cases late)
    case True
    then have "deadline \<noteq> None" using due by (auto split: option.splits)
    with True "2.prems" due show ?thesis by auto
  next
    case False
    obtain u1 w2 where sent: "send_payload env p (acts, t) u w1 = (u1, w2)"
      by (cases "send_payload env p (acts, t) u w1")
    have run: "send_payloads env p deadline (processed + length (fst pl)) ps u1 w2 = (r, u', w')"
      using "2.prems" due False sent pl by simp
    have dueF: "(case deadline of None \<Rightarrow> (False, w)
      | Some d \<Rightarrow> (case env_time env w of (t, w') \<Rightarrow> (d \<le> t, w'))) = (False, w1)"
      using due False by simp
    have "(u1, w2) = send_payload env p pl u w1"
      using sent pl by simp
    from "2.IH" [OF dueF [symmetric] refl this run] pl obtain n where
      n: "same_queues u1 u'" "settled u' = settled u1 + n"
         "up_failed_count u' + length (up_failed_batches u1) = up_failed_count u1 + length (up_failed_batches u')"
         "r = Inr (processed + length acts + n) \<and> n = sizes ps
          \<or> r = Inl (Exn (DrainDeadlineExceeded (processed + length acts + n)) drain_msg) \<and> n \<le> sizes ps \<and> deadline \<noteq> None"
      by auto
    with send_payload_frame [OF sent] pl show ?thesis
      by (intro exI [of _ "length acts + n"]) (auto simp: add_ac intro: same_queues_trans)
  qed
qed simp

lemma payload_loop_error:
  "payload_loop rp ps acts lines len rest = Inl e \<Longrightarrow> exn_kind e = TypeErr \<or> exn_kind e = AttributeErr"
proof (induction rp ps acts lines len rest rule: payload_loop.induct)
  case (2 rp payloads acts lines len a rest)
  show ?case
  proof (cases "to_episode_text rp a")
    case (Inl e')
    then have "exn_kind e' = TypeErr \<or> exn_kind e' = AttributeErr"
      by (cases "describe rp a")
         (auto simp: to_episode_text_def describe_def split: if_splits option.splits pyval.splits)
    with Inl "2.prems" show ?thesis by simp
  next
    case (Inr raw)
    with "2.prems" 2 show ?thesis by (auto simp: Let_def split: if_splits)
  qed
qed simp

text \<open>
  The contract of \<^verbatim>\<open>_send_batch_activities\<close>: either the batch cannot be described and nothing
  happened, or a prefix of it, all of it unless the deadline passed, is now sent or recorded
  as failed.
\<close>

lemma send_batch_frame:
  assumes "send_batch_activities env acts p deadline u w = (r, u', w')"
  obtains (undescribable) e where "\<not> list_all describable acts" "r = Inl e" "u' = u"
      "exn_kind e = TypeErr \<or> exn_kind e = AttributeErr"
    | (all) "list_all describable acts" "r = Inr (length acts)" "same_queues u u'"
      "settled u' = settled u + length acts"
      "up_failed_count u' + length (up_failed_batches u) = up_failed_count u + length (up_failed_batches u')"
    | (late) n where "list_all describable acts" "r = Inl (Exn (DrainDeadlineExceeded n) drain_msg)"
      "same_queues u u'" "n \<le> length acts" "settled u' = settled u + n" "deadline \<noteq> None"
      "up_failed_count u' + length (up_failed_batches u) = up_failed_count u + length (up_failed_batches u')"
proof (cases "acts = []")
  case True
  with assms all show ?thesis by (simp add: send_batch_activities_def)
next
  case False
  show ?thesis
  proof (cases "build_episode_payloads (env_repr env) acts")
    case (Inl e)
    have "exn_kind e = TypeErr \<or> exn_kind e = AttributeErr"
      using payload_loop_error Inl by (simp add: build_episode_payloads_def)
    moreover have "\<not> list_all describable acts"
      using payload_loop_ok_iff [of "env_repr env" "[]" "[]" "[]" 0 acts] Inl
      by (simp add: build_episode_payloads_def list_all_iff)
    ultimately show ?thesis
      using assms False Inl by (intro undescribable [of e]) (simp_all add: send_batch_activities_def)
  next
    case (Inr ps)
    have ok: "list_all describable acts"
      using payload_loop_ok_iff [of "env_repr env" "[]" "[]" "[]" 0 acts] Inr
      by (simp add: build_episode_payloads_def list_all_iff)
    have "sizes ps = length acts"
      using payload_loop_spec [of "env_repr env" "[]" "[]" "[]" 0 acts ps] Inr
      by (simp add: build_episode_payloads_def sizes_def)
    moreover have "send_payloads env p deadline 0 ps u w = (r, u', w')"
      using assms False Inr by (simp add: send_batch_activities_def)
    note send_payloads_frame [OF this]
    ultimately show ?thesis
      using all late ok by auto
  qed
qed


section \<open>Interleavings\<close>

text \<open>
  Every state of an updater whose accepted activities satisfy \<open>ok\<close>: it is created and started
  once, producers add activities at any time, the worker makes steps, \<^verbatim>\<open>stop()\<close> closes
  acceptance and later, once the worker is gone, drains (successfully or not, any number of
  times), and the rest of the world may change between any two of these.
\<close>

inductive updater_run ::
  "'w updater_env \<Rightarrow> (AgentActivity \<Rightarrow> bool) \<Rightarrow> ZepGraphMemoryUpdater \<Rightarrow> 'w \<Rightarrow> bool"
  for env :: "'w updater_env" and ok :: "AgentActivity \<Rightarrow> bool"
where
  created: "updater_run env ok (fresh_updater g s) w"
| started: "updater_run env ok u w \<Longrightarrow> up_worker u = NoWorker \<Longrightarrow> updater_run env ok (start_updater u) w"
| added: "updater_run env ok u w \<Longrightarrow> ok a \<Longrightarrow> updater_run env ok (snd (add_activity a u)) w"
| worked: "updater_run env ok u w \<Longrightarrow> worker_step env (u, w) = (u', w') \<Longrightarrow> updater_run env ok u' w'"
| closed: "updater_run env ok u w \<Longrightarrow> updater_run env ok (close_acceptance u) w"
| drained: "updater_run env ok u w \<Longrightarrow> \<not> up_running u \<Longrightarrow> \<not> worker_alive u \<Longrightarrow>
    drain env deadline u w = Some (r, u', w') \<Longrightarrow> updater_run env ok u' w'"
| elsewhere: "updater_run env ok u w \<Longrightarrow> updater_run env ok u w'"

definition conserved :: "(AgentActivity \<Rightarrow> bool) \<Rightarrow> ZepGraphMemoryUpdater \<Rightarrow> bool" where
  "conserved ok u \<longleftrightarrow>
     up_total_activities u = length (in_flight u) + settled u
     \<and> up_failed_count u = length (up_failed_batches u)
     \<and> list_all ok (in_flight u)
     \<and> (\<not> worker_alive u \<longrightarrow> up_queue u = [] \<and> (up_running u \<longrightarrow> False))
     \<and> list_all (\<lambda>(p, b). length b < BATCH_SIZE) (up_buffers u)
     \<and> distinct (map fst (up_buffers u))"

lemma length_concat_dset:
  "length (concat (map snd (dset d p b))) + length (dget_or d p []) = length (concat (map snd d)) + length b"
  by (induction d) (auto simp: dget_or_def)

lemma set_concat_dset:
  "set (concat (map snd (dset d p b))) \<subseteq> set b \<union> set (concat (map snd d))"
  by (induction d) auto

lemma list_all_dset: "list_all P d \<Longrightarrow> P (p, b) \<Longrightarrow> list_all P (dset d p b)"
  by (induction d) auto

lemma buffer_of_subset: "set (buffer_of u p) \<subseteq> set (buffered_acts u)"
  by (cases "map_of (up_buffers u) p")
     (force simp: buffer_of_def dget_or_def buffered_acts_def dest: map_of_SomeD)+

lemma buffer_of_dset: "dget_or (dset d p b) p [] = b"
  by (simp add: dget_or_dget)

lemma buffer_lt_BATCH_SIZE:
  "list_all (\<lambda>(p, b). length b < BATCH_SIZE) (up_buffers u) \<Longrightarrow> length (buffer_of u p) < BATCH_SIZE"
  by (auto simp: buffer_of_def dget_or_def BATCH_SIZE_def list_all_iff split: option.splits dest: map_of_SomeD)

lemma distinct_dset: "distinct (map fst d) \<Longrightarrow> distinct (map fst (dset d p b))"
  by (rule distinct_update)

lemmas accounting_defs = conserved_def in_flight_def held_acts_def buffered_acts_def settled_def worker_alive_def

text \<open>The worker's buffering step keeps every activity.\<close>

lemma conserved_worker_buffer:
  assumes c: "conserved ok u" and pc: "up_worker u = WorkerHolding a"
  shows "conserved ok (worker_buffer a u)"
proof -
  define p where "p = py_lower (act_platform a)"
  define b where "b = buffer_of u p @ [a]"
  define d where "d = dset (up_buffers u) p b"
  have dist: "distinct (map fst d)"
    using c unfolding d_def conserved_def by (intro distinct_dset) simp
  have lt: "length (buffer_of u p) < BATCH_SIZE"
    using c by (intro buffer_lt_BATCH_SIZE) (simp add: conserved_def)
  have bof: "buffer_of (buffer_activity a u) p = b"
    by (simp add: buffer_activity_def buffer_of_def b_def p_def Let_def buffer_of_dset)
  have bufs: "up_buffers (buffer_activity a u) = d"
    by (simp add: buffer_activity_def d_def b_def p_def Let_def)
  have okb: "list_all ok b"
    using c pc buffer_of_subset [of u p]
    by (auto simp: b_def conserved_def in_flight_def held_acts_def list_all_iff)
  have len: "length (concat (map snd d)) = length (buffered_acts u) + 1"
    using length_concat_dset [where d = "up_buffers u" and p = p and b = b] by (simp add: d_def b_def buffer_of_def buffered_acts_def)
  have okd: "list_all ok (concat (map snd d))"
    using set_concat_dset [where d = "up_buffers u" and p = p and b = b] okb c
    by (auto simp: d_def conserved_def in_flight_def buffered_acts_def list_all_iff)
  show ?thesis
  proof (cases "BATCH_SIZE \<le> length b")
    case True
    then have five: "length b = BATCH_SIZE"
      using lt by (simp add: b_def)
    define d' where "d' = dset d p (drop BATCH_SIZE b)"
    have len': "length (concat (map snd d')) + length b = length (concat (map snd d))"
      using length_concat_dset [where d = d and p = p and b = "[]"] five by (simp add: d'_def d_def buffer_of_dset)
    have okd': "list_all ok (concat (map snd d'))"
      using set_concat_dset [where d = d and p = p and b = "[]"] okd five by (auto simp: d'_def list_all_iff)
    have small: "list_all (\<lambda>(p, b). length b < BATCH_SIZE) d'"
    proof -
      have "list_all (\<lambda>(p, b). length b < BATCH_SIZE) (dset (up_buffers u) p [])"
        using c by (intro list_all_dset) (auto simp: conserved_def BATCH_SIZE_def)
      then show ?thesis
        using five by (simp add: d'_def d_def)
    qed
    have dist': "distinct (map fst d')"
      using dist unfolding d'_def by (rule distinct_dset)
    have res: "worker_buffer a u = (buffer_activity a u)\<lparr>up_buffers := d', up_worker := WorkerSending b p\<rparr>"
      using True five bof bufs by (simp add: worker_buffer_def Let_def p_def [symmetric] d'_def)
    show ?thesis
      unfolding res using c pc okb okd' small len len' five dist'
      by (auto simp: accounting_defs buffer_activity_def Let_def)
  next
    case False
    have res: "worker_buffer a u = (buffer_activity a u)\<lparr>up_worker := WorkerLoop\<rparr>"
      using False bof by (simp add: worker_buffer_def Let_def p_def [symmetric])
    have small: "list_all (\<lambda>(p, b). length b < BATCH_SIZE) d"
      using c False unfolding d_def by (intro list_all_dset) (auto simp: conserved_def)
    show ?thesis
      unfolding res using c pc okd small len bufs dist
      by (auto simp: accounting_defs buffer_activity_def Let_def)
  qed
qed


lemma conserved_worker_send:
  assumes c: "conserved describable u" and pc: "up_worker u = WorkerSending batch p"
    and run: "send_batch_activities env batch p None u w = (r, u', w')"
  shows "conserved describable (u'\<lparr>up_worker := WorkerLoop\<rparr>)"
proof -
  have "list_all describable batch"
    using c pc by (simp add: conserved_def in_flight_def held_acts_def)
  with run show ?thesis
    using c pc by (cases rule: send_batch_frame) (auto simp: accounting_defs same_queues_def)
qed

lemma conserved_worker_step:
  assumes c: "conserved describable u" and st: "worker_step env (u, w) = (u', w')"
  shows "conserved describable u'"
proof (cases "up_worker u")
  case WorkerLoop
  then show ?thesis
    using c st by (auto simp: worker_step_def accounting_defs split: if_splits list.splits)
next
  case (WorkerHolding a)
  then show ?thesis
    using conserved_worker_buffer [OF c] st by (simp add: worker_step_def)
next
  case (WorkerSending batch p)
  obtain r u1 w1 where run: "send_batch_activities env batch p None u w = (r, u1, w1)"
    by (cases "send_batch_activities env batch p None u w")
  show ?thesis
    using conserved_worker_send [OF c WorkerSending run] st WorkerSending run
    by (simp add: worker_step_def)
qed (use c st in \<open>simp_all add: worker_step_def\<close>)

lemma conserved_drop_buffered:
  assumes c: "conserved ok u" and q: "same_queues u u'" and n: "n \<le> length (buffer_of u p)"
    and s: "settled u' = settled u + n"
    and f: "up_failed_count u' + length (up_failed_batches u) = up_failed_count u + length (up_failed_batches u')"
  shows "conserved ok (drop_buffered p n u')"
proof -
  define d where "d = dset (up_buffers u) p (drop n (buffer_of u p))"
  have dist: "distinct (map fst d)"
    using c unfolding d_def conserved_def by (intro distinct_dset) simp
  have b: "buffer_of u' p = buffer_of u p"
    using q by (simp add: same_queues_def buffer_of_def)
  then have res: "drop_buffered p n u' = u'\<lparr>up_buffers := d\<rparr>"
    using q by (simp add: drop_buffered_def d_def same_queues_def)
  have len: "length (concat (map snd d)) + n = length (buffered_acts u)"
    using length_concat_dset [where d = "up_buffers u" and p = p and b = "drop n (buffer_of u p)"] n
    by (simp add: d_def buffer_of_def buffered_acts_def)
  have "list_all ok (concat (map snd d))"
    using set_concat_dset [where d = "up_buffers u" and p = p and b = "drop n (buffer_of u p)"] c
      buffer_of_subset [of u p] set_drop_subset [of n "buffer_of u p"]
    unfolding d_def conserved_def in_flight_def buffered_acts_def list_all_iff by fastforce
  moreover have "list_all (\<lambda>(p, b). length b < BATCH_SIZE) d"
  proof -
    have "length (buffer_of u p) < BATCH_SIZE"
      using c by (intro buffer_lt_BATCH_SIZE) (simp add: conserved_def)
    then show ?thesis
      using c unfolding d_def by (intro list_all_dset) (auto simp: conserved_def)
  qed
  ultimately show ?thesis
    unfolding res using c q len s f dist by (auto simp: accounting_defs same_queues_def)
qed

lemma worker_alive_same: "up_worker u' = up_worker u \<Longrightarrow> worker_alive u' = worker_alive u"
  by (simp add: worker_alive_def)

text \<open>What flushing does to the life-cycle fields.\<close>

definition same_life :: "ZepGraphMemoryUpdater \<Rightarrow> ZepGraphMemoryUpdater \<Rightarrow> bool" where
  "same_life u u' \<longleftrightarrow> up_running u' = up_running u \<and> up_worker u' = up_worker u
     \<and> up_total_activities u' = up_total_activities u \<and> up_queue u' = up_queue u
     \<and> up_graph_id u' = up_graph_id u \<and> map fst (up_buffers u') = map fst (up_buffers u)"

lemma same_life_refl [simp]: "same_life u u"
  by (simp add: same_life_def)

lemma same_life_trans: "same_life u v \<Longrightarrow> same_life v w \<Longrightarrow> same_life u w"
  by (simp add: same_life_def)

lemma buffer_of_key: "buffer_of u p \<noteq> [] \<Longrightarrow> p \<in> set (map fst (up_buffers u))"
  using map_of_eq_None_iff [of "up_buffers u" p] by (auto simp: buffer_of_def dget_or_def split: option.splits)

lemma same_life_drop_buffered:
  "same_queues u u' \<Longrightarrow> buffer_of u p \<noteq> [] \<Longrightarrow> same_life u (drop_buffered p n u')"
  using buffer_of_key [of u p] by (simp add: same_life_def same_queues_def drop_buffered_def update_keys)

lemma buffer_of_drop_buffered:
  "same_queues u u' \<Longrightarrow>
   buffer_of (drop_buffered p n u') q = (if q = p then drop n (buffer_of u p) else buffer_of u q)"
  by (auto simp: drop_buffered_def buffer_of_def dget_or_dget same_queues_def)

lemma flush_platform_conserved:
  assumes c: "conserved ok u" and run: "flush_platform env deadline p u w = (r, u', w')"
  shows "conserved ok u' \<and> same_life u u' \<and> (is_ok r \<longrightarrow> buffer_of u' p = [])
    \<and> (\<forall>p'. buffer_of u p' = [] \<longrightarrow> buffer_of u' p' = [])"
proof (cases "buffer_of u p = []")
  case True
  with run c show ?thesis by (auto simp: flush_platform_def)
next
  case False
  obtain t w1 where t: "env_time env w = (t, w1)" by (cases "env_time env w")
  show ?thesis
  proof (cases "deadline \<le> t")
    case True
    with run c t False show ?thesis by (auto simp: flush_platform_def)
  next
    case nolate: False
    obtain r1 u1 w2 where snt: "send_batch_activities env (buffer_of u p) p (Some deadline) u w1 = (r1, u1, w2)"
      by (cases "send_batch_activities env (buffer_of u p) p (Some deadline) u w1")
    from snt show ?thesis
    proof (cases rule: send_batch_frame)
      case (undescribable e)
      then have "flush_platform env deadline p u w = (Inl e, u, w2)"
        using False nolate t snt
        by (cases e) (auto simp: flush_platform_def split: exc_type.splits)
      with run c show ?thesis by auto
    next
      case all
      have "flush_platform env deadline p u w = (Inr (), drop_buffered p (length (buffer_of u p)) u1, w2)"
        using False nolate t snt all by (simp add: flush_platform_def)
      moreover have "conserved ok (drop_buffered p (length (buffer_of u p)) u1)"
        by (rule conserved_drop_buffered [OF c]) (use all in auto)
      ultimately show ?thesis
        using run all by (auto simp: buffer_of_drop_buffered same_life_drop_buffered False)
    next
      case (late n)
      have "flush_platform env deadline p u w = (Inl (Exn TimeoutErr drain_msg), drop_buffered p n u1, w2)"
        using False nolate t snt late by (simp add: flush_platform_def)
      moreover have "conserved ok (drop_buffered p n u1)"
        by (rule conserved_drop_buffered [OF c]) (use late in auto)
      ultimately show ?thesis
        using run late by (auto simp: buffer_of_drop_buffered same_life_drop_buffered False)
    qed
  qed
qed

lemma flush_platforms_conserved:
  assumes "conserved ok u" and "flush_platforms env deadline ps u w = (r, u', w')"
  shows "conserved ok u' \<and> same_life u u' \<and> (is_ok r \<longrightarrow> (\<forall>p \<in> set ps. buffer_of u' p = []))
    \<and> (\<forall>p'. buffer_of u p' = [] \<longrightarrow> buffer_of u' p' = [])"
  using assms
proof (induction ps arbitrary: u w)
  case (Cons p ps)
  obtain r1 u1 w1 where st: "flush_platform env deadline p u w = (r1, u1, w1)"
    by (cases "flush_platform env deadline p u w")
  note fp = flush_platform_conserved [OF Cons.prems(1) st]
  show ?case
  proof (cases r1)
    case (Inl e)
    with Cons.prems(2) st fp show ?thesis by auto
  next
    case (Inr x)
    then have run: "flush_platforms env deadline ps u1 w1 = (r, u', w')"
      using Cons.prems(2) st by simp
    from Cons.IH [OF _ run] fp Inr show ?thesis
      by (auto intro: same_life_trans)
  qed
qed simp


lemma buffered_acts_Nil_iff: "distinct (map fst (up_buffers u)) \<Longrightarrow>
  buffered_acts u = [] \<longleftrightarrow> (\<forall>p \<in> set (map fst (up_buffers u)). buffer_of u p = [])"
  by (force simp: buffered_acts_def buffer_of_def dget_or_def)


lemma flush_remaining_conserved:
  assumes c: "conserved ok u" and d: "\<not> worker_alive u"
    and run: "flush_remaining env deadline u w = (r, u', w')"
  shows "conserved ok u' \<and> same_life u u' \<and> (is_ok r \<longrightarrow> buffered_acts u' = [])"
proof -
  have q: "up_queue u = []"
    using c d by (simp add: conserved_def)
  then have fq: "flush_queue u = u"
    by (simp add: flush_queue_def)
  have fp: "flush_platforms env deadline (map fst (up_buffers u)) u w = (r, u', w')"
    using run unfolding flush_remaining_def fq by simp
  note r = flush_platforms_conserved [OF c fp]
  then have keys: "map fst (up_buffers u') = map fst (up_buffers u)"
    by (simp add: same_life_def)
  from r have dist: "distinct (map fst (up_buffers u'))"
    unfolding conserved_def by blast
  have "buffered_acts u' = []" if "is_ok r"
    unfolding buffered_acts_Nil_iff [OF dist] keys using r that by blast
  with r show ?thesis by blast
qed

lemma wait_for_pending_frame:
  assumes "wait_for_pending_episodes env deadline u w = Some (r, u', w')"
  shows "u' = u \<or> u' = u\<lparr>up_pending := []\<rparr>"
  using assms
  by (auto simp: wait_for_pending_episodes_def Let_def split: if_splits option.splits prod.splits sum.splits)

lemma conserved_pending [simp]: "conserved ok (u\<lparr>up_pending := x\<rparr>) = conserved ok u"
  by (simp add: accounting_defs)

lemma drain_frame:
  assumes c: "conserved ok u" and d: "\<not> worker_alive u" and run: "drain env deadline u w = Some (r, u', w')"
  shows "conserved ok u' \<and> same_life u u' \<and>
    (is_ok r \<longrightarrow> buffered_acts u' = [] \<and> up_failed_batches u' = [] \<and> up_pending u' = [])"
proof -
  obtain r1 u1 w1 where fl: "flush_remaining env deadline u w = (r1, u1, w1)"
    by (cases "flush_remaining env deadline u w")
  note fr = flush_remaining_conserved [OF c d fl]
  show ?thesis
  proof (cases "(\<exists>e. r1 = Inl e) \<or> up_failed_batches u1 \<noteq> []")
    case True
    with run fl fr show ?thesis
      by (auto simp: drain_def split: sum.splits)
  next
    case False
    then obtain x where ok: "r1 = Inr x" "up_failed_batches u1 = []"
      by (cases r1) simp_all
    have wt: "wait_for_pending_episodes env deadline u1 w1 = Some (r, u', w')"
      using run fl ok by (simp add: drain_def)
    have "up_pending u' = []" if "is_ok r"
      using wt that
      by (auto simp: wait_for_pending_episodes_def Let_def split: if_splits option.splits prod.splits sum.splits)
    with wait_for_pending_frame [OF wt] fr ok show ?thesis
      by (auto simp: same_life_def buffered_acts_def)
  qed
qed

lemma conserved_added:
  "conserved ok u \<Longrightarrow> ok a \<Longrightarrow> conserved ok (snd (add_activity a u))"
  by (auto simp: add_activity_def accounting_defs)

lemma conserved_close: "conserved ok u \<Longrightarrow> conserved ok (close_acceptance u)"
  by (auto simp: close_acceptance_def accounting_defs)

lemma updater_run_conserved:
  "updater_run env describable u w \<Longrightarrow> conserved describable u"
proof (induction rule: updater_run.induct)
  case (created g s w)
  then show ?case by (simp add: fresh_updater_def accounting_defs BATCH_SIZE_def)
next
  case (started u w)
  then show ?case by (auto simp: start_updater_def accounting_defs)
next
  case (drained u w deadline r u' w')
  show ?case using drain_frame [OF drained(5) drained(3) drained(4)] by simp
qed (auto intro: conserved_worker_step conserved_added conserved_close)


section \<open>Stopping\<close>

lemma worker_steps_run:
  "updater_run env ok u w \<Longrightarrow> (worker_step env ^^ k) (u, w) = (u', w') \<Longrightarrow> updater_run env ok u' w'"
proof (induction k arbitrary: u' w')
  case (Suc k)
  obtain u1 w1 where st: "(worker_step env ^^ k) (u, w) = (u1, w1)"
    by (cases "(worker_step env ^^ k) (u, w)")
  from Suc.IH [OF Suc.prems(1) st] Suc.prems(2) st show ?case
    by (auto intro: updater_run.worked)
qed simp

lemma worker_step_running:
  "worker_step env (u, w) = (u', w') \<Longrightarrow>
   up_running u' = up_running u \<and> up_total_activities u' = up_total_activities u \<and> up_graph_id u' = up_graph_id u"
proof (cases "up_worker u")
  case (WorkerSending batch p)
  assume st: "worker_step env (u, w) = (u', w')"
  obtain r u1 w1 where run: "send_batch_activities env batch p None u w = (r, u1, w1)"
    by (cases "send_batch_activities env batch p None u w")
  from run have "same_queues u u1" by (cases rule: send_batch_frame) simp_all
  with st WorkerSending run show ?thesis
    by (auto simp: worker_step_def same_queues_def)
qed (auto simp: worker_step_def worker_buffer_def buffer_activity_def Let_def split: if_splits list.splits)

lemma worker_steps_running:
  "(worker_step env ^^ k) (u, w) = (u', w') \<Longrightarrow>
   up_running u' = up_running u \<and> up_total_activities u' = up_total_activities u \<and> up_graph_id u' = up_graph_id u"
proof (induction k arbitrary: u' w')
  case (Suc k)
  obtain u1 w1 where "(worker_step env ^^ k) (u, w) = (u1, w1)"
    by (cases "(worker_step env ^^ k) (u, w)")
  with Suc worker_step_running [of env u1 w1 u' w'] show ?case by simp
qed simp

text \<open>The two ways out of \<^verbatim>\<open>stop()\<close>: the join timed out, or a drain ran on a dead worker.\<close>

lemma stop_drain_cases:
  assumes "stop_drain env k u w = Some (r, u', w')"
  obtains (join_timeout) m w1 where "(worker_step env ^^ k) (close_acceptance u, w1) = (u', w')"
      "worker_alive u'" "r = Inl (Exn TimeoutErr m)"
  | (drained) j deadline w1 u1 w2 where "(worker_step env ^^ j) (close_acceptance u, w1) = (u1, w2)"
      "\<not> worker_alive u1" "drain env deadline u1 w2 = Some (r, u', w')"
proof -
  obtain t w1 where t: "env_time env w = (t, w1)" by (cases "env_time env w")
  show ?thesis
  proof (cases "worker_alive (close_acceptance u)")
    case False
    with assms t show ?thesis
      by (intro drained [of 0 w1 "close_acceptance u" w1]) (auto simp: stop_drain_def Let_def)
  next
    case True
    obtain t2 w2 where t2: "env_time env w1 = (t2, w2)" by (cases "env_time env w1")
    obtain u1 w3 where st: "(worker_step env ^^ k) (close_acceptance u, w2) = (u1, w3)"
      by (cases "(worker_step env ^^ k) (close_acceptance u, w2)")
    show ?thesis
    proof (cases "worker_alive u1")
      case alive: True
      with assms t True t2 st show ?thesis
        by (intro join_timeout) (auto simp: stop_drain_def Let_def)
    next
      case dead: False
      with assms t True t2 st show ?thesis
        by (intro drained [OF st]) (auto simp: stop_drain_def Let_def)
    qed
  qed
qed

lemma stop_drain_run:
  assumes "updater_run env ok u w" and "stop_drain env k u w = Some (r, u', w')"
  shows "updater_run env ok u' w'"
  using assms(2)
proof (cases rule: stop_drain_cases)
  case (join_timeout m w1)
  then show ?thesis
    using assms(1) by (auto intro: worker_steps_run updater_run.closed updater_run.elsewhere)
next
  case (drained j deadline w1 u1 w2)
  have r1: "updater_run env ok u1 w2"
    using assms(1) drained(1) by (auto intro: worker_steps_run updater_run.closed updater_run.elsewhere)
  have "\<not> up_running u1"
    using worker_steps_running [OF drained(1)] by (simp add: close_acceptance_def)
  from updater_run.drained [OF r1 this drained(2) drained(3)] show ?thesis .
qed

lemma stop_complete:
  assumes "updater_run env describable u w"
    and "stop_drain env k u w = Some (Inr (), u', w')"
  shows "up_total_items_sent u' = up_total_activities u \<and> up_total_activities u' = up_total_activities u
    \<and> in_flight u' = [] \<and> up_failed_batches u' = [] \<and> up_failed_count u' = 0
    \<and> up_pending u' = [] \<and> \<not> up_running u' \<and> \<not> worker_alive u'"
  using assms(2)
proof (cases rule: stop_drain_cases)
  case (join_timeout m w1)
  then show ?thesis by simp
next
  case (drained j deadline w1 u1 w2)
  have "updater_run env describable u1 w2"
    using assms(1) drained(1) by (auto intro: worker_steps_run updater_run.closed updater_run.elsewhere)
  then have c1: "conserved describable u1"
    by (rule updater_run_conserved)
  note d = drain_frame [OF c1 drained(2,3)]
  have "\<not> up_running u1 \<and> up_total_activities u1 = up_total_activities u"
    using worker_steps_running [OF drained(1)] by (simp add: close_acceptance_def)
  moreover have "held_acts u' = []"
    using d drained(2) by (auto simp: same_life_def held_acts_def worker_alive_def split: worker.splits)
  moreover have dead: "\<not> worker_alive u'"
    using d drained(2) by (simp add: same_life_def worker_alive_def)
  moreover have "up_queue u' = []"
    using d dead by (simp add: conserved_def)
  ultimately show ?thesis
    using d by (auto simp: conserved_def in_flight_def settled_def same_life_def)
qed

lemma stop_drain_frame:
  assumes "updater_run env describable u w" and "stop_drain env k u w = Some (r, u', w')"
  shows "up_graph_id u' = up_graph_id u \<and> \<not> up_running u'"
  using assms(2)
proof (cases rule: stop_drain_cases)
  case (join_timeout m w1)
  then show ?thesis
    using worker_steps_running by (fastforce simp: close_acceptance_def)
next
  case (drained j deadline w1 u1 w2)
  have "updater_run env describable u1 w2"
    using assms(1) drained(1) by (auto intro: worker_steps_run updater_run.closed updater_run.elsewhere)
  from drain_frame [OF updater_run_conserved [OF this] drained(2,3)] worker_steps_running [OF drained(1)]
  show ?thesis by (simp add: same_life_def close_acceptance_def)
qed



subsection \<open>The pending episodes were processed\<close>

lemma set_remove1_insert: "set xs \<subseteq> insert x (set (remove1 x xs))"
  by (induction xs) auto

lemma poll_pending_confirms:
  assumes "poll_pending env uuids pending w = (Inr rest, w')"
  shows "set pending - set rest \<subseteq> {uuid. \<exists>w1 w2. env_episode_get env uuid w1 = (Inr True, w2)}
    \<and> set rest \<subseteq> set pending \<and> (distinct pending \<longrightarrow> distinct rest)"
  using assms
proof (induction env uuids pending w rule: poll_pending.induct)
  case (2 env uuid uuids pending w)
  let ?conf = "{uuid. \<exists>w1 w2. env_episode_get env uuid w1 = (Inr True, w2)}"
  obtain b w1 where rd: "call_zep_read_with_retry (env_float env) (env_sleep env) 3 2 60
      (env_episode_get env uuid) w = (Inr b, w1)"
    using "2.prems" by (auto split: prod.splits sum.splits)
  have conf: "b \<Longrightarrow> uuid \<in> ?conf"
    using zep_read.read_sound [OF rd] by auto
  let ?p = "if b then remove1 uuid pending else pending"
  have "poll_pending env uuids ?p w1 = (Inr rest, w')"
    using "2.prems" rd by simp
  from "2.IH" [OF rd [symmetric] refl this] have
    "set ?p - set rest \<subseteq> ?conf" "set rest \<subseteq> set ?p" "distinct ?p \<longrightarrow> distinct rest"
    by auto
  moreover have "set pending \<subseteq> insert uuid (set ?p)" and "b \<or> set pending = set ?p"
    and "set ?p \<subseteq> set pending"
    using set_remove1_insert [of pending uuid] set_remove1_subset [of uuid pending] by auto
  ultimately show ?case
    using conf by (auto simp: distinct_remove1)
qed simp

lemma wait_loop_confirms:
  assumes "wait_loop env deadline pending w = Some (Inr (), w')"
  shows "\<forall>uuid \<in> set pending. \<exists>w1 w2. env_episode_get env uuid w1 = (Inr True, w2)"
proof -
  define P where "P = (\<lambda>(env :: 'a updater_env) (deadline :: rat) pending (w :: 'a) (out :: unit res \<times> 'a).
    is_ok (fst out) \<longrightarrow> (\<forall>uuid \<in> set pending. \<exists>w1 w2. env_episode_get env uuid w1 = (Inr True, w2)))"
  have "P env deadline pending w (Inr (), w')"
  proof (rule wait_loop.raw_induct [OF _ assms])
    fix wl :: "'a updater_env \<Rightarrow> rat \<Rightarrow> pystr list \<Rightarrow> 'a \<Rightarrow> (unit res \<times> 'a) option"
      and env deadline pending w out
    assume IH: "\<And>env deadline pending w out. wl env deadline pending w = Some out \<Longrightarrow> P env deadline pending w out"
      and eq: "(if pending = [] then Some (Inr (), w)
         else case env_time env w of (t, w) \<Rightarrow>
           if deadline \<le> t then Some (Inl (wait_timeout (length pending)), w)
           else case poll_pending env pending pending w of
                  (Inl e, w') \<Rightarrow> Some (Inl e, w')
                | (Inr rest, w') \<Rightarrow> wl env deadline rest (if rest \<noteq> [] then env_sleep env 3 w' else w')) = Some out"
    show "P env deadline pending w out"
    proof (cases "\<exists>t w1 rest w2. env_time env w = (t, w1) \<and> poll_pending env pending pending w1 = (Inr rest, w2)")
      case True
      then obtain t w1 rest w2 where st: "env_time env w = (t, w1)"
        "poll_pending env pending pending w1 = (Inr rest, w2)" by blast
      show ?thesis
      proof (cases "pending = [] \<or> deadline \<le> t")
        case False
        then have "wl env deadline rest (if rest \<noteq> [] then env_sleep env 3 w2 else w2) = Some out"
          using eq st by simp
        from IH [OF this] show ?thesis
          using poll_pending_confirms [OF st(2)] unfolding P_def by blast
      qed (use eq st in \<open>auto simp: P_def split: if_splits\<close>)
    next
      case False
      with eq show ?thesis by (auto simp: P_def split: if_splits prod.splits sum.splits)
    qed
  qed
  then show ?thesis by (simp add: P_def)
qed


lemma drain_confirms:
  assumes "drain env deadline u w = Some (Inr (), u', w')"
  obtains u1 w1 where "flush_remaining env deadline u w = (Inr (), u1, w1)" "up_failed_batches u1 = []"
    "\<forall>uuid \<in> set (up_pending u1). \<exists>w1 w2. env_episode_get env uuid w1 = (Inr True, w2)"
proof -
  obtain u1 w1 where fl: "flush_remaining env deadline u w = (Inr (), u1, w1)" and f: "up_failed_batches u1 = []"
    using assms by (auto simp: drain_def split: prod.splits sum.splits if_splits)
  have wt: "wait_for_pending_episodes env deadline u1 w1 = Some (Inr (), u', w')"
    using assms fl f by (simp add: drain_def)
  have "\<forall>uuid \<in> set (remdups (up_pending u1)). \<exists>w1 w2. env_episode_get env uuid w1 = (Inr True, w2)"
  proof (cases "remdups (up_pending u1) = []")
    case False
    then obtain w2 where "wait_loop env deadline (remdups (up_pending u1)) w1 = Some (Inr (), w2)"
      using wt by (auto simp: wait_for_pending_episodes_def Let_def split: option.splits prod.splits sum.splits)
    then show ?thesis by (rule wait_loop_confirms)
  qed simp
  then show ?thesis using that fl f by simp
qed

subsection \<open>Termination\<close>

text \<open>
  The clock the loops rely on: reading it costs nothing, sleeping advances it by at least the
  given time, and the service calls never turn it back.
\<close>

definition steady_clock :: "'w updater_env \<Rightarrow> ('w \<Rightarrow> rat) \<Rightarrow> bool" where
  "steady_clock env now \<longleftrightarrow>
     (\<forall>w. env_time env w = (now w, w)) \<and> (\<forall>d w. 0 \<le> d \<longrightarrow> now w + d \<le> now (env_sleep env d w)) \<and>
     (\<forall>req w. now w \<le> now (snd (env_graph_add env req w))) \<and>
     (\<forall>uuid w. now w \<le> now (snd (env_episode_get env uuid w)))"

lemma steady_clockD:
  assumes "steady_clock env now"
  shows time_now: "env_time env w = (now w, w)"
    and sleep_now: "0 \<le> d \<Longrightarrow> now w + d \<le> now (env_sleep env d w)"
    and get_now: "now w \<le> now (snd (env_episode_get env uuid w))"
  using assms by (auto simp: steady_clock_def)

lemma zep_attempts_now:
  assumes clock: "steady_clock env now" and "0 \<le> d0" "0 \<le> dmax"
  shows "now w \<le> now (snd (zep_attempts fl (env_episode_get env uuid) (env_sleep env) d0 dmax k m w))"
  using assms(2,3)
proof (induction fl "env_episode_get env uuid" "env_sleep env" d0 dmax k m w rule: zep_attempts.induct)
  case (1 fl d0 dmax k m w)
  have le: "now w \<le> now (snd (env_episode_get env uuid w))" by (rule get_now [OF clock])
  have nonneg: "0 \<le> retry_delay_for fl d0 dmax k e" for e
    using "1.prems" by (auto simp: retry_delay_for_def retry_after_seconds_def split: option.splits exc_type.splits)
  show ?case
  proof (cases "env_episode_get env uuid w")
    case (Pair r w')
    show ?thesis
    proof (cases "m < k \<or> is_ok r \<or> (\<exists>e. r = Inl e \<and> (k = m \<or> \<not> is_retryable_zep_error e))")
      case True
      then show ?thesis
        using le Pair by (cases r) (auto simp: zep_attempts.simps [of fl _ _ d0 dmax k m w])
    next
      case False
      then obtain e where e: "r = Inl e" "\<not> m < k" "k \<noteq> m" "is_retryable_zep_error e"
        by (cases r) auto
      let ?w = "env_sleep env (retry_delay_for fl d0 dmax k e) w'"
      have "now w' + retry_delay_for fl d0 dmax k e \<le> now ?w"
        by (rule sleep_now [OF clock nonneg])
      moreover have "now ?w \<le> now (snd (zep_attempts fl (env_episode_get env uuid) (env_sleep env) d0 dmax (Suc k) m ?w))"
        using "1.hyps" [of r w' e] e Pair "1.prems" by simp
      ultimately show ?thesis
        using le Pair e nonneg [of e] by (simp add: zep_attempts.simps [of fl _ _ d0 dmax k m w])
    qed
  qed
qed

lemma poll_pending_now:
  assumes clock: "steady_clock env now"
  shows "now w \<le> now (snd (poll_pending env uuids pending w))"
proof (induction uuids arbitrary: pending w)
  case (Cons uuid uuids)
  obtain r w1 where rd: "call_zep_read_with_retry (env_float env) (env_sleep env) 3 2 60 (env_episode_get env uuid) w = (r, w1)"
    by (cases "call_zep_read_with_retry (env_float env) (env_sleep env) 3 2 60 (env_episode_get env uuid) w")
  have "now w \<le> now w1"
    using zep_attempts_now [OF clock, of 2 60 w "env_float env" uuid 1 "nat 3"] rd
    by (simp add: call_zep_read_with_retry_def)
  with rd Cons.IH show ?case
    by (cases r) (auto intro: order_trans)
qed simp

lemma wait_loop_terminates:
  assumes clock: "steady_clock env now"
  shows "\<exists>out. wait_loop env deadline pending w = Some out"
proof (induction "nat \<lceil>deadline - now w\<rceil>" arbitrary: pending w rule: less_induct)
  case less
  show ?case
  proof (cases "pending = [] \<or> deadline \<le> now w")
    case True
    then show ?thesis by (auto simp: wait_loop.simps [of env deadline pending w] time_now [OF clock])
  next
    case False
    obtain r w1 where pl: "poll_pending env pending pending w = (r, w1)"
      by (cases "poll_pending env pending pending w")
    have le: "now w \<le> now w1"
      using poll_pending_now [OF clock, of w pending pending] pl by simp
    show ?thesis
    proof (cases r)
      case (Inl e)
      with False pl show ?thesis by (auto simp: wait_loop.simps [of env deadline pending w] time_now [OF clock])
    next
      case (Inr rest)
      have rec: "\<exists>out. wait_loop env deadline rest (if rest \<noteq> [] then env_sleep env 3 w1 else w1) = Some out"
      proof (cases "rest = []")
        case True
        then show ?thesis by (simp add: wait_loop.simps)
      next
        case more: False
        have "now w + 3 \<le> now (env_sleep env 3 w1)"
          using sleep_now [OF clock, of 3 w1] le by simp
        then have "nat \<lceil>deadline - now (env_sleep env 3 w1)\<rceil> < nat \<lceil>deadline - now w\<rceil>"
          using False by linarith
        from less [OF this] more show ?thesis by simp
      qed
      have "wait_loop env deadline pending w
          = wait_loop env deadline rest (if rest \<noteq> [] then env_sleep env 3 w1 else w1)"
        using False pl Inr by (simp add: wait_loop.simps [of env deadline pending w] time_now [OF clock])
      with rec show ?thesis by simp
    qed
  qed
qed

lemma stop_drain_terminates:
  assumes clock: "steady_clock env now"
  shows "\<exists>out. stop_drain env k u w = Some out"
proof -
  have wait: "\<exists>out. wait_for_pending_episodes env deadline u w = Some out" for deadline u w
    using wait_loop_terminates [OF clock, of deadline "remdups (up_pending u)" w]
    by (auto simp: wait_for_pending_episodes_def Let_def split: sum.splits prod.splits)
  have dr: "\<exists>out. drain env deadline u w = Some out" for deadline u w
    using wait by (auto simp: drain_def split: prod.splits sum.splits)
  show ?thesis
    using dr by (auto simp: stop_drain_def Let_def split: prod.splits)
qed

lemma send_batch_worker:
  "send_batch_activities env acts p deadline u w = (r, u', w') \<Longrightarrow> up_worker u' = up_worker u"
  by (erule send_batch_frame) (auto simp: same_queues_def)

lemma flush_platform_worker:
  "flush_platform env deadline p u w = (r, u', w') \<Longrightarrow> up_worker u' = up_worker u"
  by (auto simp: flush_platform_def drop_buffered_def dest!: send_batch_worker
      split: if_splits prod.splits sum.splits exn.splits exc_type.splits)

lemma flush_platforms_worker:
  "flush_platforms env deadline ps u w = (r, u', w') \<Longrightarrow> up_worker u' = up_worker u"
  by (induction ps arbitrary: u w)
     (auto split: prod.splits sum.splits dest: flush_platform_worker)

lemma flush_queue_worker [simp]: "up_worker (flush_queue u) = up_worker u"
proof -
  have "up_worker (fold buffer_activity as v) = up_worker v" for as v
    by (induction as arbitrary: v) (simp_all add: buffer_activity_def Let_def)
  then show ?thesis by (simp add: flush_queue_def)
qed

lemma drain_worker:
  assumes "drain env deadline u w = Some (r, u', w')"
  shows "up_worker u' = up_worker u"
proof -
  obtain r1 u1 w1 where fl: "flush_remaining env deadline u w = (r1, u1, w1)"
    by (cases "flush_remaining env deadline u w")
  have "up_worker u1 = up_worker u"
    using flush_platforms_worker fl by (fastforce simp: flush_remaining_def Let_def)
  moreover have "u' = u1 \<or> u' = u1\<lparr>up_pending := []\<rparr>"
    using assms fl by (auto simp: drain_def split: sum.splits if_splits dest: wait_for_pending_frame)
  ultimately show ?thesis by auto
qed

text \<open>Once acceptance is closed every worker step gets closer to the end of the worker.\<close>

definition worker_fuel :: "ZepGraphMemoryUpdater \<Rightarrow> nat" where
  "worker_fuel u =
     (case up_worker u of
        NoWorker \<Rightarrow> 0 | WorkerDone \<Rightarrow> 0
      | WorkerLoop \<Rightarrow> 3 * length (up_queue u) + 1
      | WorkerHolding _ \<Rightarrow> 3 * length (up_queue u) + 3
      | WorkerSending _ _ \<Rightarrow> 3 * length (up_queue u) + 2)"

lemma worker_fuel_step:
  assumes "\<not> up_running u" and "worker_step env (u, w) = (u', w')"
  shows "worker_fuel u' \<le> worker_fuel u - 1"
proof (cases "up_worker u")
  case (WorkerSending batch p)
  obtain r u1 w1 where run: "send_batch_activities env batch p None u w = (r, u1, w1)"
    by (cases "send_batch_activities env batch p None u w")
  from run have "same_queues u u1" by (cases rule: send_batch_frame) simp_all
  with assms(2) WorkerSending run show ?thesis
    by (auto simp: worker_step_def worker_fuel_def same_queues_def)
qed (use assms in \<open>auto simp: worker_step_def worker_fuel_def worker_buffer_def buffer_activity_def Let_def
       split: if_splits list.splits\<close>)

lemma worker_finishes:
  assumes "\<not> up_running u" and "worker_fuel u \<le> k"
  shows "\<not> worker_alive (fst ((worker_step env ^^ k) (u, w)))"
proof -
  have "\<not> up_running (fst ((worker_step env ^^ j) (u, w)))
      \<and> worker_fuel (fst ((worker_step env ^^ j) (u, w))) \<le> worker_fuel u - j" for j
  proof (induction j)
    case (Suc j)
    obtain u1 w1 where st: "(worker_step env ^^ j) (u, w) = (u1, w1)"
      by (cases "(worker_step env ^^ j) (u, w)")
    obtain u2 w2 where st2: "worker_step env (u1, w1) = (u2, w2)"
      by (cases "worker_step env (u1, w1)")
    show ?case
      using Suc st st2 worker_fuel_step [OF _ st2] worker_step_running [OF st2] by fastforce
  qed (use assms in simp)
  from this [of k] assms(2) show ?thesis
    by (auto simp: worker_fuel_def worker_alive_def split: worker.splits)
qed

text \<open>
  C7: Stopping terminates.  With a clock that advances while the process sleeps, \<^verbatim>\<open>stop()\<close>
  returns or raises in every state and for every behaviour of Zep; and a worker that is given
  three steps per queued activity and three more is gone afterwards, so that only a stalled
  worker can make \<^verbatim>\<open>stop()\<close> fail at the join.
\<close>

theorem stop_terminates:
  assumes "steady_clock env now"
  shows "\<exists>r u' w'. stop_drain env k u w = Some (r, u', w')
    \<and> (3 * length (up_queue u) + 3 \<le> k \<longrightarrow> \<not> worker_alive u')"
proof -
  obtain r u' w' where out: "stop_drain env k u w = Some (r, u', w')"
    using stop_drain_terminates [OF assms] by (metis prod_cases3)
  have "\<not> worker_alive u'" if "3 * length (up_queue u) + 3 \<le> k"
    using out
  proof (cases rule: stop_drain_cases)
    case (join_timeout m w1)
    have "worker_fuel (close_acceptance u) \<le> k"
      using that by (auto simp: worker_fuel_def close_acceptance_def split: worker.splits)
    with worker_finishes [of "close_acceptance u" k env w1] join_timeout show ?thesis
      by (simp add: close_acceptance_def)
  next
    case (drained j deadline w1 u1 w2)
    then show ?thesis
      using drain_worker [OF drained(3)] by (simp add: worker_alive_def)
  qed
  with out show ?thesis by blast
qed

end
