(* ===== verification/Updater_Faults.thy ===== *)
theory Updater_Faults
  imports Updater_Drain
begin

text \<open>
  The updater on concrete runs and under faults: a complete run that witnesses the safety
  theorems, failed batches that no later \<^verbatim>\<open>stop()\<close> forgets, and activities that cannot be
  described.
\<close>

section \<open>A concrete run\<close>

text \<open>A service whose world is a clock and a call counter; it accepts every episode and processes it at once.\<close>

definition demo_env :: "(rat \<times> nat) updater_env" where
  "demo_env =
     \<lparr>env_graph_add = (\<lambda>req (t, n). (Inr \<lparr>ep_uuid_attr = None, ep_uuid = Some (nat_digits n)\<rparr>, (t, n + 1))),
      env_episode_get = (\<lambda>uuid w. (Inr True, w)),
      env_time = (\<lambda>(t, n). (t, (t, n))),
      env_sleep = (\<lambda>d (t, n). (t + d, n)),
      env_float = (\<lambda>_. None), env_repr = (\<lambda>_. []), env_rfc3339 = Some, env_now = (\<lambda>_. [])\<rparr>"

definition demo_activity :: "pyval \<Rightarrow> AgentActivity" where
  "demo_activity args =
     \<lparr>act_platform = lit ''Twitter'', act_agent_id = PyInt 7, act_agent_name = PyStr (lit ''Ann''),
      act_action_type = PyStr (lit ''CREATE_POST''), act_action_args = args, act_round_num = PyInt 1,
      act_timestamp = PyStr (lit ''t'')\<rparr>"

definition demo_post :: AgentActivity where
  "demo_post = demo_activity (PyDict [(lit ''content'', PyStr (lit ''hi''))])"

definition demo_updater :: ZepGraphMemoryUpdater where
  "demo_updater = snd (add_activity demo_post (start_updater (fresh_updater (lit ''g'') (lit ''s''))))"

lemma demo_clock: "steady_clock demo_env fst"
  by (auto simp: steady_clock_def demo_env_def)

lemma demo_post_describable: "describable demo_post"
  by (simp add: describable_def demo_post_def demo_activity_def)

lemma demo_updater_run: "updater_run demo_env describable demo_updater w"
  unfolding demo_updater_def
  by (intro updater_run.added updater_run.started updater_run.created)
     (simp_all add: demo_post_describable fresh_updater_def)

definition demo_stopped :: ZepGraphMemoryUpdater where
  "demo_stopped = demo_updater\<lparr>up_queue := [], up_running := False, up_worker := WorkerDone,
     up_total_sent := 1, up_total_items_sent := 1\<rparr>"

lemma demo_payload: "\<exists>t. build_episode_payloads rp [demo_post] = Inr [([demo_post], t)]"
proof -
  have "is_ok (build_episode_payloads rp [demo_post])"
    unfolding build_episode_payloads_def payload_loop_ok_iff by (simp add: demo_post_describable)
  then obtain ps where ps: "build_episode_payloads rp [demo_post] = Inr ps"
    by (cases "build_episode_payloads rp [demo_post]") auto
  then have "concat (map fst ps) = [demo_post]" "\<forall>p \<in> set ps. payload_ok rp p"
    using payload_loop_spec [of rp "[]" "[]" "[]" 0 "[demo_post]" ps]
    by (auto simp: build_episode_payloads_def)
  then have "\<exists>t. ps = [([demo_post], t)]"
    by (cases ps; cases "tl ps") (auto simp: payload_ok_def append_eq_Cons_conv Cons_eq_append_conv)
  with ps show ?thesis by blast
qed

lemma demo_send:
  assumes "t < d"
  shows "send_batch_activities demo_env [demo_post] p (Some d) u (t, n)
    = (Inr 1, record_success [demo_post] (nat_digits n) u, (t, n + 1))"
proof -
  obtain s where "build_episode_payloads (env_repr demo_env) [demo_post] = Inr [([demo_post], s)]"
    using demo_payload by blast
  then show ?thesis
    using assms nat_digits_nonempty [of n]
    by (simp add: send_batch_activities_def send_payload_def batch_metadata_def demo_post_def
        demo_activity_def sorted_set_def hashable_def demo_env_def or_str_def Let_def)
qed

lemma demo_poll: "call_zep_read_with_retry (env_float demo_env) (env_sleep demo_env) 3 2 60
    (env_episode_get demo_env uuid) w = (Inr True, w)"
  by (rule zep_read.read_ok) (simp add: demo_env_def)

lemma demo_time: "env_time demo_env (t, n) = (t, (t, n))"
  by (simp add: demo_env_def)

lemma demo_wait: "t < d \<Longrightarrow> wait_loop demo_env d [uuid] (t, n) = Some (Inr (), (t, n))"
proof -
  assume "t < d"
  moreover have "poll_pending demo_env [uuid] [uuid] (t, n) = (Inr [], (t, n))"
    by (simp add: demo_poll)
  ultimately show ?thesis
    using wait_loop.simps [of demo_env d "[uuid]" "(t, n)"] wait_loop.simps [of demo_env d "[]" "(t, n)"]
    by (simp add: demo_time del: poll_pending.simps)
qed

definition demo_drained :: ZepGraphMemoryUpdater where
  "demo_drained = demo_updater\<lparr>up_queue := [], up_running := False, up_worker := WorkerDone,
     up_buffers := [(lit ''twitter'', [demo_post]), (lit ''reddit'', [])]\<rparr>"

lemma demo_platform: "py_lower (act_platform demo_post) = lit ''twitter''"
  by (simp add: demo_post_def demo_activity_def py_lower_def lit_def lower_char_def)

lemma demo_started: "demo_updater = (fresh_updater (lit ''g'') (lit ''s''))
    \<lparr>up_running := True, up_worker := WorkerLoop, up_queue := [demo_post], up_total_activities := 1\<rparr>"
  by (simp add: demo_updater_def add_activity_def start_updater_def fresh_updater_def demo_post_def demo_activity_def)

lemma demo_worker: "(worker_step demo_env ^^ 6) (close_acceptance demo_updater, w) = (demo_drained, w)"
  by (simp add: eval_nat_numeral demo_started demo_drained_def worker_step_def close_acceptance_def
      fresh_updater_def worker_buffer_def buffer_activity_def buffer_of_def dget_or_def demo_platform
      BATCH_SIZE_def Let_def)

lemma demo_drain: "drain demo_env 600 demo_drained (0, 0) = Some (Inr (), demo_stopped, (0, 1))"
proof -
  define v where "v = (record_success [demo_post] (nat_digits 0) demo_drained)
     \<lparr>up_buffers := [(lit ''twitter'', []), (lit ''reddit'', [])]\<rparr>"
  have b: "buffer_of demo_drained (lit ''twitter'') = [demo_post]"
    by (simp add: demo_drained_def buffer_of_def dget_or_def)
  have "flush_platform demo_env 600 (lit ''twitter'') demo_drained (0, 0) = (Inr (), v, (0, 1))"
    by (simp add: flush_platform_def b demo_time demo_send [of 0 600 _ _ 0, simplified])
       (simp add: drop_buffered_def buffer_of_def dget_or_def v_def record_success_def demo_drained_def)
  moreover have "flush_platform demo_env 600 (lit ''reddit'') v (0, 1) = (Inr (), v, (0, 1))"
    by (simp add: flush_platform_def buffer_of_def dget_or_def v_def)
  moreover have "flush_queue demo_drained = demo_drained"
    by (simp add: flush_queue_def demo_drained_def)
  ultimately have fl: "flush_remaining demo_env 600 demo_drained (0, 0) = (Inr (), v, (0, 1))"
    by (simp add: flush_remaining_def) (simp add: demo_drained_def)
  have v: "up_failed_batches v = []" "up_pending v = [nat_digits 0]"
    by (simp_all add: v_def record_success_def demo_drained_def demo_started fresh_updater_def)
  have "drain demo_env 600 demo_drained (0, 0) = Some (Inr (), v\<lparr>up_pending := []\<rparr>, (0, 1))"
    by (simp add: drain_def fl v wait_for_pending_episodes_def demo_wait)
  moreover have "v\<lparr>up_pending := []\<rparr> = demo_stopped"
    by (simp add: v_def record_success_def demo_drained_def demo_stopped_def demo_started fresh_updater_def)
  ultimately show ?thesis by simp
qed

lemma demo_stop: "stop_drain demo_env 6 demo_updater (0, 0) = Some (Inr (), demo_stopped, (0, 1))"
proof -
  have "worker_alive (close_acceptance demo_updater)" "\<not> worker_alive demo_drained"
    by (simp_all add: worker_alive_def close_acceptance_def demo_started demo_drained_def)
  then show ?thesis
    by (simp add: stop_drain_def demo_time demo_worker demo_drain ZEP_INGESTION_WAIT_TIMEOUT_SECONDS_def)
qed



theorem stop_terminates_witness:
  "\<exists>r u' w'. stop_drain demo_env 6 demo_updater (0, 0) = Some (r, u', w') \<and> \<not> worker_alive u'"
  using stop_terminates [OF demo_clock, of 6 demo_updater "(0, 0)"] by (simp add: demo_started)


section \<open>Failures are final, submitted episodes are confirmed\<close>

definition grows :: "ZepGraphMemoryUpdater \<Rightarrow> ZepGraphMemoryUpdater \<Rightarrow> bool" where
  "grows u u' \<longleftrightarrow> set (up_pending u) \<subseteq> set (up_pending u') \<and> set (up_failed_batches u) \<subseteq> set (up_failed_batches u')"

lemma grows_refl [simp]: "grows u u"
  by (simp add: grows_def)

lemma grows_trans: "grows u v \<Longrightarrow> grows v w \<Longrightarrow> grows u w"
  by (auto simp: grows_def)

lemma grows_update [simp]:
  "grows u (u'\<lparr>up_worker := x\<rparr>) = grows u u'" "grows u (u'\<lparr>up_queue := q\<rparr>) = grows u u'"
  "grows u (u'\<lparr>up_buffers := b\<rparr>) = grows u u'" "grows (close_acceptance u) u' = grows u u'"
  by (simp_all add: grows_def close_acceptance_def)

lemma grows_record [simp]: "grows u (record_failure p acts e u)" "grows u (record_success acts uuid u)"
  by (auto simp: grows_def record_failure_def record_success_def)

lemma send_payload_grows: "grows u (fst (send_payload env p pl u w))"
  by (auto simp: send_payload_def split: prod.splits sum.splits option.splits)

lemma send_payloads_grows: "grows u (fst (snd (send_payloads env p deadline n ps u w)))"
proof (induction env p deadline n ps u w rule: send_payloads.induct)
  case (2 env p deadline n pl ps u w)
  obtain late w1 where due: "(case deadline of None \<Rightarrow> (False, w)
      | Some d \<Rightarrow> (case env_time env w of (t, w') \<Rightarrow> (d \<le> t, w'))) = (late, w1)"
    by (cases "case deadline of None \<Rightarrow> (False, w)
      | Some d \<Rightarrow> (case env_time env w of (t, w') \<Rightarrow> (d \<le> t, w'))")
  obtain u1 w2 where sent: "send_payload env p pl u w1 = (u1, w2)"
    by (cases "send_payload env p pl u w1")
  show ?case
  proof (cases late)
    case True
    then show ?thesis using due by simp
  next
    case False
    then have "grows u1 (fst (snd (send_payloads env p deadline (n + length (fst pl)) ps u1 w2)))"
      using "2.IH" [OF due [symmetric] _ sent [symmetric]] by simp
    with send_payload_grows [of u env p pl w1] sent due False show ?thesis
      by (auto intro: grows_trans)
  qed
qed simp

lemma send_batch_grows: "grows u (fst (snd (send_batch_activities env acts p deadline u w)))"
  by (auto simp: send_batch_activities_def send_payloads_grows split: sum.splits)

lemma worker_step_grows: "grows u (fst (worker_step env (u, w)))"
proof (cases "up_worker u")
  case (WorkerSending batch p)
  then show ?thesis
    using send_batch_grows [of u env batch p None w] by (auto simp: worker_step_def split: prod.splits)
qed (auto simp: worker_step_def worker_buffer_def buffer_activity_def Let_def split: list.splits)

lemma worker_steps_grow: "grows u (fst ((worker_step env ^^ k) (u, w)))"
proof (induction k)
  case (Suc k)
  obtain u1 w1 where st: "(worker_step env ^^ k) (u, w) = (u1, w1)"
    by (cases "(worker_step env ^^ k) (u, w)")
  from Suc st worker_step_grows [of u1 env w1] show ?case
    by (auto intro: grows_trans)
qed simp

lemma flush_platform_grows: "grows u (fst (snd (flush_platform env deadline p u w)))"
proof -
  obtain t w1 where t: "env_time env w = (t, w1)" by (cases "env_time env w")
  obtain r u1 w2 where snt: "send_batch_activities env (buffer_of u p) p (Some deadline) u w1 = (r, u1, w2)"
    by (cases "send_batch_activities env (buffer_of u p) p (Some deadline) u w1")
  have "grows u u1"
    using send_batch_grows [of u env "buffer_of u p" p "Some deadline" w1] snt by simp
  then show ?thesis
    using t snt by (auto simp: flush_platform_def drop_buffered_def split: sum.splits exn.splits exc_type.splits)
qed

lemma flush_platforms_grows: "grows u (fst (snd (flush_platforms env deadline ps u w)))"
proof (induction ps arbitrary: u w)
  case (Cons p ps)
  obtain r u1 w1 where st: "flush_platform env deadline p u w = (r, u1, w1)"
    by (cases "flush_platform env deadline p u w")
  show ?case
    using flush_platform_grows [of u env deadline p w] st Cons [of u1 w1]
    by (cases r) (auto intro: grows_trans)
qed simp

lemma flush_remaining_grows: "grows u (fst (snd (flush_remaining env deadline u w)))"
proof -
  have "grows v (fold buffer_activity as v)" for as v
  proof (induction as arbitrary: v)
    case (Cons a as)
    have "grows v (buffer_activity a v)" by (simp add: buffer_activity_def Let_def)
    with Cons [of "buffer_activity a v"] show ?case by (auto intro: grows_trans)
  qed simp
  from this [of "u\<lparr>up_queue := []\<rparr>" "up_queue u"] have "grows u (flush_queue u)"
    by (simp add: flush_queue_def grows_def)
  then show ?thesis
    unfolding flush_remaining_def Let_def by (rule grows_trans) (rule flush_platforms_grows)
qed



section \<open>Batches that cannot be described\<close>

definition bad_post :: AgentActivity where
  "bad_post = demo_activity PyNone"

definition bad_updater :: ZepGraphMemoryUpdater where
  "bad_updater = foldl (\<lambda>u a. snd (add_activity a u)) (start_updater (fresh_updater (lit ''g'') (lit ''s'')))
     (replicate 5 bad_post)"

lemma bad_post_undescribable: "\<not> describable bad_post"
  by (simp add: describable_def bad_post_def demo_activity_def described_types_def action_descriptions_def)

lemma bad_platform: "py_lower (act_platform bad_post) = lit ''twitter''"
  by (simp add: bad_post_def demo_activity_def py_lower_def lit_def lower_char_def)

lemma bad_started: "bad_updater = (fresh_updater (lit ''g'') (lit ''s''))
    \<lparr>up_running := True, up_worker := WorkerLoop, up_queue := replicate 5 bad_post, up_total_activities := 5\<rparr>"
  by (simp add: bad_updater_def add_activity_def start_updater_def fresh_updater_def bad_post_def
      demo_activity_def eval_nat_numeral)

definition bad_sending :: ZepGraphMemoryUpdater where
  "bad_sending = bad_updater\<lparr>up_queue := [], up_running := False, up_worker := WorkerSending (replicate 5 bad_post) (lit ''twitter'')\<rparr>"

lemma bad_worker: "(worker_step env ^^ 10) (close_acceptance bad_updater, w) = (bad_sending, w)"
  by (simp add: eval_nat_numeral bad_started bad_sending_def worker_step_def close_acceptance_def
      fresh_updater_def worker_buffer_def buffer_activity_def buffer_of_def dget_or_def bad_platform
      BATCH_SIZE_def Let_def)

lemma undescribable_batch_dropped:
  assumes "up_worker u = WorkerSending batch p" and "\<not> list_all describable batch"
  shows "\<exists>w'. worker_step env (u, w) = (u\<lparr>up_worker := WorkerLoop\<rparr>, w')"
proof -
  obtain r u1 w1 where run: "send_batch_activities env batch p None u w = (r, u1, w1)"
    by (cases "send_batch_activities env batch p None u w")
  from run have "u1 = u"
    by (cases rule: send_batch_frame) (use assms in auto)
  with assms run show ?thesis by (simp add: worker_step_def)
qed

lemma bad_stop_steps:
  "\<exists>w'. (worker_step env ^^ 12) (close_acceptance bad_updater, w)
     = (bad_updater\<lparr>up_queue := [], up_running := False, up_worker := WorkerDone\<rparr>, w')"
proof -
  have twelve: "(worker_step env ^^ 12) x = worker_step env (worker_step env ((worker_step env ^^ 10) x))" for x
    by (simp add: eval_nat_numeral)
  obtain w1 where "worker_step env (bad_sending, w) = (bad_sending\<lparr>up_worker := WorkerLoop\<rparr>, w1)"
    using undescribable_batch_dropped [of bad_sending "replicate 5 bad_post" "lit ''twitter''" env w]
      bad_post_undescribable by (auto simp: bad_sending_def eval_nat_numeral)
  then show ?thesis
    unfolding twelve bad_worker by (simp add: worker_step_def bad_sending_def)
qed

text \<open>
  The gap in the accounting.  Five activities whose \<^verbatim>\<open>action_args\<close> is \<^verbatim>\<open>null\<close> are accepted,
  batched and lost: describing them raises inside the worker after the batch has left its
  buffer, the exception is only logged, and a later \<^verbatim>\<open>stop()\<close> returns normally although none
  of the five was sent and no failed batch is recorded.
\<close>

theorem malformed_batch_lost:
  "\<exists>u' w'. stop_drain env 12 bad_updater w = Some (Inr (), u', w')
     \<and> up_total_activities u' = 5 \<and> up_total_items_sent u' = 0 \<and> up_failed_batches u' = [] \<and> in_flight u' = []"
proof -
  define v where "v = bad_updater\<lparr>up_queue := [], up_running := False, up_worker := WorkerDone\<rparr>"
  have dr: "drain env d v w = Some (Inr (), v, w)" for d w
    by (simp add: drain_def flush_remaining_def flush_queue_def flush_platform_def v_def bad_started
        fresh_updater_def buffer_of_def dget_or_def wait_for_pending_episodes_def)
  obtain t w1 where t: "env_time env w = (t, w1)" by (cases "env_time env w")
  obtain t' w2 where t': "env_time env w1 = (t', w2)" by (cases "env_time env w1")
  obtain w3 where st: "(worker_step env ^^ 12) (close_acceptance bad_updater, w2) = (v, w3)"
    unfolding v_def using bad_stop_steps [of env w2] by auto
  have "worker_alive (close_acceptance bad_updater)" "\<not> worker_alive v"
    by (simp_all add: worker_alive_def close_acceptance_def bad_started v_def)
  then have "stop_drain env 12 bad_updater w = Some (Inr (), v, w3)"
    by (simp add: stop_drain_def t t' st dr)
  moreover have "up_total_activities v = 5 \<and> up_total_items_sent v = 0 \<and> up_failed_batches v = [] \<and> in_flight v = []"
    by (simp add: v_def bad_started fresh_updater_def in_flight_def held_acts_def buffered_acts_def)
  ultimately show ?thesis by blast
qed

end
