(* ===== verification/Memory_Manager.thy ===== *)
theory Memory_Manager
  imports Updater_Faults
begin

text \<open>
  \<^verbatim>\<open>ZepGraphMemoryManager\<close> of \<^verbatim>\<open>app/services/zep_graph_memory_updater.py\<close>: the registry of the
  updaters that still own or drain a graph, and the interface the simulation runner and the
  graph deletion guards rely on.

  The class attributes are the record \<open>ZepGraphMemoryManager\<close>.  \<open>k\<close> (or \<open>ks sid\<close>) is the number
  of worker steps that happen while \<^verbatim>\<open>stop()\<close> waits in \<^verbatim>\<open>join\<close>; \<open>None\<close> stands for a call that
  never returns.
\<close>

section \<open>State and operations\<close>

record ZepGraphMemoryManager =
  mm_updaters :: "(pystr \<times> ZepGraphMemoryUpdater) list"
  mm_stop_all_done :: bool

type_synonym 'w manager_outcome = "(unit res \<times> ZepGraphMemoryManager \<times> 'w) option"

definition register_updater ::
  "pystr option \<Rightarrow> pystr option \<Rightarrow> pystr \<Rightarrow> pystr \<Rightarrow> ZepGraphMemoryManager \<Rightarrow> unit res \<times> ZepGraphMemoryManager" where
  "register_updater env_url config_key simulation_id graph_id m =
     (case new_updater env_url config_key graph_id (Some simulation_id) of
        Inl e \<Rightarrow> (Inl e, m)
      | Inr u \<Rightarrow>
          (Inr (), m\<lparr>mm_updaters := dset (mm_updaters m) simulation_id (start_updater u),
                     mm_stop_all_done := False\<rparr>))"

definition create_updater ::
  "'w updater_env \<Rightarrow> pystr option \<Rightarrow> pystr option \<Rightarrow> nat \<Rightarrow> pystr \<Rightarrow> pystr \<Rightarrow> ZepGraphMemoryManager \<Rightarrow> 'w \<Rightarrow>
   'w manager_outcome" where
  "create_updater env env_url config_key k simulation_id graph_id m w =
     (case dget (mm_updaters m) simulation_id of
        None \<Rightarrow> (case register_updater env_url config_key simulation_id graph_id m of (r, m') \<Rightarrow> Some (r, m', w))
      | Some u \<Rightarrow>
          (case stop_drain env k u w of
             None \<Rightarrow> None
           | Some (r, u', w') \<Rightarrow>
               (let m' = m\<lparr>mm_updaters := dset (mm_updaters m) simulation_id u'\<rparr> in
                case r of
                  Inl e \<Rightarrow> Some (Inl e, m', w')
                | Inr _ \<Rightarrow>
                    (case register_updater env_url config_key simulation_id graph_id m' of
                       (r', m'') \<Rightarrow> Some (r', m'', w')))))"

definition get_updater :: "ZepGraphMemoryManager \<Rightarrow> pystr \<Rightarrow> ZepGraphMemoryUpdater option" where
  "get_updater m simulation_id = dget (mm_updaters m) simulation_id"

definition get_simulation_ids_for_graph :: "ZepGraphMemoryManager \<Rightarrow> pystr \<Rightarrow> pystr list" where
  "get_simulation_ids_for_graph m graph_id =
     sort (map fst (filter (\<lambda>(_, u). up_graph_id u = graph_id) (mm_updaters m)))"

definition get_simulation_ids :: "ZepGraphMemoryManager \<Rightarrow> pystr list" where
  "get_simulation_ids m = sort (map fst (mm_updaters m))"

definition discard_inactive_updater :: "pystr \<Rightarrow> ZepGraphMemoryManager \<Rightarrow> bool res \<times> ZepGraphMemoryManager" where
  "discard_inactive_updater simulation_id m =
     (case dget (mm_updaters m) simulation_id of
        None \<Rightarrow> (Inr False, m)
      | Some u \<Rightarrow>
          if up_running u \<or> worker_alive u
          then (Inl (Exn RuntimeErr (lit ''Zep updater for '' @ simulation_id @ lit '' is still active'')), m)
          else (Inr True, m\<lparr>mm_updaters := dpop (mm_updaters m) simulation_id\<rparr>))"

definition stop_updater ::
  "'w updater_env \<Rightarrow> nat \<Rightarrow> pystr \<Rightarrow> ZepGraphMemoryManager \<Rightarrow> 'w \<Rightarrow> 'w manager_outcome" where
  "stop_updater env k simulation_id m w =
     (case dget (mm_updaters m) simulation_id of
        None \<Rightarrow> Some (Inr (), m, w)
      | Some u \<Rightarrow>
          (case stop_drain env k u w of
             None \<Rightarrow> None
           | Some (Inl e, u', w') \<Rightarrow>
               Some (Inl e, m\<lparr>mm_updaters := dset (mm_updaters m) simulation_id u'\<rparr>, w')
           | Some (Inr _, u', w') \<Rightarrow>
               Some (Inr (), m\<lparr>mm_updaters := dpop (mm_updaters m) simulation_id\<rparr>, w')))"

fun stop_each ::
  "'w updater_env \<Rightarrow> (pystr \<Rightarrow> nat) \<Rightarrow> pystr list \<Rightarrow> (pystr \<times> exn) list \<Rightarrow> ZepGraphMemoryManager \<Rightarrow> 'w \<Rightarrow>
   ((pystr \<times> exn) list \<times> ZepGraphMemoryManager \<times> 'w) option"
where
  "stop_each env ks [] errors m w = Some (errors, m, w)"
| "stop_each env ks (sid # sids) errors m w =
     (case stop_updater env (ks sid) sid m w of
        None \<Rightarrow> None
      | Some (Inr _, m', w') \<Rightarrow> stop_each env ks sids errors m' w'
      | Some (Inl e, m', w') \<Rightarrow> stop_each env ks sids (errors @ [(sid, e)]) m' w')"

definition stop_all_error :: "(pystr \<times> exn) list \<Rightarrow> exn" where
  "stop_all_error errors =
     Exn RuntimeErr ([37096, 20998, 22270, 35889, 26356, 26032, 22120, 26410, 23436, 25972, 20572, 27490] @ lit '': '' @
       py_join (lit ''; '') (map (\<lambda>(sid, e). sid @ lit '': '' @ exn_msg e) errors))"

definition stop_all ::
  "'w updater_env \<Rightarrow> (pystr \<Rightarrow> nat) \<Rightarrow> ZepGraphMemoryManager \<Rightarrow> 'w \<Rightarrow> 'w manager_outcome" where
  "stop_all env ks m w =
     (if mm_stop_all_done m then Some (Inr (), m, w)
      else
        (case stop_each env ks (map fst (mm_updaters m)) [] m w of
           None \<Rightarrow> None
         | Some (errors, m', w') \<Rightarrow>
             (let m'' = m'\<lparr>mm_stop_all_done := (mm_updaters m' = [])\<rparr> in
              Some (if errors \<noteq> [] then Inl (stop_all_error errors) else Inr (), m'', w'))))"

definition get_all_stats :: "ZepGraphMemoryManager \<Rightarrow> (pystr \<times> pydict) list" where
  "get_all_stats m = map (\<lambda>(sid, u). (sid, get_stats u)) (mm_updaters m)"

section \<open>The registry interface\<close>

definition registered :: "ZepGraphMemoryManager \<Rightarrow> pystr \<Rightarrow> bool" where
  "registered m sid \<longleftrightarrow> dhas (mm_updaters m) sid"

lemma registered_simps [simp]:
  "registered (m\<lparr>mm_updaters := dset us sid u, mm_stop_all_done := b\<rparr>) sid' = (sid' = sid \<or> dhas us sid')"
  "registered (m\<lparr>mm_updaters := dset us sid u\<rparr>) sid' = (sid' = sid \<or> dhas us sid')"
  "registered (m\<lparr>mm_updaters := dpop us sid\<rparr>) sid' = (sid' \<noteq> sid \<and> dhas us sid')"
  "registered (m\<lparr>mm_stop_all_done := b\<rparr>) sid' = registered m sid'"
  by (auto simp: registered_def dhas_iff_dget)

lemma stop_updater_registered:
  assumes "stop_updater env k sid m w = Some (r, m', w')"
  shows "registered m' sid' = (if sid' = sid then \<not> is_ok r else registered m sid')
    \<and> (\<not> is_ok r \<longrightarrow> registered m sid)"
  using assms
  by (auto simp: stop_updater_def dhas_iff_dget registered_def split: option.splits prod.splits sum.splits)

lemma create_updater_registered:
  assumes "create_updater env env_url key k sid g m w = Some (r, m', w')"
  shows "registered m' sid' = (if sid' = sid then is_ok r \<or> registered m sid else registered m sid')"
  using assms
  by (auto simp: create_updater_def register_updater_def dhas_iff_dget registered_def Let_def
      split: option.splits prod.splits sum.splits)

text \<open>
  What the simulation runner and the deletion guards rely on: a stop that returns normally
  unregisters its simulation, one that raises keeps it registered, and neither touches the
  other simulations; creation registers.
\<close>

locale updater_registry =
  fixes is_registered :: "'m \<Rightarrow> pystr \<Rightarrow> bool"
    and stop_op :: "pystr \<Rightarrow> 'm \<Rightarrow> 'w \<Rightarrow> (unit res \<times> 'm \<times> 'w) option"
    and create_op :: "pystr \<Rightarrow> pystr \<Rightarrow> 'm \<Rightarrow> 'w \<Rightarrow> (unit res \<times> 'm \<times> 'w) option"
  assumes stop_registered: "stop_op sid m w = Some (r, m', w') \<Longrightarrow>
      is_registered m' sid' = (if sid' = sid then \<not> is_ok r else is_registered m sid')"
    and stop_error_registered: "stop_op sid m w = Some (Inl e, m', w') \<Longrightarrow> is_registered m sid"
    and create_registered: "create_op sid g m w = Some (r, m', w') \<Longrightarrow>
      is_registered m' sid' = (if sid' = sid then is_ok r \<or> is_registered m sid else is_registered m sid')"
begin

lemma stop_ok_unregisters: "stop_op sid m w = Some (Inr (), m', w') \<Longrightarrow> \<not> is_registered m' sid"
  using stop_registered [of sid m w "Inr ()" m' w' sid] by simp

lemma stop_error_keeps: "stop_op sid m w = Some (Inl e, m', w') \<Longrightarrow> is_registered m' sid"
  using stop_registered [of sid m w "Inl e" m' w' sid] by simp

lemma stop_other: "stop_op sid m w = Some (r, m', w') \<Longrightarrow> sid' \<noteq> sid \<Longrightarrow> is_registered m' sid' = is_registered m sid'"
  using stop_registered [of sid m w r m' w' sid'] by simp

lemma create_ok_registers: "create_op sid g m w = Some (Inr (), m', w') \<Longrightarrow> is_registered m' sid"
  using create_registered [of sid g m w "Inr ()" m' w' sid] by simp

lemma create_other: "create_op sid g m w = Some (r, m', w') \<Longrightarrow> sid' \<noteq> sid \<Longrightarrow> is_registered m' sid' = is_registered m sid'"
  using create_registered [of sid g m w r m' w' sid'] by simp

end

interpretation manager: updater_registry registered "stop_updater env k" "create_updater env env_url key k"
  for env :: "'w updater_env" and env_url key k
proof unfold_locales
  show "registered m sid" if "stop_updater env k sid m w = Some (Inl e, m', w')" for sid m w e m' w'
    using stop_updater_registered [OF that] by simp
qed (blast dest: stop_updater_registered create_updater_registered)+

section \<open>Invariant\<close>

text \<open>
  Every registered updater is a reachable one, keys are unique, and the "already stopped" flag
  implies an empty registry.
\<close>

definition manager_ok :: "'w updater_env \<Rightarrow> ZepGraphMemoryManager \<Rightarrow> bool" where
  "manager_ok env m \<longleftrightarrow> distinct (map fst (mm_updaters m))
     \<and> (\<forall>(sid, u) \<in> set (mm_updaters m). \<exists>w. updater_run env describable u w)
     \<and> (mm_stop_all_done m \<longrightarrow> mm_updaters m = [])"

lemma manager_ok_get:
  "manager_ok env m \<Longrightarrow> dget (mm_updaters m) sid = Some u \<Longrightarrow> \<exists>w. updater_run env describable u w"
  by (auto simp: manager_ok_def dget_def dest!: map_of_SomeD)

lemma manager_ok_set:
  "manager_ok env m \<Longrightarrow> updater_run env describable u w \<Longrightarrow> \<not> mm_stop_all_done m' \<Longrightarrow>
   mm_updaters m' = dset (mm_updaters m) sid u \<Longrightarrow> manager_ok env m'"
  by (auto simp: manager_ok_def set_dset distinct_update)

lemma manager_ok_pop:
  "manager_ok env m \<Longrightarrow> manager_ok env (m\<lparr>mm_updaters := dpop (mm_updaters m) sid\<rparr>)"
  by (auto simp: manager_ok_def set_dpop intro: distinct_delete)

lemma stopped_updater_run:
  assumes "manager_ok env m" and "dget (mm_updaters m) sid = Some u" and "stop_drain env k u w = Some (r, u', w')"
  shows "updater_run env describable u' w'"
proof -
  obtain w0 where "updater_run env describable u w0"
    using manager_ok_get [OF assms(1,2)] by auto
  then have "updater_run env describable u w" by (rule updater_run.elsewhere)
  then show ?thesis using assms(3) by (rule stop_drain_run)
qed

lemma flag_clear: "manager_ok env m \<Longrightarrow> dget (mm_updaters m) sid = Some u \<Longrightarrow> \<not> mm_stop_all_done m"
  by (auto simp: manager_ok_def)

lemma manager_ok_stop:
  assumes ok: "manager_ok env m" and run: "stop_updater env k sid m w = Some (r, m', w')"
  shows "manager_ok env m' \<and> mm_stop_all_done m' = mm_stop_all_done m"
proof (cases "dget (mm_updaters m) sid")
  case None
  with assms show ?thesis by (simp add: stop_updater_def)
next
  case (Some u)
  then obtain r1 u1 w1 where st: "stop_drain env k u w = Some (r1, u1, w1)"
    using run by (auto simp: stop_updater_def split: option.splits)
  have "updater_run env describable u1 w1"
    by (rule stopped_updater_run [OF ok Some st])
  then have "manager_ok env (m\<lparr>mm_updaters := dset (mm_updaters m) sid u1\<rparr>)"
    using flag_clear [OF ok Some] by (intro manager_ok_set [OF ok]) simp_all
  moreover note manager_ok_pop [OF ok, of sid]
  ultimately show ?thesis
    using run Some st by (auto simp: stop_updater_def split: sum.splits)
qed

lemma register_ok:
  assumes ok: "manager_ok env m" and "register_updater env_url key sid g m = (r, m')"
  shows "manager_ok env m'"
proof (cases "new_updater env_url key g (Some sid)")
  case (Inr u)
  then obtain s where "u = fresh_updater g s"
    by (auto simp: new_updater_def exn_simps split: option.splits list.splits)
  then have "updater_run env describable (start_updater u) w" for w
    by (simp add: updater_run.created updater_run.started fresh_updater_def [of g s, symmetric])
       (intro updater_run.started updater_run.created, simp add: fresh_updater_def)
  with assms Inr show ?thesis
    by (auto simp: register_updater_def intro!: manager_ok_set [OF ok])
qed (use assms in \<open>simp add: register_updater_def\<close>)


lemma manager_ok_create:
  assumes ok: "manager_ok env m" and run: "create_updater env env_url key k sid g m w = Some (r, m', w')"
  shows "manager_ok env m'"
proof (cases "dget (mm_updaters m) sid")
  case None
  with assms show ?thesis
    by (auto simp: create_updater_def split: prod.splits intro: register_ok)
next
  case (Some u)
  then obtain r1 u1 w1 where st: "stop_drain env k u w = Some (r1, u1, w1)"
    using run by (auto simp: create_updater_def split: option.splits)
  have "updater_run env describable u1 w1"
    by (rule stopped_updater_run [OF ok Some st])
  then have ok1: "manager_ok env (m\<lparr>mm_updaters := dset (mm_updaters m) sid u1\<rparr>)"
    using flag_clear [OF ok Some] by (intro manager_ok_set [OF ok]) simp_all
  then show ?thesis
    using run Some st
    by (auto simp: create_updater_def Let_def split: sum.splits prod.splits intro: register_ok)
qed

lemma manager_ok_discard:
  "manager_ok env m \<Longrightarrow> discard_inactive_updater sid m = (r, m') \<Longrightarrow> manager_ok env m'"
  by (auto simp: discard_inactive_updater_def split: option.splits if_splits intro: manager_ok_pop)

text \<open>An activity handed to a registered updater keeps the registry well formed.\<close>

lemma manager_ok_add:
  assumes "manager_ok env m" and "dget (mm_updaters m) sid = Some u" and "describable a"
  shows "manager_ok env (m\<lparr>mm_updaters := dset (mm_updaters m) sid (snd (add_activity a u))\<rparr>)"
proof -
  obtain w where "updater_run env describable u w"
    using manager_ok_get [OF assms(1,2)] by auto
  then have "updater_run env describable (snd (add_activity a u)) w"
    using assms(3) by (rule updater_run.added)
  then show ?thesis
    using flag_clear [OF assms(1,2)] by (intro manager_ok_set [OF assms(1)]) simp_all
qed

section \<open>Stopping updaters\<close>

text \<open>
  An updater leaves the registry only fully drained.  When \<^verbatim>\<open>stop_updater\<close> returns normally
  the simulation's updater is gone and every activity it had accepted was sent; when it raises
  the updater stays registered, so that the deletion and report guards still see it and the
  stop can be repeated.  Other simulations are not affected.
\<close>

theorem stop_updater_contract:
  assumes ok: "manager_ok env m" and reg: "get_updater m sid = Some u"
    and run: "stop_updater env k sid m w = Some (r, m', w')"
  shows "(case r of
        Inr _ \<Rightarrow> get_updater m' sid = None \<and>
          (\<exists>u'. up_total_items_sent u' = up_total_activities u \<and> in_flight u' = [] \<and> up_failed_batches u' = []
              \<and> stop_drain env k u w = Some (r, u', w'))
      | Inl e \<Rightarrow> \<exists>u'. get_updater m' sid = Some u' \<and> up_graph_id u' = up_graph_id u \<and> \<not> up_running u')
    \<and> (\<forall>sid'. sid' \<noteq> sid \<longrightarrow> get_updater m' sid' = get_updater m sid')"
proof -
  have u: "dget (mm_updaters m) sid = Some u"
    using reg by (simp add: get_updater_def)
  obtain r1 u1 w1 where st: "stop_drain env k u w = Some (r1, u1, w1)"
    using run u by (auto simp: stop_updater_def split: option.splits)
  obtain w0 where "updater_run env describable u w0"
    using manager_ok_get [OF ok u] by auto
  then have ur: "updater_run env describable u w" by (rule updater_run.elsewhere)
  show ?thesis
  proof (cases r1)
    case (Inl e)
    moreover have "up_graph_id u1 = up_graph_id u \<and> \<not> up_running u1"
      by (rule stop_drain_frame [OF ur st])
    ultimately show ?thesis
      using run u st by (auto simp: stop_updater_def get_updater_def)
  next
    case (Inr x)
    have "stop_drain env k u w = Some (Inr (), u1, w1)"
      using st Inr by simp
    note stop_complete [OF ur this]
    with run u st Inr show ?thesis
      by (auto simp: stop_updater_def get_updater_def)
  qed
qed


lemma stop_each_spec:
  assumes "stop_each env ks sids errors m w = Some (errors', m', w')" and "manager_ok env m" and "distinct sids"
  shows "manager_ok env m' \<and> (\<exists>new. errors' = errors @ new \<and> set (map fst new) \<subseteq> set sids
    \<and> (\<forall>sid. registered m' sid \<longleftrightarrow> (if sid \<in> set sids then sid \<in> set (map fst new) else registered m sid)))"
  using assms
proof (induction sids arbitrary: errors m w)
  case (Cons sid sids)
  obtain r m1 w1 where st: "stop_updater env (ks sid) sid m w = Some (r, m1, w1)"
    using Cons.prems(1) by (auto split: option.splits)
  have ok1: "manager_ok env m1"
    using manager_ok_stop [OF Cons.prems(2) st] by simp
  note reg = manager.stop_registered [OF st]
  define errs where "errs = (case r of Inr _ \<Rightarrow> errors | Inl e \<Rightarrow> errors @ [(sid, e)])"
  have "stop_each env ks sids errs m1 w1 = Some (errors', m', w')"
    using Cons.prems(1) st by (auto simp: errs_def split: sum.splits)
  from Cons.IH [OF this ok1] Cons.prems(3) obtain new where
    new: "manager_ok env m'" "errors' = errs @ new" "set (map fst new) \<subseteq> set sids"
      "\<forall>s. registered m' s \<longleftrightarrow> (if s \<in> set sids then s \<in> set (map fst new) else registered m1 s)"
    by auto
  show ?case
  proof (cases r)
    case (Inl e)
    with new reg Cons.prems(3) show ?thesis
      by (intro conjI exI [of _ "(sid, e) # new"]) (auto simp: errs_def)
  next
    case (Inr x)
    with new reg Cons.prems(3) show ?thesis
      by (intro conjI exI [of _ new]) (auto simp: errs_def)
  qed
qed simp

lemma registered_iff_key: "registered m sid \<longleftrightarrow> sid \<in> fst ` set (mm_updaters m)"
  by (simp add: registered_def dhas_def map_of_eq_None_iff)



section \<open>Concrete registries\<close>

definition demo_manager :: ZepGraphMemoryManager where
  "demo_manager = \<lparr>mm_updaters = [(lit ''sim_1'', demo_updater)], mm_stop_all_done = False\<rparr>"

lemma demo_manager_ok: "manager_ok demo_env demo_manager"
  using demo_updater_run by (auto simp: manager_ok_def demo_manager_def)

lemma demo_stop_updater: "stop_updater demo_env 6 (lit ''sim_1'') demo_manager (0, 0)
    = Some (Inr (), \<lparr>mm_updaters = [], mm_stop_all_done = False\<rparr>, (0, 1))"
  by (simp add: stop_updater_def demo_manager_def demo_stop)

lemma demo_stop_all: "stop_all demo_env (\<lambda>_. 6) demo_manager (0, 0)
    = Some (Inr (), \<lparr>mm_updaters = [], mm_stop_all_done = True\<rparr>, (0, 1))"
  using demo_stop_updater by (simp add: stop_all_def demo_manager_def)

theorem stop_updater_contract_witness:
  "get_updater \<lparr>mm_updaters = [], mm_stop_all_done = False\<rparr> (lit ''sim_1'') = None
   \<and> (\<exists>u'. up_total_items_sent u' = 1 \<and> stop_drain demo_env 6 demo_updater (0, 0) = Some (Inr (), u', (0, 1)))"
proof -
  have "get_updater demo_manager (lit ''sim_1'') = Some demo_updater"
    by (simp add: get_updater_def demo_manager_def)
  from stop_updater_contract [OF demo_manager_ok this demo_stop_updater] show ?thesis
    by (auto simp: demo_started)
qed


end
