(* ===== verification/Project_Store.thy ===== *)
theory Project_Store
  imports Stores
begin

text \<open>
  Projects on disk: \<^verbatim>\<open>app/models/project.py\<close>.

  The directory tree below \<^verbatim>\<open>uploads/projects\<close> is an association list from directory names to
  \<open>project_dir\<close> records, in the order \<^verbatim>\<open>os.listdir\<close> happens to use.  A JSON file holds a value or
  something \<^verbatim>\<open>json.load\<close> rejects; writing a value and reading it back gives the same value.
  Fields that are read back without a check are JSON values.  Writes to existing directories
  succeed.
\<close>

section \<open>Files\<close>

datatype json_file = Json pyval | NotJson

definition json_load :: "json_file \<Rightarrow> pyval res" where
  "json_load f = (case f of Json v \<Rightarrow> Inr v | NotJson \<Rightarrow> Inl (Exn JSONDecodeErr (lit ''Expecting value'')))"

definition as_dict :: "pyval \<Rightarrow> pydict res" where
  "as_dict v = (case v of PyDict d \<Rightarrow> Inr d | _ \<Rightarrow> Inl (Exn AttributeErr (lit ''object has no attribute get'')))"

definition require_key :: "pydict \<Rightarrow> string \<Rightarrow> pyval res" where
  "require_key d k = (case dget d (lit k) of Some v \<Rightarrow> Inr v | None \<Rightarrow> Inl (Exn KeyErr (lit k)))"

definition field_or :: "pydict \<Rightarrow> string \<Rightarrow> pyval \<Rightarrow> pyval" where
  "field_or d k v = dget_or d (lit k) v"

section \<open>Projects\<close>

datatype ProjectStatus =
    PROJECT_CREATED | ONTOLOGY_GENERATED | GRAPH_BUILDING | GRAPH_COMPLETED | PROJECT_FAILED

fun project_status_value :: "ProjectStatus \<Rightarrow> pystr" where
  "project_status_value PROJECT_CREATED = lit ''created''"
| "project_status_value ONTOLOGY_GENERATED = lit ''ontology_generated''"
| "project_status_value GRAPH_BUILDING = lit ''graph_building''"
| "project_status_value GRAPH_COMPLETED = lit ''graph_completed''"
| "project_status_value PROJECT_FAILED = lit ''failed''"

definition ALL_PROJECT_STATUS :: "ProjectStatus list" where
  "ALL_PROJECT_STATUS = [PROJECT_CREATED, ONTOLOGY_GENERATED, GRAPH_BUILDING, GRAPH_COMPLETED, PROJECT_FAILED]"

definition parse_project_status :: "pystr \<Rightarrow> ProjectStatus res" where
  "parse_project_status s =
     (case find (\<lambda>st. project_status_value st = s) ALL_PROJECT_STATUS of
        Some st \<Rightarrow> Inr st
      | None \<Rightarrow> Inl (Exn ValueError (s @ lit '' is not a valid ProjectStatus'')))"

text \<open>A status is a member of the enumeration, or a JSON value that is not a string, which
  \<^verbatim>\<open>from_dict\<close> passes through.\<close>

datatype status_field = StatusEnum ProjectStatus | StatusRaw pyval

record Project =
  pr_project_id :: pyval
  pr_name :: pyval
  pr_status :: status_field
  pr_created_at :: pyval
  pr_updated_at :: pyval
  pr_files :: pyval
  pr_total_text_length :: pyval
  pr_ontology :: pyval
  pr_analysis_summary :: pyval
  pr_graph_id :: pyval
  pr_graph_build_task_id :: pyval
  pr_zep_batch_id :: pyval
  pr_zep_batch_operation_id :: pyval
  pr_simulation_requirement :: pyval
  pr_chunk_size :: pyval
  pr_chunk_overlap :: pyval
  pr_error :: pyval

definition project_to_dict :: "Project \<Rightarrow> pydict" where
  "project_to_dict p =
     [(lit ''project_id'', pr_project_id p), (lit ''name'', pr_name p),
      (lit ''status'', case pr_status p of StatusEnum st \<Rightarrow> PyStr (project_status_value st) | StatusRaw v \<Rightarrow> v),
      (lit ''created_at'', pr_created_at p), (lit ''updated_at'', pr_updated_at p),
      (lit ''files'', pr_files p), (lit ''total_text_length'', pr_total_text_length p),
      (lit ''ontology'', pr_ontology p), (lit ''analysis_summary'', pr_analysis_summary p),
      (lit ''graph_id'', pr_graph_id p), (lit ''graph_build_task_id'', pr_graph_build_task_id p),
      (lit ''zep_batch_id'', pr_zep_batch_id p),
      (lit ''zep_batch_operation_id'', pr_zep_batch_operation_id p),
      (lit ''simulation_requirement'', pr_simulation_requirement p),
      (lit ''chunk_size'', pr_chunk_size p), (lit ''chunk_overlap'', pr_chunk_overlap p),
      (lit ''error'', pr_error p)]"

definition status_from :: "pyval \<Rightarrow> status_field res" where
  "status_from v =
     (case v of PyStr s \<Rightarrow> bind_res (parse_project_status s) (\<lambda>st. Inr (StatusEnum st)) | _ \<Rightarrow> Inr (StatusRaw v))"

definition project_from_dict :: "pyval \<Rightarrow> Project res" where
  "project_from_dict data =
     bind_res (as_dict data) (\<lambda>d.
     bind_res (status_from (field_or d ''status'' (PyStr (lit ''created'')))) (\<lambda>status.
     bind_res (require_key d ''project_id'') (\<lambda>project_id.
       Inr \<lparr>pr_project_id = project_id,
            pr_name = field_or d ''name'' (PyStr (lit ''Unnamed Project'')),
            pr_status = status,
            pr_created_at = field_or d ''created_at'' (PyStr []),
            pr_updated_at = field_or d ''updated_at'' (PyStr []),
            pr_files = field_or d ''files'' (PyList []),
            pr_total_text_length = field_or d ''total_text_length'' (PyInt 0),
            pr_ontology = field_or d ''ontology'' PyNone,
            pr_analysis_summary = field_or d ''analysis_summary'' PyNone,
            pr_graph_id = field_or d ''graph_id'' PyNone,
            pr_graph_build_task_id = field_or d ''graph_build_task_id'' PyNone,
            pr_zep_batch_id = field_or d ''zep_batch_id'' PyNone,
            pr_zep_batch_operation_id = field_or d ''zep_batch_operation_id'' PyNone,
            pr_simulation_requirement = field_or d ''simulation_requirement'' PyNone,
            pr_chunk_size = field_or d ''chunk_size'' (PyInt 500),
            pr_chunk_overlap = field_or d ''chunk_overlap'' (PyInt 50),
            pr_error = field_or d ''error'' PyNone\<rparr>)))"

lemma parse_project_status_value [simp]: "parse_project_status (project_status_value st) = Inr st"
  by (cases st) (simp_all add: parse_project_status_def ALL_PROJECT_STATUS_def)

definition status_wf :: "status_field \<Rightarrow> bool" where
  "status_wf s = (case s of StatusRaw (PyStr _) \<Rightarrow> False | _ \<Rightarrow> True)"

lemma status_from_wf: "status_from v = Inr s \<Longrightarrow> status_wf s"
  by (auto simp: status_from_def status_wf_def exn_simps split: pyval.splits)

lemma project_roundtrip:
  assumes "status_wf (pr_status p)"
  shows "project_from_dict (PyDict (project_to_dict p)) = Inr p"
proof -
  have st: "status_from (case pr_status p of StatusEnum st \<Rightarrow> PyStr (project_status_value st) | StatusRaw v \<Rightarrow> v)
      = Inr (pr_status p)"
    using assms by (auto simp: status_from_def status_wf_def split: status_field.splits pyval.splits)
  show ?thesis
    by (simp add: project_from_dict_def as_dict_def require_key_def field_or_def dget_or_dget
        project_to_dict_def st)
qed

text \<open>
  Project documents round-trip.  A project read from disk, written and read again is the
  same project, in every field.
\<close>

theorem project_document_roundtrip:
  assumes "project_from_dict data = Inr p"
  shows "project_from_dict (PyDict (project_to_dict p)) = Inr p"
proof (rule project_roundtrip)
  show "status_wf (pr_status p)"
    using assms by (auto simp: project_from_dict_def exn_simps intro: status_from_wf)
qed

theorem project_document_roundtrip_witness:
  "\<exists>p. project_from_dict (PyDict [(lit ''project_id'', PyStr (lit ''proj_1'')), (lit ''status'', PyStr (lit ''failed''))]) = Inr p
     \<and> project_from_dict (PyDict (project_to_dict p)) = Inr p \<and> pr_status p = StatusEnum PROJECT_FAILED"
proof -
  let ?d = "PyDict [(lit ''project_id'', PyStr (lit ''proj_1'')), (lit ''status'', PyStr (lit ''failed''))]"
  obtain p where p: "project_from_dict ?d = Inr p" "pr_status p = StatusEnum PROJECT_FAILED"
    by (simp add: project_from_dict_def as_dict_def require_key_def field_or_def dget_or_dget status_from_def
        parse_project_status_def ALL_PROJECT_STATUS_def)
  from project_document_roundtrip [OF p(1)] p show ?thesis by blast
qed


section \<open>The project directories\<close>

record project_dir =
  pd_meta :: "json_file option"
  pd_text :: "pystr option"
  pd_files :: "(pystr \<times> nat list) list option"

type_synonym projects = "(pystr \<times> project_dir) list"

definition empty_dir :: project_dir where
  "empty_dir = \<lparr>pd_meta = None, pd_text = None, pd_files = None\<rparr>"

definition path_join :: "pystr \<Rightarrow> pystr \<Rightarrow> pystr" where
  "path_join a b = a @ lit ''/'' @ b"

definition get_project_dir :: "pystr \<Rightarrow> pystr \<Rightarrow> pystr" where
  "get_project_dir projects_dir project_id = path_join projects_dir project_id"

definition get_project_files_dir :: "pystr \<Rightarrow> pystr \<Rightarrow> pystr" where
  "get_project_files_dir projects_dir project_id = path_join (get_project_dir projects_dir project_id) (lit ''files'')"

definition no_such_file :: exn where
  "no_such_file = Exn FileNotFoundErr (lit ''No such file or directory'')"

definition save_project :: "pystr \<Rightarrow> Project \<Rightarrow> projects \<Rightarrow> unit res \<times> Project \<times> projects" where
  "save_project now p fs =
     (let p = p\<lparr>pr_updated_at := PyStr now\<rparr> in
      case pr_project_id p of
        PyStr pid \<Rightarrow>
          (case dget fs pid of
             None \<Rightarrow> (Inl no_such_file, p, fs)
           | Some d \<Rightarrow> (Inr (), p, dset fs pid (d\<lparr>pd_meta := Some (Json (PyDict (project_to_dict p)))\<rparr>)))
      | _ \<Rightarrow> (Inl (Exn TypeErr (lit ''join() argument must be str'')), p, fs))"

definition ensure_dir :: "pystr \<Rightarrow> projects \<Rightarrow> projects" where
  "ensure_dir pid fs = (if dhas fs pid then fs else dset fs pid empty_dir)"

definition ensure_files_dir :: "pystr \<Rightarrow> projects \<Rightarrow> projects" where
  "ensure_files_dir pid fs =
     (let fs = ensure_dir pid fs; d = dget_or fs pid empty_dir
      in dset fs pid (d\<lparr>pd_files := Some (case pd_files d of Some xs \<Rightarrow> xs | None \<Rightarrow> [])\<rparr>))"

definition new_project :: "pystr \<Rightarrow> pystr \<Rightarrow> pystr \<Rightarrow> Project" where
  "new_project pid now name =
     \<lparr>pr_project_id = PyStr pid, pr_name = PyStr name, pr_status = StatusEnum PROJECT_CREATED,
      pr_created_at = PyStr now, pr_updated_at = PyStr now, pr_files = PyList [],
      pr_total_text_length = PyInt 0, pr_ontology = PyNone, pr_analysis_summary = PyNone,
      pr_graph_id = PyNone, pr_graph_build_task_id = PyNone, pr_zep_batch_id = PyNone,
      pr_zep_batch_operation_id = PyNone, pr_simulation_requirement = PyNone,
      pr_chunk_size = PyInt 500, pr_chunk_overlap = PyInt 50, pr_error = PyNone\<rparr>"

definition create_project ::
  "pystr \<Rightarrow> pystr \<Rightarrow> pystr \<Rightarrow> pystr \<Rightarrow> projects \<Rightarrow> unit res \<times> Project \<times> projects" where
  "create_project uuid_hex now now' name fs =
     (let project_id = lit ''proj_'' @ take 12 uuid_hex
      in save_project now' (new_project project_id now name) (ensure_files_dir project_id (ensure_dir project_id fs)))"

definition get_project :: "projects \<Rightarrow> pystr \<Rightarrow> Project option res" where
  "get_project fs pid =
     (case dget fs pid of
        None \<Rightarrow> Inr None
      | Some d \<Rightarrow>
          (case pd_meta d of
             None \<Rightarrow> Inr None
           | Some f \<Rightarrow> bind_res (json_load f) (\<lambda>v. bind_res (project_from_dict v) (\<lambda>p. Inr (Some p)))))"

text \<open>
  \<^verbatim>\<open>list.sort(key=..., reverse=True)\<close> on JSON keys: a list of at most one element is left alone,
  numbers and strings sort by value, and other or mixed keys raise \<^verbatim>\<open>TypeError\<close>.
\<close>

fun key_num :: "pyval \<Rightarrow> rat option" where
  "key_num (PyBool b) = Some (if b then 1 else 0)"
| "key_num (PyInt i) = Some (of_int i)"
| "key_num (PyFloat q) = Some q"
| "key_num _ = None"

fun key_str :: "pyval \<Rightarrow> pystr option" where
  "key_str (PyStr s) = Some s"
| "key_str _ = None"

definition sort_desc_by :: "('a \<Rightarrow> pyval) \<Rightarrow> 'a list \<Rightarrow> 'a list res" where
  "sort_desc_by k xs =
     (if length xs \<le> 1 then Inr xs
      else if list_all (\<lambda>x. key_num (k x) \<noteq> None) xs then Inr (sorted_desc (\<lambda>x. the (key_num (k x))) xs)
      else if list_all (\<lambda>x. key_str (k x) \<noteq> None) xs then Inr (sorted_desc (\<lambda>x. the (key_str (k x))) xs)
      else Inl (Exn TypeErr (lit ''unsupported operand types'')))"

fun collect_projects :: "projects \<Rightarrow> pystr list \<Rightarrow> Project list res" where
  "collect_projects fs [] = Inr []"
| "collect_projects fs (pid # pids) =
     bind_res (get_project fs pid) (\<lambda>found.
     bind_res (collect_projects fs pids) (\<lambda>rest.
       Inr (case found of Some p \<Rightarrow> p # rest | None \<Rightarrow> rest)))"

definition list_projects :: "int option \<Rightarrow> projects \<Rightarrow> Project list res" where
  "list_projects limit fs =
     bind_res (collect_projects fs (map fst fs)) (\<lambda>ps.
     bind_res (sort_desc_by pr_created_at ps) (\<lambda>ps.
       Inr (case limit of None \<Rightarrow> ps | Some n \<Rightarrow> py_slice ps 0 n)))"

definition find_projects_by_graph_id :: "pystr \<Rightarrow> projects \<Rightarrow> Project list res" where
  "find_projects_by_graph_id graph_id fs =
     bind_res (list_projects None fs) (\<lambda>ps. Inr (filter (\<lambda>p. pr_graph_id p = PyStr graph_id) ps))"

definition delete_project :: "pystr \<Rightarrow> projects \<Rightarrow> bool \<times> projects" where
  "delete_project pid fs = (if dhas fs pid then (True, dpop fs pid) else (False, fs))"

text \<open>\<^verbatim>\<open>os.path.splitext(name)[1]\<close>: from the last dot of the last path component, unless only dots precede it.\<close>

definition splitext_ext :: "pystr \<Rightarrow> pystr" where
  "splitext_ext name =
     (let base = rev (takeWhile (\<lambda>c. c \<noteq> 47) (rev name));
          ext = rev (takeWhile (\<lambda>c. c \<noteq> 46) (rev base));
          stem = take (length base - length ext - 1) base
      in if 46 \<in> set base \<and> (\<exists>c \<in> set stem. c \<noteq> 46) then 46 # ext else [])"

definition save_file_to_project ::
  "pystr \<Rightarrow> pystr \<Rightarrow> pystr \<Rightarrow> nat list \<Rightarrow> pystr \<Rightarrow> projects \<Rightarrow> pydict \<times> projects" where
  "save_file_to_project projects_dir uuid_hex pid content original_filename fs =
     (let fs = ensure_files_dir pid fs;
          safe_filename = take 8 uuid_hex @ py_lower (splitext_ext original_filename);
          d = dget_or fs pid empty_dir;
          files = (case pd_files d of Some xs \<Rightarrow> xs | None \<Rightarrow> []);
          fs = dset fs pid (d\<lparr>pd_files := Some (dset files safe_filename content)\<rparr>)
      in ([(lit ''original_filename'', PyStr original_filename),
           (lit ''saved_filename'', PyStr safe_filename),
           (lit ''path'', PyStr (path_join (get_project_files_dir projects_dir pid) safe_filename)),
           (lit ''size'', PyInt (int (length content)))], fs))"

definition save_extracted_text :: "pystr \<Rightarrow> pystr \<Rightarrow> projects \<Rightarrow> unit res \<times> projects" where
  "save_extracted_text pid contents fs =
     (case dget fs pid of
        None \<Rightarrow> (Inl no_such_file, fs)
      | Some d \<Rightarrow> (Inr (), dset fs pid (d\<lparr>pd_text := Some contents\<rparr>)))"

definition get_extracted_text :: "projects \<Rightarrow> pystr \<Rightarrow> pystr option" where
  "get_extracted_text fs pid = (case dget fs pid of None \<Rightarrow> None | Some d \<Rightarrow> pd_text d)"

definition get_project_files :: "pystr \<Rightarrow> projects \<Rightarrow> pystr \<Rightarrow> pystr list" where
  "get_project_files projects_dir fs pid =
     (case dget fs pid of
        None \<Rightarrow> []
      | Some d \<Rightarrow>
          (case pd_files d of
             None \<Rightarrow> []
           | Some xs \<Rightarrow> map (\<lambda>(n, _). path_join (get_project_files_dir projects_dir pid) n) xs))"

section \<open>Store laws\<close>

lemma dget_ensure_dir: "dget (ensure_dir pid fs) k =
    (if k = pid then Some (case dget fs pid of Some d \<Rightarrow> d | None \<Rightarrow> empty_dir) else dget fs k)"
  by (auto simp: ensure_dir_def dhas_iff_dget split: option.splits)

lemma dget_ensure_files_dir: "dget (ensure_files_dir pid fs) k =
    (if k = pid then Some (let d = (case dget fs pid of Some d \<Rightarrow> d | None \<Rightarrow> empty_dir)
       in d\<lparr>pd_files := Some (case pd_files d of Some xs \<Rightarrow> xs | None \<Rightarrow> [])\<rparr>) else dget fs k)"
  by (auto simp: ensure_files_dir_def dget_or_dget dget_ensure_dir Let_def)

lemma get_project_save:
  assumes "save_project now p fs = (Inr (), p', fs')" and "pr_project_id p = PyStr pid" and "status_wf (pr_status p)"
  shows "p' = p\<lparr>pr_updated_at := PyStr now\<rparr>
    \<and> get_project fs' k = (if k = pid then Inr (Some p') else get_project fs k)"
  using assms
  by (auto simp: save_project_def get_project_def json_load_def project_roundtrip Let_def split: option.splits)

text \<open>
  Creating, reading and deleting projects.  A created project is read back exactly as it
  was returned, whatever the directory tree looked like before; the project has status
  CREATED, and every other project is left as it was.  After deletion it is gone and the
  others still are as they were.
\<close>

theorem project_lifecycle:
  "\<exists>p fs'. create_project uuid now now' name fs = (Inr (), p, fs')
     \<and> pr_project_id p = PyStr (lit ''proj_'' @ take 12 uuid) \<and> pr_status p = StatusEnum PROJECT_CREATED
     \<and> get_project fs' (lit ''proj_'' @ take 12 uuid) = Inr (Some p)
     \<and> (let fs'' = snd (delete_project (lit ''proj_'' @ take 12 uuid) fs')
        in get_project fs'' (lit ''proj_'' @ take 12 uuid) = Inr None
           \<and> (if k = lit ''proj_'' @ take 12 uuid then True
              else get_project fs' k = get_project fs k \<and> get_project fs'' k = get_project fs k))"
proof -
  define pid where "pid = lit ''proj_'' @ take 12 uuid"
  define fs1 where "fs1 = ensure_files_dir pid (ensure_dir pid fs)"
  have frame: "get_project fs1 k' = get_project fs k'" if "k' \<noteq> pid" for k'
    using that by (simp add: fs1_def get_project_def dget_ensure_files_dir dget_ensure_dir)
  have "\<exists>d. dget fs1 pid = Some d"
    by (simp add: fs1_def dget_ensure_files_dir)
  then obtain p fs' where sv: "save_project now' (new_project pid now name) fs1 = (Inr (), p, fs')"
    by (auto simp: save_project_def new_project_def Let_def)
  have np: "pr_project_id (new_project pid now name) = PyStr pid" "status_wf (pr_status (new_project pid now name))"
    by (simp_all add: new_project_def status_wf_def)
  note get = get_project_save [OF sv np]
  have "dhas fs' pid"
    using get [of pid] by (auto simp: dhas_iff_dget get_project_def split: option.splits)
  then have "get_project (snd (delete_project pid fs')) k' = (if k' = pid then Inr None else get_project fs' k')" for k'
    by (simp add: delete_project_def get_project_def)
  with get frame sv show ?thesis
    by (intro exI [of _ p] exI [of _ fs'])
       (simp add: create_project_def Let_def pid_def [symmetric] fs1_def [symmetric] new_project_def)
qed

lemma collect_projects_all:
  "collect_projects fs pids = Inr ps \<Longrightarrow> set ps = {p. \<exists>pid \<in> set pids. get_project fs pid = Inr (Some p)}"
  by (induction pids arbitrary: ps) (auto simp: exn_simps split: option.splits)

lemma sort_desc_by_set: "sort_desc_by k xs = Inr ys \<Longrightarrow> mset ys = mset xs"
  by (auto simp: sort_desc_by_def split: if_splits)

lemma find_projects_set:
  assumes "find_projects_by_graph_id g fs = Inr ps"
  shows "set ps = {p. \<exists>pid. get_project fs pid = Inr (Some p) \<and> pr_graph_id p = PyStr g}"
proof -
  obtain all srt where all: "collect_projects fs (map fst fs) = Inr all" and srt: "sort_desc_by pr_created_at all = Inr srt"
    and ps: "ps = filter (\<lambda>p. pr_graph_id p = PyStr g) srt"
    using assms by (auto simp: find_projects_by_graph_id_def list_projects_def exn_simps)
  have "set srt = set all"
    using sort_desc_by_set [OF srt] by (rule mset_eq_setD)
  moreover have "pid \<in> set (map fst fs)" if "get_project fs pid = Inr (Some p)" for pid p
    using that map_of_eq_None_iff [of fs pid] by (auto simp: get_project_def dget_def split: option.splits)
  ultimately show ?thesis
    using collect_projects_all [OF all] ps by fastforce
qed

text \<open>
  Finding the projects of a graph.  When the listing succeeds, the projects found for a
  graph are exactly the stored projects that reference it, however many projects there are; the
  deletion guards rely on no referencing project being missed.
\<close>

theorem find_projects_complete:
  assumes "find_projects_by_graph_id g fs = Inr ps"
  shows "set ps = {p. \<exists>pid. get_project fs pid = Inr (Some p) \<and> pr_graph_id p = PyStr g}"
  using assms by (rule find_projects_set)

definition demo_projects :: projects where
  "demo_projects = [(lit ''a'', empty_dir\<lparr>pd_meta := Some (Json (PyDict [(lit ''project_id'', PyStr (lit ''a'')), (lit ''graph_id'', PyStr (lit ''g''))]))\<rparr>)]"

theorem find_projects_complete_witness:
  "\<exists>ps. find_projects_by_graph_id (lit ''g'') demo_projects = Inr ps
     \<and> set ps = {p. \<exists>pid. get_project demo_projects pid = Inr (Some p) \<and> pr_graph_id p = PyStr (lit ''g'')}"
proof -
  obtain ps where "find_projects_by_graph_id (lit ''g'') demo_projects = Inr ps"
    by (simp add: find_projects_by_graph_id_def list_projects_def demo_projects_def get_project_def
        json_load_def project_from_dict_def as_dict_def field_or_def dget_or_dget status_from_def
        parse_project_status_def ALL_PROJECT_STATUS_def require_key_def sort_desc_by_def)
  with find_projects_complete [OF this] show ?thesis by blast
qed

end
