(* ===== verification/Simulation_Manager.thy ===== *)
theory Simulation_Manager
  imports Project_Store Zep_Access
begin

text \<open>
  Simulation metadata: \<^verbatim>\<open>app/services/simulation_manager.py\<close>.

  A \<^verbatim>\<open>SimulationManager\<close> is the record \<open>sim_manager\<close>: its cache and the simulation directories.
  The entity reader, the profile generator and the configuration generator that
  \<^verbatim>\<open>prepare_simulation\<close> calls are the fields of \<open>'w prepare_env\<close>; progress callbacks, which only
  report, are left out.  The clock value that stamps a save is an argument.
\<close>

section \<open>State documents\<close>

datatype SimulationStatus =
    SIM_CREATED | SIM_PREPARING | SIM_READY | SIM_RUNNING | SIM_STOPPING | SIM_PAUSED
  | SIM_STOPPED | SIM_COMPLETED | SIM_FAILED

fun sim_status_value :: "SimulationStatus \<Rightarrow> pystr" where
  "sim_status_value SIM_CREATED = lit ''created''"
| "sim_status_value SIM_PREPARING = lit ''preparing''"
| "sim_status_value SIM_READY = lit ''ready''"
| "sim_status_value SIM_RUNNING = lit ''running''"
| "sim_status_value SIM_STOPPING = lit ''stopping''"
| "sim_status_value SIM_PAUSED = lit ''paused''"
| "sim_status_value SIM_STOPPED = lit ''stopped''"
| "sim_status_value SIM_COMPLETED = lit ''completed''"
| "sim_status_value SIM_FAILED = lit ''failed''"

definition ALL_SIM_STATUS :: "SimulationStatus list" where
  "ALL_SIM_STATUS = [SIM_CREATED, SIM_PREPARING, SIM_READY, SIM_RUNNING, SIM_STOPPING, SIM_PAUSED,
     SIM_STOPPED, SIM_COMPLETED, SIM_FAILED]"

definition parse_sim_status :: "pyval \<Rightarrow> SimulationStatus res" where
  "parse_sim_status v =
     (case find (\<lambda>st. PyStr (sim_status_value st) = v) ALL_SIM_STATUS of
        Some st \<Rightarrow> Inr st
      | None \<Rightarrow> Inl (Exn ValueError (lit ''not a valid SimulationStatus'')))"

record SimulationState =
  ss_simulation_id :: pystr
  ss_project_id :: pyval
  ss_graph_id :: pyval
  ss_enable_twitter :: pyval
  ss_enable_reddit :: pyval
  ss_status :: SimulationStatus
  ss_entities_count :: pyval
  ss_profiles_count :: pyval
  ss_entity_types :: pyval
  ss_profiles_generated :: pyval
  ss_config_generated :: pyval
  ss_config_reasoning :: pyval
  ss_current_round :: pyval
  ss_twitter_status :: pyval
  ss_reddit_status :: pyval
  ss_created_at :: pyval
  ss_updated_at :: pyval
  ss_error :: pyval

definition sim_to_dict :: "SimulationState \<Rightarrow> pydict" where
  "sim_to_dict s =
     [(lit ''simulation_id'', PyStr (ss_simulation_id s)), (lit ''project_id'', ss_project_id s),
      (lit ''graph_id'', ss_graph_id s), (lit ''enable_twitter'', ss_enable_twitter s),
      (lit ''enable_reddit'', ss_enable_reddit s), (lit ''status'', PyStr (sim_status_value (ss_status s))),
      (lit ''entities_count'', ss_entities_count s), (lit ''profiles_count'', ss_profiles_count s),
      (lit ''entity_types'', ss_entity_types s), (lit ''profiles_generated'', ss_profiles_generated s),
      (lit ''config_generated'', ss_config_generated s), (lit ''config_reasoning'', ss_config_reasoning s),
      (lit ''current_round'', ss_current_round s), (lit ''twitter_status'', ss_twitter_status s),
      (lit ''reddit_status'', ss_reddit_status s), (lit ''created_at'', ss_created_at s),
      (lit ''updated_at'', ss_updated_at s), (lit ''error'', ss_error s)]"

definition sim_from_dict :: "pystr \<Rightarrow> pystr \<Rightarrow> pyval \<Rightarrow> SimulationState res" where
  "sim_from_dict now simulation_id data =
     bind_res (as_dict data) (\<lambda>d.
     bind_res (parse_sim_status (field_or d ''status'' (PyStr (lit ''created'')))) (\<lambda>status.
       Inr \<lparr>ss_simulation_id = simulation_id,
            ss_project_id = field_or d ''project_id'' (PyStr []),
            ss_graph_id = field_or d ''graph_id'' (PyStr []),
            ss_enable_twitter = field_or d ''enable_twitter'' (PyBool True),
            ss_enable_reddit = field_or d ''enable_reddit'' (PyBool True),
            ss_status = status,
            ss_entities_count = field_or d ''entities_count'' (PyInt 0),
            ss_profiles_count = field_or d ''profiles_count'' (PyInt 0),
            ss_entity_types = field_or d ''entity_types'' (PyList []),
            ss_profiles_generated = field_or d ''profiles_generated'' (PyBool False),
            ss_config_generated = field_or d ''config_generated'' (PyBool False),
            ss_config_reasoning = field_or d ''config_reasoning'' (PyStr []),
            ss_current_round = field_or d ''current_round'' (PyInt 0),
            ss_twitter_status = field_or d ''twitter_status'' (PyStr (lit ''not_started'')),
            ss_reddit_status = field_or d ''reddit_status'' (PyStr (lit ''not_started'')),
            ss_created_at = field_or d ''created_at'' (PyStr now),
            ss_updated_at = field_or d ''updated_at'' (PyStr now),
            ss_error = field_or d ''error'' PyNone\<rparr>))"

definition sim_to_simple_dict :: "SimulationState \<Rightarrow> pydict" where
  "sim_to_simple_dict s =
     [(lit ''simulation_id'', PyStr (ss_simulation_id s)), (lit ''project_id'', ss_project_id s),
      (lit ''graph_id'', ss_graph_id s), (lit ''status'', PyStr (sim_status_value (ss_status s))),
      (lit ''entities_count'', ss_entities_count s), (lit ''profiles_count'', ss_profiles_count s),
      (lit ''entity_types'', ss_entity_types s), (lit ''profiles_generated'', ss_profiles_generated s),
      (lit ''config_generated'', ss_config_generated s), (lit ''error'', ss_error s)]"

definition get_default_platform :: "SimulationState \<Rightarrow> pystr" where
  "get_default_platform s =
     (if truthy (ss_enable_twitter s) \<and> truthy (ss_enable_reddit s) then lit ''reddit''
      else if truthy (ss_enable_twitter s) then lit ''twitter''
      else lit ''reddit'')"

lemma parse_sim_status_value [simp]: "parse_sim_status (PyStr (sim_status_value st)) = Inr st"
  by (cases st) (simp_all add: parse_sim_status_def ALL_SIM_STATUS_def)

lemma sim_roundtrip: "sim_from_dict now (ss_simulation_id s) (PyDict (sim_to_dict s)) = Inr s"
  by (simp add: sim_from_dict_def as_dict_def field_or_def dget_or_dget sim_to_dict_def)

section \<open>The manager\<close>

record sim_dir =
  sd_state :: "json_file option"
  sd_config :: "json_file option"
  sd_reddit_profiles :: "json_file option"
  sd_twitter_profiles :: "pystr option"

record sim_manager =
  sm_cache :: "(pystr \<times> SimulationState) list"
  sm_dirs :: "(pystr \<times> sim_dir) list"

definition new_dir :: sim_dir where
  "new_dir = \<lparr>sd_state = None, sd_config = None, sd_reddit_profiles = None, sd_twitter_profiles = None\<rparr>"

definition dir_of :: "sim_manager \<Rightarrow> pystr \<Rightarrow> sim_dir" where
  "dir_of m sid = dget_or (sm_dirs m) sid new_dir"

text \<open>\<^verbatim>\<open>_get_simulation_dir\<close> creates the directory, also for a mere lookup.\<close>

definition get_simulation_dir :: "pystr \<Rightarrow> sim_manager \<Rightarrow> sim_manager" where
  "get_simulation_dir sid m =
     (if dhas (sm_dirs m) sid then m else m\<lparr>sm_dirs := dset (sm_dirs m) sid new_dir\<rparr>)"

definition save_simulation_state :: "pystr \<Rightarrow> SimulationState \<Rightarrow> sim_manager \<Rightarrow> SimulationState \<times> sim_manager" where
  "save_simulation_state now s m =
     (let sid = ss_simulation_id s; s = s\<lparr>ss_updated_at := PyStr now\<rparr>
      in (s, m\<lparr>sm_cache := dset (sm_cache m) sid s,
               sm_dirs := dset (sm_dirs m) sid ((dir_of m sid)\<lparr>sd_state := Some (Json (PyDict (sim_to_dict s)))\<rparr>)\<rparr>))"

definition load_simulation_state :: "pystr \<Rightarrow> pystr \<Rightarrow> sim_manager \<Rightarrow> SimulationState option res \<times> sim_manager" where
  "load_simulation_state now sid m =
     (case dget (sm_cache m) sid of
        Some s \<Rightarrow> (Inr (Some s), m)
      | None \<Rightarrow>
          (let m = get_simulation_dir sid m in
           case sd_state (dir_of m sid) of
             None \<Rightarrow> (Inr None, m)
           | Some f \<Rightarrow>
               (case bind_res (json_load f) (sim_from_dict now sid) of
                  Inl e \<Rightarrow> (Inl e, m)
                | Inr s \<Rightarrow> (Inr (Some s), m\<lparr>sm_cache := dset (sm_cache m) sid s\<rparr>))))"

definition create_simulation ::
  "pystr \<Rightarrow> pystr \<Rightarrow> pyval \<Rightarrow> pyval \<Rightarrow> pyval \<Rightarrow> pyval \<Rightarrow> sim_manager \<Rightarrow> SimulationState \<times> sim_manager" where
  "create_simulation uuid_hex now project_id graph_id enable_twitter enable_reddit m =
     save_simulation_state now
       \<lparr>ss_simulation_id = lit ''sim_'' @ take 12 uuid_hex, ss_project_id = project_id,
        ss_graph_id = graph_id, ss_enable_twitter = enable_twitter, ss_enable_reddit = enable_reddit,
        ss_status = SIM_CREATED, ss_entities_count = PyInt 0, ss_profiles_count = PyInt 0,
        ss_entity_types = PyList [], ss_profiles_generated = PyBool False,
        ss_config_generated = PyBool False, ss_config_reasoning = PyStr [], ss_current_round = PyInt 0,
        ss_twitter_status = PyStr (lit ''not_started''), ss_reddit_status = PyStr (lit ''not_started''),
        ss_created_at = PyStr now, ss_updated_at = PyStr now, ss_error = PyNone\<rparr> m"

definition get_simulation :: "pystr \<Rightarrow> pystr \<Rightarrow> sim_manager \<Rightarrow> SimulationState option res \<times> sim_manager" where
  "get_simulation = load_simulation_state"

section \<open>Preparing a simulation\<close>

record ('w, 'e, 'p) prepare_env =
  pe_filter_entities :: "pyval \<Rightarrow> ('w, 'e list \<times> nat \<times> pystr list) action"
  pe_generate_profiles :: "pyval \<Rightarrow> 'e list \<Rightarrow> ('w, 'p list) action"
  pe_save_reddit :: "'p list \<Rightarrow> ('w, json_file) action"
  pe_save_twitter :: "'p list \<Rightarrow> ('w, pystr) action"
  pe_generate_config :: "SimulationState \<Rightarrow> 'e list \<Rightarrow> ('w, json_file \<times> pyval) action"
  pe_now :: "'w \<Rightarrow> pystr"

type_synonym 'w prep = "SimulationState \<times> sim_manager \<times> 'w"

text \<open>A step of the \<^verbatim>\<open>try\<close> block either goes on with new values or raises; what it did to the
  state object and to the directories stays.\<close>

definition prep_bind ::
  "'a res \<times> 'w prep \<Rightarrow> ('a \<Rightarrow> 'w prep \<Rightarrow> 'b res \<times> 'w prep) \<Rightarrow> 'b res \<times> 'w prep" where
  "prep_bind x f = (case x of (Inl e, c) \<Rightarrow> (Inl e, c) | (Inr a, c) \<Rightarrow> f a c)"

definition prep_act :: "('w, 'a) action \<Rightarrow> 'w prep \<Rightarrow> 'a res \<times> 'w prep" where
  "prep_act f c = (case c of (s, m, w) \<Rightarrow> (case f w of (r, w') \<Rightarrow> (r, (s, m, w'))))"

definition prep_save :: "('w, 'e, 'p) prepare_env \<Rightarrow> (SimulationState \<Rightarrow> SimulationState) \<Rightarrow> 'w prep \<Rightarrow> unit res \<times> 'w prep" where
  "prep_save env f c =
     (case c of (s, m, w) \<Rightarrow>
        (case save_simulation_state (pe_now env w) (f s) m of (s', m') \<Rightarrow> (Inr (), (s', m', w))))"

definition prep_set :: "(SimulationState \<Rightarrow> SimulationState) \<Rightarrow> 'w prep \<Rightarrow> unit res \<times> 'w prep" where
  "prep_set f c = (case c of (s, m, w) \<Rightarrow> (Inr (), (f s, m, w)))"

definition prep_write :: "(sim_dir \<Rightarrow> sim_dir) \<Rightarrow> 'w prep \<Rightarrow> unit res \<times> 'w prep" where
  "prep_write g c =
     (case c of (s, m, w) \<Rightarrow>
        (let sid = ss_simulation_id s
         in (Inr (), (s, m\<lparr>sm_dirs := dset (sm_dirs m) sid (g (dir_of m sid))\<rparr>, w))))"

definition no_entities :: pystr where
  "no_entities = [27809, 26377, 25214, 21040, 31526, 21512, 26465, 20214, 30340, 23454, 20307, 65292, 35831, 26816, 26597, 22270, 35889, 26159, 21542, 27491, 30830, 26500, 24314]"

definition prep_read_entities :: "('w, 'e, 'p) prepare_env \<Rightarrow> 'w prep \<Rightarrow> 'e list res \<times> 'w prep" where
  "prep_read_entities env c =
     prep_bind (prep_act (pe_filter_entities env (ss_graph_id (fst c))) c) (\<lambda>(entities, count, types) c.
     prep_bind (prep_set (\<lambda>s. s\<lparr>ss_entities_count := PyInt (int count),
                               ss_entity_types := PyList (map PyStr types)\<rparr>) c) (\<lambda>_ c.
       if count = 0
       then prep_bind (prep_save env (\<lambda>s. s\<lparr>ss_status := SIM_FAILED, ss_error := PyStr no_entities\<rparr>) c)
              (\<lambda>_ c. (Inl (Exn ValueError no_entities), c))
       else (Inr entities, c)))"

definition prep_profiles :: "('w, 'e, 'p) prepare_env \<Rightarrow> 'e list \<Rightarrow> 'w prep \<Rightarrow> unit res \<times> 'w prep" where
  "prep_profiles env entities c =
     prep_bind (prep_act (pe_generate_profiles env (ss_graph_id (fst c)) entities) c) (\<lambda>profiles c.
     prep_bind (prep_save env (\<lambda>s. s\<lparr>ss_profiles_count := PyInt (int (length profiles)),
                                   ss_profiles_generated := PyBool (profiles \<noteq> [])\<rparr>) c) (\<lambda>_ c.
     prep_bind (if truthy (ss_enable_reddit (fst c))
                then prep_bind (prep_act (pe_save_reddit env profiles) c)
                       (\<lambda>f c. prep_write (\<lambda>d. d\<lparr>sd_reddit_profiles := Some f\<rparr>) c)
                else (Inr (), c)) (\<lambda>_ c.
       if truthy (ss_enable_twitter (fst c))
       then prep_bind (prep_act (pe_save_twitter env profiles) c)
              (\<lambda>f c. prep_write (\<lambda>d. d\<lparr>sd_twitter_profiles := Some f\<rparr>) c)
       else (Inr (), c))))"

definition prep_config :: "('w, 'e, 'p) prepare_env \<Rightarrow> 'e list \<Rightarrow> 'w prep \<Rightarrow> unit res \<times> 'w prep" where
  "prep_config env entities c =
     prep_bind (prep_act (pe_generate_config env (fst c) entities) c) (\<lambda>(config, reasoning) c.
     prep_bind (prep_write (\<lambda>d. d\<lparr>sd_config := Some config\<rparr>) c) (\<lambda>_ c.
       prep_save env (\<lambda>s. s\<lparr>ss_config_generated := PyBool True, ss_config_reasoning := reasoning,
                           ss_status := SIM_READY\<rparr>) c))"

definition prepare_body :: "('w, 'e, 'p) prepare_env \<Rightarrow> 'w prep \<Rightarrow> unit res \<times> 'w prep" where
  "prepare_body env c =
     prep_bind (prep_save env (\<lambda>s. s\<lparr>ss_status := SIM_PREPARING, ss_error := PyNone,
                  ss_profiles_generated := PyBool False, ss_config_generated := PyBool False,
                  ss_config_reasoning := PyStr []\<rparr>) c) (\<lambda>_ c.
     prep_bind (prep_read_entities env c) (\<lambda>entities c.
     prep_bind (prep_profiles env entities c) (\<lambda>_ c.
       prep_config env entities c)))"

definition no_simulation :: "pystr \<Rightarrow> exn" where
  "no_simulation sid = Exn ValueError ([27169, 25311, 19981, 23384, 22312] @ lit '': '' @ sid)"

definition prepare_simulation ::
  "('w, 'e, 'p) prepare_env \<Rightarrow> pystr \<Rightarrow> sim_manager \<Rightarrow> 'w \<Rightarrow> SimulationState res \<times> sim_manager \<times> 'w" where
  "prepare_simulation env sid m w =
     (case load_simulation_state (pe_now env w) sid m of
        (Inl e, m) \<Rightarrow> (Inl e, m, w)
      | (Inr None, m) \<Rightarrow> (Inl (no_simulation sid), m, w)
      | (Inr (Some s), m) \<Rightarrow>
          (case prepare_body env (s, m, w) of
             (Inr _, (s, m, w)) \<Rightarrow> (Inr s, m, w)
           | (Inl e, c) \<Rightarrow>
               (case prep_save env (\<lambda>s. s\<lparr>ss_status := SIM_FAILED, ss_error := PyStr (exn_msg e)\<rparr>) c of
                  (_, (s, m, w)) \<Rightarrow> (Inl e, m, w))))"

section \<open>Queries\<close>

fun collect_simulations ::
  "pystr \<Rightarrow> pyval option \<Rightarrow> pystr list \<Rightarrow> sim_manager \<Rightarrow> SimulationState list res \<times> sim_manager" where
  "collect_simulations now project_id [] m = (Inr [], m)"
| "collect_simulations now project_id (sid # sids) m =
     (if take 1 sid = lit ''.'' then collect_simulations now project_id sids m
      else
        (case load_simulation_state now sid m of
           (Inl e, m) \<Rightarrow> (Inl e, m)
         | (Inr found, m) \<Rightarrow>
             (case collect_simulations now project_id sids m of
                (Inl e, m) \<Rightarrow> (Inl e, m)
              | (Inr rest, m) \<Rightarrow>
                  (Inr (case found of
                          Some s \<Rightarrow> if project_id = None \<or> project_id = Some (ss_project_id s) then s # rest else rest
                        | None \<Rightarrow> rest), m))))"

definition list_simulations ::
  "pystr \<Rightarrow> pyval option \<Rightarrow> sim_manager \<Rightarrow> SimulationState list res \<times> sim_manager" where
  "list_simulations now project_id m = collect_simulations now project_id (map fst (sm_dirs m)) m"

definition get_profiles ::
  "(pystr \<Rightarrow> pyval) \<Rightarrow> pystr \<Rightarrow> pystr \<Rightarrow> pystr option \<Rightarrow> sim_manager \<Rightarrow> pyval res \<times> sim_manager" where
  "get_profiles csv_rows now sid platform m =
     (case load_simulation_state now sid m of
        (Inl e, m) \<Rightarrow> (Inl e, m)
      | (Inr None, m) \<Rightarrow> (Inl (no_simulation sid), m)
      | (Inr (Some s), m) \<Rightarrow>
          (let platform = (case platform of None \<Rightarrow> get_default_platform s | Some p \<Rightarrow> p) in
           if platform \<noteq> lit ''twitter'' \<and> platform \<noteq> lit ''reddit''
           then (Inl (Exn ValueError ([19981, 25903, 25345, 30340, 24179, 21488] @ lit '': '' @ platform)), m)
           else
             (let m = get_simulation_dir sid m; d = dir_of m sid in
              if platform = lit ''twitter''
              then (Inr (case sd_twitter_profiles d of None \<Rightarrow> PyList [] | Some f \<Rightarrow> csv_rows f), m)
              else (case sd_reddit_profiles d of None \<Rightarrow> (Inr (PyList []), m) | Some f \<Rightarrow> (json_load f, m)))))"

definition get_simulation_config :: "pystr \<Rightarrow> sim_manager \<Rightarrow> pyval option res \<times> sim_manager" where
  "get_simulation_config sid m =
     (let m = get_simulation_dir sid m in
      case sd_config (dir_of m sid) of
        None \<Rightarrow> (Inr None, m)
      | Some f \<Rightarrow> (bind_res (json_load f) (\<lambda>v. Inr (Some v)), m))"


section \<open>Store laws\<close>

definition peek_simulation :: "pystr \<Rightarrow> sim_manager \<Rightarrow> pystr \<Rightarrow> SimulationState option" where
  "peek_simulation now m sid = (case fst (load_simulation_state now sid m) of Inr found \<Rightarrow> found | Inl _ \<Rightarrow> None)"

lemma dir_of_simps [simp]:
  "dir_of (m\<lparr>sm_dirs := dset (sm_dirs m) sid d\<rparr>) k = (if k = sid then d else dir_of m k)"
  "dir_of (m\<lparr>sm_cache := c\<rparr>) k = dir_of m k"
  "dir_of (m\<lparr>sm_cache := c, sm_dirs := dset (sm_dirs m) sid d\<rparr>) k = (if k = sid then d else dir_of m k)"
  "dir_of (get_simulation_dir sid m) k = dir_of m k"
  by (auto simp: dir_of_def dget_or_dget get_simulation_dir_def dhas_iff_dget split: option.splits)

lemma get_simulation_dir_cache [simp]: "sm_cache (get_simulation_dir sid m) = sm_cache m"
  by (simp add: get_simulation_dir_def)

interpretation sims: document_store "peek_simulation now" "\<lambda>s m. snd (save_simulation_state t s m)"
    ss_simulation_id "\<lambda>s. s\<lparr>ss_updated_at := PyStr t\<rparr>" for now t
  by unfold_locales
     (auto simp: peek_simulation_def load_simulation_state_def save_simulation_state_def Let_def
       split: option.splits sum.splits)

text \<open>What a process with an empty cache reads.\<close>

definition disk_state :: "pystr \<Rightarrow> sim_manager \<Rightarrow> pystr \<Rightarrow> SimulationState option" where
  "disk_state now m sid = peek_simulation now (m\<lparr>sm_cache := []\<rparr>) sid"

lemma disk_state_save:
  "disk_state now (snd (save_simulation_state t s m)) k =
     (if k = ss_simulation_id s then Some (s\<lparr>ss_updated_at := PyStr t\<rparr>) else disk_state now m k)"
proof -
  let ?s = "s\<lparr>ss_updated_at := PyStr t\<rparr>"
  have rt: "sim_from_dict now (ss_simulation_id s) (PyDict (sim_to_dict ?s)) = Inr ?s"
    using sim_roundtrip [of now ?s] by simp
  have dirs: "dir_of (get_simulation_dir k (m'\<lparr>sm_cache := []\<rparr>)) k = dir_of m' k" for m'
    by simp
  show ?thesis
    by (auto simp: disk_state_def peek_simulation_def load_simulation_state_def dirs Let_def
        save_simulation_state_def json_load_def rt split: option.splits sum.splits)
qed

text \<open>Every step of the preparation works on its own simulation only.\<close>

definition prep_frame :: "'w prep \<Rightarrow> 'w prep \<Rightarrow> bool" where
  "prep_frame c c' \<longleftrightarrow>
     ss_simulation_id (fst c') = ss_simulation_id (fst c) \<and>
     (\<forall>k. k \<noteq> ss_simulation_id (fst c) \<longrightarrow> dir_of (fst (snd c')) k = dir_of (fst (snd c)) k)"

lemma prep_frame_refl [simp]: "prep_frame c c"
  by (simp add: prep_frame_def)

lemma prep_frame_trans: "prep_frame a b \<Longrightarrow> prep_frame b c \<Longrightarrow> prep_frame a c"
  by (simp add: prep_frame_def)

lemma prep_bind_frame:
  assumes "prep_frame c (snd x)" and "\<And>a c'. x = (Inr a, c') \<Longrightarrow> prep_frame c' (snd (f a c'))"
  shows "prep_frame c (snd (prep_bind x f))"
proof (cases x rule: prod.exhaust)
  case (Pair r c')
  with assms show ?thesis
    by (cases r) (auto simp: prep_bind_def intro: prep_frame_trans)
qed

lemma prep_step_frames [simp]:
  "prep_frame c (snd (prep_act g c))"
  "prep_frame c (snd (prep_write h c))"
  by (auto simp: prep_frame_def prep_act_def prep_write_def Let_def split: prod.splits)

lemma prep_set_frame: "(\<And>s. ss_simulation_id (f s) = ss_simulation_id s) \<Longrightarrow> prep_frame c (snd (prep_set f c))"
  by (auto simp: prep_frame_def prep_set_def split: prod.splits)

lemma prep_save_frame:
  "(\<And>s. ss_simulation_id (f s) = ss_simulation_id s) \<Longrightarrow> prep_frame c (snd (prep_save env f c))"
  by (auto simp: prep_frame_def prep_save_def save_simulation_state_def Let_def split: prod.splits)

lemmas prep_frame_intros = prep_bind_frame prep_step_frames prep_set_frame prep_save_frame prep_frame_refl

lemma prepare_body_frame: "prep_frame c (snd (prepare_body env c))"
  unfolding prepare_body_def prep_read_entities_def prep_profiles_def prep_config_def
  by (auto intro!: prep_frame_intros split: prod.splits)


lemma prep_bind_Inr:
  "prep_bind x f = (Inr b, c) \<longleftrightarrow> (\<exists>a c'. x = (Inr a, c') \<and> f a c' = (Inr b, c))"
  by (cases x rule: prod.exhaust; cases "fst x") (auto simp: prep_bind_def)

lemma prep_save_eq: "prep_save env f (s, m, w) =
    (Inr (), (fst (save_simulation_state (pe_now env w) (f s) m), snd (save_simulation_state (pe_now env w) (f s) m), w))"
  by (simp add: prep_save_def split: prod.splits)

text \<open>A body that gets through has just saved the READY state.\<close>

lemma prepare_body_ok:
  assumes "prepare_body env c = (Inr x, (s, m, w))"
  shows "ss_status s = SIM_READY \<and> ss_config_generated s = PyBool True
    \<and> sd_config (dir_of m (ss_simulation_id s)) \<noteq> None \<and> disk_state now m (ss_simulation_id s) = Some s"
proof -
  from assms obtain entities c1 where cf: "prep_config env entities c1 = (Inr x, (s, m, w))"
    by (auto simp: prepare_body_def prep_bind_Inr)
  then obtain config reasoning c2 c3 where wr: "prep_write (\<lambda>d. d\<lparr>sd_config := Some config\<rparr>) c2 = (Inr (), c3)"
    and sv: "prep_save env (\<lambda>s. s\<lparr>ss_config_generated := PyBool True, ss_config_reasoning := reasoning,
                           ss_status := SIM_READY\<rparr>) c3 = (Inr x, (s, m, w))"
    by (fastforce simp: prep_config_def prep_bind_Inr split: prod.splits)
  obtain s3 m3 w3 where c3: "c3 = (s3, m3, w3)" by (cases c3)
  have cfg: "sd_config (dir_of m3 (ss_simulation_id s3)) = Some config"
    using wr c3 by (auto simp: prep_write_def Let_def split: prod.splits)
  let ?s = "s3\<lparr>ss_config_generated := PyBool True, ss_config_reasoning := reasoning, ss_status := SIM_READY\<rparr>"
  have sm: "(s, m) = save_simulation_state (pe_now env w3) ?s m3"
    using sv unfolding c3 prep_save_eq by auto
  then have "m = snd (save_simulation_state (pe_now env w3) ?s m3)" "s = fst (save_simulation_state (pe_now env w3) ?s m3)"
    by (metis snd_conv, metis fst_conv)
  moreover from this(2) have "s = ?s\<lparr>ss_updated_at := PyStr (pe_now env w3)\<rparr>"
    by (simp add: save_simulation_state_def Let_def)
  ultimately show ?thesis
    using cfg disk_state_save [of now "pe_now env w3" ?s m3 "ss_simulation_id s3"]
    by (simp add: save_simulation_state_def Let_def)
qed

lemma prepare_cases:
  assumes ld: "load_simulation_state (pe_now env w) sid m = (Inr (Some s0), m0)"
  obtains (ok) s m' w' where "prepare_simulation env sid m w = (Inr s, m', w')"
      "prepare_body env (s0, m0, w) = (Inr (), (s, m', w'))"
  | (error) e s m1 w' t where "prepare_simulation env sid m w = (Inl e, snd (save_simulation_state t
        (s\<lparr>ss_status := SIM_FAILED, ss_error := PyStr (exn_msg e)\<rparr>) m1), w')"
      "prepare_body env (s0, m0, w) = (Inl e, (s, m1, w'))"
proof -
  obtain r s m1 w' where b: "prepare_body env (s0, m0, w) = (r, (s, m1, w'))"
    by (cases "prepare_body env (s0, m0, w)")
  show ?thesis
  proof (cases r)
    case (Inl e)
    with b ld show ?thesis
      by (intro error [of e "pe_now env w'" s m1 w']) (simp_all add: prepare_simulation_def prep_save_eq)
  next
    case (Inr x)
    with b ld show ?thesis
      by (intro ok [of s m1 w']) (simp_all add: prepare_simulation_def)
  qed
qed

text \<open>
  C25: Preparation always reaches a verdict.  Whatever the entity reader and the generators do,
  when \<^verbatim>\<open>prepare_simulation\<close> returns, the state on disk is READY with a written configuration and
  is exactly the returned state; when it raises, the state on disk is FAILED with the text of
  the exception.  It is never left PREPARING, and no other simulation's directory changes.
\<close>

theorem prepare_reaches_verdict:
  assumes ld: "load_simulation_state (pe_now env w) sid m = (Inr (Some s0), m0)"
    and id0: "ss_simulation_id s0 = sid"
    and run: "prepare_simulation env sid m w = (r, m', w')"
  shows "(case r of
       Inr s \<Rightarrow> disk_state now m' sid = Some s \<and> ss_status s = SIM_READY \<and> sd_config (dir_of m' sid) \<noteq> None
     | Inl e \<Rightarrow> \<exists>s. disk_state now m' sid = Some s \<and> ss_status s = SIM_FAILED \<and> ss_error s = PyStr (exn_msg e))
   \<and> (\<forall>k. k \<noteq> sid \<longrightarrow> dir_of m' k = dir_of m0 k)"
  using ld
proof (cases rule: prepare_cases [case_names ok error])
  case (ok s m1 w1)
  have "prep_frame (s0, m0, w) (s, m1, w1)"
    using prepare_body_frame [of "(s0, m0, w)" env] ok by simp
  then show ?thesis
    using ok run id0 prepare_body_ok [OF ok(2), of now] by (auto simp: prep_frame_def)
next
  case (error e s m1 w1 t)
  let ?s = "s\<lparr>ss_status := SIM_FAILED, ss_error := PyStr (exn_msg e)\<rparr>"
  have fr: "prep_frame (s0, m0, w) (s, m1, w1)"
    using prepare_body_frame [of "(s0, m0, w)" env] error by simp
  have dirs: "dir_of (snd (save_simulation_state t ?s m1)) k = dir_of m1 k" if "k \<noteq> ss_simulation_id s" for k
    using that by (simp add: save_simulation_state_def Let_def)
  show ?thesis
    using error run id0 fr disk_state_save [of now t ?s m1 sid] dirs by (auto simp: prep_frame_def)
qed


definition demo_prepare_env :: "(unit, unit, unit) prepare_env" where
  "demo_prepare_env =
     \<lparr>pe_filter_entities = (\<lambda>g w. (Inr ([()], 1, [lit ''Person'']), w)),
      pe_generate_profiles = (\<lambda>g es w. (Inr es, w)),
      pe_save_reddit = (\<lambda>ps w. (Inr (Json (PyList [])), w)),
      pe_save_twitter = (\<lambda>ps w. (Inr [], w)),
      pe_generate_config = (\<lambda>s es w. (Inl (Exn RuntimeErr (lit ''LLM unavailable'')), w)),
      pe_now = (\<lambda>w. lit ''t'')\<rparr>"

definition demo_sim_manager :: sim_manager where
  "demo_sim_manager = snd (create_simulation (lit ''abc'') (lit ''t'') (PyStr (lit ''p'')) (PyStr (lit ''g''))
     (PyBool True) (PyBool True) \<lparr>sm_cache = [], sm_dirs = []\<rparr>)"

theorem prepare_reaches_verdict_witness:
  "\<exists>s. disk_state (lit ''t'') (fst (snd (prepare_simulation demo_prepare_env (lit ''sim_abc'') demo_sim_manager ())))
         (lit ''sim_abc'') = Some s
     \<and> ss_status s = SIM_FAILED \<and> ss_error s = PyStr (lit ''LLM unavailable'')"
proof -
  have sid: "lit ''sim_'' @ lit ''abc'' = lit ''sim_abc''"
    by (simp add: lit_def)
  obtain s0 where ld: "load_simulation_state (pe_now demo_prepare_env ()) (lit ''sim_abc'') demo_sim_manager
      = (Inr (Some s0), demo_sim_manager)" and id0: "ss_simulation_id s0 = lit ''sim_abc''"
    by (simp add: load_simulation_state_def demo_sim_manager_def create_simulation_def sid
        save_simulation_state_def Let_def)
  have "fst (prepare_body demo_prepare_env (s0, demo_sim_manager, ())) = Inl (Exn RuntimeErr (lit ''LLM unavailable''))"
    by (simp add: prepare_body_def prep_read_entities_def prep_profiles_def prep_config_def prep_bind_def
        prep_act_def prep_set_def prep_save_eq demo_prepare_env_def prep_write_def Let_def)
  then obtain m' where run: "prepare_simulation demo_prepare_env (lit ''sim_abc'') demo_sim_manager ()
      = (Inl (Exn RuntimeErr (lit ''LLM unavailable'')), m', ())"
    using ld
    by (cases "prepare_body demo_prepare_env (s0, demo_sim_manager, ())")
       (auto simp: prepare_simulation_def prep_save_eq)
  from prepare_reaches_verdict [OF ld id0 run, of "lit ''t''"] run show ?thesis
    by auto
qed

end
