(* ===== verification/Run_State.thy ===== *)
theory Run_State
  imports Memory_Updater Project_Store
begin

text \<open>
  The run state of a simulation and the action logs it is built from: \<^verbatim>\<open>AgentAction\<close>,
  \<^verbatim>\<open>SimulationRunState\<close>, \<^verbatim>\<open>_load_run_state\<close>, \<^verbatim>\<open>_read_action_log\<close>,
  \<^verbatim>\<open>_check_all_platforms_completed\<close> and the log queries of
  \<^verbatim>\<open>app/services/simulation_runner.py\<close>.

  Values that come from a log line or a state file are JSON values; operations on them that
  may raise return a result together with the state, because Python keeps the effects that
  happened before the exception.  A log file is its text, a read position an offset into it,
  and \<^verbatim>\<open>json.loads\<close> is the parameter \<open>loads\<close> (\<open>None\<close> is \<^verbatim>\<open>JSONDecodeError\<close>).
\<close>

section \<open>Arithmetic on JSON numbers\<close>

fun is_float :: "pyval \<Rightarrow> bool" where
  "is_float (PyFloat _) = True"
| "is_float _ = False"

definition py_add :: "pyval \<Rightarrow> pyval \<Rightarrow> pyval res" where
  "py_add a b =
     (case (a, b) of
        (PyStr s, PyStr t) \<Rightarrow> Inr (PyStr (s @ t))
      | (PyList xs, PyList ys) \<Rightarrow> Inr (PyList (xs @ ys))
      | _ \<Rightarrow>
          (case (py_num a, py_num b) of
             (Some x, Some y) \<Rightarrow>
               Inr (if is_float a \<or> is_float b then PyFloat (x + y) else PyInt \<lfloor>x + y\<rfloor>)
           | _ \<Rightarrow> Inl TypeError))"

definition py_gt :: "pyval \<Rightarrow> pyval \<Rightarrow> bool res" where
  "py_gt a b = (case py_lt b a of None \<Rightarrow> Inl TypeError | Some r \<Rightarrow> Inr r)"

definition py_percent :: "pyval \<Rightarrow> pyval \<Rightarrow> pyval res" where
  "py_percent current rounds =
     bind_res (py_max_from rounds [PyInt 1]) (\<lambda>m.
       (case (py_num current, py_num m) of
          (Some c, Some t) \<Rightarrow> Inr (PyFloat (of_int (round_half_even (c / t * 100 * 10)) / 10))
        | _ \<Rightarrow> Inl TypeError))"

section \<open>Actions and run states\<close>

datatype RunnerStatus =
    RS_IDLE | RS_STARTING | RS_RUNNING | RS_PAUSED | RS_STOPPING | RS_STOPPED | RS_COMPLETED | RS_FAILED

fun runner_status_value :: "RunnerStatus \<Rightarrow> pystr" where
  "runner_status_value RS_IDLE = lit ''idle''"
| "runner_status_value RS_STARTING = lit ''starting''"
| "runner_status_value RS_RUNNING = lit ''running''"
| "runner_status_value RS_PAUSED = lit ''paused''"
| "runner_status_value RS_STOPPING = lit ''stopping''"
| "runner_status_value RS_STOPPED = lit ''stopped''"
| "runner_status_value RS_COMPLETED = lit ''completed''"
| "runner_status_value RS_FAILED = lit ''failed''"

definition ALL_RUNNER_STATUS :: "RunnerStatus list" where
  "ALL_RUNNER_STATUS = [RS_IDLE, RS_STARTING, RS_RUNNING, RS_PAUSED, RS_STOPPING, RS_STOPPED, RS_COMPLETED, RS_FAILED]"

definition parse_runner_status :: "pyval \<Rightarrow> RunnerStatus res" where
  "parse_runner_status v =
     (case find (\<lambda>st. PyStr (runner_status_value st) = v) ALL_RUNNER_STATUS of
        Some st \<Rightarrow> Inr st
      | None \<Rightarrow> Inl (Exn ValueError (lit ''not a valid RunnerStatus'')))"

record AgentAction =
  aa_round_num :: pyval
  aa_timestamp :: pyval
  aa_platform :: pyval
  aa_agent_id :: pyval
  aa_agent_name :: pyval
  aa_action_type :: pyval
  aa_action_args :: pyval
  aa_result :: pyval
  aa_success :: pyval

definition action_to_dict :: "AgentAction \<Rightarrow> pydict" where
  "action_to_dict a =
     [(lit ''round_num'', aa_round_num a), (lit ''timestamp'', aa_timestamp a),
      (lit ''platform'', aa_platform a), (lit ''agent_id'', aa_agent_id a),
      (lit ''agent_name'', aa_agent_name a), (lit ''action_type'', aa_action_type a),
      (lit ''action_args'', aa_action_args a), (lit ''result'', aa_result a),
      (lit ''success'', aa_success a)]"

record RoundSummary =
  rd_round_num :: pyval
  rd_start_time :: pyval
  rd_end_time :: pyval
  rd_simulated_hour :: pyval
  rd_twitter_actions :: pyval
  rd_reddit_actions :: pyval
  rd_active_agents :: "pyval list"
  rd_actions :: "AgentAction list"

definition round_to_dict :: "RoundSummary \<Rightarrow> pydict" where
  "round_to_dict r =
     [(lit ''round_num'', rd_round_num r), (lit ''start_time'', rd_start_time r),
      (lit ''end_time'', rd_end_time r), (lit ''simulated_hour'', rd_simulated_hour r),
      (lit ''twitter_actions'', rd_twitter_actions r), (lit ''reddit_actions'', rd_reddit_actions r),
      (lit ''active_agents'', PyList (rd_active_agents r)),
      (lit ''actions_count'', PyInt (int (length (rd_actions r)))),
      (lit ''actions'', PyList (map (\<lambda>a. PyDict (action_to_dict a)) (rd_actions r)))]"

record SimulationRunState =
  rs_simulation_id :: pystr
  rs_runner_status :: RunnerStatus
  rs_current_round :: pyval
  rs_total_rounds :: pyval
  rs_simulated_hours :: pyval
  rs_total_simulation_hours :: pyval
  rs_twitter_current_round :: pyval
  rs_reddit_current_round :: pyval
  rs_twitter_simulated_hours :: pyval
  rs_reddit_simulated_hours :: pyval
  rs_twitter_running :: pyval
  rs_reddit_running :: pyval
  rs_twitter_actions_count :: pyval
  rs_reddit_actions_count :: pyval
  rs_twitter_completed :: pyval
  rs_reddit_completed :: pyval
  rs_rounds :: "RoundSummary list"
  rs_recent_actions :: "AgentAction list"
  rs_started_at :: pyval
  rs_updated_at :: pyval
  rs_completed_at :: pyval
  rs_error :: pyval
  rs_process_pid :: pyval

definition MAX_RECENT_ACTIONS :: nat where
  "MAX_RECENT_ACTIONS = 50"

definition fresh_run_state :: "pystr \<Rightarrow> pystr \<Rightarrow> SimulationRunState" where
  "fresh_run_state sid now =
     \<lparr>rs_simulation_id = sid, rs_runner_status = RS_IDLE, rs_current_round = PyInt 0,
      rs_total_rounds = PyInt 0, rs_simulated_hours = PyInt 0, rs_total_simulation_hours = PyInt 0,
      rs_twitter_current_round = PyInt 0, rs_reddit_current_round = PyInt 0,
      rs_twitter_simulated_hours = PyInt 0, rs_reddit_simulated_hours = PyInt 0,
      rs_twitter_running = PyBool False, rs_reddit_running = PyBool False,
      rs_twitter_actions_count = PyInt 0, rs_reddit_actions_count = PyInt 0,
      rs_twitter_completed = PyBool False, rs_reddit_completed = PyBool False, rs_rounds = [],
      rs_recent_actions = [], rs_started_at = PyNone, rs_updated_at = PyStr now,
      rs_completed_at = PyNone, rs_error = PyNone, rs_process_pid = PyNone\<rparr>"

definition add_action :: "pystr \<Rightarrow> AgentAction \<Rightarrow> SimulationRunState \<Rightarrow> unit res \<times> SimulationRunState" where
  "add_action now a st =
     (let st = st\<lparr>rs_recent_actions := take MAX_RECENT_ACTIONS (a # rs_recent_actions st)\<rparr> in
      if aa_platform a = PyStr (lit ''twitter'')
      then (case py_add (rs_twitter_actions_count st) (PyInt 1) of
              Inl e \<Rightarrow> (Inl e, st)
            | Inr n \<Rightarrow> (Inr (), st\<lparr>rs_twitter_actions_count := n, rs_updated_at := PyStr now\<rparr>))
      else (case py_add (rs_reddit_actions_count st) (PyInt 1) of
              Inl e \<Rightarrow> (Inl e, st)
            | Inr n \<Rightarrow> (Inr (), st\<lparr>rs_reddit_actions_count := n, rs_updated_at := PyStr now\<rparr>)))"

definition run_to_dict :: "SimulationRunState \<Rightarrow> pydict res" where
  "run_to_dict st =
     bind_res (py_percent (rs_current_round st) (rs_total_rounds st)) (\<lambda>progress.
     bind_res (py_add (rs_twitter_actions_count st) (rs_reddit_actions_count st)) (\<lambda>count.
       Inr [(lit ''simulation_id'', PyStr (rs_simulation_id st)),
            (lit ''runner_status'', PyStr (runner_status_value (rs_runner_status st))),
            (lit ''current_round'', rs_current_round st), (lit ''total_rounds'', rs_total_rounds st),
            (lit ''simulated_hours'', rs_simulated_hours st),
            (lit ''total_simulation_hours'', rs_total_simulation_hours st),
            (lit ''progress_percent'', progress),
            (lit ''twitter_current_round'', rs_twitter_current_round st),
            (lit ''reddit_current_round'', rs_reddit_current_round st),
            (lit ''twitter_simulated_hours'', rs_twitter_simulated_hours st),
            (lit ''reddit_simulated_hours'', rs_reddit_simulated_hours st),
            (lit ''twitter_running'', rs_twitter_running st), (lit ''reddit_running'', rs_reddit_running st),
            (lit ''twitter_completed'', rs_twitter_completed st),
            (lit ''reddit_completed'', rs_reddit_completed st),
            (lit ''twitter_actions_count'', rs_twitter_actions_count st),
            (lit ''reddit_actions_count'', rs_reddit_actions_count st),
            (lit ''total_actions_count'', count),
            (lit ''started_at'', rs_started_at st), (lit ''updated_at'', rs_updated_at st),
            (lit ''completed_at'', rs_completed_at st), (lit ''error'', rs_error st),
            (lit ''process_pid'', rs_process_pid st)]))"

definition run_to_detail_dict :: "SimulationRunState \<Rightarrow> pydict res" where
  "run_to_detail_dict st =
     bind_res (run_to_dict st) (\<lambda>d.
       Inr (d @ [(lit ''recent_actions'', PyList (map (\<lambda>a. PyDict (action_to_dict a)) (rs_recent_actions st))),
                 (lit ''rounds_count'', PyInt (int (length (rs_rounds st))))]))"

definition action_from_dict :: "pyval \<Rightarrow> AgentAction res" where
  "action_from_dict v =
     bind_res (as_dict v) (\<lambda>d.
       Inr \<lparr>aa_round_num = field_or d ''round_num'' (PyInt 0),
            aa_timestamp = field_or d ''timestamp'' (PyStr []),
            aa_platform = field_or d ''platform'' (PyStr []),
            aa_agent_id = field_or d ''agent_id'' (PyInt 0),
            aa_agent_name = field_or d ''agent_name'' (PyStr []),
            aa_action_type = field_or d ''action_type'' (PyStr []),
            aa_action_args = field_or d ''action_args'' (PyDict []),
            aa_result = field_or d ''result'' PyNone,
            aa_success = field_or d ''success'' (PyBool True)\<rparr>)"

text \<open>
  \<^verbatim>\<open>_load_run_state\<close> after the file was found: every exception inside it is logged and the state
  counts as absent.  A string in place of the list of recent actions is iterated by character
  and a dict by key; neither has \<^verbatim>\<open>.get\<close> elements, so both fail unless they are empty.
\<close>

definition iter_values :: "pyval \<Rightarrow> pyval list res" where
  "iter_values v =
     (case v of PyList xs \<Rightarrow> Inr xs | PyStr s \<Rightarrow> Inr (map (\<lambda>c. PyStr [c]) s)
      | PyDict d \<Rightarrow> Inr (map (\<lambda>(k, _). PyStr k) d) | _ \<Rightarrow> Inl TypeError)"

definition run_from_dict :: "pystr \<Rightarrow> pystr \<Rightarrow> pyval \<Rightarrow> SimulationRunState res" where
  "run_from_dict now sid data =
     bind_res (as_dict data) (\<lambda>d.
     bind_res (parse_runner_status (field_or d ''runner_status'' (PyStr (lit ''idle'')))) (\<lambda>status.
     bind_res (iter_values (field_or d ''recent_actions'' (PyList []))) (\<lambda>items.
     bind_res (map_res action_from_dict items) (\<lambda>recent.
       Inr \<lparr>rs_simulation_id = sid, rs_runner_status = status,
            rs_current_round = field_or d ''current_round'' (PyInt 0),
            rs_total_rounds = field_or d ''total_rounds'' (PyInt 0),
            rs_simulated_hours = field_or d ''simulated_hours'' (PyInt 0),
            rs_total_simulation_hours = field_or d ''total_simulation_hours'' (PyInt 0),
            rs_twitter_current_round = field_or d ''twitter_current_round'' (PyInt 0),
            rs_reddit_current_round = field_or d ''reddit_current_round'' (PyInt 0),
            rs_twitter_simulated_hours = field_or d ''twitter_simulated_hours'' (PyInt 0),
            rs_reddit_simulated_hours = field_or d ''reddit_simulated_hours'' (PyInt 0),
            rs_twitter_running = field_or d ''twitter_running'' (PyBool False),
            rs_reddit_running = field_or d ''reddit_running'' (PyBool False),
            rs_twitter_actions_count = field_or d ''twitter_actions_count'' (PyInt 0),
            rs_reddit_actions_count = field_or d ''reddit_actions_count'' (PyInt 0),
            rs_twitter_completed = field_or d ''twitter_completed'' (PyBool False),
            rs_reddit_completed = field_or d ''reddit_completed'' (PyBool False),
            rs_rounds = [], rs_recent_actions = recent,
            rs_started_at = field_or d ''started_at'' PyNone,
            rs_updated_at = field_or d ''updated_at'' (PyStr now),
            rs_completed_at = field_or d ''completed_at'' PyNone,
            rs_error = field_or d ''error'' PyNone,
            rs_process_pid = field_or d ''process_pid'' PyNone\<rparr>))))"

definition load_run_state :: "pystr \<Rightarrow> pystr \<Rightarrow> json_file option \<Rightarrow> SimulationRunState option" where
  "load_run_state now sid file =
     (case file of
        None \<Rightarrow> None
      | Some f \<Rightarrow> (case bind_res (json_load f) (run_from_dict now sid) of Inr st \<Rightarrow> Some st | Inl _ \<Rightarrow> None))"

lemma parse_runner_status_value [simp]: "parse_runner_status (PyStr (runner_status_value st)) = Inr st"
  by (cases st) (simp_all add: parse_runner_status_def ALL_RUNNER_STATUS_def)

lemma action_roundtrip [simp]: "action_from_dict (PyDict (action_to_dict a)) = Inr a"
  by (simp add: action_from_dict_def action_to_dict_def as_dict_def field_or_def dget_or_dget)

lemma map_res_actions [simp]:
  "map_res action_from_dict (map (\<lambda>a. PyDict (action_to_dict a)) as) = Inr as"
  by (induction as) simp_all

text \<open>
  C26: Run states survive a restart.  A run state that could be saved is loaded back with every
  field, up to the per-round summaries, which are not part of the file.
\<close>

theorem run_state_roundtrip:
  assumes "run_to_detail_dict st = Inr d"
  shows "load_run_state now (rs_simulation_id st) (Some (Json (PyDict d))) = Some (st\<lparr>rs_rounds := []\<rparr>)"
  using assms
  by (auto simp: run_to_detail_dict_def run_to_dict_def exn_simps load_run_state_def json_load_def
      run_from_dict_def as_dict_def field_or_def dget_or_dget iter_values_def)


theorem run_state_roundtrip_witness:
  "\<exists>d. run_to_detail_dict (fresh_run_state (lit ''sim'') (lit ''t'')) = Inr d
     \<and> load_run_state (lit ''u'') (lit ''sim'') (Some (Json (PyDict d))) = Some (fresh_run_state (lit ''sim'') (lit ''t''))"
proof -
  obtain d where d: "run_to_detail_dict (fresh_run_state (lit ''sim'') (lit ''t'')) = Inr d"
    by (simp add: run_to_detail_dict_def run_to_dict_def py_percent_def py_add_def fresh_run_state_def)
  from run_state_roundtrip [OF this, of "lit ''u''"] d show ?thesis
    by (simp add: fresh_run_state_def)
qed

end
