(* ===== verification/Action_Log.thy ===== *)
theory Action_Log
  imports Run_State
begin

text \<open>
  Tailing and querying the action logs: \<^verbatim>\<open>_read_action_log\<close>,
  \<^verbatim>\<open>_check_all_platforms_completed\<close>, \<^verbatim>\<open>_read_actions_from_file\<close>, \<^verbatim>\<open>get_all_actions\<close>,
  \<^verbatim>\<open>get_actions\<close>, \<^verbatim>\<open>get_timeline\<close> and \<^verbatim>\<open>get_agent_stats\<close> of
  \<^verbatim>\<open>app/services/simulation_runner.py\<close>.
\<close>

section \<open>Lines\<close>

text \<open>Iterating a text file: universal newlines end a line; the text after the last one is a line too.\<close>

fun file_lines :: "pystr \<Rightarrow> pystr \<Rightarrow> pystr list" where
  "file_lines acc [] = (if acc = [] then [] else [acc])"
| "file_lines acc (c # cs) =
     (if c = 10 \<or> c = 13 then (acc @ [c]) # file_lines [] cs else file_lines (acc @ [c]) cs)"

lemma concat_file_lines: "concat (file_lines acc cs) = acc @ cs"
  by (induction acc cs rule: file_lines.induct) auto

section \<open>Tailing a log\<close>

definition set_completed :: "pystr \<Rightarrow> SimulationRunState \<Rightarrow> SimulationRunState" where
  "set_completed platform st =
     (if platform = lit ''twitter'' then st\<lparr>rs_twitter_completed := PyBool True, rs_twitter_running := PyBool False\<rparr>
      else if platform = lit ''reddit'' then st\<lparr>rs_reddit_completed := PyBool True, rs_reddit_running := PyBool False\<rparr>
      else st)"

text \<open>\<^verbatim>\<open>if v > field: field = v\<close>, where the comparison may raise.\<close>

definition raise_to ::
  "(SimulationRunState \<Rightarrow> pyval) \<Rightarrow> (pyval \<Rightarrow> SimulationRunState \<Rightarrow> SimulationRunState) \<Rightarrow> pyval \<Rightarrow> SimulationRunState \<Rightarrow>
   unit res \<times> SimulationRunState" where
  "raise_to get set_field v st =
     (case py_gt v (get st) of
        Inl e \<Rightarrow> (Inl e, st)
      | Inr b \<Rightarrow> (Inr (), if b then set_field v st else st))"

definition then_do ::
  "unit res \<times> SimulationRunState \<Rightarrow> (SimulationRunState \<Rightarrow> unit res \<times> SimulationRunState) \<Rightarrow> unit res \<times> SimulationRunState" where
  "then_do x f = (case x of (Inl e, st) \<Rightarrow> (Inl e, st) | (Inr _, st) \<Rightarrow> f st)"

definition platform_round_end ::
  "pystr \<Rightarrow> pyval \<Rightarrow> pyval \<Rightarrow> SimulationRunState \<Rightarrow> unit res \<times> SimulationRunState" where
  "platform_round_end platform round_num simulated_hours st =
     (if platform = lit ''twitter''
      then then_do (raise_to rs_twitter_current_round (\<lambda>v st. st\<lparr>rs_twitter_current_round := v\<rparr>) round_num st)
             (\<lambda>st. (Inr (), st\<lparr>rs_twitter_simulated_hours := simulated_hours\<rparr>))
      else if platform = lit ''reddit''
      then then_do (raise_to rs_reddit_current_round (\<lambda>v st. st\<lparr>rs_reddit_current_round := v\<rparr>) round_num st)
             (\<lambda>st. (Inr (), st\<lparr>rs_reddit_simulated_hours := simulated_hours\<rparr>))
      else (Inr (), st))"

definition round_end :: "pystr \<Rightarrow> pydict \<Rightarrow> SimulationRunState \<Rightarrow> unit res \<times> SimulationRunState" where
  "round_end platform d st =
     (let round_num = field_or d ''round'' (PyInt 0); simulated_hours = field_or d ''simulated_hours'' (PyInt 0) in
      then_do (platform_round_end platform round_num simulated_hours st) (\<lambda>st.
      then_do (raise_to rs_current_round (\<lambda>v st. st\<lparr>rs_current_round := v\<rparr>) round_num st) (\<lambda>st.
        (case py_max_from (rs_twitter_simulated_hours st) [rs_reddit_simulated_hours st] of
           Inl e \<Rightarrow> (Inl e, st)
         | Inr h \<Rightarrow> (Inr (), st\<lparr>rs_simulated_hours := h\<rparr>)))))"

definition log_action :: "pystr \<Rightarrow> pystr \<Rightarrow> pydict \<Rightarrow> AgentAction" where
  "log_action now platform d =
     \<lparr>aa_round_num = field_or d ''round'' (PyInt 0), aa_timestamp = field_or d ''timestamp'' (PyStr now),
      aa_platform = PyStr platform, aa_agent_id = field_or d ''agent_id'' (PyInt 0),
      aa_agent_name = field_or d ''agent_name'' (PyStr []), aa_action_type = field_or d ''action_type'' (PyStr []),
      aa_action_args = field_or d ''action_args'' (PyDict []), aa_result = field_or d ''result'' PyNone,
      aa_success = field_or d ''success'' (PyBool True)\<rparr>"

definition record_action :: "pystr \<Rightarrow> pystr \<Rightarrow> pydict \<Rightarrow> SimulationRunState \<Rightarrow> unit res \<times> SimulationRunState" where
  "record_action now platform d st =
     (let a = log_action now platform d in
      then_do (add_action now a st) (\<lambda>st.
        if truthy (aa_round_num a)
        then raise_to rs_current_round (\<lambda>v st. st\<lparr>rs_current_round := v\<rparr>) (aa_round_num a) st
        else (Inr (), st)))"

definition record_event :: "pystr \<Rightarrow> pydict \<Rightarrow> SimulationRunState \<Rightarrow> unit res \<times> SimulationRunState" where
  "record_event platform d st =
     (if dget d (lit ''event_type'') = Some (PyStr (lit ''simulation_end'')) then (Inr (), set_completed platform st)
      else if dget d (lit ''event_type'') = Some (PyStr (lit ''round_end'')) then round_end platform d st
      else (Inr (), st))"

type_synonym tail = "SimulationRunState \<times> ZepGraphMemoryUpdater option"

definition forward_action ::
  "pystr \<Rightarrow> pydict \<Rightarrow> pystr \<Rightarrow> ZepGraphMemoryUpdater option \<Rightarrow> unit res \<times> ZepGraphMemoryUpdater option" where
  "forward_action now d platform u =
     (case u of
        None \<Rightarrow> (Inr (), None)
      | Some u \<Rightarrow> (case add_activity_from_dict now d platform u of (r, u') \<Rightarrow> (r, Some u')))"

text \<open>One line: a parse error is skipped, anything else that raises ends the read.\<close>

definition read_line ::
  "(pystr \<Rightarrow> pyval option) \<Rightarrow> pystr \<Rightarrow> pystr \<Rightarrow> pystr \<Rightarrow> tail \<Rightarrow> unit res \<times> tail" where
  "read_line loads now platform line c =
     (case c of (st, u) \<Rightarrow>
        if py_strip line = [] then (Inr (), c)
        else
          (case loads (py_strip line) of
             None \<Rightarrow> (Inr (), c)
           | Some (PyDict d) \<Rightarrow>
               if dhas d (lit ''event_type'')
               then (case record_event platform d st of (r, st') \<Rightarrow> (r, (st', u)))
               else
                 (case record_action now platform d st of
                    (Inl e, st') \<Rightarrow> (Inl e, (st', u))
                  | (Inr _, st') \<Rightarrow> (case forward_action now d platform u of (r, u') \<Rightarrow> (r, (st', u'))))
           | Some (PyList _) \<Rightarrow> (Inl (Exn AttributeErr (lit ''list object has no attribute get'')), c)
           | Some (PyStr _) \<Rightarrow> (Inl (Exn AttributeErr (lit ''str object has no attribute get'')), c)
           | Some _ \<Rightarrow> (Inl TypeError, c)))"

fun read_lines ::
  "(pystr \<Rightarrow> pyval option) \<Rightarrow> pystr \<Rightarrow> pystr \<Rightarrow> pystr list \<Rightarrow> tail \<Rightarrow> unit res \<times> tail" where
  "read_lines loads now platform [] c = (Inr (), c)"
| "read_lines loads now platform (l # ls) c =
     (case read_line loads now platform l c of
        (Inl e, c') \<Rightarrow> (Inl e, c')
      | (Inr _, c') \<Rightarrow> read_lines loads now platform ls c')"

definition read_action_log ::
  "(pystr \<Rightarrow> pyval option) \<Rightarrow> pystr \<Rightarrow> pystr \<Rightarrow> pystr \<Rightarrow> nat \<Rightarrow> tail \<Rightarrow> nat \<times> tail" where
  "read_action_log loads now content platform position c =
     (case read_lines loads now platform (file_lines [] (drop position content)) c of
        (Inr _, c') \<Rightarrow> (max position (length content), c')
      | (Inl e, c') \<Rightarrow> (position, c'))"

definition check_all_platforms_completed :: "bool \<Rightarrow> bool \<Rightarrow> SimulationRunState \<Rightarrow> bool" where
  "check_all_platforms_completed twitter_log_exists reddit_log_exists st =
     (if twitter_log_exists \<and> \<not> truthy (rs_twitter_completed st) then False
      else if reddit_log_exists \<and> \<not> truthy (rs_reddit_completed st) then False
      else twitter_log_exists \<or> reddit_log_exists)"

lemma read_lines_append:
  "read_lines loads now p (xs @ ys) c =
     (case read_lines loads now p xs c of (Inl e, c') \<Rightarrow> (Inl e, c') | (Inr _, c') \<Rightarrow> read_lines loads now p ys c')"
  by (induction xs arbitrary: c) (auto split: prod.splits sum.splits)


lemma file_lines_append:
  "acc @ a = [] \<or> last (acc @ a) = 10 \<Longrightarrow> (a = [] \<Longrightarrow> acc = []) \<Longrightarrow>
   file_lines acc (a @ b) = file_lines acc a @ file_lines [] b"
proof (induction acc a rule: file_lines.induct)
  case (2 acc c cs)
  show ?case
  proof (cases "cs = []")
    case True
    with "2.prems" show ?thesis by auto
  next
    case False
    with 2 show ?thesis by auto
  qed
qed simp


text \<open>The lines that are agent actions.\<close>

definition action_line :: "(pystr \<Rightarrow> pyval option) \<Rightarrow> pystr \<Rightarrow> bool" where
  "action_line loads l =
     (py_strip l \<noteq> [] \<and>
      (case loads (py_strip l) of Some (PyDict d) \<Rightarrow> \<not> dhas d (lit ''event_type'') | _ \<Rightarrow> False))"

lemma then_do_keeps:
  "f (snd x) = a \<Longrightarrow> (\<And>s. f s = a \<Longrightarrow> f (snd (g s)) = a) \<Longrightarrow> f (snd (then_do x g)) = a"
  by (cases x; cases "fst x") (auto simp: then_do_def)

lemma raise_to_keeps:
  "(\<And>v s. f (set_field v s) = f s) \<Longrightarrow> f s = a \<Longrightarrow> f (snd (raise_to get set_field v s)) = a"
  by (auto simp: raise_to_def split: sum.splits)

lemma round_end_keeps: "rs_twitter_actions_count (snd (round_end platform d st)) = rs_twitter_actions_count st"
  unfolding round_end_def platform_round_end_def Let_def
  by (auto intro!: then_do_keeps [where f = rs_twitter_actions_count] raise_to_keeps [where f = rs_twitter_actions_count]
      split: sum.splits)

lemma record_event_keeps: "rs_twitter_actions_count (snd (record_event platform d st)) = rs_twitter_actions_count st"
  by (simp add: record_event_def set_completed_def round_end_keeps)

lemma record_action_counts:
  assumes "record_action now (lit ''twitter'') d st = (Inr x, st')" and "rs_twitter_actions_count st = PyInt n"
  shows "rs_twitter_actions_count st' = PyInt (n + 1)"
  using assms
  by (auto simp: record_action_def add_action_def log_action_def then_do_def py_add_def raise_to_def Let_def
      split: if_splits prod.splits sum.splits)

lemma read_line_count:
  assumes "read_line loads now (lit ''twitter'') l (st, u) = (Inr x, (st', u'))"
    and "rs_twitter_actions_count st = PyInt n"
  shows "rs_twitter_actions_count st' = PyInt (n + (if action_line loads l then 1 else 0))"
proof (cases "py_strip l = [] \<or> loads (py_strip l) = None")
  case True
  then have "st' = st" "\<not> action_line loads l"
    using assms(1) by (auto simp: read_line_def action_line_def split: if_splits)
  with assms(2) show ?thesis by simp
next
  case False
  then obtain d where d: "loads (py_strip l) = Some (PyDict d)" "py_strip l \<noteq> []"
    using assms(1) by (auto simp: read_line_def split: pyval.splits)
  show ?thesis
  proof (cases "dhas d (lit ''event_type'')")
    case True
    with d assms record_event_keeps [of "lit ''twitter''" d st] show ?thesis
      by (auto simp: read_line_def action_line_def split: prod.splits)
  next
    case False
    then obtain y where "record_action now (lit ''twitter'') d st = (Inr y, st')"
      using d assms(1) by (auto simp: read_line_def split: prod.splits sum.splits)
    from record_action_counts [OF this assms(2)] False d show ?thesis
      by (simp add: action_line_def)
  qed
qed

lemma read_lines_count:
  assumes "read_lines loads now (lit ''twitter'') ls (st, u) = (Inr x, (st', u'))"
    and "rs_twitter_actions_count st = PyInt n"
  shows "rs_twitter_actions_count st' = PyInt (n + int (length (filter (action_line loads) ls)))"
  using assms
proof (induction ls arbitrary: st u n)
  case (Cons l ls)
  obtain r st1 u1 where rl: "read_line loads now (lit ''twitter'') l (st, u) = (r, (st1, u1))"
    by (cases "read_line loads now (lit ''twitter'') l (st, u)")
  then obtain y where r: "r = Inr y"
    using Cons.prems(1) by (cases r) auto
  have st1: "rs_twitter_actions_count st1 = PyInt (n + (if action_line loads l then 1 else 0))"
    using read_line_count [of loads now l st u y st1 u1 n] rl r Cons.prems(2) by simp
  have "read_lines loads now (lit ''twitter'') ls (st1, u1) = (Inr x, (st', u'))"
    using Cons.prems(1) rl r by simp
  from Cons.IH [OF this st1] show ?case by simp
qed simp

text \<open>
  Each logged action is counted once.  A poll that gets through the new part of the Twitter
  log moves the position to the end of the log and raises the action count by exactly the number
  of action lines in that part; events, blank lines and unparsable lines are not counted.
\<close>

theorem poll_counts_each_action:
  assumes "read_lines loads now (lit ''twitter'') (file_lines [] (drop pos content)) (st, u) = (Inr (), (st', u'))"
    and "rs_twitter_actions_count st = PyInt n" and "pos \<le> length content"
  shows "read_action_log loads now content (lit ''twitter'') pos (st, u) = (length content, (st', u'))
    \<and> rs_twitter_actions_count st' =
        PyInt (n + int (length (filter (action_line loads) (file_lines [] (drop pos content)))))"
  using read_lines_count [OF assms(1,2)] assms by (simp add: read_action_log_def)

section \<open>Concrete logs\<close>

text \<open>A decoder for two sample lines: an agent action, and a line that is JSON but not an object.\<close>

definition sample_loads :: "pystr \<Rightarrow> pyval option" where
  "sample_loads s =
     (if s = lit ''A'' then Some (PyDict [(lit ''agent_id'', PyInt 7)])
      else if s = lit ''5'' then Some (PyInt 5) else None)"

definition sample_state :: "int \<Rightarrow> AgentAction list \<Rightarrow> SimulationRunState" where
  "sample_state n recent = (fresh_run_state (lit ''sim'') (lit ''t''))
     \<lparr>rs_twitter_actions_count := PyInt n, rs_recent_actions := recent\<rparr>"

definition sample_action :: AgentAction where
  "sample_action = log_action (lit ''t'') (lit ''twitter'') [(lit ''agent_id'', PyInt 7)]"

lemma strip_sample: "py_strip (lit ''A'' @ [10]) = lit ''A''" "py_strip (lit ''5'' @ [10]) = lit ''5''"
  by (simp_all add: py_strip_def py_lstrip_def py_rstrip_def lit_def is_space_def)

lemma read_sample_action:
  "read_line sample_loads (lit ''t'') (lit ''twitter'') (lit ''A'' @ [10]) (sample_state n recent, None)
   = (Inr (), (sample_state (n + 1) (take MAX_RECENT_ACTIONS (sample_action # recent)), None))"
  by (simp add: read_line_def strip_sample sample_loads_def dhas_iff_dget record_action_def add_action_def
      sample_action_def log_action_def field_or_def dget_or_dget py_add_def then_do_def forward_action_def
      sample_state_def fresh_run_state_def Let_def)

lemma read_sample_bad:
  "read_line sample_loads now p (lit ''5'' @ [10]) c = (Inl TypeError, c)"
  by (cases c) (simp add: read_line_def strip_sample sample_loads_def)

lemma sample_lines:
  "file_lines [] (lit ''A'' @ [10]) = [lit ''A'' @ [10]]"
  "file_lines [] (lit ''A'' @ [10] @ lit ''5'' @ [10]) = [lit ''A'' @ [10], lit ''5'' @ [10]]"
  by (simp_all add: lit_def)


theorem poll_counts_each_action_witness:
  "rs_twitter_actions_count (fst (snd (read_action_log sample_loads (lit ''t'') (lit ''A'' @ [10]) (lit ''twitter'') 0
      (sample_state 0 [], None)))) = PyInt 1"
proof -
  have "read_lines sample_loads (lit ''t'') (lit ''twitter'') (file_lines [] (drop 0 (lit ''A'' @ [10]))) (sample_state 0 [], None)
      = (Inr (), (sample_state 1 [sample_action], None))"
    using read_sample_action [of 0 "[]"] by (simp add: sample_lines MAX_RECENT_ACTIONS_def)
  from poll_counts_each_action [OF this, of 0] show ?thesis
    by (simp add: sample_state_def)
qed

definition poll :: "nat \<times> tail \<Rightarrow> nat \<times> tail" where
  "poll x = (case x of (pos, c) \<Rightarrow>
     read_action_log sample_loads (lit ''t'') (lit ''A'' @ [10] @ lit ''5'' @ [10]) (lit ''twitter'') pos c)"

text \<open>
  One bad line replays the lines before it.  A log with one action followed by a line that
  is valid JSON but not an object makes every poll raise, keep its old position and count the
  action again: after \<open>k\<close> polls the one action has been counted \<open>k\<close> times.
\<close>

theorem bad_line_replays:
  "\<exists>recent. (poll ^^ k) (0, (sample_state 0 [], None)) = (0, (sample_state (int k) recent, None))"
proof (induction k)
  case (Suc k)
  then obtain recent where "(poll ^^ k) (0, (sample_state 0 [], None)) = (0, (sample_state (int k) recent, None))"
    by blast
  moreover have "poll (0, (sample_state n recent, None)) =
      (0, (sample_state (n + 1) (take MAX_RECENT_ACTIONS (sample_action # recent)), None))" for n
    unfolding poll_def prod.case read_action_log_def drop_0 sample_lines read_lines.simps
      read_sample_action read_sample_bad sum.case by simp
  ultimately show ?case
    by (auto simp: add.commute)
qed auto

end
