(* ===== verification/Action_Queries.thy ===== *)
theory Action_Queries
  imports Action_Log
begin

text \<open>
  The action history queries of \<^verbatim>\<open>app/services/simulation_runner.py\<close>: \<^verbatim>\<open>_read_actions_from_file\<close>,
  \<^verbatim>\<open>get_all_actions\<close>, \<^verbatim>\<open>get_actions\<close>, \<^verbatim>\<open>get_timeline\<close> and \<^verbatim>\<open>get_agent_stats\<close>.  A log that does not
  exist is \<open>None\<close>.
\<close>

section \<open>Reading actions\<close>

definition contains_str :: "pystr \<Rightarrow> pystr \<Rightarrow> bool" where
  "contains_str t s = list_ex (\<lambda>i. take (length t) (drop i s) = t) [0..<Suc (length s)]"

text \<open>\<^verbatim>\<open>key in data\<close> for a decoded JSON value.\<close>

definition py_in :: "pystr \<Rightarrow> pyval \<Rightarrow> bool res" where
  "py_in k v =
     (case v of PyDict d \<Rightarrow> Inr (dhas d k) | PyList xs \<Rightarrow> Inr (list_ex (\<lambda>x. x = PyStr k) xs)
      | PyStr s \<Rightarrow> Inr (contains_str k s) | _ \<Rightarrow> Inl TypeError)"

definition or_val :: "pyval \<Rightarrow> pyval \<Rightarrow> pyval" where
  "or_val a b = (if truthy a then a else b)"

definition opt_val :: "pystr option \<Rightarrow> pyval" where
  "opt_val x = (case x of None \<Rightarrow> PyNone | Some s \<Rightarrow> PyStr s)"

definition file_action :: "pyval \<Rightarrow> pydict \<Rightarrow> AgentAction" where
  "file_action record_platform d =
     \<lparr>aa_round_num = field_or d ''round'' (PyInt 0), aa_timestamp = field_or d ''timestamp'' (PyStr []),
      aa_platform = record_platform, aa_agent_id = field_or d ''agent_id'' (PyInt 0),
      aa_agent_name = field_or d ''agent_name'' (PyStr []), aa_action_type = field_or d ''action_type'' (PyStr []),
      aa_action_args = field_or d ''action_args'' (PyDict []), aa_result = field_or d ''result'' PyNone,
      aa_success = field_or d ''success'' (PyBool True)\<rparr>"

definition passes ::
  "pyval \<Rightarrow> pystr option \<Rightarrow> pyval option \<Rightarrow> pyval option \<Rightarrow> pydict \<Rightarrow> bool" where
  "passes record_platform platform_filter agent_id round_num d \<longleftrightarrow>
     (case platform_filter of None \<Rightarrow> True | Some p \<Rightarrow> p = [] \<or> record_platform = PyStr p) \<and>
     (case agent_id of None \<Rightarrow> True | Some a \<Rightarrow> py_eq (field_or d ''agent_id'' PyNone) a) \<and>
     (case round_num of None \<Rightarrow> True | Some r \<Rightarrow> py_eq (field_or d ''round'' PyNone) r)"

definition line_action ::
  "(pystr \<Rightarrow> pyval option) \<Rightarrow> pystr option \<Rightarrow> pystr option \<Rightarrow> pyval option \<Rightarrow> pyval option \<Rightarrow> pystr \<Rightarrow> AgentAction option res" where
  "line_action loads default_platform platform_filter agent_id round_num line =
     (if py_strip line = [] then Inr None
      else
        (case loads (py_strip line) of
           None \<Rightarrow> Inr None
         | Some v \<Rightarrow>
             bind_res (py_in (lit ''event_type'') v) (\<lambda>ev. if ev then Inr None else
             bind_res (py_in (lit ''agent_id'') v) (\<lambda>has. if \<not> has then Inr None else
             bind_res (as_dict v) (\<lambda>d.
               let record_platform =
                     or_val (or_val (field_or d ''platform'' PyNone) (opt_val default_platform)) (PyStr [])
               in Inr (if passes record_platform platform_filter agent_id round_num d
                       then Some (file_action record_platform d) else None))))))"

fun collect_actions :: "(pystr \<Rightarrow> AgentAction option res) \<Rightarrow> pystr list \<Rightarrow> AgentAction list res" where
  "collect_actions f [] = Inr []"
| "collect_actions f (l # ls) =
     bind_res (f l) (\<lambda>found. bind_res (collect_actions f ls) (\<lambda>rest.
       Inr (case found of Some a \<Rightarrow> a # rest | None \<Rightarrow> rest)))"

definition read_actions_from_file ::
  "(pystr \<Rightarrow> pyval option) \<Rightarrow> pystr option \<Rightarrow> pystr option \<Rightarrow> pyval option \<Rightarrow> pyval option \<Rightarrow> pystr option \<Rightarrow>
   AgentAction list res" where
  "read_actions_from_file loads default_platform platform_filter agent_id round_num file =
     (case file of
        None \<Rightarrow> Inr []
      | Some content \<Rightarrow>
          collect_actions (line_action loads default_platform platform_filter agent_id round_num)
            (file_lines [] content))"

record action_logs =
  al_twitter :: "pystr option"
  al_reddit :: "pystr option"
  al_legacy :: "pystr option"

definition wants :: "pystr option \<Rightarrow> string \<Rightarrow> bool" where
  "wants platform name = (case platform of None \<Rightarrow> True | Some p \<Rightarrow> p = [] \<or> p = lit name)"

definition get_all_actions ::
  "(pystr \<Rightarrow> pyval option) \<Rightarrow> action_logs \<Rightarrow> pystr option \<Rightarrow> pyval option \<Rightarrow> pyval option \<Rightarrow> AgentAction list res" where
  "get_all_actions loads logs platform agent_id round_num =
     bind_res (if wants platform ''twitter''
               then read_actions_from_file loads (Some (lit ''twitter'')) platform agent_id round_num (al_twitter logs)
               else Inr []) (\<lambda>tw.
     bind_res (if wants platform ''reddit''
               then read_actions_from_file loads (Some (lit ''reddit'')) platform agent_id round_num (al_reddit logs)
               else Inr []) (\<lambda>rd.
     bind_res (if tw @ rd = []
               then read_actions_from_file loads None platform agent_id round_num (al_legacy logs)
               else Inr (tw @ rd)) (\<lambda>actions.
       sort_desc_by aa_timestamp actions)))"

definition get_actions ::
  "(pystr \<Rightarrow> pyval option) \<Rightarrow> action_logs \<Rightarrow> int \<Rightarrow> int \<Rightarrow> pystr option \<Rightarrow> pyval option \<Rightarrow> pyval option \<Rightarrow>
   AgentAction list res" where
  "get_actions loads logs limit offset platform agent_id round_num =
     bind_res (get_all_actions loads logs platform agent_id round_num) (\<lambda>actions.
       Inr (py_slice actions offset (offset + limit)))"

section \<open>Aggregations\<close>

text \<open>Dictionaries keyed by JSON values: keys compare with \<^verbatim>\<open>==\<close>, unhashable keys raise.\<close>

fun kfind :: "pyval \<Rightarrow> (pyval \<times> 'v) list \<Rightarrow> 'v option" where
  "kfind k [] = None"
| "kfind k ((k', v) # d) = (if py_eq k' k then Some v else kfind k d)"

fun kset :: "pyval \<Rightarrow> 'v \<Rightarrow> (pyval \<times> 'v) list \<Rightarrow> (pyval \<times> 'v) list" where
  "kset k v [] = [(k, v)]"
| "kset k v ((k', v') # d) = (if py_eq k' k then (k', v) # d else (k', v') # kset k v d)"

definition need_hashable :: "pyval \<Rightarrow> unit res" where
  "need_hashable v = (if hashable v then Inr () else Inl TypeError)"

definition bump :: "pyval \<Rightarrow> (pyval \<times> nat) list \<Rightarrow> (pyval \<times> nat) list" where
  "bump k d = kset k ((case kfind k d of None \<Rightarrow> 0 | Some n \<Rightarrow> n) + 1) d"

definition add_member :: "pyval \<Rightarrow> pyval list \<Rightarrow> pyval list" where
  "add_member v s = (if list_ex (\<lambda>x. py_eq x v) s then s else s @ [v])"

record round_row =
  rr_twitter_actions :: nat
  rr_reddit_actions :: nat
  rr_active_agents :: "pyval list"
  rr_action_types :: "(pyval \<times> nat) list"
  rr_first_action_time :: pyval
  rr_last_action_time :: pyval

definition in_range :: "pyval \<Rightarrow> pyval option \<Rightarrow> AgentAction \<Rightarrow> bool res" where
  "in_range start_round end_round a =
     (case py_lt (aa_round_num a) start_round of
        None \<Rightarrow> Inl TypeError
      | Some True \<Rightarrow> Inr False
      | Some False \<Rightarrow>
          (case end_round of
             None \<Rightarrow> Inr True
           | Some e \<Rightarrow> (case py_gt (aa_round_num a) e of Inl x \<Rightarrow> Inl x | Inr g \<Rightarrow> Inr (\<not> g))))"

definition round_row_add :: "AgentAction \<Rightarrow> round_row option \<Rightarrow> round_row" where
  "round_row_add a row =
     (let r = (case row of Some r \<Rightarrow> r
               | None \<Rightarrow> \<lparr>rr_twitter_actions = 0, rr_reddit_actions = 0, rr_active_agents = [], rr_action_types = [],
                          rr_first_action_time = aa_timestamp a, rr_last_action_time = aa_timestamp a\<rparr>);
          r = (if aa_platform a = PyStr (lit ''twitter'') then r\<lparr>rr_twitter_actions := rr_twitter_actions r + 1\<rparr>
               else r\<lparr>rr_reddit_actions := rr_reddit_actions r + 1\<rparr>)
      in r\<lparr>rr_active_agents := add_member (aa_agent_id a) (rr_active_agents r),
           rr_action_types := bump (aa_action_type a) (rr_action_types r),
           rr_last_action_time := aa_timestamp a\<rparr>)"

fun timeline_loop ::
  "pyval \<Rightarrow> pyval option \<Rightarrow> (pyval \<times> round_row) list \<Rightarrow> AgentAction list \<Rightarrow> (pyval \<times> round_row) list res" where
  "timeline_loop start_round end_round rounds [] = Inr rounds"
| "timeline_loop start_round end_round rounds (a # as) =
     (case in_range start_round end_round a of
        Inl e \<Rightarrow> Inl e
      | Inr False \<Rightarrow> timeline_loop start_round end_round rounds as
      | Inr True \<Rightarrow>
          bind_res (need_hashable (aa_round_num a)) (\<lambda>_.
          bind_res (need_hashable (aa_agent_id a)) (\<lambda>_.
          bind_res (need_hashable (aa_action_type a)) (\<lambda>_.
            timeline_loop start_round end_round
              (kset (aa_round_num a) (round_row_add a (kfind (aa_round_num a) rounds)) rounds) as))))"

definition sort_rows :: "(pyval \<times> 'v) list \<Rightarrow> (pyval \<times> 'v) list res" where
  "sort_rows rows =
     (if length rows \<le> 1 then Inr rows
      else if list_all (\<lambda>(k, _). py_num k \<noteq> None) rows then Inr (sort_key (\<lambda>(k, _). the (py_num k)) rows)
      else if list_all (\<lambda>(k, _). str_of k \<noteq> None) rows then Inr (sort_key (\<lambda>(k, _). the (str_of k)) rows)
      else Inl TypeError)"

definition get_timeline ::
  "(pystr \<Rightarrow> pyval option) \<Rightarrow> action_logs \<Rightarrow> pyval \<Rightarrow> pyval option \<Rightarrow> (pyval \<times> round_row) list res" where
  "get_timeline loads logs start_round end_round =
     bind_res (get_actions loads logs 10000 0 None None None) (\<lambda>actions.
     bind_res (timeline_loop start_round end_round [] actions) sort_rows)"

record agent_row =
  ar_agent_name :: pyval
  ar_total_actions :: nat
  ar_twitter_actions :: nat
  ar_reddit_actions :: nat
  ar_action_types :: "(pyval \<times> nat) list"
  ar_first_action_time :: pyval
  ar_last_action_time :: pyval

definition agent_row_add :: "AgentAction \<Rightarrow> agent_row option \<Rightarrow> agent_row" where
  "agent_row_add a row =
     (let r = (case row of Some r \<Rightarrow> r
               | None \<Rightarrow> \<lparr>ar_agent_name = aa_agent_name a, ar_total_actions = 0, ar_twitter_actions = 0,
                          ar_reddit_actions = 0, ar_action_types = [],
                          ar_first_action_time = aa_timestamp a, ar_last_action_time = aa_timestamp a\<rparr>);
          r = r\<lparr>ar_total_actions := ar_total_actions r + 1\<rparr>;
          r = (if aa_platform a = PyStr (lit ''twitter'') then r\<lparr>ar_twitter_actions := ar_twitter_actions r + 1\<rparr>
               else r\<lparr>ar_reddit_actions := ar_reddit_actions r + 1\<rparr>)
      in r\<lparr>ar_action_types := bump (aa_action_type a) (ar_action_types r),
           ar_last_action_time := aa_timestamp a\<rparr>)"

fun agent_loop :: "(pyval \<times> agent_row) list \<Rightarrow> AgentAction list \<Rightarrow> (pyval \<times> agent_row) list res" where
  "agent_loop stats [] = Inr stats"
| "agent_loop stats (a # as) =
     bind_res (need_hashable (aa_agent_id a)) (\<lambda>_.
     bind_res (need_hashable (aa_action_type a)) (\<lambda>_.
       agent_loop (kset (aa_agent_id a) (agent_row_add a (kfind (aa_agent_id a) stats)) stats) as))"

definition get_agent_stats :: "(pystr \<Rightarrow> pyval option) \<Rightarrow> action_logs \<Rightarrow> (pyval \<times> agent_row) list res" where
  "get_agent_stats loads logs =
     bind_res (get_actions loads logs 10000 0 None None None) (\<lambda>actions.
     bind_res (agent_loop [] actions) (\<lambda>stats. Inr (sorted_desc (\<lambda>(_, r). ar_total_actions r) stats)))"

section \<open>Nothing is lost or counted twice\<close>

definition weight :: "('v \<Rightarrow> nat) \<Rightarrow> (pyval \<times> 'v) list \<Rightarrow> nat" where
  "weight f d = sum_list (map (f \<circ> snd) d)"

lemma weight_kset:
  "weight f (kset k v d) + (case kfind k d of None \<Rightarrow> 0 | Some v' \<Rightarrow> f v') = weight f d + f v"
  by (induction k v d rule: kset.induct) (auto simp: weight_def split: option.splits)

lemma weight_perm: "mset d = mset d' \<Longrightarrow> weight f d = weight f d'"
  by (metis weight_def mset_map sum_mset_sum_list)

lemma agent_row_total:
  "ar_total_actions (agent_row_add a row) = (case row of None \<Rightarrow> 0 | Some r \<Rightarrow> ar_total_actions r) + 1"
  by (simp add: agent_row_add_def Let_def split: option.splits)

lemma agent_row_split:
  "ar_twitter_actions (agent_row_add a row) + ar_reddit_actions (agent_row_add a row)
   = (case row of None \<Rightarrow> 0 | Some r \<Rightarrow> ar_twitter_actions r + ar_reddit_actions r) + 1"
  by (simp add: agent_row_add_def Let_def split: option.splits)

lemma agent_loop_weight:
  "agent_loop stats as = Inr out \<Longrightarrow>
   weight ar_total_actions out = weight ar_total_actions stats + length as
   \<and> weight (\<lambda>r. ar_twitter_actions r + ar_reddit_actions r) out
     = weight (\<lambda>r. ar_twitter_actions r + ar_reddit_actions r) stats + length as"
proof (induction as arbitrary: stats)
  case (Cons a as)
  let ?row = "agent_row_add a (kfind (aa_agent_id a) stats)"
  have run: "agent_loop (kset (aa_agent_id a) ?row stats) as = Inr out"
    using Cons.prems by (auto simp: exn_simps)
  show ?case
    using Cons.IH [OF run] weight_kset [of ar_total_actions "aa_agent_id a" ?row stats]
      weight_kset [of "\<lambda>r. ar_twitter_actions r + ar_reddit_actions r" "aa_agent_id a" ?row stats]
    by (auto simp: agent_row_total agent_row_split split: option.splits)
qed simp

lemma mset_sort_desc_by: "sort_desc_by k xs = Inr ys \<Longrightarrow> length ys = length xs"
  using sort_desc_by_set [of k xs ys] by (metis size_mset)

text \<open>
  Agent statistics account for every action.  The rows are ordered by falling number of
  actions; their totals add up to the number of actions in the history window, and so do their
  Twitter and Reddit counts.
\<close>

theorem agent_stats_account_for_all:
  assumes "get_actions loads logs 10000 0 None None None = Inr actions"
    and "get_agent_stats loads logs = Inr rows"
  shows "sorted_wrt (\<lambda>a b. ar_total_actions (snd b) \<le> ar_total_actions (snd a)) rows
    \<and> weight ar_total_actions rows = length actions
    \<and> weight (\<lambda>r. ar_twitter_actions r + ar_reddit_actions r) rows = length actions"
proof -
  obtain stats where st: "agent_loop [] actions = Inr stats"
    and rows: "rows = sorted_desc (\<lambda>(_, r). ar_total_actions r) stats"
    using assms by (auto simp: get_agent_stats_def exn_simps)
  have "mset rows = mset stats" by (simp add: rows)
  from weight_perm [OF this, of ar_total_actions] weight_perm [OF this, of "\<lambda>r. ar_twitter_actions r + ar_reddit_actions r"]
    agent_loop_weight [OF st]
  show ?thesis
    using sorted_desc_sorted [of "\<lambda>(_, r). ar_total_actions r" stats]
    by (simp add: rows weight_def case_prod_beta)
qed

lemma round_row_split:
  "rr_twitter_actions (round_row_add a row) + rr_reddit_actions (round_row_add a row)
   = (case row of None \<Rightarrow> 0 | Some r \<Rightarrow> rr_twitter_actions r + rr_reddit_actions r) + 1"
  by (simp add: round_row_add_def Let_def split: option.splits)

lemma timeline_loop_weight:
  "timeline_loop s e rounds as = Inr out \<Longrightarrow>
   weight (\<lambda>r. rr_twitter_actions r + rr_reddit_actions r) out
     = weight (\<lambda>r. rr_twitter_actions r + rr_reddit_actions r) rounds
       + length (filter (\<lambda>a. in_range s e a = Inr True) as)"
proof (induction as arbitrary: rounds)
  case (Cons a as)
  let ?f = "\<lambda>r. rr_twitter_actions r + rr_reddit_actions r"
  obtain b where b: "in_range s e a = Inr b"
    using Cons.prems by (cases "in_range s e a") simp_all
  show ?case
  proof (cases b)
    case False
    with b Cons show ?thesis by simp
  next
    case True
    let ?row = "round_row_add a (kfind (aa_round_num a) rounds)"
    have run: "timeline_loop s e (kset (aa_round_num a) ?row rounds) as = Inr out"
      using Cons.prems b True by (auto simp: exn_simps)
    have "weight ?f out = weight ?f (kset (aa_round_num a) ?row rounds) + length (filter (\<lambda>a. in_range s e a = Inr True) as)"
      by (rule Cons.IH [OF run])
    moreover have "weight ?f (kset (aa_round_num a) ?row rounds) = weight ?f rounds + 1"
      using weight_kset [of ?f "aa_round_num a" ?row rounds] round_row_split [of a "kfind (aa_round_num a) rounds"]
      by (auto split: option.splits)
    ultimately show ?thesis using b True by simp
  qed
qed simp

lemma sort_rows_mset: "sort_rows rows = Inr out \<Longrightarrow> mset out = mset rows"
  by (auto simp: sort_rows_def split: if_splits)

text \<open>
  The timeline accounts for every action in range.  The Twitter and Reddit counts of the
  rounds add up to the number of actions of the history window whose round lies in the requested
  range.
\<close>

theorem timeline_accounts_for_range:
  assumes "get_actions loads logs 10000 0 None None None = Inr actions"
    and "get_timeline loads logs start_round end_round = Inr rows"
  shows "weight (\<lambda>r. rr_twitter_actions r + rr_reddit_actions r) rows
    = length (filter (\<lambda>a. in_range start_round end_round a = Inr True) actions)"
proof -
  obtain rounds where "timeline_loop start_round end_round [] actions = Inr rounds" and "sort_rows rounds = Inr rows"
    using assms by (auto simp: get_timeline_def exn_simps)
  from timeline_loop_weight [OF this(1)]
    weight_perm [OF sort_rows_mset [OF this(2)], of "\<lambda>r. rr_twitter_actions r + rr_reddit_actions r"]
  show ?thesis by (simp add: weight_def)
qed


section \<open>A concrete history\<close>

definition sample_logs :: action_logs where
  "sample_logs = \<lparr>al_twitter = Some (lit ''A'' @ [10]), al_reddit = None, al_legacy = None\<rparr>"

definition sample_history :: AgentAction where
  "sample_history = file_action (PyStr (lit ''twitter'')) [(lit ''agent_id'', PyInt 7)]"

lemma sample_get_actions: "get_actions sample_loads sample_logs 10000 0 None None None = Inr [sample_history]"
proof -
  have "line_action sample_loads (Some (lit ''twitter'')) None None None (lit ''A'' @ [10]) = Inr (Some sample_history)"
    by (simp add: line_action_def strip_sample sample_loads_def py_in_def dhas_iff_dget as_dict_def
        field_or_def dget_or_dget or_val_def opt_val_def passes_def sample_history_def)
  then have "read_actions_from_file sample_loads (Some (lit ''twitter'')) None None None (Some (lit ''A'' @ [10]))
      = Inr [sample_history]"
    unfolding read_actions_from_file_def option.case sample_lines by simp
  then have "get_all_actions sample_loads sample_logs None None None = Inr [sample_history]"
    by (simp add: get_all_actions_def sample_logs_def wants_def sort_desc_by_def read_actions_from_file_def [of _ _ _ _ _ None])
  then show ?thesis
    by (simp add: get_actions_def py_slice_def py_index_def)
qed

lemma sample_history_fields: "aa_agent_id sample_history = PyInt 7" "aa_round_num sample_history = PyInt 0"
    "aa_action_type sample_history = PyStr []"
  by (simp_all add: sample_history_def file_action_def field_or_def dget_or_dget)

theorem agent_stats_account_for_all_witness:
  "\<exists>rows. get_agent_stats sample_loads sample_logs = Inr rows \<and> weight ar_total_actions rows = 1"
proof -
  obtain rows where rows: "get_agent_stats sample_loads sample_logs = Inr rows"
    by (simp add: get_agent_stats_def sample_get_actions need_hashable_def hashable_def sample_history_fields)
  from agent_stats_account_for_all [OF sample_get_actions rows] rows show ?thesis by auto
qed

theorem timeline_accounts_for_range_witness:
  "\<exists>rows. get_timeline sample_loads sample_logs (PyInt 0) None = Inr rows
     \<and> weight (\<lambda>r. rr_twitter_actions r + rr_reddit_actions r) rows = 1"
proof -
  obtain rows where rows: "get_timeline sample_loads sample_logs (PyInt 0) None = Inr rows"
    by (simp add: get_timeline_def sample_get_actions need_hashable_def hashable_def sample_history_fields
        in_range_def sort_rows_def)
  from timeline_accounts_for_range [OF sample_get_actions rows] rows show ?thesis
    by (auto simp: in_range_def sample_history_fields)
qed

end
