(* ===== verification/Simulation_Runner.thy ===== *)
theory Simulation_Runner
  imports Run_State Simulation_Manager Memory_Manager
begin

text \<open>
  The life cycle of a simulation run: \<^verbatim>\<open>SimulationRunner\<close> of
  \<^verbatim>\<open>app/services/simulation_runner.py\<close>.

  The class attributes are the record \<open>'m runner\<close>; \<open>'m\<close> is the state of the updater registry,
  which the runner uses only through the operations of \<open>('m, 'w) updater_api\<close>.  Run states are
  shared objects, so a change is visible in \<open>rn_states\<close> before it is saved.  Sections that hold
  the finalization lock are single functions; the clock value that stamps a section, the outcome
  of creating and terminating the subprocess, and what the monitor observed are arguments.
  \<open>None\<close> is a call into the updater that never returns.
\<close>

section \<open>State\<close>

record ('m, 'w) updater_api =
  api_registered :: "'m \<Rightarrow> pystr \<Rightarrow> bool"
  api_ids :: "'m \<Rightarrow> pystr list"
  api_stop :: "pystr \<Rightarrow> 'm \<Rightarrow> 'w \<Rightarrow> (unit res \<times> 'm \<times> 'w) option"
  api_create :: "pystr \<Rightarrow> pystr \<Rightarrow> 'm \<Rightarrow> 'w \<Rightarrow> (unit res \<times> 'm \<times> 'w) option"

record 'm runner =
  rn_states :: "(pystr \<times> SimulationRunState) list"
  rn_disk :: "(pystr \<times> json_file) list"
  rn_processes :: "(pystr \<times> int option) list"
  rn_monitors :: "(pystr \<times> bool) list"
  rn_queues :: "(pystr \<times> unit) list"
  rn_stdout :: "(pystr \<times> unit) list"
  rn_enabled :: "(pystr \<times> bool) list"
  rn_manual_stop :: "pystr list"
  rn_cleanup_done :: bool
  rn_sims :: sim_manager
  rn_updaters :: 'm

type_synonym ('m, 'w, 'a) outcome = "('a res \<times> 'm runner \<times> 'w) option"

section \<open>Run states\<close>

definition status_map :: "RunnerStatus \<Rightarrow> SimulationStatus option" where
  "status_map s =
     (case s of RS_RUNNING \<Rightarrow> Some SIM_RUNNING | RS_STOPPING \<Rightarrow> Some SIM_STOPPING
      | RS_STOPPED \<Rightarrow> Some SIM_STOPPED | RS_COMPLETED \<Rightarrow> Some SIM_COMPLETED
      | RS_FAILED \<Rightarrow> Some SIM_FAILED | _ \<Rightarrow> None)"

definition sync_simulation_status ::
  "pystr \<Rightarrow> pystr \<Rightarrow> RunnerStatus \<Rightarrow> pyval \<Rightarrow> 'm runner \<Rightarrow> 'm runner" where
  "sync_simulation_status now sid status err R =
     (case status_map status of
        None \<Rightarrow> R
      | Some s \<Rightarrow>
          (case get_simulation now sid ((rn_sims R)\<lparr>sm_cache := []\<rparr>) of
             (Inl e, m) \<Rightarrow> R\<lparr>rn_sims := m\<rparr>
           | (Inr None, m) \<Rightarrow> R\<lparr>rn_sims := m\<rparr>
           | (Inr (Some sim), m) \<Rightarrow>
               R\<lparr>rn_sims := snd (save_simulation_state now (sim\<lparr>ss_status := s, ss_error := err\<rparr>) m)\<rparr>))"

definition get_run_state :: "pystr \<Rightarrow> pystr \<Rightarrow> 'm runner \<Rightarrow> SimulationRunState option \<times> 'm runner" where
  "get_run_state now sid R =
     (case dget (rn_states R) sid of
        Some st \<Rightarrow> (Some st, R)
      | None \<Rightarrow>
          (case load_run_state now sid (dget (rn_disk R) sid) of
             None \<Rightarrow> (None, R)
           | Some st \<Rightarrow> (Some st, R\<lparr>rn_states := dset (rn_states R) sid st\<rparr>)))"

definition save_run_state :: "SimulationRunState \<Rightarrow> 'm runner \<Rightarrow> unit res \<times> 'm runner" where
  "save_run_state st R =
     (case run_to_detail_dict st of
        Inl e \<Rightarrow> (Inl e, R)
      | Inr d \<Rightarrow>
          (Inr (), R\<lparr>rn_disk := dset (rn_disk R) (rs_simulation_id st) (Json (PyDict d)),
                     rn_states := dset (rn_states R) (rs_simulation_id st) st\<rparr>))"

text \<open>Assigning to fields of the shared run state object.\<close>

definition mutate :: "pystr \<Rightarrow> (SimulationRunState \<Rightarrow> SimulationRunState) \<Rightarrow> 'm runner \<Rightarrow> 'm runner" where
  "mutate sid f R =
     (case dget (rn_states R) sid of None \<Rightarrow> R | Some st \<Rightarrow> R\<lparr>rn_states := dset (rn_states R) sid (f st)\<rparr>)"

definition save_current :: "pystr \<Rightarrow> 'm runner \<Rightarrow> unit res \<times> 'm runner" where
  "save_current sid R =
     (case dget (rn_states R) sid of None \<Rightarrow> (Inr (), R) | Some st \<Rightarrow> save_run_state st R)"

definition publish :: "pystr \<Rightarrow> pystr \<Rightarrow> (SimulationRunState \<Rightarrow> SimulationRunState) \<Rightarrow> RunnerStatus \<Rightarrow> pyval \<Rightarrow>
    'm runner \<Rightarrow> unit res \<times> 'm runner" where
  "publish now sid f status err R =
     st_bind (save_current sid (mutate sid (\<lambda>st. (f st)\<lparr>rs_runner_status := status\<rparr>) R)) (\<lambda>_ R.
       (Inr (), sync_simulation_status now sid status err R))"

definition graph_memory_enabled :: "'m runner \<Rightarrow> pystr \<Rightarrow> bool" where
  "graph_memory_enabled R sid = dget_or (rn_enabled R) sid False"

definition stop_registered_updater :: "('m, 'w) updater_api \<Rightarrow> pystr \<Rightarrow> 'm runner \<Rightarrow> 'w \<Rightarrow> ('m, 'w, unit) outcome" where
  "stop_registered_updater api sid R w =
     (case api_stop api sid (rn_updaters R) w of
        None \<Rightarrow> None
      | Some (Inl e, m, w') \<Rightarrow> Some (Inl e, R\<lparr>rn_updaters := m\<rparr>, w')
      | Some (Inr _, m, w') \<Rightarrow>
          Some (Inr (), R\<lparr>rn_updaters := m, rn_enabled := dpop (rn_enabled R) sid\<rparr>, w'))"

text \<open>\<^verbatim>\<open>f"{state.runner_status}"\<close>: since Python 3.11 formatting an enumeration member gives its
  qualified name.\<close>

fun runner_status_str :: "RunnerStatus \<Rightarrow> pystr" where
  "runner_status_str RS_IDLE = lit ''RunnerStatus.IDLE''"
| "runner_status_str RS_STARTING = lit ''RunnerStatus.STARTING''"
| "runner_status_str RS_RUNNING = lit ''RunnerStatus.RUNNING''"
| "runner_status_str RS_PAUSED = lit ''RunnerStatus.PAUSED''"
| "runner_status_str RS_STOPPING = lit ''RunnerStatus.STOPPING''"
| "runner_status_str RS_STOPPED = lit ''RunnerStatus.STOPPED''"
| "runner_status_str RS_COMPLETED = lit ''RunnerStatus.COMPLETED''"
| "runner_status_str RS_FAILED = lit ''RunnerStatus.FAILED''"

section \<open>Starting\<close>

definition active_statuses :: "RunnerStatus list" where
  "active_statuses = [RS_STARTING, RS_RUNNING, RS_PAUSED, RS_STOPPING]"

definition already_running :: "pystr \<Rightarrow> exn" where
  "already_running sid = Exn ValueError ([27169, 25311, 24050, 22312, 36816, 34892, 25110, 32467, 26463, 22788, 29702, 20013] @ lit '': '' @ sid)"

definition plan_rounds :: "pyval \<Rightarrow> int option \<Rightarrow> (int \<times> pyval) res" where
  "plan_rounds config max_rounds =
     bind_res (as_dict config) (\<lambda>d.
     bind_res (as_dict (field_or d ''time_config'' (PyDict []))) (\<lambda>tc.
       let total_hours = field_or tc ''total_simulation_hours'' (PyInt 72);
           minutes_per_round = field_or tc ''minutes_per_round'' (PyInt 30)
       in (case (py_num total_hours, py_num minutes_per_round) of
             (Some h, Some m) \<Rightarrow>
               if m = 0 then Inl (Exn ZeroDivisionErr (lit ''division by zero''))
               else
                 let total_rounds = rat_trunc (h * 60 / m)
                 in Inr (case max_rounds of
                           None \<Rightarrow> (total_rounds, total_hours)
                         | Some k \<Rightarrow> (if 0 < k then min total_rounds k else total_rounds, total_hours))
           | _ \<Rightarrow> Inl TypeError)))"

definition initial_state :: "pystr \<Rightarrow> pystr \<Rightarrow> int \<Rightarrow> pyval \<Rightarrow> SimulationRunState" where
  "initial_state sid now total_rounds total_hours =
     (fresh_run_state sid now)\<lparr>rs_runner_status := RS_STARTING, rs_total_rounds := PyInt total_rounds,
        rs_total_simulation_hours := total_hours, rs_started_at := PyStr now\<rparr>"

definition claim_simulation ::
  "('m, 'w) updater_api \<Rightarrow> pystr \<Rightarrow> pystr \<Rightarrow> int option \<Rightarrow> 'm runner \<Rightarrow> unit res \<times> 'm runner" where
  "claim_simulation api now sid max_rounds R =
     (case sd_config (dir_of (rn_sims R) sid) of
        None \<Rightarrow> (Inl (Exn ValueError ([27169, 25311, 37197, 32622, 19981, 23384, 22312, 65292, 35831, 20808, 35843, 29992] @ lit '' /prepare '' @ [25509, 21475])), R)
      | Some f \<Rightarrow>
          (case bind_res (json_load f) (\<lambda>config. plan_rounds config max_rounds) of
             Inl e \<Rightarrow> (Inl e, R)
           | Inr (total_rounds, total_hours) \<Rightarrow>
               (case get_run_state now sid R of (existing, R) \<Rightarrow>
                  if (case existing of None \<Rightarrow> False | Some st \<Rightarrow> rs_runner_status st \<in> set active_statuses)
                     \<or> api_registered api (rn_updaters R) sid
                  then (Inl (already_running sid), R)
                  else save_run_state (initial_state sid now total_rounds total_hours) R)))"

definition attach_failed :: "exn \<Rightarrow> pystr" where
  "attach_failed e = lit ''Zep'' @ [22270, 35889, 26356, 26032, 22120, 21021, 22987, 21270, 22833, 36133] @ lit '': '' @ exn_msg e"

definition attach_updater ::
  "('m, 'w) updater_api \<Rightarrow> pystr \<Rightarrow> pystr \<Rightarrow> bool \<Rightarrow> pystr option \<Rightarrow> 'm runner \<Rightarrow> 'w \<Rightarrow> ('m, 'w, unit) outcome" where
  "attach_updater api now sid enable graph_id R w =
     (if \<not> enable then Some (Inr (), R\<lparr>rn_enabled := dset (rn_enabled R) sid False\<rparr>, w)
      else
        (case or_str graph_id None of
           None \<Rightarrow> Some (Inl (Exn ValueError ([21551, 29992, 22270, 35889, 35760, 24518, 26356, 26032, 26102, 24517, 39035, 25552, 20379] @ lit '' graph_id'')), R, w)
         | Some g \<Rightarrow>
             (case api_create api sid g (rn_updaters R) w of
                None \<Rightarrow> None
              | Some (Inr _, m, w') \<Rightarrow>
                  Some (Inr (), R\<lparr>rn_updaters := m, rn_enabled := dset (rn_enabled R) sid True\<rparr>, w')
              | Some (Inl e, m, w') \<Rightarrow>
                  (case publish now sid (\<lambda>st. st\<lparr>rs_error := PyStr (attach_failed e)\<rparr>) RS_FAILED
                          (PyStr (attach_failed e))
                          (R\<lparr>rn_updaters := m, rn_enabled := dset (rn_enabled R) sid False\<rparr>) of
                     (Inl x, R') \<Rightarrow> Some (Inl x, R', w')
                   | (Inr _, R') \<Rightarrow> Some (Inl (Exn RuntimeErr (attach_failed e)), R', w')))))"

datatype script = TwitterScript | RedditScript | ParallelScript

definition choose_script :: "pystr \<Rightarrow> script" where
  "choose_script platform =
     (if platform = lit ''twitter'' then TwitterScript
      else if platform = lit ''reddit'' then RedditScript else ParallelScript)"

definition mark_platforms :: "script \<Rightarrow> SimulationRunState \<Rightarrow> SimulationRunState" where
  "mark_platforms s st =
     (case s of
        TwitterScript \<Rightarrow> st\<lparr>rs_twitter_running := PyBool True\<rparr>
      | RedditScript \<Rightarrow> st\<lparr>rs_reddit_running := PyBool True\<rparr>
      | ParallelScript \<Rightarrow> st\<lparr>rs_twitter_running := PyBool True, rs_reddit_running := PyBool True\<rparr>)"

text \<open>Stopping the updater of a start that cannot go on; a failure is reported, not raised.\<close>

definition release_updater ::
  "('m, 'w) updater_api \<Rightarrow> pystr \<Rightarrow> 'm runner \<Rightarrow> 'w \<Rightarrow> (exn option \<times> 'm runner \<times> 'w) option" where
  "release_updater api sid R w =
     (if graph_memory_enabled R sid
      then (case stop_registered_updater api sid R w of
              None \<Rightarrow> None
            | Some (Inl e, R', w') \<Rightarrow> Some (Some e, R', w')
            | Some (Inr _, R', w') \<Rightarrow> Some (None, R', w'))
      else Some (None, R, w))"

definition fail_run :: "pystr \<Rightarrow> pystr \<Rightarrow> pystr \<Rightarrow> exn \<Rightarrow> 'm runner \<Rightarrow> unit res \<times> 'm runner" where
  "fail_run now sid msg e R =
     (case publish now sid (\<lambda>st. st\<lparr>rs_twitter_running := PyBool False, rs_reddit_running := PyBool False,
                                  rs_error := PyStr msg\<rparr>) RS_FAILED (PyStr msg) R of
        (Inl x, R') \<Rightarrow> (Inl x, R')
      | (Inr _, R') \<Rightarrow> (Inl e, R'))"

definition missing_script ::
  "('m, 'w) updater_api \<Rightarrow> pystr \<Rightarrow> pystr \<Rightarrow> pystr \<Rightarrow> 'm runner \<Rightarrow> 'w \<Rightarrow> ('m, 'w, unit) outcome" where
  "missing_script api now sid script_path R w =
     (case release_updater api sid R w of
        None \<Rightarrow> None
      | Some (cleanup_error, R, w) \<Rightarrow>
          (let msg = [33050, 26412, 19981, 23384, 22312] @ lit '': '' @ script_path @
                 (case cleanup_error of None \<Rightarrow> [] | Some e \<Rightarrow> lit ''; Zep'' @ [22270, 35889, 20889, 20837, 28165, 29702, 22833, 36133] @ lit '': '' @ exn_msg e)
           in (case fail_run now sid msg (Exn ValueError msg) R of (r, R') \<Rightarrow> Some (r, R', w))))"

definition publish_running :: "pystr \<Rightarrow> pystr \<Rightarrow> int \<Rightarrow> 'm runner \<Rightarrow> unit res \<times> 'm runner" where
  "publish_running now sid pid R =
     (case publish now sid (\<lambda>st. st\<lparr>rs_process_pid := PyInt pid\<rparr>) RS_RUNNING PyNone
             (R\<lparr>rn_stdout := dset (rn_stdout R) sid (), rn_processes := dset (rn_processes R) sid None,
                rn_monitors := dset (rn_monitors R) sid False\<rparr>) of
        (Inl e, R') \<Rightarrow> (Inl e, R')
      | (Inr _, R') \<Rightarrow> (Inr (), R'\<lparr>rn_monitors := dset (rn_monitors R') sid True\<rparr>))"

definition forget_resources :: "pystr \<Rightarrow> 'm runner \<Rightarrow> 'm runner" where
  "forget_resources sid R =
     R\<lparr>rn_processes := dpop (rn_processes R) sid, rn_monitors := dpop (rn_monitors R) sid,
       rn_queues := dpop (rn_queues R) sid, rn_stdout := dpop (rn_stdout R) sid\<rparr>"

text \<open>The \<^verbatim>\<open>except\<close> block of the launch; \<open>killed\<close> is the outcome of terminating a process that was
  already created (\<open>None\<close> when there is none or it has exited).  Closing the log file succeeds.\<close>

definition abort_start ::
  "('m, 'w) updater_api \<Rightarrow> pystr \<Rightarrow> pystr \<Rightarrow> exn \<Rightarrow> unit res option \<Rightarrow> 'm runner \<Rightarrow> 'w \<Rightarrow> ('m, 'w, unit) outcome" where
  "abort_start api now sid e killed R w =
     (let errs = (case killed of Some (Inl k) \<Rightarrow> [[23376, 36827, 31243, 32456, 27490, 22833, 36133] @ lit '': '' @ exn_msg k] | _ \<Rightarrow> []) in
      case release_updater api sid (forget_resources sid R) w of
        None \<Rightarrow> None
      | Some (cleanup_error, R, w) \<Rightarrow>
          (let errs = errs @ (case cleanup_error of None \<Rightarrow> [] | Some c \<Rightarrow> [lit ''Zep'' @ [22270, 35889, 20889, 20837, 28165, 29702, 22833, 36133] @ lit '': '' @ exn_msg c]);
               msg = exn_msg e @ (if errs = [] then [] else lit ''; '' @ py_join (lit ''; '') errs)
           in (case fail_run now sid msg e R of (r, R') \<Rightarrow> Some (r, R', w))))"

definition launch_simulation ::
  "('m, 'w) updater_api \<Rightarrow> pystr \<Rightarrow> pystr \<Rightarrow> pystr \<Rightarrow> pystr option \<Rightarrow> int res \<Rightarrow> unit res option \<Rightarrow> 'm runner \<Rightarrow> 'w \<Rightarrow>
   ('m, 'w, unit) outcome" where
  "launch_simulation api now sid platform missing popen killed R w =
     (let R = mutate sid (mark_platforms (choose_script platform)) R in
      case missing of
        Some script_path \<Rightarrow> missing_script api now sid script_path R w
      | None \<Rightarrow>
          (let R = R\<lparr>rn_queues := dset (rn_queues R) sid ()\<rparr> in
           case popen of
             Inl e \<Rightarrow> abort_start api now sid e None R w
           | Inr pid \<Rightarrow>
               (case publish_running now sid pid R of
                  (Inr _, R') \<Rightarrow> Some (Inr (), R', w)
                | (Inl e, R') \<Rightarrow> abort_start api now sid e killed R' w)))"

definition start_simulation ::
  "('m, 'w) updater_api \<Rightarrow> pystr \<Rightarrow> pystr \<Rightarrow> pystr \<Rightarrow> int option \<Rightarrow> bool \<Rightarrow> pystr option \<Rightarrow> pystr option \<Rightarrow> int res \<Rightarrow>
   unit res option \<Rightarrow> 'm runner \<Rightarrow> 'w \<Rightarrow> ('m, 'w, unit) outcome" where
  "start_simulation api now sid platform max_rounds enable graph_id missing popen killed R w =
     (case claim_simulation api now sid max_rounds R of
        (Inl e, R) \<Rightarrow> Some (Inl e, R, w)
      | (Inr _, R) \<Rightarrow>
          (case attach_updater api now sid enable graph_id R w of
             None \<Rightarrow> None
           | Some (Inl e, R, w) \<Rightarrow> Some (Inl e, R, w)
           | Some (Inr _, R, w) \<Rightarrow> launch_simulation api now sid platform missing popen killed R w))"


section \<open>The monitor's finalization\<close>

record observed =
  ob_monitor_error :: "exn option"
  ob_exit_code :: "int option"
  ob_log_tail :: pystr

definition exit_message :: "observed \<Rightarrow> pystr" where
  "exit_message ob =
     [36827, 31243, 36864, 20986, 30721] @ lit '': '' @ (case ob_exit_code ob of None \<Rightarrow> lit ''None'' | Some c \<Rightarrow> int_str c)
       @ lit '', '' @ [38169, 35823] @ lit '': '' @ ob_log_tail ob"

definition drain_failed :: "exn \<Rightarrow> pystr" where
  "drain_failed e = lit ''Zep'' @ [22270, 35889, 20889, 20837, 26410, 23436, 25972, 23436, 25104] @ lit '': '' @ exn_msg e"

definition desired_outcome :: "bool \<Rightarrow> observed \<Rightarrow> RunnerStatus \<times> pyval" where
  "desired_outcome manual_stop ob =
     (if manual_stop then (RS_STOPPED, PyNone)
      else
        (case ob_monitor_error ob of
           Some e \<Rightarrow> (RS_FAILED, PyStr (exn_msg e))
         | None \<Rightarrow>
             if ob_exit_code ob \<noteq> Some 0 then (RS_FAILED, PyStr (exit_message ob)) else (RS_COMPLETED, PyNone)))"

definition not_running :: "SimulationRunState \<Rightarrow> SimulationRunState" where
  "not_running st = st\<lparr>rs_twitter_running := PyBool False, rs_reddit_running := PyBool False\<rparr>"

definition finish_run :: "pystr \<Rightarrow> pystr \<Rightarrow> RunnerStatus \<times> pyval \<Rightarrow> 'm runner \<Rightarrow> unit res \<times> 'm runner" where
  "finish_run now sid outcome R =
     (case outcome of (status, err) \<Rightarrow>
        publish now sid (\<lambda>st. st\<lparr>rs_error := err, rs_completed_at := PyStr now\<rparr>) status err R)"

definition finalize_run ::
  "('m, 'w) updater_api \<Rightarrow> pystr \<Rightarrow> pystr \<Rightarrow> observed \<Rightarrow> 'm runner \<Rightarrow> 'w \<Rightarrow> ('m, 'w, unit) outcome" where
  "finalize_run api now sid ob R w =
     (let outcome = desired_outcome (sid \<in> set (rn_manual_stop R)) ob; R = mutate sid not_running R in
      if \<not> graph_memory_enabled R sid
      then (case finish_run now sid outcome R of (r, R') \<Rightarrow> Some (r, R', w))
      else
        (case publish now sid id RS_STOPPING PyNone R of
           (Inl e, R') \<Rightarrow> Some (Inl e, R', w)
         | (Inr _, R') \<Rightarrow>
             (case stop_registered_updater api sid R' w of
                None \<Rightarrow> None
              | Some (Inr _, R'', w') \<Rightarrow> (case finish_run now sid outcome R'' of (r, R3) \<Rightarrow> Some (r, R3, w'))
              | Some (Inl e, R'', w') \<Rightarrow>
                  (case finish_run now sid (RS_FAILED, PyStr (drain_failed e)) R'' of (r, R3) \<Rightarrow> Some (r, R3, w')))))"

definition end_monitor :: "pystr \<Rightarrow> 'm runner \<Rightarrow> 'm runner" where
  "end_monitor sid R = forget_resources sid (R\<lparr>rn_manual_stop := filter (\<lambda>s. s \<noteq> sid) (rn_manual_stop R)\<rparr>)"

text \<open>
  The \<^verbatim>\<open>finally\<close> block of \<^verbatim>\<open>_monitor_simulation\<close>; \<open>local\<close> is the run state object the monitor holds,
  used when the runner has forgotten it.
\<close>

definition monitor_finalize ::
  "('m, 'w) updater_api \<Rightarrow> pystr \<Rightarrow> pystr \<Rightarrow> SimulationRunState \<Rightarrow> observed \<Rightarrow> 'm runner \<Rightarrow> 'w \<Rightarrow> ('m, 'w, unit) outcome" where
  "monitor_finalize api now sid local ob R w =
     (case get_run_state now sid R of (latest, R) \<Rightarrow>
        (let st = (case latest of Some s \<Rightarrow> s | None \<Rightarrow> local) in
         if rs_runner_status st = RS_STOPPED \<or> rs_runner_status st = RS_FAILED
         then Some (Inr (), end_monitor sid R, w)
         else
           (case finalize_run api now sid ob
                   (if latest = None then R\<lparr>rn_states := dset (rn_states R) sid st\<rparr> else R) w of
              None \<Rightarrow> None
            | Some (Inl e, R', w') \<Rightarrow> Some (Inl e, R'\<lparr>rn_monitors := dset (rn_monitors R') sid False\<rparr>, w')
            | Some (Inr _, R', w') \<Rightarrow> Some (Inr (), end_monitor sid R', w'))))"

section \<open>Stopping\<close>

definition no_such_simulation :: "pystr \<Rightarrow> exn" where
  "no_such_simulation sid = Exn ValueError ([27169, 25311, 19981, 23384, 22312] @ lit '': '' @ sid)"

definition monitor_is_alive :: "'m runner \<Rightarrow> pystr \<Rightarrow> bool" where
  "monitor_is_alive R sid \<longleftrightarrow> dget (rn_monitors R) sid = Some True"

datatype stop_phase = AlreadyStopped | Requested bool

text \<open>
  The first locked section of \<^verbatim>\<open>stop_simulation\<close>; the flag of \<open>Requested\<close> is
  \<^verbatim>\<open>retrying_finalization\<close>, and \<open>killed\<close> is what \<^verbatim>\<open>poll()\<close> returns after the process was told to end.
\<close>

definition stop_request ::
  "('m, 'w) updater_api \<Rightarrow> pystr \<Rightarrow> pystr \<Rightarrow> int option \<Rightarrow> 'm runner \<Rightarrow> stop_phase res \<times> 'm runner" where
  "stop_request api now sid killed R =
     (case get_run_state now sid R of
        (None, R) \<Rightarrow> (Inl (no_such_simulation sid), R)
      | (Some st, R) \<Rightarrow>
          if rs_runner_status st = RS_STOPPED then (Inr AlreadyStopped, R)
          else
            (let retrying = api_registered api (rn_updaters R) sid \<and>
                   (rs_runner_status st = RS_STOPPING \<or> rs_runner_status st = RS_FAILED) in
             if rs_runner_status st \<notin> set active_statuses \<and> \<not> retrying
             then (Inl (Exn ValueError ([27169, 25311, 26410, 22312, 36816, 34892] @ lit '': '' @ sid @ lit '', status=''
                     @ runner_status_str (rs_runner_status st))), R)
             else
               st_bind (publish now sid id RS_STOPPING PyNone (R\<lparr>rn_manual_stop := List.insert sid (rn_manual_stop R)\<rparr>))
                 (\<lambda>_ R. (Inr (Requested retrying),
                    case dget (rn_processes R) sid of
                      Some None \<Rightarrow> R\<lparr>rn_processes := dset (rn_processes R) sid killed\<rparr>
                    | _ \<Rightarrow> R))))"

text \<open>The synchronous barrier, used when no monitor is alive or a finalization is retried.\<close>

definition stop_finalize ::
  "('m, 'w) updater_api \<Rightarrow> pystr \<Rightarrow> pystr \<Rightarrow> 'm runner \<Rightarrow> 'w \<Rightarrow> ('m, 'w, unit) outcome" where
  "stop_finalize api now sid R w =
     (case release_updater api sid R w of
        None \<Rightarrow> None
      | Some (Some e, R', w') \<Rightarrow>
          (case finish_run now sid (RS_FAILED, PyStr (drain_failed e)) (mutate sid not_running R') of
             (Inl x, R'') \<Rightarrow> Some (Inl x, R'', w')
           | (Inr _, R'') \<Rightarrow> Some (Inl (Exn RuntimeErr (drain_failed e)), R'', w'))
      | Some (None, R', w') \<Rightarrow>
          (case finish_run now sid (RS_STOPPED, PyNone) (mutate sid not_running R') of
             (Inl x, R'') \<Rightarrow> Some (Inl x, R'', w')
           | (Inr _, R'') \<Rightarrow>
               Some (Inr (), R''\<lparr>rn_manual_stop := filter (\<lambda>s. s \<noteq> sid) (rn_manual_stop R'')\<rparr>, w')))"

definition stop_verdict :: "pystr \<Rightarrow> pystr \<Rightarrow> 'm runner \<Rightarrow> unit res \<times> 'm runner" where
  "stop_verdict now sid R =
     (case get_run_state now sid R of
        (None, R) \<Rightarrow> (Inr (), R)
      | (Some st, R) \<Rightarrow>
          if rs_runner_status st = RS_FAILED
          then (Inl (Exn RuntimeErr (case rs_error st of PyStr (c # m) \<Rightarrow> c # m | _ \<Rightarrow> [27169, 25311, 20572, 27490, 22833, 36133])), R)
          else if rs_runner_status st \<noteq> RS_STOPPED
          then (Inl (Exn RuntimeErr ([27169, 25311, 20572, 27490, 26410, 36798, 21040, 32456, 24577] @ lit '': '' @ sid @ lit '', status=''
                  @ runner_status_str (rs_runner_status st))), R)
          else (Inr (), R))"

text \<open>What the environment does during one stop: the process's exit, whether the monitor ends
  within the join, and what it observed.\<close>

record schedule =
  sc_killed :: "int option"
  sc_joined :: bool
  sc_local :: SimulationRunState
  sc_observed :: observed

definition stop_pending :: exn where
  "stop_pending = Exn SimulationStopPending ([27169, 25311, 20173, 22312, 20572, 27490, 20013, 65292, 22270, 35889, 20889, 20837, 26410, 22312] @ lit '' 665s '' @ [20869, 23436, 25104])"

definition stop_simulation ::
  "('m, 'w) updater_api \<Rightarrow> pystr \<Rightarrow> pystr \<Rightarrow> schedule \<Rightarrow> 'm runner \<Rightarrow> 'w \<Rightarrow> ('m, 'w, unit) outcome" where
  "stop_simulation api now sid sc R w =
     (case stop_request api now sid (sc_killed sc) R of
        (Inl e, R) \<Rightarrow> Some (Inl e, R, w)
      | (Inr AlreadyStopped, R) \<Rightarrow> Some (Inr (), R, w)
      | (Inr (Requested retrying), R) \<Rightarrow>
          if \<not> retrying \<and> monitor_is_alive R sid
          then if sc_joined sc
               then (case monitor_finalize api now sid (sc_local sc) (sc_observed sc) R w of
                       None \<Rightarrow> None
                     | Some (_, R', w') \<Rightarrow> (case stop_verdict now sid R' of (r, R'') \<Rightarrow> Some (r, R'', w')))
               else Some (Inl stop_pending, R, w)
          else
            (case stop_finalize api now sid R w of
               None \<Rightarrow> None
             | Some (Inl e, R', w') \<Rightarrow> Some (Inl e, R', w')
             | Some (Inr _, R', w') \<Rightarrow> (case stop_verdict now sid R' of (r, R'') \<Rightarrow> Some (r, R'', w'))))"

section \<open>Shutdown\<close>

definition restore_barrier :: "pystr \<Rightarrow> pystr \<Rightarrow> SimulationRunState \<Rightarrow> 'm runner \<Rightarrow> unit res \<times> 'm runner" where
  "restore_barrier now sid st R =
     (let R = R\<lparr>rn_enabled := dset (rn_enabled R) sid True\<rparr> in
      if rs_runner_status st \<in> {RS_IDLE, RS_STOPPED, RS_COMPLETED}
      then publish now sid id RS_STOPPING PyNone R
      else (Inr (), R))"

definition release_stopped :: "pystr \<Rightarrow> pystr \<Rightarrow> 'm runner \<Rightarrow> 'm runner" where
  "release_stopped now sid R =
     (case get_run_state now sid R of
        (Some st, R) \<Rightarrow>
          if rs_runner_status st = RS_STOPPED \<and> dget (rn_processes R) sid \<noteq> Some None
          then forget_resources sid R else R
      | (None, R) \<Rightarrow> R)"

definition cleanup_orphan ::
  "('m, 'w) updater_api \<Rightarrow> pystr \<Rightarrow> schedule \<Rightarrow> 'm runner \<Rightarrow> 'w \<Rightarrow> ('m, 'w, unit) outcome" where
  "cleanup_orphan api sid sc R w =
     (let R = (case dget (rn_processes R) sid of
                 Some None \<Rightarrow> R\<lparr>rn_processes := dset (rn_processes R) sid (sc_killed sc)\<rparr> | _ \<Rightarrow> R) in
      if \<not> api_registered api (rn_updaters R) sid then Some (Inr (), R, w)
      else
        (case api_stop api sid (rn_updaters R) w of
           None \<Rightarrow> None
         | Some (r, m, w') \<Rightarrow> Some (r, R\<lparr>rn_updaters := m\<rparr>, w')))"

definition cleanup_one ::
  "('m, 'w) updater_api \<Rightarrow> pystr \<Rightarrow> pystr \<Rightarrow> schedule \<Rightarrow> 'm runner \<Rightarrow> 'w \<Rightarrow> ('m, 'w, unit) outcome" where
  "cleanup_one api now sid sc R w =
     (case get_run_state now sid R of
        (None, R) \<Rightarrow> cleanup_orphan api sid sc R w
      | (Some st, R) \<Rightarrow>
          (let has_updater = api_registered api (rn_updaters R) sid in
           case (if has_updater then restore_barrier now sid st R else (Inr (), R)) of
             (Inl e, R) \<Rightarrow> Some (Inl e, R, w)
           | (Inr _, R) \<Rightarrow>
               (let status = (case dget (rn_states R) sid of Some s \<Rightarrow> rs_runner_status s | None \<Rightarrow> rs_runner_status st) in
                if dget (rn_processes R) sid = Some None \<or> has_updater \<or> status \<in> set active_statuses
                then (case stop_simulation api now sid sc R w of
                        None \<Rightarrow> None
                      | Some (Inl e, R', w') \<Rightarrow> Some (Inl e, R', w')
                      | Some (Inr _, R', w') \<Rightarrow> Some (Inr (), release_stopped now sid R', w'))
                else Some (Inr (), release_stopped now sid R, w))))"

fun cleanup_each ::
  "('m, 'w) updater_api \<Rightarrow> pystr \<Rightarrow> (pystr \<Rightarrow> schedule) \<Rightarrow> pystr list \<Rightarrow> bool \<Rightarrow> 'm runner \<Rightarrow> 'w \<Rightarrow>
   (bool \<times> 'm runner \<times> 'w) option"
where
  "cleanup_each api now sc [] failed R w = Some (failed, R, w)"
| "cleanup_each api now sc (sid # sids) failed R w =
     (case cleanup_one api now sid (sc sid) R w of
        None \<Rightarrow> None
      | Some (r, R', w') \<Rightarrow> cleanup_each api now sc sids (failed \<or> \<not> is_ok r) R' w')"

definition cleanup_all_simulations ::
  "('m, 'w) updater_api \<Rightarrow> pystr \<Rightarrow> (pystr \<Rightarrow> schedule) \<Rightarrow> 'm runner \<Rightarrow> 'w \<Rightarrow> ('m runner \<times> 'w) option" where
  "cleanup_all_simulations api now sc R w =
     (if rn_cleanup_done R then Some (R, w)
      else
        (let R = R\<lparr>rn_cleanup_done := True\<rparr>;
             sids = py_sorted (map fst (rn_processes R) @ map fst (rn_enabled R) @ api_ids api (rn_updaters R)) in
         (case cleanup_each api now sc sids False R w of
            None \<Rightarrow> None
          | Some (failed, R', w') \<Rightarrow> Some (if failed then R'\<lparr>rn_cleanup_done := False\<rparr> else R', w'))))"

definition get_running_simulations :: "'m runner \<Rightarrow> pystr list" where
  "get_running_simulations R = map fst (filter (\<lambda>(_, p). p = None) (rn_processes R))"

end
