(* ===== verification/Runner_Barrier.thy ===== *)
theory Runner_Barrier
  imports Simulation_Runner
begin

text \<open>
  The ingestion barrier of \<^verbatim>\<open>SimulationRunner\<close>: a run is reported \<^verbatim>\<open>STOPPED\<close> or \<^verbatim>\<open>COMPLETED\<close> only
  when no updater of it is registered any more.

  \<open>runner_run api R S\<close> are the runner states reachable by interleaving the runner's locked
  sections, the monitors and the updaters; \<open>S\<close> records the starts that are between their
  sections.  The lemmas are proved once, in a locale over the registry interface, and used for
  the runner with \<^verbatim>\<open>ZepGraphMemoryManager\<close>.
\<close>

section \<open>What a section changes\<close>

text \<open>A section of one simulation keeps a known run state known and leaves the other simulations
  alone.\<close>

definition row :: "'m runner \<Rightarrow> pystr \<Rightarrow> SimulationRunState option \<times> bool option \<times> bool option" where
  "row R s = (dget (rn_states R) s, dget (rn_enabled R) s, dget (rn_monitors R) s)"

definition section_frame :: "('m, 'w) updater_api \<Rightarrow> pystr \<Rightarrow> 'm runner \<Rightarrow> 'm runner \<Rightarrow> bool" where
  "section_frame api sid R R' \<longleftrightarrow> (dget (rn_states R) sid \<noteq> None \<longrightarrow> dget (rn_states R') sid \<noteq> None) \<and>
     (\<forall>s. s \<noteq> sid \<longrightarrow> row R' s = row R s
       \<and> api_registered api (rn_updaters R') s = api_registered api (rn_updaters R) s)"

lemma frame_refl [simp]: "section_frame api sid R R"
  by (simp add: section_frame_def)

lemma frame_trans: "section_frame api sid R R' \<Longrightarrow> section_frame api sid R' R'' \<Longrightarrow> section_frame api sid R R''"
  by (simp add: section_frame_def)

text \<open>The run state stored for a simulation carries its id.\<close>

definition own :: "'m runner \<Rightarrow> pystr \<Rightarrow> bool" where
  "own R sid \<longleftrightarrow> (\<forall>st. dget (rn_states R) sid = Some st \<longrightarrow> rs_simulation_id st = sid)"

lemma sync_frame [simp]:
  "rn_states (sync_simulation_status now sid status err R) = rn_states R"
  "rn_enabled (sync_simulation_status now sid status err R) = rn_enabled R"
  "rn_monitors (sync_simulation_status now sid status err R) = rn_monitors R"
  "rn_updaters (sync_simulation_status now sid status err R) = rn_updaters R"
  "rn_processes (sync_simulation_status now sid status err R) = rn_processes R"
  "rn_manual_stop (sync_simulation_status now sid status err R) = rn_manual_stop R"
  by (simp_all add: sync_simulation_status_def split: option.splits prod.splits sum.splits)

definition published ::
  "pystr \<Rightarrow> (SimulationRunState \<Rightarrow> SimulationRunState) \<Rightarrow> 'm runner \<Rightarrow> 'm runner \<Rightarrow> bool" where
  "published sid g R R' \<longleftrightarrow>
     (\<forall>s. dget (rn_states R') s = (if s = sid then map_option g (dget (rn_states R) sid) else dget (rn_states R) s))
     \<and> rn_enabled R' = rn_enabled R \<and> rn_monitors R' = rn_monitors R \<and> rn_updaters R' = rn_updaters R
     \<and> rn_processes R' = rn_processes R \<and> rn_manual_stop R' = rn_manual_stop R"

lemma published_frame: "published sid g R R' \<Longrightarrow> section_frame api sid R R'"
  by (simp add: published_def section_frame_def row_def)

lemma mutate_published: "published sid f R (mutate sid f R)"
  by (simp add: published_def mutate_def split: option.splits)

lemma publish_published:
  assumes "publish now sid f status err R = (r, R')" and "own R sid"
    and "\<And>st. rs_simulation_id (f st) = rs_simulation_id st"
  shows "published sid (\<lambda>st. (f st)\<lparr>rs_runner_status := status\<rparr>) R R'"
  using assms
  by (auto simp: publish_def save_current_def save_run_state_def mutate_def published_def own_def
      split: option.splits sum.splits)

lemma get_run_state_effect:
  assumes "get_run_state now sid R = (found, R')" and "own R sid"
  shows "own R' sid \<and> dget (rn_states R') sid = found \<and> (\<forall>s. s \<noteq> sid \<longrightarrow> dget (rn_states R') s = dget (rn_states R) s)
    \<and> (dget (rn_states R) sid \<noteq> None \<longrightarrow> R' = R)
    \<and> rn_enabled R' = rn_enabled R \<and> rn_monitors R' = rn_monitors R \<and> rn_updaters R' = rn_updaters R
    \<and> rn_processes R' = rn_processes R \<and> rn_manual_stop R' = rn_manual_stop R"
  using assms
  by (auto simp: get_run_state_def own_def load_run_state_def run_from_dict_def exn_simps
      split: option.splits sum.splits)

lemma get_run_state_frame: "get_run_state now sid R = (found, R') \<Longrightarrow> own R sid \<Longrightarrow> section_frame api sid R R'"
  using get_run_state_effect [of now sid R found R'] by (auto simp: section_frame_def row_def)

section \<open>The invariant of one simulation\<close>

text \<open>A start in progress has claimed the simulation and may have attached its updater.\<close>

datatype start_phase = Claimed | Attached

definition at_rest :: "RunnerStatus \<Rightarrow> bool" where
  "at_rest s \<longleftrightarrow> s \<in> {RS_IDLE, RS_STOPPED, RS_COMPLETED}"

lemma at_rest_simps [simp]:
  "at_rest RS_IDLE" "at_rest RS_STOPPED" "at_rest RS_COMPLETED"
  "\<not> at_rest RS_STARTING" "\<not> at_rest RS_RUNNING" "\<not> at_rest RS_PAUSED" "\<not> at_rest RS_STOPPING" "\<not> at_rest RS_FAILED"
  by (simp_all add: at_rest_def)

definition barrier_up :: "('m, 'w) updater_api \<Rightarrow> 'm runner \<Rightarrow> pystr \<Rightarrow> bool" where
  "barrier_up api R sid \<longleftrightarrow> own R sid \<and>
     (api_registered api (rn_updaters R) sid \<longrightarrow> graph_memory_enabled R sid
        \<and> (\<exists>st. dget (rn_states R) sid = Some st \<and> \<not> at_rest (rs_runner_status st)))"

definition phase_ok :: "('m, 'w) updater_api \<Rightarrow> 'm runner \<Rightarrow> start_phase option \<Rightarrow> pystr \<Rightarrow> bool" where
  "phase_ok api R ph sid =
     (case ph of
        None \<Rightarrow> True
      | Some p \<Rightarrow> map_option rs_runner_status (dget (rn_states R) sid) = Some RS_STARTING
          \<and> \<not> monitor_is_alive R sid \<and> (p = Claimed \<longrightarrow> \<not> api_registered api (rn_updaters R) sid))"

definition barrier_inv :: "('m, 'w) updater_api \<Rightarrow> 'm runner \<Rightarrow> (pystr \<Rightarrow> start_phase option) \<Rightarrow> bool" where
  "barrier_inv api R S \<longleftrightarrow> (\<forall>sid. barrier_up api R sid \<and> phase_ok api R (S sid) sid)"

lemma barrier_inv_step:
  assumes "barrier_inv api R S" and "section_frame api sid R R'"
    and "barrier_up api R' sid" and "phase_ok api R' ph sid"
  shows "barrier_inv api R' (S(sid := ph))"
  using assms
  by (auto simp: barrier_inv_def section_frame_def barrier_up_def phase_ok_def row_def own_def
      graph_memory_enabled_def dget_or_dget monitor_is_alive_def split: option.splits)

lemma barrier_inv_rest:
  assumes "barrier_inv api R S" and "section_frame api sid R R'" and "barrier_up api R' sid" and "S sid = None"
  shows "barrier_inv api R' S"
  using barrier_inv_step [OF assms(1-3), of None] assms(4) by (simp add: phase_ok_def fun_upd_idem)

lemma barrier_published:
  assumes "barrier_up api R sid" and "published sid g R R'" and "\<And>st. rs_simulation_id (g st) = rs_simulation_id st"
    and "\<And>st. at_rest (rs_runner_status (g st)) \<Longrightarrow> \<not> api_registered api (rn_updaters R) sid \<or> at_rest (rs_runner_status st)"
  shows "barrier_up api R' sid"
  using assms by (auto simp: barrier_up_def published_def own_def graph_memory_enabled_def dget_or_dget)

lemma barrier_publish:
  assumes "publish now sid f status err R = (r, R')" and "barrier_up api R sid"
    and "\<And>st. rs_simulation_id (f st) = rs_simulation_id st"
    and "at_rest status \<Longrightarrow> \<not> api_registered api (rn_updaters R) sid"
  shows "barrier_up api R' sid \<and> section_frame api sid R R'"
proof -
  have "published sid (\<lambda>st. (f st)\<lparr>rs_runner_status := status\<rparr>) R R'"
    using assms(1-3) by (intro publish_published) (simp_all add: barrier_up_def)
  with assms(2-4) show ?thesis
    by (auto intro: published_frame barrier_published)
qed

lemma barrier_get_run_state:
  assumes "get_run_state now sid R = (found, R')" and "barrier_up api R sid"
  shows "barrier_up api R' sid \<and> section_frame api sid R R' \<and> dget (rn_states R') sid = found
    \<and> rn_updaters R' = rn_updaters R \<and> rn_enabled R' = rn_enabled R \<and> rn_monitors R' = rn_monitors R"
proof -
  have "own R sid"
    using assms(2) by (simp add: barrier_up_def)
  with get_run_state_effect [OF assms(1)] get_run_state_frame [OF assms(1)] assms(2) show ?thesis
    by (auto simp: barrier_up_def graph_memory_enabled_def)
qed

section \<open>Interleavings\<close>

text \<open>
  A fresh server process knows no run states, monitors or updaters; the disk is arbitrary.  Any
  section of any simulation may come next, and between sections the monitors update the
  counters of a run state and the updaters work.  Two assumptions are explicit: a simulation is
  not stopped or shut down while its start is between its sections, and it is claimed anew only
  after the monitor of its previous run has ended.  \<open>w\<close> is whatever the world is at that moment.
\<close>

inductive runner_run :: "('m, 'w) updater_api \<Rightarrow> 'm runner \<Rightarrow> (pystr \<Rightarrow> start_phase option) \<Rightarrow> bool"
  for api
where
  fresh: "rn_states R = [] \<Longrightarrow> (\<forall>sid. \<not> api_registered api (rn_updaters R) sid) \<Longrightarrow> runner_run api R (\<lambda>_. None)"
| claimed: "runner_run api R S \<Longrightarrow> S sid = None \<Longrightarrow> \<not> monitor_is_alive R sid \<Longrightarrow>
    claim_simulation api now sid max_rounds R = (r, R') \<Longrightarrow>
    runner_run api R' (S(sid := if is_ok r then Some Claimed else None))"
| attached: "runner_run api R S \<Longrightarrow> S sid = Some Claimed \<Longrightarrow>
    attach_updater api now sid enable graph_id R w = Some (r, R', w') \<Longrightarrow>
    runner_run api R' (S(sid := if is_ok r then Some Attached else None))"
| launched: "runner_run api R S \<Longrightarrow> S sid = Some Attached \<Longrightarrow>
    launch_simulation api now sid platform missing popen killed R w = Some (r, R', w') \<Longrightarrow>
    runner_run api R' (S(sid := None))"
| polled: "runner_run api R S \<Longrightarrow> (\<And>st. rs_simulation_id (g st) = rs_simulation_id st) \<Longrightarrow>
    (\<And>st. rs_runner_status (g st) = rs_runner_status st) \<Longrightarrow> S sid = None \<Longrightarrow>
    save_current sid (mutate sid g R) = (r, R') \<Longrightarrow> runner_run api R' S"
| ingested: "runner_run api R S \<Longrightarrow>
    (\<forall>sid. api_registered api m sid = api_registered api (rn_updaters R) sid) \<Longrightarrow>
    runner_run api (R\<lparr>rn_updaters := m\<rparr>) S"
| finalized: "runner_run api R S \<Longrightarrow> monitor_is_alive R sid \<Longrightarrow> rs_simulation_id st = sid \<Longrightarrow>
    monitor_finalize api now sid st ob R w = Some (r, R', w') \<Longrightarrow> runner_run api R' S"
| stop_requested: "runner_run api R S \<Longrightarrow> S sid = None \<Longrightarrow>
    stop_request api now sid killed R = (r', R') \<Longrightarrow> runner_run api R' S"
| stop_finalized: "runner_run api R S \<Longrightarrow> S sid = None \<Longrightarrow>
    stop_finalize api now sid R w = Some (r, R', w') \<Longrightarrow> runner_run api R' S"
| stopped: "runner_run api R S \<Longrightarrow> S sid = None \<Longrightarrow> rs_simulation_id (sc_local sc) = sid \<Longrightarrow>
    stop_simulation api now sid sc R w = Some (r, R', w') \<Longrightarrow> runner_run api R' S"
| cleaned_up: "runner_run api R S \<Longrightarrow> S sid = None \<Longrightarrow> rs_simulation_id (sc_local sc) = sid \<Longrightarrow>
    cleanup_one api now sid sc R w = Some (r, R', w') \<Longrightarrow> runner_run api R' S"

section \<open>Every section keeps the barrier\<close>

locale runner_registry = updater_registry "api_registered api" "api_stop api" "api_create api"
  for api :: "('m, 'w) updater_api"
begin

lemma barrier_stop_registered:
  assumes "stop_registered_updater api sid R w = Some (r, R', w')" and "barrier_up api R sid"
  shows "barrier_up api R' sid \<and> section_frame api sid R R'
    \<and> api_registered api (rn_updaters R') sid = (\<not> is_ok r) \<and> rn_states R' = rn_states R
    \<and> rn_monitors R' = rn_monitors R \<and> rn_manual_stop R' = rn_manual_stop R"
proof -
  obtain r0 m w0 where st: "api_stop api sid (rn_updaters R) w = Some (r0, m, w0)"
    using assms(1) by (auto simp: stop_registered_updater_def split: option.splits)
  note reg = stop_registered [OF st]
  show ?thesis
  proof (cases r0)
    case (Inl e)
    then have "R' = R\<lparr>rn_updaters := m\<rparr>" "\<not> is_ok r"
      using assms(1) st by (auto simp: stop_registered_updater_def)
    moreover have "api_registered api (rn_updaters R) sid"
      using stop_error_registered st Inl by blast
    ultimately show ?thesis
      using assms(2) reg Inl
      by (auto simp: barrier_up_def section_frame_def row_def own_def graph_memory_enabled_def)
  next
    case (Inr x)
    then have "R' = R\<lparr>rn_updaters := m, rn_enabled := dpop (rn_enabled R) sid\<rparr>" "is_ok r"
      using assms(1) st by (auto simp: stop_registered_updater_def)
    then show ?thesis
      using assms(2) reg Inr
      by (auto simp: barrier_up_def section_frame_def row_def own_def)
  qed
qed

lemma barrier_release:
  assumes "release_updater api sid R w = Some (err, R', w')" and "barrier_up api R sid"
  shows "barrier_up api R' sid \<and> section_frame api sid R R'
    \<and> (err = None \<longrightarrow> \<not> api_registered api (rn_updaters R') sid) \<and> rn_states R' = rn_states R
    \<and> rn_monitors R' = rn_monitors R"
proof (cases "graph_memory_enabled R sid")
  case True
  then obtain r R1 w1 where st: "stop_registered_updater api sid R w = Some (r, R1, w1)"
    and R1: "R' = R1" "err = None \<longleftrightarrow> is_ok r"
    using assms(1) by (auto simp: release_updater_def split: option.splits sum.splits)
  from barrier_stop_registered [OF st assms(2)] R1 show ?thesis by auto
next
  case False
  with assms show ?thesis by (auto simp: release_updater_def barrier_up_def)
qed

lemma barrier_finish:
  assumes "finish_run now sid (status, err) R = (r, R')" and "barrier_up api R sid"
    and "at_rest status \<Longrightarrow> \<not> api_registered api (rn_updaters R) sid"
  shows "barrier_up api R' sid \<and> section_frame api sid R R'"
proof (rule barrier_publish)
  show "publish now sid (\<lambda>st. st\<lparr>rs_error := err, rs_completed_at := PyStr now\<rparr>) status err R = (r, R')"
    using assms(1) by (simp add: finish_run_def)
qed (use assms(2,3) in simp_all)

lemma barrier_mutate:
  assumes "barrier_up api R sid" and "\<And>st. rs_simulation_id (g st) = rs_simulation_id st"
    and "\<And>st. rs_runner_status (g st) = rs_runner_status st"
  shows "barrier_up api (mutate sid g R) sid \<and> section_frame api sid R (mutate sid g R)"
  using barrier_published [OF assms(1) mutate_published assms(2)] published_frame [OF mutate_published] assms(3)
  by simp

lemma not_running_simps [simp]:
  "rs_simulation_id (not_running st) = rs_simulation_id st" "rs_runner_status (not_running st) = rs_runner_status st"
  by (simp_all add: not_running_def)

lemma mutate_updaters [simp]: "rn_updaters (mutate sid g R) = rn_updaters R"
  by (simp add: mutate_def split: option.splits)

lemma mutate_enabled [simp]: "graph_memory_enabled (mutate sid g R) s = graph_memory_enabled R s"
  by (simp add: mutate_def graph_memory_enabled_def split: option.splits)

lemma barrier_finalize:
  assumes "finalize_run api now sid ob R w = Some (r, R', w')" and "barrier_up api R sid"
  shows "barrier_up api R' sid \<and> section_frame api sid R R'"
proof -
  define out where "out = desired_outcome (sid \<in> set (rn_manual_stop R)) ob"
  define R1 where "R1 = mutate sid not_running R"
  have up1: "barrier_up api R1 sid" and k1: "section_frame api sid R R1"
    using barrier_mutate [OF assms(2), of not_running] by (simp_all add: R1_def)
  show ?thesis
  proof (cases "graph_memory_enabled R sid")
    case False
    then have "\<not> api_registered api (rn_updaters R1) sid" "finish_run now sid (fst out, snd out) R1 = (r, R')"
      using assms by (auto simp: finalize_run_def Let_def out_def R1_def barrier_up_def split: prod.splits)
    with barrier_finish [OF _ up1] k1 show ?thesis by (blast intro: frame_trans)
  next
    case True
    obtain r2 R2 where pub: "publish now sid id RS_STOPPING PyNone R1 = (r2, R2)"
      by fastforce
    have up2: "barrier_up api R2 sid \<and> section_frame api sid R1 R2"
      using barrier_publish [OF pub up1] by simp
    show ?thesis
    proof (cases r2)
      case (Inl e)
      with True assms(1) pub have "R' = R2"
        by (auto simp: finalize_run_def Let_def R1_def)
      with up2 k1 show ?thesis by (blast intro: frame_trans)
    next
      case (Inr x)
      then obtain r3 R3 w3 where stp: "stop_registered_updater api sid R2 w = Some (r3, R3, w3)"
        using True assms(1) pub by (auto simp: finalize_run_def Let_def R1_def split: option.splits)
      note up3 = barrier_stop_registered [OF stp conjunct1 [OF up2]]
      have fin: "finish_run now sid (case r3 of Inr _ \<Rightarrow> out | Inl e \<Rightarrow> (RS_FAILED, PyStr (drain_failed e))) R3 = (r, R')"
        using True assms(1) pub Inr stp
        by (auto simp: finalize_run_def Let_def R1_def out_def split: prod.splits sum.splits)
      have "barrier_up api R' sid \<and> section_frame api sid R3 R'"
      proof (cases r3)
        case (Inl e)
        with barrier_finish [of now sid RS_FAILED] fin up3 show ?thesis by simp
      next
        case (Inr y)
        with barrier_finish [of now sid "fst out" "snd out"] fin up3 show ?thesis by simp
      qed
      with up3 up2 k1 show ?thesis by (blast intro: frame_trans)
    qed
  qed
qed

lemma end_monitor_barrier:
  "barrier_up api R sid \<Longrightarrow> barrier_up api (end_monitor sid R) sid \<and> section_frame api sid R (end_monitor sid R)"
  by (simp add: end_monitor_def forget_resources_def barrier_up_def own_def graph_memory_enabled_def
      section_frame_def row_def)

lemma barrier_monitor:
  assumes "monitor_finalize api now sid local ob R w = Some (r, R', w')" and "barrier_up api R sid"
    and "rs_simulation_id local = sid"
  shows "barrier_up api R' sid \<and> section_frame api sid R R'"
proof -
  obtain latest R1 where g: "get_run_state now sid R = (latest, R1)"
    by fastforce
  note up1 = barrier_get_run_state [OF g assms(2)]
  define R2 where "R2 = (if latest = None then R1\<lparr>rn_states := dset (rn_states R1) sid local\<rparr> else R1)"
  have up2: "barrier_up api R2 sid \<and> section_frame api sid R1 R2"
  proof (cases latest)
    case None
    then have "\<not> api_registered api (rn_updaters R1) sid"
      using up1 by (auto simp: barrier_up_def)
    with None show ?thesis
      by (simp add: R2_def barrier_up_def own_def section_frame_def row_def assms(3))
  qed (use up1 in \<open>simp add: R2_def\<close>)
  have "R' = end_monitor sid R1 \<or> (\<exists>r3 R3. finalize_run api now sid ob R2 w = Some (r3, R3, w')
      \<and> (R' = end_monitor sid R3 \<or> R' = R3\<lparr>rn_monitors := dset (rn_monitors R3) sid False\<rparr>))"
    using assms(1) g
    by (auto simp: monitor_finalize_def R2_def Let_def split: if_splits option.splits sum.splits)
  then show ?thesis
  proof (elim disjE exE conjE)
    assume "R' = end_monitor sid R1"
    with up1 end_monitor_barrier [of R1 sid] show ?thesis by (blast intro: frame_trans)
  next
    fix r3 R3 assume f: "finalize_run api now sid ob R2 w = Some (r3, R3, w')" and "R' = end_monitor sid R3"
    with barrier_finalize [OF f] up1 up2 end_monitor_barrier [of R3 sid] show ?thesis by (blast intro: frame_trans)
  next
    fix r3 R3 assume f: "finalize_run api now sid ob R2 w = Some (r3, R3, w')"
      and R': "R' = R3\<lparr>rn_monitors := dset (rn_monitors R3) sid False\<rparr>"
    have "barrier_up api R3 sid \<Longrightarrow> barrier_up api R' sid \<and> section_frame api sid R3 R'"
      by (auto simp: R' barrier_up_def own_def graph_memory_enabled_def section_frame_def row_def)
    with barrier_finalize [OF f] up1 up2 show ?thesis by (blast intro: frame_trans)
  qed
qed

lemma manual_stop_barrier:
  "barrier_up api R sid \<Longrightarrow> barrier_up api (R\<lparr>rn_manual_stop := l\<rparr>) sid \<and> section_frame api sid R (R\<lparr>rn_manual_stop := l\<rparr>)"
  "barrier_up api R sid \<Longrightarrow> barrier_up api (R\<lparr>rn_processes := p\<rparr>) sid \<and> section_frame api sid R (R\<lparr>rn_processes := p\<rparr>)"
  by (simp_all add: barrier_up_def own_def graph_memory_enabled_def section_frame_def row_def)

lemma barrier_stop_request:
  assumes "stop_request api now sid killed R = (r, R')" and "barrier_up api R sid"
  shows "barrier_up api R' sid \<and> section_frame api sid R R'"
proof -
  obtain found R1 where g: "get_run_state now sid R = (found, R1)"
    by fastforce
  note up1 = barrier_get_run_state [OF g assms(2)]
  define R2 where "R2 = R1\<lparr>rn_manual_stop := List.insert sid (rn_manual_stop R1)\<rparr>"
  have up2: "barrier_up api R2 sid \<and> section_frame api sid R1 R2"
    using up1 manual_stop_barrier(1) by (simp add: R2_def)
  obtain r3 R3 where pub: "publish now sid id RS_STOPPING PyNone R2 = (r3, R3)"
    by fastforce
  have up3: "barrier_up api R3 sid \<and> section_frame api sid R2 R3"
    using barrier_publish [OF pub conjunct1 [OF up2]] by simp
  have "R' = R1 \<or> R' = R3 \<or> R' = R3\<lparr>rn_processes := dset (rn_processes R3) sid killed\<rparr>"
    using assms(1) g pub
    by (cases r3) (auto simp: stop_request_def R2_def Let_def split: if_splits option.splits)
  with up1 up2 up3 manual_stop_barrier(2) [of R3 sid] show ?thesis
    by (elim disjE) (blast intro: frame_trans)+
qed

lemma barrier_stop_finalize:
  assumes "stop_finalize api now sid R w = Some (r, R', w')" and "barrier_up api R sid"
  shows "barrier_up api R' sid \<and> section_frame api sid R R'"
proof -
  obtain err R1 w1 where rel: "release_updater api sid R w = Some (err, R1, w1)"
    using assms(1) by (auto simp: stop_finalize_def split: option.splits)
  note up1 = barrier_release [OF rel assms(2)]
  define R2 where "R2 = mutate sid not_running R1"
  have up2: "barrier_up api R2 sid \<and> section_frame api sid R1 R2"
    unfolding R2_def using up1 by (intro barrier_mutate) simp_all
  define status where "status = (case err of None \<Rightarrow> RS_STOPPED | Some _ \<Rightarrow> RS_FAILED)"
  define msg where "msg = (case err of None \<Rightarrow> PyNone | Some e \<Rightarrow> PyStr (drain_failed e))"
  obtain r3 R3 where fin: "finish_run now sid (status, msg) R2 = (r3, R3)"
    by fastforce
  have up3: "barrier_up api R3 sid \<and> section_frame api sid R2 R3"
    by (rule barrier_finish [OF fin conjunct1 [OF up2]])
      (use up1 in \<open>auto simp: status_def R2_def split: option.splits\<close>)
  have "\<exists>r4. stop_finalize api now sid R w = Some (r4,
      if err = None \<and> is_ok r3 then R3\<lparr>rn_manual_stop := filter (\<lambda>s. s \<noteq> sid) (rn_manual_stop R3)\<rparr> else R3, w1)"
    using rel fin
    by (cases err; cases r3) (simp_all add: stop_finalize_def R2_def status_def msg_def)
  then have "R' = R3 \<or> R' = R3\<lparr>rn_manual_stop := filter (\<lambda>s. s \<noteq> sid) (rn_manual_stop R3)\<rparr>"
    using assms(1) by (simp split: if_splits)
  with up1 up2 up3 manual_stop_barrier(1) [of R3 sid] show ?thesis
    by (elim disjE) (blast intro: frame_trans)+
qed

lemma barrier_stop_verdict:
  assumes "stop_verdict now sid R = (r, R')" and "barrier_up api R sid"
  shows "barrier_up api R' sid \<and> section_frame api sid R R'"
proof -
  obtain found R1 where g: "get_run_state now sid R = (found, R1)"
    by fastforce
  with assms(1) have "R' = R1"
    by (auto simp: stop_verdict_def split: option.splits if_splits)
  with barrier_get_run_state [OF g assms(2)] show ?thesis by simp
qed

lemma barrier_stop_simulation:
  assumes "stop_simulation api now sid sc R w = Some (r, R', w')" and "barrier_up api R sid"
    and "rs_simulation_id (sc_local sc) = sid"
  shows "barrier_up api R' sid \<and> section_frame api sid R R'"
proof -
  obtain r1 R1 where req: "stop_request api now sid (sc_killed sc) R = (r1, R1)"
    by fastforce
  note up1 = barrier_stop_request [OF req assms(2)]
  have "R' = R1 \<or> (\<exists>r2 R2. stop_finalize api now sid R1 w = Some (r2, R2, w') \<and> (R' = R2 \<or> (\<exists>r3. stop_verdict now sid R2 = (r3, R'))))
      \<or> (\<exists>r2 R2 r3. monitor_finalize api now sid (sc_local sc) (sc_observed sc) R1 w = Some (r2, R2, w')
           \<and> stop_verdict now sid R2 = (r3, R'))"
    using assms(1) req
    by (auto simp: stop_simulation_def split: sum.splits stop_phase.splits if_splits option.splits prod.splits)
  then show ?thesis
  proof (elim disjE exE conjE)
    fix r2 R2 assume f: "stop_finalize api now sid R1 w = Some (r2, R2, w')" and "R' = R2"
    with up1 barrier_stop_finalize [OF f] show ?thesis by (blast intro: frame_trans)
  next
    fix r2 R2 r3 assume f: "stop_finalize api now sid R1 w = Some (r2, R2, w')" and v: "stop_verdict now sid R2 = (r3, R')"
    with up1 barrier_stop_finalize [OF f] barrier_stop_verdict [OF v] show ?thesis by (blast intro: frame_trans)
  next
    fix r2 R2 r3 assume m: "monitor_finalize api now sid (sc_local sc) (sc_observed sc) R1 w = Some (r2, R2, w')"
      and v: "stop_verdict now sid R2 = (r3, R')"
    with up1 barrier_monitor [OF m _ assms(3)] barrier_stop_verdict [OF v] show ?thesis by (blast intro: frame_trans)
  qed (use up1 in simp)
qed

lemma claim_effect:
  assumes "claim_simulation api now sid max_rounds R = (r, R')" and "barrier_up api R sid"
  shows "barrier_up api R' sid \<and> section_frame api sid R R' \<and> rn_monitors R' = rn_monitors R
    \<and> (is_ok r \<longrightarrow> phase_ok api (R'\<lparr>rn_monitors := []\<rparr>) (Some Claimed) sid)"
proof -
  obtain found R1 where g: "get_run_state now sid R = (found, R1)"
    by fastforce
  note up1 = barrier_get_run_state [OF g assms(2)]
  have "R' = R \<and> \<not> is_ok r \<or> R' = R1 \<and> \<not> is_ok r
      \<or> (\<exists>n h. save_run_state (initial_state sid now n h) R1 = (r, R') \<and> \<not> api_registered api (rn_updaters R1) sid)"
    using assms(1) g
    by (auto simp: claim_simulation_def split: option.splits sum.splits if_splits)
  then show ?thesis
  proof (elim disjE exE conjE)
    fix n h assume sv: "save_run_state (initial_state sid now n h) R1 = (r, R')"
      and nr: "\<not> api_registered api (rn_updaters R1) sid"
    then have "section_frame api sid R1 R' \<and> barrier_up api R' sid \<and> rn_monitors R' = rn_monitors R1
        \<and> (is_ok r \<longrightarrow> phase_ok api (R'\<lparr>rn_monitors := []\<rparr>) (Some Claimed) sid)"
      using up1
      by (auto simp: save_run_state_def initial_state_def fresh_run_state_def section_frame_def row_def
          barrier_up_def own_def phase_ok_def monitor_is_alive_def split: sum.splits)
    with up1 show ?thesis by (metis frame_trans)
  qed (use assms(2) up1 in simp_all)
qed

lemma attach_effect:
  assumes "attach_updater api now sid enable graph_id R w = Some (r, R', w')" and "barrier_up api R sid"
    and "phase_ok api R (Some Claimed) sid"
  shows "barrier_up api R' sid \<and> section_frame api sid R R' \<and> (is_ok r \<longrightarrow> phase_ok api R' (Some Attached) sid)"
proof -
  have nr: "\<not> api_registered api (rn_updaters R) sid"
    and st: "\<exists>st. dget (rn_states R) sid = Some st \<and> rs_runner_status st = RS_STARTING"
    using assms(3) by (auto simp: phase_ok_def)
  show ?thesis
  proof (cases "enable \<and> or_str graph_id None \<noteq> None")
    case False
    then have "R' = R\<lparr>rn_enabled := dset (rn_enabled R) sid False\<rparr> \<or> R' = R \<and> \<not> is_ok r"
      using assms(1) by (cases enable) (auto simp: attach_updater_def)
    then show ?thesis
      using assms(2,3) nr
      by (elim disjE) (simp_all add: barrier_up_def own_def section_frame_def row_def phase_ok_def monitor_is_alive_def)
  next
    case True
    then obtain g where g: "enable" "or_str graph_id None = Some g" by auto
    then obtain rc m w1 where cr: "api_create api sid g (rn_updaters R) w = Some (rc, m, w1)"
      using assms(1) by (cases "api_create api sid g (rn_updaters R) w") (auto simp: attach_updater_def)
    note reg = create_registered [OF cr]
    show ?thesis
    proof (cases rc)
      case (Inr x)
      then have "R' = R\<lparr>rn_updaters := m, rn_enabled := dset (rn_enabled R) sid True\<rparr>"
        using assms(1) g cr by (simp add: attach_updater_def)
      with reg assms(2,3) st Inr show ?thesis
        by (auto simp: barrier_up_def own_def section_frame_def row_def phase_ok_def monitor_is_alive_def
            graph_memory_enabled_def dget_or_dget)
    next
      case (Inl e)
      define R1 where "R1 = R\<lparr>rn_updaters := m, rn_enabled := dset (rn_enabled R) sid False\<rparr>"
      have up1: "barrier_up api R1 sid \<and> section_frame api sid R R1"
        using reg assms(2) nr Inl by (simp add: R1_def barrier_up_def own_def section_frame_def row_def)
      obtain x R2 where pub: "publish now sid (\<lambda>st. st\<lparr>rs_error := PyStr (attach_failed e)\<rparr>) RS_FAILED
          (PyStr (attach_failed e)) R1 = (x, R2)"
        by fastforce
      then have "R' = R2 \<and> \<not> is_ok r"
        using assms(1) g cr Inl by (cases x) (auto simp: attach_updater_def R1_def)
      moreover have "barrier_up api R2 sid \<and> section_frame api sid R1 R2"
        using barrier_publish [OF pub conjunct1 [OF up1]] by simp
      ultimately show ?thesis using up1 by (auto intro: frame_trans)
    qed
  qed
qed

lemma barrier_fail_run:
  assumes "fail_run now sid msg e R = (r, R')" and "barrier_up api R sid"
  shows "barrier_up api R' sid \<and> section_frame api sid R R'"
proof -
  obtain r1 where "publish now sid (\<lambda>st. st\<lparr>rs_twitter_running := PyBool False, rs_reddit_running := PyBool False,
      rs_error := PyStr msg\<rparr>) RS_FAILED (PyStr msg) R = (r1, R')"
    using assms(1) by (auto simp: fail_run_def split: prod.splits sum.splits)
  from barrier_publish [OF this assms(2)] show ?thesis by simp
qed

lemma barrier_release_fail:
  assumes "release_updater api sid R w = Some (err, R1, w')" and "fail_run now sid msg e R1 = (r, R')"
    and "barrier_up api R sid"
  shows "barrier_up api R' sid \<and> section_frame api sid R R'"
  using barrier_release [OF assms(1,3)] barrier_fail_run [OF assms(2)] by (blast intro: frame_trans)

lemma barrier_missing_script:
  assumes "missing_script api now sid path R w = Some (r, R', w')" and "barrier_up api R sid"
  shows "barrier_up api R' sid \<and> section_frame api sid R R'"
  using assms
  by (auto simp: missing_script_def Let_def split: option.splits prod.splits dest: barrier_release_fail)

lemma forget_barrier:
  "barrier_up api R sid \<Longrightarrow> barrier_up api (forget_resources sid R) sid \<and> section_frame api sid R (forget_resources sid R)"
  by (simp add: forget_resources_def barrier_up_def own_def graph_memory_enabled_def section_frame_def row_def)

lemma barrier_abort_start:
  assumes "abort_start api now sid e killed R w = Some (r, R', w')" and "barrier_up api R sid"
  shows "barrier_up api R' sid \<and> section_frame api sid R R'"
proof -
  obtain err R1 msg where "release_updater api sid (forget_resources sid R) w = Some (err, R1, w')"
    "fail_run now sid msg e R1 = (r, R')"
    using assms(1) by (auto simp: abort_start_def Let_def split: option.splits prod.splits)
  from barrier_release_fail [OF this] forget_barrier [OF assms(2)] show ?thesis by (blast intro: frame_trans)
qed

lemma barrier_publish_running:
  assumes "publish_running now sid pid R = (r, R')" and "barrier_up api R sid"
  shows "barrier_up api R' sid \<and> section_frame api sid R R'"
proof -
  define R1 where "R1 = R\<lparr>rn_stdout := dset (rn_stdout R) sid (), rn_processes := dset (rn_processes R) sid None,
      rn_monitors := dset (rn_monitors R) sid False\<rparr>"
  have up1: "barrier_up api R1 sid \<and> section_frame api sid R R1"
    using assms(2) by (simp add: R1_def barrier_up_def own_def graph_memory_enabled_def section_frame_def row_def)
  obtain r2 R2 where pub: "publish now sid (\<lambda>st. st\<lparr>rs_process_pid := PyInt pid\<rparr>) RS_RUNNING PyNone R1 = (r2, R2)"
    by fastforce
  have up2: "barrier_up api R2 sid \<and> section_frame api sid R1 R2"
    using barrier_publish [OF pub conjunct1 [OF up1]] by simp
  have "R' = R2 \<or> R' = R2\<lparr>rn_monitors := dset (rn_monitors R2) sid True\<rparr>"
    using assms(1) pub by (cases r2) (simp_all add: publish_running_def R1_def)
  moreover have "barrier_up api (R2\<lparr>rn_monitors := dset (rn_monitors R2) sid True\<rparr>) sid
      \<and> section_frame api sid R2 (R2\<lparr>rn_monitors := dset (rn_monitors R2) sid True\<rparr>)"
    using up2 by (simp add: barrier_up_def own_def graph_memory_enabled_def section_frame_def [of _ _ R2] row_def)
  ultimately show ?thesis using up1 up2 by (blast intro: frame_trans)
qed

lemma mark_platforms_simps [simp]:
  "rs_simulation_id (mark_platforms s st) = rs_simulation_id st"
  "rs_runner_status (mark_platforms s st) = rs_runner_status st"
  by (cases s; simp add: mark_platforms_def)+

lemma barrier_launch:
  assumes "launch_simulation api now sid platform missing popen killed R w = Some (r, R', w')" and "barrier_up api R sid"
  shows "barrier_up api R' sid \<and> section_frame api sid R R'"
proof -
  define R1 where "R1 = mutate sid (mark_platforms (choose_script platform)) R"
  have up1: "barrier_up api R1 sid \<and> section_frame api sid R R1"
    unfolding R1_def using assms(2) by (intro barrier_mutate) simp_all
  define R2 where "R2 = R1\<lparr>rn_queues := dset (rn_queues R1) sid ()\<rparr>"
  have up2: "barrier_up api R2 sid \<and> section_frame api sid R1 R2"
    using up1 by (simp add: R2_def barrier_up_def own_def graph_memory_enabled_def section_frame_def [of _ _ R1] row_def)
  consider (missing) path where "missing_script api now sid path R1 w = Some (r, R', w')"
    | (nospawn) e where "abort_start api now sid e None R2 w = Some (r, R', w')"
    | (running) pid x where "publish_running now sid pid R2 = (x, R')"
    | (abort) pid e x R3 where "publish_running now sid pid R2 = (x, R3)" "abort_start api now sid e killed R3 w = Some (r, R', w')"
    using assms(1)
    by (auto simp: launch_simulation_def Let_def R1_def R2_def split: option.splits sum.splits prod.splits)
  then show ?thesis
  proof cases
    case missing
    with barrier_missing_script up1 show ?thesis by (blast intro: frame_trans)
  next
    case nospawn
    with barrier_abort_start up1 up2 show ?thesis by (blast intro: frame_trans)
  next
    case running
    with barrier_publish_running up1 up2 show ?thesis by (blast intro: frame_trans)
  next
    case abort
    with barrier_publish_running barrier_abort_start up1 up2 show ?thesis by (blast intro: frame_trans)
  qed
qed

lemma barrier_restore:
  assumes "restore_barrier now sid st R = (r, R')" and "barrier_up api R sid" and "dget (rn_states R) sid = Some st"
  shows "barrier_up api R' sid \<and> section_frame api sid R R'"
proof -
  define R1 where "R1 = R\<lparr>rn_enabled := dset (rn_enabled R) sid True\<rparr>"
  have up1: "barrier_up api R1 sid \<and> section_frame api sid R R1"
    using assms(2)
    by (simp add: R1_def barrier_up_def own_def graph_memory_enabled_def dget_or_dget section_frame_def row_def)
  have "R' = R1 \<or> publish now sid id RS_STOPPING PyNone R1 = (r, R')"
    using assms(1) by (auto simp: restore_barrier_def Let_def R1_def split: if_splits)
  with up1 barrier_publish [of now sid id RS_STOPPING PyNone R1 r R' api] show ?thesis
    by (auto intro: frame_trans)
qed

lemma barrier_release_stopped:
  assumes "barrier_up api R sid"
  shows "barrier_up api (release_stopped now sid R) sid \<and> section_frame api sid R (release_stopped now sid R)"
proof -
  obtain found R1 where g: "get_run_state now sid R = (found, R1)"
    by fastforce
  have "release_stopped now sid R = R1 \<or> release_stopped now sid R = forget_resources sid R1"
    using g by (auto simp: release_stopped_def split: option.splits)
  with barrier_get_run_state [OF g assms] forget_barrier [of R1 sid] show ?thesis
    by (auto intro: frame_trans)
qed

lemma cleanup_orphan_unregistered:
  assumes "cleanup_orphan api sid sc R w = Some (r, R', w')" and "\<not> api_registered api (rn_updaters R) sid"
  shows "R' = R \<or> R' = R\<lparr>rn_processes := dset (rn_processes R) sid (sc_killed sc)\<rparr>"
  using assms by (auto simp: cleanup_orphan_def Let_def split: option.splits)

lemma barrier_cleanup_one:
  assumes "cleanup_one api now sid sc R w = Some (r, R', w')" and "barrier_up api R sid"
    and "rs_simulation_id (sc_local sc) = sid"
  shows "barrier_up api R' sid \<and> section_frame api sid R R'"
proof -
  obtain found R1 where g: "get_run_state now sid R = (found, R1)"
    by fastforce
  note up1 = barrier_get_run_state [OF g assms(2)]
  show ?thesis
  proof (cases found)
    case None
    then have "\<not> api_registered api (rn_updaters R1) sid"
      using up1 by (auto simp: barrier_up_def)
    moreover have "cleanup_orphan api sid sc R1 w = Some (r, R', w')"
      using assms(1) g None by (simp add: cleanup_one_def)
    ultimately have "R' = R1 \<or> R' = R1\<lparr>rn_processes := dset (rn_processes R1) sid (sc_killed sc)\<rparr>"
      by (intro cleanup_orphan_unregistered)
    with up1 manual_stop_barrier(2) [of R1 sid] show ?thesis by (auto intro: frame_trans)
  next
    case (Some st)
    obtain r2 R2 where res: "(if api_registered api (rn_updaters R1) sid then restore_barrier now sid st R1 else (Inr (), R1)) = (r2, R2)"
      by fastforce
    have up2: "barrier_up api R2 sid \<and> section_frame api sid R1 R2"
      using res up1 Some barrier_restore [of now sid st R1 r2 R2] by (auto split: if_splits)
    have "R' = R2 \<or> R' = release_stopped now sid R2
        \<or> (\<exists>r3 R3. stop_simulation api now sid sc R2 w = Some (r3, R3, w') \<and> (R' = R3 \<or> R' = release_stopped now sid R3))"
      using assms(1) g Some res
      by (cases r2) (auto simp: cleanup_one_def Let_def split: if_splits option.splits sum.splits)
    then show ?thesis
    proof (elim disjE exE conjE)
      fix r3 R3 assume s: "stop_simulation api now sid sc R2 w = Some (r3, R3, w')" and "R' = R3"
      with barrier_stop_simulation [OF s conjunct1 [OF up2] assms(3)] up1 up2 show ?thesis by (auto intro: frame_trans)
    next
      fix r3 R3 assume s: "stop_simulation api now sid sc R2 w = Some (r3, R3, w')" and "R' = release_stopped now sid R3"
      with barrier_stop_simulation [OF s conjunct1 [OF up2] assms(3)] barrier_release_stopped [of R3 sid now] up1 up2
      show ?thesis by (metis frame_trans)
    next
      assume "R' = release_stopped now sid R2"
      with barrier_release_stopped [of R2 sid now] up1 up2 show ?thesis by (metis frame_trans)
    qed (use up1 up2 in \<open>metis frame_trans\<close>)
  qed
qed

lemma barrier_polled:
  assumes "save_current sid (mutate sid g R) = (r, R')" and "barrier_up api R sid"
    and "\<And>st. rs_simulation_id (g st) = rs_simulation_id st" and "\<And>st. rs_runner_status (g st) = rs_runner_status st"
  shows "barrier_up api R' sid \<and> section_frame api sid R R'"
proof -
  have "published sid g R R'"
    using assms
    by (auto simp: save_current_def save_run_state_def mutate_def published_def own_def barrier_up_def
        split: option.splits sum.splits)
  with assms show ?thesis
    by (auto intro: published_frame barrier_published)
qed

lemma barrier_step:
  assumes "barrier_inv api R S" and "S sid = None"
    and "barrier_up api R sid \<Longrightarrow> barrier_up api R' sid \<and> section_frame api sid R R'"
  shows "barrier_inv api R' S"
proof -
  have "barrier_up api R sid" using assms(1) by (simp add: barrier_inv_def)
  with assms show ?thesis by (blast intro: barrier_inv_rest)
qed

lemma barrier_start_step:
  assumes "barrier_inv api R S" and "phase_ok api R (S sid) sid \<Longrightarrow> barrier_up api R sid \<Longrightarrow>
      barrier_up api R' sid \<and> section_frame api sid R R' \<and> phase_ok api R' ph sid"
  shows "barrier_inv api R' (S(sid := ph))"
proof -
  have "barrier_up api R sid" "phase_ok api R (S sid) sid" using assms(1) by (simp_all add: barrier_inv_def)
  with assms show ?thesis by (blast intro: barrier_inv_step)
qed

theorem barrier_invariant: "runner_run api R S \<Longrightarrow> barrier_inv api R S"
proof (induction rule: runner_run.induct)
  case (fresh R)
  then show ?case by (simp add: barrier_inv_def barrier_up_def own_def phase_ok_def)
next
  case (claimed R S sid now max_rounds r R')
  from claim_effect [OF claimed.hyps(4)] claimed.hyps(3) show ?case
    by (intro barrier_start_step [OF claimed.IH]) (auto simp: phase_ok_def monitor_is_alive_def)
next
  case (attached R S sid now enable graph_id w r R' w')
  from attach_effect [OF attached.hyps(3)] attached.hyps(2) show ?case
    by (intro barrier_start_step [OF attached.IH]) (auto simp: phase_ok_def [of _ _ None])
next
  case (launched R S sid now platform missing popen killed w r R' w')
  from barrier_launch [OF launched.hyps(3)] show ?case
    by (intro barrier_start_step [OF launched.IH]) (simp add: phase_ok_def [of _ _ None])
next
  case (polled R S g sid r R')
  from barrier_polled [OF polled.hyps(5)] polled.hyps(2,3) show ?case
    by (intro barrier_step [OF polled.IH polled.hyps(4)]) simp
next
  case (ingested R S m)
  then show ?case
    by (auto simp: barrier_inv_def barrier_up_def own_def phase_ok_def graph_memory_enabled_def
        monitor_is_alive_def split: option.splits)
next
  case (finalized R S sid st now ob w r R' w')
  have "phase_ok api R (S sid) sid"
    using finalized.IH by (simp add: barrier_inv_def)
  then have "S sid = None"
    using finalized.hyps(2) by (cases "S sid") (auto simp: phase_ok_def)
  from barrier_step [OF finalized.IH this] barrier_monitor [OF finalized.hyps(4) _ finalized.hyps(3)]
  show ?case by simp
qed (blast intro: barrier_step dest: barrier_stop_request barrier_stop_finalize barrier_stop_simulation barrier_cleanup_one)+

lemma terminal_unregistered:
  assumes "runner_run api R S" and "get_run_state now sid R = (Some st, R')" and "at_rest (rs_runner_status st)"
  shows "\<not> api_registered api (rn_updaters R) sid"
proof -
  have "barrier_up api R sid"
    using barrier_invariant [OF assms(1)] by (simp add: barrier_inv_def)
  with barrier_get_run_state [OF assms(2) this] assms(3) show ?thesis
    by (auto simp: barrier_up_def)
qed

lemma stop_request_known:
  assumes "stop_request api now sid killed R = (r, R')" and "get_run_state now sid R = (Some st, R0)"
  shows "dget (rn_states R') sid \<noteq> None"
proof -
  have known: "dget (rn_states R0) sid \<noteq> None"
    using assms(2) by (auto simp: get_run_state_def split: option.splits)
  have mono: "dget (rn_states R2) sid \<noteq> None" if "publish now sid id RS_STOPPING PyNone R1 = (x, R2)"
    and "dget (rn_states R1) sid \<noteq> None" for x R1 R2
    using that
    by (auto simp: publish_def save_current_def save_run_state_def mutate_def split: option.splits sum.splits)
  show ?thesis
    using assms known
    by (auto simp: stop_request_def Let_def st_bind_def split: if_splits prod.splits sum.splits option.splits dest!: mono)
qed

lemma stop_returns_stopped:
  assumes "barrier_up api R sid" and "rs_simulation_id (sc_local sc) = sid"
    and "stop_simulation api now sid sc R w = Some (Inr (), R', w')"
  shows "\<exists>st. dget (rn_states R') sid = Some st \<and> rs_runner_status st = RS_STOPPED"
proof -
  obtain r1 R1 where req: "stop_request api now sid (sc_killed sc) R = (r1, R1)"
    by fastforce
  obtain found R0 where g: "get_run_state now sid R = (found, R0)"
    by fastforce
  note up0 = barrier_get_run_state [OF g assms(1)]
  have "found \<noteq> None"
    using assms(3) g by (cases found) (simp_all add: stop_simulation_def stop_request_def)
  then obtain st where st: "found = Some st" by auto
  have verdict: ?thesis if v: "stop_verdict now sid R2 = (Inr (), R')"
    and known: "dget (rn_states R2) sid \<noteq> None" for R2
  proof -
    obtain st2 where "get_run_state now sid R2 = (Some st2, R2)" "dget (rn_states R2) sid = Some st2"
      using known by (auto simp: get_run_state_def)
    with v show ?thesis by (auto simp: stop_verdict_def split: if_splits)
  qed
  consider (already) "rs_runner_status st = RS_STOPPED" | (going) "rs_runner_status st \<noteq> RS_STOPPED" by blast
  then show ?thesis
  proof cases
    case already
    then have "R' = R0"
      using assms(3) g st by (simp add: stop_simulation_def stop_request_def)
    with up0 st already show ?thesis by simp
  next
    case going
    have up1: "barrier_up api R1 sid \<and> section_frame api sid R R1"
      by (rule barrier_stop_request [OF req assms(1)])
    have "dget (rn_states R1) sid \<noteq> None"
      using stop_request_known [OF req g [unfolded st]] .
    have "r1 \<noteq> Inr AlreadyStopped"
      using req g st going by (auto simp: stop_request_def Let_def st_bind_def split: if_splits prod.splits sum.splits)
    then obtain r2 R2 where R2: "stop_finalize api now sid R1 w = Some (r2, R2, w')
        \<or> monitor_finalize api now sid (sc_local sc) (sc_observed sc) R1 w = Some (r2, R2, w')"
      and v: "stop_verdict now sid R2 = (Inr (), R')"
      using assms(3) req
      by (auto simp: stop_simulation_def split: sum.splits stop_phase.splits if_splits option.splits prod.splits)
    have "barrier_up api R2 sid \<and> section_frame api sid R1 R2"
      using R2 up1 barrier_stop_finalize [of now sid R1 w r2 R2 w'] barrier_monitor [of now sid "sc_local sc" _ R1 w r2 R2 w'] assms(2)
      by blast
    then show ?thesis
      using \<open>dget (rn_states R1) sid \<noteq> None\<close> by (intro verdict [OF v]) (simp add: section_frame_def)
  qed
qed

end

section \<open>The runner with the updater registry\<close>

text \<open>The registry of \<^verbatim>\<open>zep_graph_memory_updater.py\<close> behind the interface; \<open>k\<close> chooses how many worker
  steps happen during a stop.\<close>

definition manager_api ::
  "'w updater_env \<Rightarrow> pystr option \<Rightarrow> pystr option \<Rightarrow> ('w \<Rightarrow> nat) \<Rightarrow> (ZepGraphMemoryManager, 'w) updater_api" where
  "manager_api env env_url key k =
     \<lparr>api_registered = registered, api_ids = get_simulation_ids,
      api_stop = (\<lambda>sid m w. stop_updater env (k w) sid m w),
      api_create = (\<lambda>sid g m w. create_updater env env_url key (k w) sid g m w)\<rparr>"

lemma manager_api_simps [simp]:
  "api_registered (manager_api env env_url key k) = registered"
  "api_ids (manager_api env env_url key k) = get_simulation_ids"
  "api_stop (manager_api env env_url key k) sid m w = stop_updater env (k w) sid m w"
  "api_create (manager_api env env_url key k) sid g m w = create_updater env env_url key (k w) sid g m w"
  by (simp_all add: manager_api_def)

interpretation runner: runner_registry "manager_api env env_url key k"
  for env :: "'w updater_env" and env_url key k
  by unfold_locales (simp_all add: manager.stop_registered manager.stop_error_registered manager.create_registered)



end
