(* ===== verification/Runner_Runs.thy ===== *)
theory Runner_Runs
  imports Runner_Barrier
begin

text \<open>
  Concrete runs of the simulation runner: a complete run that witnesses the barrier theorems, and
  the two ways a start can leave the runner in a bad state.
\<close>

section \<open>A complete run\<close>

definition run_api :: "(ZepGraphMemoryManager, rat \<times> nat) updater_api" where
  "run_api = manager_api demo_env None (Some (lit ''z'')) (\<lambda>_. 3)"

definition sim1 :: pystr where
  "sim1 = lit ''sim_1''"

definition run0 :: "ZepGraphMemoryManager runner" where
  "run0 =
     \<lparr>rn_states = [], rn_disk = [], rn_processes = [], rn_monitors = [], rn_queues = [], rn_stdout = [],
      rn_enabled = [], rn_manual_stop = [], rn_cleanup_done = False,
      rn_sims = \<lparr>sm_cache = [], sm_dirs = [(sim1, new_dir\<lparr>sd_config := Some (Json (PyDict []))\<rparr>)]\<rparr>,
      rn_updaters = \<lparr>mm_updaters = [], mm_stop_all_done = False\<rparr>\<rparr>"

definition st1 :: SimulationRunState where
  "st1 = initial_state sim1 (lit ''t'') 144 (PyInt 72)"

definition run1 :: "ZepGraphMemoryManager runner" where
  "run1 = run0\<lparr>rn_disk := [(sim1, Json (PyDict (projr (run_to_detail_dict st1))))], rn_states := [(sim1, st1)]\<rparr>"

definition run2 :: "ZepGraphMemoryManager runner" where
  "run2 = run1\<lparr>rn_updaters := \<lparr>mm_updaters = [(sim1, start_updater (fresh_updater (lit ''g'') sim1))], mm_stop_all_done = False\<rparr>,
     rn_enabled := [(sim1, True)]\<rparr>"

lemma sim1_ne [simp]: "sim1 \<noteq> []"
  by (simp add: sim1_def)

text \<open>States whose counters are integers can always be rendered.\<close>

definition plain :: "SimulationRunState \<Rightarrow> bool" where
  "plain st \<longleftrightarrow> rs_current_round st = PyInt 0 \<and> rs_total_rounds st = PyInt 144
     \<and> rs_twitter_actions_count st = PyInt 0 \<and> rs_reddit_actions_count st = PyInt 0"

lemma plain_renders: "plain st \<Longrightarrow> \<exists>d. run_to_detail_dict st = Inr d"
  by (simp add: plain_def run_to_detail_dict_def run_to_dict_def py_percent_def py_add_def)

lemma st1_simps [simp]:
  "plain st1" "rs_simulation_id st1 = sim1" "rs_runner_status st1 = RS_STARTING"
  by (simp_all add: st1_def initial_state_def fresh_run_state_def plain_def)

lemma save_plain:
  "plain st \<Longrightarrow> save_run_state st R = (Inr (),
     R\<lparr>rn_disk := dset (rn_disk R) (rs_simulation_id st) (Json (PyDict (projr (run_to_detail_dict st)))),
       rn_states := dset (rn_states R) (rs_simulation_id st) st\<rparr>)"
  by (auto simp: save_run_state_def dest: plain_renders)

lemma run0_simps [simp]:
  "rn_states run0 = []" "rn_disk run0 = []" "rn_enabled run0 = []" "rn_monitors run0 = []" "rn_processes run0 = []"
  "rn_manual_stop run0 = []" "rn_updaters run0 = \<lparr>mm_updaters = [], mm_stop_all_done = False\<rparr>"
  "sd_config (dir_of (rn_sims run0) sim1) = Some (Json (PyDict []))"
  by (simp_all add: run0_def dir_of_def dget_or_dget)

lemma run_claim: "claim_simulation run_api (lit ''t'') sim1 None run0 = (Inr (), run1)"
  using save_plain [OF st1_simps(1), of run0] st1_simps(2)
  by (simp add: claim_simulation_def json_load_def plan_rounds_def as_dict_def field_or_def dget_or_dget
      rat_trunc_def get_run_state_def load_run_state_def run_api_def registered_def dhas_iff_dget st1_def run1_def)

lemma new_updater_z: "new_updater None (Some (lit ''z'')) g (Some sim1) = Inr (fresh_updater g sim1)"
  by (simp add: new_updater_def or_str_def get_zep_client_def lit_def py_strip_def py_lstrip_def py_rstrip_def
      is_space_def ZEP_HTTP_REQUEST_TIMEOUT_SECONDS_def)

lemma run_attach: "attach_updater run_api (lit ''t'') sim1 True (Some (lit ''g'')) run1 w = Some (Inr (), run2, w)"
  by (simp add: attach_updater_def or_str_def run_api_def create_updater_def run1_def register_updater_def
      new_updater_z run2_def)

lemma publish_plain:
  assumes "dget (rn_states R) sid = Some st" and "rs_simulation_id (f st) = sid" and "plain (f st)"
  shows "\<exists>R'. publish now sid f status err R = (Inr (), R')
    \<and> published sid (\<lambda>st. (f st)\<lparr>rs_runner_status := status\<rparr>) R R'"
proof -
  have "plain ((f st)\<lparr>rs_runner_status := status\<rparr>)"
    using assms(3) by (simp add: plain_def)
  note sv = save_plain [OF this, of "R\<lparr>rn_states := dset (rn_states R) sid ((f st)\<lparr>rs_runner_status := status\<rparr>)\<rparr>"]
  show ?thesis
    by (simp add: publish_def save_current_def mutate_def published_def assms(1) sv) (simp add: assms(2))
qed

lemma run2_simps [simp]:
  "rn_states run2 = [(sim1, st1)]" "rn_enabled run2 = [(sim1, True)]" "rn_manual_stop run2 = []"
  "rn_processes run2 = []" "rn_monitors run2 = []"
  "rn_updaters run2 = \<lparr>mm_updaters = [(sim1, start_updater (fresh_updater (lit ''g'') sim1))], mm_stop_all_done = False\<rparr>"
  by (simp_all add: run2_def run1_def)

lemma run_launch:
  "\<exists>R3 st3. launch_simulation run_api (lit ''t'') sim1 (lit ''reddit'') None (Inr 42) None run2 w = Some (Inr (), R3, w)
     \<and> dget (rn_states R3) sim1 = Some st3 \<and> plain st3 \<and> rs_simulation_id st3 = sim1 \<and> rs_runner_status st3 = RS_RUNNING
     \<and> rn_enabled R3 = [(sim1, True)] \<and> monitor_is_alive R3 sim1 \<and> rn_updaters R3 = rn_updaters run2 \<and> rn_manual_stop R3 = []"
proof -
  define st where "st = mark_platforms RedditScript st1"
  define R where "R = run2\<lparr>rn_states := [(sim1, st)], rn_queues := dset (rn_queues run2) sim1 (), rn_stdout := dset (rn_stdout run2) sim1 (),
    rn_processes := [(sim1, None)], rn_monitors := [(sim1, False)]\<rparr>"
  have "plain st" "rs_simulation_id st = sim1"
    using st1_simps by (simp_all add: st_def mark_platforms_def plain_def)
  then have "dget (rn_states R) sim1 = Some st" "rs_simulation_id (st\<lparr>rs_process_pid := PyInt 42\<rparr>) = sim1"
    "plain (st\<lparr>rs_process_pid := PyInt 42\<rparr>)"
    by (simp_all add: R_def plain_def)
  from publish_plain [where f = "\<lambda>st. st\<lparr>rs_process_pid := PyInt 42\<rparr>", OF this] obtain R' where
    R': "publish (lit ''t'') sim1 (\<lambda>st. st\<lparr>rs_process_pid := PyInt 42\<rparr>) RS_RUNNING PyNone R = (Inr (), R')"
    "published sim1 (\<lambda>st. st\<lparr>rs_process_pid := PyInt 42, rs_runner_status := RS_RUNNING\<rparr>) R R'"
    by blast
  have "launch_simulation run_api (lit ''t'') sim1 (lit ''reddit'') None (Inr 42) None run2 w
      = Some (Inr (), R'\<lparr>rn_monitors := dset (rn_monitors R') sim1 True\<rparr>, w)"
    using R'(1) by (simp add: launch_simulation_def choose_script_def mutate_def publish_running_def R_def st_def)
  with R'(2) \<open>plain st\<close> \<open>rs_simulation_id st = sim1\<close> show ?thesis
    by (auto simp: published_def R_def monitor_is_alive_def plain_def)
qed

definition exited :: observed where
  "exited = \<lparr>ob_monitor_error = None, ob_exit_code = Some 0, ob_log_tail = []\<rparr>"

lemma drain_idle: "\<exists>u. stop_drain demo_env 3 (start_updater (fresh_updater g s)) (0, 0) = Some (Inr (), u, (0, 0))"
  by (simp add: stop_drain_def demo_time close_acceptance_def start_updater_def fresh_updater_def worker_alive_def
      eval_nat_numeral worker_step_def drain_def flush_remaining_def flush_queue_def flush_platform_def buffer_of_def
      dget_or_def wait_for_pending_episodes_def)

lemma run_complete:
  assumes st: "dget (rn_states R) sim1 = Some st" "plain st" "rs_simulation_id st = sim1" "rs_runner_status st = RS_RUNNING"
    and R: "rn_enabled R = [(sim1, True)]" "rn_updaters R = rn_updaters run2" "rn_manual_stop R = []"
  shows "\<exists>R' st'. monitor_finalize run_api (lit ''t'') sim1 st exited R (0, 0) = Some (Inr (), R', (0, 0))
    \<and> dget (rn_states R') sim1 = Some st' \<and> rs_runner_status st' = RS_COMPLETED"
proof -
  define R1 where "R1 = mutate sim1 not_running R"
  have 1: "dget (rn_states R1) sim1 = Some (not_running st)" "rs_simulation_id (id (not_running st)) = sim1"
    "plain (id (not_running st))"
    using st by (simp_all add: R1_def mutate_def not_running_def plain_def)
  from publish_plain [where f = id, OF 1] obtain R2 where
    R2: "publish (lit ''t'') sim1 id RS_STOPPING PyNone R1 = (Inr (), R2)"
    "published sim1 (\<lambda>st. (id st)\<lparr>rs_runner_status := RS_STOPPING\<rparr>) R1 R2"
    by blast
  obtain u where u: "stop_drain demo_env 3 (start_updater (fresh_updater (lit ''g'') sim1)) (0, 0) = Some (Inr (), u, (0, 0))"
    using drain_idle by blast
  have R2_simps: "rn_updaters R2 = rn_updaters run2" "rn_enabled R2 = [(sim1, True)]"
    using R2(2) R by (simp_all add: published_def R1_def mutate_def st)
  define R3 where "R3 = R2\<lparr>rn_updaters := \<lparr>mm_updaters = [], mm_stop_all_done = False\<rparr>, rn_enabled := []\<rparr>"
  have stp: "stop_registered_updater run_api sim1 R2 (0, 0) = Some (Inr (), R3, (0, 0))"
    by (simp add: stop_registered_updater_def run_api_def stop_updater_def u R2_simps R3_def)
  let ?f = "\<lambda>st. st\<lparr>rs_error := PyNone, rs_completed_at := PyStr (lit ''t'')\<rparr>"
  let ?st3 = "(not_running st)\<lparr>rs_runner_status := RS_STOPPING\<rparr>"
  have 3: "dget (rn_states R3) sim1 = Some ?st3" "rs_simulation_id (?f ?st3) = sim1" "plain (?f ?st3)"
    using R2(2) 1 by (simp_all add: R3_def published_def plain_def)
  from publish_plain [where f = ?f, OF 3] obtain R4 where
    R4: "publish (lit ''t'') sim1 ?f RS_COMPLETED PyNone R3 = (Inr (), R4)"
    "published sim1 (\<lambda>st. (?f st)\<lparr>rs_runner_status := RS_COMPLETED\<rparr>) R3 R4"
    by blast
  have en: "graph_memory_enabled (mutate sim1 not_running R) sim1"
    using R by (auto simp: graph_memory_enabled_def dget_or_dget mutate_def split: option.splits)
  have "monitor_finalize run_api (lit ''t'') sim1 st exited R (0, 0) = Some (Inr (), end_monitor sim1 R4, (0, 0))"
    using R2(1) stp R4(1) en R(3) st(4)
    by (simp add: monitor_finalize_def get_run_state_def st(1) finalize_run_def Let_def desired_outcome_def exited_def
        finish_run_def R1_def)
  moreover have "\<exists>st'. dget (rn_states (end_monitor sim1 R4)) sim1 = Some st' \<and> rs_runner_status st' = RS_COMPLETED"
    using R4(2) 3(1) by (simp add: published_def end_monitor_def forget_resources_def)
  ultimately show ?thesis by blast
qed

lemma run0_reachable: "runner_run run_api run0 (\<lambda>_. None)"
  by (rule runner_run.fresh) (simp_all add: run_api_def registered_def dhas_iff_dget)

lemma run2_reachable: "runner_run run_api run2 ((\<lambda>_. None)(sim1 := Some Attached))"
proof -
  have "runner_run run_api run1 ((\<lambda>_. None)(sim1 := Some Claimed))"
    using runner_run.claimed [OF run0_reachable _ _ run_claim] by (simp add: monitor_is_alive_def)
  from runner_run.attached [OF this _ run_attach] show ?thesis by simp
qed


section \<open>Stopping a start in progress\<close>

definition run_schedule :: schedule where
  "run_schedule = \<lparr>sc_killed = None, sc_joined = True, sc_local = st1, sc_observed = exited\<rparr>"

lemma run1_simps [simp]:
  "rn_states run1 = [(sim1, st1)]" "rn_enabled run1 = []" "rn_processes run1 = []" "rn_monitors run1 = []"
  "rn_updaters run1 = \<lparr>mm_updaters = [], mm_stop_all_done = False\<rparr>"
  by (simp_all add: run1_def)

lemma stop_claimed:
  "\<exists>R st. stop_simulation run_api (lit ''t'') sim1 run_schedule run1 w = Some (Inr (), R, w)
     \<and> dget (rn_states R) sim1 = Some st \<and> rs_runner_status st = RS_STOPPED \<and> rn_updaters R = rn_updaters run1"
proof -
  define R0 where "R0 = run1\<lparr>rn_manual_stop := List.insert sim1 (rn_manual_stop run1)\<rparr>"
  have 1: "dget (rn_states R0) sim1 = Some st1" "rs_simulation_id (id st1) = sim1" "plain (id st1)"
    by (simp_all add: R0_def)
  from publish_plain [where f = id, OF 1] obtain R1 where
    R1: "publish (lit ''t'') sim1 id RS_STOPPING PyNone R0 = (Inr (), R1)"
    "published sim1 (\<lambda>st. (id st)\<lparr>rs_runner_status := RS_STOPPING\<rparr>) R0 R1"
    by blast
  have R1_simps: "rn_processes R1 = []" "rn_monitors R1 = []" "rn_enabled R1 = []" "rn_updaters R1 = rn_updaters run1"
    and st: "dget (rn_states R1) sim1 = Some (st1\<lparr>rs_runner_status := RS_STOPPING\<rparr>)"
    using R1(2) by (simp_all add: published_def R0_def)
  have req: "stop_request run_api (lit ''t'') sim1 None run1 = (Inr (Requested False), R1)"
    using R1(1) by (simp add: stop_request_def get_run_state_def active_statuses_def R1_simps flip: R0_def)
  define R2 where "R2 = mutate sim1 not_running R1"
  let ?f = "\<lambda>st. st\<lparr>rs_error := PyNone, rs_completed_at := PyStr (lit ''t'')\<rparr>"
  have 2: "dget (rn_states R2) sim1 = Some (not_running (st1\<lparr>rs_runner_status := RS_STOPPING\<rparr>))"
    "rs_simulation_id (?f (not_running (st1\<lparr>rs_runner_status := RS_STOPPING\<rparr>))) = sim1"
    "plain (?f (not_running (st1\<lparr>rs_runner_status := RS_STOPPING\<rparr>)))"
    using st1_simps(1) by (simp_all add: R2_def mutate_def st not_running_def plain_def)
  from publish_plain [where f = ?f, OF 2] obtain R3 where
    R3: "publish (lit ''t'') sim1 ?f RS_STOPPED PyNone R2 = (Inr (), R3)"
    "published sim1 (\<lambda>st. (?f st)\<lparr>rs_runner_status := RS_STOPPED\<rparr>) R2 R3"
    by blast
  obtain st3 where st3: "dget (rn_states R3) sim1 = Some st3" "rs_runner_status st3 = RS_STOPPED"
    using R3(2) 2(1) by (auto simp: published_def)
  have "stop_finalize run_api (lit ''t'') sim1 R1 w
      = Some (Inr (), R3\<lparr>rn_manual_stop := filter (\<lambda>s. s \<noteq> sim1) (rn_manual_stop R3)\<rparr>, w)"
    using R3(1) by (simp add: stop_finalize_def release_updater_def graph_memory_enabled_def dget_or_dget R1_simps
        finish_run_def R2_def)
  moreover have "rn_updaters R3 = rn_updaters run1"
    using R3(2) by (simp add: published_def R2_def mutate_def st R1_simps)
  ultimately show ?thesis
    using req st3
    by (simp add: stop_simulation_def run_schedule_def monitor_is_alive_def R1_simps stop_verdict_def get_run_state_def)
qed


section \<open>A start without a graph\<close>

lemma run_attach_refused: "\<exists>e. attach_updater run_api (lit ''t'') sim1 True None run1 w = Some (Inl e, run1, w)"
  by (simp add: attach_updater_def or_str_def)

lemma run1_abandoned: "runner_run run_api run1 (\<lambda>_. None)"
proof -
  have c: "runner_run run_api run1 ((\<lambda>_. None)(sim1 := Some Claimed))"
    using runner_run.claimed [OF run0_reachable _ _ run_claim] by (simp add: monitor_is_alive_def)
  obtain e where "attach_updater run_api (lit ''t'') sim1 True None run1 (0, 0) = Some (Inl e, run1, (0, 0))"
    using run_attach_refused by blast
  from runner_run.attached [OF c _ this] show ?thesis by (simp add: fun_upd_idem)
qed


text \<open>
  A start that asks for graph memory without a graph leaves the simulation claimed: the
  call raises after \<^verbatim>\<open>STARTING\<close> was persisted, no process, monitor or updater exists, and every
  later start is refused.
\<close>

theorem start_without_graph_stays_claimed:
  assumes claim: "claim_simulation api now sid max_rounds R = (Inr (), R')"
  shows "(\<exists>e. start_simulation api now sid platform max_rounds True None missing popen killed R w = Some (Inl e, R', w))
    \<and> map_option rs_runner_status (dget (rn_states R') sid) = Some RS_STARTING
    \<and> rn_processes R' = rn_processes R \<and> rn_monitors R' = rn_monitors R \<and> rn_updaters R' = rn_updaters R
    \<and> (\<exists>e. claim_simulation api now' sid max_rounds R' = (Inl e, R'))"
proof -
  obtain f n h found R1 where c: "sd_config (dir_of (rn_sims R) sid) = Some f"
    "bind_res (json_load f) (\<lambda>config. plan_rounds config max_rounds) = Inr (n, h)"
    "get_run_state now sid R = (found, R1)" "save_run_state (initial_state sid now n h) R1 = (Inr (), R')"
    using claim by (auto simp: claim_simulation_def split: option.splits sum.splits if_splits prod.splits)
  have R1: "rn_processes R1 = rn_processes R" "rn_monitors R1 = rn_monitors R" "rn_updaters R1 = rn_updaters R"
    "rn_sims R1 = rn_sims R"
    using c(3) by (auto simp: get_run_state_def split: option.splits)
  have R': "dget (rn_states R') sid = Some (initial_state sid now n h)" "rs_runner_status (initial_state sid now n h) = RS_STARTING"
    "rn_processes R' = rn_processes R" "rn_monitors R' = rn_monitors R" "rn_updaters R' = rn_updaters R" "rn_sims R' = rn_sims R"
    using c(4) R1 by (auto simp: save_run_state_def initial_state_def fresh_run_state_def split: sum.splits)
  have "start_simulation api now sid platform max_rounds True None missing popen killed R w
      = (case attach_updater api now sid True None R' w of None \<Rightarrow> None | Some (Inl e, R, w) \<Rightarrow> Some (Inl e, R, w)
         | Some (Inr _, R, w) \<Rightarrow> launch_simulation api now sid platform missing popen killed R w)"
    by (simp add: start_simulation_def claim)
  moreover have "\<exists>e. claim_simulation api now' sid max_rounds R' = (Inl e, R')"
    using c(1,2) R' by (simp add: claim_simulation_def get_run_state_def active_statuses_def)
  ultimately show ?thesis
    using R' by (simp add: attach_updater_def or_str_def)
qed

theorem start_without_graph_stays_claimed_witness:
  "map_option rs_runner_status (dget (rn_states run1) sim1) = Some RS_STARTING
   \<and> (\<exists>e. claim_simulation run_api (lit ''u'') sim1 None run1 = (Inl e, run1))"
  using start_without_graph_stays_claimed [OF run_claim] by blast

end
