(* ===== verification/Graph_Lifecycle.thy ===== *)
theory Graph_Lifecycle
  imports Simulation_Runner Task_Manager
begin

text \<open>
  Who may use or delete a Zep graph: the reader leases of \<^verbatim>\<open>app/utils/zep_lifecycle.py\<close>, the
  deletion guards of \<^verbatim>\<open>app/api/graph.py\<close>, and the sections of \<^verbatim>\<open>app/api/simulation.py\<close> and
  \<^verbatim>\<open>app/api/report.py\<close> that attach a writer or a reader to a graph under its lifecycle lock.

  The lifecycle lock of a graph makes each of these sections one step.  \<open>busy sid\<close> says that
  another thread holds the finalization lock of \<open>sid\<close>, so that a non-blocking attempt fails.
  Graph ids in project documents are strings or null.
\<close>

section \<open>Reader leases\<close>

type_synonym readers = "(pystr \<times> pystr list) list"

definition need_graph_id :: "pystr \<Rightarrow> unit res" where
  "need_graph_id graph_id =
     (if graph_id = [] then Inl (Exn ValueError (lit ''graph_id is required for lifecycle locking'')) else Inr ())"

definition register_graph_reader :: "pystr \<Rightarrow> pystr \<Rightarrow> readers \<Rightarrow> unit res \<times> readers" where
  "register_graph_reader graph_id reader_id rs =
     (if reader_id = [] then (Inl (Exn ValueError (lit ''reader_id is required'')), rs)
      else
        (case need_graph_id graph_id of
           Inl e \<Rightarrow> (Inl e, rs)
         | Inr _ \<Rightarrow> (Inr (), dset rs graph_id (List.insert reader_id (dget_or rs graph_id [])))))"

definition unregister_graph_reader :: "pystr \<Rightarrow> pystr \<Rightarrow> readers \<Rightarrow> unit res \<times> readers" where
  "unregister_graph_reader graph_id reader_id rs =
     (case need_graph_id graph_id of
        Inl e \<Rightarrow> (Inl e, rs)
      | Inr _ \<Rightarrow>
          (case dget rs graph_id of
             None \<Rightarrow> (Inr (), rs)
           | Some readers \<Rightarrow>
               if readers = [] then (Inr (), rs)
               else
                 (let readers = filter (\<lambda>r. r \<noteq> reader_id) readers
                  in (Inr (), if readers = [] then dpop rs graph_id else dset rs graph_id readers))))"

definition get_graph_readers :: "readers \<Rightarrow> pystr \<Rightarrow> pystr list res" where
  "get_graph_readers rs graph_id =
     bind_res (need_graph_id graph_id) (\<lambda>_. Inr (py_sorted (dget_or rs graph_id [])))"

section \<open>The server and its replies\<close>

record server =
  sv_runner :: "ZepGraphMemoryManager runner"
  sv_readers :: readers
  sv_projects :: projects
  sv_tasks :: task_registry

text \<open>Messages are translated keys with their argument, or plain text.\<close>

datatype message = Tr string pystr | Plain pystr

record reply =
  rp_code :: int
  rp_error :: "message option"

definition refuse :: "int \<Rightarrow> message \<Rightarrow> reply" where
  "refuse code msg = \<lparr>rp_code = code, rp_error = Some msg\<rparr>"

definition accept :: reply where
  "accept = \<lparr>rp_code = 200, rp_error = None\<rparr>"

text \<open>Zep's side: the configured key and URL and the delete call.\<close>

record 'w cloud =
  cl_url :: "pystr option"
  cl_key :: "pystr option"
  cl_delete :: "pystr \<Rightarrow> 'w \<Rightarrow> unit res \<times> 'w"

definition new_graph_builder :: "'w cloud \<Rightarrow> unit res" where
  "new_graph_builder cl =
     (case or_str (cl_key cl) (cl_key cl) of
        None \<Rightarrow> Inl (Exn ValueError zh_not_configured)
      | Some key \<Rightarrow>
          if key = [] then Inl (Exn ValueError zh_not_configured)
          else bind_res (get_zep_client (cl_url cl) (cl_key cl) (Some key) None) (\<lambda>_. Inr ()))"

definition delete_cloud_graph :: "'w cloud \<Rightarrow> pystr \<Rightarrow> 'w \<Rightarrow> unit res \<times> 'w" where
  "delete_cloud_graph cl graph_id w =
     (case new_graph_builder cl of Inl e \<Rightarrow> (Inl e, w) | Inr _ \<Rightarrow> cl_delete cl graph_id w)"

section \<open>Deleting graphs\<close>

fun updater_consumers ::
  "(pystr \<Rightarrow> bool) \<Rightarrow> pystr \<Rightarrow> pystr list \<Rightarrow> pystr list \<Rightarrow> ZepGraphMemoryManager runner \<Rightarrow>
   pystr list res \<times> ZepGraphMemoryManager runner"
where
  "updater_consumers busy now [] active R = (Inr active, R)"
| "updater_consumers busy now (sid # sids) active R =
     (if busy sid then updater_consumers busy now sids (sid # active) R
      else
        (case get_run_state now sid R of (found, R) \<Rightarrow>
           if (case found of Some st \<Rightarrow> rs_runner_status st = RS_FAILED | None \<Rightarrow> False)
           then (case discard_inactive_updater sid (rn_updaters R) of
                   (Inl e, m) \<Rightarrow> (Inl e, R\<lparr>rn_updaters := m\<rparr>)
                 | (Inr _, m) \<Rightarrow>
                     updater_consumers busy now sids active
                       (R\<lparr>rn_updaters := m, rn_enabled := dpop (rn_enabled R) sid\<rparr>))
           else updater_consumers busy now sids (sid # active) R))"

fun run_consumers ::
  "pystr \<Rightarrow> pystr \<Rightarrow> SimulationState list \<Rightarrow> pystr list \<Rightarrow> 'm runner \<Rightarrow> pystr list \<times> 'm runner"
where
  "run_consumers now graph_id [] active R = (active, R)"
| "run_consumers now graph_id (s # sims) active R =
     (if ss_graph_id s \<noteq> PyStr graph_id then run_consumers now graph_id sims active R
      else
        (case get_run_state now (ss_simulation_id s) R of (found, R) \<Rightarrow>
           run_consumers now graph_id sims
             (if (case found of Some st \<Rightarrow> rs_runner_status st \<in> set active_statuses | None \<Rightarrow> False)
              then ss_simulation_id s # active else active) R))"

definition active_graph_consumers ::
  "(pystr \<Rightarrow> bool) \<Rightarrow> pystr \<Rightarrow> pystr \<Rightarrow> server \<Rightarrow> pystr list res \<times> server" where
  "active_graph_consumers busy now graph_id S =
     (case get_graph_readers (sv_readers S) graph_id of
        Inl e \<Rightarrow> (Inl e, S)
      | Inr readers \<Rightarrow>
          (case updater_consumers busy now (get_simulation_ids_for_graph (rn_updaters (sv_runner S)) graph_id)
                  (map (\<lambda>r. lit ''report:'' @ r) readers) (sv_runner S) of
             (Inl e, R) \<Rightarrow> (Inl e, S\<lparr>sv_runner := R\<rparr>)
           | (Inr active, R) \<Rightarrow>
               (case list_simulations now None ((rn_sims R)\<lparr>sm_cache := []\<rparr>) of
                  (Inl e, m) \<Rightarrow> (Inl e, S\<lparr>sv_runner := R\<lparr>rn_sims := m\<rparr>\<rparr>)
                | (Inr sims, m) \<Rightarrow>
                    (case run_consumers now graph_id sims active (R\<lparr>rn_sims := m\<rparr>) of
                       (active, R) \<Rightarrow> (Inr (py_sorted active), S\<lparr>sv_runner := R\<rparr>)))))"

definition graph_in_use :: "pystr \<Rightarrow> pystr list \<Rightarrow> exn" where
  "graph_in_use graph_id active =
     Exn GraphInUseErr (lit ''Graph '' @ graph_id @ lit '' is in use by active consumer(s): '' @ py_join (lit '', '') active)"

definition delete_cloud_graph_if_present ::
  "'w cloud \<Rightarrow> (pystr \<Rightarrow> bool) \<Rightarrow> pystr \<Rightarrow> pystr option \<Rightarrow> server \<Rightarrow> 'w \<Rightarrow> unit res \<times> server \<times> 'w" where
  "delete_cloud_graph_if_present cl busy now graph_id S w =
     (case or_str graph_id None of
        None \<Rightarrow> (Inr (), S, w)
      | Some g \<Rightarrow>
          (case active_graph_consumers busy now g S of
             (Inl e, S) \<Rightarrow> (Inl e, S, w)
           | (Inr active, S) \<Rightarrow>
               if active \<noteq> [] then (Inl (graph_in_use g active), S, w)
               else
                 (case delete_cloud_graph cl g w of
                    (Inl e, w') \<Rightarrow> (if exn_kind e = NotFoundErr then Inr () else Inl e, S, w')
                  | (Inr _, w') \<Rightarrow> (Inr (), S, w'))))"

definition clear_project_graph_reference :: "Project \<Rightarrow> Project" where
  "clear_project_graph_reference p =
     p\<lparr>pr_graph_id := PyNone, pr_graph_build_task_id := PyNone, pr_zep_batch_id := PyNone,
       pr_zep_batch_operation_id := PyNone, pr_error := PyNone\<rparr>"

definition project_has_active_build :: "task_registry \<Rightarrow> Project \<Rightarrow> bool" where
  "project_has_active_build tasks p \<longleftrightarrow>
     pr_status p = StatusEnum GRAPH_BUILDING \<and>
     (case pr_graph_build_task_id p of
        PyStr tid \<Rightarrow>
          tid \<noteq> [] \<and>
          (case get_task tasks tid of
             Some k \<Rightarrow> task_status k = TASK_PENDING \<or> task_status k = TASK_PROCESSING
           | None \<Rightarrow> False)
      | _ \<Rightarrow> False)"

definition graph_ref :: "Project \<Rightarrow> pystr option" where
  "graph_ref p = (case pr_graph_id p of PyStr s \<Rightarrow> if s = [] then None else Some s | _ \<Rightarrow> None)"

definition delete_project_impl ::
  "'w cloud \<Rightarrow> (pystr \<Rightarrow> bool) \<Rightarrow> pystr \<Rightarrow> pystr \<Rightarrow> server \<Rightarrow> 'w \<Rightarrow> reply res \<times> server \<times> 'w" where
  "delete_project_impl cl busy now project_id S w =
     (case get_project (sv_projects S) project_id of
        Inl e \<Rightarrow> (Inl e, S, w)
      | Inr None \<Rightarrow> (Inr (refuse 404 (Tr ''api.projectNotFound'' project_id)), S, w)
      | Inr (Some p) \<Rightarrow>
          if project_has_active_build (sv_tasks S) p then (Inr (refuse 409 (Tr ''api.graphBuilding'' [])), S, w)
          else
            (case delete_cloud_graph_if_present cl busy now (graph_ref p) S w of
               (Inl e, S, w) \<Rightarrow>
                 if exn_kind e = GraphInUseErr then (Inr (refuse 409 (Plain (exn_msg e))), S, w) else (Inl e, S, w)
             | (Inr _, S, w) \<Rightarrow>
                 (case delete_project project_id (sv_projects S) of
                    (ok, fs) \<Rightarrow>
                      (Inr (if ok then accept else refuse 404 (Tr ''api.projectDeleteFailed'' project_id)),
                       S\<lparr>sv_projects := fs\<rparr>, w))))"

definition reset_project_status :: "Project \<Rightarrow> Project" where
  "reset_project_status p =
     p\<lparr>pr_status := StatusEnum (if truthy (pr_ontology p) then ONTOLOGY_GENERATED else PROJECT_CREATED)\<rparr>"

definition reset_project_impl ::
  "'w cloud \<Rightarrow> (pystr \<Rightarrow> bool) \<Rightarrow> pystr \<Rightarrow> pystr \<Rightarrow> server \<Rightarrow> 'w \<Rightarrow> reply res \<times> server \<times> 'w" where
  "reset_project_impl cl busy now project_id S w =
     (case get_project (sv_projects S) project_id of
        Inl e \<Rightarrow> (Inl e, S, w)
      | Inr None \<Rightarrow> (Inr (refuse 404 (Tr ''api.projectNotFound'' project_id)), S, w)
      | Inr (Some p) \<Rightarrow>
          if project_has_active_build (sv_tasks S) p then (Inr (refuse 409 (Tr ''api.graphBuilding'' [])), S, w)
          else
            (case delete_cloud_graph_if_present cl busy now (graph_ref p) S w of
               (Inl e, S, w) \<Rightarrow>
                 if exn_kind e = GraphInUseErr then (Inr (refuse 409 (Plain (exn_msg e))), S, w) else (Inl e, S, w)
             | (Inr _, S, w) \<Rightarrow>
                 (case save_project now (clear_project_graph_reference (reset_project_status p)) (sv_projects S) of
                    (Inl e, _, fs) \<Rightarrow> (Inl e, S\<lparr>sv_projects := fs\<rparr>, w)
                  | (Inr _, _, fs) \<Rightarrow> (Inr accept, S\<lparr>sv_projects := fs\<rparr>, w))))"

fun clear_references :: "pystr \<Rightarrow> Project list \<Rightarrow> projects \<Rightarrow> unit res \<times> projects" where
  "clear_references now [] fs = (Inr (), fs)"
| "clear_references now (p # ps) fs =
     (case save_project now (reset_project_status (clear_project_graph_reference p)) fs of
        (Inl e, _, fs) \<Rightarrow> (Inl e, fs)
      | (Inr _, _, fs) \<Rightarrow> clear_references now ps fs)"

definition server_error :: "exn \<Rightarrow> reply" where
  "server_error e = refuse (if exn_kind e = GraphInUseErr then 409 else 500) (Plain (exn_msg e))"

text \<open>
  \<^verbatim>\<open>delete_graph\<close>: the projects are looked up once to know which build locks to take and again
  under the locks; \<open>fs0\<close> is the project tree at the first moment.
\<close>

definition delete_graph ::
  "'w cloud \<Rightarrow> (pystr \<Rightarrow> bool) \<Rightarrow> pystr \<Rightarrow> pystr \<Rightarrow> projects \<Rightarrow> server \<Rightarrow> 'w \<Rightarrow> reply \<times> server \<times> 'w" where
  "delete_graph cl busy now graph_id fs0 S w =
     (if cl_key cl = None \<or> cl_key cl = Some [] then (refuse 500 (Tr ''api.zepApiKeyMissing'' []), S, w)
      else
        (case find_projects_by_graph_id graph_id fs0 of
           Inl e \<Rightarrow> (server_error e, S, w)
         | Inr [] \<Rightarrow> (refuse 404 (Plain (lit ''No local project references this graph'')), S, w)
         | Inr _ \<Rightarrow>
             (case bind_res (need_graph_id graph_id) (\<lambda>_. find_projects_by_graph_id graph_id (sv_projects S)) of
                Inl e \<Rightarrow> (server_error e, S, w)
              | Inr ps \<Rightarrow>
                  if (\<exists>p \<in> set ps. project_has_active_build (sv_tasks S) p)
                  then (refuse 409 (Tr ''api.graphBuilding'' []), S, w)
                  else
                    (case delete_cloud_graph_if_present cl busy now (Some graph_id) S w of
                       (Inl e, S, w) \<Rightarrow> (server_error e, S, w)
                     | (Inr _, S, w) \<Rightarrow>
                         (case clear_references now ps (sv_projects S) of
                            (Inl e, fs) \<Rightarrow> (server_error e, S\<lparr>sv_projects := fs\<rparr>, w)
                          | (Inr _, fs) \<Rightarrow> (accept, S\<lparr>sv_projects := fs\<rparr>, w))))))"

section \<open>Attaching writers and readers\<close>

definition project_of :: "projects \<Rightarrow> SimulationState \<Rightarrow> Project option res" where
  "project_of fs s = (case ss_project_id s of PyStr pid \<Rightarrow> get_project fs pid | _ \<Rightarrow> Inl TypeError)"

text \<open>The graph a start with graph memory will write to, looked up before the lock is taken.\<close>

definition writer_graph :: "bool \<Rightarrow> SimulationState \<Rightarrow> server \<Rightarrow> (reply + pystr option) res" where
  "writer_graph enable state S =
     (if \<not> enable then Inr (Inr None)
      else
        bind_res (project_of (sv_projects S) state) (\<lambda>p.
          Inr (case p of
                 None \<Rightarrow> Inl (refuse 400 (Tr ''api.graphIdRequiredForMemory'' []))
               | Some p \<Rightarrow>
                   (case graph_ref p of
                      None \<Rightarrow> Inl (refuse 400 (Tr ''api.graphIdRequiredForMemory'' []))
                    | Some g \<Rightarrow> Inr (Some g)))))"

text \<open>The checks under the lifecycle lock; \<open>cache\<close> is the cache of the handler's own manager.\<close>

definition writer_checks ::
  "pystr \<Rightarrow> pystr \<Rightarrow> pystr \<Rightarrow> (pystr \<times> SimulationState) list \<Rightarrow> server \<Rightarrow> reply option res" where
  "writer_checks now sid graph_id cache S =
     bind_res (fst (get_simulation now sid ((rn_sims (sv_runner S))\<lparr>sm_cache := cache\<rparr>))) (\<lambda>state.
     bind_res (case state of None \<Rightarrow> Inr None | Some s \<Rightarrow> project_of (sv_projects S) s) (\<lambda>p.
     bind_res (get_graph_readers (sv_readers S) graph_id) (\<lambda>active_reports.
       let current = (case p of None \<Rightarrow> None | Some p \<Rightarrow> graph_ref p) in
       Inr (if current \<noteq> Some graph_id
            then Some (refuse 409 (Plain (lit ''The project graph changed while the simulation was starting; retry after refreshing the project'')))
            else if (case state of None \<Rightarrow> False | Some s \<Rightarrow> truthy (ss_graph_id s) \<and> ss_graph_id s \<noteq> PyStr graph_id)
            then Some (refuse 409 (Plain (lit ''The simulation references an older graph; prepare it again before enabling graph memory'')))
            else if active_reports \<noteq> []
            then Some (refuse 409 (Plain (lit ''A report is currently reading this graph; wait for report generation to finish before enabling graph memory updates'')))
            else None))))"

definition start_error :: "exn \<Rightarrow> reply" where
  "start_error e = refuse (if exn_kind e = ValueError then 400 else 500) (Plain (exn_msg e))"

definition start_guarded ::
  "(ZepGraphMemoryManager, 'w) updater_api \<Rightarrow> pystr \<Rightarrow> pystr \<Rightarrow> pystr \<Rightarrow> int option \<Rightarrow> pystr option \<Rightarrow>
   (pystr \<times> SimulationState) list \<Rightarrow> pystr option \<Rightarrow> int res \<Rightarrow> unit res option \<Rightarrow> server \<Rightarrow> 'w \<Rightarrow>
   (reply \<times> server \<times> 'w) option" where
  "start_guarded api now sid platform max_rounds graph_id cache missing popen killed S w =
     (case (case graph_id of None \<Rightarrow> Inr None | Some g \<Rightarrow> writer_checks now sid g cache S) of
        Inl e \<Rightarrow> Some (start_error e, S, w)
      | Inr (Some rep) \<Rightarrow> Some (rep, S, w)
      | Inr None \<Rightarrow>
          (case start_simulation api now sid platform max_rounds (graph_id \<noteq> None) graph_id missing popen killed (sv_runner S) w of
             None \<Rightarrow> None
           | Some (Inl e, R, w') \<Rightarrow> Some (start_error e, S\<lparr>sv_runner := R\<rparr>, w')
           | Some (Inr _, R, w') \<Rightarrow> Some (accept, S\<lparr>sv_runner := R\<rparr>, w')))"

definition run_status :: "pystr \<Rightarrow> pystr \<Rightarrow> 'm runner \<Rightarrow> RunnerStatus option" where
  "run_status now sid R = map_option rs_runner_status (fst (get_run_state now sid R))"

definition ingestion_refusal :: "pystr \<Rightarrow> pystr \<Rightarrow> pystr \<Rightarrow> pystr \<Rightarrow> ZepGraphMemoryManager runner \<Rightarrow> reply option" where
  "ingestion_refusal now sid active_msg terminal_msg R =
     (if get_updater (rn_updaters R) sid \<noteq> None \<or> run_status now sid R \<in> Some ` set active_statuses
      then Some (refuse 409 (Plain active_msg))
      else if run_status now sid R \<notin> {Some RS_COMPLETED, Some RS_STOPPED}
      then Some (refuse 409 (Plain terminal_msg))
      else None)"

text \<open>The checks of \<^verbatim>\<open>generate_report\<close> under the lifecycle lock.\<close>

definition report_checks ::
  "pystr \<Rightarrow> pystr \<Rightarrow> pystr \<Rightarrow> (pystr \<times> SimulationState) list \<Rightarrow> server \<Rightarrow> reply option res" where
  "report_checks now sid graph_id cache S =
     bind_res (fst (get_simulation now sid ((rn_sims (sv_runner S))\<lparr>sm_cache := cache\<rparr>))) (\<lambda>state.
     bind_res (case state of None \<Rightarrow> Inr None | Some s \<Rightarrow> project_of (sv_projects S) s) (\<lambda>p.
       let unchanged = (case (state, p) of
             (Some s, Some p) \<Rightarrow> pr_graph_id p = PyStr graph_id \<and> pr_status p = StatusEnum GRAPH_COMPLETED
                \<and> \<not> (truthy (ss_graph_id s) \<and> ss_graph_id s \<noteq> PyStr graph_id)
           | _ \<Rightarrow> False)
       in Inr (if \<not> unchanged
               then Some (refuse 409 (Plain (lit ''The project graph changed while reporting was starting'')))
               else ingestion_refusal now sid
                      (lit ''Simulation or Zep graph ingestion became active; retry after it reaches a terminal state'')
                      (lit ''A successfully completed or stopped simulation is required before generating a report'')
                      (sv_runner S))))"

text \<open>The section itself; \<open>existing\<close> says that a completed report of the simulation is on disk.\<close>

definition report_guarded ::
  "pystr \<Rightarrow> int \<Rightarrow> pystr \<Rightarrow> pystr \<Rightarrow> bool \<Rightarrow> bool \<Rightarrow> pystr \<Rightarrow> pystr \<Rightarrow> (pystr \<times> SimulationState) list \<Rightarrow> server \<Rightarrow>
   reply res \<times> server" where
  "report_guarded now clock sid graph_id force existing uuid report_id cache S =
     (case report_checks now sid graph_id cache S of
        Inl e \<Rightarrow> (Inl e, S)
      | Inr refusal \<Rightarrow>
          (let S = S\<lparr>sv_runner := snd (get_run_state now sid (sv_runner S))\<rparr> in
           case refusal of
             Some rep \<Rightarrow> (Inr rep, S)
           | None \<Rightarrow>
               if \<not> force \<and> existing then (Inr accept, S)
               else
                 (let S = S\<lparr>sv_tasks := snd (create_task uuid clock (lit ''report_generate'')
                              (Some [(lit ''simulation_id'', PyStr sid), (lit ''graph_id'', PyStr graph_id),
                                     (lit ''report_id'', PyStr report_id)]) (sv_tasks S))\<rparr> in
                  (case register_graph_reader graph_id report_id (sv_readers S) of
                     (Inl e, rs) \<Rightarrow> (Inl e, S\<lparr>sv_readers := rs\<rparr>)
                   | (Inr _, rs) \<Rightarrow> (Inr accept, S\<lparr>sv_readers := rs\<rparr>)))))"

end
