(* ===== verification/Graph_Guards.thy ===== *)
theory Graph_Guards
  imports Graph_Lifecycle Runner_Barrier
begin

text \<open>
  What the graph guards guarantee: a graph is deleted only when nothing reads or writes it, and no
  updater is ever attached to a graph that this server deleted.
\<close>

section \<open>Run states seen through the cache\<close>

lemma run_status_cached [simp]: "run_status now s (snd (get_run_state now sid R)) = run_status now s R"
  by (auto simp: run_status_def get_run_state_def split: option.splits)

lemma run_status_get: "get_run_state now sid R = (found, R') \<Longrightarrow> run_status now s R' = run_status now s R"
  using run_status_cached [of now s sid R] by simp

lemma get_run_state_frame_fields:
  "get_run_state now sid R = (found, R') \<Longrightarrow> rn_updaters R' = rn_updaters R \<and> rn_sims R' = rn_sims R"
  by (auto simp: get_run_state_def split: option.splits)

lemma run_status_updaters [simp]: "run_status now s (R\<lparr>rn_updaters := m, rn_enabled := e\<rparr>) = run_status now s R"
  by (auto simp: run_status_def get_run_state_def split: option.splits)

lemma run_status_sims [simp]: "run_status now s (R\<lparr>rn_sims := m\<rparr>) = run_status now s R"
  by (auto simp: run_status_def get_run_state_def split: option.splits)

section \<open>Deletion\<close>

text \<open>Discarding removes at most the updater of that simulation.\<close>

lemma discard_effect:
  assumes "discard_inactive_updater sid m = (Inr b, m')"
  shows "get_updater m' s = (if s = sid then None else get_updater m s)"
  using assms
  by (auto simp: discard_inactive_updater_def get_updater_def split: option.splits if_splits)

lemma updater_consumers_spec:
  assumes "updater_consumers busy now sids active R = (Inr active', R')"
  shows "set active \<subseteq> set active' \<and> rn_sims R' = rn_sims R \<and> (\<forall>s. run_status now s R' = run_status now s R)
    \<and> (\<forall>s. get_updater (rn_updaters R') s = get_updater (rn_updaters R) s
          \<or> s \<in> set sids \<and> get_updater (rn_updaters R') s = None)
    \<and> (\<forall>s \<in> set sids. s \<in> set active' \<or> get_updater (rn_updaters R') s = None)"
  using assms
proof (induction sids arbitrary: active R)
  case (Cons sid sids)
  obtain found R1 where g: "get_run_state now sid R = (found, R1)" by fastforce
  note g' = run_status_get [OF g] get_run_state_frame_fields [OF g]
  let ?failed = "case found of Some st \<Rightarrow> rs_runner_status st = RS_FAILED | None \<Rightarrow> False"
  consider "busy sid" | "\<not> busy sid" "\<not> ?failed" | "\<not> busy sid" "?failed" by blast
  then show ?case
  proof cases
    case 1
    then have "updater_consumers busy now sids (sid # active) R = (Inr active', R')"
      using Cons.prems by simp
    from Cons.IH [OF this] show ?thesis by auto
  next
    case 2
    then have "updater_consumers busy now sids (sid # active) R1 = (Inr active', R')"
      using Cons.prems g by simp
    from Cons.IH [OF this] g' show ?thesis by auto
  next
    case 3
    then obtain b m where d: "discard_inactive_updater sid (rn_updaters R1) = (Inr b, m)"
      using Cons.prems g by (auto split: prod.splits sum.splits)
    then have "updater_consumers busy now sids active (R1\<lparr>rn_updaters := m, rn_enabled := dpop (rn_enabled R1) sid\<rparr>)
        = (Inr active', R')"
      using Cons.prems g 3 by simp
    from Cons.IH [OF this] discard_effect [OF d] g' show ?thesis
      by (simp, metis subset_iff)
  qed
qed simp

lemma run_consumers_spec:
  assumes "run_consumers now graph_id sims active R = (active', R')"
  shows "set active \<subseteq> set active' \<and> rn_updaters R' = rn_updaters R \<and> (\<forall>s. run_status now s R' = run_status now s R)
    \<and> (\<forall>s \<in> set sims. ss_graph_id s = PyStr graph_id \<longrightarrow> run_status now (ss_simulation_id s) R \<in> Some ` set active_statuses
         \<longrightarrow> ss_simulation_id s \<in> set active')"
  using assms
proof (induction sims arbitrary: active R)
  case (Cons s sims)
  obtain found R1 where g: "get_run_state now (ss_simulation_id s) R = (found, R1)" by fastforce
  note g' = run_status_get [OF g] get_run_state_frame_fields [OF g]
  have st: "run_status now (ss_simulation_id s) R = map_option rs_runner_status found"
    by (simp add: run_status_def g)
  show ?case
  proof (cases "ss_graph_id s = PyStr graph_id")
    case True
    let ?a = "if (case found of Some st \<Rightarrow> rs_runner_status st \<in> set active_statuses | None \<Rightarrow> False)
      then ss_simulation_id s # active else active"
    have "run_consumers now graph_id sims ?a R1 = (active', R')"
      using Cons.prems True g by simp
    from Cons.IH [OF this] g' st True show ?thesis
      by (cases found) (auto split: if_splits)
  next
    case False
    with Cons.prems have "run_consumers now graph_id sims active R = (active', R')" by simp
    from Cons.IH [OF this] False show ?thesis by auto
  qed
qed simp

lemma graph_updater_listed: "get_updater m sid = Some u \<Longrightarrow> sid \<in> set (get_simulation_ids_for_graph m (up_graph_id u))"
  by (force simp: get_simulation_ids_for_graph_def get_updater_def dget_def dest: map_of_SomeD)

text \<open>An idle graph: no reader lease, no updater, and no active run among the given simulations.\<close>

definition graph_idle :: "pystr \<Rightarrow> pystr \<Rightarrow> SimulationState list \<Rightarrow> server \<Rightarrow> bool" where
  "graph_idle now g sims S \<longleftrightarrow> dget_or (sv_readers S) g [] = []
     \<and> (\<forall>sid u. get_updater (rn_updaters (sv_runner S)) sid = Some u \<longrightarrow> up_graph_id u \<noteq> g)
     \<and> (\<forall>s \<in> set sims. ss_graph_id s = PyStr g \<longrightarrow>
          run_status now (ss_simulation_id s) (sv_runner S) \<notin> Some ` set active_statuses)"

lemma active_consumers_empty:
  assumes "active_graph_consumers busy now g S = (Inr [], S')"
  shows "\<exists>sims m. list_simulations now None ((rn_sims (sv_runner S))\<lparr>sm_cache := []\<rparr>) = (Inr sims, m)
    \<and> graph_idle now g sims S' \<and> sv_projects S' = sv_projects S \<and> sv_readers S' = sv_readers S
    \<and> sv_tasks S' = sv_tasks S"
proof -
  let ?ids = "get_simulation_ids_for_graph (rn_updaters (sv_runner S)) g"
  obtain readers where r: "get_graph_readers (sv_readers S) g = Inr readers"
    using assms by (auto simp: active_graph_consumers_def split: sum.splits)
  obtain active R where u: "updater_consumers busy now ?ids (map (\<lambda>r. lit ''report:'' @ r) readers) (sv_runner S) = (Inr active, R)"
    using assms r by (auto simp: active_graph_consumers_def split: sum.splits prod.splits)
  obtain sims m where l: "list_simulations now None ((rn_sims R)\<lparr>sm_cache := []\<rparr>) = (Inr sims, m)"
    using assms r u by (auto simp: active_graph_consumers_def split: sum.splits prod.splits)
  obtain active2 R2 where c: "run_consumers now g sims active (R\<lparr>rn_sims := m\<rparr>) = (active2, R2)" by fastforce
  have "py_sorted active2 = []" and S': "S' = S\<lparr>sv_runner := R2\<rparr>"
    using assms r u l c by (auto simp: active_graph_consumers_def)
  then have "active2 = []"
    by (metis set_empty set_py_sorted)
  with run_consumers_spec [OF c] have "active = []" and R2: "rn_updaters R2 = rn_updaters R" "\<And>s. run_status now s R2 = run_status now s R"
    and quiet: "\<And>s. s \<in> set sims \<Longrightarrow> ss_graph_id s = PyStr g \<Longrightarrow> run_status now (ss_simulation_id s) R \<notin> Some ` set active_statuses"
    by auto
  note spec = updater_consumers_spec [OF u]
  have "readers = []"
    using spec \<open>active = []\<close> by simp
  then have "dget_or (sv_readers S) g [] = []"
    using r by (auto simp: get_graph_readers_def exn_simps) (metis set_empty set_py_sorted)
  moreover have "up_graph_id v \<noteq> g" if "get_updater (rn_updaters R) sid = Some v" for sid v
  proof
    assume g: "up_graph_id v = g"
    have "get_updater (rn_updaters (sv_runner S)) sid = Some v"
      using spec that by (metis option.distinct(1))
    from graph_updater_listed [OF this] g have "sid \<in> set ?ids" by simp
    then show False
      using spec \<open>active = []\<close> that by auto
  qed
  ultimately show ?thesis
    using l spec R2 quiet S' by (auto simp: graph_idle_def)
qed

text \<open>
  C4: A graph is deleted only when it is idle.  If the guarded deletion calls the service, or
  returns normally, then no report holds a lease on the graph, no updater is registered for it
  (those of failed runs were discarded first), and no simulation of it is starting, running,
  paused or stopping; otherwise the service was not called.
\<close>

theorem graph_deletion_guarded:
  assumes del: "delete_cloud_graph_if_present cl busy now (Some g) S w = (r, S', w')" and "g \<noteq> []"
  shows "(r = Inr () \<or> w' \<noteq> w) \<longrightarrow>
    (\<exists>sims m. list_simulations now None ((rn_sims (sv_runner S))\<lparr>sm_cache := []\<rparr>) = (Inr sims, m) \<and> graph_idle now g sims S')"
proof -
  obtain x S1 where a: "active_graph_consumers busy now g S = (x, S1)" by fastforce
  have "or_str (Some g) None = Some g"
    using assms(2) by (simp add: or_str_def)
  with del a have "x = Inr [] \<and> S' = S1 \<or> \<not> is_ok r \<and> w' = w"
    by (cases x) (auto simp: delete_cloud_graph_if_present_def split: if_splits prod.splits sum.splits)
  with active_consumers_empty a show ?thesis by fastforce
qed

section \<open>Which graphs are written\<close>

definition graph_of :: "ZepGraphMemoryManager \<Rightarrow> pystr \<Rightarrow> pystr option" where
  "graph_of m sid = map_option up_graph_id (get_updater m sid)"

text \<open>From \<open>m\<close> to \<open>m'\<close> updaters may leave, and only those of \<open>X\<close> may arrive.\<close>

definition writers_within ::
  "'w updater_env \<Rightarrow> (pystr \<times> pystr) set \<Rightarrow> ZepGraphMemoryManager \<Rightarrow> ZepGraphMemoryManager \<Rightarrow> bool" where
  "writers_within env X m m' \<longleftrightarrow>
     (manager_ok env m \<longrightarrow> manager_ok env m' \<and> (\<forall>s g. graph_of m' s = Some g \<longrightarrow> graph_of m s = Some g \<or> (s, g) \<in> X))"

lemma writers_refl [simp]: "writers_within env X m m"
  by (simp add: writers_within_def)

lemma writers_trans: "writers_within env X m m' \<Longrightarrow> writers_within env X m' m'' \<Longrightarrow> writers_within env X m m''"
  unfolding writers_within_def by blast

lemma writers_mono: "writers_within env {} m m' \<Longrightarrow> writers_within env X m m'"
  by (auto simp: writers_within_def)

lemma writers_stop:
  assumes "stop_updater env k sid m w = Some (r, m', w')"
  shows "writers_within env {} m m'"
  unfolding writers_within_def
proof (intro impI conjI allI)
  assume ok: "manager_ok env m"
  show "manager_ok env m'"
    using manager_ok_stop [OF ok assms] by simp
  fix s g assume g: "graph_of m' s = Some g"
  have "graph_of m s = Some g"
  proof (cases "get_updater m sid")
    case None
    with assms g show ?thesis by (simp add: stop_updater_def get_updater_def)
  next
    case (Some u)
    then obtain r1 u1 w1 where st: "stop_drain env k u w = Some (r1, u1, w1)"
      using assms by (auto simp: stop_updater_def get_updater_def split: option.splits)
    obtain w0 where "updater_run env describable u w0"
      using manager_ok_get [OF ok] Some by (auto simp: get_updater_def)
    then have "updater_run env describable u w" by (rule updater_run.elsewhere)
    from stop_drain_frame [OF this st] have "up_graph_id u1 = up_graph_id u" by simp
    with assms g st Some show ?thesis
      by (auto simp: stop_updater_def get_updater_def graph_of_def split: sum.splits if_splits)
  qed
  then show "graph_of m s = Some g \<or> (s, g) \<in> {}" by simp
qed

lemma new_updater_graph: "new_updater url key g s = Inr u \<Longrightarrow> up_graph_id u = g"
  by (auto simp: new_updater_def exn_simps fresh_updater_def split: option.splits list.splits)

lemma writers_register:
  assumes "register_updater url key sid g m = (r, m')"
  shows "writers_within env {(sid, g)} m m'"
  using assms register_ok [of env m url key sid g r m']
  by (auto simp: writers_within_def register_updater_def graph_of_def get_updater_def start_updater_def
      dest!: new_updater_graph split: sum.splits if_splits)

lemma create_updater_steps:
  assumes "create_updater env url key k sid g m w = Some (r, m', w')"
  shows "\<exists>m1 w1. (m1 = m \<or> (\<exists>u r1 u1. get_updater m sid = Some u \<and> stop_drain env k u w = Some (r1, u1, w1)
      \<and> m1 = m\<lparr>mm_updaters := dset (mm_updaters m) sid u1\<rparr>))
    \<and> (m' = m1 \<or> (\<exists>r2. register_updater url key sid g m1 = (r2, m')))"
proof (cases "get_updater m sid")
  case None
  with assms show ?thesis
    by (intro exI [of _ m] exI [of _ w]) (auto simp: create_updater_def get_updater_def split: prod.splits)
next
  case (Some u)
  then obtain r1 u1 w1 where st: "stop_drain env k u w = Some (r1, u1, w1)"
    using assms by (auto simp: create_updater_def get_updater_def split: option.splits)
  then show ?thesis
    using assms Some
    by (intro exI [of _ "m\<lparr>mm_updaters := dset (mm_updaters m) sid u1\<rparr>"] exI [of _ w1])
      (auto simp: create_updater_def get_updater_def Let_def split: sum.splits prod.splits)
qed

lemma writers_create:
  assumes "create_updater env url key k sid g m w = Some (r, m', w')"
  shows "writers_within env {(sid, g)} m m'"
proof -
  obtain m1 w1 where m1: "m1 = m \<or> (\<exists>u r1 u1. get_updater m sid = Some u \<and> stop_drain env k u w = Some (r1, u1, w1)
      \<and> m1 = m\<lparr>mm_updaters := dset (mm_updaters m) sid u1\<rparr>)"
    and m': "m' = m1 \<or> (\<exists>r2. register_updater url key sid g m1 = (r2, m'))"
    using create_updater_steps [OF assms] by blast
  have "writers_within env {(sid, g)} m m1"
    using m1
  proof (elim disjE exE conjE)
    fix u r1 u1 assume u: "get_updater m sid = Some u" and st: "stop_drain env k u w = Some (r1, u1, w1)"
      and m1: "m1 = m\<lparr>mm_updaters := dset (mm_updaters m) sid u1\<rparr>"
    show ?thesis
      unfolding writers_within_def
    proof (intro impI conjI allI)
      assume ok: "manager_ok env m"
      have u': "dget (mm_updaters m) sid = Some u" using u by (simp add: get_updater_def)
      have ur: "updater_run env describable u1 w1" by (rule stopped_updater_run [OF ok u' st])
      show "manager_ok env m1"
        using flag_clear [OF ok u'] by (intro manager_ok_set [OF ok ur]) (simp_all add: m1)
      obtain w0 where "updater_run env describable u w0"
        using manager_ok_get [OF ok u'] by auto
      then have "up_graph_id u1 = up_graph_id u"
        using stop_drain_frame [OF updater_run.elsewhere st] by blast
      then show "graph_of m s = Some g' \<or> (s, g') \<in> {(sid, g)}" if "graph_of m1 s = Some g'" for s g'
        using that u by (auto simp: m1 graph_of_def get_updater_def split: if_splits)
    qed
  qed simp
  with m' show ?thesis
    using writers_register by (blast intro: writers_trans)
qed

section \<open>Starting a run attaches at most its own writer\<close>

lemma publish_updaters: "publish now sid f status err R = (r, R') \<Longrightarrow> rn_updaters R' = rn_updaters R"
  by (auto simp: publish_def save_current_def save_run_state_def mutate_def split: option.splits sum.splits)

lemma writers_stop_registered:
  assumes "stop_registered_updater (manager_api env url key k) sid R w = Some (r, R', w')"
  shows "writers_within env {} (rn_updaters R) (rn_updaters R')"
proof -
  obtain r1 m w1 where st: "stop_updater env (k w) sid (rn_updaters R) w = Some (r1, m, w1)"
    using assms by (auto simp: stop_registered_updater_def split: option.splits)
  then have "rn_updaters R' = m"
    using assms by (cases r1) (auto simp: stop_registered_updater_def)
  with writers_stop [OF st] show ?thesis by simp
qed

lemma writers_release:
  assumes "release_updater (manager_api env url key k) sid R w = Some (r, R', w')"
  shows "writers_within env {} (rn_updaters R) (rn_updaters R')"
  using assms
  by (auto simp: release_updater_def dest: writers_stop_registered split: option.splits sum.splits if_splits)

lemma fail_run_updaters: "fail_run now sid msg e R = (r, R') \<Longrightarrow> rn_updaters R' = rn_updaters R"
  by (auto simp: fail_run_def dest: publish_updaters split: prod.splits sum.splits)

lemma writers_launch:
  assumes "launch_simulation (manager_api env url key k) now sid platform missing popen killed R w = Some (r, R', w')"
  shows "writers_within env {} (rn_updaters R) (rn_updaters R')"
proof -
  have abort: "writers_within env {} (rn_updaters R1) (rn_updaters R2)"
    if "abort_start (manager_api env url key k) now sid e kl R1 w = Some (r, R2, w')" for e kl R1 R2
    using that
    by (auto simp: abort_start_def Let_def forget_resources_def dest!: writers_release fail_run_updaters
        split: option.splits prod.splits)
  have missing: "writers_within env {} (rn_updaters R1) (rn_updaters R2)"
    if "missing_script (manager_api env url key k) now sid p R1 w = Some (r, R2, w')" for p R1 R2
    using that
    by (auto simp: missing_script_def Let_def dest!: writers_release fail_run_updaters split: option.splits prod.splits)
  have running: "rn_updaters R2 = rn_updaters R1" if "publish_running now sid pid R1 = (x, R2)" for pid x R1 R2
    using that by (auto simp: publish_running_def dest!: publish_updaters split: prod.splits sum.splits)
  have mut: "rn_updaters (mutate sid f R) = rn_updaters R" for f
    by (simp add: mutate_def split: option.splits)
  show ?thesis
    using assms
    by (auto simp: launch_simulation_def Let_def mut dest!: abort missing running split: option.splits sum.splits prod.splits)
qed

lemma claim_updaters: "claim_simulation api now sid mr R = (r, R') \<Longrightarrow> rn_updaters R' = rn_updaters R"
  by (auto simp: claim_simulation_def get_run_state_def save_run_state_def
      split: option.splits sum.splits if_splits prod.splits)

lemma writers_attach:
  assumes "attach_updater (manager_api env url key k) now sid enable gid R w = Some (r, R', w')"
  shows "writers_within env {(sid, g) |g. gid = Some g} (rn_updaters R) (rn_updaters R')"
proof (cases "enable \<and> or_str gid None \<noteq> None")
  case False
  with assms have "rn_updaters R' = rn_updaters R"
    by (cases enable) (auto simp: attach_updater_def)
  then show ?thesis by simp
next
  case True
  then obtain g where g: "enable" "or_str gid None = Some g" "gid = Some g"
    by (auto simp: or_str_def split: option.splits if_splits)
  then obtain rc m w1 where cr: "create_updater env url key (k w) sid g (rn_updaters R) w = Some (rc, m, w1)"
    using assms by (cases "create_updater env url key (k w) sid g (rn_updaters R) w") (auto simp: attach_updater_def)
  have "rn_updaters R' = m"
    using assms g cr by (auto simp: attach_updater_def dest!: publish_updaters split: sum.splits prod.splits)
  with writers_create [OF cr] g show ?thesis by simp
qed

lemma writers_start:
  assumes "start_simulation (manager_api env url key k) now sid platform mr enable gid missing popen killed R w = Some (r, R', w')"
  shows "writers_within env {(sid, g) |g. gid = Some g} (rn_updaters R) (rn_updaters R')"
proof -
  obtain r1 R1 where c: "claim_simulation (manager_api env url key k) now sid mr R = (r1, R1)" by fastforce
  note eq = claim_updaters [OF c]
  show ?thesis
  proof (cases r1)
    case (Inl e)
    with assms c eq show ?thesis by (simp add: start_simulation_def)
  next
    case (Inr x)
    then obtain r2 R2 w2 where a: "attach_updater (manager_api env url key k) now sid enable gid R1 w = Some (r2, R2, w2)"
      using assms c by (auto simp: start_simulation_def split: option.splits)
    note wa = writers_attach [OF a]
    show ?thesis
    proof (cases r2)
      case (Inl e)
      with assms c a Inr wa eq show ?thesis by (simp add: start_simulation_def)
    next
      case (Inr y)
      with assms c a \<open>r1 = Inr x\<close>
      have "launch_simulation (manager_api env url key k) now sid platform missing popen killed R2 w2 = Some (r, R', w')"
        by (simp add: start_simulation_def)
      from writers_trans [OF wa writers_mono [OF writers_launch [OF this]]] show ?thesis by (simp add: eq)
    qed
  qed
qed

section \<open>References to graphs\<close>

definition ref_of :: "projects \<Rightarrow> pystr \<Rightarrow> pystr option" where
  "ref_of fs pid = (case get_project fs pid of Inr (Some p) \<Rightarrow> graph_ref p | _ \<Rightarrow> None)"

definition docs_own :: "projects \<Rightarrow> bool" where
  "docs_own fs \<longleftrightarrow> (\<forall>pid p. get_project fs pid = Inr (Some p) \<longrightarrow> pr_project_id p = PyStr pid)"

lemma get_project_status_wf: "get_project fs pid = Inr (Some p) \<Longrightarrow> status_wf (pr_status p)"
  by (auto simp: get_project_def project_from_dict_def exn_simps intro: status_from_wf split: option.splits)

lemma get_project_dir: "get_project fs pid = Inr (Some p) \<Longrightarrow> \<exists>d. dget fs pid = Some d"
  by (auto simp: get_project_def split: option.splits)

text \<open>Saving a project whose graph reference was cleared forgets that reference and no other.\<close>

lemma save_cleared:
  assumes "pr_project_id p = PyStr pid" and "status_wf (pr_status p)" and "graph_ref p = None" and "dget fs pid = Some d"
    and "docs_own fs"
  shows "\<exists>p' fs'. save_project now p fs = (Inr (), p', fs') \<and> docs_own fs' \<and> dget fs' pid \<noteq> None
    \<and> (\<forall>k. (dget fs k \<noteq> None \<longrightarrow> dget fs' k \<noteq> None) \<and> ref_of fs' k = (if k = pid then None else ref_of fs k))"
proof -
  obtain p' fs' where sv: "save_project now p fs = (Inr (), p', fs')"
    using assms(1,4) by (auto simp: save_project_def Let_def)
  note get = get_project_save [OF sv assms(1,2)]
  have "graph_ref p' = None" "pr_project_id p' = PyStr pid"
    using get assms(1,3) by (auto simp: graph_ref_def)
  moreover have "dget fs' k \<noteq> None" if "dget fs k \<noteq> None" for k
    using sv assms(1,4) that by (auto simp: save_project_def Let_def)
  ultimately show ?thesis
    using sv get assms(4,5) by (auto simp: ref_of_def docs_own_def split: if_splits)
qed

lemma clear_reset_simps:
  "pr_project_id (clear_project_graph_reference p) = pr_project_id p"
  "pr_project_id (reset_project_status p) = pr_project_id p"
  "status_wf (pr_status (reset_project_status p))"
  "pr_status (clear_project_graph_reference p) = pr_status p"
  "graph_ref (clear_project_graph_reference p) = None"
  "graph_ref (reset_project_status p) = graph_ref p"
  by (simp_all add: clear_project_graph_reference_def reset_project_status_def graph_ref_def status_wf_def)

lemma clear_references_spec:
  assumes "docs_own fs" and "\<forall>p \<in> set ps. \<exists>pid. pr_project_id p = PyStr pid \<and> dget fs pid \<noteq> None"
  shows "\<exists>fs'. clear_references now ps fs = (Inr (), fs') \<and> docs_own fs'
    \<and> (\<forall>k. ref_of fs' k = (if PyStr k \<in> pr_project_id ` set ps then None else ref_of fs k))"
  using assms
proof (induction ps arbitrary: fs)
  case (Cons p ps)
  then obtain pid where pid: "pr_project_id p = PyStr pid" "dget fs pid \<noteq> None" by auto
  let ?p = "reset_project_status (clear_project_graph_reference p)"
  obtain p' fs1 where sv: "save_project now ?p fs = (Inr (), p', fs1)" "docs_own fs1"
    and k: "\<And>k. dget fs k \<noteq> None \<Longrightarrow> dget fs1 k \<noteq> None" "\<And>k. ref_of fs1 k = (if k = pid then None else ref_of fs k)"
    using save_cleared [of ?p pid fs _ now] pid Cons.prems(1) by (auto simp: clear_reset_simps)
  have "\<forall>q \<in> set ps. \<exists>pid. pr_project_id q = PyStr pid \<and> dget fs1 pid \<noteq> None"
    using Cons.prems(2) k(1) by fastforce
  from Cons.IH [OF sv(2) this] sv(1) k(2) pid(1) show ?case by auto
qed simp

section \<open>No writer on a deleted graph\<close>

text \<open>
  \<open>server_run env url key S D\<close>: the server states reachable by its handlers and by the runner's
  own work, where \<open>D\<close> collects the graphs whose deletion was confirmed.  \<open>fs0\<close> is the project
  tree a handler saw before it took its locks.  Elsewhere a project may get a fresh graph or lose its reference;
  a running updater never changes its graph.
\<close>

inductive server_run ::
  "'w updater_env \<Rightarrow> pystr option \<Rightarrow> pystr option \<Rightarrow> server \<Rightarrow> pystr set \<Rightarrow> bool"
  for env :: "'w updater_env" and url key
where
  initial: "mm_updaters (rn_updaters (sv_runner S)) = [] \<Longrightarrow> sv_readers S = [] \<Longrightarrow> docs_own (sv_projects S) \<Longrightarrow>
    (\<forall>k k' g. ref_of (sv_projects S) k = Some g \<longrightarrow> ref_of (sv_projects S) k' = Some g \<longrightarrow> k' = k) \<Longrightarrow>
    server_run env url key S {}"
| project_deleted: "server_run env url key S D \<Longrightarrow> delete_project_impl (cl :: 'w cloud) busy now pid S w = (r, S', w') \<Longrightarrow>
    server_run env url key S' (if r = Inr accept then D \<union> set_option (ref_of (sv_projects S) pid) else D)"
| project_reset: "server_run env url key S D \<Longrightarrow> reset_project_impl (cl :: 'w cloud) busy now pid S w = (r, S', w') \<Longrightarrow>
    server_run env url key S' (if r = Inr accept then D \<union> set_option (ref_of (sv_projects S) pid) else D)"
| graph_deleted: "server_run env url key S D \<Longrightarrow> delete_graph (cl :: 'w cloud) busy now g fs0 S w = (r', S', w') \<Longrightarrow>
    server_run env url key S' (if r' = accept then insert g D else D)"
| started: "server_run env url key S D \<Longrightarrow>
    start_guarded (manager_api env url key k) now sid platform mr gid cache missing popen killed S w = Some (r', S', w') \<Longrightarrow>
    server_run env url key S' D"
| reported: "server_run env url key S D \<Longrightarrow>
    report_guarded now clock sid g force existing uuid report_id cache S = (r, S') \<Longrightarrow> server_run env url key S' D"
| released: "server_run env url key S D \<Longrightarrow> unregister_graph_reader g report_id (sv_readers S) = (u, rs) \<Longrightarrow>
    server_run env url key (S\<lparr>sv_readers := rs\<rparr>) D"
| built: "server_run env url key S D \<Longrightarrow> docs_own fs \<Longrightarrow>
    (\<forall>k g. ref_of fs k = Some g \<longrightarrow> ref_of (sv_projects S) k = Some g
        \<or> g \<notin> D \<and> (\<forall>k'. ref_of (sv_projects S) k' \<noteq> Some g \<and> (k' \<noteq> k \<longrightarrow> ref_of fs k' \<noteq> Some g))) \<Longrightarrow>
    server_run env url key (S\<lparr>sv_projects := fs\<rparr>) D"
| worked: "server_run env url key S D \<Longrightarrow> writers_within env {} (rn_updaters (sv_runner S)) (rn_updaters R) \<Longrightarrow>
    server_run env url key (S\<lparr>sv_runner := R\<rparr>) D"

definition server_ok :: "'w updater_env \<Rightarrow> server \<Rightarrow> pystr set \<Rightarrow> bool" where
  "server_ok env S D \<longleftrightarrow> manager_ok env (rn_updaters (sv_runner S)) \<and> docs_own (sv_projects S)
     \<and> (\<forall>s g. graph_of (rn_updaters (sv_runner S)) s = Some g \<longrightarrow> g \<notin> D)
     \<and> (\<forall>g \<in> D. dget_or (sv_readers S) g [] = [])
     \<and> (\<forall>k g. ref_of (sv_projects S) k = Some g \<longrightarrow> g \<notin> D)
     \<and> (\<forall>k k' g. ref_of (sv_projects S) k = Some g \<longrightarrow> ref_of (sv_projects S) k' = Some g \<longrightarrow> k' = k)"

lemma discard_writers:
  assumes "discard_inactive_updater sid m = (r, m')"
  shows "writers_within env {} m m'"
  using manager_ok_discard [of env m sid r m'] assms
  by (auto simp: writers_within_def discard_inactive_updater_def graph_of_def get_updater_def split: option.splits if_splits)

lemma consumers_writers:
  "updater_consumers busy now sids active R = (r, R') \<Longrightarrow> writers_within env {} (rn_updaters R) (rn_updaters R')"
proof (induction sids arbitrary: active R)
  case (Cons sid sids)
  obtain found R1 where g: "get_run_state now sid R = (found, R1)" by fastforce
  note u = get_run_state_frame_fields [OF g]
  obtain d m where d: "discard_inactive_updater sid (rn_updaters R1) = (d, m)" by fastforce
  note wd = discard_writers [OF d, of env]
  let ?R2 = "R1\<lparr>rn_updaters := m, rn_enabled := dpop (rn_enabled R1) sid\<rparr>"
  have "rn_updaters R' = m \<or> (\<exists>a. updater_consumers busy now sids a R = (r, R'))
      \<or> (\<exists>a. updater_consumers busy now sids a R1 = (r, R')) \<or> updater_consumers busy now sids active ?R2 = (r, R')"
    using Cons.prems g d by (cases d) (auto split: if_splits)
  then show ?case
  proof (elim disjE exE)
    assume "updater_consumers busy now sids active ?R2 = (r, R')"
    from writers_trans [OF wd] Cons.IH [OF this] u show ?thesis by simp
  next
    fix a assume "updater_consumers busy now sids a R1 = (r, R')"
    from Cons.IH [OF this] u show ?thesis by simp
  qed (use Cons.IH wd u in \<open>simp_all\<close>)
qed simp

lemma run_consumers_updaters: "run_consumers now g sims active R = (a, R') \<Longrightarrow> rn_updaters R' = rn_updaters R"
  using run_consumers_spec [of now g sims active R a R'] by simp

lemma active_consumers_frame:
  assumes "active_graph_consumers busy now g S = (r, S')"
  shows "writers_within env {} (rn_updaters (sv_runner S)) (rn_updaters (sv_runner S'))
    \<and> sv_projects S' = sv_projects S \<and> sv_readers S' = sv_readers S"
proof (cases "get_graph_readers (sv_readers S) g")
  case (Inl e)
  with assms show ?thesis by (simp add: active_graph_consumers_def)
next
  case (Inr readers)
  obtain a R where u: "updater_consumers busy now (get_simulation_ids_for_graph (rn_updaters (sv_runner S)) g)
      (map (\<lambda>r. lit ''report:'' @ r) readers) (sv_runner S) = (a, R)"
    by fastforce
  have "rn_updaters (sv_runner S') = rn_updaters R \<and> sv_projects S' = sv_projects S \<and> sv_readers S' = sv_readers S"
    using assms Inr u
    by (cases a) (auto simp: active_graph_consumers_def dest!: run_consumers_updaters split: sum.splits prod.splits)
  with consumers_writers [OF u, of env] show ?thesis by simp
qed

lemma server_ok_worked:
  assumes "server_ok env S D" and "writers_within env {} (rn_updaters (sv_runner S)) (rn_updaters (sv_runner S'))"
    and "sv_projects S' = sv_projects S" and "sv_readers S' = sv_readers S"
  shows "server_ok env S' D"
  using assms unfolding server_ok_def writers_within_def by auto

lemma delete_if_present_frame:
  assumes "delete_cloud_graph_if_present cl busy now gid S w = (r, S', w')"
  shows "writers_within env {} (rn_updaters (sv_runner S)) (rn_updaters (sv_runner S'))
    \<and> sv_projects S' = sv_projects S \<and> sv_readers S' = sv_readers S"
proof (cases "or_str gid None")
  case None
  with assms show ?thesis by (simp add: delete_cloud_graph_if_present_def)
next
  case (Some g)
  obtain a S1 where a: "active_graph_consumers busy now g S = (a, S1)" by fastforce
  have "S' = S1"
    using assms Some a
    by (cases a) (auto simp: delete_cloud_graph_if_present_def split: if_splits prod.splits sum.splits)
  with active_consumers_frame [OF a, of env] show ?thesis by simp
qed

lemma delete_if_present_idle:
  assumes "delete_cloud_graph_if_present cl busy now (Some g) S w = (Inr (), S', w')" and "g \<noteq> []"
  shows "dget_or (sv_readers S') g [] = [] \<and> (\<forall>s. graph_of (rn_updaters (sv_runner S')) s \<noteq> Some g)"
proof -
  obtain a S1 where a: "active_graph_consumers busy now g S = (a, S1)" by fastforce
  have "or_str (Some g) None = Some g"
    using assms(2) by (simp add: or_str_def)
  with assms(1) a have "a = Inr []" "S' = S1"
    by (cases a; auto simp: delete_cloud_graph_if_present_def split: if_splits prod.splits sum.splits)+
  with active_consumers_empty a show ?thesis
    by (fastforce simp: graph_idle_def graph_of_def)
qed

lemma accept_refuse [simp]: "accept \<noteq> refuse c m" "refuse c m \<noteq> accept"
  by (simp_all add: accept_def refuse_def)

lemma server_error_not_accept [simp]: "accept \<noteq> server_error e" "server_error e \<noteq> accept"
  by (simp_all add: server_error_def)

text \<open>Once the guarded deletion succeeded and every reference to the graph is gone, the graph joins
  the deleted ones.\<close>

lemma server_ok_deleted:
  assumes ok: "server_ok env S D" and g: "g \<noteq> []"
    and del: "delete_cloud_graph_if_present cl busy now (Some g) S w = (Inr (), S1, w')"
    and "docs_own fs" and "\<And>k h. ref_of fs k = Some h \<Longrightarrow> ref_of (sv_projects S) k = Some h \<and> h \<noteq> g"
  shows "server_ok env (S1\<lparr>sv_projects := fs\<rparr>) (insert g D)"
proof -
  note fr = delete_if_present_frame [OF del, of env]
  have "server_ok env S1 D"
    using server_ok_worked [OF ok] fr by simp
  with delete_if_present_idle [OF del g] fr assms(4,5) show ?thesis
    unfolding server_ok_def by simp (metis)
qed

lemma ref_of_graph_ref: "get_project fs pid = Inr (Some p) \<Longrightarrow> ref_of fs pid = graph_ref p"
  by (simp add: ref_of_def)

lemma graph_ref_nonempty: "graph_ref p = Some g \<Longrightarrow> g \<noteq> []"
  by (auto simp: graph_ref_def split: pyval.splits if_splits)

lemma server_ok_forget:
  assumes "server_ok env S D" and "docs_own fs" and "\<And>k h. ref_of fs k = Some h \<Longrightarrow> ref_of (sv_projects S) k = Some h"
  shows "server_ok env (S\<lparr>sv_projects := fs\<rparr>) D"
  using assms unfolding server_ok_def by simp metis

text \<open>Both project handlers: delete the graph, then drop the project's reference.\<close>

lemma server_ok_drop_reference:
  assumes ok: "server_ok env S D" and p: "get_project (sv_projects S) pid = Inr (Some p)"
    and del: "delete_cloud_graph_if_present cl busy now (graph_ref p) S w = (Inr (), S1, w')"
    and own: "docs_own fs" and ref: "\<And>k. ref_of fs k = (if k = pid then None else ref_of (sv_projects S) k)"
  shows "server_ok env (S1\<lparr>sv_projects := fs\<rparr>) (D \<union> set_option (ref_of (sv_projects S) pid))"
proof (cases "graph_ref p")
  case None
  then have "server_ok env S1 D" "sv_projects S1 = sv_projects S"
    using server_ok_worked [OF ok] delete_if_present_frame [OF del, of env] by simp_all
  with None p own ref show ?thesis
    by (auto simp: ref_of_graph_ref split: if_splits intro: server_ok_forget)
next
  case (Some g)
  have r: "ref_of (sv_projects S) pid = Some g"
    using ref_of_graph_ref [OF p] Some by simp
  have "server_ok env (S1\<lparr>sv_projects := fs\<rparr>) (insert g D)"
  proof (rule server_ok_deleted [OF ok graph_ref_nonempty [OF Some] del [unfolded Some] own])
    fix k h assume "ref_of fs k = Some h"
    then show "ref_of (sv_projects S) k = Some h \<and> h \<noteq> g"
      using ref r ok by (auto simp: server_ok_def split: if_splits)
  qed
  with r show ?thesis by simp
qed

lemma server_ok_delete_project:
  assumes ok: "server_ok env S D" and run: "delete_project_impl cl busy now pid S w = (r, S', w')"
  shows "server_ok env S' (if r = Inr accept then D \<union> set_option (ref_of (sv_projects S) pid) else D)"
proof -
  have "S' = S \<and> r \<noteq> Inr accept \<or> (\<exists>p x S1 w1. get_project (sv_projects S) pid = Inr (Some p)
      \<and> delete_cloud_graph_if_present cl busy now (graph_ref p) S w = (x, S1, w1)
      \<and> (S' = S1 \<and> r \<noteq> Inr accept \<or> x = Inr () \<and> r = Inr accept \<and> S' = S1\<lparr>sv_projects := dpop (sv_projects S1) pid\<rparr>))"
    using run get_project_dir [of "sv_projects S" pid]
    by (auto simp: delete_project_impl_def delete_project_def dhas_iff_dget
        dest!: delete_if_present_frame [where env = env]
        split: sum.splits option.splits if_splits prod.splits)
  then show ?thesis
  proof (elim disjE exE conjE)
    fix p x S1 w1 assume p: "get_project (sv_projects S) pid = Inr (Some p)"
      and del: "delete_cloud_graph_if_present cl busy now (graph_ref p) S w = (x, S1, w1)"
      and x: "x = Inr ()" "r = Inr accept" "S' = S1\<lparr>sv_projects := dpop (sv_projects S1) pid\<rparr>"
    note fr = delete_if_present_frame [OF del, of env]
    have get: "get_project (dpop (sv_projects S1) pid) k = (if k = pid then Inr None else get_project (sv_projects S) k)" for k
      using fr by (simp add: get_project_def)
    have "docs_own (dpop (sv_projects S1) pid)"
      using ok get by (auto simp: server_ok_def docs_own_def split: if_splits)
    from server_ok_drop_reference [OF ok p del [unfolded x(1)] this] get x show ?thesis
      by (simp add: ref_of_def)
  next
    fix p x S1 w1 assume "delete_cloud_graph_if_present cl busy now (graph_ref p) S w = (x, S1, w1)" "S' = S1" "r \<noteq> Inr accept"
    then show ?thesis
      using server_ok_worked [OF ok] delete_if_present_frame [of cl busy now "graph_ref p" S w x S1 w1 env] by simp
  qed (use ok in simp)
qed

lemma server_ok_reset_project:
  assumes ok: "server_ok env S D" and run: "reset_project_impl cl busy now pid S w = (r, S', w')"
  shows "server_ok env S' (if r = Inr accept then D \<union> set_option (ref_of (sv_projects S) pid) else D)"
proof -
  have "S' = S \<and> r \<noteq> Inr accept \<or> (\<exists>p x S1 w1. get_project (sv_projects S) pid = Inr (Some p)
      \<and> delete_cloud_graph_if_present cl busy now (graph_ref p) S w = (x, S1, w1)
      \<and> (S' = S1 \<and> r \<noteq> Inr accept \<or> x = Inr () \<and> (\<exists>y q fs. save_project now (clear_project_graph_reference (reset_project_status p)) (sv_projects S1) = (y, q, fs)
          \<and> S' = S1\<lparr>sv_projects := fs\<rparr> \<and> r = (case y of Inl e \<Rightarrow> Inl e | Inr _ \<Rightarrow> Inr accept))))"
    using run
    by (auto simp: reset_project_impl_def split: sum.splits option.splits if_splits prod.splits)
  then show ?thesis
  proof (elim disjE exE conjE)
    fix p x S1 w1 y q fs assume p: "get_project (sv_projects S) pid = Inr (Some p)"
      and del: "delete_cloud_graph_if_present cl busy now (graph_ref p) S w = (x, S1, w1)" and x: "x = Inr ()"
      and sv: "save_project now (clear_project_graph_reference (reset_project_status p)) (sv_projects S1) = (y, q, fs)"
      and S': "S' = S1\<lparr>sv_projects := fs\<rparr>" "r = (case y of Inl e \<Rightarrow> Inl e | Inr _ \<Rightarrow> Inr accept)"
    note fr = delete_if_present_frame [OF del, of env]
    obtain d where d: "dget (sv_projects S) pid = Some d"
      using get_project_dir [OF p] by blast
    have own: "docs_own (sv_projects S)" "pr_project_id p = PyStr pid"
      using ok p by (auto simp: server_ok_def docs_own_def)
    obtain q' fs' where "save_project now (clear_project_graph_reference (reset_project_status p)) (sv_projects S) = (Inr (), q', fs')"
      and fs': "docs_own fs'" "\<And>k. ref_of fs' k = (if k = pid then None else ref_of (sv_projects S) k)"
      using save_cleared [OF _ _ _ d own(1), of "clear_project_graph_reference (reset_project_status p)" now] own(2)
      by (auto simp: clear_reset_simps)
    with sv fr have "y = Inr ()" "fs = fs'" by auto
    with server_ok_drop_reference [OF ok p del [unfolded x] fs'] S' show ?thesis by simp
  next
    fix p x S1 w1 assume "delete_cloud_graph_if_present cl busy now (graph_ref p) S w = (x, S1, w1)" "S' = S1" "r \<noteq> Inr accept"
    then show ?thesis
      using server_ok_worked [OF ok] delete_if_present_frame [of cl busy now "graph_ref p" S w x S1 w1 env] by simp
  qed (use ok in simp)
qed

lemma server_ok_delete_graph:
  assumes ok: "server_ok env S D" and run: "delete_graph cl busy now g fs0 S w = (r, S', w')"
  shows "server_ok env S' (if r = accept then insert g D else D)"
proof -
  have "S' = S \<and> r \<noteq> accept \<or> (\<exists>ps x S1 w1. g \<noteq> [] \<and> find_projects_by_graph_id g (sv_projects S) = Inr ps
      \<and> delete_cloud_graph_if_present cl busy now (Some g) S w = (x, S1, w1)
      \<and> (S' = S1 \<and> r \<noteq> accept \<or> x = Inr () \<and> (\<exists>y fs. clear_references now ps (sv_projects S1) = (y, fs)
          \<and> S' = S1\<lparr>sv_projects := fs\<rparr> \<and> r = (case y of Inl e \<Rightarrow> server_error e | Inr _ \<Rightarrow> accept))))"
    using run
    by (auto simp: delete_graph_def need_graph_id_def exn_simps split: sum.splits list.splits if_splits prod.splits)
  then show ?thesis
  proof (elim disjE exE conjE)
    fix ps x S1 w1 y fs assume g: "g \<noteq> []" and ps: "find_projects_by_graph_id g (sv_projects S) = Inr ps"
      and del: "delete_cloud_graph_if_present cl busy now (Some g) S w = (x, S1, w1)" and x: "x = Inr ()"
      and cl: "clear_references now ps (sv_projects S1) = (y, fs)"
      and S': "S' = S1\<lparr>sv_projects := fs\<rparr>" "r = (case y of Inl e \<Rightarrow> server_error e | Inr _ \<Rightarrow> accept)"
    note all = find_projects_set [OF ps] and fr = delete_if_present_frame [OF del, of env]
    have own: "docs_own (sv_projects S)" using ok by (simp add: server_ok_def)
    have "\<forall>p \<in> set ps. \<exists>pid. pr_project_id p = PyStr pid \<and> dget (sv_projects S) pid \<noteq> None"
      using all own by (auto simp: docs_own_def dest: get_project_dir)
    from clear_references_spec [OF own this, of now] cl fr have "y = Inr ()" and fs: "docs_own fs"
      "\<And>k. ref_of fs k = (if PyStr k \<in> pr_project_id ` set ps then None else ref_of (sv_projects S) k)"
      by auto
    have "server_ok env (S1\<lparr>sv_projects := fs\<rparr>) (insert g D)"
    proof (rule server_ok_deleted [OF ok g del [unfolded x] fs(1)])
      fix k h assume r: "ref_of fs k = Some h"
      then have k: "PyStr k \<notin> pr_project_id ` set ps" "ref_of (sv_projects S) k = Some h"
        using fs(2) [of k] by (auto split: if_splits)
      then obtain p where p: "get_project (sv_projects S) k = Inr (Some p)" "graph_ref p = Some h"
        by (auto simp: ref_of_def split: sum.splits option.splits)
      then have "pr_graph_id p = PyStr h" "pr_project_id p = PyStr k"
        using own by (auto simp: graph_ref_def docs_own_def split: pyval.splits if_splits)
      with p(1) k all have "h \<noteq> g" by force
      with k show "ref_of (sv_projects S) k = Some h \<and> h \<noteq> g" by simp
    qed
    with S' \<open>y = Inr ()\<close> show ?thesis by simp
  next
    fix ps x S1 w1 assume "delete_cloud_graph_if_present cl busy now (Some g) S w = (x, S1, w1)" "S' = S1" "r \<noteq> accept"
    then show ?thesis
      using server_ok_worked [OF ok] delete_if_present_frame [of cl busy now "Some g" S w x S1 w1 env] by simp
  qed (use ok in simp)
qed

lemma project_of_ref: "project_of fs s = Inr (Some p) \<Longrightarrow> graph_ref p = Some g \<Longrightarrow> \<exists>k. ref_of fs k = Some g"
  using ref_of_graph_ref by (fastforce simp: project_of_def split: pyval.splits)

lemma writer_checks_ref:
  assumes "writer_checks now sid g cache S = Inr None"
  shows "\<exists>k. ref_of (sv_projects S) k = Some g"
  using assms
  by (auto simp: writer_checks_def exn_simps Let_def split: if_splits option.splits dest: project_of_ref)

lemma server_ok_started:
  assumes ok: "server_ok env S D"
    and run: "start_guarded (manager_api env url key k) now sid platform mr gid cache missing popen killed S w = Some (r, S', w')"
  shows "server_ok env S' D"
proof -
  have "S' = S \<or> (\<exists>x R. start_simulation (manager_api env url key k) now sid platform mr (gid \<noteq> None) gid missing popen killed (sv_runner S) w
        = Some (x, R, w') \<and> S' = S\<lparr>sv_runner := R\<rparr>) \<and> (\<forall>g. gid = Some g \<longrightarrow> writer_checks now sid g cache S = Inr None)"
    using run by (auto simp: start_guarded_def split: option.splits sum.splits)
  then show ?thesis
  proof (elim disjE exE conjE)
    fix x R assume st: "start_simulation (manager_api env url key k) now sid platform mr (gid \<noteq> None) gid missing popen killed (sv_runner S) w
        = Some (x, R, w')" and S': "S' = S\<lparr>sv_runner := R\<rparr>"
      and chk: "\<forall>g. gid = Some g \<longrightarrow> writer_checks now sid g cache S = Inr None"
    have fresh: "g \<notin> D" if gid: "gid = Some g" for g
    proof -
      obtain k where "ref_of (sv_projects S) k = Some g"
        using writer_checks_ref chk gid by blast
      with ok show ?thesis by (auto simp: server_ok_def)
    qed
    have ok': "manager_ok env (rn_updaters (sv_runner S))"
      "\<And>s g. graph_of (rn_updaters (sv_runner S)) s = Some g \<Longrightarrow> g \<notin> D"
      using ok by (auto simp: server_ok_def)
    have "manager_ok env (rn_updaters R)" "\<And>s g. graph_of (rn_updaters R) s = Some g \<Longrightarrow> g \<notin> D"
      using writers_start [OF st] ok' fresh unfolding writers_within_def by blast+
    with ok show ?thesis
      unfolding server_ok_def by (simp add: S')
  qed (use ok in simp)
qed

lemma report_checks_ref:
  assumes "report_checks now sid g cache S = Inr None" and "g \<noteq> []"
  shows "\<exists>k. ref_of (sv_projects S) k = Some g"
proof -
  obtain s p where "project_of (sv_projects S) s = Inr (Some p)" "pr_graph_id p = PyStr g"
    using assms(1) by (auto simp: report_checks_def exn_simps Let_def split: if_splits option.splits)
  moreover from this have "graph_ref p = Some g"
    using assms(2) by (simp add: graph_ref_def)
  ultimately show ?thesis by (blast intro: project_of_ref)
qed

lemma server_ok_readers:
  assumes "server_ok env S D" and "\<And>h. h \<in> D \<Longrightarrow> dget_or (sv_readers S') h [] = []"
    and "rn_updaters (sv_runner S') = rn_updaters (sv_runner S)" and "sv_projects S' = sv_projects S"
  shows "server_ok env S' D"
  using assms by (simp add: server_ok_def)

lemma server_ok_reported:
  assumes ok: "server_ok env S D"
    and run: "report_guarded now clock sid g force existing uuid report_id cache S = (r, S')"
  shows "server_ok env S' D"
proof -
  have upd: "rn_updaters (snd (get_run_state now sid (sv_runner S))) = rn_updaters (sv_runner S)"
    using get_run_state_frame_fields [of now sid "sv_runner S"] by (metis prod.collapse)
  have same: "rn_updaters (sv_runner S') = rn_updaters (sv_runner S)" "sv_projects S' = sv_projects S"
    using run by (auto simp: report_guarded_def Let_def upd split: sum.splits option.splits if_splits prod.splits)
  have "sv_readers S' = sv_readers S \<or> report_checks now sid g cache S = Inr None \<and>
      sv_readers S' = snd (register_graph_reader g report_id (sv_readers S))"
    using run by (auto simp: report_guarded_def Let_def split: sum.splits option.splits if_splits prod.splits)
  then have "dget_or (sv_readers S') h [] = []" if "h \<in> D" for h
  proof (elim disjE conjE)
    assume chk: "report_checks now sid g cache S = Inr None"
      and rs: "sv_readers S' = snd (register_graph_reader g report_id (sv_readers S))"
    have "g = [] \<or> g \<notin> D"
      using report_checks_ref [OF chk] ok by (auto simp: server_ok_def)
    moreover have "dget_or (sv_readers S) h [] = []"
      using ok that by (simp add: server_ok_def)
    ultimately show ?thesis
      using that by (auto simp: rs register_graph_reader_def need_graph_id_def dget_or_dget)
  qed (use ok that in \<open>simp add: server_ok_def\<close>)
  from server_ok_readers [OF ok this same] show ?thesis .
qed

lemma server_ok_released:
  assumes "server_ok env S D" and "unregister_graph_reader g report_id (sv_readers S) = (u, rs)"
  shows "server_ok env (S\<lparr>sv_readers := rs\<rparr>) D"
proof -
  have "dget_or (sv_readers S) h [] = [] \<Longrightarrow> dget_or rs h [] = []" for h
    using assms(2)
    by (auto simp: unregister_graph_reader_def dget_or_dget Let_def split: sum.splits option.splits if_splits)
  with assms(1) show ?thesis by (auto simp: server_ok_def)
qed

theorem server_run_ok: "server_run env url key S D \<Longrightarrow> server_ok env S D"
proof (induction rule: server_run.induct)
  case (initial S)
  then show ?case
    by (auto simp: server_ok_def manager_ok_def graph_of_def get_updater_def dget_or_dget)
next
  case (built S D fs)
  then show ?case unfolding server_ok_def by simp metis
next
  case (worked S D R)
  then show ?case using server_ok_worked [of env S D "S\<lparr>sv_runner := R\<rparr>"] by simp
qed (blast intro: server_ok_delete_project server_ok_reset_project server_ok_delete_graph server_ok_started
    server_ok_reported server_ok_released)+


end
