(* ===== verification/Graph_Runs.thy ===== *)
theory Graph_Runs
  imports Graph_Guards Runner_Runs
begin

text \<open>
  Concrete servers: a deletion that goes through, and a report that starts while another
  simulation still writes to the same graph.
\<close>

definition p1 :: pystr where "p1 = lit ''p''"
definition g1 :: pystr where "g1 = lit ''g''"
definition sim2 :: pystr where "sim2 = lit ''sim_2''"

definition p1_doc :: pydict where
  "p1_doc = [(lit ''project_id'', PyStr p1), (lit ''status'', PyStr (lit ''graph_completed'')), (lit ''graph_id'', PyStr g1)]"

definition sim2_doc :: pydict where
  "sim2_doc = [(lit ''project_id'', PyStr p1), (lit ''graph_id'', PyStr g1), (lit ''status'', PyStr (lit ''stopped''))]"

definition p1_projects :: projects where
  "p1_projects = [(p1, empty_dir\<lparr>pd_meta := Some (Json (PyDict p1_doc))\<rparr>)]"

text \<open>\<open>sim_1\<close> is running and writes to the graph; \<open>sim_2\<close> of the same project has stopped.\<close>

definition shared_runner :: "ZepGraphMemoryManager runner" where
  "shared_runner = run2\<lparr>rn_states := [(sim1, st1\<lparr>rs_runner_status := RS_RUNNING\<rparr>),
       (sim2, st1\<lparr>rs_simulation_id := sim2, rs_runner_status := RS_STOPPED\<rparr>)],
     rn_sims := \<lparr>sm_cache = [], sm_dirs = [(sim2, new_dir\<lparr>sd_state := Some (Json (PyDict sim2_doc))\<rparr>)]\<rparr>\<rparr>"

definition shared_server :: server where
  "shared_server = \<lparr>sv_runner = shared_runner, sv_readers = [], sv_projects = p1_projects, sv_tasks = []\<rparr>"

lemma names_distinct [simp]: "sim1 \<noteq> sim2" "sim2 \<noteq> sim1" "g1 \<noteq> []" "p1 \<noteq> []" "lit ''g'' = g1"
  by (simp_all add: sim1_def sim2_def g1_def p1_def)

lemma p1_project:
  "\<exists>p. get_project p1_projects p1 = Inr (Some p) \<and> pr_graph_id p = PyStr g1 \<and> pr_status p = StatusEnum GRAPH_COMPLETED
     \<and> pr_project_id p = PyStr p1 \<and> pr_graph_build_task_id p = PyNone"
  by (simp add: get_project_def p1_projects_def json_load_def p1_doc_def project_from_dict_def as_dict_def field_or_def
      dget_or_dget status_from_def parse_project_status_def ALL_PROJECT_STATUS_def require_key_def)

lemma shared_sim2:
  "\<exists>s m. get_simulation now sim2 ((rn_sims shared_runner)\<lparr>sm_cache := []\<rparr>) = (Inr (Some s), m)
     \<and> ss_project_id s = PyStr p1 \<and> ss_graph_id s = PyStr g1"
  by (simp add: get_simulation_def load_simulation_state_def shared_runner_def Let_def get_simulation_dir_def dhas_iff_dget
      dir_of_def dget_or_dget json_load_def sim2_doc_def sim_from_dict_def as_dict_def field_or_def
      parse_sim_status_def ALL_SIM_STATUS_def)

lemma shared_checks: "report_checks (lit ''t'') sim2 g1 [] shared_server = Inr None"
proof -
  obtain s m where s: "get_simulation (lit ''t'') sim2 ((rn_sims shared_runner)\<lparr>sm_cache := []\<rparr>) = (Inr (Some s), m)"
    "ss_project_id s = PyStr p1" "ss_graph_id s = PyStr g1"
    using shared_sim2 by blast
  obtain p where p: "get_project p1_projects p1 = Inr (Some p)" "pr_graph_id p = PyStr g1" "pr_status p = StatusEnum GRAPH_COMPLETED"
    using p1_project by blast
  have "ingestion_refusal (lit ''t'') sim2 a b shared_runner = None" for a b
    by (simp add: ingestion_refusal_def shared_runner_def get_updater_def run_status_def get_run_state_def active_statuses_def image_iff)
  with s p show ?thesis
    by (simp add: report_checks_def shared_server_def project_of_def Let_def)
qed


section \<open>A deletion\<close>

definition quiet_server :: server where
  "quiet_server = \<lparr>sv_runner = run0\<lparr>rn_sims := \<lparr>sm_cache = [], sm_dirs = []\<rparr>\<rparr>, sv_readers = [],
     sv_projects = p1_projects, sv_tasks = []\<rparr>"

definition demo_cloud :: "(rat \<times> nat) cloud" where
  "demo_cloud = \<lparr>cl_url = None, cl_key = Some (lit ''z''), cl_delete = (\<lambda>g (t, n). (Inr (), (t, n + 1)))\<rparr>"

lemma demo_cloud_delete: "delete_cloud_graph demo_cloud g (t, n) = (Inr (), (t, n + 1))"
  by (simp add: delete_cloud_graph_def new_graph_builder_def demo_cloud_def or_str_def get_zep_client_def lit_def
      py_strip_def py_lstrip_def py_rstrip_def is_space_def ZEP_HTTP_REQUEST_TIMEOUT_SECONDS_def)

lemma quiet_delete:
  "delete_cloud_graph_if_present demo_cloud (\<lambda>_. False) (lit ''t'') (Some g1) quiet_server (0, 0) = (Inr (), quiet_server, (0, 1))"
  by (simp add: delete_cloud_graph_if_present_def or_str_def active_graph_consumers_def get_graph_readers_def need_graph_id_def
      quiet_server_def dget_or_dget py_sorted_def get_simulation_ids_for_graph_def list_simulations_def demo_cloud_delete)

lemma quiet_initial: "server_run demo_env None (Some (lit ''z'')) quiet_server {}"
proof (rule server_run.initial)
  obtain p where p: "get_project p1_projects p1 = Inr (Some p)" "pr_project_id p = PyStr p1"
    using p1_project by blast
  have S: "sv_projects quiet_server = p1_projects"
    by (simp add: quiet_server_def)
  have k: "k = p1 \<or> get_project p1_projects k = Inr None" for k
    by (simp add: get_project_def p1_projects_def)
  show "docs_own (sv_projects quiet_server)"
    unfolding docs_own_def S
  proof (intro allI impI)
    fix pid q assume "get_project p1_projects pid = Inr (Some q)"
    with k [of pid] p show "pr_project_id q = PyStr pid" by auto
  qed
  have "ref_of p1_projects k = Some h \<Longrightarrow> k = p1" for k h
    using k [of k] by (auto simp: ref_of_def)
  then show "\<forall>k k' g. ref_of (sv_projects quiet_server) k = Some g \<longrightarrow> ref_of (sv_projects quiet_server) k' = Some g \<longrightarrow> k' = k"
    unfolding S by blast
qed (simp_all add: quiet_server_def)

theorem graph_deletion_guarded_witness:
  "\<exists>sims. graph_idle (lit ''t'') g1 sims quiet_server"
  using graph_deletion_guarded [OF quiet_delete] by auto


end
