(* ===== verification/Simulation_IPC.thy ===== *)
theory Simulation_IPC
  imports Project_Store Agent_Activity
begin

text \<open>
  Model of \<^verbatim>\<open>services/simulation_ipc.py\<close>: the file based mail box between the backend and a running
  simulation.  A simulation directory holds one JSON file per command and per response, named by
  the command id, and a status file.  The client writes a command and polls for its response; the
  simulation takes the oldest readable command and answers it.

  The directory, the clock and the rest of the machine form a \<open>host\<close>; \<open>oe_sleep\<close> is \<^verbatim>\<open>time.sleep\<close>,
  during which the other process works.  A listing of a missing command directory is empty, so the
  two are not distinguished.
\<close>

section \<open>Messages\<close>

datatype CommandType = INTERVIEW | BATCH_INTERVIEW | CLOSE_ENV

fun command_type_value :: "CommandType \<Rightarrow> pystr" where
  "command_type_value INTERVIEW = lit ''interview''"
| "command_type_value BATCH_INTERVIEW = lit ''batch_interview''"
| "command_type_value CLOSE_ENV = lit ''close_env''"

datatype CommandStatus = CMD_PENDING | CMD_PROCESSING | CMD_COMPLETED | CMD_FAILED

fun command_status_value :: "CommandStatus \<Rightarrow> pystr" where
  "command_status_value CMD_PENDING = lit ''pending''"
| "command_status_value CMD_PROCESSING = lit ''processing''"
| "command_status_value CMD_COMPLETED = lit ''completed''"
| "command_status_value CMD_FAILED = lit ''failed''"

text \<open>Looking a member of an \<^verbatim>\<open>Enum\<close> up by its value.\<close>

definition enum_member :: "('e \<Rightarrow> pystr) \<Rightarrow> 'e list \<Rightarrow> pyval \<Rightarrow> 'e res" where
  "enum_member value members v =
     (case find (\<lambda>m. v = PyStr (value m)) members of
        Some m \<Rightarrow> Inr m | None \<Rightarrow> Inl (Exn ValueError (lit ''not a valid member'')))"

abbreviation ALL_COMMAND_TYPES :: "CommandType list" where
  "ALL_COMMAND_TYPES \<equiv> [INTERVIEW, BATCH_INTERVIEW, CLOSE_ENV]"

abbreviation ALL_COMMAND_STATUS :: "CommandStatus list" where
  "ALL_COMMAND_STATUS \<equiv> [CMD_PENDING, CMD_PROCESSING, CMD_COMPLETED, CMD_FAILED]"

text \<open>\<^verbatim>\<open>data[k]\<close> on a decoded JSON value.\<close>

definition getitem :: "pyval \<Rightarrow> string \<Rightarrow> pyval res" where
  "getitem v k = (case v of PyDict d \<Rightarrow> require_key d k
     | _ \<Rightarrow> Inl (Exn TypeErr (lit ''object is not subscriptable by a string'')))"

record IPCCommand =
  ic_command_id :: pyval
  ic_command_type :: CommandType
  ic_args :: pyval
  ic_timestamp :: pyval

definition command_to_dict :: "IPCCommand \<Rightarrow> pydict" where
  "command_to_dict c =
     [(lit ''command_id'', ic_command_id c), (lit ''command_type'', PyStr (command_type_value (ic_command_type c))),
      (lit ''args'', ic_args c), (lit ''timestamp'', ic_timestamp c)]"

definition command_from_dict :: "pystr \<Rightarrow> pyval \<Rightarrow> IPCCommand res" where
  "command_from_dict now data =
     bind_res (getitem data ''command_id'') (\<lambda>command_id.
     bind_res (getitem data ''command_type'') (\<lambda>type.
     bind_res (enum_member command_type_value ALL_COMMAND_TYPES type) (\<lambda>command_type.
     bind_res (as_dict data) (\<lambda>d.
       Inr \<lparr>ic_command_id = command_id, ic_command_type = command_type,
            ic_args = field_or d ''args'' (PyDict []),
            ic_timestamp = field_or d ''timestamp'' (PyStr now)\<rparr>))))"

record IPCResponse =
  ip_command_id :: pyval
  ip_status :: CommandStatus
  ip_result :: pyval
  ip_error :: pyval
  ip_timestamp :: pyval

definition response_to_dict :: "IPCResponse \<Rightarrow> pydict" where
  "response_to_dict r =
     [(lit ''command_id'', ip_command_id r), (lit ''status'', PyStr (command_status_value (ip_status r))),
      (lit ''result'', ip_result r), (lit ''error'', ip_error r), (lit ''timestamp'', ip_timestamp r)]"

definition response_from_dict :: "pystr \<Rightarrow> pyval \<Rightarrow> IPCResponse res" where
  "response_from_dict now data =
     bind_res (getitem data ''command_id'') (\<lambda>command_id.
     bind_res (getitem data ''status'') (\<lambda>st.
     bind_res (enum_member command_status_value ALL_COMMAND_STATUS st) (\<lambda>status.
     bind_res (as_dict data) (\<lambda>d.
       Inr \<lparr>ip_command_id = command_id, ip_status = status,
            ip_result = field_or d ''result'' PyNone, ip_error = field_or d ''error'' PyNone,
            ip_timestamp = field_or d ''timestamp'' (PyStr now)\<rparr>))))"

section \<open>The simulation directory\<close>

record ipc_dir =
  id_commands :: "(pystr \<times> json_file \<times> rat) list"
  id_responses :: "(pystr \<times> json_file) list"
  id_status :: "json_file option"

definition json_name :: "pystr \<Rightarrow> pystr" where
  "json_name command_id = command_id @ lit ''.json''"

definition ends_with :: "pystr \<Rightarrow> pystr \<Rightarrow> bool" where
  "ends_with s suffix \<longleftrightarrow> length suffix \<le> length s \<and> drop (length s - length suffix) s = suffix"

definition put_command :: "pystr \<Rightarrow> pydict \<Rightarrow> rat \<Rightarrow> ipc_dir \<Rightarrow> ipc_dir" where
  "put_command command_id data mtime d =
     d\<lparr>id_commands := dset (id_commands d) (json_name command_id) (Json (PyDict data), mtime)\<rparr>"

definition remove_command :: "pystr \<Rightarrow> ipc_dir \<Rightarrow> ipc_dir" where
  "remove_command command_id d = d\<lparr>id_commands := dpop (id_commands d) (json_name command_id)\<rparr>"

definition put_response :: "pystr \<Rightarrow> pydict \<Rightarrow> ipc_dir \<Rightarrow> ipc_dir" where
  "put_response command_id data d =
     d\<lparr>id_responses := dset (id_responses d) (json_name command_id) (Json (PyDict data))\<rparr>"

text \<open>
  The clean-up after a response was read: both removals share one \<^verbatim>\<open>try\<close>, so the response file
  stays when the command file is already gone.
\<close>

definition collect_files :: "pystr \<Rightarrow> ipc_dir \<Rightarrow> ipc_dir" where
  "collect_files command_id d =
     (if dhas (id_commands d) (json_name command_id)
      then (remove_command command_id d)\<lparr>id_responses := dpop (id_responses d) (json_name command_id)\<rparr>
      else d)"

section \<open>The client\<close>

record 'w host =
  h_dir :: ipc_dir
  h_time :: rat
  h_rest :: 'w

record 'w os_env =
  oe_sleep :: "rat \<Rightarrow> 'w host \<Rightarrow> 'w host"
  oe_iso :: "rat \<Rightarrow> pystr"
  oe_timeout_msg :: "rat \<Rightarrow> pystr"

definition read_response :: "'w os_env \<Rightarrow> json_file \<Rightarrow> 'w host \<Rightarrow> IPCResponse res" where
  "read_response env f H = bind_res (json_load f) (response_from_dict (oe_iso env (h_time H)))"

partial_function (option) await_response ::
  "'w os_env \<Rightarrow> pystr \<Rightarrow> rat \<Rightarrow> rat \<Rightarrow> rat \<Rightarrow> 'w host \<Rightarrow> (IPCResponse res \<times> 'w host) option" where
  "await_response env command_id timeout poll_interval start_time H =
     (if h_time H - start_time < timeout then
        (case dget (id_responses (h_dir H)) (json_name command_id) of
           None \<Rightarrow> await_response env command_id timeout poll_interval start_time (oe_sleep env poll_interval H)
         | Some f \<Rightarrow>
             (case read_response env f H of
                Inr response \<Rightarrow> Some (Inr response, H\<lparr>h_dir := collect_files command_id (h_dir H)\<rparr>)
              | Inl e \<Rightarrow>
                  if exn_kind e = JSONDecodeErr \<or> exn_kind e = KeyErr
                  then await_response env command_id timeout poll_interval start_time (oe_sleep env poll_interval H)
                  else Some (Inl e, H)))
      else Some (Inl (Exn TimeoutErr (oe_timeout_msg env timeout)), H\<lparr>h_dir := remove_command command_id (h_dir H)\<rparr>))"

definition new_command :: "'w os_env \<Rightarrow> pystr \<Rightarrow> CommandType \<Rightarrow> pydict \<Rightarrow> rat \<Rightarrow> IPCCommand" where
  "new_command env command_id command_type args t =
     \<lparr>ic_command_id = PyStr command_id, ic_command_type = command_type, ic_args = PyDict args,
      ic_timestamp = PyStr (oe_iso env t)\<rparr>"

definition send_command ::
  "'w os_env \<Rightarrow> pystr \<Rightarrow> CommandType \<Rightarrow> pydict \<Rightarrow> rat \<Rightarrow> rat \<Rightarrow> 'w host \<Rightarrow> (IPCResponse res \<times> 'w host) option" where
  "send_command env uuid command_type args timeout poll_interval H =
     (let command = new_command env uuid command_type args (h_time H);
          H = H\<lparr>h_dir := put_command uuid (command_to_dict command) (h_time H) (h_dir H)\<rparr>
      in await_response env uuid timeout poll_interval (h_time H) H)"

definition with_platform :: "pyval \<Rightarrow> pydict \<Rightarrow> pydict" where
  "with_platform platform args = (if truthy platform then args @ [(lit ''platform'', platform)] else args)"

definition send_interview ::
  "'w os_env \<Rightarrow> pystr \<Rightarrow> pyval \<Rightarrow> pyval \<Rightarrow> pyval \<Rightarrow> rat \<Rightarrow> 'w host \<Rightarrow> (IPCResponse res \<times> 'w host) option" where
  "send_interview env uuid agent_id prompt platform timeout H =
     send_command env uuid INTERVIEW
       (with_platform platform [(lit ''agent_id'', agent_id), (lit ''prompt'', prompt)]) timeout (1 / 2) H"

definition send_batch_interview ::
  "'w os_env \<Rightarrow> pystr \<Rightarrow> pydict list \<Rightarrow> pyval \<Rightarrow> rat \<Rightarrow> 'w host \<Rightarrow> (IPCResponse res \<times> 'w host) option" where
  "send_batch_interview env uuid interviews platform timeout H =
     send_command env uuid BATCH_INTERVIEW
       (with_platform platform [(lit ''interviews'', PyList (map PyDict interviews))]) timeout (1 / 2) H"

definition send_close_env ::
  "'w os_env \<Rightarrow> pystr \<Rightarrow> rat \<Rightarrow> 'w host \<Rightarrow> (IPCResponse res \<times> 'w host) option" where
  "send_close_env env uuid timeout H = send_command env uuid CLOSE_ENV [] timeout (1 / 2) H"

text \<open>A status file that is JSON but no object makes \<^verbatim>\<open>status.get\<close> raise.\<close>

definition check_env_alive :: "ipc_dir \<Rightarrow> bool res" where
  "check_env_alive d =
     (case id_status d of
        None \<Rightarrow> Inr False
      | Some NotJson \<Rightarrow> Inr False
      | Some (Json v) \<Rightarrow> bind_res (as_dict v) (\<lambda>st. Inr (dget st (lit ''status'') = Some (PyStr (lit ''alive'')))))"

section \<open>The server\<close>

definition update_env_status :: "pystr \<Rightarrow> pystr \<Rightarrow> ipc_dir \<Rightarrow> ipc_dir" where
  "update_env_status now status d =
     d\<lparr>id_status := Some (Json (PyDict [(lit ''status'', PyStr status), (lit ''timestamp'', PyStr now)]))\<rparr>"

definition server_start :: "pystr \<Rightarrow> ipc_dir \<Rightarrow> bool \<times> ipc_dir" where
  "server_start now d = (True, update_env_status now (lit ''alive'') d)"

definition server_stop :: "pystr \<Rightarrow> ipc_dir \<Rightarrow> bool \<times> ipc_dir" where
  "server_stop now d = (False, update_env_status now (lit ''stopped'') d)"

text \<open>The command files, oldest first; files of equal age keep the order of the listing.\<close>

definition command_files :: "ipc_dir \<Rightarrow> (pystr \<times> json_file \<times> rat) list" where
  "command_files d = sort_key (\<lambda>(name, f, mtime). mtime) (filter (\<lambda>(name, _). ends_with name (lit ''.json'')) (id_commands d))"

fun first_command :: "pystr \<Rightarrow> (pystr \<times> json_file \<times> rat) list \<Rightarrow> IPCCommand option res" where
  "first_command now [] = Inr None"
| "first_command now ((_, f, _) # fs) =
     (case bind_res (json_load f) (command_from_dict now) of
        Inr c \<Rightarrow> Inr (Some c)
      | Inl e \<Rightarrow> if exn_kind e \<in> {JSONDecodeErr, KeyErr, OSErr} then first_command now fs else Inl e)"

definition poll_commands :: "pystr \<Rightarrow> ipc_dir \<Rightarrow> IPCCommand option res" where
  "poll_commands now d = first_command now (command_files d)"

text \<open>\<open>rp\<close> renders the values whose text the model leaves open, as in \<open>fmt\<close>.\<close>

definition send_response :: "(pyval \<Rightarrow> pystr) \<Rightarrow> IPCResponse \<Rightarrow> ipc_dir \<Rightarrow> ipc_dir" where
  "send_response rp r d =
     (let command_id = fmt rp (ip_command_id r)
      in remove_command command_id (put_response command_id (response_to_dict r) d))"

definition send_success :: "(pyval \<Rightarrow> pystr) \<Rightarrow> pystr \<Rightarrow> pyval \<Rightarrow> pyval \<Rightarrow> ipc_dir \<Rightarrow> ipc_dir" where
  "send_success rp now command_id result d =
     send_response rp \<lparr>ip_command_id = command_id, ip_status = CMD_COMPLETED, ip_result = result,
       ip_error = PyNone, ip_timestamp = PyStr now\<rparr> d"

definition send_error :: "(pyval \<Rightarrow> pystr) \<Rightarrow> pystr \<Rightarrow> pyval \<Rightarrow> pyval \<Rightarrow> ipc_dir \<Rightarrow> ipc_dir" where
  "send_error rp now command_id error d =
     send_response rp \<lparr>ip_command_id = command_id, ip_status = CMD_FAILED, ip_result = PyNone,
       ip_error = error, ip_timestamp = PyStr now\<rparr> d"

end
