(* ===== verification/IPC_Handlers.thy ===== *)
theory IPC_Handlers
  imports Simulation_IPC
begin

text \<open>
  Model of the command handlers inside the simulation processes: \<^verbatim>\<open>ParallelIPCHandler\<close> of
  \<^verbatim>\<open>scripts/run_parallel_simulation.py\<close> and \<^verbatim>\<open>IPCHandler\<close> of \<^verbatim>\<open>scripts/run_twitter_simulation.py\<close>
  (the one of \<^verbatim>\<open>scripts/run_reddit_simulation.py\<close> differs only in the database name).

  A platform simulation \<open>'p\<close> is an OASIS environment with its agent graph and database; the calls
  into OASIS and SQLite are the fields of \<open>oasis\<close>.  The two platforms share nothing but the clock,
  so the interviews that \<^verbatim>\<open>asyncio.gather\<close> runs concurrently are modelled one after the other.
\<close>

record ('p, 'a) oasis =
  oa_graph :: "'p \<Rightarrow> bool"
  oa_get_agent :: "'p \<Rightarrow> pyval \<Rightarrow> 'a res"
  oa_step :: "'p \<Rightarrow> ('a \<times> pyval) list \<Rightarrow> unit res \<times> 'p"
  oa_latest_interview :: "'p \<Rightarrow> pyval \<Rightarrow> (pyval \<times> pyval) option res option"
  oa_loads :: "pyval \<Rightarrow> pyval res"
  oa_iso :: "rat \<Rightarrow> pystr"
  oa_repr :: "pyval \<Rightarrow> pystr"

record 'p platforms =
  pf_twitter :: "'p option"
  pf_reddit :: "'p option"

abbreviation twitter :: pystr where "twitter \<equiv> lit ''twitter''"
abbreviation reddit :: pystr where "reddit \<equiv> lit ''reddit''"

section \<open>Status, polling and responses\<close>

definition update_status :: "('p, 'a) oasis \<Rightarrow> pystr \<Rightarrow> 'p platforms host \<Rightarrow> 'p platforms host" where
  "update_status oa status H =
     H\<lparr>h_dir := (h_dir H)\<lparr>id_status := Some (Json (PyDict
         [(lit ''status'', PyStr status),
          (lit ''twitter_available'', PyBool (pf_twitter (h_rest H) \<noteq> None)),
          (lit ''reddit_available'', PyBool (pf_reddit (h_rest H) \<noteq> None)),
          (lit ''timestamp'', PyStr (oa_iso oa (h_time H)))]))\<rparr>\<rparr>"

fun first_json :: "(pystr \<times> json_file \<times> rat) list \<Rightarrow> pyval option" where
  "first_json [] = None"
| "first_json ((_, f, _) # fs) = (case json_load f of Inr v \<Rightarrow> Some v | Inl _ \<Rightarrow> first_json fs)"

definition poll_command :: "ipc_dir \<Rightarrow> pyval option" where
  "poll_command d = first_json (command_files d)"

definition respond ::
  "('p, 'a) oasis \<Rightarrow> pyval \<Rightarrow> CommandStatus \<Rightarrow> pyval \<Rightarrow> pyval \<Rightarrow> 'w host \<Rightarrow> 'w host" where
  "respond oa command_id status result error H =
     H\<lparr>h_dir := send_response (oa_repr oa)
          \<lparr>ip_command_id = command_id, ip_status = status, ip_result = result, ip_error = error,
           ip_timestamp = PyStr (oa_iso oa (h_time H))\<rparr> (h_dir H)\<rparr>"

abbreviation "completed oa command_id result H \<equiv> respond oa command_id CMD_COMPLETED result PyNone H"
abbreviation "failed oa command_id error H \<equiv> respond oa command_id CMD_FAILED PyNone (PyStr error) H"

text \<open>
  The newest interview of an agent in the database; \<open>None\<close> of \<open>oa_latest_interview\<close> is a missing
  database file, and every error while reading leaves the empty result.
\<close>

definition interview_record :: "pyval \<Rightarrow> pyval \<Rightarrow> pyval \<Rightarrow> pydict" where
  "interview_record agent_id response timestamp =
     [(lit ''agent_id'', agent_id), (lit ''response'', response), (lit ''timestamp'', timestamp)]"

definition get_interview_result :: "('p, 'a) oasis \<Rightarrow> 'p \<Rightarrow> pyval \<Rightarrow> pydict" where
  "get_interview_result oa p agent_id =
     (case oa_latest_interview oa p agent_id of
        Some (Inr (Some (info_json, created_at))) \<Rightarrow>
          (case (if truthy info_json then oa_loads oa info_json else Inr (PyDict [])) of
             Inr (PyDict info) \<Rightarrow>
               interview_record agent_id (dget_or info (lit ''response'') (PyDict info)) created_at
           | Inr _ \<Rightarrow> interview_record agent_id PyNone PyNone
           | Inl e \<Rightarrow> if exn_kind e = JSONDecodeErr then interview_record agent_id info_json PyNone
                      else interview_record agent_id PyNone PyNone)
      | _ \<Rightarrow> interview_record agent_id PyNone PyNone)"

section \<open>The handler of parallel simulations\<close>

definition env_of :: "pystr \<Rightarrow> 'p platforms \<Rightarrow> 'p option" where
  "env_of platform S =
     (if platform = twitter then pf_twitter S else if platform = reddit then pf_reddit S else None)"

definition set_env :: "pystr \<Rightarrow> 'p \<Rightarrow> 'p platforms \<Rightarrow> 'p platforms" where
  "set_env platform p S = (if platform = twitter then S\<lparr>pf_twitter := Some p\<rparr> else S\<lparr>pf_reddit := Some p\<rparr>)"

definition error_record :: "pystr \<Rightarrow> pystr \<Rightarrow> pydict" where
  "error_record platform msg = [(lit ''platform'', PyStr platform), (lit ''error'', PyStr msg)]"

definition interview_single_platform ::
  "('p, 'a) oasis \<Rightarrow> pyval \<Rightarrow> pyval \<Rightarrow> pystr \<Rightarrow> 'p platforms \<Rightarrow> pydict \<times> 'p platforms" where
  "interview_single_platform oa agent_id prompt platform S =
     (case env_of platform S of
        None \<Rightarrow> (error_record platform (platform @ [24179, 21488, 19981, 21487, 29992]), S)
      | Some p \<Rightarrow>
          if \<not> oa_graph oa p then (error_record platform (platform @ [24179, 21488, 19981, 21487, 29992]), S)
          else (case oa_get_agent oa p agent_id of
                  Inl e \<Rightarrow> (error_record platform (exn_msg e), S)
                | Inr agent \<Rightarrow>
                    (case oa_step oa p [(agent, prompt)] of
                       (Inl e, p') \<Rightarrow> (error_record platform (exn_msg e), set_env platform p' S)
                     | (Inr _, p') \<Rightarrow>
                         (dset (get_interview_result oa p' agent_id) (lit ''platform'') (PyStr platform),
                          set_env platform p' S))))"

fun interview_platforms ::
  "('p, 'a) oasis \<Rightarrow> pyval \<Rightarrow> pyval \<Rightarrow> pystr list \<Rightarrow> 'p platforms \<Rightarrow> (pystr \<times> pydict) list \<times> 'p platforms" where
  "interview_platforms oa agent_id prompt [] S = ([], S)"
| "interview_platforms oa agent_id prompt (pl # pls) S =
     (let (r, S) = interview_single_platform oa agent_id prompt pl S;
          (rs, S) = interview_platforms oa agent_id prompt pls S
      in ((pl, r) # rs, S))"

definition available_platforms :: "'p platforms \<Rightarrow> pystr list" where
  "available_platforms S =
     (if pf_twitter S \<noteq> None then [twitter] else []) @ (if pf_reddit S \<noteq> None then [reddit] else [])"

definition handle_interview ::
  "('p, 'a) oasis \<Rightarrow> pyval \<Rightarrow> pyval \<Rightarrow> pyval \<Rightarrow> pyval \<Rightarrow> 'p platforms host \<Rightarrow> bool \<times> 'p platforms host" where
  "handle_interview oa command_id agent_id prompt platform H =
     (if platform = PyStr twitter \<or> platform = PyStr reddit then
        (let pl = (if platform = PyStr twitter then twitter else reddit);
             (result, S) = interview_single_platform oa agent_id prompt pl (h_rest H);
             H = H\<lparr>h_rest := S\<rparr>
         in case dget result (lit ''error'') of
              Some err \<Rightarrow> (False, respond oa command_id CMD_FAILED PyNone err H)
            | None \<Rightarrow> (True, completed oa command_id (PyDict result) H))
      else if pf_twitter (h_rest H) = None \<and> pf_reddit (h_rest H) = None then
        (False, failed oa command_id [27809, 26377, 21487, 29992, 30340, 27169, 25311, 29615, 22659] H)
      else
        (let (rs, S) = interview_platforms oa agent_id prompt (available_platforms (h_rest H)) (h_rest H);
             H = H\<lparr>h_rest := S\<rparr>;
             results = [(lit ''agent_id'', agent_id), (lit ''prompt'', prompt),
                        (lit ''platforms'', PyDict (map (\<lambda>(pl, r). (pl, PyDict r)) rs))]
         in if \<exists>(pl, r) \<in> set rs. \<not> dhas r (lit ''error'') then (True, completed oa command_id (PyDict results) H)
            else (False, failed oa command_id
                    (py_join (lit ''; '') (map (\<lambda>(pl, r). pl @ lit '': '' @
                       fmt (oa_repr oa) (dget_or r (lit ''error'') (PyStr [26410, 30693, 38169, 35823]))) rs)) H)))"

text \<open>Iterating over the decoded \<^verbatim>\<open>interviews\<close> and calling \<^verbatim>\<open>.get\<close> on each item.\<close>

definition iter_dicts :: "pyval \<Rightarrow> pydict list res" where
  "iter_dicts v =
     (case v of
        PyList xs \<Rightarrow> map_res as_dict xs
      | PyDict d \<Rightarrow> if d = [] then Inr [] else Inl (Exn AttributeErr (lit ''object has no attribute get''))
      | PyStr s \<Rightarrow> if s = [] then Inr [] else Inl (Exn AttributeErr (lit ''object has no attribute get''))
      | _ \<Rightarrow> Inl (Exn TypeErr (lit ''object is not iterable'')))"

abbreviation "agent_of interview \<equiv> dget_or interview (lit ''agent_id'') PyNone"
abbreviation "prompt_of interview \<equiv> dget_or interview (lit ''prompt'') (PyStr [])"

text \<open>The actions of a batch: an agent that cannot be found is skipped, a later prompt replaces an earlier one.\<close>

fun batch_actions :: "('p, 'a) oasis \<Rightarrow> 'p \<Rightarrow> pydict list \<Rightarrow> ('a \<times> pyval) list \<Rightarrow> ('a \<times> pyval) list" where
  "batch_actions oa p [] actions = actions"
| "batch_actions oa p (i # is) actions =
     batch_actions oa p is
       (case oa_get_agent oa p (agent_of i) of Inl _ \<Rightarrow> actions | Inr agent \<Rightarrow> dset actions agent (prompt_of i))"

fun batch_results :: "('p, 'a) oasis \<Rightarrow> pystr \<Rightarrow> 'p \<Rightarrow> pydict list \<Rightarrow> pydict \<Rightarrow> pydict" where
  "batch_results oa platform p [] results = results"
| "batch_results oa platform p (i # is) results =
     batch_results oa platform p is
       (dset results (platform @ lit ''_'' @ fmt (oa_repr oa) (agent_of i))
          (PyDict (dset (get_interview_result oa p (agent_of i)) (lit ''platform'') (PyStr platform))))"

definition batch_platform ::
  "('p, 'a) oasis \<Rightarrow> pystr \<Rightarrow> pydict list \<Rightarrow> pydict \<times> 'p platforms \<Rightarrow> pydict \<times> 'p platforms" where
  "batch_platform oa platform interviews = (\<lambda>(results, S).
     (case env_of platform S of
        None \<Rightarrow> (results, S)
      | Some p \<Rightarrow>
          let actions = batch_actions oa p interviews [] in
          if interviews = [] \<or> actions = [] then (results, S)
          else (case oa_step oa p actions of
                  (Inl _, p') \<Rightarrow> (results, set_env platform p' S)
                | (Inr _, p') \<Rightarrow> (batch_results oa platform p' interviews results, set_env platform p' S))))"

definition interviews_for :: "pystr \<Rightarrow> pyval \<Rightarrow> 'p platforms \<Rightarrow> pydict list \<Rightarrow> pydict list" where
  "interviews_for pl platform S interviews =
     (let wanted = (\<lambda>i. dget_or i (lit ''platform'') platform)
      in filter (\<lambda>i. wanted i = PyStr pl) interviews
         @ (if env_of pl S \<noteq> None
            then filter (\<lambda>i. wanted i \<noteq> PyStr twitter \<and> wanted i \<noteq> PyStr reddit) interviews else []))"

definition handle_batch_interview ::
  "('p, 'a) oasis \<Rightarrow> pyval \<Rightarrow> pyval \<Rightarrow> pyval \<Rightarrow> 'p platforms host \<Rightarrow> bool res \<times> 'p platforms host" where
  "handle_batch_interview oa command_id interviews platform H =
     (case iter_dicts interviews of
        Inl e \<Rightarrow> (Inl e, H)
      | Inr is \<Rightarrow>
          (let S = h_rest H;
               (results, S') = batch_platform oa reddit (interviews_for reddit platform S is)
                                 (batch_platform oa twitter (interviews_for twitter platform S is) ([], S));
               H = H\<lparr>h_rest := S'\<rparr>
           in if results \<noteq> [] then
                (Inr True, completed oa command_id
                   (PyDict [(lit ''interviews_count'', PyInt (int (length results))), (lit ''results'', PyDict results)]) H)
              else (Inr False, failed oa command_id [27809, 26377, 25104, 21151, 30340, 37319, 35775] H)))"

text \<open>
  One pass over the command directory.  The result tells whether the process goes on; an exception
  leaves the pass.
\<close>

definition process_commands :: "('p, 'a) oasis \<Rightarrow> 'p platforms host \<Rightarrow> bool res \<times> 'p platforms host" where
  "process_commands oa H =
     (case poll_command (h_dir H) of
        None \<Rightarrow> (Inr True, H)
      | Some command \<Rightarrow>
          if \<not> truthy command then (Inr True, H)
          else (case as_dict command of
            Inl e \<Rightarrow> (Inl e, H)
          | Inr c \<Rightarrow>
              (let command_id = dget_or c (lit ''command_id'') PyNone;
                   command_type = dget_or c (lit ''command_type'') PyNone;
                   args = as_dict (dget_or c (lit ''args'') (PyDict []))
               in if command_type = PyStr (command_type_value INTERVIEW) then
                    (case args of Inl e \<Rightarrow> (Inl e, H)
                     | Inr a \<Rightarrow> (Inr True, snd (handle_interview oa command_id (dget_or a (lit ''agent_id'') (PyInt 0))
                         (dget_or a (lit ''prompt'') (PyStr [])) (dget_or a (lit ''platform'') PyNone) H)))
                  else if command_type = PyStr (command_type_value BATCH_INTERVIEW) then
                    (case args of Inl e \<Rightarrow> (Inl e, H)
                     | Inr a \<Rightarrow> st_bind (handle_batch_interview oa command_id
                         (dget_or a (lit ''interviews'') (PyList [])) (dget_or a (lit ''platform'') PyNone) H)
                         (\<lambda>_ H. (Inr True, H)))
                  else if command_type = PyStr (command_type_value CLOSE_ENV) then
                    (Inr False, completed oa command_id (PyDict [(lit ''message'', PyStr [29615, 22659, 21363, 23558, 20851, 38381])]) H)
                  else (Inr True, failed oa command_id ([26410, 30693, 21629, 20196, 31867, 22411] @ lit '': '' @ fmt (oa_repr oa) command_type) H))))"

text \<open>
  The waiting mode of the simulation process: passes until a close command, an exception or the
  shutdown event; \<open>wait\<close> is half a second or the arrival of that event.
\<close>

partial_function (option) command_loop ::
  "('p, 'a) oasis \<Rightarrow> ('p platforms host \<Rightarrow> bool) \<Rightarrow> ('p platforms host \<Rightarrow> bool \<times> 'p platforms host) \<Rightarrow>
   'p platforms host \<Rightarrow> 'p platforms host option" where
  "command_loop oa shutdown wait H =
     (if shutdown H then Some H
      else (case process_commands oa H of
              (Inl _, H) \<Rightarrow> Some H
            | (Inr continue, H) \<Rightarrow>
                if \<not> continue then Some H
                else (case wait H of
                        (stopped, H) \<Rightarrow> if stopped then Some H else command_loop oa shutdown wait H)))"

definition serve_commands ::
  "('p, 'a) oasis \<Rightarrow> ('p platforms host \<Rightarrow> bool) \<Rightarrow> ('p platforms host \<Rightarrow> bool \<times> 'p platforms host) \<Rightarrow>
   'p platforms host \<Rightarrow> 'p platforms host option" where
  "serve_commands oa shutdown wait H =
     map_option (update_status oa (lit ''stopped'')) (command_loop oa shutdown wait (update_status oa (lit ''alive'') H))"

section \<open>The handler of single platform simulations\<close>

definition single_interview ::
  "('p, 'a) oasis \<Rightarrow> pyval \<Rightarrow> pyval \<Rightarrow> pyval \<Rightarrow> 'p host \<Rightarrow> bool \<times> 'p host" where
  "single_interview oa command_id agent_id prompt H =
     (case oa_get_agent oa (h_rest H) agent_id of
        Inl e \<Rightarrow> (False, failed oa command_id (exn_msg e) H)
      | Inr agent \<Rightarrow>
          (case oa_step oa (h_rest H) [(agent, prompt)] of
             (Inl e, p) \<Rightarrow> (False, failed oa command_id (exn_msg e) (H\<lparr>h_rest := p\<rparr>))
           | (Inr _, p) \<Rightarrow>
               (True, completed oa command_id (PyDict (get_interview_result oa p agent_id)) (H\<lparr>h_rest := p\<rparr>))))"

definition hashable :: "pyval \<Rightarrow> bool" where
  "hashable v = (case v of PyList _ \<Rightarrow> False | PyDict _ \<Rightarrow> False | _ \<Rightarrow> True)"

fun batch_agents :: "('p, 'a) oasis \<Rightarrow> 'p \<Rightarrow> pydict list \<Rightarrow> (pyval \<times> pyval) list \<Rightarrow> (pyval \<times> pyval) list" where
  "batch_agents oa p [] prompts = prompts"
| "batch_agents oa p (i # is) prompts =
     batch_agents oa p is
       (if is_ok (oa_get_agent oa p (agent_of i)) \<and> hashable (agent_of i)
        then dset prompts (agent_of i) (prompt_of i) else prompts)"

text \<open>The text \<^verbatim>\<open>json.dump\<close> gives a dictionary key.\<close>

definition json_key :: "(pyval \<Rightarrow> pystr) \<Rightarrow> pyval \<Rightarrow> pystr" where
  "json_key rp v = (case v of PyStr s \<Rightarrow> s | PyInt i \<Rightarrow> int_str i | PyNone \<Rightarrow> lit ''null''
     | PyBool b \<Rightarrow> (if b then lit ''true'' else lit ''false'') | _ \<Rightarrow> rp v)"

definition single_batch_interview ::
  "('p, 'a) oasis \<Rightarrow> pyval \<Rightarrow> pyval \<Rightarrow> 'p host \<Rightarrow> bool \<times> 'p host" where
  "single_batch_interview oa command_id interviews H =
     (case iter_dicts interviews of
        Inl e \<Rightarrow> (False, failed oa command_id (exn_msg e) H)
      | Inr is \<Rightarrow>
          (let actions = batch_actions oa (h_rest H) is [];
               agent_prompts = batch_agents oa (h_rest H) is []
           in if actions = [] then (False, failed oa command_id ([27809, 26377, 26377, 25928, 30340] @ lit ''Agent'') H)
              else (case oa_step oa (h_rest H) actions of
                      (Inl e, p) \<Rightarrow> (False, failed oa command_id (exn_msg e) (H\<lparr>h_rest := p\<rparr>))
                    | (Inr _, p) \<Rightarrow>
                        (let results = fold (\<lambda>(a, _) rs. dset rs (json_key (oa_repr oa) a)
                                          (PyDict (get_interview_result oa p a))) agent_prompts []
                         in (True, completed oa command_id (PyDict
                              [(lit ''interviews_count'', PyInt (int (length agent_prompts))),
                               (lit ''results'', PyDict results)]) (H\<lparr>h_rest := p\<rparr>))))))"

definition single_process_commands :: "('p, 'a) oasis \<Rightarrow> 'p host \<Rightarrow> bool res \<times> 'p host" where
  "single_process_commands oa H =
     (case poll_command (h_dir H) of
        None \<Rightarrow> (Inr True, H)
      | Some command \<Rightarrow>
          if \<not> truthy command then (Inr True, H)
          else (case as_dict command of
            Inl e \<Rightarrow> (Inl e, H)
          | Inr c \<Rightarrow>
              (let command_id = dget_or c (lit ''command_id'') PyNone;
                   command_type = dget_or c (lit ''command_type'') PyNone;
                   args = as_dict (dget_or c (lit ''args'') (PyDict []))
               in if command_type = PyStr (command_type_value INTERVIEW) then
                    (case args of Inl e \<Rightarrow> (Inl e, H)
                     | Inr a \<Rightarrow> (Inr True, snd (single_interview oa command_id (dget_or a (lit ''agent_id'') (PyInt 0))
                         (dget_or a (lit ''prompt'') (PyStr [])) H)))
                  else if command_type = PyStr (command_type_value BATCH_INTERVIEW) then
                    (case args of Inl e \<Rightarrow> (Inl e, H)
                     | Inr a \<Rightarrow> (Inr True, snd (single_batch_interview oa command_id
                         (dget_or a (lit ''interviews'') (PyList [])) H)))
                  else if command_type = PyStr (command_type_value CLOSE_ENV) then
                    (Inr False, completed oa command_id (PyDict [(lit ''message'', PyStr [29615, 22659, 21363, 23558, 20851, 38381])]) H)
                  else (Inr True, failed oa command_id ([26410, 30693, 21629, 20196, 31867, 22411] @ lit '': '' @ fmt (oa_repr oa) command_type) H))))"

end
