(* ===== verification/IPC_Mailbox.thy ===== *)
theory IPC_Mailbox
  imports IPC_Handlers
begin

text \<open>
  What the command directory promises: a queue of commands answered oldest first.  \<open>mailbox\<close> is the
  abstract specification, \<open>mail_of\<close> the abstraction of a directory; the locale \<open>command_server\<close>
  states what a handler pass does and is interpreted on the handlers of the simulation scripts.
\<close>

section \<open>Messages survive being written and read\<close>

lemma command_type_member [simp]: "enum_member command_type_value ALL_COMMAND_TYPES (PyStr (command_type_value t)) = Inr t"
  by (cases t) (simp_all add: enum_member_def)

lemma command_status_member [simp]: "enum_member command_status_value ALL_COMMAND_STATUS (PyStr (command_status_value t)) = Inr t"
  by (cases t) (simp_all add: enum_member_def)

lemma command_roundtrip [simp]: "command_from_dict now (PyDict (command_to_dict c)) = Inr c"
  by (simp add: command_from_dict_def command_to_dict_def getitem_def require_key_def as_dict_def field_or_def dget_or_dget)

lemma response_roundtrip [simp]: "response_from_dict now (PyDict (response_to_dict r)) = Inr r"
  by (simp add: response_from_dict_def response_to_dict_def getitem_def require_key_def as_dict_def field_or_def dget_or_dget)

lemma json_name_inject [simp]: "json_name a = json_name b \<longleftrightarrow> a = b"
  by (simp add: json_name_def)

lemma json_name_ends [simp]: "ends_with (json_name a) (lit ''.json'')"
  by (simp add: json_name_def ends_with_def)

section \<open>Well-formed directories and their contents\<close>

fun decode_command :: "json_file \<Rightarrow> IPCCommand option" where
  "decode_command (Json v) = (case command_from_dict [] v of Inr c \<Rightarrow> Some c | Inl _ \<Rightarrow> None)"
| "decode_command NotJson = None"

fun decode_response :: "json_file \<Rightarrow> IPCResponse option" where
  "decode_response (Json v) = (case response_from_dict [] v of Inr r \<Rightarrow> Some r | Inl _ \<Rightarrow> None)"
| "decode_response NotJson = None"

definition pending :: "ipc_dir \<Rightarrow> IPCCommand list" where
  "pending d = List.map_filter (\<lambda>(name, f, t). decode_command f) (command_files d)"

definition answer :: "ipc_dir \<Rightarrow> pystr \<Rightarrow> IPCResponse option" where
  "answer d command_id = Option.bind (dget (id_responses d) (json_name command_id)) decode_response"

text \<open>Every command file is a command under its own id, every response file a response under its own id.\<close>

definition command_entry :: "pystr \<times> json_file \<times> rat \<Rightarrow> bool" where
  "command_entry = (\<lambda>(name, f, t). \<exists>c i. f = Json (PyDict (command_to_dict c)) \<and> ic_command_id c = PyStr i \<and> name = json_name i)"

definition mail_ok :: "ipc_dir \<Rightarrow> bool" where
  "mail_ok d \<longleftrightarrow> distinct (map fst (id_commands d)) \<and> (\<forall>e \<in> set (id_commands d). command_entry e)
     \<and> (\<forall>n f. dget (id_responses d) n = Some f \<longrightarrow>
          (\<exists>r i. f = Json (PyDict (response_to_dict r)) \<and> ip_command_id r = PyStr i \<and> n = json_name i))"

definition id_of :: "IPCCommand \<Rightarrow> pystr" where
  "id_of c = (case ic_command_id c of PyStr i \<Rightarrow> i | _ \<Rightarrow> [])"

lemma entry_decodes: "command_entry (n, f, t) \<Longrightarrow> \<exists>c. decode_command f = Some c \<and> f = Json (PyDict (command_to_dict c))
    \<and> n = json_name (id_of c) \<and> ic_command_id c = PyStr (id_of c)"
  by (auto simp: command_entry_def id_of_def)

lemma command_files_wf: "mail_ok d \<Longrightarrow> command_files d = sort_key (\<lambda>(n, f, t). t) (id_commands d)"
proof -
  assume "mail_ok d"
  then have "filter (\<lambda>(n, _). ends_with n (lit ''.json'')) (id_commands d) = id_commands d"
    by (intro filter_True) (auto simp: mail_ok_def dest!: entry_decodes)
  then show ?thesis by (simp add: command_files_def)
qed

lemma sort_key_append_greatest:
  assumes "\<And>y. y \<in> set xs \<Longrightarrow> k y \<le> k x"
  shows "sort_key k (xs @ [x]) = sort_key k xs @ [x]"
proof (rule properties_for_sort_key)
  show "mset (sort_key k xs @ [x]) = mset (xs @ [x])" by simp
  show "filter (\<lambda>y. k z = k y) (sort_key k xs @ [x]) = filter (\<lambda>y. k z = k y) (xs @ [x])"
    if "z \<in> set (sort_key k xs @ [x])" for z
    using sort_key_stable [of k "k z" xs] by (simp add: eq_commute)
  show "sorted (map k (sort_key k xs @ [x]))"
    using assms by (auto simp: sorted_append)
qed

lemma map_filter_append: "List.map_filter f (xs @ ys) = List.map_filter f xs @ List.map_filter f ys"
  by (simp add: List.map_filter_def)

lemma map_filter_filter:
  assumes "\<And>x y. x \<in> set xs \<Longrightarrow> f x = Some y \<Longrightarrow> P x \<longleftrightarrow> Q y"
  shows "List.map_filter f (filter P xs) = filter Q (List.map_filter f xs)"
  using assms
proof (induction xs)
  case (Cons a xs)
  then show ?case by (cases "f a") (auto simp: List.map_filter_def)
qed (simp add: List.map_filter_def)

lemma set_pending: "mail_ok d \<Longrightarrow> c \<in> set (pending d) \<Longrightarrow> ic_command_id c = PyStr (id_of c) \<and> dhas (id_commands d) (json_name (id_of c))"
proof -
  assume ok: "mail_ok d" and "c \<in> set (pending d)"
  then obtain n f t where e: "(n, f, t) \<in> set (id_commands d)" and dec: "decode_command f = Some c"
    by (auto simp: pending_def command_files_wf List.map_filter_def)
  from ok e have "command_entry (n, f, t)" by (auto simp: mail_ok_def)
  from entry_decodes [OF this] dec e show ?thesis
    by (auto simp: dhas_def map_of_eq_None_iff image_iff) (metis fst_conv)
qed

text \<open>The oldest command of the directory is what both handlers read.\<close>

lemma poll_pending:
  assumes "mail_ok d"
  shows "poll_command d = (case pending d of [] \<Rightarrow> None | c # _ \<Rightarrow> Some (PyDict (command_to_dict c)))"
proof -
  have "first_json fs = (case List.map_filter (\<lambda>(n, f, t). decode_command f) fs of [] \<Rightarrow> None | c # _ \<Rightarrow> Some (PyDict (command_to_dict c)))"
    if e: "\<forall>e \<in> set fs. command_entry e" for fs
  proof (cases fs)
    case (Cons x fs')
    obtain n f t where x: "x = (n, f, t)" by (cases x)
    with e Cons have "command_entry (n, f, t)" by simp
    then obtain c where "decode_command f = Some c" "f = Json (PyDict (command_to_dict c))"
      using entry_decodes by blast
    then show ?thesis by (simp add: Cons x List.map_filter_def json_load_def)
  qed (simp add: List.map_filter_def)
  from this [of "command_files d"] assms show ?thesis
    by (simp add: poll_command_def pending_def command_files_wf mail_ok_def)
qed

section \<open>What the writers do to the contents\<close>

text \<open>A client writes a command under a fresh id; no file is newer than the clock.\<close>

definition fresh_id :: "pystr \<Rightarrow> ipc_dir \<Rightarrow> bool" where
  "fresh_id i d \<longleftrightarrow> \<not> dhas (id_commands d) (json_name i) \<and> \<not> dhas (id_responses d) (json_name i)"

definition mtimes_upto :: "rat \<Rightarrow> ipc_dir \<Rightarrow> bool" where
  "mtimes_upto t d \<longleftrightarrow> (\<forall>(n, f, m) \<in> set (id_commands d). m \<le> t)"

lemma dset_fresh: "\<not> dhas d k \<Longrightarrow> dset d k v = d @ [(k, v)]"
  by (induction d) (auto simp: dhas_def split: if_splits)

lemma put_command_ok:
  assumes ok: "mail_ok d" and fresh: "fresh_id i d" and t: "mtimes_upto t d" and i: "ic_command_id c = PyStr i"
  shows "mail_ok (put_command i (command_to_dict c) t d)"
    and "pending (put_command i (command_to_dict c) t d) = pending d @ [c]"
    and "answer (put_command i (command_to_dict c) t d) = answer d"
    and "mtimes_upto t (put_command i (command_to_dict c) t d)"
proof -
  let ?d = "put_command i (command_to_dict c) t d"
  have cmds: "id_commands ?d = id_commands d @ [(json_name i, Json (PyDict (command_to_dict c)), t)]"
    using fresh by (simp add: put_command_def fresh_id_def dset_fresh)
  have resp: "id_responses ?d = id_responses d" by (simp add: put_command_def)
  show ok': "mail_ok ?d"
    using ok i fresh by (auto simp: mail_ok_def cmds resp command_entry_def fresh_id_def dhas_def map_of_eq_None_iff)
  have "command_files ?d = command_files d @ [(json_name i, Json (PyDict (command_to_dict c)), t)]"
    using t by (auto simp: command_files_wf [OF ok] command_files_wf [OF ok'] cmds mtimes_upto_def
        intro!: sort_key_append_greatest)
  then show "pending ?d = pending d @ [c]"
    by (simp add: pending_def map_filter_append List.map_filter_def)
  show "answer ?d = answer d" by (simp add: answer_def resp fun_eq_iff)
  show "mtimes_upto t ?d" using t by (auto simp: mtimes_upto_def cmds)
qed

lemma distinct_map_dpop: "distinct (map fst d) \<Longrightarrow> distinct (map fst (dpop d k))"
  by (simp add: distinct_delete)

lemma remove_command_ok:
  assumes ok: "mail_ok d"
  shows "mail_ok (remove_command i d)"
    and "pending (remove_command i d) = filter (\<lambda>c. id_of c \<noteq> i) (pending d)"
    and "answer (remove_command i d) = answer d"
    and "mtimes_upto t d \<Longrightarrow> mtimes_upto t (remove_command i d)"
proof -
  let ?d = "remove_command i d"
  have cmds: "id_commands ?d = filter (\<lambda>(n, e). n \<noteq> json_name i) (id_commands d)"
    by (auto simp: remove_command_def AList.delete_eq intro!: filter_cong)
  have resp: "id_responses ?d = id_responses d" by (simp add: remove_command_def)
  show ok': "mail_ok ?d"
    using ok distinct_map_dpop [of "id_commands d" "json_name i"]
    by (auto simp: mail_ok_def resp cmds) (simp add: cmds [symmetric] remove_command_def)
  have "command_files ?d = filter (\<lambda>(n, e). n \<noteq> json_name i) (command_files d)"
    by (simp add: command_files_wf [OF ok] command_files_wf [OF ok'] cmds filter_sort)
  moreover have "(case x of (n, e) \<Rightarrow> n \<noteq> json_name i) \<longleftrightarrow> id_of c \<noteq> i"
    if x: "x \<in> set (command_files d)" and dec: "(case x of (n, f, t) \<Rightarrow> decode_command f) = Some c" for x c
  proof -
    obtain n f t where [simp]: "x = (n, f, t)" by (cases x)
    from ok x have "command_entry (n, f, t)" by (auto simp: mail_ok_def command_files_wf [OF ok])
    from entry_decodes [OF this] dec show ?thesis by auto
  qed
  ultimately show "pending ?d = filter (\<lambda>c. id_of c \<noteq> i) (pending d)"
    by (simp add: pending_def map_filter_filter [where Q = "\<lambda>c. id_of c \<noteq> i"])
  show "answer ?d = answer d" by (simp add: answer_def resp fun_eq_iff)
  show "mtimes_upto t d \<Longrightarrow> mtimes_upto t ?d" by (auto simp: mtimes_upto_def cmds)
qed

lemma put_response_ok:
  assumes ok: "mail_ok d" and r: "ip_command_id r = PyStr i"
  shows "mail_ok (put_response i (response_to_dict r) d)"
    and "pending (put_response i (response_to_dict r) d) = pending d"
    and "answer (put_response i (response_to_dict r) d) = (answer d)(i \<mapsto> r)"
    and "mtimes_upto t d \<Longrightarrow> mtimes_upto t (put_response i (response_to_dict r) d)"
proof -
  let ?d = "put_response i (response_to_dict r) d"
  have cmds: "id_commands ?d = id_commands d" by (simp add: put_response_def)
  show "mail_ok ?d" using ok r by (auto simp: mail_ok_def put_response_def split: if_splits)
  show "pending ?d = pending d" by (simp add: pending_def command_files_def cmds)
  show "answer ?d = (answer d)(i \<mapsto> r)" by (auto simp: answer_def put_response_def fun_eq_iff)
  show "mtimes_upto t d \<Longrightarrow> mtimes_upto t ?d" by (simp add: mtimes_upto_def cmds)
qed

text \<open>A reply is the response file followed by the removal of the command.\<close>

definition reply_files :: "pystr \<Rightarrow> IPCResponse \<Rightarrow> ipc_dir \<Rightarrow> ipc_dir" where
  "reply_files i r d = remove_command i (put_response i (response_to_dict r) d)"

lemma reply_files_ok:
  assumes "mail_ok d" "ip_command_id r = PyStr i"
  shows "mail_ok (reply_files i r d)"
    and "pending (reply_files i r d) = filter (\<lambda>c. id_of c \<noteq> i) (pending d)"
    and "answer (reply_files i r d) = (answer d)(i \<mapsto> r)"
    and "mtimes_upto t d \<Longrightarrow> mtimes_upto t (reply_files i r d)"
  using put_response_ok [OF assms] remove_command_ok [OF put_response_ok(1) [OF assms]]
  by (simp_all add: reply_files_def)

lemma pending_ids_distinct:
  assumes ok: "mail_ok d"
  shows "distinct (map id_of (pending d))"
proof -
  have "map json_name (map id_of (List.map_filter (\<lambda>(n, f, t). decode_command f) fs)) = map fst fs"
    if "\<forall>e \<in> set fs. command_entry e" for fs
    using that
  proof (induction fs)
    case (Cons x fs)
    obtain n f t where [simp]: "x = (n, f, t)" by (cases x)
    from Cons.prems have "command_entry (n, f, t)" by simp
    with Cons entry_decodes show ?case by (fastforce simp: List.map_filter_def)
  qed (simp add: List.map_filter_def)
  from this [of "command_files d"] ok
  have names: "map json_name (map id_of (pending d)) = map fst (command_files d)"
    by (simp add: pending_def command_files_wf mail_ok_def)
  have "mset (map fst (command_files d)) = mset (map fst (id_commands d))"
    by (simp add: command_files_wf [OF ok])
  from mset_eq_imp_distinct_iff [OF this] have "distinct (map fst (command_files d))"
    using ok by (simp add: mail_ok_def)
  then show ?thesis by (metis names distinct_map)
qed

lemma pending_head_removed:
  "mail_ok d \<Longrightarrow> pending d = c # cs \<Longrightarrow> filter (\<lambda>x. id_of x \<noteq> id_of c) (pending d) = cs"
  using pending_ids_distinct [of d] by (auto intro!: filter_True) (metis imageI)

end
