(* ===== verification/IPC_Service.thy ===== *)
theory IPC_Service
  imports IPC_Mailbox
begin

text \<open>
  Clients and simulation together.  \<open>command_server\<close> is the contract of a handler pass; the lemmas
  inside it follow a whole exchange, and the interpretations discharge it for the handlers of the
  simulation scripts.
\<close>

section \<open>Commands a handler can serve\<close>

text \<open>The arguments are an object and, for a batch, the interviews a list of objects.\<close>

definition servable :: "IPCCommand \<Rightarrow> bool" where
  "servable c \<longleftrightarrow> (case ic_args c of
      PyDict a \<Rightarrow> ic_command_type c = BATCH_INTERVIEW \<longrightarrow> is_ok (iter_dicts (dget_or a (lit ''interviews'') (PyList [])))
    | _ \<Rightarrow> False)"

section \<open>Exchanges\<close>

text \<open>From \<open>d\<close> to \<open>d'\<close> exactly the commands \<open>cs\<close> at the front of the queue were answered.\<close>

definition answers :: "IPCCommand \<Rightarrow> IPCResponse \<Rightarrow> bool" where
  "answers c r \<longleftrightarrow> ip_command_id r = PyStr (id_of c) \<and> (ip_status r = CMD_COMPLETED \<or> ip_status r = CMD_FAILED)"

definition exchanged :: "ipc_dir \<Rightarrow> IPCCommand list \<Rightarrow> ipc_dir \<Rightarrow> bool" where
  "exchanged d cs d' \<longleftrightarrow> mail_ok d' \<and> pending d = cs @ pending d'
     \<and> (\<forall>c \<in> set cs. \<exists>r. answer d' (id_of c) = Some r \<and> answers c r)
     \<and> (\<forall>i. i \<notin> id_of ` set cs \<longrightarrow> answer d' i = answer d i)"

lemma exchanged_refl: "mail_ok d \<Longrightarrow> exchanged d [] d"
  by (simp add: exchanged_def)

lemma exchanged_reply:
  "mail_ok d \<Longrightarrow> pending d = c # cs \<Longrightarrow> answers c r \<Longrightarrow> exchanged d [c] (reply_files (id_of c) r d)"
  using pending_head_removed [of d c cs] by (simp add: exchanged_def answers_def reply_files_ok)

lemma exchanged_trans:
  assumes "mail_ok d" "exchanged d cs d'" "exchanged d' cs' d''"
  shows "exchanged d (cs @ cs') d''"
proof -
  have "id_of ` set cs \<inter> id_of ` set cs' = {}"
    using pending_ids_distinct [OF assms(1)] assms(2,3) by (auto simp: exchanged_def)
  then have "\<exists>r. answer d'' (id_of c) = Some r \<and> answers c r" if "c \<in> set cs" for c
    using assms(2,3) that by (auto simp: exchanged_def disjoint_iff)
  with assms(2,3) show ?thesis by (auto simp: exchanged_def image_Un)
qed

text \<open>A response file under a well-formed directory is what \<open>answer\<close> shows.\<close>

lemma response_entry:
  assumes "mail_ok d" "dget (id_responses d) (json_name i) = Some f"
  shows "\<exists>r. f = Json (PyDict (response_to_dict r)) \<and> ip_command_id r = PyStr i"
proof -
  from assms obtain r i' where "f = Json (PyDict (response_to_dict r))" "ip_command_id r = PyStr i'" "json_name i = json_name i'"
    unfolding mail_ok_def by blast
  then show ?thesis by auto
qed

lemma answer_file:
  "mail_ok d \<Longrightarrow> dget (id_responses d) (json_name i) = map_option (\<lambda>r. Json (PyDict (response_to_dict r))) (answer d i)"
  by (cases "dget (id_responses d) (json_name i)") (auto simp: answer_def dest!: response_entry)

lemma answer_own_id: "mail_ok d \<Longrightarrow> answer d i = Some r \<Longrightarrow> ip_command_id r = PyStr i"
  by (auto simp: answer_def bind_eq_Some_conv dest!: response_entry)

text \<open>A command that was answered is no longer in the directory, so its response is not collected.\<close>

lemma command_file_pending:
  assumes "mail_ok d" "dhas (id_commands d) (json_name i)"
  shows "i \<in> id_of ` set (pending d)"
proof -
  from assms(2) obtain f t where e: "(json_name i, f, t) \<in> set (id_commands d)"
    by (auto simp: dhas_def dest: map_of_SomeD)
  with assms(1) have "command_entry (json_name i, f, t)" by (auto simp: mail_ok_def)
  from entry_decodes [OF this] e show ?thesis
    by (force simp: pending_def command_files_wf [OF assms(1)] List.map_filter_def image_iff)
qed

lemma collect_answered: "mail_ok d \<Longrightarrow> i \<notin> id_of ` set (pending d) \<Longrightarrow> collect_files i d = d"
  using command_file_pending by (auto simp: collect_files_def)

text \<open>Time passes while the client sleeps, and the simulation makes a pass.\<close>

definition tick :: "('w host \<Rightarrow> bool res \<times> 'w host) \<Rightarrow> rat \<Rightarrow> 'w host \<Rightarrow> 'w host" where
  "tick pass t H = snd (pass (H\<lparr>h_time := h_time H + t\<rparr>))"

section \<open>The contract of a pass\<close>

locale command_server =
  fixes pass :: "'w host \<Rightarrow> bool res \<times> 'w host"
  assumes idle: "mail_ok (h_dir H) \<Longrightarrow> pending (h_dir H) = [] \<Longrightarrow> pass H = (Inr True, H)"
    and answers_oldest: "mail_ok (h_dir H) \<Longrightarrow> pending (h_dir H) = c # cs \<Longrightarrow> servable c \<Longrightarrow>
      \<exists>r H'. pass H = (Inr (ic_command_type c \<noteq> CLOSE_ENV), H') \<and> h_time H' = h_time H
        \<and> h_dir H' = reply_files (id_of c) r (h_dir H) \<and> answers c r"
    and refuses: "mail_ok (h_dir H) \<Longrightarrow> pending (h_dir H) = c # cs \<Longrightarrow> \<not> servable c \<Longrightarrow>
      (\<exists>e. pass H = (Inl e, H)) \<or> (\<exists>b r H'. pass H = (Inr b, H') \<and> h_time H' = h_time H
        \<and> h_dir H' = reply_files (id_of c) r (h_dir H) \<and> answers c r)"
begin

lemma pass_effect:
  assumes "mail_ok (h_dir H)" "pass H = (b, H')"
  shows "h_time H' = h_time H \<and> (\<exists>cs. length cs \<le> 1 \<and> exchanged (h_dir H) cs (h_dir H'))"
proof (cases "pending (h_dir H)")
  case Nil
  with idle [OF assms(1)] assms show ?thesis by (auto intro: exchanged_refl exI [of _ "[]"])
next
  case (Cons c cs)
  have "H' = H \<or> h_time H' = h_time H \<and> (\<exists>r. h_dir H' = reply_files (id_of c) r (h_dir H) \<and> answers c r)"
    using answers_oldest [OF assms(1) Cons] refuses [OF assms(1) Cons] assms(2) by (cases "servable c") auto
  then show ?thesis
  proof
    assume "H' = H"
    with assms(1) show ?thesis by (auto intro: exchanged_refl exI [of _ "[]"])
  next
    assume "h_time H' = h_time H \<and> (\<exists>r. h_dir H' = reply_files (id_of c) r (h_dir H) \<and> answers c r)"
    with exchanged_reply [OF assms(1) Cons] show ?thesis by (auto intro: exI [of _ "[c]"])
  qed
qed

lemma tick_serves:
  assumes "mail_ok (h_dir H)" "pending (h_dir H) = c # cs" "servable c"
  shows "exchanged (h_dir H) [c] (h_dir (tick pass t H)) \<and> h_time (tick pass t H) = h_time H + t"
  using answers_oldest [of "H\<lparr>h_time := h_time H + t\<rparr>" c cs] assms exchanged_reply [OF assms(1,2)]
  by (auto simp: tick_def)

lemma ticks_serve:
  assumes "mail_ok (h_dir H)" "pending (h_dir H) = cs @ ds" "\<forall>c \<in> set cs. servable c"
  shows "exchanged (h_dir H) cs (h_dir ((tick pass t ^^ length cs) H)) \<and> h_time ((tick pass t ^^ length cs) H) = h_time H + of_nat (length cs) * t"
  using assms
proof (induction cs arbitrary: H)
  case (Cons c cs)
  from Cons.prems have "servable c" by simp
  with tick_serves [of H c "cs @ ds"] Cons.prems have ex: "exchanged (h_dir H) [c] (h_dir (tick pass t H))"
    and time: "h_time (tick pass t H) = h_time H + t" by auto
  from ex have "mail_ok (h_dir (tick pass t H))" "pending (h_dir (tick pass t H)) = cs @ ds"
    using Cons.prems(2) by (simp_all add: exchanged_def)
  with Cons.IH [of "tick pass t H"] Cons.prems(3) time exchanged_trans [OF Cons.prems(1) ex]
  show ?case by (auto simp: funpow_Suc_right algebra_simps simp del: funpow.simps)
qed (simp add: exchanged_refl)

text \<open>The client finds its response as soon as the queue ahead of it and its own command are served.\<close>

lemma await_served:
  assumes "oe_sleep env = tick pass" "0 < poll_interval"
    and "mail_ok (h_dir H)" "pending (h_dir H) = cs @ [c]" "\<forall>x \<in> set (cs @ [c]). servable x"
    and "answer (h_dir H) (id_of c) = None"
    and "h_time H - start_time + of_nat (length cs + 1) * poll_interval < timeout"
  shows "\<exists>r H'. await_response env (id_of c) timeout poll_interval start_time H = Some (Inr r, H')
           \<and> answers c r \<and> mail_ok (h_dir H') \<and> pending (h_dir H') = []"
  using assms(3-)
proof (induction cs arbitrary: H)
  case Nil
  let ?H = "tick pass poll_interval H"
  from Nil have ex: "exchanged (h_dir H) [c] (h_dir ?H)" and time: "h_time ?H = h_time H + poll_interval"
    using tick_serves [of H c "[]"] by auto
  then obtain r where r: "answer (h_dir ?H) (id_of c) = Some r" "answers c r" and ok: "mail_ok (h_dir ?H)"
    and none: "pending (h_dir ?H) = []"
    using Nil.prems(2) by (auto simp: exchanged_def)
  have gone: "dget (id_responses (h_dir H)) (json_name (id_of c)) = None"
    using answer_file [OF Nil.prems(1)] Nil.prems(4) by simp
  have there: "dget (id_responses (h_dir ?H)) (json_name (id_of c)) = Some (Json (PyDict (response_to_dict r)))"
    using answer_file [OF ok] r by simp
  have "await_response env (id_of c) timeout poll_interval start_time H
      = await_response env (id_of c) timeout poll_interval start_time ?H"
    using Nil.prems(5) assms(1,2) gone by (subst await_response.simps) simp
  also have "\<dots> = Some (Inr r, ?H\<lparr>h_dir := collect_files (id_of c) (h_dir ?H)\<rparr>)"
    using Nil.prems(5) time there by (subst await_response.simps) (simp add: read_response_def json_load_def)
  finally show ?case
    using r ok none collect_answered [OF ok] by auto
next
  case (Cons x xs)
  let ?H = "tick pass poll_interval H"
  from Cons.prems have ex: "exchanged (h_dir H) [x] (h_dir ?H)" and time: "h_time ?H = h_time H + poll_interval"
    using tick_serves [of H x "xs @ [c]"] by auto
  have new: "id_of c \<noteq> id_of x"
    using pending_ids_distinct [OF Cons.prems(1)] Cons.prems(2) by auto
  have rest: "mail_ok (h_dir ?H)" "pending (h_dir ?H) = xs @ [c]" "answer (h_dir ?H) (id_of c) = None"
    using ex Cons.prems(2,4) new by (auto simp: exchanged_def)
  have "of_nat (length (x # xs) + 1) * poll_interval = poll_interval + of_nat (length xs + 1) * poll_interval"
    by (simp add: algebra_simps)
  with Cons.prems(5) time have late: "h_time ?H - start_time + of_nat (length xs + 1) * poll_interval < timeout" by simp
  have "0 \<le> of_nat (length (x # xs) + 1) * poll_interval" using assms(2) by simp
  then have early: "h_time H - start_time < timeout" using Cons.prems(5) by linarith
  have "dget (id_responses (h_dir H)) (json_name (id_of c)) = None"
    using answer_file [OF Cons.prems(1)] Cons.prems(4) by simp
  then have "await_response env (id_of c) timeout poll_interval start_time H
      = await_response env (id_of c) timeout poll_interval start_time ?H"
    using early assms(1) by (subst await_response.simps) simp
  with Cons.IH [OF rest(1,2) _ rest(3) late] Cons.prems(3) show ?case by simp
qed

end

section \<open>The handlers keep the contract\<close>

lemma respond_reply:
  "h_dir (respond oa (PyStr i) st res err H) = reply_files i
     \<lparr>ip_command_id = PyStr i, ip_status = st, ip_result = res, ip_error = err,
      ip_timestamp = PyStr (oa_iso oa (h_time H))\<rparr> (h_dir H)"
  "h_time (respond oa (PyStr i) st res err H) = h_time H"
  by (simp_all add: respond_def send_response_def reply_files_def fmt_def Let_def)

text \<open>\<open>replied c H H'\<close>: the only change to the directory is the reply to \<open>c\<close>.\<close>

definition replied :: "IPCCommand \<Rightarrow> 'w host \<Rightarrow> 'w host \<Rightarrow> bool" where
  "replied c H H' \<longleftrightarrow> h_time H' = h_time H \<and> (\<exists>r. h_dir H' = reply_files (id_of c) r (h_dir H) \<and> answers c r)"

lemma respond_replied [intro]:
  "st = CMD_COMPLETED \<or> st = CMD_FAILED \<Longrightarrow> h_dir H = h_dir H0 \<Longrightarrow> h_time H = h_time H0 \<Longrightarrow>
   replied c H0 (respond oa (PyStr (id_of c)) st res err H)"
  by (auto simp: replied_def respond_reply answers_def)

lemma handle_interview_replied: "replied c H (snd (handle_interview oa (PyStr (id_of c)) a pr pl H))"
  by (auto simp: handle_interview_def Let_def split: prod.splits option.splits)

lemma handle_batch_replied:
  "case iter_dicts ivs of
      Inl e \<Rightarrow> handle_batch_interview oa (PyStr (id_of c)) ivs pl H = (Inl e, H)
    | Inr _ \<Rightarrow> \<exists>b H'. handle_batch_interview oa (PyStr (id_of c)) ivs pl H = (Inr b, H') \<and> replied c H H'"
  by (auto simp: handle_batch_interview_def Let_def split: prod.splits sum.splits)

lemma single_interview_replied: "replied c H (snd (single_interview oa (PyStr (id_of c)) a pr H))"
  by (auto simp: single_interview_def split: prod.splits sum.splits)

lemma single_batch_replied: "replied c H (snd (single_batch_interview oa (PyStr (id_of c)) is H))"
  by (auto simp: single_batch_interview_def Let_def split: prod.splits sum.splits)

text \<open>A pass over a directory whose oldest command is \<open>c\<close>.\<close>

lemma command_fields [simp]:
  "dget_or (command_to_dict c) (lit ''command_id'') v = ic_command_id c"
  "dget_or (command_to_dict c) (lit ''command_type'') v = PyStr (command_type_value (ic_command_type c))"
  "dget_or (command_to_dict c) (lit ''args'') v = ic_args c"
  "command_to_dict c \<noteq> []"
  by (simp_all add: command_to_dict_def dget_or_dget)

lemma process_head:
  assumes "mail_ok (h_dir H)" "pending (h_dir H) = c # cs"
  shows "servable c \<Longrightarrow> \<exists>H'. process_commands oa H = (Inr (ic_command_type c \<noteq> CLOSE_ENV), H') \<and> replied c H H'"
    and "(\<exists>e. process_commands oa H = (Inl e, H)) \<or> (\<exists>b H'. process_commands oa H = (Inr b, H') \<and> replied c H H')"
proof -
  have i: "ic_command_id c = PyStr (id_of c)"
    using set_pending [OF assms(1), of c] assms(2) by simp
  have poll: "poll_command (h_dir H) = Some (PyDict (command_to_dict c))"
    using poll_pending [OF assms(1)] assms(2) by simp
  show "\<exists>H'. process_commands oa H = (Inr (ic_command_type c \<noteq> CLOSE_ENV), H') \<and> replied c H H'" if sv: "servable c"
  proof (cases "ic_command_type c")
    case BATCH_INTERVIEW
    from sv obtain a where a: "ic_args c = PyDict a" by (auto simp: servable_def split: pyval.splits)
    with sv BATCH_INTERVIEW obtain xs where xs: "iter_dicts (dget_or a (lit ''interviews'') (PyList [])) = Inr xs"
      by (auto simp: servable_def elim: is_ok.elims)
    from handle_batch_replied
        [where ivs = "dget_or a (lit ''interviews'') (PyList [])" and oa = oa and c = c and H = H
         and pl = "dget_or a (lit ''platform'') PyNone"] xs
    show ?thesis using a BATCH_INTERVIEW by (auto simp: process_commands_def as_dict_def Let_def poll i)
  qed (use sv handle_interview_replied in \<open>auto simp: process_commands_def as_dict_def Let_def poll i servable_def
        split: pyval.splits\<close>)
  show "(\<exists>e. process_commands oa H = (Inl e, H)) \<or> (\<exists>b H'. process_commands oa H = (Inr b, H') \<and> replied c H H')"
  proof (cases "ic_command_type c")
    case BATCH_INTERVIEW
    show ?thesis
    proof (cases "as_dict (ic_args c)")
      case (Inr a)
      from handle_batch_replied
        [where ivs = "dget_or a (lit ''interviews'') (PyList [])" and oa = oa and c = c and H = H
         and pl = "dget_or a (lit ''platform'') PyNone"]
      show ?thesis using Inr BATCH_INTERVIEW
        by (cases "iter_dicts (dget_or a (lit ''interviews'') (PyList []))")
          (auto simp: process_commands_def as_dict_def [of "PyDict _"] Let_def poll i)
    qed (use BATCH_INTERVIEW in \<open>auto simp: process_commands_def as_dict_def [of "PyDict _"] Let_def poll i\<close>)
  qed (use handle_interview_replied in \<open>auto simp: process_commands_def as_dict_def [of "PyDict _"] Let_def poll i
        split: sum.splits\<close>)
qed

lemma single_process_head:
  assumes "mail_ok (h_dir H)" "pending (h_dir H) = c # cs"
  shows "servable c \<Longrightarrow> \<exists>H'. single_process_commands oa H = (Inr (ic_command_type c \<noteq> CLOSE_ENV), H') \<and> replied c H H'"
    and "(\<exists>e. single_process_commands oa H = (Inl e, H)) \<or> (\<exists>b H'. single_process_commands oa H = (Inr b, H') \<and> replied c H H')"
proof -
  have i: "ic_command_id c = PyStr (id_of c)"
    using set_pending [OF assms(1), of c] assms(2) by simp
  have poll: "poll_command (h_dir H) = Some (PyDict (command_to_dict c))"
    using poll_pending [OF assms(1)] assms(2) by simp
  show "\<exists>H'. single_process_commands oa H = (Inr (ic_command_type c \<noteq> CLOSE_ENV), H') \<and> replied c H H'" if sv: "servable c"
    using sv single_interview_replied single_batch_replied
    by (cases "ic_command_type c")
      (auto simp: single_process_commands_def as_dict_def Let_def poll i servable_def
        split: pyval.splits)
  show "(\<exists>e. single_process_commands oa H = (Inl e, H)) \<or> (\<exists>b H'. single_process_commands oa H = (Inr b, H') \<and> replied c H H')"
    using single_interview_replied single_batch_replied
    by (cases "ic_command_type c")
      (auto simp: single_process_commands_def as_dict_def [of "PyDict _"] Let_def poll i
        split: sum.splits)
qed

lemma idle_passes:
  "mail_ok (h_dir H) \<Longrightarrow> pending (h_dir H) = [] \<Longrightarrow> process_commands oa H = (Inr True, H)"
  "mail_ok (h_dir G) \<Longrightarrow> pending (h_dir G) = [] \<Longrightarrow> single_process_commands oa G = (Inr True, G)"
  using poll_pending [of "h_dir H"] poll_pending [of "h_dir G"]
  by (simp_all add: process_commands_def single_process_commands_def)

lemma command_serverI:
  assumes "\<And>H. mail_ok (h_dir H) \<Longrightarrow> pending (h_dir H) = [] \<Longrightarrow> pass H = (Inr True, H)"
    and "\<And>H c cs. mail_ok (h_dir H) \<Longrightarrow> pending (h_dir H) = c # cs \<Longrightarrow> servable c \<Longrightarrow>
      \<exists>H'. pass H = (Inr (ic_command_type c \<noteq> CLOSE_ENV), H') \<and> replied c H H'"
    and "\<And>H c cs. mail_ok (h_dir H) \<Longrightarrow> pending (h_dir H) = c # cs \<Longrightarrow>
      (\<exists>e. pass H = (Inl e, H)) \<or> (\<exists>b H'. pass H = (Inr b, H') \<and> replied c H H')"
  shows "command_server pass"
proof
  show "pass H = (Inr True, H)" if "mail_ok (h_dir H)" "pending (h_dir H) = []" for H
    using assms(1) that .
  show "\<exists>r H'. pass H = (Inr (ic_command_type c \<noteq> CLOSE_ENV), H') \<and> h_time H' = h_time H
      \<and> h_dir H' = reply_files (id_of c) r (h_dir H) \<and> answers c r"
    if "mail_ok (h_dir H)" "pending (h_dir H) = c # cs" "servable c" for H c cs
    using assms(2) [OF that] by (auto simp: replied_def)
  show "(\<exists>e. pass H = (Inl e, H)) \<or> (\<exists>b r H'. pass H = (Inr b, H') \<and> h_time H' = h_time H
      \<and> h_dir H' = reply_files (id_of c) r (h_dir H) \<and> answers c r)"
    if "mail_ok (h_dir H)" "pending (h_dir H) = c # cs" for H c cs
    using assms(3) [OF that] by (fastforce simp: replied_def)
qed

interpretation parallel: command_server "process_commands oa" for oa :: "('p, 'a) oasis"
  by (rule command_serverI) (auto simp: idle_passes dest: process_head)

interpretation single: command_server "single_process_commands oa" for oa :: "('p, 'a) oasis"
  by (rule command_serverI) (auto simp: idle_passes dest: single_process_head)

end
