(* ===== verification/IPC_Refinement.thy ===== *)
theory IPC_Refinement
  imports IPC_Service
begin

text \<open>
  The properties of the interview channel: the directory refines a mail box, a client call returns,
  it gets the answer to its own command, and the waiting mode of a simulation serves its commands in
  order until it is closed.
\<close>

section \<open>The mail box\<close>

record mailbox =
  mb_queue :: "IPCCommand list"
  mb_answers :: "pystr \<Rightarrow> IPCResponse option"

text \<open>
  What may happen to a mail box: a command with a new id is appended, the oldest command is
  answered, a command is withdrawn.  Answers are never changed or lost.
\<close>

inductive mail_run :: "mailbox \<Rightarrow> bool" where
  empty: "mail_run \<lparr>mb_queue = [], mb_answers = Map.empty\<rparr>"
| posted: "mail_run m \<Longrightarrow> ic_command_id c = PyStr (id_of c) \<Longrightarrow> id_of c \<notin> id_of ` set (mb_queue m) \<union> dom (mb_answers m) \<Longrightarrow>
    mail_run (m\<lparr>mb_queue := mb_queue m @ [c]\<rparr>)"
| answered: "mail_run m \<Longrightarrow> mb_queue m = c # cs \<Longrightarrow> answers c r \<Longrightarrow>
    mail_run \<lparr>mb_queue = cs, mb_answers = (mb_answers m)(id_of c \<mapsto> r)\<rparr>"
| withdrawn: "mail_run m \<Longrightarrow> mail_run (m\<lparr>mb_queue := filter (\<lambda>c. id_of c \<noteq> i) (mb_queue m)\<rparr>)"

lemma mail_run_disjoint: "mail_run m \<Longrightarrow> distinct (map id_of (mb_queue m)) \<and> id_of ` set (mb_queue m) \<inter> dom (mb_answers m) = {}"
proof (induction rule: mail_run.induct)
  case (answered m c cs r)
  then show ?case by (auto simp: disjoint_iff dom_def)
qed (auto simp: distinct_map_filter)

definition mail_of :: "ipc_dir \<Rightarrow> mailbox" where
  "mail_of d = \<lparr>mb_queue = pending d, mb_answers = answer d\<rparr>"

text \<open>
  The steps of the clients and of the simulation on the directory: \<open>written\<close> and \<open>timed_out\<close> are
  the two ends of \<^verbatim>\<open>send_command\<close>, \<open>collected\<close> its success.
\<close>

inductive ipc_run :: "('w host \<Rightarrow> bool res \<times> 'w host) \<Rightarrow> 'w host \<Rightarrow> bool" for pass where
  start: "id_commands (h_dir H) = [] \<Longrightarrow> id_responses (h_dir H) = [] \<Longrightarrow> ipc_run pass H"
| written: "ipc_run pass H \<Longrightarrow> fresh_id i (h_dir H) \<Longrightarrow> ic_command_id c = PyStr i \<Longrightarrow>
    ipc_run pass (H\<lparr>h_dir := put_command i (command_to_dict c) (h_time H) (h_dir H)\<rparr>)"
| timed_out: "ipc_run pass H \<Longrightarrow> ipc_run pass (H\<lparr>h_dir := remove_command i (h_dir H)\<rparr>)"
| collected: "ipc_run pass H \<Longrightarrow> dget (id_responses (h_dir H)) (json_name i) = Some f \<Longrightarrow>
    ipc_run pass (H\<lparr>h_dir := collect_files i (h_dir H)\<rparr>)"
| passed: "ipc_run pass H \<Longrightarrow> pass H = (b, H') \<Longrightarrow> ipc_run pass H'"
| elapsed: "ipc_run pass H \<Longrightarrow> h_time H \<le> t \<Longrightarrow> ipc_run pass (H\<lparr>h_time := t\<rparr>)"

lemma mtimes_mono: "mtimes_upto s d \<Longrightarrow> s \<le> t \<Longrightarrow> mtimes_upto t d"
  by (force simp: mtimes_upto_def)

lemma id_of_eq: "ic_command_id c = PyStr i \<Longrightarrow> id_of c = i"
  by (simp add: id_of_def)

context command_server
begin

lemma ipc_run_refines:
  assumes "ipc_run pass H"
  shows "mail_ok (h_dir H) \<and> mtimes_upto (h_time H) (h_dir H) \<and> mail_run (mail_of (h_dir H))"
  using assms
proof induction
  case (start H)
  then have "pending (h_dir H) = []" "answer (h_dir H) = Map.empty"
    by (simp_all add: pending_def command_files_def List.map_filter_def answer_def fun_eq_iff)
  with start mail_run.empty show ?case by (simp add: mail_ok_def mtimes_upto_def mail_of_def)
next
  case (written H i c)
  then have ok: "mail_ok (h_dir H)" and t: "mtimes_upto (h_time H) (h_dir H)" by simp_all
  note put = put_command_ok [OF ok written.hyps(2) t written.hyps(3)]
  have c: "id_of c = i" by (rule id_of_eq [OF written.hyps(3)])
  have "i \<notin> id_of ` set (pending (h_dir H))"
    using set_pending [OF ok] written.hyps(2) by (auto simp: fresh_id_def)
  moreover have "answer (h_dir H) i = None"
    using written.hyps(2) by (simp add: answer_def fresh_id_def dhas_iff_dget)
  ultimately have "mail_run ((mail_of (h_dir H))\<lparr>mb_queue := mb_queue (mail_of (h_dir H)) @ [c]\<rparr>)"
    using mail_run.posted [of "mail_of (h_dir H)" c] written.IH written.hyps(3) by (simp add: mail_of_def domIff c)
  with put show ?case by (simp add: mail_of_def)
next
  case (timed_out H i)
  from mail_run.withdrawn [of "mail_of (h_dir H)" i] timed_out remove_command_ok [where d = "h_dir H" and i = i]
  show ?case by (simp add: mail_of_def)
next
  case (collected H i f)
  then have "answer (h_dir H) i \<noteq> None" using answer_file by fastforce
  with mail_run_disjoint [of "mail_of (h_dir H)"] collected
  have "i \<notin> id_of ` set (pending (h_dir H))" by (auto simp: mail_of_def)
  with collected collect_answered show ?case by simp
next
  case (passed H b H')
  then have ok: "mail_ok (h_dir H)" by simp
  show ?case
  proof (cases "pending (h_dir H)")
    case Nil
    with idle [OF ok] passed show ?thesis by simp
  next
    case (Cons c cs)
    have "H' = H \<or> h_time H' = h_time H \<and> (\<exists>r. h_dir H' = reply_files (id_of c) r (h_dir H) \<and> answers c r)"
      using answers_oldest [OF ok Cons] refuses [OF ok Cons] passed.hyps(2) by (cases "servable c") auto
    then show ?thesis
    proof
      assume "H' = H"
      with passed show ?thesis by simp
    next
      assume "h_time H' = h_time H \<and> (\<exists>r. h_dir H' = reply_files (id_of c) r (h_dir H) \<and> answers c r)"
      then obtain r where r: "h_time H' = h_time H" "h_dir H' = reply_files (id_of c) r (h_dir H)" "answers c r" by auto
      have "mail_run \<lparr>mb_queue = cs, mb_answers = (mb_answers (mail_of (h_dir H)))(id_of c \<mapsto> r)\<rparr>"
        using mail_run.answered [of "mail_of (h_dir H)" c cs r] passed.IH Cons r(3) by (simp add: mail_of_def)
      moreover have "ip_command_id r = PyStr (id_of c)" using r(3) by (simp add: answers_def)
      ultimately show ?thesis
        using passed r reply_files_ok [OF ok] pending_head_removed [OF ok Cons] by (simp add: mail_of_def)
    qed
  qed
next
  case (elapsed H t)
  then show ?case using mtimes_mono by auto
qed

text \<open>The same for a whole call of the client.\<close>

lemma send_served:
  assumes "oe_sleep env = tick pass" "0 < poll_interval" "mail_ok (h_dir H)" "mtimes_upto (h_time H) (h_dir H)"
    and "fresh_id uuid (h_dir H)" "\<forall>c \<in> set (pending (h_dir H)). servable c"
    and "servable (new_command env uuid ty args (h_time H))"
    and "of_nat (length (pending (h_dir H)) + 1) * poll_interval < timeout"
  shows "\<exists>r H'. send_command env uuid ty args timeout poll_interval H = Some (Inr r, H')
     \<and> ip_command_id r = PyStr uuid \<and> (ip_status r = CMD_COMPLETED \<or> ip_status r = CMD_FAILED)
     \<and> pending (h_dir H') = []"
proof -
  let ?c = "new_command env uuid ty args (h_time H)"
  let ?d = "put_command uuid (command_to_dict ?c) (h_time H) (h_dir H)"
  let ?H = "H\<lparr>h_dir := ?d\<rparr>"
  have c: "ic_command_id ?c = PyStr uuid" by (simp add: new_command_def)
  have i: "id_of ?c = uuid" by (rule id_of_eq [OF c])
  note put = put_command_ok [OF assms(3,5,4) c]
  have none: "answer ?d (id_of ?c) = None"
    using assms(5) by (simp add: put i answer_def fresh_id_def dhas_iff_dget)
  have "\<exists>r H'. await_response env (id_of ?c) timeout poll_interval (h_time H) ?H = Some (Inr r, H')
           \<and> answers ?c r \<and> mail_ok (h_dir H') \<and> pending (h_dir H') = []"
    by (rule await_served [OF assms(1,2), where cs = "pending (h_dir H)"])
      (use put none assms(6-) in \<open>simp_all\<close>)
  then show ?thesis by (auto simp: send_command_def Let_def i answers_def)
qed

end

section \<open>Properties of the channel\<close>


lemma await_returns:
  assumes "0 < p" "\<forall>H. h_time H + p \<le> h_time (oe_sleep env p H)"
  shows "\<exists>y. await_response env i timeout p start H = Some y"
proof (induction "nat \<lceil>(timeout - (h_time H - start)) / p\<rceil>" arbitrary: H rule: less_induct)
  case less
  let ?H = "oe_sleep env p H"
  show ?case
  proof (cases "h_time H - start < timeout")
    case True
    define x where "x = timeout - (h_time H - start)"
    have "timeout - (h_time ?H - start) \<le> x - p" using spec [OF assms(2), of H] by (simp add: x_def)
    then have "(timeout - (h_time ?H - start)) / p \<le> (x - p) / p" using assms(1) by (simp add: divide_right_mono)
    also have "(x - p) / p = x / p - 1" using assms(1) by (simp add: diff_divide_distrib)
    finally have "\<lceil>(timeout - (h_time ?H - start)) / p\<rceil> \<le> \<lceil>x / p\<rceil> - 1" by linarith
    moreover have "0 < x / p" using True assms(1) by (simp add: x_def)
    then have "0 < \<lceil>x / p\<rceil>" by simp
    ultimately have "nat \<lceil>(timeout - (h_time ?H - start)) / p\<rceil> < nat \<lceil>x / p\<rceil>" by linarith
    then have "\<exists>y. await_response env i timeout p start ?H = Some y" using less by (simp add: x_def)
    then show ?thesis by (subst await_response.simps) (auto split: option.splits sum.splits)
  qed (subst await_response.simps, simp)
qed

text \<open>
  C12: Termination.  When sleeping lets at least the poll interval pass, \<^verbatim>\<open>send_command\<close> returns, whatever
  the other process writes.
\<close>

theorem send_command_returns:
  assumes "0 < poll_interval" "\<forall>H. h_time H + poll_interval \<le> h_time (oe_sleep env poll_interval H)"
  shows "\<exists>r H'. send_command env uuid ty args timeout poll_interval H = Some (r, H')"
  using await_returns [OF assms] by (auto simp: send_command_def Let_def)

text \<open>
  C11: Progress.  While the client sleeps the simulation makes one pass.  If nothing ahead of the
  command closes the environment, the commands are servable and the timeout covers one poll interval
  for each of them, then \<^verbatim>\<open>send_command\<close> returns a completed or failed response to its own command.
\<close>

theorem send_command_answered:
  assumes "\<forall>p H. oe_sleep env p H = snd (process_commands oa (H\<lparr>h_time := h_time H + p\<rparr>))"
    and "0 < poll_interval" "mail_ok (h_dir H)" "mtimes_upto (h_time H) (h_dir H)" "fresh_id uuid (h_dir H)"
    and "\<forall>c \<in> set (pending (h_dir H)). servable c \<and> ic_command_type c \<noteq> CLOSE_ENV"
    and "servable (new_command env uuid ty args (h_time H))"
    and "of_nat (length (pending (h_dir H)) + 1) * poll_interval < timeout"
  shows "\<exists>r H'. send_command env uuid ty args timeout poll_interval H = Some (Inr r, H')
     \<and> ip_command_id r = PyStr uuid \<and> (ip_status r = CMD_COMPLETED \<or> ip_status r = CMD_FAILED)
     \<and> pending (h_dir H') = []"
proof (rule parallel.send_served)
  show "oe_sleep env = tick (process_commands oa)"
    using assms(1) by (simp add: fun_eq_iff tick_def)
qed (use assms(2-) in auto)

section \<open>The waiting mode\<close>

lemma status_frame [simp]:
  "pending (d\<lparr>id_status := s\<rparr>) = pending d" "answer (d\<lparr>id_status := s\<rparr>) = answer d" "mail_ok (d\<lparr>id_status := s\<rparr>) = mail_ok d"
  by (simp_all add: pending_def command_files_def answer_def mail_ok_def fun_eq_iff)

lemma exchanged_status [simp]:
  "exchanged (d\<lparr>id_status := s\<rparr>) cs d' = exchanged d cs d'" "exchanged d cs (d'\<lparr>id_status := s\<rparr>) = exchanged d cs d'"
  by (simp_all add: exchanged_def)

lemma parallel_pass:
  assumes "mail_ok (h_dir H)" "pending (h_dir H) = c # cs" "servable c"
  obtains H' where "process_commands oa H = (Inr (ic_command_type c \<noteq> CLOSE_ENV), H')" "exchanged (h_dir H) [c] (h_dir H')"
  using parallel.answers_oldest [OF assms] exchanged_reply [OF assms(1,2)] by metis

lemma command_loop_closes:
  assumes "\<forall>H. \<not> shutdown H" "\<forall>H. \<exists>t. wait H = (False, H\<lparr>h_time := t\<rparr>)"
    and "mail_ok (h_dir H)" "pending (h_dir H) = cs @ c # ds" "\<forall>x \<in> set (cs @ [c]). servable x"
    and "\<forall>x \<in> set cs. ic_command_type x \<noteq> CLOSE_ENV" "ic_command_type c = CLOSE_ENV"
  shows "\<exists>H'. command_loop oa shutdown wait H = Some H' \<and> exchanged (h_dir H) (cs @ [c]) (h_dir H')"
  using assms(3-6)
proof (induction cs arbitrary: H)
  case Nil
  then obtain H' where "process_commands oa H = (Inr False, H')" "exchanged (h_dir H) [c] (h_dir H')"
    using parallel_pass [of H c ds oa] assms(7) by auto
  then show ?case using assms(1) by (subst command_loop.simps) simp
next
  case (Cons x xs)
  then obtain H' where p: "process_commands oa H = (Inr True, H')" and ex: "exchanged (h_dir H) [x] (h_dir H')"
    using parallel_pass [of H x "xs @ c # ds" oa] by auto
  from assms(2) obtain t where w: "wait H' = (False, H'\<lparr>h_time := t\<rparr>)" by blast
  have "\<exists>H''. command_loop oa shutdown wait (H'\<lparr>h_time := t\<rparr>) = Some H'' \<and> exchanged (h_dir H') (xs @ [c]) (h_dir H'')"
    using Cons.IH [of "H'\<lparr>h_time := t\<rparr>"] Cons.prems ex by (auto simp: exchanged_def)
  with exchanged_trans [OF Cons.prems(1) ex] show ?case
    using assms(1) p w by (subst command_loop.simps) auto
qed

text \<open>
  C13: Waiting mode.  Unless it is shut down, a simulation whose oldest close command has only servable
  commands ahead of it answers exactly these and the close command, oldest first, leaves the rest
  queued, ends, and is no longer reported alive.
\<close>

theorem serve_until_closed:
  assumes "\<forall>H. \<not> shutdown H" "\<forall>H. \<exists>t. wait H = (False, H\<lparr>h_time := t\<rparr>)"
    and "mail_ok (h_dir H)" "pending (h_dir H) = cs @ c # ds" "\<forall>x \<in> set (cs @ [c]). servable x"
    and "\<forall>x \<in> set cs. ic_command_type x \<noteq> CLOSE_ENV" "ic_command_type c = CLOSE_ENV"
  shows "\<exists>H'. serve_commands oa shutdown wait H = Some H' \<and> pending (h_dir H') = ds
     \<and> (\<forall>x \<in> set (cs @ [c]). \<exists>r. answer (h_dir H') (id_of x) = Some r \<and> answers x r)
     \<and> (\<forall>i. i \<notin> id_of ` set (cs @ [c]) \<longrightarrow> answer (h_dir H') i = answer (h_dir H) i)
     \<and> check_env_alive (h_dir H') = Inr False"
proof -
  let ?H = "update_status oa (lit ''alive'') H"
  have d: "h_dir ?H = (h_dir H)\<lparr>id_status := id_status (h_dir ?H)\<rparr>" by (simp add: update_status_def)
  then have "mail_ok (h_dir ?H)" "pending (h_dir ?H) = cs @ c # ds"
    using assms(3,4) by (metis status_frame(3), metis status_frame(1))
  from command_loop_closes [OF assms(1,2) this assms(5-7), of oa]
  obtain H' where loop: "command_loop oa shutdown wait ?H = Some H'" and ex: "exchanged (h_dir ?H) (cs @ [c]) (h_dir H')" by auto
  have "exchanged (h_dir H) (cs @ [c]) (h_dir H')" using ex exchanged_status(1) d by metis
  then have ex': "exchanged (h_dir H) (cs @ [c]) (h_dir (update_status oa (lit ''stopped'') H'))"
    by (simp add: update_status_def)
  have "check_env_alive (h_dir (update_status oa (lit ''stopped'') H')) = Inr False"
    by (simp add: update_status_def check_env_alive_def as_dict_def)
  with ex' loop assms(4) show ?thesis
    by (auto simp: serve_commands_def exchanged_def)
qed

end
