(* ===== verification/IPC_Runs.thy ===== *)
theory IPC_Runs
  imports IPC_Refinement
begin

text \<open>
  Concrete exchanges over a small simulation: the hypotheses of the channel's properties hold for
  it, and a batch reports an agent that was never asked.
\<close>

section \<open>A simulation with one agent\<close>

text \<open>A platform is its interview table, newest first; only agent 1 exists.\<close>

type_synonym table = "(pyval \<times> pyval \<times> pyval) list"

definition demo_oasis :: "(table, nat) oasis" where
  "demo_oasis = \<lparr>
     oa_graph = (\<lambda>_. True),
     oa_get_agent = (\<lambda>p a. if a = PyInt 1 then Inr 1 else Inl (Exn KeyErr (lit ''agent''))),
     oa_step = (\<lambda>p actions. (Inr (), map (\<lambda>(a, prompt). (PyInt (int a), prompt, PyStr (lit ''now''))) actions @ p)),
     oa_latest_interview = (\<lambda>p a. Some (Inr (map_option snd (find (\<lambda>(x, _). x = a) p)))),
     oa_loads = (\<lambda>v. Inr (PyDict [(lit ''response'', v)])),
     oa_iso = (\<lambda>_. lit ''t''),
     oa_repr = (\<lambda>_. [])\<rparr>"

definition empty_dir :: ipc_dir where
  "empty_dir = \<lparr>id_commands = [], id_responses = [], id_status = None\<rparr>"

definition demo_platforms :: "table platforms" where
  "demo_platforms = \<lparr>pf_twitter = Some [(PyInt 7, PyStr (lit ''old''), PyStr (lit ''yesterday''))], pf_reddit = None\<rparr>"

definition demo_host :: "table platforms host" where
  "demo_host = \<lparr>h_dir = empty_dir, h_time = 0, h_rest = demo_platforms\<rparr>"

definition demo_os :: "table platforms os_env" where
  "demo_os = \<lparr>oe_sleep = (\<lambda>p H. snd (process_commands demo_oasis (H\<lparr>h_time := h_time H + p\<rparr>))),
     oe_iso = (\<lambda>_. lit ''t''), oe_timeout_msg = (\<lambda>_. [])\<rparr>"

definition ask :: "pystr \<Rightarrow> CommandType \<Rightarrow> IPCCommand" where
  "ask i ty = \<lparr>ic_command_id = PyStr i, ic_command_type = ty,
     ic_args = PyDict [(lit ''agent_id'', PyInt 1), (lit ''prompt'', PyStr (lit ''why''))], ic_timestamp = PyStr (lit ''t'')\<rparr>"

lemma empty_dir_facts [simp]:
  "mail_ok empty_dir" "mtimes_upto t empty_dir" "fresh_id i empty_dir" "pending empty_dir = []" "answer empty_dir = Map.empty"
  by (simp_all add: empty_dir_def mail_ok_def mtimes_upto_def fresh_id_def dhas_def pending_def command_files_def
      List.map_filter_def answer_def fun_eq_iff)

lemma servable_ask [simp]: "servable (ask i ty)"
  by (simp add: servable_def ask_def dget_or_dget iter_dicts_def)

lemma id_of_ask [simp]: "id_of (ask i ty) = i" "ic_command_id (ask i ty) = PyStr i" "ic_command_type (ask i ty) = ty"
  by (simp_all add: ask_def id_of_def)

definition two_asked :: ipc_dir where
  "two_asked = put_command (lit ''b'') (command_to_dict (ask (lit ''b'') CLOSE_ENV)) 2
     (put_command (lit ''a'') (command_to_dict (ask (lit ''a'') INTERVIEW)) 1 empty_dir)"

lemma two_asked_facts:
  "mail_ok two_asked" "pending two_asked = [ask (lit ''a'') INTERVIEW, ask (lit ''b'') CLOSE_ENV]" "answer two_asked = Map.empty"
proof -
  let ?d = "put_command (lit ''a'') (command_to_dict (ask (lit ''a'') INTERVIEW)) 1 empty_dir"
  note one = put_command_ok [of empty_dir "lit ''a''" 1 "ask (lit ''a'') INTERVIEW", simplified]
  have "fresh_id (lit ''b'') ?d"
    by (simp add: fresh_id_def dhas_def put_command_def empty_dir_def json_name_def)
  note two = put_command_ok [OF one(1) this mtimes_mono [OF one(4)], of 2 "ask (lit ''b'') CLOSE_ENV"]
  show "mail_ok two_asked" "pending two_asked = [ask (lit ''a'') INTERVIEW, ask (lit ''b'') CLOSE_ENV]" "answer two_asked = Map.empty"
    using two one by (simp_all add: two_asked_def)
qed

theorem send_command_returns_witness:
  "\<exists>r H'. send_command (demo_os\<lparr>oe_sleep := \<lambda>p H. H\<lparr>h_time := h_time H + p\<rparr>\<rparr>) (lit ''u'') CLOSE_ENV [] 30 (1 / 2) demo_host = Some (r, H')"
  by (rule send_command_returns) simp_all

theorem send_command_answered_witness:
  "\<exists>r H'. send_command demo_os (lit ''u'') INTERVIEW [(lit ''agent_id'', PyInt 1)] 60 (1 / 2) demo_host = Some (Inr r, H')
     \<and> ip_command_id r = PyStr (lit ''u'') \<and> (ip_status r = CMD_COMPLETED \<or> ip_status r = CMD_FAILED)
     \<and> pending (h_dir H') = []"
  by (rule send_command_answered [where oa = demo_oasis])
    (simp_all add: demo_os_def demo_host_def servable_def new_command_def)

theorem serve_until_closed_witness:
  "\<exists>H'. serve_commands demo_oasis (\<lambda>_. False) (\<lambda>H. (False, H\<lparr>h_time := h_time H + 1 / 2\<rparr>)) (demo_host\<lparr>h_dir := two_asked\<rparr>) = Some H'
     \<and> pending (h_dir H') = [] \<and> check_env_alive (h_dir H') = Inr False"
  using serve_until_closed [of "\<lambda>_. False" "\<lambda>H. (False, H\<lparr>h_time := h_time H + 1 / 2\<rparr>)" "demo_host\<lparr>h_dir := two_asked\<rparr>"
      "[ask (lit ''a'') INTERVIEW]" "ask (lit ''b'') CLOSE_ENV" "[]" demo_oasis]
  by (auto simp: two_asked_facts)


section \<open>A batch and an agent that was not asked\<close>

definition batch_of :: "int list \<Rightarrow> pyval" where
  "batch_of ids = PyList (map (\<lambda>i. PyDict [(lit ''agent_id'', PyInt i), (lit ''prompt'', PyStr (lit ''why''))]) ids)"

text \<open>
  Unasked agents.  Agent 7 cannot be found, so the batch step asks agent 1 only; the response is
  still marked completed, counts two interviews, and gives yesterday's answer of agent 7 as its result.
\<close>

theorem batch_reports_unasked_agent:
  "let (r, H) = handle_batch_interview demo_oasis (PyStr (lit ''u'')) (batch_of [1, 7]) (PyStr twitter) demo_host
   in r = Inr True \<and> map fst (batch_actions demo_oasis [] [[(lit ''agent_id'', PyInt 1)], [(lit ''agent_id'', PyInt 7)]] []) = [1]
      \<and> map_option ip_result (answer (h_dir H) (lit ''u'')) = Some (PyDict
          [(lit ''interviews_count'', PyInt 2),
           (lit ''results'', PyDict
             [(lit ''twitter_1'', PyDict [(lit ''agent_id'', PyInt 1), (lit ''response'', PyStr (lit ''why'')),
                (lit ''timestamp'', PyStr (lit ''now'')), (lit ''platform'', PyStr twitter)]),
              (lit ''twitter_7'', PyDict [(lit ''agent_id'', PyInt 7), (lit ''response'', PyStr (lit ''old'')),
                (lit ''timestamp'', PyStr (lit ''yesterday'')), (lit ''platform'', PyStr twitter)])])])"
proof -
  have items: "iter_dicts (batch_of [1, 7]) = Inr [[(lit ''agent_id'', PyInt 1), (lit ''prompt'', PyStr (lit ''why''))],
      [(lit ''agent_id'', PyInt 7), (lit ''prompt'', PyStr (lit ''why''))]]"
    by (simp add: iter_dicts_def batch_of_def as_dict_def)
  have names: "lit ''twitter'' @ lit ''_'' @ int_str 1 = lit ''twitter_1''" "lit ''twitter'' @ lit ''_'' @ int_str 7 = lit ''twitter_7''"
    by (simp_all add: lit_def int_str_def nat_digits.simps [of "Suc 0"] nat_digits.simps [of 7])
  show ?thesis
    by (simp add: handle_batch_interview_def items interviews_for_def demo_host_def demo_platforms_def env_of_def
        batch_platform_def set_env_def demo_oasis_def dget_or_dget get_interview_result_def interview_record_def
        fmt_def names respond_def send_response_def answer_def put_response_def remove_command_def Let_def)
qed

end
