(* ===== verification/Runner_Interviews.thy ===== *)
theory Runner_Interviews
  imports IPC_Runs
begin

text \<open>
  Model of the interview operations of \<^verbatim>\<open>services/simulation_runner.py\<close>: the guards before a command
  is sent, the rendering of its response, and the interview history of the two databases.
  \<open>exists\<close> says whether the simulation's directory exists.
\<close>

section \<open>Interviews over the channel\<close>

definition runner_env_alive :: "bool \<Rightarrow> ipc_dir \<Rightarrow> bool res" where
  "runner_env_alive exists d = (if exists then check_env_alive d else Inr False)"

definition default_status :: pydict where
  "default_status = [(lit ''status'', PyStr (lit ''stopped'')), (lit ''twitter_available'', PyBool False),
     (lit ''reddit_available'', PyBool False), (lit ''timestamp'', PyNone)]"

definition get_env_status_detail :: "ipc_dir \<Rightarrow> pydict res" where
  "get_env_status_detail d =
     (case id_status d of
        None \<Rightarrow> Inr default_status
      | Some NotJson \<Rightarrow> Inr default_status
      | Some (Json v) \<Rightarrow> bind_res (as_dict v) (\<lambda>st. Inr
          [(lit ''status'', dget_or st (lit ''status'') (PyStr (lit ''stopped''))),
           (lit ''twitter_available'', dget_or st (lit ''twitter_available'') (PyBool False)),
           (lit ''reddit_available'', dget_or st (lit ''reddit_available'') (PyBool False)),
           (lit ''timestamp'', dget_or st (lit ''timestamp'') PyNone)]))"

text \<open>The guards of the interview operations, and the tail common to their answers.\<close>

definition interview_guard :: "pystr \<Rightarrow> bool \<Rightarrow> ipc_dir \<Rightarrow> unit res" where
  "interview_guard sid exists d =
     (if \<not> exists then Inl (Exn ValueError ([27169, 25311, 19981, 23384, 22312] @ lit '': '' @ sid))
      else bind_res (check_env_alive d) (\<lambda>alive.
        if alive then Inr () else Inl (Exn ValueError ([27169, 25311, 29615, 22659, 26410, 36816, 34892, 25110, 24050, 20851, 38381, 65292, 26080, 27861, 25191, 34892] @ lit ''Interview: '' @ sid))))"

definition interview_answer :: "pydict \<Rightarrow> IPCResponse \<Rightarrow> pydict" where
  "interview_answer about r =
     (if ip_status r = CMD_COMPLETED
      then (lit ''success'', PyBool True) # about @ [(lit ''result'', ip_result r), (lit ''timestamp'', ip_timestamp r)]
      else (lit ''success'', PyBool False) # about @ [(lit ''error'', ip_error r), (lit ''timestamp'', ip_timestamp r)])"

definition interview_agent ::
  "'w os_env \<Rightarrow> pystr \<Rightarrow> pystr \<Rightarrow> bool \<Rightarrow> pyval \<Rightarrow> pyval \<Rightarrow> pyval \<Rightarrow> rat \<Rightarrow> 'w host \<Rightarrow> (pydict res \<times> 'w host) option" where
  "interview_agent env uuid sid exists agent_id prompt platform timeout H =
     (case interview_guard sid exists (h_dir H) of
        Inl e \<Rightarrow> Some (Inl e, H)
      | Inr _ \<Rightarrow> map_option (\<lambda>(r, H'). (bind_res r (\<lambda>r. Inr
            (interview_answer [(lit ''agent_id'', agent_id), (lit ''prompt'', prompt)] r)), H'))
          (send_interview env uuid agent_id prompt platform timeout H))"

definition interview_agents_batch ::
  "'w os_env \<Rightarrow> pystr \<Rightarrow> pystr \<Rightarrow> bool \<Rightarrow> pydict list \<Rightarrow> pyval \<Rightarrow> rat \<Rightarrow> 'w host \<Rightarrow> (pydict res \<times> 'w host) option" where
  "interview_agents_batch env uuid sid exists interviews platform timeout H =
     (case interview_guard sid exists (h_dir H) of
        Inl e \<Rightarrow> Some (Inl e, H)
      | Inr _ \<Rightarrow> map_option (\<lambda>(r, H'). (bind_res r (\<lambda>r. Inr
            (interview_answer [(lit ''interviews_count'', PyInt (int (length interviews)))] r)), H'))
          (send_batch_interview env uuid interviews platform timeout H))"

text \<open>\<open>config\<close> is the simulation's configuration file, when it has one.\<close>

definition all_interviews :: "pystr \<Rightarrow> json_file option \<Rightarrow> pyval \<Rightarrow> pydict list res" where
  "all_interviews sid config prompt =
     (case config of
        None \<Rightarrow> Inl (Exn ValueError ([27169, 25311, 37197, 32622, 19981, 23384, 22312] @ lit '': '' @ sid))
      | Some f \<Rightarrow>
          bind_res (json_load f) (\<lambda>v.
          bind_res (as_dict v) (\<lambda>c.
            let agent_configs = dget_or c (lit ''agent_configs'') (PyList []) in
            if \<not> truthy agent_configs then Inl (Exn ValueError ([27169, 25311, 37197, 32622, 20013, 27809, 26377] @ lit ''Agent: '' @ sid))
            else bind_res (iter_dicts agent_configs) (\<lambda>cs. Inr
              (map (\<lambda>a. [(lit ''agent_id'', a), (lit ''prompt'', prompt)]) (filter (\<lambda>a. a \<noteq> PyNone) (map agent_of cs)))))))"

definition interview_all_agents ::
  "'w os_env \<Rightarrow> pystr \<Rightarrow> pystr \<Rightarrow> bool \<Rightarrow> json_file option \<Rightarrow> pyval \<Rightarrow> pyval \<Rightarrow> rat \<Rightarrow> 'w host \<Rightarrow>
   (pydict res \<times> 'w host) option" where
  "interview_all_agents env uuid sid exists config prompt platform timeout H =
     (if \<not> exists then Some (Inl (Exn ValueError ([27169, 25311, 19981, 23384, 22312] @ lit '': '' @ sid)), H)
      else (case all_interviews sid config prompt of
              Inl e \<Rightarrow> Some (Inl e, H)
            | Inr interviews \<Rightarrow> interview_agents_batch env uuid sid exists interviews platform timeout H))"

definition close_simulation_env ::
  "'w os_env \<Rightarrow> pystr \<Rightarrow> pystr \<Rightarrow> bool \<Rightarrow> rat \<Rightarrow> 'w host \<Rightarrow> (pydict res \<times> 'w host) option" where
  "close_simulation_env env uuid sid exists timeout H =
     (if \<not> exists then Some (Inl (Exn ValueError ([27169, 25311, 19981, 23384, 22312] @ lit '': '' @ sid)), H)
      else (case check_env_alive (h_dir H) of
              Inl e \<Rightarrow> Some (Inl e, H)
            | Inr False \<Rightarrow> Some (Inr [(lit ''success'', PyBool True), (lit ''message'', PyStr [29615, 22659, 24050, 32463, 20851, 38381])], H)
            | Inr True \<Rightarrow>
                map_option (\<lambda>(r, H'). (case r of
                    Inr r \<Rightarrow> Inr [(lit ''success'', PyBool (ip_status r = CMD_COMPLETED)),
                                  (lit ''message'', PyStr [29615, 22659, 20851, 38381, 21629, 20196, 24050, 21457, 36865]), (lit ''result'', ip_result r),
                                  (lit ''timestamp'', ip_timestamp r)]
                  | Inl e \<Rightarrow> if exn_kind e = TimeoutErr
                      then Inr [(lit ''success'', PyBool True),
                                (lit ''message'', PyStr [29615, 22659, 20851, 38381, 21629, 20196, 24050, 21457, 36865, 65288, 31561, 24453, 21709, 24212, 36229, 26102, 65292, 29615, 22659, 21487, 33021, 27491, 22312, 20851, 38381, 65289])]
                      else Inl e, H'))
                  (send_close_env env uuid timeout H)))"

section \<open>Interview history\<close>

text \<open>
  The \<^verbatim>\<open>trace\<close> table of a platform's database.  \<^verbatim>\<open>ORDER BY created_at DESC\<close> uses SQLite's order on
  values: nulls, then numbers, then texts; rows of the same time keep the table's order.  A negative
  limit is no limit.
\<close>

record trace_row =
  tr_user_id :: pyval
  tr_action :: pystr
  tr_info :: pyval
  tr_created_at :: pyval

definition num_of :: "pyval \<Rightarrow> rat" where
  "num_of v = (case v of PyInt i \<Rightarrow> of_int i | PyFloat q \<Rightarrow> q | PyBool b \<Rightarrow> (if b then 1 else 0) | _ \<Rightarrow> 0)"

definition numeric :: "pyval \<Rightarrow> bool" where
  "numeric v = (case v of PyInt _ \<Rightarrow> True | PyFloat _ \<Rightarrow> True | PyBool _ \<Rightarrow> True | _ \<Rightarrow> False)"

definition text_of :: "pyval \<Rightarrow> pystr" where
  "text_of v = (case v of PyStr s \<Rightarrow> s | _ \<Rightarrow> [])"

definition is_text :: "pyval \<Rightarrow> bool" where
  "is_text v = (case v of PyStr _ \<Rightarrow> True | _ \<Rightarrow> False)"

definition order_desc :: "('a \<Rightarrow> pyval) \<Rightarrow> 'a list \<Rightarrow> 'a list" where
  "order_desc k xs =
     sorted_desc (\<lambda>x. text_of (k x)) (filter (\<lambda>x. is_text (k x)) xs)
     @ sorted_desc (\<lambda>x. num_of (k x)) (filter (\<lambda>x. numeric (k x)) xs)
     @ filter (\<lambda>x. \<not> is_text (k x) \<and> \<not> numeric (k x)) xs"

definition select_interviews :: "pyval \<Rightarrow> int \<Rightarrow> trace_row list \<Rightarrow> trace_row list" where
  "select_interviews agent_id limit table =
     (let rows = order_desc tr_created_at
            (filter (\<lambda>r. tr_action r = lit ''interview'' \<and> (agent_id = PyNone \<or> tr_user_id r = agent_id)) table)
      in if limit < 0 then rows else take (nat limit) rows)"

text \<open>
  One result per row.  Text that is not JSON becomes \<^verbatim>\<open>{"raw": ...}\<close>; a JSON value without
  \<^verbatim>\<open>.get\<close> ends the reading with the results so far.
\<close>

fun history_rows :: "(pyval \<Rightarrow> pyval res) \<Rightarrow> pystr \<Rightarrow> trace_row list \<Rightarrow> pydict list" where
  "history_rows loads platform_name [] = []"
| "history_rows loads platform_name (r # rs) =
     (let info = (if truthy (tr_info r)
                  then (case loads (tr_info r) of
                          Inr v \<Rightarrow> Inr v
                        | Inl e \<Rightarrow> if exn_kind e = JSONDecodeErr then Inr (PyDict [(lit ''raw'', tr_info r)]) else Inl e)
                  else Inr (PyDict []))
      in case bind_res info as_dict of
           Inl _ \<Rightarrow> []
         | Inr d \<Rightarrow>
             [(lit ''agent_id'', tr_user_id r), (lit ''response'', dget_or d (lit ''response'') (PyDict d)),
              (lit ''prompt'', dget_or d (lit ''prompt'') (PyStr [])), (lit ''timestamp'', tr_created_at r),
              (lit ''platform'', PyStr platform_name)] # history_rows loads platform_name rs)"

definition get_interview_history_from_db ::
  "(pyval \<Rightarrow> pyval res) \<Rightarrow> trace_row list res option \<Rightarrow> pystr \<Rightarrow> pyval \<Rightarrow> int \<Rightarrow> pydict list" where
  "get_interview_history_from_db loads db platform_name agent_id limit =
     (case db of
        Some (Inr table) \<Rightarrow> history_rows loads platform_name (select_interviews agent_id limit table)
      | _ \<Rightarrow> [])"

text \<open>
  \<^verbatim>\<open>results.sort(key=..., reverse=True)\<close>: numbers are comparable with numbers and texts with texts;
  sorting at least two results whose keys are not all of one kind raises.
\<close>

definition stamp :: "pydict \<Rightarrow> pyval" where
  "stamp x = dget_or x (lit ''timestamp'') (PyStr [])"

definition sort_by_stamp :: "pydict list \<Rightarrow> pydict list res" where
  "sort_by_stamp xs =
     (if length xs \<le> 1 then Inr xs
      else if list_all (\<lambda>x. numeric (stamp x)) xs then Inr (sorted_desc (\<lambda>x. num_of (stamp x)) xs)
      else if list_all (\<lambda>x. is_text (stamp x)) xs then Inr (sorted_desc (\<lambda>x. text_of (stamp x)) xs)
      else Inl (Exn TypeErr (lit ''unorderable types'')))"

definition get_interview_history ::
  "(pyval \<Rightarrow> pyval res) \<Rightarrow> (pystr \<Rightarrow> trace_row list res option) \<Rightarrow> pyval \<Rightarrow> pyval \<Rightarrow> int \<Rightarrow> pydict list res" where
  "get_interview_history loads db platform agent_id limit =
     (let platforms = (if platform = PyStr reddit then [reddit] else if platform = PyStr twitter then [twitter]
                       else [twitter, reddit]);
          results = concat (map (\<lambda>p. get_interview_history_from_db loads (db p) p agent_id limit) platforms)
      in bind_res (sort_by_stamp results) (\<lambda>results.
           Inr (if length platforms > 1 \<and> int (length results) > limit
                then py_slice results 0 limit else results)))"

section \<open>What the history is worth\<close>

lemma set_order_desc [simp]: "set (order_desc k xs) = set xs"
  by (auto simp: order_desc_def)

lemma history_rows_stamps: "x \<in> set (history_rows loads p rs) \<Longrightarrow> \<exists>r \<in> set rs. stamp x = tr_created_at r"
  by (induction rs) (auto simp: Let_def stamp_def dget_or_dget split: sum.splits if_splits)

lemma history_rows_length: "length (history_rows loads p rs) \<le> length rs"
  by (induction rs) (auto simp: Let_def split: sum.splits)

lemma sort_mixed:
  "x \<in> set xs \<Longrightarrow> y \<in> set xs \<Longrightarrow> numeric (stamp x) \<Longrightarrow> is_text (stamp y) \<Longrightarrow>
   sort_by_stamp xs = Inl (Exn TypeErr (lit ''unorderable types''))"
proof -
  assume x: "x \<in> set xs" and y: "y \<in> set xs" and k: "numeric (stamp x)" "is_text (stamp y)"
  then have "\<not> is_text (stamp x)" "\<not> numeric (stamp y)" by (auto simp: numeric_def is_text_def split: pyval.splits)
  moreover have "x \<noteq> y" using k calculation by auto
  then have "\<not> length xs \<le> 1" using x y by (auto simp: le_Suc_eq length_Suc_conv)
  ultimately show ?thesis using x y by (auto simp: sort_by_stamp_def list_all_iff)
qed

text \<open>
  Mixed time stamps.  When the twitter database holds an interview with a numeric creation time
  and the reddit one an interview with a textual one, asking for the history of both platforms
  raises a type error.
\<close>

theorem interview_history_mixed_raises:
  assumes "x \<in> set (get_interview_history_from_db loads (db twitter) twitter agent_id limit)" "numeric (stamp x)"
    and "y \<in> set (get_interview_history_from_db loads (db reddit) reddit agent_id limit)" "is_text (stamp y)"
    and "platform \<noteq> PyStr twitter" "platform \<noteq> PyStr reddit"
  shows "get_interview_history loads db platform agent_id limit = Inl (Exn TypeErr (lit ''unorderable types''))"
  using assms sort_mixed [of x "get_interview_history_from_db loads (db twitter) twitter agent_id limit
      @ get_interview_history_from_db loads (db reddit) reddit agent_id limit" y]
  by (simp add: get_interview_history_def)

definition mixed_dbs :: "pystr \<Rightarrow> trace_row list res option" where
  "mixed_dbs p = Some (Inr [\<lparr>tr_user_id = PyInt 1, tr_action = lit ''interview'', tr_info = PyStr [],
     tr_created_at = (if p = twitter then PyInt 5 else PyStr (lit ''2025-01-01''))\<rparr>])"

theorem interview_history_mixed_raises_witness:
  "get_interview_history (\<lambda>v. Inr v) mixed_dbs PyNone PyNone 100 = Inl (Exn TypeErr (lit ''unorderable types''))"
proof -
  have db: "get_interview_history_from_db (\<lambda>v. Inr v) (mixed_dbs p) p PyNone 100 =
      [[(lit ''agent_id'', PyInt 1), (lit ''response'', PyDict []), (lit ''prompt'', PyStr []),
        (lit ''timestamp'', if p = twitter then PyInt 5 else PyStr (lit ''2025-01-01'')), (lit ''platform'', PyStr p)]]" for p
    by (simp add: get_interview_history_from_db_def mixed_dbs_def select_interviews_def order_desc_def is_text_def numeric_def
        as_dict_def dget_or_dget sorted_desc_def)
  show ?thesis
    by (rule interview_history_mixed_raises [where x = "hd (get_interview_history_from_db (\<lambda>v. Inr v) (mixed_dbs twitter) twitter PyNone 100)"
          and y = "hd (get_interview_history_from_db (\<lambda>v. Inr v) (mixed_dbs reddit) reddit PyNone 100)"])
      (simp_all add: db stamp_def dget_or_dget numeric_def is_text_def)
qed

end
