(* ===== verification/Simulation_Rounds.thy ===== *)
theory Simulation_Rounds
  imports Runner_Interviews
begin

text \<open>
  Model of the rounds of \<^verbatim>\<open>scripts/run_parallel_simulation.py\<close> and of \<^verbatim>\<open>PlatformActionLogger\<close> in
  \<^verbatim>\<open>scripts/action_logger.py\<close>: which agents act in a round, how the new rows of the simulation
  database become actions with their context, and what is written to the action log.

  A running platform is a value of type \<open>'p\<close>; OASIS, the database queries, the random generator,
  the clock and the shutdown event are the fields of \<open>platform_env\<close>.  The log is the list of its
  JSON entries.
\<close>

record ('p, 'a) platform_env =
  pe_get_agent :: "'p \<Rightarrow> pyval \<Rightarrow> 'a res"
  pe_agents :: "'p \<Rightarrow> (pyval \<times> pyval option) list"
  pe_post :: "'p \<Rightarrow> ('a \<times> pyval list) list \<Rightarrow> unit res \<times> 'p"
  pe_act :: "'p \<Rightarrow> 'a list \<Rightarrow> unit res \<times> 'p"
  pe_trace :: "'p \<Rightarrow> (int \<times> pyval \<times> pyval \<times> pyval) list res option"
  pe_post_row :: "'p \<Rightarrow> pyval \<Rightarrow> (pyval \<times> pyval \<times> pyval) option res"
  pe_comment_row :: "'p \<Rightarrow> pyval \<Rightarrow> (pyval \<times> pyval \<times> pyval) option res"
  pe_user_row :: "'p \<Rightarrow> pyval \<Rightarrow> (pyval \<times> pyval \<times> pyval) option res"
  pe_original :: "'p \<Rightarrow> pyval \<Rightarrow> pyval option res"
  pe_quote :: "'p \<Rightarrow> pyval \<Rightarrow> pyval option res"
  pe_followee :: "'p \<Rightarrow> pyval \<Rightarrow> pyval option res"
  pe_loads :: "pyval \<Rightarrow> pyval res"
  pe_uniform :: "rat \<Rightarrow> rat \<Rightarrow> 'p \<Rightarrow> rat \<times> 'p"
  pe_random :: "'p \<Rightarrow> rat \<times> 'p"
  pe_sample :: "pyval list \<Rightarrow> nat \<Rightarrow> 'p \<Rightarrow> pyval list \<times> 'p"
  pe_iso :: "'p \<Rightarrow> pystr"
  pe_repr :: "pyval \<Rightarrow> pystr"
  pe_shutdown :: "'p \<Rightarrow> bool"

section \<open>Agent names\<close>

type_synonym agent_names = "(pyval \<times> pyval) list"

definition default_name :: "('p, 'a) platform_env \<Rightarrow> pyval \<Rightarrow> pyval" where
  "default_name pe agent_id = PyStr (lit ''Agent_'' @ fmt (pe_repr pe) agent_id)"

definition get_agent_names_from_config :: "('p, 'a) platform_env \<Rightarrow> pydict \<Rightarrow> agent_names res" where
  "get_agent_names_from_config pe config =
     bind_res (iter_dicts (dget_or config (lit ''agent_configs'') (PyList []))) (\<lambda>cs. Inr
       (fold (\<lambda>c names. if agent_of c \<noteq> PyNone
            then dset names (agent_of c) (dget_or c (lit ''entity_name'') (default_name pe (agent_of c))) else names) cs []))"

definition complete_names :: "('p, 'a) platform_env \<Rightarrow> 'p \<Rightarrow> agent_names \<Rightarrow> agent_names" where
  "complete_names pe p names =
     fold (\<lambda>(i, name) names. if dhas names i then names
        else dset names i (case name of Some n \<Rightarrow> n | None \<Rightarrow> default_name pe i)) (pe_agents pe p) names"

section \<open>From database rows to actions\<close>

definition FILTERED_ACTIONS :: "pyval list" where
  "FILTERED_ACTIONS = [PyStr (lit ''refresh''), PyStr (lit ''sign_up'')]"

definition ACTION_TYPE_MAP :: "(pystr \<times> pystr) list" where
  "ACTION_TYPE_MAP =
     [(lit ''create_post'', lit ''CREATE_POST''), (lit ''like_post'', lit ''LIKE_POST''),
      (lit ''dislike_post'', lit ''DISLIKE_POST''), (lit ''repost'', lit ''REPOST''),
      (lit ''quote_post'', lit ''QUOTE_POST''), (lit ''follow'', lit ''FOLLOW''), (lit ''mute'', lit ''MUTE''),
      (lit ''create_comment'', lit ''CREATE_COMMENT''), (lit ''like_comment'', lit ''LIKE_COMMENT''),
      (lit ''dislike_comment'', lit ''DISLIKE_COMMENT''), (lit ''search_posts'', lit ''SEARCH_POSTS''),
      (lit ''search_user'', lit ''SEARCH_USER''), (lit ''trend'', lit ''TREND''),
      (lit ''do_nothing'', lit ''DO_NOTHING''), (lit ''interview'', lit ''INTERVIEW'')]"

text \<open>\<^verbatim>\<open>str.upper\<close> on the ASCII letters; other characters are left alone.\<close>

definition py_upper :: "pystr \<Rightarrow> pystr" where
  "py_upper s = map (\<lambda>c. if 97 \<le> c \<and> c \<le> 122 then c - 32 else c) s"

definition action_type_of :: "pyval \<Rightarrow> pystr res" where
  "action_type_of action =
     (case action of
        PyStr a \<Rightarrow> Inr (dget_or ACTION_TYPE_MAP a (py_upper a))
      | _ \<Rightarrow> Inl (Exn AttributeErr (lit ''object has no attribute upper'')))"

definition KEPT_ARGS :: "pystr list" where
  "KEPT_ARGS = map lit [''content'', ''post_id'', ''comment_id'', ''quoted_id'', ''new_post_id'', ''follow_id'',
     ''query'', ''like_id'', ''dislike_id'']"

definition contains :: "pystr \<Rightarrow> pystr \<Rightarrow> bool" where
  "contains needle s \<longleftrightarrow> list_ex (\<lambda>k. take (length needle) (drop k s) = needle) [0..<length s + 1]"

text \<open>
  The nine \<^verbatim>\<open>if k in action_args: simplified_args[k] = action_args[k]\<close>; on a list or a string a hit is
  followed by a failing subscript, on other values \<^verbatim>\<open>in\<close> itself fails.
\<close>

definition simplify_args :: "pyval \<Rightarrow> pydict res" where
  "simplify_args v =
     (case v of
        PyDict d \<Rightarrow> Inr (List.map_filter (\<lambda>k. map_option (Pair k) (dget d k)) KEPT_ARGS)
      | PyList xs \<Rightarrow> if list_ex (\<lambda>k. PyStr k \<in> set xs) KEPT_ARGS
          then Inl (Exn TypeErr (lit ''list indices must be integers'')) else Inr []
      | PyStr s \<Rightarrow> if list_ex (\<lambda>k. contains k s) KEPT_ARGS
          then Inl (Exn TypeErr (lit ''string indices must be integers'')) else Inr []
      | _ \<Rightarrow> Inl (Exn TypeErr (lit ''argument is not iterable'')))"

definition or_val :: "pyval \<Rightarrow> pyval \<Rightarrow> pyval" where
  "or_val a b = (if truthy a then a else b)"

text \<open>Author of a post or comment row \<open>(content, user_id, agent_id)\<close>; every failure gives \<open>None\<close>.\<close>

definition author_info ::
  "('p, 'a) platform_env \<Rightarrow> 'p \<Rightarrow> agent_names \<Rightarrow> (pyval \<times> pyval \<times> pyval) option res \<Rightarrow> (pyval \<times> pyval) option" where
  "author_info pe p names row =
     (case row of
        Inr (Some (content, user_id, agent_id)) \<Rightarrow>
          (let content = or_val content (PyStr []) in
           if agent_id \<noteq> PyNone \<and> dhas names agent_id then Some (content, dget_or names agent_id PyNone)
           else if truthy user_id then
             (case pe_user_row pe p user_id of
                Inl _ \<Rightarrow> None
              | Inr None \<Rightarrow> Some (content, PyStr [])
              | Inr (Some (_, name, user_name)) \<Rightarrow> Some (content, or_val name (or_val user_name (PyStr []))))
           else Some (content, PyStr []))
      | _ \<Rightarrow> None)"

definition get_post_info :: "('p, 'a) platform_env \<Rightarrow> 'p \<Rightarrow> agent_names \<Rightarrow> pyval \<Rightarrow> (pyval \<times> pyval) option" where
  "get_post_info pe p names post_id = author_info pe p names (pe_post_row pe p post_id)"

definition get_comment_info :: "('p, 'a) platform_env \<Rightarrow> 'p \<Rightarrow> agent_names \<Rightarrow> pyval \<Rightarrow> (pyval \<times> pyval) option" where
  "get_comment_info pe p names comment_id = author_info pe p names (pe_comment_row pe p comment_id)"

definition get_user_name :: "('p, 'a) platform_env \<Rightarrow> 'p \<Rightarrow> agent_names \<Rightarrow> pyval \<Rightarrow> pyval option" where
  "get_user_name pe p names user_id =
     (case pe_user_row pe p user_id of
        Inr (Some (agent_id, name, user_name)) \<Rightarrow>
          if agent_id \<noteq> PyNone \<and> dhas names agent_id then dget names agent_id
          else Some (or_val name (or_val user_name (PyStr [])))
      | _ \<Rightarrow> None)"

definition add_info :: "string \<Rightarrow> string \<Rightarrow> (pyval \<times> pyval) option \<Rightarrow> pydict \<Rightarrow> pydict" where
  "add_info content_key author_key info args =
     (case info of None \<Rightarrow> args
      | Some (content, author) \<Rightarrow> dset (dset args (lit content_key) content) (lit author_key) author)"

definition add_name :: "pyval option \<Rightarrow> pydict \<Rightarrow> pydict" where
  "add_name name args = (case name of Some n \<Rightarrow> if truthy n then dset args (lit ''target_user_name'') n else args | None \<Rightarrow> args)"

definition enrich_action_context ::
  "('p, 'a) platform_env \<Rightarrow> 'p \<Rightarrow> agent_names \<Rightarrow> pystr \<Rightarrow> pydict \<Rightarrow> pydict" where
  "enrich_action_context pe p names action_type args =
     (let field = (\<lambda>k. dget_or args (lit k) PyNone);
          with_post = (\<lambda>args. if truthy (field ''post_id'')
             then add_info ''post_content'' ''post_author_name'' (get_post_info pe p names (field ''post_id'')) args else args)
      in if action_type = lit ''LIKE_POST'' \<or> action_type = lit ''DISLIKE_POST'' then with_post args
      else if action_type = lit ''REPOST'' then
        if truthy (field ''new_post_id'') then
          (case pe_original pe p (field ''new_post_id'') of
             Inr (Some original) \<Rightarrow>
               if truthy original
               then add_info ''original_content'' ''original_author_name'' (get_post_info pe p names original) args else args
           | _ \<Rightarrow> args)
        else args
      else if action_type = lit ''QUOTE_POST'' then
        (let args = (if truthy (field ''quoted_id'')
               then add_info ''original_content'' ''original_author_name'' (get_post_info pe p names (field ''quoted_id'')) args
               else args)
         in if truthy (field ''new_post_id'') then
              (case pe_quote pe p (field ''new_post_id'') of
                 Inr (Some q) \<Rightarrow> if truthy q then dset args (lit ''quote_content'') q else args
               | _ \<Rightarrow> args)
            else args)
      else if action_type = lit ''FOLLOW'' then
        if truthy (field ''follow_id'') then
          (case pe_followee pe p (field ''follow_id'') of
             Inr (Some followee) \<Rightarrow> add_name (get_user_name pe p names followee) args
           | _ \<Rightarrow> args)
        else args
      else if action_type = lit ''MUTE'' then
        (let target = or_val (field ''user_id'') (field ''target_id'') in
         if truthy target then add_name (get_user_name pe p names target) args else args)
      else if action_type = lit ''LIKE_COMMENT'' \<or> action_type = lit ''DISLIKE_COMMENT'' then
        if truthy (field ''comment_id'')
        then add_info ''comment_content'' ''comment_author_name'' (get_comment_info pe p names (field ''comment_id'')) args
        else args
      else if action_type = lit ''CREATE_COMMENT'' then with_post args
      else args)"

record action_data =
  ad_agent_id :: pyval
  ad_agent_name :: pyval
  ad_action_type :: pystr
  ad_action_args :: pydict

text \<open>One row; \<open>Inr None\<close> is a filtered action, an exception ends the reading.\<close>

definition row_action ::
  "('p, 'a) platform_env \<Rightarrow> 'p \<Rightarrow> agent_names \<Rightarrow> pyval \<times> pyval \<times> pyval \<Rightarrow> action_data option res" where
  "row_action pe p names = (\<lambda>(user_id, action, info_json).
     if action \<in> set FILTERED_ACTIONS then Inr None
     else
       bind_res (if truthy info_json
                 then (case pe_loads pe info_json of
                         Inr v \<Rightarrow> Inr v
                       | Inl e \<Rightarrow> if exn_kind e = JSONDecodeErr then Inr (PyDict []) else Inl e)
                 else Inr (PyDict [])) (\<lambda>info.
       bind_res (simplify_args info) (\<lambda>args.
       bind_res (action_type_of action) (\<lambda>action_type.
         Inr (Some \<lparr>ad_agent_id = user_id, ad_agent_name = dget_or names user_id (default_name pe user_id),
                    ad_action_type = action_type,
                    ad_action_args = enrich_action_context pe p names action_type args\<rparr>)))))"

fun fetch_rows ::
  "('p, 'a) platform_env \<Rightarrow> 'p \<Rightarrow> agent_names \<Rightarrow> (int \<times> pyval \<times> pyval \<times> pyval) list \<Rightarrow> int \<Rightarrow> action_data list \<times> int" where
  "fetch_rows pe p names [] last_rowid = ([], last_rowid)"
| "fetch_rows pe p names ((rowid, row) # rows) last_rowid =
     (case row_action pe p names row of
        Inl _ \<Rightarrow> ([], rowid)
      | Inr a \<Rightarrow> (let (acts, r) = fetch_rows pe p names rows rowid in ((case a of None \<Rightarrow> [] | Some a \<Rightarrow> [a]) @ acts, r)))"

definition fetch_new_actions_from_db ::
  "('p, 'a) platform_env \<Rightarrow> 'p \<Rightarrow> int \<Rightarrow> agent_names \<Rightarrow> action_data list \<times> int" where
  "fetch_new_actions_from_db pe p last_rowid names =
     (case pe_trace pe p of
        Some (Inr table) \<Rightarrow> fetch_rows pe p names (sort_key fst (filter (\<lambda>(rowid, _). last_rowid < rowid) table)) last_rowid
      | _ \<Rightarrow> ([], last_rowid))"

section \<open>Active agents\<close>

text \<open>
  Numbers of the configuration; anything else makes the arithmetic raise.  The hours and minutes of
  the time configuration are whole numbers, as the configuration generator writes them.
\<close>

definition num_field :: "pydict \<Rightarrow> string \<Rightarrow> pyval \<Rightarrow> rat res" where
  "num_field d k dflt =
     (let v = dget_or d (lit k) dflt in if numeric v then Inr (num_of v) else Inl (Exn TypeErr (lit ''unsupported operand'')))"

definition int_field :: "pydict \<Rightarrow> string \<Rightarrow> int \<Rightarrow> int res" where
  "int_field d k dflt =
     (case dget_or d (lit k) (PyInt dflt) of PyInt i \<Rightarrow> Inr i | _ \<Rightarrow> Inl (Exn TypeErr (lit ''unsupported operand'')))"

text \<open>\<^verbatim>\<open>hour in hours\<close>.\<close>

definition hour_in :: "int \<Rightarrow> pyval \<Rightarrow> bool res" where
  "hour_in hour hours =
     (case hours of
        PyList hs \<Rightarrow> Inr (list_ex (\<lambda>h. py_eq_int h hour) hs)
      | PyDict _ \<Rightarrow> Inr False
      | _ \<Rightarrow> Inl (Exn TypeErr (lit ''argument is not iterable'')))"

definition ints :: "int list \<Rightarrow> pyval" where
  "ints xs = PyList (map PyInt xs)"

definition activity_multiplier :: "pydict \<Rightarrow> int \<Rightarrow> rat res" where
  "activity_multiplier time_config hour =
     bind_res (hour_in hour (dget_or time_config (lit ''peak_hours'') (ints [9, 10, 11, 14, 15, 20, 21, 22]))) (\<lambda>peak.
       if peak then num_field time_config ''peak_activity_multiplier'' (PyFloat (3 / 2))
       else bind_res (hour_in hour (dget_or time_config (lit ''off_peak_hours'') (ints [0, 1, 2, 3, 4, 5]))) (\<lambda>off.
         if off then num_field time_config ''off_peak_activity_multiplier'' (PyFloat (3 / 10)) else Inr 1))"

text \<open>\<^verbatim>\<open>int(x)\<close> truncates towards zero.\<close>

definition py_trunc :: "rat \<Rightarrow> int" where
  "py_trunc q = (if 0 \<le> q then \<lfloor>q\<rfloor> else \<lceil>q\<rceil>)"

fun candidate_loop ::
  "('p, 'a) platform_env \<Rightarrow> int \<Rightarrow> pydict list \<Rightarrow> 'p \<Rightarrow> pyval list res \<times> 'p" where
  "candidate_loop pe hour [] p = (Inr [], p)"
| "candidate_loop pe hour (cfg # cfgs) p =
     (case hour_in hour (dget_or cfg (lit ''active_hours'') (ints [8..22])) of
        Inl e \<Rightarrow> (Inl e, p)
      | Inr False \<Rightarrow> candidate_loop pe hour cfgs p
      | Inr True \<Rightarrow>
          (let (x, p) = pe_random pe p in
           case num_field cfg ''activity_level'' (PyFloat (1 / 2)) of
             Inl e \<Rightarrow> (Inl e, p)
           | Inr level \<Rightarrow>
               (case candidate_loop pe hour cfgs p of
                  (Inl e, p) \<Rightarrow> (Inl e, p)
                | (Inr cs, p) \<Rightarrow> (Inr (if x < level then dget_or cfg (lit ''agent_id'') (PyInt 0) # cs else cs), p))))"

definition found_agents :: "('p, 'a) platform_env \<Rightarrow> 'p \<Rightarrow> pyval list \<Rightarrow> (pyval \<times> 'a) list" where
  "found_agents pe p ids =
     List.map_filter (\<lambda>i. case pe_get_agent pe p i of Inr a \<Rightarrow> Some (i, a) | Inl _ \<Rightarrow> None) ids"

definition get_active_agents_for_round ::
  "('p, 'a) platform_env \<Rightarrow> pydict \<Rightarrow> int \<Rightarrow> 'p \<Rightarrow> (pyval \<times> 'a) list res \<times> 'p" where
  "get_active_agents_for_round pe config current_hour p =
     (case bind_res (as_dict (dget_or config (lit ''time_config'') (PyDict []))) (\<lambda>tc.
             bind_res (activity_multiplier tc current_hour) (\<lambda>multiplier.
             bind_res (num_field tc ''agents_per_hour_min'' (PyInt 5)) (\<lambda>base_min.
             bind_res (num_field tc ''agents_per_hour_max'' (PyInt 20)) (\<lambda>base_max.
             Inr (multiplier, base_min, base_max))))) of
        Inl e \<Rightarrow> (Inl e, p)
      | Inr (multiplier, base_min, base_max) \<Rightarrow>
          (let (u, p) = pe_uniform pe base_min base_max p; target_count = py_trunc (u * multiplier) in
           case iter_dicts (dget_or config (lit ''agent_configs'') (PyList [])) of
             Inl e \<Rightarrow> (Inl e, p)
           | Inr cfgs \<Rightarrow>
               (case candidate_loop pe current_hour cfgs p of
                  (Inl e, p) \<Rightarrow> (Inl e, p)
                | (Inr [], p) \<Rightarrow> (Inr [], p)
                | (Inr candidates, p) \<Rightarrow>
                    if target_count < 0 then (Inl (Exn ValueError (lit ''Sample larger than population or is negative'')), p)
                    else (let (ids, p) = pe_sample pe candidates (min (nat target_count) (length candidates)) p
                          in (Inr (found_agents pe p ids), p)))))"

section \<open>The action log\<close>

definition action_entry :: "pystr \<Rightarrow> int \<Rightarrow> pyval \<Rightarrow> pyval \<Rightarrow> pystr \<Rightarrow> pydict \<Rightarrow> pydict" where
  "action_entry now round_num agent_id agent_name action_type action_args =
     [(lit ''round'', PyInt round_num), (lit ''timestamp'', PyStr now), (lit ''agent_id'', agent_id),
      (lit ''agent_name'', agent_name), (lit ''action_type'', PyStr action_type), (lit ''action_args'', PyDict action_args),
      (lit ''result'', PyNone), (lit ''success'', PyBool True)]"

definition round_start_entry :: "pystr \<Rightarrow> int \<Rightarrow> int \<Rightarrow> pydict" where
  "round_start_entry now round_num simulated_hour =
     [(lit ''round'', PyInt round_num), (lit ''timestamp'', PyStr now), (lit ''event_type'', PyStr (lit ''round_start'')),
      (lit ''simulated_hour'', PyInt simulated_hour)]"

definition round_end_entry :: "pystr \<Rightarrow> int \<Rightarrow> nat \<Rightarrow> pydict" where
  "round_end_entry now round_num actions_count =
     [(lit ''round'', PyInt round_num), (lit ''timestamp'', PyStr now), (lit ''event_type'', PyStr (lit ''round_end'')),
      (lit ''actions_count'', PyInt (int actions_count))]"

definition simulation_start_entry :: "pystr \<Rightarrow> pystr \<Rightarrow> pydict \<Rightarrow> pydict res" where
  "simulation_start_entry now platform config =
     bind_res (as_dict (dget_or config (lit ''time_config'') (PyDict []))) (\<lambda>tc.
     bind_res (int_field tc ''total_simulation_hours'' 72) (\<lambda>hours.
     bind_res (case dget_or config (lit ''agent_configs'') (PyList []) of
                 PyList xs \<Rightarrow> Inr (length xs) | PyDict d \<Rightarrow> Inr (length d) | PyStr s \<Rightarrow> Inr (length s)
               | _ \<Rightarrow> Inl (Exn TypeErr (lit ''object has no len''))) (\<lambda>n. Inr
       [(lit ''timestamp'', PyStr now), (lit ''event_type'', PyStr (lit ''simulation_start'')), (lit ''platform'', PyStr platform),
        (lit ''total_rounds'', PyInt (hours * 2)), (lit ''agents_count'', PyInt (int n))])))"

definition simulation_end_entry :: "pystr \<Rightarrow> pystr \<Rightarrow> int \<Rightarrow> nat \<Rightarrow> pydict" where
  "simulation_end_entry now platform total_rounds total_actions =
     [(lit ''timestamp'', PyStr now), (lit ''event_type'', PyStr (lit ''simulation_end'')), (lit ''platform'', PyStr platform),
      (lit ''total_rounds'', PyInt total_rounds), (lit ''total_actions'', PyInt (int total_actions))]"

section \<open>A platform's simulation\<close>

record 'p sim_run =
  sr_platform :: 'p
  sr_log :: "pydict list"
  sr_total_actions :: nat
  sr_last_rowid :: int

definition write_log :: "pydict list \<Rightarrow> 'p sim_run \<Rightarrow> 'p sim_run" where
  "write_log es s = s\<lparr>sr_log := sr_log s @ es\<rparr>"

text \<open>
  Initial posts.  On twitter a later post of an agent replaces an earlier one in the step, on reddit
  (\<open>keep\<close>) they are collected; both are logged.  An item that is no object ends the loop.
\<close>

definition iter_vals :: "pyval \<Rightarrow> pyval list res" where
  "iter_vals v =
     (case v of PyList xs \<Rightarrow> Inr xs | PyDict d \<Rightarrow> Inr (map (PyStr \<circ> fst) d) | PyStr s \<Rightarrow> Inr (map (\<lambda>c. PyStr [c]) s)
      | _ \<Rightarrow> Inl (Exn TypeErr (lit ''object is not iterable'')))"

fun initial_posts ::
  "bool \<Rightarrow> ('p, 'a) platform_env \<Rightarrow> agent_names \<Rightarrow> pyval list \<Rightarrow> 'p \<Rightarrow> unit res \<times> ('a \<times> pyval list) list \<times> pydict list" where
  "initial_posts keep pe names [] p = (Inr (), [], [])"
| "initial_posts keep pe names (v # vs) p =
     (case as_dict v of
        Inl e \<Rightarrow> (Inl e, [], [])
      | Inr post \<Rightarrow>
          (let agent_id = dget_or post (lit ''poster_agent_id'') (PyInt 0); content = dget_or post (lit ''content'') (PyStr []);
               (r, acts, es) = initial_posts keep pe names vs p
           in case pe_get_agent pe p agent_id of
                Inl _ \<Rightarrow> (r, acts, es)
              | Inr agent \<Rightarrow>
                  (r, (case dget acts agent of
                         None \<Rightarrow> (agent, [content]) # acts
                       | Some later \<Rightarrow> (agent, if keep then content # later else later) # dpop acts agent),
                   action_entry (pe_iso pe p) 0 agent_id (dget_or names agent_id (default_name pe agent_id))
                     (lit ''CREATE_POST'') [(lit ''content'', content)] # es)))"

definition round_zero ::
  "bool \<Rightarrow> ('p, 'a) platform_env \<Rightarrow> agent_names \<Rightarrow> pyval \<Rightarrow> 'p sim_run \<Rightarrow> unit res \<times> 'p sim_run" where
  "round_zero keep pe names posts s =
     (let p = sr_platform s; s = write_log [round_start_entry (pe_iso pe p) 0 0] s in
      case (if truthy posts then iter_vals posts else Inr []) of
        Inl e \<Rightarrow> (Inl e, s)
      | Inr vs \<Rightarrow>
          (let (r, acts, es) = initial_posts keep pe names vs p;
               s = (write_log es s)\<lparr>sr_total_actions := sr_total_actions s + length es\<rparr>
           in case r of
                Inl e \<Rightarrow> (Inl e, s)
              | Inr _ \<Rightarrow>
                  (case (if acts = [] then (Inr (), p) else pe_post pe p acts) of
                     (Inl e, p) \<Rightarrow> (Inl e, s\<lparr>sr_platform := p\<rparr>)
                   | (Inr _, p) \<Rightarrow>
                       (Inr (), write_log [round_end_entry (pe_iso pe p) 0 (length es)] (s\<lparr>sr_platform := p\<rparr>)))))"

definition simulation_round ::
  "('p, 'a) platform_env \<Rightarrow> pydict \<Rightarrow> agent_names \<Rightarrow> int \<Rightarrow> nat \<Rightarrow> 'p sim_run \<Rightarrow> unit res \<times> 'p sim_run" where
  "simulation_round pe config names minutes_per_round round_num s =
     (let simulated_hour = ((int round_num * minutes_per_round) div 60) mod 24; n = int round_num + 1;
          (active, p) = get_active_agents_for_round pe config simulated_hour (sr_platform s);
          s = s\<lparr>sr_platform := p\<rparr>
      in case active of
           Inl e \<Rightarrow> (Inl e, s)
         | Inr agents \<Rightarrow>
             (let s = write_log [round_start_entry (pe_iso pe p) n simulated_hour] s in
              if agents = [] then (Inr (), write_log [round_end_entry (pe_iso pe p) n 0] s)
              else (case pe_act pe p (rev (remdups (rev (map snd agents)))) of
                      (Inl e, p) \<Rightarrow> (Inl e, s\<lparr>sr_platform := p\<rparr>)
                    | (Inr _, p) \<Rightarrow>
                        (let (acts, rowid) = fetch_new_actions_from_db pe p (sr_last_rowid s) names;
                             es = map (\<lambda>a. action_entry (pe_iso pe p) n (ad_agent_id a) (ad_agent_name a) (ad_action_type a)
                                        (ad_action_args a)) acts
                         in (Inr (), write_log (es @ [round_end_entry (pe_iso pe p) n (length es)])
                              (s\<lparr>sr_platform := p, sr_last_rowid := rowid, sr_total_actions := sr_total_actions s + length es\<rparr>))))))"

fun simulation_rounds ::
  "('p, 'a) platform_env \<Rightarrow> pydict \<Rightarrow> agent_names \<Rightarrow> int \<Rightarrow> nat list \<Rightarrow> 'p sim_run \<Rightarrow> unit res \<times> 'p sim_run" where
  "simulation_rounds pe config names minutes [] s = (Inr (), s)"
| "simulation_rounds pe config names minutes (n # ns) s =
     (if pe_shutdown pe (sr_platform s) then (Inr (), s)
      else st_bind (simulation_round pe config names minutes n s) (\<lambda>_. simulation_rounds pe config names minutes ns))"

definition total_rounds_of :: "int option \<Rightarrow> pydict \<Rightarrow> (int \<times> int) res" where
  "total_rounds_of max_rounds tc =
     bind_res (int_field tc ''total_simulation_hours'' 72) (\<lambda>hours.
     bind_res (int_field tc ''minutes_per_round'' 30) (\<lambda>minutes.
       if minutes = 0 then Inl (Exn ZeroDivisionErr (lit ''integer division or modulo by zero''))
       else let total_rounds = (hours * 60) div minutes in
         Inr (case max_rounds of Some m \<Rightarrow> if 0 < m then min total_rounds m else total_rounds | None \<Rightarrow> total_rounds, minutes)))"

definition run_simulation ::
  "bool \<Rightarrow> pystr \<Rightarrow> ('p, 'a) platform_env \<Rightarrow> pydict \<Rightarrow> int option \<Rightarrow> 'p \<Rightarrow> unit res \<times> 'p sim_run" where
  "run_simulation keep platform pe config max_rounds p =
     (let s = \<lparr>sr_platform = p, sr_log = [], sr_total_actions = 0, sr_last_rowid = 0\<rparr> in
      case bind_res (get_agent_names_from_config pe config) (\<lambda>names.
           bind_res (simulation_start_entry (pe_iso pe p) platform config) (\<lambda>e. Inr (complete_names pe p names, e))) of
        Inl e \<Rightarrow> (Inl e, s)
      | Inr (names, e) \<Rightarrow>
          (let s = write_log [e] s in
           case bind_res (as_dict (dget_or config (lit ''event_config'') (PyDict []))) (\<lambda>ec.
                bind_res (as_dict (dget_or config (lit ''time_config'') (PyDict []))) (\<lambda>tc.
                Inr (dget_or ec (lit ''initial_posts'') (PyList []), tc))) of
             Inl e \<Rightarrow> (Inl e, s)
           | Inr (posts, tc) \<Rightarrow>
               st_bind (round_zero keep pe names posts s) (\<lambda>_ s.
                 case total_rounds_of max_rounds tc of
                   Inl e \<Rightarrow> (Inl e, s)
                 | Inr (total_rounds, minutes) \<Rightarrow>
                     st_bind (simulation_rounds pe config names minutes [0..<nat total_rounds] s) (\<lambda>_ s.
                       (Inr (), write_log [simulation_end_entry (pe_iso pe (sr_platform s)) platform total_rounds (sr_total_actions s)] s)))))"

definition run_twitter_simulation ::
  "('p, 'a) platform_env \<Rightarrow> pydict \<Rightarrow> int option \<Rightarrow> 'p \<Rightarrow> unit res \<times> 'p sim_run" where
  "run_twitter_simulation = run_simulation False twitter"

definition run_reddit_simulation ::
  "('p, 'a) platform_env \<Rightarrow> pydict \<Rightarrow> int option \<Rightarrow> 'p \<Rightarrow> unit res \<times> 'p sim_run" where
  "run_reddit_simulation = run_simulation True reddit"

end
