(* ===== verification/Simulation_Logs.thy ===== *)
theory Simulation_Logs
  imports Simulation_Rounds Action_Log "HOL-Library.Countable"
begin

text \<open>
  What a simulation writes and what the runner makes of it: the shape of the action log, the rows
  exported from the database, and the run state after the runner has read the whole log.
\<close>

section \<open>The entries of a log\<close>

datatype entry_kind = Action int | RoundStart int | RoundEnd int nat | SimStart | SimEnd nat

text \<open>\<open>entry e k\<close>: the logger writes \<open>e\<close> for an event of kind \<open>k\<close>.\<close>

inductive entry :: "pydict \<Rightarrow> entry_kind \<Rightarrow> bool" where
  action: "entry (action_entry t n a nm ty args) (Action n)"
| round_start: "entry (round_start_entry t n h) (RoundStart n)"
| round_end: "entry (round_end_entry t n c) (RoundEnd n c)"
| sim_start: "simulation_start_entry t pl config = Inr e \<Longrightarrow> entry e SimStart"
| sim_end: "entry (simulation_end_entry t pl total_rounds c) (SimEnd c)"

lemma sim_start_fields:
  "simulation_start_entry t pl config = Inr e \<Longrightarrow> dget e (lit ''event_type'') = Some (PyStr (lit ''simulation_start''))"
  by (auto simp: simulation_start_entry_def exn_simps)

definition is_action :: "pydict \<Rightarrow> bool" where
  "is_action e \<longleftrightarrow> \<not> dhas e (lit ''event_type'')"

lemma entry_is_action: "entry e k \<Longrightarrow> is_action e \<longleftrightarrow> (\<exists>n. k = Action n)"
  by (induction rule: entry.induct)
    (auto simp: is_action_def dhas_iff_dget action_entry_def round_start_entry_def round_end_entry_def
      simulation_end_entry_def dest: sim_start_fields)

text \<open>
  \<open>blocks a n ks\<close>: the kinds \<open>ks\<close> are those of the complete rounds \<open>a\<close> to \<open>n - 1\<close>, each a start,
  actions of that round and an end that counts them.
\<close>

inductive blocks :: "int \<Rightarrow> int \<Rightarrow> entry_kind list \<Rightarrow> bool" where
  none: "blocks a a []"
| block: "blocks a n ks \<Longrightarrow> blocks a (n + 1) (ks @ RoundStart n # replicate c (Action n) @ [RoundEnd n c])"

definition action_count :: "entry_kind list \<Rightarrow> nat" where
  "action_count ks = length (filter (\<lambda>k. \<exists>n. k = Action n) ks)"

lemma action_count_simps [simp]:
  "action_count [] = 0" "action_count (ks @ ls) = action_count ks + action_count ls"
  "action_count (Action n # ks) = Suc (action_count ks)" "action_count (RoundStart n # ks) = action_count ks"
  "action_count (RoundEnd n c # ks) = action_count ks" "action_count (SimStart # ks) = action_count ks"
  "action_count (SimEnd c # ks) = action_count ks" "action_count (replicate c (Action n)) = c"
  by (simp_all add: action_count_def)

abbreviation "entries es ks \<equiv> list_all2 entry es ks"

text \<open>The state of a run after rounds \<open>0\<close> to \<open>n - 1\<close>.\<close>

definition run_ok :: "int \<Rightarrow> 'p sim_run \<Rightarrow> bool" where
  "run_ok n s \<longleftrightarrow> (\<exists>ks. entries (sr_log s) (SimStart # ks) \<and> blocks 0 n ks \<and> sr_total_actions s = action_count ks)"

lemma write_block:
  assumes "run_ok n s" "entries es (replicate (length es) (Action n))"
    and "sr_log s' = sr_log s @ round_start_entry t n h # es @ [round_end_entry t' n (length es)]"
    and "sr_total_actions s' = sr_total_actions s + length es"
  shows "run_ok (n + 1) s'"
proof -
  from assms(1) obtain ks where ks: "entries (sr_log s) (SimStart # ks)" "blocks 0 n ks" "sr_total_actions s = action_count ks"
    by (auto simp: run_ok_def)
  let ?ls = "RoundStart n # replicate (length es) (Action n) @ [RoundEnd n (length es)]"
  have "entries (round_start_entry t n h # es @ [round_end_entry t' n (length es)]) ?ls"
    using assms(2) by (auto intro!: list_all2_appendI entry.intros)
  with ks(1) have "entries (sr_log s') (SimStart # ks @ ?ls)"
    using list_all2_appendI [OF ks(1)] by (simp add: assms(3))
  moreover have "blocks 0 (n + 1) (ks @ ?ls)" using ks(2) by (rule blocks.block)
  ultimately show ?thesis using ks(3) assms(4) by (auto simp: run_ok_def)
qed

lemma action_entries: "(\<And>e. e \<in> set es \<Longrightarrow> entry e (Action n)) \<Longrightarrow> entries es (replicate (length es) (Action n))"
  by (simp add: list_all2_conv_all_nth)

lemma initial_posts_entries:
  "initial_posts keep pe names vs p = (r, acts, es) \<Longrightarrow> e \<in> set es \<Longrightarrow> entry e (Action 0)"
proof (induction vs arbitrary: r acts es)
  case (Cons v vs)
  obtain r' acts' es' where rest: "initial_posts keep pe names vs p = (r', acts', es')" by (cases "initial_posts keep pe names vs p")
  from Cons.prems Cons.IH [OF rest] rest show ?case
    by (auto simp: Let_def split: sum.splits intro: entry.action)
qed simp

lemma round_zero_ok:
  assumes "run_ok 0 s" "round_zero keep pe names posts s = (Inr (), s')"
  shows "run_ok 1 s'"
proof -
  let ?p = "sr_platform s"
  from assms(2) obtain vs where vs: "(if truthy posts then iter_vals posts else Inr []) = Inr vs"
    by (auto simp: round_zero_def Let_def split: sum.splits if_splits)
  obtain r acts es where i: "initial_posts keep pe names vs ?p = (r, acts, es)" by (cases "initial_posts keep pe names vs ?p")
  from assms(2) vs i obtain p' where r: "r = Inr ()"
    and s': "s' = write_log [round_end_entry (pe_iso pe p') 0 (length es)]
        ((write_log es (write_log [round_start_entry (pe_iso pe ?p) 0 0] s))\<lparr>sr_total_actions := sr_total_actions s + length es, sr_platform := p'\<rparr>)"
    by (cases r) (auto simp: round_zero_def Let_def write_log_def split: prod.splits sum.splits if_splits)
  have "run_ok (0 + 1) s'"
    by (rule write_block [OF assms(1) action_entries [OF initial_posts_entries [OF i]]]) (simp_all add: s' write_log_def)
  then show ?thesis by simp
qed

lemma simulation_round_ok:
  assumes "run_ok (int m + 1) s" "simulation_round pe config names minutes m s = (Inr (), s')"
  shows "run_ok (int m + 2) s'"
proof -
  let ?h = "((int m * minutes) div 60) mod 24" and ?n = "int m + 1"
  obtain active p where act: "get_active_agents_for_round pe config ?h (sr_platform s) = (active, p)" by force
  from assms(2) act obtain agents where agents: "active = Inr agents"
    by (cases active) (auto simp: simulation_round_def Let_def)
  have "run_ok (?n + 1) s'"
  proof (cases "agents = []")
    case True
    show ?thesis
      by (rule write_block [OF assms(1), of "[]"])
        (use assms(2) act agents True in \<open>auto simp: simulation_round_def Let_def write_log_def\<close>)
  next
    case False
    from assms(2) act agents False obtain p' where step: "pe_act pe p (rev (remdups (rev (map snd agents)))) = (Inr (), p')"
      by (auto simp: simulation_round_def Let_def split: prod.splits sum.splits)
    obtain acts rowid where fetch: "fetch_new_actions_from_db pe p' (sr_last_rowid s) names = (acts, rowid)" by force
    let ?es = "map (\<lambda>a. action_entry (pe_iso pe p') ?n (ad_agent_id a) (ad_agent_name a) (ad_action_type a) (ad_action_args a)) acts"
    show ?thesis
      by (rule write_block [OF assms(1) action_entries, of ?es])
        (use assms(2) act agents False step fetch in \<open>auto simp: simulation_round_def Let_def write_log_def intro: entry.action\<close>)
  qed
  then show ?thesis by (simp add: algebra_simps)
qed

lemma simulation_rounds_ok:
  assumes "run_ok (int m + 1) s" "simulation_rounds pe config names minutes [m..<k] s = (Inr (), s')"
  shows "\<exists>n. run_ok (int n + 1) s' \<and> m \<le> n \<and> n \<le> max m k"
  using assms
proof (induction "k - m" arbitrary: m s)
  case 0
  then show ?case by (auto intro: exI [of _ m])
next
  case (Suc d)
  then have m: "m < k" by simp
  then have range: "[m..<k] = m # [Suc m..<k]" by (simp add: upt_conv_Cons)
  show ?case
  proof (cases "pe_shutdown pe (sr_platform s)")
    case True
    with Suc.prems range show ?thesis by (auto intro: exI [of _ m])
  next
    case False
    obtain r s1 where r: "simulation_round pe config names minutes m s = (r, s1)" by force
    with Suc.prems(2) range False have ok: "r = Inr ()" and rest: "simulation_rounds pe config names minutes [Suc m..<k] s1 = (Inr (), s')"
      by (cases r; simp)+
    from simulation_round_ok [OF Suc.prems(1)] r ok have "run_ok (int (Suc m) + 1) s1" by (simp add: algebra_simps)
    moreover have "d = k - Suc m" using Suc.hyps(2) m by simp
    ultimately obtain n where "run_ok (int n + 1) s'" "Suc m \<le> n" "n \<le> max (Suc m) k"
      using Suc.hyps(1) rest by blast
    with m show ?thesis by (auto intro: exI [of _ n])
  qed
qed

lemma run_simulation_log:
  assumes "run_simulation keep platform pe config max_rounds p = (Inr (), s)"
  shows "\<exists>n ks. blocks 0 (int n + 1) ks \<and> sr_total_actions s = action_count ks
     \<and> entries (sr_log s) (SimStart # ks @ [SimEnd (sr_total_actions s)])"
proof -
  let ?s0 = "\<lparr>sr_platform = p, sr_log = [], sr_total_actions = 0, sr_last_rowid = 0\<rparr>"
  from assms obtain names e posts tc s1 total_rounds minutes s2 where
      e: "simulation_start_entry (pe_iso pe p) platform config = Inr e"
    and zero: "round_zero keep pe (complete_names pe p names) posts (write_log [e] ?s0) = (Inr (), s1)"
    and rounds: "simulation_rounds pe config (complete_names pe p names) minutes [0..<nat total_rounds] s1 = (Inr (), s2)"
    and s: "s = write_log [simulation_end_entry (pe_iso pe (sr_platform s2)) platform total_rounds (sr_total_actions s2)] s2"
    by (auto simp: run_simulation_def Let_def st_bind_def exn_simps split: sum.splits prod.splits)
  have "run_ok 0 (write_log [e] ?s0)"
    using e by (auto simp: run_ok_def write_log_def intro!: exI [of _ "[]"] blocks.none intro: entry.sim_start)
  from round_zero_ok [OF this zero] have "run_ok (int 0 + 1) s1" by simp
  from simulation_rounds_ok [OF this rounds] obtain n ks where "entries (sr_log s2) (SimStart # ks)" "blocks 0 (int n + 1) ks"
      "sr_total_actions s2 = action_count ks"
    by (auto simp: run_ok_def)
  then show ?thesis
    using list_all2_appendI [of entry "sr_log s2" "SimStart # ks" "[simulation_end_entry (pe_iso pe (sr_platform s2)) platform total_rounds (sr_total_actions s2)]"
        "[SimEnd (sr_total_actions s2)]"] entry.sim_end
    by (auto simp: s write_log_def)
qed

text \<open>
  C15: Shape of a log.  A platform simulation that ends normally has written a start entry, complete rounds
  numbered from 0 in order, each with a start, its actions and an end that counts exactly these, and
  an end entry whose total is the number of all logged actions.
\<close>

theorem simulation_log_shape:
  assumes "run_simulation keep platform pe config max_rounds p = (Inr (), s)"
  shows "\<exists>n ks. blocks 0 (int n + 1) ks \<and> entries (sr_log s) (SimStart # ks @ [SimEnd (action_count ks)])
     \<and> sr_total_actions s = length (filter is_action (sr_log s))"
proof -
  from run_simulation_log [OF assms] obtain n ks where ks: "blocks 0 (int n + 1) ks" "sr_total_actions s = action_count ks"
      "entries (sr_log s) (SimStart # ks @ [SimEnd (action_count ks)])" by auto
  have "length (filter is_action es) = action_count ls" if "entries es ls" for es ls
    using that by (induction rule: list_all2_induct) (auto simp: action_count_def entry_is_action)
  from this [OF ks(3)] ks show ?thesis by auto
qed

section \<open>The runner reads the log\<close>

text \<open>
  What the reader needs of \<^verbatim>\<open>json.dumps\<close> and \<^verbatim>\<open>json.loads\<close>: the text of an entry is one line without
  outer white space, and decodes to the entry.
\<close>

definition line_codec :: "(pydict \<Rightarrow> pystr) \<Rightarrow> (pystr \<Rightarrow> pyval option) \<Rightarrow> bool" where
  "line_codec dumps loads \<longleftrightarrow>
     (\<forall>e. loads (dumps e) = Some (PyDict e) \<and> 10 \<notin> set (dumps e) \<and> 13 \<notin> set (dumps e)
        \<and> dumps e \<noteq> [] \<and> py_strip (dumps e) = dumps e)"

definition log_text :: "(pydict \<Rightarrow> pystr) \<Rightarrow> pydict list \<Rightarrow> pystr" where
  "log_text dumps es = concat (map (\<lambda>e. dumps e @ [10]) es)"

lemma file_lines_line: "10 \<notin> set l \<Longrightarrow> 13 \<notin> set l \<Longrightarrow> file_lines acc (l @ 10 # rest) = (acc @ l @ [10]) # file_lines [] rest"
  by (induction l arbitrary: acc) auto

lemma file_lines_log: "line_codec dumps loads \<Longrightarrow> file_lines [] (log_text dumps es) = map (\<lambda>e. dumps e @ [10]) es"
  by (induction es) (auto simp: log_text_def line_codec_def file_lines_line)

lemma strip_newline: "py_strip l = l \<Longrightarrow> py_strip (l @ [10]) = l"
proof (cases "l = []")
  case False
  assume l: "py_strip l = l"
  have "dropWhile is_space (l @ [10]) = dropWhile is_space l @ [10]" if "\<not> (\<forall>c \<in> set l. is_space c)"
    using that by (metis dropWhile_append dropWhile_eq_Nil_conv)
  moreover have "\<not> (\<forall>c \<in> set l. is_space c)" using l False py_strip_eq_Nil_iff by metis
  ultimately show ?thesis using l
    by (simp add: py_strip_def py_lstrip_def py_rstrip_def is_space_def [of 10])
qed (simp add: py_strip_def py_lstrip_def py_rstrip_def is_space_def)

lemma read_entry:
  "line_codec dumps loads \<Longrightarrow> read_line loads now platform (dumps e @ [10]) (st, None) =
     (if dhas e (lit ''event_type'') then (case record_event platform e st of (r, st') \<Rightarrow> (r, (st', None)))
      else (case record_action now platform e st of (r, st') \<Rightarrow> (r, (st', None))))"
proof -
  assume "line_codec dumps loads"
  then have "py_strip (dumps e @ [10]) = dumps e" "dumps e \<noteq> []" "loads (dumps e) = Some (PyDict e)"
    by (auto simp: line_codec_def strip_newline)
  then show ?thesis
    by (auto simp: read_line_def forward_action_def split: prod.splits sum.splits)
qed

definition reader :: "nat \<Rightarrow> SimulationRunState \<Rightarrow> bool" where
  "reader n st \<longleftrightarrow> rs_twitter_actions_count st = PyInt (int n)
     \<and> (\<exists>a. rs_current_round st = PyInt a) \<and> (\<exists>a. rs_twitter_current_round st = PyInt a)
     \<and> rs_twitter_simulated_hours st = PyInt 0 \<and> rs_reddit_simulated_hours st = PyInt 0 \<and> rs_simulated_hours st = PyInt 0"

lemma raise_to_int:
  "get st = PyInt b \<Longrightarrow> raise_to get set_field (PyInt a) st = (Inr (), if b < a then set_field (PyInt a) st else st)"
  by (simp add: raise_to_def py_gt_def)

lemma reader_action:
  assumes "reader n st"
  shows "\<exists>st'. record_action now (lit ''twitter'') (action_entry t m a nm ty args) st = (Inr (), st') \<and> reader (Suc n) st'
     \<and> rs_twitter_completed st' = rs_twitter_completed st"
  using assms
  by (auto simp: reader_def record_action_def log_action_def action_entry_def field_or_def dget_or_dget add_action_def
      py_add_def then_do_def Let_def raise_to_int)

lemma reader_round_end:
  assumes "reader n st"
  shows "\<exists>st'. record_event (lit ''twitter'') (round_end_entry t m c) st = (Inr (), st') \<and> reader n st'
     \<and> rs_twitter_completed st' = rs_twitter_completed st"
  using assms
  by (auto simp: reader_def record_event_def round_end_entry_def round_end_def platform_round_end_def field_or_def
      dget_or_dget then_do_def Let_def raise_to_int)

lemma reader_entry:
  assumes "entry e k" "reader n st" "line_codec dumps loads"
  shows "\<exists>st'. read_line loads now (lit ''twitter'') (dumps e @ [10]) (st, None) = (Inr (), (st', None))
     \<and> reader (n + action_count [k]) st'
     \<and> rs_twitter_completed st' = (case k of SimEnd _ \<Rightarrow> PyBool True | _ \<Rightarrow> rs_twitter_completed st)"
  using assms(1)
proof cases
  case (action t m a nm ty args)
  from reader_action [OF assms(2), of now t m a nm ty args] obtain st' where
      "record_action now (lit ''twitter'') e st = (Inr (), st')" "reader (Suc n) st'" "rs_twitter_completed st' = rs_twitter_completed st"
    by (auto simp: action)
  moreover have "\<not> dhas e (lit ''event_type'')" by (simp add: action action_entry_def dhas_iff_dget)
  ultimately show ?thesis by (simp add: read_entry [OF assms(3)] action)
next
  case (round_end t m c)
  with reader_round_end [OF assms(2), of t m c] show ?thesis
    by (auto simp: read_entry [OF assms(3)] round_end_entry_def dhas_iff_dget)
next
  case sim_start
  then have "dget e (lit ''event_type'') = Some (PyStr (lit ''simulation_start''))" by (auto dest: sim_start_fields)
  with sim_start assms(2) show ?thesis
    by (auto simp: read_entry [OF assms(3)] dhas_iff_dget record_event_def)
next
  case sim_end
  with assms(2) show ?thesis
    by (auto simp: read_entry [OF assms(3)] simulation_end_entry_def dhas_iff_dget record_event_def set_completed_def reader_def)
next
  case round_start
  with assms(2) show ?thesis
    by (auto simp: read_entry [OF assms(3)] round_start_entry_def dhas_iff_dget record_event_def)
qed

lemma reader_entries:
  assumes "entries es ks" "reader n st" "line_codec dumps loads"
  shows "\<exists>st'. read_lines loads now (lit ''twitter'') (map (\<lambda>e. dumps e @ [10]) es) (st, None) = (Inr (), (st', None))
     \<and> reader (n + action_count ks) st' \<and> (es \<noteq> [] \<longrightarrow> (\<exists>c. last ks = SimEnd c) \<longrightarrow> rs_twitter_completed st' = PyBool True)"
  using assms(1,2)
proof (induction arbitrary: n st rule: list_all2_induct)
  case Nil
  then show ?case by simp
next
  case (Cons e es k ks)
  from reader_entry [OF Cons.hyps(1) Cons.prems assms(3)] obtain st1 where st1:
      "read_line loads now (lit ''twitter'') (dumps e @ [10]) (st, None) = (Inr (), (st1, None))"
      "reader (n + action_count [k]) st1"
      "rs_twitter_completed st1 = (case k of SimEnd _ \<Rightarrow> PyBool True | _ \<Rightarrow> rs_twitter_completed st)" by blast
  from Cons.IH [OF st1(2)] obtain st2 where st2:
      "read_lines loads now (lit ''twitter'') (map (\<lambda>e. dumps e @ [10]) es) (st1, None) = (Inr (), (st2, None))"
      "reader (n + action_count [k] + action_count ks) st2"
      "es \<noteq> [] \<longrightarrow> (\<exists>c. last ks = SimEnd c) \<longrightarrow> rs_twitter_completed st2 = PyBool True" by blast
  have "action_count (k # ks) = action_count [k] + action_count ks" by (simp add: action_count_def)
  moreover have "rs_twitter_completed st2 = PyBool True" if "es = []" "k = SimEnd c" for c
    using that st1(3) st2(1) by simp
  moreover have "es = [] \<longleftrightarrow> ks = []" using Cons.hyps(2) by auto
  ultimately show ?case using st1(1) st2 by (auto simp: add.assoc)
qed

lemma read_whole_log:
  assumes "line_codec dumps loads" "run_twitter_simulation pe config max_rounds p = (Inr (), s)" "reader 0 st"
  shows "\<exists>st'. read_action_log loads now (log_text dumps (sr_log s)) (lit ''twitter'') 0 (st, None)
        = (length (log_text dumps (sr_log s)), (st', None))
     \<and> reader (sr_total_actions s) st' \<and> rs_twitter_completed st' = PyBool True"
proof -
  from run_simulation_log [of False twitter pe config max_rounds p s] assms(2)
  obtain ks where ks: "entries (sr_log s) (SimStart # ks @ [SimEnd (sr_total_actions s)])" "sr_total_actions s = action_count ks"
    by (auto simp: run_twitter_simulation_def)
  from ks(1) have "sr_log s \<noteq> []" by auto
  with reader_entries [OF ks(1) assms(3,1), of now] ks(2) show ?thesis
    by (auto simp: read_action_log_def file_lines_log [OF assms(1)])
qed


text \<open>
  Simulated time is lost.  The end of a round is logged without the simulated hours the runner looks
  for, so after reading the whole log of any simulation the run state still shows zero simulated hours.
\<close>

theorem simulated_hours_stay_zero:
  assumes "line_codec dumps loads" "run_twitter_simulation pe config max_rounds p = (Inr (), s)" "reader 0 st"
  shows "rs_simulated_hours (fst (snd (read_action_log loads now (log_text dumps (sr_log s)) (lit ''twitter'') 0 (st, None)))) = PyInt 0"
  using read_whole_log [OF assms, of now] by (auto simp: reader_def)

section \<open>A small simulation\<close>

text \<open>
  One agent; the platform is its trace table, in which a step records the posts it makes.
\<close>

type_synonym trace = "(int \<times> pyval \<times> pyval \<times> pyval) list"

definition post_rows :: "(nat \<times> pyval list) list \<Rightarrow> trace \<Rightarrow> trace" where
  "post_rows acts p = p @ map (\<lambda>(i, a, c). (int (length p) + 1 + int i, PyInt (int a), PyStr (lit ''create_post''), c))
     (enumerate 0 (concat (map (\<lambda>(a, cs). map (Pair a) cs) acts)))"

definition demo_pe :: "(trace, nat) platform_env" where
  "demo_pe = \<lparr>
     pe_get_agent = (\<lambda>p a. if a = PyInt 1 then Inr 1 else Inl (Exn KeyErr (lit ''agent''))),
     pe_agents = (\<lambda>p. [(PyInt 1, None)]),
     pe_post = (\<lambda>p acts. (Inr (), post_rows acts p)),
     pe_act = (\<lambda>p agents. (Inr (), p)),
     pe_trace = (\<lambda>p. Some (Inr p)),
     pe_post_row = (\<lambda>p i. Inr None), pe_comment_row = (\<lambda>p i. Inr None), pe_user_row = (\<lambda>p i. Inr None),
     pe_original = (\<lambda>p i. Inr None), pe_quote = (\<lambda>p i. Inr None), pe_followee = (\<lambda>p i. Inr None),
     pe_loads = (\<lambda>v. Inr (PyDict [(lit ''content'', v)])),
     pe_uniform = (\<lambda>a b p. (b, p)), pe_random = (\<lambda>p. (0, p)), pe_sample = (\<lambda>xs k p. (take k xs, p)),
     pe_iso = (\<lambda>p. lit ''t''), pe_repr = (\<lambda>v. []), pe_shutdown = (\<lambda>p. False)\<rparr>"

definition demo_config :: pydict where
  "demo_config =
     [(lit ''agent_configs'', PyList [PyDict [(lit ''agent_id'', PyInt 1), (lit ''entity_name'', PyStr (lit ''Ann'')),
         (lit ''active_hours'', PyList [PyInt 0])]]),
      (lit ''time_config'', PyDict [(lit ''total_simulation_hours'', PyInt 1), (lit ''minutes_per_round'', PyInt 60)]),
      (lit ''event_config'', PyDict [(lit ''initial_posts'', PyList
         [PyDict [(lit ''poster_agent_id'', PyInt 1), (lit ''content'', PyStr (lit ''x''))],
          PyDict [(lit ''poster_agent_id'', PyInt 1), (lit ''content'', PyStr (lit ''y''))]])])]"

text \<open>
  Initial posts.  Both initial posts of the agent are logged in round 0, but the twitter step makes
  only the later one; and since the database position is not moved past the initial step, that post
  is logged a second time in round 1.
\<close>

theorem initial_post_lost_and_repeated:
  "let (r, s) = run_twitter_simulation demo_pe demo_config None []
   in r = Inr () \<and> map (\<lambda>(_, _, _, c). c) (sr_platform s) = [PyStr (lit ''y'')]
      \<and> map (\<lambda>e. (dget e (lit ''round''), dget e (lit ''action_args''))) (filter is_action (sr_log s)) =
        [(Some (PyInt 0), Some (PyDict [(lit ''content'', PyStr (lit ''x''))])),
         (Some (PyInt 0), Some (PyDict [(lit ''content'', PyStr (lit ''y''))])),
         (Some (PyInt 1), Some (PyDict [(lit ''content'', PyStr (lit ''y''))]))]"
  by code_simp

section \<open>Muted users\<close>

lemma dget_map_filter: "dget (List.map_filter (\<lambda>k. map_option (Pair k) (dget d k)) ks) k = (if k \<in> set ks then dget d k else None)"
  by (induction ks) (auto simp: List.map_filter_simps split: option.splits)

text \<open>
  Muted users.  The target of a mute action is looked up among arguments that were dropped when the
  arguments were simplified, so a mute action never gets its target's name.
\<close>

theorem mute_target_never_named:
  assumes "simplify_args info = Inr args"
  shows "enrich_action_context pe p names (lit ''MUTE'') args = args"
proof -
  have "dget args (lit k) = None" if "lit k \<notin> set KEPT_ARGS" for k
    using assms that by (auto simp: simplify_args_def dget_map_filter split: pyval.splits if_splits)
  then have "dget_or args (lit ''user_id'') PyNone = PyNone" "dget_or args (lit ''target_id'') PyNone = PyNone"
    by (simp_all add: dget_or_dget KEPT_ARGS_def)
  then show ?thesis by (simp add: enrich_action_context_def Let_def or_val_def)
qed

theorem mute_target_never_named_witness:
  "enrich_action_context (demo_pe\<lparr>pe_user_row := \<lambda>p i. Inr (Some (PyNone, PyStr (lit ''Bob''), PyNone))\<rparr>) [] [] (lit ''MUTE'')
     [(lit ''content'', PyStr (lit ''c''))] = [(lit ''content'', PyStr (lit ''c''))]"
  by (rule mute_target_never_named [where info = "PyDict [(lit ''user_id'', PyInt 5), (lit ''content'', PyStr (lit ''c''))]"])
    (simp add: simplify_args_def KEPT_ARGS_def List.map_filter_simps)

section \<open>The hypotheses can be met\<close>

instance pyval :: countable
  by countable_datatype

definition unary_dumps :: "pydict \<Rightarrow> pystr" where
  "unary_dumps e = replicate (to_nat e + 1) 97"

definition unary_loads :: "pystr \<Rightarrow> pyval option" where
  "unary_loads s = Some (PyDict (from_nat (length s - 1)))"

lemma unary_codec: "line_codec unary_dumps unary_loads"
proof -
  have "dropWhile is_space (replicate n 97) = replicate n 97" for n
    by (cases n) (simp_all add: is_space_def)
  then show ?thesis
    by (simp add: line_codec_def unary_dumps_def unary_loads_def py_strip_def py_lstrip_def py_rstrip_def del: replicate_Suc)
qed

lemma demo_run_ends: "\<exists>s. run_twitter_simulation demo_pe demo_config None [] = (Inr (), s)"
proof -
  have "fst (run_twitter_simulation demo_pe demo_config None []) = Inr ()" by code_simp
  then show ?thesis by (metis prod.collapse)
qed

lemma fresh_reader: "reader 0 (fresh_run_state sid now)"
  by (simp add: reader_def fresh_run_state_def)

theorem simulation_log_shape_witness:
  "\<exists>n ks. blocks 0 (int n + 1) ks
     \<and> entries (sr_log (snd (run_simulation False twitter demo_pe demo_config None []))) (SimStart # ks @ [SimEnd (action_count ks)])"
proof -
  have "run_simulation False twitter demo_pe demo_config None [] = (Inr (), snd (run_simulation False twitter demo_pe demo_config None []))"
    using demo_run_ends by (auto simp: run_twitter_simulation_def)
  from simulation_log_shape [OF this] show ?thesis by blast
qed


theorem simulated_hours_stay_zero_witness:
  "\<exists>s. run_twitter_simulation demo_pe demo_config None [] = (Inr (), s)
     \<and> rs_simulated_hours (fst (snd (read_action_log unary_loads (lit ''t'') (log_text unary_dumps (sr_log s)) (lit ''twitter'') 0
          (fresh_run_state (lit ''sim'') (lit ''t''), None)))) = PyInt 0"
proof -
  from demo_run_ends obtain s where s: "run_twitter_simulation demo_pe demo_config None [] = (Inr (), s)" by blast
  with simulated_hours_stay_zero [OF unary_codec s fresh_reader] show ?thesis by blast
qed

end
