(* ===== verification/Entity_Reader.thy ===== *)
theory Entity_Reader
  imports Project_Store Zep_Paging
begin

text \<open>
  Model of \<^verbatim>\<open>services/zep_entity_reader.py\<close>: reading the nodes and edges of a graph, selecting the
  entities of the defined types, and attaching their relations.  The Zep calls are fields of
  \<open>reader_env\<close>; \<open>rv_order\<close> is the order in which Python iterates a set built by adding the given
  elements.  \<open>None\<close> is an endless page chain.
\<close>

section \<open>Nodes and edges\<close>

record zep_node =
  zn_id1 :: pyval
  zn_id2 :: pyval
  zn_name :: pyval
  zn_labels :: "pystr list option"
  zn_summary :: pyval
  zn_attributes :: "pydict option"

record zep_edge =
  ze_id1 :: pyval
  ze_id2 :: pyval
  ze_name :: pyval
  ze_fact :: pyval
  ze_source :: pyval
  ze_target :: pyval
  ze_attributes :: "pydict option"

record node_data =
  nd_uuid :: pyval
  nd_name :: pyval
  nd_labels :: "pystr list"
  nd_summary :: pyval
  nd_attributes :: pydict

record edge_data =
  ed_uuid :: pyval
  ed_name :: pyval
  ed_fact :: pyval
  ed_source :: pyval
  ed_target :: pyval
  ed_attributes :: pydict

definition or_else :: "pyval \<Rightarrow> pyval \<Rightarrow> pyval" where
  "or_else a b = (if truthy a then a else b)"

definition or_nil :: "'a list option \<Rightarrow> 'a list" where
  "or_nil x = (case x of None \<Rightarrow> [] | Some xs \<Rightarrow> xs)"

definition node_to_data :: "zep_node \<Rightarrow> node_data" where
  "node_to_data n = \<lparr>nd_uuid = or_else (zn_id1 n) (zn_id2 n), nd_name = or_else (zn_name n) (PyStr []),
     nd_labels = or_nil (zn_labels n), nd_summary = or_else (zn_summary n) (PyStr []),
     nd_attributes = or_nil (zn_attributes n)\<rparr>"

definition edge_to_data :: "zep_edge \<Rightarrow> edge_data" where
  "edge_to_data e = \<lparr>ed_uuid = or_else (ze_id1 e) (ze_id2 e), ed_name = or_else (ze_name e) (PyStr []),
     ed_fact = or_else (ze_fact e) (PyStr []), ed_source = ze_source e, ed_target = ze_target e,
     ed_attributes = or_nil (ze_attributes e)\<rparr>"

section \<open>Entities\<close>

datatype related_edge =
    Outgoing (re_name: pyval) (re_fact: pyval) (re_other: pyval)
  | Incoming (re_name: pyval) (re_fact: pyval) (re_other: pyval)

record related_node =
  rl_uuid :: pyval
  rl_name :: pyval
  rl_labels :: "pystr list"
  rl_summary :: pyval

record EntityNode =
  en_uuid :: pyval
  en_name :: pyval
  en_labels :: "pystr list"
  en_summary :: pyval
  en_attributes :: pydict
  en_related_edges :: "related_edge list"
  en_related_nodes :: "related_node list"

abbreviation default_labels :: "pystr list" where
  "default_labels \<equiv> [lit ''Entity'', lit ''Node'']"

definition get_entity_type :: "EntityNode \<Rightarrow> pystr option" where
  "get_entity_type e = find (\<lambda>l. l \<notin> set default_labels) (en_labels e)"

fun related_edge_dict :: "related_edge \<Rightarrow> pydict" where
  "related_edge_dict (Outgoing n f t) = [(lit ''direction'', PyStr (lit ''outgoing'')), (lit ''edge_name'', n), (lit ''fact'', f),
     (lit ''target_node_uuid'', t)]"
| "related_edge_dict (Incoming n f s) = [(lit ''direction'', PyStr (lit ''incoming'')), (lit ''edge_name'', n), (lit ''fact'', f),
     (lit ''source_node_uuid'', s)]"

definition related_node_dict :: "related_node \<Rightarrow> pydict" where
  "related_node_dict r = [(lit ''uuid'', rl_uuid r), (lit ''name'', rl_name r),
     (lit ''labels'', PyList (map PyStr (rl_labels r))), (lit ''summary'', rl_summary r)]"

definition entity_to_dict :: "EntityNode \<Rightarrow> pydict" where
  "entity_to_dict e =
     [(lit ''uuid'', en_uuid e), (lit ''name'', en_name e), (lit ''labels'', PyList (map PyStr (en_labels e))),
      (lit ''summary'', en_summary e), (lit ''attributes'', PyDict (en_attributes e)),
      (lit ''related_edges'', PyList (map (PyDict \<circ> related_edge_dict) (en_related_edges e))),
      (lit ''related_nodes'', PyList (map (PyDict \<circ> related_node_dict) (en_related_nodes e)))]"

record FilteredEntities =
  fe_entities :: "EntityNode list"
  fe_entity_types :: "pystr set"
  fe_total_count :: nat
  fe_filtered_count :: nat

definition filtered_to_dict :: "(pystr set \<Rightarrow> pystr list) \<Rightarrow> FilteredEntities \<Rightarrow> pydict" where
  "filtered_to_dict order f =
     [(lit ''entities'', PyList (map (PyDict \<circ> entity_to_dict) (fe_entities f))),
      (lit ''entity_types'', PyList (map PyStr (order (fe_entity_types f)))),
      (lit ''total_count'', PyInt (int (fe_total_count f))), (lit ''filtered_count'', PyInt (int (fe_filtered_count f)))]"

section \<open>The reader\<close>

record 'w reader_env =
  rv_float :: "pystr \<Rightarrow> rat option"
  rv_sleep :: "rat \<Rightarrow> 'w \<Rightarrow> 'w"
  rv_nodes :: "pystr \<Rightarrow> int \<Rightarrow> pystr option \<Rightarrow> ('w, zep_node page) action"
  rv_edges :: "pystr \<Rightarrow> int \<Rightarrow> pystr option \<Rightarrow> ('w, zep_edge page) action"
  rv_node :: "pyval \<Rightarrow> ('w, zep_node option) action"
  rv_node_edges :: "pyval \<Rightarrow> ('w, zep_edge list) action"
  rv_order :: "pyval list \<Rightarrow> pyval list"

definition new_entity_reader :: "pystr option \<Rightarrow> pystr option \<Rightarrow> pystr option \<Rightarrow> (pystr \<times> rat) res" where
  "new_entity_reader env_url config_key api_key =
     (case or_str api_key config_key of
        Some (c # cs) \<Rightarrow> get_zep_client env_url config_key (Some (c # cs)) None
      | _ \<Rightarrow> Inl (Exn ValueError zh_not_configured))"

definition call_with_retry_read :: "'w reader_env \<Rightarrow> ('w, 'a) action \<Rightarrow> ('w, 'a) action" where
  "call_with_retry_read env func = call_zep_read_with_retry (rv_float env) (rv_sleep env) 3 2 60 func"

definition get_all_nodes :: "'w reader_env \<Rightarrow> pystr \<Rightarrow> 'w \<Rightarrow> (node_data list res \<times> 'w) option" where
  "get_all_nodes env graph_id w =
     map_option (\<lambda>(r, w'). (bind_res r (\<lambda>ns. Inr (map node_to_data ns)), w'))
       (fetch_all_nodes (rv_float env) (rv_sleep env) (rv_nodes env) graph_id 100 None 3 2 w)"

definition get_all_edges :: "'w reader_env \<Rightarrow> pystr \<Rightarrow> 'w \<Rightarrow> (edge_data list res \<times> 'w) option" where
  "get_all_edges env graph_id w =
     map_option (\<lambda>(r, w'). (bind_res r (\<lambda>es. Inr (map edge_to_data es)), w'))
       (fetch_all_edges (rv_float env) (rv_sleep env) (rv_edges env) graph_id 100 3 2 None w)"

definition get_node_edges :: "'w reader_env \<Rightarrow> pyval \<Rightarrow> pystr \<Rightarrow> 'w \<Rightarrow> (edge_data list res \<times> 'w) option" where
  "get_node_edges env node_uuid graph_id w =
     (if graph_id \<noteq> [] then
        map_option (\<lambda>(r, w'). (bind_res r (\<lambda>es. Inr (filter (\<lambda>e. ed_source e = node_uuid \<or> ed_target e = node_uuid) es)), w'))
          (get_all_edges env graph_id w)
      else
        (case call_with_retry_read env (rv_node_edges env node_uuid) w of
           (r, w') \<Rightarrow> Some (bind_res r (\<lambda>es. Inr (map edge_to_data es)), w')))"

text \<open>\<^verbatim>\<open>{n["uuid"]: n for n in all_nodes}\<close>: a later node of the same id wins.\<close>

definition node_map :: "node_data list \<Rightarrow> (pyval \<times> node_data) list" where
  "node_map ns = fold (\<lambda>n m. dset m (nd_uuid n) n) ns []"

text \<open>The relations of a node, edge by edge: the related edges and the ids added to the set.\<close>

fun relate :: "pyval \<Rightarrow> edge_data list \<Rightarrow> related_edge list \<times> pyval list" where
  "relate u [] = ([], [])"
| "relate u (e # es) =
     (let (rs, us) = relate u es in
      if ed_source e = u then (Outgoing (ed_name e) (ed_fact e) (ed_target e) # rs, ed_target e # us)
      else if ed_target e = u then (Incoming (ed_name e) (ed_fact e) (ed_source e) # rs, ed_source e # us)
      else (rs, us))"

definition related_node_of :: "node_data \<Rightarrow> related_node" where
  "related_node_of n = \<lparr>rl_uuid = nd_uuid n, rl_name = nd_name n, rl_labels = nd_labels n, rl_summary = nd_summary n\<rparr>"

definition related_nodes :: "(pyval list \<Rightarrow> pyval list) \<Rightarrow> (pyval \<times> node_data) list \<Rightarrow> pyval list \<Rightarrow> related_node list" where
  "related_nodes order m us = List.map_filter (\<lambda>u. map_option related_node_of (dget m u)) (order us)"

definition chosen_type :: "pystr list \<Rightarrow> node_data \<Rightarrow> pystr option" where
  "chosen_type defined n =
     (let custom = filter (\<lambda>l. l \<notin> set default_labels) (nd_labels n);
          matching = (if defined = [] then custom else filter (\<lambda>l. l \<in> set defined) custom)
      in case matching of [] \<Rightarrow> None | l # _ \<Rightarrow> Some l)"

definition entity_of ::
  "(pyval list \<Rightarrow> pyval list) \<Rightarrow> bool \<Rightarrow> (pyval \<times> node_data) list \<Rightarrow> edge_data list \<Rightarrow> node_data \<Rightarrow> EntityNode" where
  "entity_of order enrich m edges n =
     \<lparr>en_uuid = nd_uuid n, en_name = nd_name n, en_labels = nd_labels n, en_summary = nd_summary n,
      en_attributes = nd_attributes n,
      en_related_edges = (if enrich then fst (relate (nd_uuid n) edges) else []),
      en_related_nodes = (if enrich then related_nodes order m (snd (relate (nd_uuid n) edges)) else [])\<rparr>"

fun filter_loop ::
  "(pyval list \<Rightarrow> pyval list) \<Rightarrow> pystr list \<Rightarrow> bool \<Rightarrow> (pyval \<times> node_data) list \<Rightarrow> edge_data list \<Rightarrow> node_data list \<Rightarrow>
   EntityNode list \<Rightarrow> pystr set \<Rightarrow> EntityNode list \<times> pystr set" where
  "filter_loop order defined enrich m edges [] entities types = (entities, types)"
| "filter_loop order defined enrich m edges (n # ns) entities types =
     (case chosen_type defined n of
        None \<Rightarrow> filter_loop order defined enrich m edges ns entities types
      | Some ty \<Rightarrow> filter_loop order defined enrich m edges ns (entities @ [entity_of order enrich m edges n]) (insert ty types))"

definition filter_defined_entities ::
  "'w reader_env \<Rightarrow> pystr \<Rightarrow> pystr list \<Rightarrow> bool \<Rightarrow> 'w \<Rightarrow> (FilteredEntities res \<times> 'w) option" where
  "filter_defined_entities env graph_id defined enrich w =
     (case get_all_nodes env graph_id w of
        None \<Rightarrow> None
      | Some (Inl e, w) \<Rightarrow> Some (Inl e, w)
      | Some (Inr ns, w) \<Rightarrow>
          (case (if enrich then get_all_edges env graph_id w else Some (Inr [], w)) of
             None \<Rightarrow> None
           | Some (Inl e, w) \<Rightarrow> Some (Inl e, w)
           | Some (Inr es, w) \<Rightarrow>
               (let (entities, types) = filter_loop (rv_order env) defined enrich (node_map ns) es ns [] {}
                in Some (Inr \<lparr>fe_entities = entities, fe_entity_types = types, fe_total_count = length ns,
                              fe_filtered_count = length entities\<rparr>, w))))"

text \<open>A missing node and Zep's 404 give \<open>None\<close>; other errors are raised.\<close>

definition not_found_is_none :: "('a option res \<times> 'w) option \<Rightarrow> ('a option res \<times> 'w) option" where
  "not_found_is_none x =
     map_option (\<lambda>(r, w). (case r of Inl e \<Rightarrow> if exn_kind e = NotFoundErr then Inr None else Inl e | Inr v \<Rightarrow> Inr v, w)) x"

fun relate_context :: "pyval \<Rightarrow> edge_data list \<Rightarrow> related_edge list \<times> pyval list" where
  "relate_context u [] = ([], [])"
| "relate_context u (e # es) =
     (let (rs, us) = relate_context u es in
      if ed_source e = u then (Outgoing (ed_name e) (ed_fact e) (ed_target e) # rs, ed_target e # us)
      else (Incoming (ed_name e) (ed_fact e) (ed_source e) # rs, ed_source e # us))"

definition get_entity_with_context ::
  "'w reader_env \<Rightarrow> pystr \<Rightarrow> pyval \<Rightarrow> 'w \<Rightarrow> (EntityNode option res \<times> 'w) option" where
  "get_entity_with_context env graph_id entity_uuid w = not_found_is_none
     (case call_with_retry_read env (rv_node env entity_uuid) w of
        (Inl e, w) \<Rightarrow> Some (Inl e, w)
      | (Inr None, w) \<Rightarrow> Some (Inr None, w)
      | (Inr (Some node), w) \<Rightarrow>
          (case get_node_edges env entity_uuid graph_id w of
             None \<Rightarrow> None
           | Some (Inl e, w) \<Rightarrow> Some (Inl e, w)
           | Some (Inr edges, w) \<Rightarrow>
               (case get_all_nodes env graph_id w of
                  None \<Rightarrow> None
                | Some (Inl e, w) \<Rightarrow> Some (Inl e, w)
                | Some (Inr ns, w) \<Rightarrow>
                    (let (rs, us) = relate_context entity_uuid edges; n = node_to_data node
                     in Some (Inr (Some \<lparr>en_uuid = nd_uuid n, en_name = nd_name n, en_labels = nd_labels n,
                           en_summary = nd_summary n, en_attributes = nd_attributes n, en_related_edges = rs,
                           en_related_nodes = related_nodes (rv_order env) (node_map ns) us\<rparr>), w)))))"

definition get_entities_by_type ::
  "'w reader_env \<Rightarrow> pystr \<Rightarrow> pystr \<Rightarrow> bool \<Rightarrow> 'w \<Rightarrow> (EntityNode list res \<times> 'w) option" where
  "get_entities_by_type env graph_id entity_type enrich w =
     map_option (\<lambda>(r, w'). (bind_res r (\<lambda>f. Inr (fe_entities f)), w'))
       (filter_defined_entities env graph_id [entity_type] enrich w)"

section \<open>What the entities are\<close>

lemma filter_loop_spec:
  "filter_loop order defined enrich m edges ns entities types =
     (entities @ map (entity_of order enrich m edges) (filter (\<lambda>n. chosen_type defined n \<noteq> None) ns),
      types \<union> set (List.map_filter (chosen_type defined) ns))"
  by (induction ns arbitrary: entities types) (auto simp: List.map_filter_simps split: option.splits)

lemma set_map_filter: "set (List.map_filter f xs) = {y. \<exists>x \<in> set xs. f x = Some y}"
  by (induction xs) (auto simp: List.map_filter_simps split: option.splits)

lemma find_unique:
  assumes "distinct (map k xs)"
  shows "find (\<lambda>x. k x = u) xs = Some y \<longleftrightarrow> y \<in> set xs \<and> k y = u"
  using assms by (induction xs) (auto simp: image_iff)

lemma dget_node_map:
  assumes "distinct (map nd_uuid ns)"
  shows "dget (node_map ns) u = find (\<lambda>n. nd_uuid n = u) ns"
proof -
  have "dget (fold (\<lambda>n m. dset m (nd_uuid n) n) ns m) u = (case find (\<lambda>n. nd_uuid n = u) ns of None \<Rightarrow> dget m u | Some n \<Rightarrow> Some n)" for m
    using assms
  proof (induction ns arbitrary: m)
    case (Cons n ns)
    then have none: "find (\<lambda>x. nd_uuid x = nd_uuid n) ns = None" by (force simp: find_None_iff image_iff)
    show ?case using Cons none by (auto split: option.splits)
  qed simp
  from this [of "[]"] show ?thesis by (simp add: node_map_def split: option.splits)
qed

text \<open>The related edges are the incident edges, in order, seen from the node; the ids are the other ends.\<close>

definition incident :: "pyval \<Rightarrow> edge_data \<Rightarrow> bool" where
  "incident u e \<longleftrightarrow> ed_source e = u \<or> ed_target e = u"

definition other_end :: "pyval \<Rightarrow> edge_data \<Rightarrow> pyval" where
  "other_end u e = (if ed_source e = u then ed_target e else ed_source e)"

definition seen_from :: "pyval \<Rightarrow> edge_data \<Rightarrow> related_edge" where
  "seen_from u e = (if ed_source e = u then Outgoing (ed_name e) (ed_fact e) (ed_target e)
     else Incoming (ed_name e) (ed_fact e) (ed_source e))"

lemma relate_spec: "relate u es = (map (seen_from u) (filter (incident u) es), map (other_end u) (filter (incident u) es))"
  by (induction es) (auto simp: incident_def other_end_def seen_from_def)

lemma relate_context_spec: "relate_context u es = (map (seen_from u) es, map (other_end u) es)"
  by (induction es) (auto simp: other_end_def seen_from_def)

text \<open>
  C17: Selection and relations.  For a graph with distinct node ids, read in full, the filtered entities are, in the order
  of the nodes, those nodes with a label other than \<^verbatim>\<open>Entity\<close> and \<^verbatim>\<open>Node\<close> that is among the defined
  types if any are given; the counts are right; the related edges of an entity are exactly its
  incident edges, and its related nodes exactly the nodes at their other ends.
\<close>

theorem filter_defined_entities_spec:
  assumes "get_all_nodes env g w = Some (Inr ns, w1)" "get_all_edges env g w1 = Some (Inr es, w2)"
    and "distinct (map nd_uuid ns)" "\<And>us. set (rv_order env us) = set us"
  shows "\<exists>f. filter_defined_entities env g defined True w = Some (Inr f, w2)
    \<and> map en_uuid (fe_entities f) = map nd_uuid (filter (\<lambda>n. \<exists>l \<in> set (nd_labels n). l \<notin> set default_labels \<and> (defined = [] \<or> l \<in> set defined)) ns)
    \<and> fe_total_count f = length ns \<and> fe_filtered_count f = length (fe_entities f)
    \<and> (\<forall>e \<in> set (fe_entities f). en_related_edges e = map (seen_from (en_uuid e)) (filter (incident (en_uuid e)) es)
         \<and> set (en_related_nodes e) = related_node_of ` {n \<in> set ns. \<exists>x \<in> set es. incident (en_uuid e) x \<and> nd_uuid n = other_end (en_uuid e) x})"
proof -
  have sel: "chosen_type defined n \<noteq> None \<longleftrightarrow> (\<exists>l \<in> set (nd_labels n). l \<notin> set default_labels \<and> (defined = [] \<or> l \<in> set defined))" for n
  proof -
    have "(case xs of [] \<Rightarrow> None | l # _ \<Rightarrow> Some l) \<noteq> None \<longleftrightarrow> xs \<noteq> []" for xs :: "pystr list" by (cases xs) auto
    then show ?thesis by (auto simp: chosen_type_def Let_def filter_empty_conv simp del: not_None_eq)
  qed
  have nodes: "set (related_nodes (rv_order env) (node_map ns) us) = related_node_of ` {n \<in> set ns. nd_uuid n \<in> set us}" for us
  proof -
    have "find (\<lambda>x. nd_uuid x = u) ns = Some n \<longleftrightarrow> n \<in> set ns \<and> nd_uuid n = u" for n u
      by (rule find_unique [OF assms(3)])
    then have "dget (node_map ns) u = Some n \<longleftrightarrow> n \<in> set ns \<and> nd_uuid n = u" for n u
      by (simp add: dget_node_map [OF assms(3)])
    then show ?thesis
      by (auto simp: related_nodes_def set_map_filter assms(4) image_def)
  qed
  let ?f = "\<lparr>fe_entities = map (entity_of (rv_order env) True (node_map ns) es) (filter (\<lambda>n. chosen_type defined n \<noteq> None) ns),
       fe_entity_types = set (List.map_filter (chosen_type defined) ns), fe_total_count = length ns,
       fe_filtered_count = length (filter (\<lambda>n. chosen_type defined n \<noteq> None) ns)\<rparr>"
  have run: "filter_defined_entities env g defined True w = Some (Inr ?f, w2)"
    using assms(1,2) by (simp add: filter_defined_entities_def filter_loop_spec)
  have "en_related_edges e = map (seen_from (en_uuid e)) (filter (incident (en_uuid e)) es)
      \<and> set (en_related_nodes e) = related_node_of ` {n \<in> set ns. \<exists>x \<in> set es. incident (en_uuid e) x \<and> nd_uuid n = other_end (en_uuid e) x}"
    if e: "e \<in> set (fe_entities ?f)" for e
  proof -
    from e obtain n where e: "e = entity_of (rv_order env) True (node_map ns) es n" by auto
    have "{n' \<in> set ns. nd_uuid n' \<in> set (map (other_end (nd_uuid n)) (filter (incident (nd_uuid n)) es))}
        = {n' \<in> set ns. \<exists>x \<in> set es. incident (nd_uuid n) x \<and> nd_uuid n' = other_end (nd_uuid n) x}" by auto
    then show ?thesis by (simp add: e entity_of_def relate_spec nodes del: set_map set_filter)
  qed
  moreover have "map en_uuid (fe_entities ?f) = map nd_uuid (filter (\<lambda>n. chosen_type defined n \<noteq> None) ns)"
    by (simp add: entity_of_def comp_def)
  ultimately show ?thesis using run sel by (intro exI [of _ ?f]) simp
qed

text \<open>
  Two ways to an entity.  Asking for one entity with its context gives the same relations as selecting all
  entities of the graph does.
\<close>

theorem entity_context_agrees:
  assumes "call_with_retry_read env (rv_node env u) w = (Inr (Some node), w0)" "nd_uuid (node_to_data node) = u" "g \<noteq> []"
    and "get_all_edges env g w0 = Some (Inr es, w1)" "get_all_nodes env g w1 = Some (Inr ns, w2)"
  shows "get_entity_with_context env g u w
    = Some (Inr (Some (entity_of (rv_order env) True (node_map ns) es (node_to_data node))), w2)"
  using assms
  by (simp add: get_entity_with_context_def get_node_edges_def not_found_is_none_def relate_context_spec entity_of_def
      relate_spec incident_def [abs_def] Let_def)

section \<open>A small graph\<close>

definition one_page :: "'i list \<Rightarrow> 'i page" where
  "one_page xs = \<lparr>page_data = Some xs, page_headers = None\<rparr>"

definition ann :: zep_node where
  "ann = \<lparr>zn_id1 = PyStr (lit ''a''), zn_id2 = PyNone, zn_name = PyStr (lit ''Ann''), zn_labels = Some [lit ''Entity'', lit ''Student''],
     zn_summary = PyNone, zn_attributes = None\<rparr>"

definition bob :: zep_node where
  "bob = \<lparr>zn_id1 = PyStr (lit ''b''), zn_id2 = PyNone, zn_name = PyStr (lit ''Bob''), zn_labels = Some [lit ''Entity''],
     zn_summary = PyNone, zn_attributes = None\<rparr>"

definition knows :: zep_edge where
  "knows = \<lparr>ze_id1 = PyStr (lit ''e''), ze_id2 = PyNone, ze_name = PyStr (lit ''KNOWS''), ze_fact = PyNone,
     ze_source = PyStr (lit ''b''), ze_target = PyStr (lit ''a''), ze_attributes = None\<rparr>"

definition small_graph :: "unit reader_env" where
  "small_graph = \<lparr>rv_float = \<lambda>_. None, rv_sleep = \<lambda>_ w. w, rv_nodes = \<lambda>_ _ _ w. (Inr (one_page [ann, bob]), w),
     rv_edges = \<lambda>_ _ _ w. (Inr (one_page [knows]), w), rv_node = \<lambda>_ w. (Inr (Some ann), w),
     rv_node_edges = \<lambda>_ w. (Inr [], w), rv_order = remdups\<rparr>"

lemma single_page:
  "read (call 100 None) w = (Inr (one_page xs), w) \<Longrightarrow> fetch_pages read call stuck 100 None None {} [] w = Some (Inr xs, w)"
  by (subst fetch_pages.simps) (simp add: one_page_def page_items_def next_cursor_def header_value_def)

lemma small_reads:
  "get_all_nodes small_graph g () = Some (Inr [node_to_data ann, node_to_data bob], ())"
  "get_all_edges small_graph g () = Some (Inr [edge_to_data knows], ())"
  by (simp_all add: get_all_nodes_def get_all_edges_def fetch_all_nodes_def fetch_all_edges_def fetch_all_def small_graph_def
      single_page page_read.read_ok)

theorem filter_defined_entities_spec_witness:
  "\<exists>f. filter_defined_entities small_graph (lit ''g'') [] True () = Some (Inr f, ()) \<and> map en_uuid (fe_entities f) = [PyStr (lit ''a'')]"
proof -
  have "distinct (map nd_uuid [node_to_data ann, node_to_data bob])" "\<And>us. set (rv_order small_graph us) = set us"
    by (simp_all add: node_to_data_def ann_def bob_def or_else_def small_graph_def)
  from filter_defined_entities_spec [OF small_reads(1) [of "lit ''g''"] small_reads(2) this, where defined = "[]"] show ?thesis
    by (auto simp: node_to_data_def ann_def bob_def or_else_def or_nil_def)
qed

theorem entity_context_agrees_witness:
  "get_entity_with_context small_graph (lit ''g'') (PyStr (lit ''a'')) ()
    = Some (Inr (Some (entity_of remdups True (node_map [node_to_data ann, node_to_data bob]) [edge_to_data knows] (node_to_data ann))), ())"
proof -
  have "call_with_retry_read small_graph (rv_node small_graph (PyStr (lit ''a''))) () = (Inr (Some ann), ())"
    by (simp add: call_with_retry_read_def small_graph_def page_read.read_ok call_zep_read_with_retry_def zep_attempts.simps)
  from entity_context_agrees [OF this _ _ small_reads(2,1), of "lit ''g''"] show ?thesis
    by (simp add: node_to_data_def ann_def or_else_def small_graph_def)
qed

end
