(* ===== verification/Ontology_Generator.thy ===== *)
theory Ontology_Generator
  imports Ontology Text_Chunks Memory_Updater
begin

text \<open>
  Model of \<^verbatim>\<open>services/ontology_generator.py\<close>: the document context given to the language model,
  and the validation that turns whatever JSON it answers into an ontology within Zep's limits.
  \<open>order\<close> is the order in which Python iterates a set built from the given names; lower-casing is
  that of the prelude (ASCII).
\<close>

section \<open>Names\<close>

definition ascii_lower :: "nat \<Rightarrow> bool" where "ascii_lower c \<longleftrightarrow> 97 \<le> c \<and> c \<le> 122"
definition ascii_upper :: "nat \<Rightarrow> bool" where "ascii_upper c \<longleftrightarrow> 65 \<le> c \<and> c \<le> 90"
definition ascii_digit :: "nat \<Rightarrow> bool" where "ascii_digit c \<longleftrightarrow> 48 \<le> c \<and> c \<le> 57"
definition ascii_alnum :: "nat \<Rightarrow> bool" where "ascii_alnum c \<longleftrightarrow> ascii_lower c \<or> ascii_upper c \<or> ascii_digit c"

definition upper_char :: "nat \<Rightarrow> nat" where
  "upper_char c = (if ascii_lower c then c - 32 else c)"

text \<open>The non-empty parts of \<^verbatim>\<open>re.split(r'[^a-zA-Z0-9]+', s)\<close>.\<close>

function alnum_runs :: "pystr \<Rightarrow> pystr list" where
  "alnum_runs [] = []"
| "alnum_runs (c # s) =
     (if ascii_alnum c then (c # takeWhile ascii_alnum s) # alnum_runs (dropWhile ascii_alnum s) else alnum_runs s)"
  by pat_completeness auto
termination
  by (relation "measure length") (auto simp: le_imp_less_Suc length_dropWhile_le)

text \<open>Words of a run, split where a lower-case letter is followed by an upper-case one.\<close>

fun camel_words :: "pystr \<Rightarrow> pystr list" where
  "camel_words [] = []"
| "camel_words [c] = [[c]]"
| "camel_words (c # d # s) =
     (if ascii_lower c \<and> ascii_upper d then [c] # camel_words (d # s)
      else (case camel_words (d # s) of [] \<Rightarrow> [[c]] | w # ws \<Rightarrow> (c # w) # ws))"

fun capitalize :: "pystr \<Rightarrow> pystr" where
  "capitalize [] = []"
| "capitalize (c # s) = upper_char c # py_lower s"

definition to_pascal_case :: "pystr \<Rightarrow> pystr" where
  "to_pascal_case name =
     (let result = concat (map capitalize (concat (map camel_words (alnum_runs name))))
      in if result = [] then lit ''Unknown'' else result)"

fun separate :: "pystr \<Rightarrow> pystr" where
  "separate (c # d # s) = (if (ascii_lower c \<or> ascii_digit c) \<and> ascii_upper d then c # 95 # separate (d # s) else c # separate (d # s))"
| "separate s = s"

text \<open>Replacing the other characters by single underscores and stripping these joins the runs.\<close>

definition to_upper_snake_case :: "pystr \<Rightarrow> pystr" where
  "to_upper_snake_case name =
     (let normalized = map upper_char (py_join (lit ''_'') (alnum_runs (separate (py_strip name))))
      in case normalized of
           [] \<Rightarrow> lit ''UNKNOWN''
         | c # _ \<Rightarrow> if ascii_digit c then lit ''REL_'' @ normalized else normalized)"

section \<open>Validation\<close>

definition get_str :: "pydict \<Rightarrow> string \<Rightarrow> pystr option" where
  "get_str d k = (case dget d (lit k) of Some (PyStr s) \<Rightarrow> Some s | _ \<Rightarrow> None)"

definition clip_description :: "pystr \<Rightarrow> pydict \<Rightarrow> pystr" where
  "clip_description dflt d =
     (let description = (case get_str d ''description'' of Some (c # s) \<Rightarrow> c # s | _ \<Rightarrow> dflt)
      in if length description > 100 then take 97 description @ lit ''...'' else description)"

definition entity_candidate :: "pyval \<Rightarrow> (pydict \<times> pystr) option" where
  "entity_candidate raw =
     (case (case raw of PyStr s \<Rightarrow> Some [(lit ''name'', PyStr s)] | PyDict d \<Rightarrow> Some d | _ \<Rightarrow> None) of
        None \<Rightarrow> None
      | Some entity \<Rightarrow>
          (case get_str entity ''name'' of
             Some s \<Rightarrow> if py_strip s = [] then None else Some (entity, py_strip s)
           | None \<Rightarrow> None))"

definition process_entity :: "pydict \<Rightarrow> pystr \<Rightarrow> pydict" where
  "process_entity entity normalized_name =
     (let e = dset entity (lit ''name'') (PyStr normalized_name);
          e = dset e (lit ''attributes'') (PyList (map PyDict (normalize_ontology_attributes (dget_or e (lit ''attributes'') (PyList [])))));
          e = (case dget e (lit ''examples'') of Some (PyList _) \<Rightarrow> e | _ \<Rightarrow> dset e (lit ''examples'') (PyList []))
      in dset e (lit ''description'') (PyStr (clip_description (lit ''A '' @ normalized_name @ lit '' entity.'') e)))"

type_synonym name_map = "(pystr \<times> pystr) list"

fun entity_loop :: "pyval list \<Rightarrow> pydict list \<Rightarrow> pystr list \<Rightarrow> name_map \<Rightarrow> pydict list \<times> pystr list \<times> name_map" where
  "entity_loop [] processed seen m = (processed, seen, m)"
| "entity_loop (raw # raws) processed seen m =
     (case entity_candidate raw of
        None \<Rightarrow> entity_loop raws processed seen m
      | Some (entity, original_name) \<Rightarrow>
          (let name = to_pascal_case original_name in
           if name = lit ''Unknown'' then entity_loop raws processed seen m
           else
             (let m = dset (dset m original_name name) (py_lower original_name) name in
              if name \<in> set seen then entity_loop raws processed seen m
              else entity_loop raws (processed @ [process_entity entity name]) (seen @ [name])
                     (dset (dset m name name) (py_lower name) name))))"

definition fallback_type :: "string \<Rightarrow> string \<Rightarrow> (string \<times> string) list \<Rightarrow> string list \<Rightarrow> pydict" where
  "fallback_type name description attributes examples =
     [(lit ''name'', PyStr (lit name)), (lit ''description'', PyStr (lit description)),
      (lit ''attributes'', PyList (map (\<lambda>(n, d). PyDict [(lit ''name'', PyStr (lit n)), (lit ''type'', PyStr (lit ''text'')),
         (lit ''description'', PyStr (lit d))]) attributes)),
      (lit ''examples'', PyList (map (\<lambda>x. PyStr (lit x)) examples))]"

definition person_fallback :: pydict where
  "person_fallback = fallback_type ''Person'' ''Any individual person not fitting other specific person types.''
     [(''full_name'', ''Full name of the person''), (''role'', ''Role or occupation'')] [''ordinary citizen'', ''anonymous netizen'']"

definition organization_fallback :: pydict where
  "organization_fallback = fallback_type ''Organization'' ''Any organization not fitting other specific organization types.''
     [(''org_name'', ''Name of the organization''), (''org_type'', ''Type of organization'')] [''small business'', ''community group'']"

definition name_of :: "pydict \<Rightarrow> pystr" where
  "name_of e = (case get_str e ''name'' of Some s \<Rightarrow> s | None \<Rightarrow> [])"

definition missing_fallbacks :: "pystr list \<Rightarrow> pydict list" where
  "missing_fallbacks names = (if lit ''Person'' \<in> set names then [] else [person_fallback])
     @ (if lit ''Organization'' \<in> set names then [] else [organization_fallback])"

definition with_fallbacks :: "pydict list \<Rightarrow> pydict list" where
  "with_fallbacks entities =
     (let fallbacks = missing_fallbacks (map name_of entities) in
      if fallbacks = [] then entities
      else (let excess = length entities + length fallbacks - MAX_ONTOLOGY_TYPES
            in (if 0 < excess then take (length entities - excess) entities else entities) @ fallbacks))"

definition add_fallbacks :: "pydict list \<Rightarrow> pydict list" where
  "add_fallbacks entities = take MAX_ONTOLOGY_TYPES (with_fallbacks entities)"

definition resolve_entity_name :: "name_map \<Rightarrow> pystr list \<Rightarrow> pystr \<Rightarrow> pystr option" where
  "resolve_entity_name m valid v =
     (let stripped = py_strip v in
      if stripped = lit ''Entity'' then Some stripped
      else
        (let mapped = (case dget m stripped of Some (c # s) \<Rightarrow> Some (c # s) | _ \<Rightarrow> dget m (py_lower stripped)) in
         case mapped of
           Some n \<Rightarrow> if n \<in> set valid then Some n
                     else if to_pascal_case stripped \<in> set valid then Some (to_pascal_case stripped) else None
         | None \<Rightarrow> if to_pascal_case stripped \<in> set valid then Some (to_pascal_case stripped) else None))"

definition resolve_targets :: "name_map \<Rightarrow> pystr list \<Rightarrow> pyval \<Rightarrow> pydict list" where
  "resolve_targets m valid v =
     normalize_ontology_source_targets (Some MAX_ONTOLOGY_SOURCE_TARGETS)
       (PyList (List.map_filter (\<lambda>d.
          case (get_str d ''source'', get_str d ''target'') of
            (Some s, Some t) \<Rightarrow>
              (case (resolve_entity_name m valid s, resolve_entity_name m valid t) of
                 (Some (a # s), Some (b # t)) \<Rightarrow> Some (PyDict (pair_dict (a # s, b # t)))
               | _ \<Rightarrow> None)
          | _ \<Rightarrow> None) (normalize_ontology_source_targets None v)))"

definition process_edge :: "name_map \<Rightarrow> pystr list \<Rightarrow> pydict \<Rightarrow> pystr \<Rightarrow> pydict" where
  "process_edge m valid edge normalized_name =
     (let e = dset edge (lit ''name'') (PyStr normalized_name);
          e = dset e (lit ''source_targets'') (PyList (map PyDict (resolve_targets m valid (dget_or e (lit ''source_targets'') (PyList [])))));
          e = dset e (lit ''attributes'') (PyList (map PyDict (normalize_ontology_attributes (dget_or e (lit ''attributes'') (PyList [])))))
      in dset e (lit ''description'') (PyStr (clip_description (lit ''A '' @ normalized_name @ lit '' relationship.'') e)))"

fun edge_loop :: "name_map \<Rightarrow> pystr list \<Rightarrow> pyval list \<Rightarrow> pydict list \<Rightarrow> pystr list \<Rightarrow> pydict list" where
  "edge_loop m valid [] processed seen = processed"
| "edge_loop m valid (raw # raws) processed seen =
     (case raw of
        PyDict edge \<Rightarrow>
          (case get_str edge ''name'' of
             None \<Rightarrow> edge_loop m valid raws processed seen
           | Some original_name \<Rightarrow>
               (let name = to_upper_snake_case original_name in
                if py_strip original_name = [] \<or> name = lit ''UNKNOWN'' \<or> name \<in> set seen then edge_loop m valid raws processed seen
                else
                  (let processed = processed @ [process_edge m valid edge name] in
                   if length processed = MAX_ONTOLOGY_TYPES then processed
                   else edge_loop m valid raws processed (seen @ [name]))))
      | _ \<Rightarrow> edge_loop m valid raws processed seen)"

definition validate_and_process :: "(pystr list \<Rightarrow> pystr list) \<Rightarrow> pyval \<Rightarrow> pydict res" where
  "validate_and_process order result =
     (case result of
        PyDict r \<Rightarrow>
          (let raw_entities = list_or_empty (dget_or r (lit ''entity_types'') PyNone);
               raw_edges = list_or_empty (dget_or r (lit ''edge_types'') PyNone);
               r = (if get_str r ''analysis_summary'' = None then dset r (lit ''analysis_summary'') (PyStr []) else r);
               (processed, seen, m) = entity_loop raw_entities [] [] [];
               entities = add_fallbacks processed;
               r = dset r (lit ''entity_types'') (PyList (map PyDict entities));
               valid = map name_of entities;
               m = fold (\<lambda>n m. dset (dset m n n) (py_lower n) n) (order valid) m
           in Inr (dset r (lit ''edge_types'') (PyList (map PyDict (edge_loop m valid raw_edges [] [])))))
      | _ \<Rightarrow> Inl (Exn ValueError (lit ''Ontology result must be an object'')))"

section \<open>The document context\<close>

definition MAX_TEXT_LENGTH_FOR_LLM :: int where "MAX_TEXT_LENGTH_FOR_LLM = 50000"
definition LONG_TEXT_CHUNK_SIZE :: int where "LONG_TEXT_CHUNK_SIZE = 8000"
definition LONG_TEXT_CHUNK_OVERLAP :: int where "LONG_TEXT_CHUNK_OVERLAP = 200"
definition MAX_LONG_TEXT_CHUNKS :: nat where "MAX_LONG_TEXT_CHUNKS = 60"
definition MIN_LONG_TEXT_EXCERPT :: int where "MIN_LONG_TEXT_EXCERPT = 400"

record doc_chunk =
  dc_document_index :: nat
  dc_chunk_index :: nat
  dc_total_document_chunks :: nat
  dc_text :: pystr

definition number_chunks :: "nat \<Rightarrow> pystr list \<Rightarrow> doc_chunk list" where
  "number_chunks doc chunks =
     map (\<lambda>(i, c). \<lparr>dc_document_index = doc, dc_chunk_index = i, dc_total_document_chunks = length chunks, dc_text = c\<rparr>)
       (enumerate 1 chunks)"

fun collect_document_chunks :: "nat \<Rightarrow> pystr list \<Rightarrow> doc_chunk list option" where
  "collect_document_chunks doc [] = Some []"
| "collect_document_chunks doc (t # ts) =
     (case split_text_into_chunks t LONG_TEXT_CHUNK_SIZE LONG_TEXT_CHUNK_OVERLAP of
        None \<Rightarrow> None
      | Some chunks \<Rightarrow> map_option (\<lambda>rest. number_chunks doc chunks @ rest) (collect_document_chunks (Suc doc) ts))"

definition select_representative_chunks :: "doc_chunk list \<Rightarrow> doc_chunk list" where
  "select_representative_chunks chunks =
     (if length chunks \<le> MAX_LONG_TEXT_CHUNKS then chunks
      else if MAX_LONG_TEXT_CHUNKS \<le> 1 then take 1 chunks
      else map (\<lambda>i. chunks ! i) (py_sorted (map (\<lambda>i. nat (round_half_even
             (of_nat (i * (length chunks - 1)) / of_nat (MAX_LONG_TEXT_CHUNKS - 1)))) [0..<MAX_LONG_TEXT_CHUNKS])))"

definition calculate_excerpt_budget :: "int \<Rightarrow> int" where
  "calculate_excerpt_budget selected_count =
     (let available = max (MIN_LONG_TEXT_EXCERPT * selected_count) (MAX_TEXT_LENGTH_FOR_LLM - 600 - 120 * selected_count)
      in max MIN_LONG_TEXT_EXCERPT (available div max selected_count 1))"

definition excerpt_marker :: pystr where
  "excerpt_marker = [10] @ lit ''...('' @ [26412, 20998, 22359, 20013, 38388, 20869, 23481, 30465, 30053] @ lit '')...'' @ [10]"

definition excerpt_text :: "pystr \<Rightarrow> int \<Rightarrow> pystr" where
  "excerpt_text t char_limit =
     (let s = py_strip t in
      if int (length s) \<le> char_limit then s
      else if char_limit \<le> int (length excerpt_marker) + 20 then py_slice s 0 char_limit
      else (let remaining = char_limit - int (length excerpt_marker); head_len = remaining div 2; tail_len = remaining - head_len
            in py_rstrip (take (nat head_len) s) @ excerpt_marker @ py_lstrip (drop (length s - nat tail_len) s)))"

definition render_chunked_context :: "doc_chunk list \<Rightarrow> nat \<Rightarrow> nat \<Rightarrow> int \<Rightarrow> pystr" where
  "render_chunked_context selected original_length total_chunks excerpt_limit =
     py_join [10, 10]
       ([[12304, 38271, 25991, 26412, 33258, 21160, 20998, 22359, 25688, 35201, 12305, 21407, 25991, 20849] @ int_str (int original_length) @ [23383, 65292] @ [24050, 20998, 20026] @ int_str (int total_chunks)
           @ [20010, 25991, 26412, 22359, 29992, 20110, 20840, 23616, 35206, 30422, 20998, 26512, 12290],
         [20197, 19979, 23637, 31034, 20854, 20013] @ int_str (int (length selected)) @ [20010, 20195, 34920, 24615, 25991, 26412, 22359, 30340, 25688, 24405, 65292]
           @ [35206, 30422, 24320, 22836, 12289, 20013, 27573, 21644, 32467, 23614, 65307, 35831, 22522, 20110, 36825, 20123, 36328, 20840, 25991, 32447, 32034, 35774, 35745, 26412, 20307, 65292, 19981, 35201, 21482, 20381, 36182, 31532, 19968, 27573, 20869, 23481, 12290]]
        @ map (\<lambda>c. py_join [10]
             [lit ''--- '' @ [25991, 26723] @ lit '' '' @ int_str (int (dc_document_index c)) @ lit '' / '' @ [20998, 22359] @ lit '' '' @ int_str (int (dc_chunk_index c)) @ lit ''/''
                @ int_str (int (dc_total_document_chunks c)) @ lit '' ---'',
              excerpt_text (dc_text c) excerpt_limit]) selected)"

text \<open>The excerpts shrink by 15 percent until the context fits or they are at their minimum.\<close>

function shrink_context :: "(int \<Rightarrow> pystr) \<Rightarrow> int \<Rightarrow> pystr" where
  "shrink_context render budget =
     (if int (length (render budget)) > MAX_TEXT_LENGTH_FOR_LLM \<and> budget > MIN_LONG_TEXT_EXCERPT
      then shrink_context render (max MIN_LONG_TEXT_EXCERPT \<lfloor>of_int budget * (85 / 100 :: rat)\<rfloor>)
      else render budget)"
  by pat_completeness auto
termination
proof (relation "measure (\<lambda>(render, budget). nat (budget - MIN_LONG_TEXT_EXCERPT))", simp)
  fix render :: "int \<Rightarrow> pystr" and budget :: int
  assume b: "int (length (render budget)) > MAX_TEXT_LENGTH_FOR_LLM \<and> budget > MIN_LONG_TEXT_EXCERPT"
  then have "0 < budget" by (simp add: MIN_LONG_TEXT_EXCERPT_def)
  then have "of_int budget * (85 / 100 :: rat) < of_int budget" by simp
  then have "\<lfloor>of_int budget * (85 / 100 :: rat)\<rfloor> < budget" by (simp add: floor_less_iff)
  with b show "((render, max MIN_LONG_TEXT_EXCERPT \<lfloor>of_int budget * (85 / 100 :: rat)\<rfloor>), render, budget)
      \<in> measure (\<lambda>(render, budget). nat (budget - MIN_LONG_TEXT_EXCERPT))"
    by (auto simp: max_def)
qed

declare shrink_context.simps [simp del]

definition context_marker :: pystr where
  "context_marker = [10, 10] @ lit ''...('' @ [20998, 22359, 19978, 19979, 25991, 24050, 21387, 32553, 21040, 26412, 20307, 20998, 26512, 38271, 24230, 38480, 21046, 20869] @ lit '')...''"

definition build_document_context :: "pystr list \<Rightarrow> pystr option" where
  "build_document_context document_texts =
     (let combined = py_join ([10, 10] @ lit ''---'' @ [10, 10]) document_texts in
      if int (length combined) \<le> MAX_TEXT_LENGTH_FOR_LLM then Some combined
      else
        (case collect_document_chunks 1 document_texts of
           None \<Rightarrow> None
         | Some [] \<Rightarrow> Some []
         | Some chunks \<Rightarrow>
             (let selected = select_representative_chunks chunks;
                  context = shrink_context (render_chunked_context selected (length combined) (length chunks))
                              (calculate_excerpt_budget (int (length selected)))
              in Some (if int (length context) > MAX_TEXT_LENGTH_FOR_LLM
                       then take (nat (MAX_TEXT_LENGTH_FOR_LLM - int (length context_marker))) context @ context_marker
                       else context))))"

end
