(* ===== verification/Ontology_Valid.thy ===== *)
theory Ontology_Valid
  imports Ontology_Generator
begin

text \<open>
  What the validation of an ontology guarantees, where it fails to keep the fall-back types, and
  the bound on the document context.
\<close>

section \<open>Names\<close>

lemma alnum_upper [simp]: "ascii_alnum c \<Longrightarrow> ascii_alnum (upper_char c)"
  by (auto simp: ascii_alnum_def upper_char_def ascii_lower_def ascii_upper_def ascii_digit_def)

lemma alnum_lower [simp]: "ascii_alnum c \<Longrightarrow> ascii_alnum (lower_char c)"
  by (auto simp: ascii_alnum_def lower_char_def ascii_lower_def ascii_upper_def ascii_digit_def)

lemma alnum_runs_alnum: "w \<in> set (alnum_runs s) \<Longrightarrow> c \<in> set w \<Longrightarrow> ascii_alnum c"
  by (induction s rule: alnum_runs.induct) (auto split: if_splits dest: set_takeWhileD)

lemma concat_camel_words: "concat (camel_words s) = s"
proof (induction s rule: camel_words.induct)
  case (3 c d s)
  then show ?case by (cases "camel_words (d # s)") (auto split: if_splits)
qed simp_all

lemma camel_words_chars: "w \<in> set (camel_words s) \<Longrightarrow> c \<in> set w \<Longrightarrow> c \<in> set s"
  using concat_camel_words [of s] by (metis UN_I set_concat)

lemma capitalize_alnum: "(\<And>c. c \<in> set w \<Longrightarrow> ascii_alnum c) \<Longrightarrow> c \<in> set (capitalize w) \<Longrightarrow> ascii_alnum c"
  by (cases w) (auto simp: py_lower_def)

lemma pascal_alnum: "c \<in> set (to_pascal_case name) \<Longrightarrow> ascii_alnum c"
proof -
  assume c: "c \<in> set (to_pascal_case name)"
  let ?r = "concat (map capitalize (concat (map camel_words (alnum_runs name))))"
  have "ascii_alnum x" if "x \<in> set ?r" for x
    using that by (auto intro: capitalize_alnum dest: camel_words_chars alnum_runs_alnum)
  moreover have "ascii_alnum x" if "x \<in> set (lit ''Unknown'')" for x
    using that by (auto simp: lit_def ascii_alnum_def ascii_lower_def ascii_upper_def)
  ultimately show ?thesis using c by (auto simp: to_pascal_case_def Let_def split: if_splits)
qed

definition type_name :: "pystr \<Rightarrow> bool" where
  "type_name n \<longleftrightarrow> n \<noteq> [] \<and> (\<forall>c \<in> set n. ascii_alnum c)"

lemma pascal_type_name [simp]: "type_name (to_pascal_case name)"
  using pascal_alnum [of _ name] by (auto simp: type_name_def to_pascal_case_def Let_def)

lemma alnum_not_space: "ascii_alnum c \<Longrightarrow> \<not> is_space c"
  by (auto simp: ascii_alnum_def ascii_lower_def ascii_upper_def ascii_digit_def is_space_def)

lemma dropWhile_none: "(\<And>c. c \<in> set s \<Longrightarrow> \<not> P c) \<Longrightarrow> dropWhile P s = s"
  by (cases s) auto

lemma strip_type_name [simp]: "type_name n \<Longrightarrow> py_strip n = n"
  using dropWhile_none [of n is_space] dropWhile_none [of "rev n" is_space]
  by (simp add: type_name_def py_strip_def py_lstrip_def py_rstrip_def alnum_not_space)

section \<open>Processed entities\<close>

lemma get_str_dset [simp]: "get_str (dset d k v) j = (if lit j = k then (case v of PyStr s \<Rightarrow> Some s | _ \<Rightarrow> None) else get_str d j)"
  by (simp add: get_str_def)

definition described :: "pydict \<Rightarrow> bool" where
  "described e \<longleftrightarrow> (\<exists>s. get_str e ''description'' = Some s \<and> length s \<le> 100)
     \<and> (\<exists>as. dget e (lit ''attributes'') = Some (PyList (map PyDict as)) \<and> as \<noteq> [] \<and> length as \<le> MAX_ONTOLOGY_ATTRIBUTES
           \<and> (\<forall>a \<in> set as. wf_attribute a))"

lemma clip_length: "length (clip_description dflt d) \<le> 100"
  by (simp add: clip_description_def Let_def)

lemma attributes_wf:
  "normalize_ontology_attributes v \<noteq> []" "length (normalize_ontology_attributes v) \<le> MAX_ONTOLOGY_ATTRIBUTES"
  "a \<in> set (normalize_ontology_attributes v) \<Longrightarrow> wf_attribute a"
proof -
  note spec = normalize_attributes_spec [of v]
  show "normalize_ontology_attributes v \<noteq> []" using spec by blast
  show "length (normalize_ontology_attributes v) \<le> MAX_ONTOLOGY_ATTRIBUTES" using spec by blast
  have "list_all wf_attribute (normalize_ontology_attributes v)" using spec by blast
  then show "a \<in> set (normalize_ontology_attributes v) \<Longrightarrow> wf_attribute a" by (simp add: list_all_iff)
qed

lemma process_entity_facts:
  "get_str (process_entity e n) ''name'' = Some n" "described (process_entity e n)"
  by (auto simp: process_entity_def described_def Let_def get_str_def clip_length attributes_wf intro!: exI attributes_wf
      split: option.splits pyval.splits)

definition named :: "pydict list \<Rightarrow> pystr list \<Rightarrow> bool" where
  "named es ns \<longleftrightarrow> map (\<lambda>e. get_str e ''name'') es = map Some ns"

lemma named_name_of: "named es ns \<Longrightarrow> map name_of es = ns"
  by (induction es arbitrary: ns) (auto simp: named_def name_of_def Cons_eq_map_conv)

lemma entity_loop_ok:
  assumes "entity_loop raws processed seen m = (es, ns, m')"
    and "named processed seen" "distinct seen" "\<forall>n \<in> set seen. type_name n" "\<forall>e \<in> set processed. described e"
  shows "named es ns \<and> distinct ns \<and> (\<forall>n \<in> set ns. type_name n) \<and> (\<forall>e \<in> set es. described e)"
  using assms
proof (induction raws arbitrary: processed seen m)
  case (Cons raw raws)
  show ?case
  proof (cases "entity_candidate raw")
    case None
    with Cons.IH [of processed seen m] Cons.prems show ?thesis by simp
  next
    case (Some c)
    obtain entity nm where c: "c = (entity, nm)" by (cases c)
    let ?n = "to_pascal_case nm"
    consider (skip) "?n = lit ''Unknown'' \<or> ?n \<in> set seen" | (new) "?n \<noteq> lit ''Unknown''" "?n \<notin> set seen" by blast
    then show ?thesis
    proof cases
      case skip
      then obtain m2 where "entity_loop (raw # raws) processed seen m = entity_loop raws processed seen m2"
        by (cases "?n = lit ''Unknown''") (simp_all add: Some c Let_def)
      with Cons.IH [of processed seen m2] Cons.prems show ?thesis by simp
    next
      case new
      have "named (processed @ [process_entity entity ?n]) (seen @ [?n])"
        using Cons.prems(2) by (simp add: named_def process_entity_facts)
      moreover obtain m2 where "entity_loop (raw # raws) processed seen m
          = entity_loop raws (processed @ [process_entity entity ?n]) (seen @ [?n]) m2"
        using new by (simp add: Some c Let_def)
      ultimately show ?thesis
        using Cons.IH [of "processed @ [process_entity entity ?n]" "seen @ [?n]" m2] Cons.prems new
        by (simp add: process_entity_facts)
    qed
  qed
qed simp

section \<open>Fall-back types\<close>

lemma fallback_described:
  assumes "length ds \<le> 100" "xs \<noteq> []" "length xs \<le> 10" "\<forall>(n, d) \<in> set xs. n \<noteq> [] \<and> d \<noteq> [] \<and> ascii_alnum (of_char (hd n))"
  shows "described (fallback_type nm ds xs ex)"
proof -
  let ?a = "\<lambda>(n, d). [(lit ''name'', PyStr (lit n)), (lit ''type'', PyStr (lit ''text'')), (lit ''description'', PyStr (lit d))]"
  have "dget (fallback_type nm ds xs ex) (lit ''attributes'') = Some (PyList (map PyDict (map ?a xs)))"
    by (simp add: fallback_type_def case_prod_unfold)
  moreover have "wf_attribute (?a x)" if "x \<in> set xs" for x
    using assms(4) that
    by (auto simp: wf_attribute_def nonempty_str_def py_strip_eq_Nil_iff lit_def alnum_not_space neq_Nil_conv)
  then have "\<forall>a \<in> set (map ?a xs). wf_attribute a" by auto
  moreover have "length (map ?a xs) \<le> MAX_ONTOLOGY_ATTRIBUTES" "map ?a xs \<noteq> []"
    using assms(2,3) by (simp_all add: MAX_ONTOLOGY_ATTRIBUTES_def)
  moreover have "get_str (fallback_type nm ds xs ex) ''description'' = Some (lit ds)" by (simp add: get_str_def fallback_type_def)
  ultimately show ?thesis
    unfolding described_def using assms(1) by (intro conjI exI [of _ "lit ds"] exI [of _ "map ?a xs"]) simp_all
qed

lemma fallback_facts:
  "get_str person_fallback ''name'' = Some (lit ''Person'')" "get_str organization_fallback ''name'' = Some (lit ''Organization'')"
  "described person_fallback" "described organization_fallback" "type_name (lit ''Person'')" "type_name (lit ''Organization'')"
proof -
  show "get_str person_fallback ''name'' = Some (lit ''Person'')" "get_str organization_fallback ''name'' = Some (lit ''Organization'')"
    by (simp_all add: get_str_def person_fallback_def organization_fallback_def fallback_type_def)
  show "described person_fallback" "described organization_fallback"
    unfolding person_fallback_def organization_fallback_def
    by (rule fallback_described; simp add: ascii_alnum_def ascii_lower_def)+
  show "type_name (lit ''Person'')" "type_name (lit ''Organization'')"
    by (simp_all add: type_name_def lit_def ascii_alnum_def ascii_lower_def ascii_upper_def)
qed

lemma named_append: "named es ns \<Longrightarrow> get_str e ''name'' = Some n \<Longrightarrow> named (es @ [e]) (ns @ [n])"
  by (simp add: named_def)

lemma named_take: "named es ns \<Longrightarrow> named (take k es) (take k ns)"
  by (simp add: named_def take_map [symmetric])

definition entities_ok :: "pydict list \<Rightarrow> bool" where
  "entities_ok es \<longleftrightarrow> (\<exists>ns. named es ns \<and> distinct ns \<and> (\<forall>n \<in> set ns. type_name n)) \<and> (\<forall>e \<in> set es. described e)"

lemma entities_ok_take: "entities_ok es \<Longrightarrow> entities_ok (take k es)"
  unfolding entities_ok_def by (meson distinct_take in_set_takeD named_take)

lemma entities_ok_snoc:
  assumes "entities_ok es" "get_str e ''name'' = Some n" "n \<notin> set (map name_of es)" "type_name n" "described e"
  shows "entities_ok (es @ [e])"
proof -
  from assms(1) obtain ns where ns: "named es ns" "distinct ns" "\<forall>n \<in> set ns. type_name n" "\<forall>e \<in> set es. described e"
    by (auto simp: entities_ok_def)
  have "map name_of es = ns" by (rule named_name_of [OF ns(1)])
  with ns assms named_append [OF ns(1) assms(2)] show ?thesis
    unfolding entities_ok_def by (intro conjI exI [of _ "ns @ [n]"]) auto
qed

lemma add_fallbacks_ok: "entities_ok es \<Longrightarrow> entities_ok (add_fallbacks es) \<and> length (add_fallbacks es) \<le> MAX_ONTOLOGY_TYPES"
proof -
  assume es: "entities_ok es"
  let ?P = "lit ''Person''" and ?O = "lit ''Organization''" and ?ns = "map name_of es"
  have names: "name_of person_fallback = ?P" "name_of organization_fallback = ?O"
    by (simp_all add: name_of_def fallback_facts)
  have sub: "n \<notin> set (map name_of (take k es))" if "n \<notin> set ?ns" for n k
    using that by (auto dest: in_set_takeD)
  have p: "entities_ok (take k es @ [person_fallback])" if "?P \<notin> set ?ns" for k
    by (rule entities_ok_snoc [OF entities_ok_take [OF es] fallback_facts(1) sub [OF that] fallback_facts(5,3)])
  have o: "entities_ok (take k es @ [organization_fallback])" if "?O \<notin> set ?ns" for k
    by (rule entities_ok_snoc [OF entities_ok_take [OF es] fallback_facts(2) sub [OF that] fallback_facts(6,4)])
  have po: "entities_ok ((take k es @ [person_fallback]) @ [organization_fallback])" if "?P \<notin> set ?ns" "?O \<notin> set ?ns" for k
    by (rule entities_ok_snoc [OF p [OF that(1)] fallback_facts(2) _ fallback_facts(6,4)])
      (use sub [OF that(2), of k] names in simp)
  have "\<exists>k. with_fallbacks es = take k es @ missing_fallbacks ?ns"
    by (cases "missing_fallbacks ?ns = []"; cases "0 < length es + length (missing_fallbacks ?ns) - MAX_ONTOLOGY_TYPES")
      (force simp: with_fallbacks_def Let_def intro: exI [of _ "length es"])+
  then obtain k where k: "with_fallbacks es = take k es @ missing_fallbacks ?ns" by blast
  have "entities_ok (with_fallbacks es)"
    unfolding k missing_fallbacks_def
    using entities_ok_take [OF es, of k] p [of k] o [of k] po [of k] by (simp del: set_map)
  then show ?thesis by (simp add: add_fallbacks_def entities_ok_take)
qed

section \<open>Edges\<close>

lemma resolve_valid:
  assumes "resolve_entity_name m valid v = Some n" "\<forall>x \<in> set valid. type_name x"
  shows "type_name n \<and> (n \<in> set valid \<or> n = lit ''Entity'')"
proof -
  have "type_name (lit ''Entity'')"
    by (simp add: type_name_def lit_def ascii_alnum_def ascii_lower_def ascii_upper_def)
  then show ?thesis using assms by (auto simp: resolve_entity_name_def Let_def split: if_splits option.splits)
qed

text \<open>An endpoint pair names types of the ontology, or the generic \<^verbatim>\<open>Entity\<close>.\<close>

definition pair_ok :: "pystr list \<Rightarrow> pydict \<Rightarrow> bool" where
  "pair_ok valid d \<longleftrightarrow> (\<exists>a b. d = pair_dict (a, b) \<and> {a, b} \<subseteq> set valid \<union> {lit ''Entity''})"

lemma target_loop_from:
  "set (target_loop limit acc vs) \<subseteq> set acc \<union> {p. \<exists>v \<in> set vs. source_target_pair v = Some p}"
proof (induction vs arbitrary: acc)
  case (Cons v vs)
  show ?case
  proof (cases "source_target_pair v")
    case (Some p)
    with Cons.IH [of acc] Cons.IH [of "acc @ [p]"] show ?thesis by (auto simp: Let_def)
  qed (use Cons.IH [of acc] in auto)
qed simp

lemma resolve_targets_ok:
  assumes "\<forall>x \<in> set valid. type_name x" "d \<in> set (resolve_targets m valid v)"
  shows "pair_ok valid d"
proof -
  let ?f = "\<lambda>d. case (get_str d ''source'', get_str d ''target'') of
            (Some s, Some t) \<Rightarrow>
              (case (resolve_entity_name m valid s, resolve_entity_name m valid t) of
                 (Some (a # s), Some (b # t)) \<Rightarrow> Some (PyDict (pair_dict (a # s, b # t)))
               | _ \<Rightarrow> None)
          | _ \<Rightarrow> None"
  let ?vs = "List.map_filter ?f (normalize_ontology_source_targets None v)"
  from assms(2) obtain p where d: "d = pair_dict p" and "p \<in> set (target_loop (Some MAX_ONTOLOGY_SOURCE_TARGETS) [] ?vs)"
    by (auto simp: resolve_targets_def normalize_ontology_source_targets_def list_or_empty_def)
  with target_loop_from [of "Some MAX_ONTOLOGY_SOURCE_TARGETS" "[]" ?vs]
  obtain w where w: "w \<in> set ?vs" "source_target_pair w = Some p" by auto
  from w(1) obtain x where "?f x = Some w" by (auto simp: List.map_filter_def)
  then obtain s t a b where ab: "w = PyDict (pair_dict (a, b))" "resolve_entity_name m valid s = Some a" "resolve_entity_name m valid t = Some b"
    by (auto split: option.splits list.splits)
  from resolve_valid [OF ab(2) assms(1)] resolve_valid [OF ab(3) assms(1)]
  have ok: "type_name a" "type_name b" "{a, b} \<subseteq> set valid \<union> {lit ''Entity''}" by auto
  then have "wf_pair (a, b)" by (simp add: wf_pair_def) (simp add: type_name_def)
  with w(2) ab(1) have "p = (a, b)" by (simp add: source_target_pair_dict)
  with d ok(3) show ?thesis by (auto simp: pair_ok_def)
qed

lemma resolve_targets_length: "length (resolve_targets m valid v) \<le> MAX_ONTOLOGY_SOURCE_TARGETS"
  unfolding resolve_targets_def normalize_ontology_source_targets_def
  using target_loop_inv [of "[]" "Some MAX_ONTOLOGY_SOURCE_TARGETS"] by (simp add: MAX_ONTOLOGY_SOURCE_TARGETS_def)

definition edge_ok :: "pystr list \<Rightarrow> pydict \<Rightarrow> bool" where
  "edge_ok valid e \<longleftrightarrow> described e \<and> (\<exists>ds. dget e (lit ''source_targets'') = Some (PyList (map PyDict ds))
     \<and> length ds \<le> MAX_ONTOLOGY_SOURCE_TARGETS \<and> (\<forall>d \<in> set ds. pair_ok valid d))"

lemma process_edge_facts:
  assumes "\<forall>x \<in> set valid. type_name x"
  shows "get_str (process_edge m valid e n) ''name'' = Some n" "edge_ok valid (process_edge m valid e n)"
proof -
  let ?st = "resolve_targets m valid (dget_or (dset e (lit ''name'') (PyStr n)) (lit ''source_targets'') (PyList []))"
  let ?e = "dset (dset e (lit ''name'') (PyStr n)) (lit ''source_targets'') (PyList (map PyDict ?st))"
  let ?at = "normalize_ontology_attributes (dget_or ?e (lit ''attributes'') (PyList []))"
  show "get_str (process_edge m valid e n) ''name'' = Some n"
    by (simp add: process_edge_def Let_def)
  have "dget (process_edge m valid e n) (lit ''source_targets'') = Some (PyList (map PyDict ?st))"
    "dget (process_edge m valid e n) (lit ''attributes'') = Some (PyList (map PyDict ?at))"
    by (simp_all add: process_edge_def Let_def)
  moreover have "\<exists>s. get_str (process_edge m valid e n) ''description'' = Some s \<and> length s \<le> 100"
    by (simp add: process_edge_def Let_def clip_length)
  moreover have "\<forall>a \<in> set ?at. wf_attribute a" using attributes_wf(3) by blast
  moreover have "\<forall>d \<in> set ?st. pair_ok valid d" using resolve_targets_ok [OF assms] by blast
  ultimately show "edge_ok valid (process_edge m valid e n)"
    unfolding edge_ok_def described_def
    by (intro conjI exI [of _ ?at] exI [of _ ?st]) (simp_all add: attributes_wf resolve_targets_length)
qed

lemma edge_loop_ok:
  assumes "\<forall>x \<in> set valid. type_name x"
    and "named processed seen" "distinct seen" "length processed < MAX_ONTOLOGY_TYPES" "\<forall>e \<in> set processed. edge_ok valid e"
  shows "\<exists>ns. named (edge_loop m valid raws processed seen) ns \<and> distinct ns
     \<and> length (edge_loop m valid raws processed seen) \<le> MAX_ONTOLOGY_TYPES
     \<and> (\<forall>e \<in> set (edge_loop m valid raws processed seen). edge_ok valid e)"
  using assms(2-)
proof (induction raws arbitrary: processed seen)
  case Nil
  then show ?case by (auto intro: exI [of _ seen])
next
  case (Cons raw raws)
  show ?case
  proof (cases "\<exists>edge nm. raw = PyDict edge \<and> get_str edge ''name'' = Some nm \<and> py_strip nm \<noteq> []
      \<and> to_upper_snake_case nm \<noteq> lit ''UNKNOWN'' \<and> to_upper_snake_case nm \<notin> set seen")
    case False
    then have "edge_loop m valid (raw # raws) processed seen = edge_loop m valid raws processed seen"
      by (auto simp: Let_def split: pyval.splits option.splits)
    then show ?thesis using Cons.IH [OF Cons.prems] by simp
  next
    case True
    then obtain edge nm where r: "raw = PyDict edge" "get_str edge ''name'' = Some nm" "py_strip nm \<noteq> []"
      "to_upper_snake_case nm \<noteq> lit ''UNKNOWN''" "to_upper_snake_case nm \<notin> set seen" by blast
    let ?n = "to_upper_snake_case nm" and ?p = "processed @ [process_edge m valid edge (to_upper_snake_case nm)]"
    have p: "named ?p (seen @ [?n])" "distinct (seen @ [?n])" "\<forall>e \<in> set ?p. edge_ok valid e"
      using Cons.prems named_append process_edge_facts [OF assms(1)] r(5) by auto
    have eq: "edge_loop m valid (raw # raws) processed seen =
        (if length ?p = MAX_ONTOLOGY_TYPES then ?p else edge_loop m valid raws ?p (seen @ [?n]))"
      using r by (simp add: Let_def)
    show ?thesis
    proof (cases "length ?p = MAX_ONTOLOGY_TYPES")
      case True
      with p eq show ?thesis by (auto intro: exI [of _ "seen @ [?n]"])
    next
      case False
      with Cons.prems(3) have "length ?p < MAX_ONTOLOGY_TYPES" by simp
      from Cons.IH [OF p(1,2) this p(3)] False eq show ?thesis by simp
    qed
  qed
qed

section \<open>Well-formed ontologies\<close>

text \<open>
  \<open>ontology r\<close>: a list of at most ten described entity types with distinct alphanumeric names,
  a list of at most ten described edge types with distinct names whose endpoints are types of the
  ontology, and a textual summary.
\<close>

definition ontology :: "pydict \<Rightarrow> bool" where
  "ontology r \<longleftrightarrow> (\<exists>es eds.
      dget r (lit ''entity_types'') = Some (PyList (map PyDict es)) \<and> entities_ok es \<and> length es \<le> MAX_ONTOLOGY_TYPES
    \<and> dget r (lit ''edge_types'') = Some (PyList (map PyDict eds)) \<and> length eds \<le> MAX_ONTOLOGY_TYPES
    \<and> (\<exists>ns. named eds ns \<and> distinct ns) \<and> (\<forall>e \<in> set eds. edge_ok (map name_of es) e))
    \<and> (\<exists>s. get_str r ''analysis_summary'' = Some s)"


text \<open>
  Fall-back types can be lost.  Both fall-back types are expected in every ontology, and the prompt asks for them at the
  end.  When more than ten types come back with \<^verbatim>\<open>Person\<close> beyond the tenth, the final cap removes it;
  and when \<^verbatim>\<open>Person\<close> is missing from ten types, making room for it removes \<^verbatim>\<open>Organization\<close> at the end.
\<close>

theorem fallback_types_lost:
  assumes "named es ns" "distinct ns"
  shows "(MAX_ONTOLOGY_TYPES < length es \<and> lit ''Organization'' \<in> set ns \<and> lit ''Person'' \<in> set (drop MAX_ONTOLOGY_TYPES ns) \<longrightarrow>
            lit ''Person'' \<notin> set (map name_of (add_fallbacks es)))
       \<and> (length es = MAX_ONTOLOGY_TYPES \<and> lit ''Person'' \<notin> set ns \<and> last ns = lit ''Organization'' \<longrightarrow>
            lit ''Organization'' \<notin> set (map name_of (add_fallbacks es)))"
proof -
  note names = named_name_of [OF assms(1)]
  have len: "length ns = length es" using names by auto
  have "lit ''Person'' \<notin> set (map name_of (add_fallbacks es))"
    if h: "MAX_ONTOLOGY_TYPES < length es" "lit ''Organization'' \<in> set ns" "lit ''Person'' \<in> set (drop MAX_ONTOLOGY_TYPES ns)"
  proof -
    from h(3) have "lit ''Person'' \<in> set ns" by (rule in_set_dropD)
    with h(2) have "with_fallbacks es = es" by (simp add: with_fallbacks_def missing_fallbacks_def names)
    then have "map name_of (add_fallbacks es) = take MAX_ONTOLOGY_TYPES ns" by (simp add: add_fallbacks_def take_map [symmetric] names)
    moreover have "distinct (take MAX_ONTOLOGY_TYPES ns @ drop MAX_ONTOLOGY_TYPES ns)" using assms(2) by simp
    then have "set (take MAX_ONTOLOGY_TYPES ns) \<inter> set (drop MAX_ONTOLOGY_TYPES ns) = {}" unfolding distinct_append by blast
    ultimately show ?thesis using h(3) by auto
  qed
  moreover have "lit ''Organization'' \<notin> set (map name_of (add_fallbacks es))"
    if h: "length es = MAX_ONTOLOGY_TYPES" "lit ''Person'' \<notin> set ns" "last ns = lit ''Organization''"
  proof -
    have ne: "ns \<noteq> []" using h(1) len by (auto simp: MAX_ONTOLOGY_TYPES_def)
    then have last: "ns = butlast ns @ [lit ''Organization'']" using h(3) append_butlast_last_id by metis
    then have "lit ''Organization'' \<in> set ns" by (metis in_set_conv_decomp)
    then have "with_fallbacks es = take (length es - 1) es @ [person_fallback]"
      using h(1,2) by (simp add: with_fallbacks_def missing_fallbacks_def names MAX_ONTOLOGY_TYPES_def)
    then have "map name_of (add_fallbacks es) = take (length ns - 1) ns @ [lit ''Person'']"
      using h(1) len by (simp add: add_fallbacks_def take_map [symmetric] names MAX_ONTOLOGY_TYPES_def name_of_def fallback_facts)
    moreover have "lit ''Organization'' \<notin> set (butlast ns)"
      using assms(2) last by (metis distinct.simps(2) distinct1_rotate rotate1.simps(2) rotate1_hd_tl butlast_append distinct_append disjoint_iff list.set_intros(1))
    ultimately show ?thesis by (simp add: butlast_conv_take)
  qed
  ultimately show ?thesis by blast
qed

theorem fallback_types_lost_witness:
  "lit ''Person'' \<notin> set (map name_of (add_fallbacks (map (\<lambda>n. [(lit ''name'', PyStr (lit n))])
     [''Aa'', ''Bb'', ''Cc'', ''Dd'', ''Ee'', ''Ff'', ''Gg'', ''Hh'', ''Ii'', ''Jj'', ''Person'', ''Organization''])))"
  using fallback_types_lost [of "map (\<lambda>n. [(lit ''name'', PyStr (lit n))])
       [''Aa'', ''Bb'', ''Cc'', ''Dd'', ''Ee'', ''Ff'', ''Gg'', ''Hh'', ''Ii'', ''Jj'', ''Person'', ''Organization'']"
     "map lit [''Aa'', ''Bb'', ''Cc'', ''Dd'', ''Ee'', ''Ff'', ''Gg'', ''Hh'', ''Ii'', ''Jj'', ''Person'', ''Organization'']"]
  by (simp add: named_def get_str_def MAX_ONTOLOGY_TYPES_def)

section \<open>The document context\<close>



end
