(* ===== verification/Graph_Builder.thy ===== *)
theory Graph_Builder
  imports Entity_Reader Ontology_Generator
begin

text \<open>
  Building a graph in Zep Cloud, \<^verbatim>\<open>app/services/graph_builder.py\<close>: creating the graph and its
  ontology, submitting the text chunks as one batch, waiting for it, and reading the graph back.

  The Zep calls, the clock, \<^verbatim>\<open>uuid4\<close>, SHA-256 and the message catalogue are fields of
  \<open>builder_env\<close>; a call acts on a world \<open>'w\<close>, and a call that raises may or may not have had its
  effect on the service.  Callbacks are actions on the same world.  \<open>None\<close> means that a loop over
  pages or over polls never ends.
\<close>

section \<open>Data\<close>

record GraphInfo =
  gi_graph_id :: pystr
  gi_node_count :: nat
  gi_edge_count :: nat
  gi_entity_types :: "pystr list"

definition graph_info_dict :: "GraphInfo \<Rightarrow> pydict" where
  "graph_info_dict g =
     [(lit ''graph_id'', PyStr (gi_graph_id g)), (lit ''node_count'', PyInt (int (gi_node_count g))),
      (lit ''edge_count'', PyInt (int (gi_edge_count g))), (lit ''entity_types'', PyList (map PyStr (gi_entity_types g)))]"

record BatchSubmission =
  sub_batch_id :: pystr
  sub_operation_id :: pystr
  sub_episode_uuids :: "pystr list"
  sub_item_count :: nat

text \<open>What the Batch API returns and accepts; optional attributes are options.\<close>

record zep_batch =
  zb_id :: "pystr option"
  zb_status :: "pystr option"
  zb_metadata :: "pydict option"
  zb_percent :: "rat option"
  zb_succeeded :: "int option"

record batch_item =
  bi_sequence_index :: "int option"
  bi_status :: "pystr option"
  bi_episode_uuid :: "pystr option"
  bi_source_uuid :: "pystr option"
  bi_error :: "pystr option"

record BatchAddItem =
  ai_graph_id :: pystr
  ai_data :: pystr
  ai_operation_id :: pystr
  ai_chunk_index :: nat
  ai_chunk_sha256 :: pystr

record 'x cursor_page =
  cp_items :: "'x list option"
  cp_next :: "int option"

text \<open>The classes that \<^verbatim>\<open>set_ontology\<close> creates; creating one may raise.\<close>

record class_def =
  cd_name :: pystr
  cd_attrs :: pydict
  cd_annotations :: "pystr list"
  cd_doc :: pyval

record dated_node = zep_node +
  zn_created_at :: pyval

record dated_edge = zep_edge +
  ze_created_at :: pyval
  ze_valid_at :: pyval
  ze_invalid_at :: pyval
  ze_expired_at :: pyval
  ze_episodes :: pyval
  ze_episode_ids :: pyval
  ze_fact_type :: pyval

record 'w builder_env =
  ge_float :: "pystr \<Rightarrow> rat option"
  ge_sleep :: "rat \<Rightarrow> 'w \<Rightarrow> 'w"
  ge_time :: "'w \<Rightarrow> rat \<times> 'w"
  ge_uuid_hex :: "'w \<Rightarrow> pystr \<times> 'w"
  ge_sha256 :: "pystr \<Rightarrow> pystr"
  ge_tr :: "string \<Rightarrow> (string \<times> pystr) list \<Rightarrow> pystr"
  ge_str :: "pyval \<Rightarrow> pystr"
  ge_order :: "pystr list \<Rightarrow> pystr list"
  ge_class :: "class_def \<Rightarrow> class_def res"
  ge_graph_create :: "pystr \<Rightarrow> pystr \<Rightarrow> pystr \<Rightarrow> ('w, unit) action"
  ge_graph_get :: "pystr \<Rightarrow> ('w, unit) action"
  ge_graph_delete :: "pystr \<Rightarrow> ('w, unit) action"
  ge_set_ontology :: "pystr \<Rightarrow> (pystr \<times> class_def) list \<Rightarrow> (pystr \<times> class_def \<times> pydict list) list option \<Rightarrow> ('w, unit) action"
  ge_batch_create :: "pydict \<Rightarrow> ('w, zep_batch) action"
  ge_batch_list :: "int \<Rightarrow> int option \<Rightarrow> ('w, zep_batch cursor_page) action"
  ge_batch_add :: "pystr \<Rightarrow> BatchAddItem list \<Rightarrow> ('w, batch_item list option) action"
  ge_batch_items :: "pystr \<Rightarrow> int \<Rightarrow> int option \<Rightarrow> ('w, batch_item cursor_page) action"
  ge_batch_process :: "pystr \<Rightarrow> ('w, unit) action"
  ge_batch_get :: "pystr \<Rightarrow> ('w, zep_batch) action"
  ge_episode_processed :: "pystr \<Rightarrow> ('w, bool) action"
  ge_nodes :: "pystr \<Rightarrow> int \<Rightarrow> pystr option \<Rightarrow> ('w, dated_node page) action"
  ge_edges :: "pystr \<Rightarrow> int \<Rightarrow> pystr option \<Rightarrow> ('w, dated_edge page) action"

type_synonym ('w, 'a) proc = "'w \<Rightarrow> ('a res \<times> 'w) option"

definition pbind :: "('a res \<times> 'w) option \<Rightarrow> ('a \<Rightarrow> ('w, 'b) proc) \<Rightarrow> ('b res \<times> 'w) option" where
  "pbind x f = (case x of None \<Rightarrow> None | Some (Inl e, w) \<Rightarrow> Some (Inl e, w) | Some (Inr a, w) \<Rightarrow> f a w)"

lemma pbind_simps [simp]:
  "pbind None f = None" "pbind (Some (Inl e, w)) f = Some (Inl e, w)" "pbind (Some (Inr a, w)) f = f a w"
  by (simp_all add: pbind_def)

lemma pbind_ok_iff: "pbind x f = Some (Inr b, w) \<longleftrightarrow> (\<exists>a w1. x = Some (Inr a, w1) \<and> f a w1 = Some (Inr b, w))"
  by (auto simp: pbind_def split: option.splits prod.splits sum.splits)

definition zep_read :: "'w builder_env \<Rightarrow> ('w, 'a) action \<Rightarrow> ('w, 'a) action" where
  "zep_read env = call_zep_read_with_retry (ge_float env) (ge_sleep env) 3 2 60"

type_synonym 'w progress = "(pystr \<Rightarrow> rat \<Rightarrow> ('w, unit) action) option"

definition report_progress :: "'w progress \<Rightarrow> pystr \<Rightarrow> rat \<Rightarrow> ('w, unit) action" where
  "report_progress cb msg ratio w = (case cb of None \<Rightarrow> (Inr (), w) | Some f \<Rightarrow> f msg ratio w)"

definition runtime :: "pystr \<Rightarrow> exn" where
  "runtime msg = Exn RuntimeErr msg"

section \<open>Creating a graph\<close>

fun reconcile_graph :: "'w builder_env \<Rightarrow> pystr \<Rightarrow> nat list \<Rightarrow> 'w \<Rightarrow> bool \<times> 'w" where
  "reconcile_graph env graph_id [] w = (False, w)"
| "reconcile_graph env graph_id (attempt # attempts) w =
     (case zep_read env (ge_graph_get env graph_id) w of
        (Inr _, w) \<Rightarrow> (True, w)
      | (Inl e, w) \<Rightarrow>
          if exn_kind e = NotFoundErr
          then (if attempts = [] then (False, w)
                else reconcile_graph env graph_id attempts (ge_sleep env (of_nat attempt + 1) w))
          else (False, w))"

definition create_graph ::
  "'w builder_env \<Rightarrow> pystr \<Rightarrow> pystr option \<Rightarrow> (pystr \<Rightarrow> ('w, unit) action) option \<Rightarrow> ('w, pystr) action" where
  "create_graph env name graph_id graph_id_callback w =
     (let (graph_id, w) = (case or_str graph_id None of
            Some g \<Rightarrow> (g, w)
          | None \<Rightarrow> (case ge_uuid_hex env w of (h, w) \<Rightarrow> (lit ''robin-swarm_'' @ take 16 h, w)))
      in case (case graph_id_callback of None \<Rightarrow> (Inr (), w) | Some f \<Rightarrow> f graph_id w) of
           (Inl e, w) \<Rightarrow> (Inl e, w)
         | (Inr _, w) \<Rightarrow>
             (case ge_graph_create env graph_id name (lit ''Robin Swarm Social Simulation Graph'') w of
                (Inr _, w) \<Rightarrow> (Inr graph_id, w)
              | (Inl e, w) \<Rightarrow>
                  if \<not> is_retryable_zep_error e then (Inl e, w)
                  else (case reconcile_graph env graph_id [0, 1, 2] w of
                          (confirmed, w) \<Rightarrow> (if confirmed then Inr graph_id else Inl e, w))))"

section \<open>Cursor pages\<close>

text \<open>
  The loop of \<^verbatim>\<open>_list_batch_items\<close> and the inner loop of \<^verbatim>\<open>_find_batch_by_operation_id\<close>; \<open>pick\<close>
  selects what is kept of a page.
\<close>

partial_function (option) cursor_pages ::
  "(('w, 'x cursor_page) action \<Rightarrow> ('w, 'x cursor_page) action) \<Rightarrow> (int option \<Rightarrow> ('w, 'x cursor_page) action) \<Rightarrow> exn \<Rightarrow>
   ('x \<Rightarrow> bool) \<Rightarrow> int option \<Rightarrow> int set \<Rightarrow> 'x list \<Rightarrow> 'w \<Rightarrow> ('x list res \<times> 'w) option"
where
  "cursor_pages rd call stuck pick cursor seen acc w =
     (case rd (call cursor) w of
        (Inl e, w') \<Rightarrow> Some (Inl e, w')
      | (Inr page, w') \<Rightarrow>
          (let acc' = acc @ filter pick (or_nil (cp_items page)) in
           case cp_next page of
             None \<Rightarrow> Some (Inr acc', w')
           | Some nc \<Rightarrow>
               if Some nc = cursor \<or> nc \<in> seen then Some (Inl stuck, w')
               else cursor_pages rd call stuck pick (Some nc) (insert nc seen) acc' w'))"

definition build_operation_id :: "'w builder_env \<Rightarrow> pystr \<Rightarrow> pystr list \<Rightarrow> pystr" where
  "build_operation_id env graph_id chunks =
     ge_sha256 env (graph_id @ lit '':'' @ ge_sha256 env (py_join [0] chunks))"

definition batch_matches :: "pystr \<Rightarrow> pystr \<Rightarrow> zep_batch \<Rightarrow> bool" where
  "batch_matches graph_id operation_id b \<longleftrightarrow>
     dget (or_nil (zb_metadata b)) (lit ''robin-swarm_operation_id'') = Some (PyStr operation_id) \<and>
     dget (or_nil (zb_metadata b)) (lit ''graph_id'') = Some (PyStr graph_id)"

fun find_batch_attempts ::
  "'w builder_env \<Rightarrow> pystr \<Rightarrow> pystr \<Rightarrow> nat list \<Rightarrow> ('w, zep_batch option) proc"
where
  "find_batch_attempts env graph_id operation_id [] w = Some (Inr None, w)"
| "find_batch_attempts env graph_id operation_id (attempt # attempts) w =
     pbind (cursor_pages (zep_read env) (ge_batch_list env 100) (runtime (lit ''Zep batch list cursor did not advance''))
              (batch_matches graph_id operation_id) None {} [] w) (\<lambda>found w.
       if 1 < length found
       then Some (Inl (runtime (lit ''Multiple Zep batches match operation '' @ operation_id @ lit ''; refusing ambiguity'')), w)
       else (case found of
               b # _ \<Rightarrow> Some (Inr (Some b), w)
             | [] \<Rightarrow> find_batch_attempts env graph_id operation_id attempts
                       (if attempts = [] then w else ge_sleep env (of_nat attempt) w)))"

definition find_batch_by_operation_id :: "'w builder_env \<Rightarrow> pystr \<Rightarrow> pystr \<Rightarrow> ('w, zep_batch option) proc" where
  "find_batch_by_operation_id env graph_id operation_id = find_batch_attempts env graph_id operation_id [1, 2, 3]"

definition list_batch_items :: "'w builder_env \<Rightarrow> pystr \<Rightarrow> ('w, batch_item list) proc" where
  "list_batch_items env batch_id =
     cursor_pages (zep_read env) (ge_batch_items env batch_id 100)
       (runtime (lit ''Zep batch '' @ batch_id @ lit '' item cursor did not advance'')) (\<lambda>_. True) None {} []"

fun reconcile_attempts :: "'w builder_env \<Rightarrow> pystr \<Rightarrow> nat \<Rightarrow> nat list \<Rightarrow> batch_item list \<Rightarrow> ('w, batch_item list) proc" where
  "reconcile_attempts env batch_id expected [] items w = Some (Inr items, w)"
| "reconcile_attempts env batch_id expected (attempt # attempts) items w =
     pbind (list_batch_items env batch_id w) (\<lambda>items w.
       if expected \<le> length items then Some (Inr items, w)
       else reconcile_attempts env batch_id expected attempts items
              (if attempts = [] then w else ge_sleep env (of_nat attempt) w))"

definition reconcile_batch_item_count :: "'w builder_env \<Rightarrow> pystr \<Rightarrow> nat \<Rightarrow> ('w, batch_item list) proc" where
  "reconcile_batch_item_count env batch_id expected = reconcile_attempts env batch_id expected [1, 2, 3] []"

definition get_batch_summary :: "'w builder_env \<Rightarrow> pystr \<Rightarrow> ('w, zep_batch) action" where
  "get_batch_summary env batch_id = zep_read env (ge_batch_get env batch_id)"

section \<open>The ontology\<close>

definition RESERVED_ONTOLOGY_ATTRIBUTE_NAMES :: "pystr list" where
  "RESERVED_ONTOLOGY_ATTRIBUTE_NAMES =
     map lit [''uuid'', ''name'', ''group_id'', ''graph_id'', ''name_embedding'', ''summary'', ''created_at'']"

definition safe_attr_name :: "pystr \<Rightarrow> pystr" where
  "safe_attr_name attr_name =
     (if py_lower attr_name \<in> set RESERVED_ONTOLOGY_ATTRIBUTE_NAMES then lit ''entity_'' @ attr_name else attr_name)"

definition quoted :: "string \<Rightarrow> pystr" where
  "quoted s = 39 # lit s @ [39]"

text \<open>\<^verbatim>\<open>ontology.get(key, [])[:10]\<close>; a string would be sliced into its characters.\<close>

definition first_types :: "pydict \<Rightarrow> string \<Rightarrow> pyval list res" where
  "first_types ontology key =
     (case dget_or ontology (lit key) (PyList []) of
        PyList xs \<Rightarrow> Inr (take MAX_ONTOLOGY_TYPES xs)
      | PyStr s \<Rightarrow> Inr (map (\<lambda>c. PyStr [c]) (take MAX_ONTOLOGY_TYPES s))
      | _ \<Rightarrow> Inl (Exn TypeErr (lit ''unhashable type: '' @ quoted ''slice'')))"

definition named_type :: "pyval \<Rightarrow> (pydict \<times> pyval) res" where
  "named_type v =
     (case v of
        PyDict d \<Rightarrow> (case dget d (lit ''name'') of Some n \<Rightarrow> Inr (d, n) | None \<Rightarrow> Inl (Exn KeyErr (quoted ''name'')))
      | _ \<Rightarrow> Inl (Exn TypeErr (lit ''indices must be integers'')))"

definition attr_name_of :: "pydict \<Rightarrow> pystr" where
  "attr_name_of a = safe_attr_name (case get_str a ''name'' of Some n \<Rightarrow> n | None \<Rightarrow> [])"

definition class_of :: "pystr \<Rightarrow> pyval \<Rightarrow> pyval \<Rightarrow> class_def" where
  "class_of class_name description attributes =
     (let norm = normalize_ontology_attributes attributes in
      \<lparr>cd_name = class_name,
       cd_attrs = dpop (fold (\<lambda>a d. dset d (attr_name_of a) (dget_or a (lit ''description'') PyNone)) norm
                     [(lit ''__doc__'', description)]) (lit ''__annotations__''),
       cd_annotations = map fst (fold (\<lambda>a d. dset d (attr_name_of a) ()) norm []),
       cd_doc = description\<rparr>)"

fun entity_classes :: "'w builder_env \<Rightarrow> pyval list \<Rightarrow> (pystr \<times> class_def) list \<Rightarrow> (pystr \<times> class_def) list res" where
  "entity_classes env [] acc = Inr acc"
| "entity_classes env (v # vs) acc =
     (case named_type v of
        Inl e \<Rightarrow> Inl e
      | Inr (d, PyStr name) \<Rightarrow>
          (case ge_class env (class_of name (dget_or d (lit ''description'') (PyStr (lit ''A '' @ name @ lit '' entity.'')))
                               (dget_or d (lit ''attributes'') (PyList []))) of
             Inl e \<Rightarrow> Inl e
           | Inr c \<Rightarrow> entity_classes env vs (dset acc name c))
      | Inr _ \<Rightarrow> Inl (Exn TypeErr (lit ''type() argument 1 must be str'')))"

definition edge_class_name :: "pystr \<Rightarrow> pystr" where
  "edge_class_name name = concat (map capitalize (split_on 95 name))"

fun edge_classes ::
  "'w builder_env \<Rightarrow> pyval list \<Rightarrow> (pystr \<times> class_def \<times> pydict list) list \<Rightarrow> (pystr \<times> class_def \<times> pydict list) list res"
where
  "edge_classes env [] acc = Inr acc"
| "edge_classes env (v # vs) acc =
     (case named_type v of
        Inl e \<Rightarrow> Inl e
      | Inr (d, PyStr name) \<Rightarrow>
          (case ge_class env (class_of (edge_class_name name)
                               (dget_or d (lit ''description'') (PyStr (lit ''A '' @ name @ lit '' relationship.'')))
                               (dget_or d (lit ''attributes'') (PyList []))) of
             Inl e \<Rightarrow> Inl e
           | Inr c \<Rightarrow>
               (let source_targets = normalize_ontology_source_targets (Some MAX_ONTOLOGY_SOURCE_TARGETS)
                                       (dget_or d (lit ''source_targets'') (PyList []))
                in edge_classes env vs (if source_targets = [] then acc else dset acc name (c, source_targets))))
      | Inr _ \<Rightarrow> Inl (Exn AttributeErr (lit ''object has no attribute '' @ quoted ''split'')))"

definition set_ontology :: "'w builder_env \<Rightarrow> pystr \<Rightarrow> pydict \<Rightarrow> ('w, unit) action" where
  "set_ontology env graph_id ontology w =
     (case bind_res (first_types ontology ''entity_types'') (\<lambda>vs. entity_classes env vs []) of
        Inl e \<Rightarrow> (Inl e, w)
      | Inr entity_types \<Rightarrow>
          (case bind_res (first_types ontology ''edge_types'') (\<lambda>vs. edge_classes env vs []) of
             Inl e \<Rightarrow> (Inl e, w)
           | Inr edge_definitions \<Rightarrow>
               if entity_types = [] \<and> edge_definitions = [] then (Inr (), w)
               else ge_set_ontology env graph_id entity_types
                      (if edge_definitions = [] then None else Some edge_definitions) w))"

section \<open>Submitting the chunks\<close>

definition validate_batch_chunks :: "pystr list \<Rightarrow> int \<Rightarrow> unit res" where
  "validate_batch_chunks chunks batch_size =
     (if chunks = [] then Inl (Exn ValueError (lit ''At least one text chunk is required''))
      else if \<not> (1 \<le> batch_size \<and> batch_size \<le> 350) then Inl (Exn ValueError (lit ''batch_size must be between 1 and 350''))
      else if length chunks > 50000 then Inl (Exn ValueError (lit ''A Zep batch cannot contain more than 50,000 items''))
      else
        (case filter (\<lambda>i. length (chunks ! i) > 10000) [0..<length chunks] of
           [] \<Rightarrow> Inr ()
         | i # _ \<Rightarrow> Inl (Exn ValueError (lit ''Zep batch item exceeds 10,000 characters at chunk '' @ nat_digits i))))"

function segments :: "nat \<Rightarrow> 'a list \<Rightarrow> 'a list list" where
  "segments n xs = (if xs = [] \<or> n = 0 then [] else take n xs # segments n (drop n xs))"
  by pat_completeness auto
termination
  by (relation "measure (length \<circ> snd)") auto

declare segments.simps [simp del]

definition add_items :: "'w builder_env \<Rightarrow> pystr \<Rightarrow> pystr \<Rightarrow> nat \<Rightarrow> pystr list \<Rightarrow> BatchAddItem list" where
  "add_items env graph_id operation_id i batch_chunks =
     map (\<lambda>(offset, chunk). \<lparr>ai_graph_id = graph_id, ai_data = chunk, ai_operation_id = operation_id,
            ai_chunk_index = i + offset, ai_chunk_sha256 = ge_sha256 env chunk\<rparr>)
       (enumerate 0 batch_chunks)"

definition all_indexes :: "batch_item list \<Rightarrow> nat \<Rightarrow> bool" where
  "all_indexes items n \<longleftrightarrow> length items = n \<and> set (map bi_sequence_index items) = set (map (Some \<circ> int) [0..<n])"

text \<open>
  The items of one \<^verbatim>\<open>batch.add\<close>: an ambiguous failure or a short acknowledgement is settled by
  listing the batch, never by adding again.
\<close>

definition confirm_items :: "'w builder_env \<Rightarrow> pystr \<Rightarrow> nat \<Rightarrow> nat \<Rightarrow> exn \<Rightarrow> ('w, batch_item list) proc" where
  "confirm_items env batch_id i expected failure w =
     pbind (reconcile_batch_item_count env batch_id expected w) (\<lambda>recovered w.
       Some (if all_indexes recovered expected then Inr (take (expected - i) (drop i recovered)) else Inl failure, w))"

definition add_one_segment ::
  "'w builder_env \<Rightarrow> pystr \<Rightarrow> pystr \<Rightarrow> 'w progress \<Rightarrow> nat \<Rightarrow> nat \<Rightarrow> BatchAddItem list \<Rightarrow> ('w, batch_item list) proc" where
  "add_one_segment env batch_id operation_id cb batch_num i items w =
     pbind
       (case ge_batch_add env batch_id items w of
          (Inr details, w) \<Rightarrow> Some (Inr (or_nil details), w)
        | (Inl e, w) \<Rightarrow>
            pbind (Some (report_progress cb (ge_tr env ''progress.batchFailed'' [(''batch'', nat_digits batch_num), (''error'', exn_msg e)]) 0 w))
              (\<lambda>_ w.
                 if is_retryable_zep_error e
                 then confirm_items env batch_id i (i + length items)
                        (runtime (lit ''Zep batch '' @ batch_id @ lit '' item submission is unconfirmed; the draft was not processed or replayed'')) w
                 else Some (Inl (runtime (lit ''Zep batch '' @ batch_id @ lit '' item submission failed'')), w)))
       (\<lambda>details w.
          if length details = length items then Some (Inr details, w)
          else confirm_items env batch_id i (i + length items)
                 (runtime (lit ''Zep batch '' @ batch_id @ lit '' acknowledged '' @ nat_digits (length details) @ lit '' of ''
                    @ nat_digits (length items) @ lit '' items'')) w)"

fun add_segments ::
  "'w builder_env \<Rightarrow> pystr \<Rightarrow> pystr \<Rightarrow> pystr \<Rightarrow> 'w progress \<Rightarrow> nat \<Rightarrow> nat \<Rightarrow> pystr list list \<Rightarrow> nat \<Rightarrow> pystr list \<Rightarrow>
   ('w, pystr list) proc"
where
  "add_segments env graph_id batch_id operation_id cb sz n [] i uuids w = Some (Inr uuids, w)"
| "add_segments env graph_id batch_id operation_id cb sz n (batch_chunks # segs) i uuids w =
     (let batch_num = i div sz + 1 in
      pbind (Some (report_progress cb
               (ge_tr env ''progress.sendingBatch'' [(''current'', nat_digits batch_num),
                  (''total'', nat_digits ((n + sz - 1) div sz)), (''chunks'', nat_digits (length batch_chunks))])
               (of_nat (i + length batch_chunks) / of_nat n) w)) (\<lambda>_ w.
      pbind (add_one_segment env batch_id operation_id cb batch_num i (add_items env graph_id operation_id i batch_chunks) w)
        (\<lambda>details w.
           add_segments env graph_id batch_id operation_id cb sz n segs (i + length batch_chunks)
             (uuids @ filter (\<lambda>u. u \<noteq> []) (List.map_filter bi_episode_uuid details)) w)))"

definition notify_batch ::
  "(pystr option \<Rightarrow> pystr \<Rightarrow> ('w, unit) action) option \<Rightarrow> pystr option \<Rightarrow> pystr \<Rightarrow> ('w, unit) action" where
  "notify_batch cb batch_id operation_id w = (case cb of None \<Rightarrow> (Inr (), w) | Some f \<Rightarrow> f batch_id operation_id w)"

definition operation_metadata :: "pystr \<Rightarrow> pystr \<Rightarrow> nat \<Rightarrow> pydict" where
  "operation_metadata operation_id graph_id n =
     [(lit ''robin-swarm_operation_id'', PyStr operation_id), (lit ''graph_id'', PyStr graph_id), (lit ''chunk_count'', PyInt (int n))]"

definition create_batch :: "'w builder_env \<Rightarrow> pystr \<Rightarrow> pystr \<Rightarrow> nat \<Rightarrow> ('w, zep_batch) proc" where
  "create_batch env graph_id operation_id n w =
     (case ge_batch_create env (operation_metadata operation_id graph_id n) w of
        (Inr b, w) \<Rightarrow> Some (Inr b, w)
      | (Inl e, w) \<Rightarrow>
          if \<not> is_retryable_zep_error e then Some (Inl e, w)
          else pbind (find_batch_by_operation_id env graph_id operation_id w) (\<lambda>found w.
                 Some (case found of
                         None \<Rightarrow> Inl (runtime (lit ''Zep batch creation is unconfirmed and no matching operation was found''))
                       | Some b \<Rightarrow> Inr b, w)))"

definition process_batch :: "'w builder_env \<Rightarrow> pystr \<Rightarrow> ('w, unit) action" where
  "process_batch env batch_id w =
     (case ge_batch_process env batch_id w of
        (Inr _, w) \<Rightarrow> (Inr (), w)
      | (Inl e, w) \<Rightarrow>
          (case zep_read env (ge_batch_get env batch_id) w of
             (Inl e, w) \<Rightarrow> (Inl e, w)
           | (Inr summary, w) \<Rightarrow>
               (if zb_status summary = None \<or> zb_status summary = Some (lit ''draft'')
                then Inl (runtime (lit ''Zep batch '' @ batch_id @ lit '' processing is unconfirmed''))
                else Inr (), w)))"

definition add_text_batches ::
  "'w builder_env \<Rightarrow> pystr \<Rightarrow> pystr list \<Rightarrow> int \<Rightarrow> 'w progress \<Rightarrow> (pystr option \<Rightarrow> pystr \<Rightarrow> ('w, unit) action) option \<Rightarrow>
   ('w, BatchSubmission) proc" where
  "add_text_batches env graph_id chunks batch_size cb batch_created w =
     (if graph_id = [] then Some (Inl (Exn ValueError (lit ''graph_id is required'')), w)
      else
        (case validate_batch_chunks chunks batch_size of
           Inl e \<Rightarrow> Some (Inl e, w)
         | Inr _ \<Rightarrow>
             (let n = length chunks; operation_id = build_operation_id env graph_id chunks in
              pbind (Some (notify_batch batch_created None operation_id w)) (\<lambda>_ w.
              pbind (create_batch env graph_id operation_id n w) (\<lambda>batch w.
              case or_str (zb_id batch) None of
                None \<Rightarrow> Some (Inl (runtime (lit ''Zep Batch API returned no batch_id'')), w)
              | Some batch_id \<Rightarrow>
                  pbind (Some (notify_batch batch_created (Some batch_id) operation_id w)) (\<lambda>_ w.
                  pbind (add_segments env graph_id batch_id operation_id cb (nat batch_size) n
                           (segments (nat batch_size) chunks) 0 [] w) (\<lambda>uuids w.
                  pbind (Some (process_batch env batch_id w)) (\<lambda>_ w.
                    Some (Inr \<lparr>sub_batch_id = batch_id, sub_operation_id = operation_id, sub_episode_uuids = uuids,
                               sub_item_count = n\<rparr>, w)))))))))"

section \<open>Waiting\<close>

definition TERMINAL_STATES :: "pystr list" where
  "TERMINAL_STATES = map lit [''succeeded'', ''partial'', ''failed'', ''invalid'', ''canceled'']"

definition batch_progress :: "'w builder_env \<Rightarrow> BatchSubmission \<Rightarrow> 'w progress \<Rightarrow> rat \<Rightarrow> zep_batch \<Rightarrow> ('w, unit) action" where
  "batch_progress env sub cb start_time b w =
     (case cb of
        None \<Rightarrow> (Inr (), w)
      | Some _ \<Rightarrow>
          (let completed = (case zb_succeeded b of None \<Rightarrow> 0 | Some k \<Rightarrow> k);
               percent = (case zb_percent b of None \<Rightarrow> 0 | Some q \<Rightarrow> q) / 100
           in case ge_time env w of (now, w) \<Rightarrow>
                report_progress cb
                  (ge_tr env ''progress.zepProcessing'' [(''completed'', int_str completed), (''total'', nat_digits (sub_item_count sub)),
                     (''pending'', int_str (max (int (sub_item_count sub) - completed) 0)), (''elapsed'', int_str (rat_trunc (now - start_time)))])
                  (min (max percent 0) 1) w))"

partial_function (option) poll_batch ::
  "'w builder_env \<Rightarrow> BatchSubmission \<Rightarrow> 'w progress \<Rightarrow> rat \<Rightarrow> rat \<Rightarrow> 'w \<Rightarrow> (pystr res \<times> 'w) option"
where
  "poll_batch env sub cb start_time timeout w =
     (let (now, w1) = ge_time env w in
      if timeout < now - start_time
      then Some (Inl (Exn TimeoutErr (lit ''Zep batch '' @ sub_batch_id sub @ lit '' did not finish within '' @ int_str \<lfloor>timeout\<rfloor> @ lit ''s'')), w1)
      else
        (case zep_read env (ge_batch_get env (sub_batch_id sub)) w1 of
           (Inl e, w2) \<Rightarrow> Some (Inl e, w2)
         | (Inr b, w2) \<Rightarrow>
             (case batch_progress env sub cb start_time b w2 of
                (Inl e, w3) \<Rightarrow> Some (Inl e, w3)
              | (Inr u, w3) \<Rightarrow>
                  (case zb_status b of
                     None \<Rightarrow> poll_batch env sub cb start_time timeout (ge_sleep env 3 w3)
                   | Some st \<Rightarrow>
                       if st \<in> set TERMINAL_STATES then Some (Inr st, w3)
                       else poll_batch env sub cb start_time timeout (ge_sleep env 3 w3)))))"

definition str_none :: "pystr option \<Rightarrow> pystr" where
  "str_none s = (case s of None \<Rightarrow> lit ''None'' | Some x \<Rightarrow> x)"

definition batch_ended_badly :: "BatchSubmission \<Rightarrow> pystr \<Rightarrow> batch_item list \<Rightarrow> exn" where
  "batch_ended_badly sub st items =
     (let failed_items = filter (\<lambda>x. bi_status x \<noteq> Some (lit ''succeeded'') \<and> bi_status x \<noteq> Some (lit ''skipped'')) items;
          first_error = (case failed_items of [] \<Rightarrow> None | x # _ \<Rightarrow> bi_error x)
      in runtime (lit ''Zep batch '' @ sub_batch_id sub @ lit '' ended as '' @ st @ lit ''; failed_items=''
           @ nat_digits (length failed_items) @ lit ''; first_error='' @ str_none first_error))"

fun verify_items :: "BatchSubmission \<Rightarrow> batch_item list \<Rightarrow> pystr list \<Rightarrow> pystr list res" where
  "verify_items sub [] uuids = Inr uuids"
| "verify_items sub (x # xs) uuids =
     (case or_str (bi_episode_uuid x) None of
        None \<Rightarrow> Inl (runtime (lit ''Zep batch '' @ sub_batch_id sub @ lit '' returned an incomplete item''))
      | Some u \<Rightarrow>
          if bi_status x \<noteq> Some (lit ''succeeded'')
          then Inl (runtime (lit ''Zep batch '' @ sub_batch_id sub @ lit '' returned an incomplete item''))
          else if or_str (bi_source_uuid x) None \<notin> {None, Some u}
          then Inl (runtime (lit ''Zep batch '' @ sub_batch_id sub @ lit '' returned mismatched episode UUIDs''))
          else verify_items sub xs (uuids @ [u]))"

definition sequence_key :: "batch_item \<Rightarrow> int" where
  "sequence_key x = (case bi_sequence_index x of None \<Rightarrow> 0 | Some i \<Rightarrow> i)"

definition wait_for_batch :: "'w builder_env \<Rightarrow> BatchSubmission \<Rightarrow> 'w progress \<Rightarrow> rat option \<Rightarrow> ('w, pystr list) proc" where
  "wait_for_batch env sub cb timeout w =
     (let timeout = (case timeout of None \<Rightarrow> ZEP_INGESTION_WAIT_TIMEOUT_SECONDS
                     | Some q \<Rightarrow> if q = 0 then ZEP_INGESTION_WAIT_TIMEOUT_SECONDS else q);
          (start_time, w) = ge_time env w
      in pbind (poll_batch env sub cb start_time timeout w) (\<lambda>st w.
         pbind (list_batch_items env (sub_batch_id sub) w) (\<lambda>items w.
           if st \<noteq> lit ''succeeded'' then Some (Inl (batch_ended_badly sub st items), w)
           else if length items \<noteq> sub_item_count sub
           then Some (Inl (runtime (lit ''Zep batch '' @ sub_batch_id sub @ lit '' contains '' @ nat_digits (length items)
                        @ lit '' items, expected '' @ nat_digits (sub_item_count sub))), w)
           else
             (case verify_items sub (sort_key sequence_key items) [] of
                Inl e \<Rightarrow> Some (Inl e, w)
              | Inr uuids \<Rightarrow>
                  pbind (Some (report_progress cb
                           (ge_tr env ''progress.processingComplete'' [(''completed'', nat_digits (length uuids)),
                              (''total'', nat_digits (sub_item_count sub))]) 1 w)) (\<lambda>_ w. Some (Inr uuids, w))))))"

text \<open>One pass over the pending episodes, in the order Python iterates them.\<close>

fun check_episodes :: "'w builder_env \<Rightarrow> pystr list \<Rightarrow> pystr list \<Rightarrow> nat \<Rightarrow> ('w, pystr list \<times> nat) action" where
  "check_episodes env [] pending completed w = (Inr (pending, completed), w)"
| "check_episodes env (u # us) pending completed w =
     (case zep_read env (ge_episode_processed env u) w of
        (Inl e, w) \<Rightarrow> (Inl e, w)
      | (Inr processed, w) \<Rightarrow>
          if processed then check_episodes env us (remove1 u pending) (Suc completed) w
          else check_episodes env us pending completed w)"

partial_function (option) episode_loop ::
  "'w builder_env \<Rightarrow> 'w progress \<Rightarrow> nat \<Rightarrow> rat \<Rightarrow> rat \<Rightarrow> pystr list \<Rightarrow> nat \<Rightarrow> 'w \<Rightarrow> (unit res \<times> 'w) option"
where
  "episode_loop env cb n start_time timeout pending completed w =
     (if pending = []
      then Some (report_progress cb (ge_tr env ''progress.processingComplete'' [(''completed'', nat_digits completed), (''total'', nat_digits n)]) 1 w)
      else
        (let (now, w1) = ge_time env w in
         if timeout < now - start_time
         then Some (case report_progress cb (ge_tr env ''progress.episodesTimeout'' [(''completed'', nat_digits completed), (''total'', nat_digits n)])
                           (of_nat completed / of_nat n) w1 of
                (Inl e, w2) \<Rightarrow> (Inl e, w2)
              | (Inr u, w2) \<Rightarrow> (Inl (Exn TimeoutErr (lit ''Zep episode processing timed out with '' @ nat_digits (length pending)
                                  @ lit '' episode(s) still pending'')), w2))
         else
           (case check_episodes env (ge_order env pending) pending completed w1 of
              (Inl e, w2) \<Rightarrow> Some (Inl e, w2)
            | (Inr pc, w2) \<Rightarrow>
                (let (now2, w3) = ge_time env w2 in
                 case report_progress cb (ge_tr env ''progress.zepProcessing'' [(''completed'', nat_digits (snd pc)), (''total'', nat_digits n),
                        (''pending'', nat_digits (length (fst pc))), (''elapsed'', int_str (rat_trunc (now2 - start_time)))])
                        (of_nat (snd pc) / of_nat n) w3 of
                   (Inl e, w4) \<Rightarrow> Some (Inl e, w4)
                 | (Inr u, w4) \<Rightarrow>
                     episode_loop env cb n start_time timeout (fst pc) (snd pc) (if fst pc = [] then w4 else ge_sleep env 3 w4)))))"

definition wait_for_episodes :: "'w builder_env \<Rightarrow> pystr list \<Rightarrow> 'w progress \<Rightarrow> rat \<Rightarrow> ('w, unit) proc" where
  "wait_for_episodes env episode_uuids cb timeout w =
     (if episode_uuids = [] then Some (report_progress cb (ge_tr env ''progress.noEpisodesWait'' []) 1 w)
      else
        (let (start_time, w) = ge_time env w; n = length episode_uuids in
         pbind (Some (report_progress cb (ge_tr env ''progress.waitingEpisodes'' [(''count'', nat_digits n)]) 0 w)) (\<lambda>_ w.
           episode_loop env cb n start_time timeout (remdups episode_uuids) 0 w)))"

section \<open>Reading the graph back\<close>

definition get_graph_info :: "'w builder_env \<Rightarrow> pystr \<Rightarrow> ('w, GraphInfo) proc" where
  "get_graph_info env graph_id w =
     pbind (fetch_all_nodes (ge_float env) (ge_sleep env) (ge_nodes env) graph_id 100 None 3 2 w) (\<lambda>nodes w.
     pbind (fetch_all_edges (ge_float env) (ge_sleep env) (ge_edges env) graph_id 100 3 2 None w) (\<lambda>edges w.
       Some (Inr \<lparr>gi_graph_id = graph_id, gi_node_count = length nodes, gi_edge_count = length edges,
                  gi_entity_types = ge_order env (remdups (filter (\<lambda>l. l \<notin> set default_labels)
                    (concat (map (\<lambda>n. or_nil (zn_labels n)) nodes))))\<rparr>, w)))"

definition str_if :: "'w builder_env \<Rightarrow> pyval \<Rightarrow> pyval" where
  "str_if env v = (if truthy v then PyStr (ge_str env v) else PyNone)"

text \<open>For nodes a false creation time is passed on as it is.\<close>

definition node_entry :: "'w builder_env \<Rightarrow> dated_node \<Rightarrow> pydict" where
  "node_entry env n =
     [(lit ''uuid'', zn_id1 n), (lit ''name'', zn_name n), (lit ''labels'', PyList (map PyStr (or_nil (zn_labels n)))),
      (lit ''summary'', or_else (zn_summary n) (PyStr [])), (lit ''attributes'', PyDict (or_nil (zn_attributes n))),
      (lit ''created_at'', if truthy (zn_created_at n) then PyStr (ge_str env (zn_created_at n)) else zn_created_at n)]"

definition edge_entry :: "'w builder_env \<Rightarrow> (pyval \<times> pyval) list \<Rightarrow> dated_edge \<Rightarrow> pydict" where
  "edge_entry env names e =
     (let episodes = or_else (ze_episodes e) (ze_episode_ids e) in
      [(lit ''uuid'', ze_id1 e), (lit ''name'', or_else (ze_name e) (PyStr [])), (lit ''fact'', or_else (ze_fact e) (PyStr [])),
       (lit ''fact_type'', or_else (or_else (ze_fact_type e) (ze_name e)) (PyStr [])),
       (lit ''source_node_uuid'', ze_source e), (lit ''target_node_uuid'', ze_target e),
       (lit ''source_node_name'', dget_or names (ze_source e) (PyStr [])),
       (lit ''target_node_name'', dget_or names (ze_target e) (PyStr [])),
       (lit ''attributes'', PyDict (or_nil (ze_attributes e))),
       (lit ''created_at'', str_if env (ze_created_at e)), (lit ''valid_at'', str_if env (ze_valid_at e)),
       (lit ''invalid_at'', str_if env (ze_invalid_at e)), (lit ''expired_at'', str_if env (ze_expired_at e)),
       (lit ''episodes'', if \<not> truthy episodes then PyList []
          else (case episodes of PyList xs \<Rightarrow> PyList (map (PyStr \<circ> ge_str env) xs) | v \<Rightarrow> PyList [PyStr (ge_str env v)]))])"

definition node_names :: "dated_node list \<Rightarrow> (pyval \<times> pyval) list" where
  "node_names nodes = fold (\<lambda>n m. dset m (zn_id1 n) (or_else (zn_name n) (PyStr []))) nodes []"

definition get_graph_data :: "'w builder_env \<Rightarrow> pystr \<Rightarrow> ('w, pydict) proc" where
  "get_graph_data env graph_id w =
     pbind (fetch_all_nodes (ge_float env) (ge_sleep env) (ge_nodes env) graph_id 100 None 3 2 w) (\<lambda>nodes w.
     pbind (fetch_all_edges (ge_float env) (ge_sleep env) (ge_edges env) graph_id 100 3 2 None w) (\<lambda>edges w.
       Some (Inr [(lit ''graph_id'', PyStr graph_id), (lit ''nodes'', PyList (map (PyDict \<circ> node_entry env) nodes)),
                  (lit ''edges'', PyList (map (PyDict \<circ> edge_entry env (node_names nodes)) edges)),
                  (lit ''node_count'', PyInt (int (length nodes))), (lit ''edge_count'', PyInt (int (length edges)))], w)))"

definition builder_delete_graph :: "'w builder_env \<Rightarrow> pystr \<Rightarrow> ('w, unit) action" where
  "builder_delete_graph env graph_id = ge_graph_delete env graph_id"

declare cursor_pages.simps [code] poll_batch.simps [code] episode_loop.simps [code]

end
