(* ===== verification/Graph_Batches.thy ===== *)
theory Graph_Batches
  imports Graph_Builder
begin

text \<open>
  What the batch ingestion of \<^verbatim>\<open>app/services/graph_builder.py\<close> achieves on a service that behaves as
  the Batch API documents: a submission that returns normally has put every chunk into one batch,
  once and in order, although single replies may have been lost.
\<close>

section \<open>The service\<close>

text \<open>
  \<open>content w bid\<close> is the batch \<open>bid\<close> on the service, its metadata and its items; \<open>pos\<close> says where
  the page of a cursor starts.  A call that raises may have had its effect.
\<close>

definition keeps :: "('w \<Rightarrow> 'c) \<Rightarrow> ('w, 'a) action \<Rightarrow> bool" where
  "keeps content act \<longleftrightarrow> (\<forall>w. content (snd (act w)) = content w)"

type_synonym batches = "pystr \<Rightarrow> (pydict \<times> BatchAddItem list) option"

definition creates_batch :: "('w \<Rightarrow> batches) \<Rightarrow> pydict \<Rightarrow> 'w \<Rightarrow> zep_batch res \<Rightarrow> 'w \<Rightarrow> bool" where
  "creates_batch content m w r w' \<longleftrightarrow>
     (\<exists>bid. content w bid = None \<and> content w' = (content w)(bid \<mapsto> (m, [])) \<and> (\<forall>b. r = Inr b \<longrightarrow> zb_id b = Some bid))"

definition appends_items :: "('w \<Rightarrow> batches) \<Rightarrow> pystr \<Rightarrow> BatchAddItem list \<Rightarrow> 'w \<Rightarrow> 'w \<Rightarrow> bool" where
  "appends_items content bid new w w' \<longleftrightarrow>
     (\<forall>m its. content w bid = Some (m, its) \<longrightarrow> content w' = (content w)(bid \<mapsto> (m, its @ new)))"

definition batch_service :: "'w builder_env \<Rightarrow> ('w \<Rightarrow> batches) \<Rightarrow> (int option \<Rightarrow> nat) \<Rightarrow> bool" where
  "batch_service env content pos \<longleftrightarrow>
     (\<forall>d w. content (ge_sleep env d w) = content w) \<and>
     (\<forall>n c. keeps content (ge_batch_list env n c)) \<and>
     (\<forall>b n c. keeps content (ge_batch_items env b n c)) \<and>
     (\<forall>b. keeps content (ge_batch_process env b)) \<and>
     (\<forall>b. keeps content (ge_batch_get env b)) \<and>
     (\<forall>m w r w'. ge_batch_create env m w = (r, w') \<longrightarrow>
        creates_batch content m w r w' \<or> (\<not> is_ok r \<and> content w' = content w)) \<and>
     (\<forall>b new w r w'. ge_batch_add env b new w = (r, w') \<longrightarrow>
        appends_items content b new w w' \<or>
        (content w' = content w \<and> (\<forall>ds. r = Inr ds \<longrightarrow> length (or_nil ds) \<noteq> length new))) \<and>
     (\<forall>n c w p w' b bid. ge_batch_list env n c w = (Inr p, w') \<and> b \<in> set (or_nil (cp_items p)) \<and> zb_id b = Some bid \<longrightarrow>
        map_option fst (content w bid) = Some (or_nil (zb_metadata b))) \<and>
     pos None = 0 \<and>
     (\<forall>bid n c w p w' m its. ge_batch_items env bid n c w = (Inr p, w') \<and> content w bid = Some (m, its) \<longrightarrow>
        (case cp_next p of
           None \<Rightarrow> pos c + length (or_nil (cp_items p)) = length its
         | Some nc \<Rightarrow> pos (Some nc) = pos c + length (or_nil (cp_items p))))"

lemma keepsD: "keeps content act \<Longrightarrow> act w = (r, w') \<Longrightarrow> content w' = content w"
  unfolding keeps_def by (metis snd_conv)

section \<open>Reads\<close>

lemma zep_attempts_keeps:
  assumes "keeps content act" "\<And>d w. content (sleep d w) = content w"
  shows "zep_attempts fl act sleep d0 dmax attempt m w = (r, w') \<Longrightarrow>
    content w' = content w \<and> (\<forall>x. r = Inr x \<longrightarrow> (\<exists>w1. act w1 = (Inr x, w') \<and> content w1 = content w))"
proof (induction "Suc m - attempt" arbitrary: attempt w)
  case 0
  then show ?case by (subst (asm) zep_attempts.simps) auto
next
  case (Suc k)
  obtain r1 w1 where act: "act w = (r1, w1)" by (cases "act w")
  then have c1: "content w1 = content w" using keepsD [OF assms(1)] by blast
  have rest: "content w' = content w \<and> (\<forall>x. r = Inr x \<longrightarrow> (\<exists>v. act v = (Inr x, w') \<and> content v = content w))"
    if "zep_attempts fl act sleep d0 dmax (Suc attempt) m (sleep d w1) = (r, w')" for d
    using Suc.hyps(1) [OF _ that] Suc.hyps(2) c1 assms(2) by simp
  from Suc.prems act c1 rest show ?case
    by (subst (asm) zep_attempts.simps) (auto split: sum.splits if_splits)
qed

lemma zep_read_keeps:
  assumes "keeps content act" "\<And>d w. content (ge_sleep env d w) = content w"
    and "zep_read env act w = (r, w')"
  shows "content w' = content w" "r = Inr x \<Longrightarrow> \<exists>w1. act w1 = (Inr x, w') \<and> content w1 = content w"
  using zep_attempts_keeps [of content act "ge_sleep env", OF assms(1,2)] assms(3)
  by (auto simp: zep_read_def call_zep_read_with_retry_def split: if_splits)

text \<open>
  The page loop, for an invariant \<open>Q\<close> of its cursor and accumulator.
\<close>

lemma cursor_pages_inv:
  fixes env :: "'w builder_env" and call :: "int option \<Rightarrow> ('w, 'x cursor_page) action"
  assumes "\<And>c. keeps content (call c)" "\<And>d w. content (ge_sleep env d w) = content w"
    and step: "\<And>c acc w1 p w2. call c w1 = (Inr p, w2) \<Longrightarrow> content w1 = C \<Longrightarrow> Q c acc \<Longrightarrow>
       (case cp_next p of None \<Rightarrow> R (acc @ filter pick (or_nil (cp_items p)))
        | Some nc \<Rightarrow> Q (Some nc) (acc @ filter pick (or_nil (cp_items p))))"
    and run: "cursor_pages (zep_read env) call stuck pick c seen acc w = Some (r, w')"
    and "Q c acc" "content w = C"
  shows "content w' = C \<and> (\<forall>xs. r = Inr xs \<longrightarrow> R xs)"
proof -
  define P where "P = (\<lambda>(rd :: ('w, 'x cursor_page) action \<Rightarrow> ('w, 'x cursor_page) action) cl (st :: exn) pk c (seen :: int set) acc w (out :: 'x list res \<times> 'w).
     rd = zep_read env \<and> cl = call \<and> pk = pick \<and> Q c acc \<and> content w = C \<longrightarrow>
     content (snd out) = C \<and> (\<forall>xs. fst out = Inr xs \<longrightarrow> R xs))"
  have "P (zep_read env) call stuck pick c seen acc w (r, w')"
  proof (rule cursor_pages.raw_induct [OF _ run])
    fix f rd and cl :: "int option \<Rightarrow> ('w, 'x cursor_page) action" and st pk c seen acc w out
    assume IH: "\<And>rd cl st pk c seen acc w out. f rd cl st pk c seen acc w = Some out \<Longrightarrow> P rd cl st pk c seen acc w out"
      and eq: "(case rd (cl c) w of (Inl e, w') \<Rightarrow> Some (Inl e, w')
        | (Inr page, w') \<Rightarrow>
            let acc' = acc @ filter pk (or_nil (cp_items page)) in
            case cp_next page of None \<Rightarrow> Some (Inr acc', w')
            | Some nc \<Rightarrow> if Some nc = c \<or> nc \<in> seen then Some (Inl st, w') else f rd cl st pk (Some nc) (insert nc seen) acc' w')
        = Some out"
    show "P rd cl st pk c seen acc w out"
      unfolding P_def
    proof (intro impI, elim conjE)
      assume h: "rd = zep_read env" "cl = call" "pk = pick" "Q c acc" "content w = C"
      obtain r1 w1 where rd: "zep_read env (call c) w = (r1, w1)" by (cases "zep_read env (call c) w")
      note kept = zep_read_keeps [OF assms(1,2) rd]
      show "content (snd out) = C \<and> (\<forall>xs. fst out = Inr xs \<longrightarrow> R xs)"
      proof (cases r1)
        case (Inl e)
        with eq rd h kept(1) show ?thesis by auto
      next
        case (Inr p)
        then obtain w0 where "call c w0 = (Inr p, w1)" "content w0 = C" using kept(2) h by auto
        note st = step [OF this h(4)]
        have w1: "content w1 = C" using kept(1) h by simp
        show ?thesis
        proof (cases "cp_next p")
          case None
          with eq rd h Inr st w1 show ?thesis by (auto simp: Let_def)
        next
          case (Some nc)
          with eq rd h Inr st w1 IH [of "zep_read env" call st pick "Some nc" "insert nc seen" _ w1 out] show ?thesis
            by (auto simp: Let_def P_def split: if_splits)
        qed
      qed
    qed
  qed
  with assms(5,6) show ?thesis by (simp add: P_def)
qed

section \<open>Listing and confirming\<close>

lemma batch_service_reads:
  assumes "batch_service env content pos"
  shows "content (ge_sleep env d w) = content w"
    and "keeps content (ge_batch_list env n c)" "keeps content (ge_batch_items env b n c)"
    and "keeps content (ge_batch_process env b)" "keeps content (ge_batch_get env b)"
  using assms by (auto simp: batch_service_def)

lemma batch_service_items:
  assumes "batch_service env content pos" "ge_batch_items env bid n c w = (Inr p, w')" "content w bid = Some (m, its)"
  shows "case cp_next p of None \<Rightarrow> pos c + length (or_nil (cp_items p)) = length its
    | Some nc \<Rightarrow> pos (Some nc) = pos c + length (or_nil (cp_items p))"
proof -
  have "\<forall>bid n c w p w' m its. ge_batch_items env bid n c w = (Inr p, w') \<and> content w bid = Some (m, its) \<longrightarrow>
        (case cp_next p of
           None \<Rightarrow> pos c + length (or_nil (cp_items p)) = length its
         | Some nc \<Rightarrow> pos (Some nc) = pos c + length (or_nil (cp_items p)))"
    using assms(1) unfolding batch_service_def by (elim conjE)
  then show ?thesis using assms(2,3) by blast
qed

lemma list_batch_items_length:
  assumes service: "batch_service env content pos"
    and "list_batch_items env bid w = Some (r, w')" "content w bid = Some (m, its)"
  shows "content w' = content w \<and> (\<forall>xs. r = Inr xs \<longrightarrow> length xs = length its)"
proof (rule cursor_pages_inv [where Q = "\<lambda>c (acc :: batch_item list). length acc = pos c", OF _ _ _ assms(2) [unfolded list_batch_items_def]])
  show "keeps content (ge_batch_items env bid 100 c)" "content (ge_sleep env d w) = content w" for c d w
    using batch_service_reads [OF service] by auto
  show "length [] = pos None" using service by (simp add: batch_service_def)
  fix c and acc :: "batch_item list" and w1 p w2
  assume "ge_batch_items env bid 100 c w1 = (Inr p, w2)" "content w1 = content w" "length acc = pos c"
  then show "case cp_next p of None \<Rightarrow> length (acc @ filter (\<lambda>_. True) (or_nil (cp_items p))) = length its
    | Some nc \<Rightarrow> length (acc @ filter (\<lambda>_. True) (or_nil (cp_items p))) = pos (Some nc)"
    using batch_service_items [OF service, of bid 100 c w1 p w2 m its] assms(3) by (cases "cp_next p") auto
qed simp

lemma reconcile_attempts_length:
  assumes "batch_service env content pos"
  shows "reconcile_attempts env bid expected attempts items w = Some (r, w') \<Longrightarrow> content w bid = Some (m, its) \<Longrightarrow>
    length items = length its \<or> attempts \<noteq> [] \<Longrightarrow>
    content w' = content w \<and> (\<forall>xs. r = Inr xs \<longrightarrow> length xs = length its)"
proof (induction attempts arbitrary: items w)
  case Nil
  then show ?case by auto
next
  case (Cons a as)
  obtain r1 w1 where ls: "list_batch_items env bid w = Some (r1, w1)"
    using Cons.prems(1) by (cases "list_batch_items env bid w") auto
  note len = list_batch_items_length [OF assms ls Cons.prems(2)]
  show ?case
  proof (cases r1)
    case (Inr xs)
    let ?w = "if as = [] then w1 else ge_sleep env (of_nat a) w1"
    have w: "content ?w = content w" using len batch_service_reads(1) [OF assms] by simp
    with Cons.prems Cons.IH [of xs ?w] ls Inr len show ?thesis by (auto split: if_splits)
  qed (use Cons.prems ls len in auto)
qed

lemma confirm_items_length:
  assumes "batch_service env content pos" "content w bid = Some (m, its)"
    and "confirm_items env bid i expected failure w = Some (r, w')"
  shows "content w' = content w \<and> (\<forall>ds. r = Inr ds \<longrightarrow> length its = expected \<and> length ds = expected - i)"
proof -
  obtain r1 w1 where rc: "reconcile_attempts env bid expected [1, 2, 3] [] w = Some (r1, w1)"
    using assms(3) by (cases "reconcile_attempts env bid expected [1, 2, 3] [] w")
      (auto simp: confirm_items_def reconcile_batch_item_count_def)
  from reconcile_attempts_length [OF assms(1) this assms(2)] assms(3) rc show ?thesis
    by (cases r1) (auto simp: confirm_items_def reconcile_batch_item_count_def all_indexes_def split: if_splits)
qed

section \<open>Adding\<close>

lemma report_progress_keeps: "(\<forall>f. cb = Some f \<longrightarrow> (\<forall>m q. keeps content (f m q))) \<Longrightarrow> keeps content (report_progress cb msg ratio)"
  by (cases cb) (auto simp: keeps_def report_progress_def)

lemma batch_service_add:
  assumes "batch_service env content pos" "ge_batch_add env bid new w = (r, w')"
  shows "appends_items content bid new w w' \<or>
    (content w' = content w \<and> (\<forall>ds. r = Inr ds \<longrightarrow> length (or_nil ds) \<noteq> length new))"
proof -
  have "\<forall>b new w r w'. ge_batch_add env b new w = (r, w') \<longrightarrow>
        appends_items content b new w w' \<or>
        (content w' = content w \<and> (\<forall>ds. r = Inr ds \<longrightarrow> length (or_nil ds) \<noteq> length new))"
    using assms(1) unfolding batch_service_def by (elim conjE)
  then show ?thesis using assms(2) by blast
qed

lemma add_outcome:
  assumes "batch_service env content pos" "content w bid = Some (m, its)" "ge_batch_add env bid new w = (r, w')"
  shows "content w' = (content w)(bid \<mapsto> (m, its @ new)) \<or>
    (content w' = content w \<and> (\<forall>ds. r = Inr ds \<longrightarrow> length (or_nil ds) \<noteq> length new))"
  using batch_service_add [OF assms(1,3)] assms(2) by (auto simp: appends_items_def)

lemma confirmed_append:
  assumes "batch_service env content pos"
    and c1: "content w1 = C(bid \<mapsto> (m, its @ new)) \<or> content w1 = C" and "C bid = Some (m, its)"
    and "confirm_items env bid (length its) (length its + length new) failure w1 = Some (Inr ds, w')" "new \<noteq> []"
  shows "content w' = C(bid \<mapsto> (m, its @ new)) \<and> length ds = length new"
proof -
  obtain its' where its': "content w1 bid = Some (m, its')" "its' = its @ new \<or> its' = its"
    using c1 assms(3) by auto
  note conf = confirm_items_length [OF assms(1) its'(1) assms(4)]
  then have "length its' = length its + length new" by simp
  then have "content w1 \<noteq> C" using its' assms(3,5) by auto
  then show ?thesis using conf c1 by auto
qed

lemma add_one_segment_appends:
  assumes service: "batch_service env content pos" and cb: "\<forall>f. cb = Some f \<longrightarrow> (\<forall>m q. keeps content (f m q))"
    and here: "content w bid = Some (m, its)" "new \<noteq> []"
    and run: "add_one_segment env bid op cb k (length its) new w = Some (Inr ds, w')"
  shows "content w' = (content w)(bid \<mapsto> (m, its @ new)) \<and> length ds = length new"
proof -
  obtain r w1 where add: "ge_batch_add env bid new w = (r, w1)" by (cases "ge_batch_add env bid new w")
  note out = add_outcome [OF service here(1) add]
  show ?thesis
  proof (cases r)
    case (Inr details)
    show ?thesis
    proof (cases "length (or_nil details) = length new")
      case True
      with run add Inr out show ?thesis by (auto simp: add_one_segment_def)
    next
      case False
      with run add Inr obtain failure
        where "confirm_items env bid (length its) (length its + length new) failure w1 = Some (Inr ds, w')"
        by (auto simp: add_one_segment_def)
      from confirmed_append [where C = "content w", OF service _ here(1) this here(2)] out show ?thesis by blast
    qed
  next
    case (Inl e)
    let ?msg = "ge_tr env ''progress.batchFailed'' [(''batch'', nat_digits k), (''error'', exn_msg e)]"
    obtain r2 w2 where rp: "report_progress cb ?msg 0 w1 = (r2, w2)" by (cases "report_progress cb ?msg 0 w1")
    then have c2: "content w2 = content w1" using keepsD [OF report_progress_keeps [OF cb]] by blast
    obtain failure where conf: "confirm_items env bid (length its) (length its + length new) failure w2 = Some (Inr ds, w')
        \<or> (\<exists>ds0 w3 failure'. confirm_items env bid (length its) (length its + length new) failure w2 = Some (Inr ds0, w3) \<and> length ds0 \<noteq> length new)"
      using run add Inl rp by (cases r2) (auto simp: add_one_segment_def pbind_ok_iff split: if_splits)
    from conf show ?thesis
      using confirmed_append [where C = "content w" and ?w1.0 = w2, OF service _ here(1) _ here(2)] out c2 by metis
  qed
qed

lemma add_items_append: "add_items env g op i (xs @ ys) = add_items env g op i xs @ add_items env g op (i + length xs) ys"
  unfolding add_items_def by (rule nth_equalityI) (auto simp: nth_enumerate_eq nth_append)

lemma length_add_items [simp]: "length (add_items env g op i xs) = length xs"
  by (simp add: add_items_def)

lemma concat_segments: "0 < n \<Longrightarrow> concat (segments n xs) = xs"
proof (induction n xs rule: segments.induct)
  case (1 n xs)
  then show ?case by (subst segments.simps) auto
qed

lemma segments_nonempty: "seg \<in> set (segments n xs) \<Longrightarrow> seg \<noteq> []"
proof (induction n xs rule: segments.induct)
  case (1 n xs)
  then show ?case by (subst (asm) segments.simps) (auto split: if_splits)
qed

lemma add_segments_appends:
  assumes service: "batch_service env content pos" and cb: "\<forall>f. cb = Some f \<longrightarrow> (\<forall>m q. keeps content (f m q))"
  shows "add_segments env g bid op cb sz n segs i uuids w = Some (Inr us, w') \<Longrightarrow> content w bid = Some (m, its) \<Longrightarrow>
    length its = i \<Longrightarrow> (\<forall>seg \<in> set segs. seg \<noteq> []) \<Longrightarrow>
    content w' = (content w)(bid \<mapsto> (m, its @ add_items env g op i (concat segs)))"
proof (induction segs arbitrary: i uuids w its)
  case Nil
  then show ?case by (auto simp: add_items_def)
next
  case (Cons seg segs)
  let ?msg = "ge_tr env ''progress.sendingBatch'' [(''current'', nat_digits (i div sz + 1)),
                  (''total'', nat_digits ((n + sz - 1) div sz)), (''chunks'', nat_digits (length seg))]"
  let ?new = "add_items env g op i seg"
  let ?uuids = "\<lambda>ds. uuids @ filter (\<lambda>u. u \<noteq> []) (List.map_filter bi_episode_uuid ds)"
  have "\<exists>u w1. report_progress cb ?msg (of_nat (i + length seg) / of_nat n) w = (Inr u, w1) \<and>
      (\<exists>ds w2. add_one_segment env bid op cb (i div sz + 1) i ?new w1 = Some (Inr ds, w2) \<and>
         add_segments env g bid op cb sz n segs (i + length seg) (?uuids ds) w2 = Some (Inr us, w'))"
    using Cons.prems(1) by (simp only: add_segments.simps Let_def pbind_ok_iff option.inject)
  then obtain u w1 ds w2 where rp: "report_progress cb ?msg (of_nat (i + length seg) / of_nat n) w = (Inr u, w1)"
    and seg: "add_one_segment env bid op cb (i div sz + 1) i ?new w1 = Some (Inr ds, w2)"
    and rest: "add_segments env g bid op cb sz n segs (i + length seg) (?uuids ds) w2 = Some (Inr us, w')"
    by (elim exE conjE) (rule that)
  have w1: "content w1 = content w" using keepsD [OF report_progress_keeps [OF cb] rp] .
  have "?new \<noteq> []" using Cons.prems(4) length_add_items [of env g op i seg] by (metis length_0_conv list.set_intros(1))
  then have w2: "content w2 = (content w)(bid \<mapsto> (m, its @ ?new))"
    using add_one_segment_appends [OF service cb, of w1 bid m its ?new] seg Cons.prems(2,3) w1 by auto
  have "content w' = (content w2)(bid \<mapsto> (m, (its @ ?new) @ add_items env g op (i + length seg) (concat segs)))"
    by (rule Cons.IH [OF rest]) (use w2 Cons.prems in auto)
  with w2 show ?case by (simp add: add_items_append)
qed

section \<open>Creating the batch\<close>

definition for_operation :: "pystr \<Rightarrow> pystr \<Rightarrow> pydict \<Rightarrow> bool" where
  "for_operation graph_id operation_id m \<longleftrightarrow>
     dget m (lit ''robin-swarm_operation_id'') = Some (PyStr operation_id) \<and> dget m (lit ''graph_id'') = Some (PyStr graph_id)"

definition new_operation :: "batches \<Rightarrow> pystr \<Rightarrow> pystr \<Rightarrow> bool" where
  "new_operation C graph_id operation_id \<longleftrightarrow> (\<forall>bid m its. C bid = Some (m, its) \<longrightarrow> \<not> for_operation graph_id operation_id m)"

lemma batch_matches_for_operation: "batch_matches g op b = for_operation g op (or_nil (zb_metadata b))"
  by (simp add: batch_matches_def for_operation_def)

lemma batch_service_create:
  assumes "batch_service env content pos" "ge_batch_create env m w = (r, w')"
  shows "creates_batch content m w r w' \<or> (\<not> is_ok r \<and> content w' = content w)"
proof -
  have "\<forall>m w r w'. ge_batch_create env m w = (r, w') \<longrightarrow> creates_batch content m w r w' \<or> (\<not> is_ok r \<and> content w' = content w)"
    using assms(1) unfolding batch_service_def by (elim conjE)
  then show ?thesis using assms(2) by blast
qed

lemma batch_service_listed:
  assumes "batch_service env content pos" "ge_batch_list env n c w = (Inr p, w')"
    and "b \<in> set (or_nil (cp_items p))" "zb_id b = Some bid"
  shows "map_option fst (content w bid) = Some (or_nil (zb_metadata b))"
proof -
  have "\<forall>n c w p w' b bid. ge_batch_list env n c w = (Inr p, w') \<and> b \<in> set (or_nil (cp_items p)) \<and> zb_id b = Some bid \<longrightarrow>
        map_option fst (content w bid) = Some (or_nil (zb_metadata b))"
    using assms(1) unfolding batch_service_def by (elim conjE)
  then show ?thesis using assms(2-) by blast
qed

definition listed_for :: "batches \<Rightarrow> pystr \<Rightarrow> pystr \<Rightarrow> zep_batch \<Rightarrow> bool" where
  "listed_for C g op b \<longleftrightarrow> (\<forall>bid. zb_id b = Some bid \<longrightarrow> (\<exists>m its. C bid = Some (m, its) \<and> for_operation g op m))"

lemma find_batch_attempts_sound:
  assumes "batch_service env content pos"
  shows "find_batch_attempts env g op attempts w = Some (r, w') \<Longrightarrow>
    content w' = content w \<and> (\<forall>b. r = Inr (Some b) \<longrightarrow> listed_for (content w) g op b)"
proof (induction attempts arbitrary: w)
  case (Cons a as)
  obtain r1 w1 where pages: "cursor_pages (zep_read env) (ge_batch_list env 100) (runtime (lit ''Zep batch list cursor did not advance''))
              (batch_matches g op) None {} [] w = Some (r1, w1)"
    using Cons.prems by (auto simp: pbind_def split: option.splits)
  have "content w1 = content w \<and> (\<forall>xs. r1 = Inr xs \<longrightarrow> (\<forall>b \<in> set xs. listed_for (content w) g op b))"
  proof (rule cursor_pages_inv [where Q = "\<lambda>_ acc. \<forall>b \<in> set acc. listed_for (content w) g op b", OF _ _ _ pages])
    fix c acc w1 p w2
    assume call: "ge_batch_list env 100 c w1 = (Inr p, w2)" and w1: "content w1 = content w"
      and acc: "\<forall>b \<in> set acc. listed_for (content w) g op b"
    have "listed_for (content w) g op b" if "b \<in> set (or_nil (cp_items p))" "batch_matches g op b" for b
      using batch_service_listed [OF assms call that(1)] that(2) w1
      by (fastforce simp: listed_for_def batch_matches_for_operation)
    with acc show "case cp_next p of
        None \<Rightarrow> \<forall>b \<in> set (acc @ filter (batch_matches g op) (or_nil (cp_items p))). listed_for (content w) g op b
      | Some nc \<Rightarrow> \<forall>b \<in> set (acc @ filter (batch_matches g op) (or_nil (cp_items p))). listed_for (content w) g op b"
      by (auto split: option.splits)
  qed (use batch_service_reads [OF assms] in auto)
  with Cons.prems pages Cons.IH [of "if as = [] then w1 else ge_sleep env (of_nat a) w1"] batch_service_reads(1) [OF assms]
  show ?case by (cases r1) (auto split: if_splits list.splits)
qed auto

lemma operation_metadata_for_operation: "for_operation g op (operation_metadata op g n)"
  by (simp add: for_operation_def operation_metadata_def)

lemma create_batch_fresh:
  assumes service: "batch_service env content pos" and new: "new_operation (content w) g op"
    and run: "create_batch env g op n w = Some (Inr b, w')" and bid: "zb_id b = Some bid"
  shows "content w bid = None \<and> content w' = (content w)(bid \<mapsto> (operation_metadata op g n, []))"
proof -
  obtain r w1 where cr: "ge_batch_create env (operation_metadata op g n) w = (r, w1)"
    by (cases "ge_batch_create env (operation_metadata op g n) w")
  note out = batch_service_create [OF service cr]
  show ?thesis
  proof (cases r)
    case (Inr b')
    with run cr out bid show ?thesis by (auto simp: create_batch_def creates_batch_def)
  next
    case (Inl e)
    with run cr obtain found: "find_batch_attempts env g op [1, 2, 3] w1 = Some (Inr (Some b), w')"
      by (auto simp: create_batch_def pbind_ok_iff find_batch_by_operation_id_def split: if_splits option.splits)
    note fb = find_batch_attempts_sound [OF service found]
    then obtain m its where here: "content w1 bid = Some (m, its)" "for_operation g op m"
      using bid by (auto simp: listed_for_def)
    with new out have "creates_batch content (operation_metadata op g n) w r w1" by (metis new_operation_def)
    then obtain bid' where cb: "content w bid' = None" "content w1 = (content w)(bid' \<mapsto> (operation_metadata op g n, []))"
      unfolding creates_batch_def by blast
    have "bid = bid'"
    proof (rule ccontr)
      assume "bid \<noteq> bid'"
      then have "content w bid = Some (m, its)" using here cb by simp
      then show False using new here(2) unfolding new_operation_def by blast
    qed
    with cb fb show ?thesis by simp
  qed
qed

section \<open>Submissions\<close>

lemma notify_batch_keeps: "(\<forall>f. cb = Some f \<longrightarrow> (\<forall>b x. keeps content (f b x))) \<Longrightarrow> keeps content (notify_batch cb bid op)"
  by (cases cb) (auto simp: keeps_def notify_batch_def)

lemma process_batch_keeps: "batch_service env content pos \<Longrightarrow> keeps content (process_batch env bid)"
  unfolding keeps_def
proof
  fix w
  assume service: "batch_service env content pos"
  obtain r w1 where pr: "ge_batch_process env bid w = (r, w1)" by (cases "ge_batch_process env bid w")
  have w1: "content w1 = content w" using keepsD [OF batch_service_reads(4) [OF service] pr] .
  obtain r2 w2 where rd: "zep_read env (ge_batch_get env bid) w1 = (r2, w2)" by (cases "zep_read env (ge_batch_get env bid) w1")
  have "content w2 = content w1"
    using zep_read_keeps(1) [OF batch_service_reads(5) [OF service] batch_service_reads(1) [OF service] rd] .
  with pr w1 rd show "content (snd (process_batch env bid w)) = content w"
    by (cases r; cases r2) (auto simp: process_batch_def)
qed

lemma add_items_data:
  "map ai_data (add_items env g op i chunks) = chunks"
  "map ai_chunk_index (add_items env g op i chunks) = [i..<i + length chunks]"
  by (auto simp: add_items_def nth_enumerate_eq intro!: nth_equalityI)

lemma batch_submission_exact_lemma:
  assumes "batch_service env content pos"
    and "\<forall>f. cb = Some f \<longrightarrow> (\<forall>msg ratio. keeps content (f msg ratio))"
    and "\<forall>f. created = Some f \<longrightarrow> (\<forall>bid op. keeps content (f bid op))"
    and "new_operation (content w) g (build_operation_id env g chunks)"
    and "add_text_batches env g chunks k cb created w = Some (Inr sub, w')"
  shows "\<exists>m its. content w (sub_batch_id sub) = None \<and> content w' = (content w)(sub_batch_id sub \<mapsto> (m, its)) \<and>
    map ai_data its = chunks \<and> map ai_chunk_index its = [0..<length chunks] \<and>
    for_operation g (sub_operation_id sub) m \<and> sub_item_count sub = length chunks"
proof -
  let ?op = "build_operation_id env g chunks"
  from assms(5) have valid: "validate_batch_chunks chunks k = Inr ()" "0 < k"
    by (auto simp: add_text_batches_def validate_batch_chunks_def split: if_splits sum.splits list.splits)
  from assms(5) valid obtain u1 w1 where n1: "notify_batch created None ?op w = (Inr u1, w1)"
    and rest1: "pbind (create_batch env g ?op (length chunks) w1) (\<lambda>batch w.
              case or_str (zb_id batch) None of
                None \<Rightarrow> Some (Inl (runtime (lit ''Zep Batch API returned no batch_id'')), w)
              | Some batch_id \<Rightarrow>
                  pbind (Some (notify_batch created (Some batch_id) ?op w)) (\<lambda>_ w.
                  pbind (add_segments env g batch_id ?op cb (nat k) (length chunks)
                           (segments (nat k) chunks) 0 [] w) (\<lambda>uuids w.
                  pbind (Some (process_batch env batch_id w)) (\<lambda>_ w.
                    Some (Inr \<lparr>sub_batch_id = batch_id, sub_operation_id = ?op, sub_episode_uuids = uuids,
                               sub_item_count = length chunks\<rparr>, w))))) = Some (Inr sub, w')"
    by (auto simp: add_text_batches_def Let_def pbind_ok_iff split: if_splits)
  then obtain b w2 bid u2 w3 uuids w4 u3
    where cr: "create_batch env g ?op (length chunks) w1 = Some (Inr b, w2)" and bid: "or_str (zb_id b) None = Some bid"
      and n2: "notify_batch created (Some bid) ?op w2 = (Inr u2, w3)"
      and seg: "add_segments env g bid ?op cb (nat k) (length chunks) (segments (nat k) chunks) 0 [] w3 = Some (Inr uuids, w4)"
      and pr: "process_batch env bid w4 = (Inr u3, w')"
      and sub: "sub = \<lparr>sub_batch_id = bid, sub_operation_id = ?op, sub_episode_uuids = uuids, sub_item_count = length chunks\<rparr>"
    unfolding pbind_ok_iff by (auto simp: pbind_ok_iff split: option.splits)
  have w1: "content w1 = content w" using keepsD [OF notify_batch_keeps [OF assms(3)] n1] .
  have "zb_id b = Some bid" using bid by (auto simp: or_str_def split: option.splits if_splits)
  note fresh = create_batch_fresh [OF assms(1) _ cr this] 
  have w3: "content w bid = None" "content w3 = (content w)(bid \<mapsto> (operation_metadata ?op g (length chunks), []))"
    using fresh assms(4) w1 keepsD [OF notify_batch_keeps [OF assms(3)] n2] by auto
  have "content w4 = (content w3)(bid \<mapsto> (operation_metadata ?op g (length chunks), [] @ add_items env g ?op 0 (concat (segments (nat k) chunks))))"
    by (rule add_segments_appends [OF assms(1,2) seg]) (use w3 segments_nonempty in auto)
  moreover have "content w' = content w4" using keepsD [OF process_batch_keeps [OF assms(1)] pr] .
  ultimately have "content w' = (content w)(bid \<mapsto> (operation_metadata ?op g (length chunks), add_items env g ?op 0 chunks))"
    using w3 valid(2) by (simp add: concat_segments)
  then show ?thesis
    using w3(1) sub operation_metadata_for_operation add_items_data [of env g ?op 0 chunks]
    by (intro exI [of _ "operation_metadata ?op g (length chunks)"] exI [of _ "add_items env g ?op 0 chunks"]) simp
qed

text \<open>
  C20: Exactly once.  When \<^verbatim>\<open>add_text_batches\<close> returns, the service holds one new batch whose items
  are the chunks, each once and in order, and every other batch is as it was.  This holds although a
  reply to creating the batch, adding items or starting the processing may have been lost after the
  call had its effect, and although an acknowledgement may be short, provided that no earlier batch
  carries the same operation.
\<close>

theorem batch_submission_exact:
  assumes "batch_service env content pos"
    and "\<forall>f. cb = Some f \<longrightarrow> (\<forall>msg ratio. keeps content (f msg ratio))"
    and "\<forall>f. created = Some f \<longrightarrow> (\<forall>bid op. keeps content (f bid op))"
    and "new_operation (content w) g (build_operation_id env g chunks)"
    and "add_text_batches env g chunks k cb created w = Some (Inr sub, w')"
  shows "\<exists>m its. content w (sub_batch_id sub) = None \<and> content w' = (content w)(sub_batch_id sub \<mapsto> (m, its)) \<and>
    map ai_data its = chunks \<and> map ai_chunk_index its = [0..<length chunks] \<and>
    for_operation g (sub_operation_id sub) m \<and> sub_item_count sub = length chunks"
  by (rule batch_submission_exact_lemma [OF assms])

section \<open>Waiting\<close>

lemma zep_read_sound: "zep_read env act w = (Inr x, w') \<Longrightarrow> \<exists>w1. act w1 = (Inr x, w')"
  by (auto simp: zep_read_def call_zep_read_with_retry_def dest: zep_attempts_sound split: if_splits)

lemma poll_batch_sound:
  assumes "poll_batch env sub cb t0 timeout w = Some (Inr st, w')"
  shows "st \<in> set TERMINAL_STATES \<and> (\<exists>w1 b w2. ge_batch_get env (sub_batch_id sub) w1 = (Inr b, w2) \<and> zb_status b = Some st)"
proof -
  define P where "P = (\<lambda>(env :: 'a builder_env) (sub :: BatchSubmission) (cb :: 'a progress) (t0 :: rat) (timeout :: rat) (w :: 'a) (out :: pystr res \<times> 'a).
    \<forall>st. fst out = Inr st \<longrightarrow> st \<in> set TERMINAL_STATES \<and> (\<exists>w1 b w2. ge_batch_get env (sub_batch_id sub) w1 = (Inr b, w2) \<and> zb_status b = Some st))"
  have "P env sub cb t0 timeout w (Inr st, w')"
  proof (rule poll_batch.raw_induct [OF _ assms])
    fix f and env :: "'a builder_env" and sub :: BatchSubmission and cb :: "'a progress" and t0 timeout :: rat and w :: 'a and out
    assume IH: "\<And>env sub cb t0 timeout w out. f env sub cb t0 timeout w = Some out \<Longrightarrow> P env sub cb t0 timeout w out"
      and eq: "(let (now, w1) = ge_time env w in
          if timeout < now - t0
          then Some (Inl (Exn TimeoutErr (lit ''Zep batch '' @ sub_batch_id sub @ lit '' did not finish within '' @ int_str \<lfloor>timeout\<rfloor> @ lit ''s'')), w1)
          else case zep_read env (ge_batch_get env (sub_batch_id sub)) w1 of (Inl e, w2) \<Rightarrow> Some (Inl e, w2)
            | (Inr b, w2) \<Rightarrow>
                (case batch_progress env sub cb t0 b w2 of (Inl e, w3) \<Rightarrow> Some (Inl e, w3)
                 | (Inr u, w3) \<Rightarrow>
                     (case zb_status b of None \<Rightarrow> f env sub cb t0 timeout (ge_sleep env 3 w3)
                      | Some st \<Rightarrow> if st \<in> set TERMINAL_STATES then Some (Inr st, w3) else f env sub cb t0 timeout (ge_sleep env 3 w3)))) = Some out"
    show "P env sub cb t0 timeout w out"
      using eq IH [of env sub cb t0 timeout _ out] unfolding P_def
      by (auto simp: Let_def split: prod.splits sum.splits option.splits if_splits dest!: zep_read_sound) blast
  qed
  then show ?thesis by (simp add: P_def)
qed

definition delivered :: "batch_item \<Rightarrow> bool" where
  "delivered x \<longleftrightarrow> bi_status x = Some (lit ''succeeded'') \<and> (\<exists>u. u \<noteq> [] \<and> bi_episode_uuid x = Some u)"

lemma verify_items_sound:
  "verify_items sub xs uuids = Inr us \<Longrightarrow> (\<forall>x \<in> set xs. delivered x) \<and> us = uuids @ map (the \<circ> bi_episode_uuid) xs"
  by (induction sub xs uuids rule: verify_items.induct)
    (auto simp: delivered_def or_str_def split: option.splits if_splits)

lemma wait_for_batch_sound:
  assumes "wait_for_batch env sub cb timeout w = Some (Inr uuids, w')"
  shows "(\<exists>w1 b w2. ge_batch_get env (sub_batch_id sub) w1 = (Inr b, w2) \<and> zb_status b = Some (lit ''succeeded'')) \<and>
    (\<exists>w1 items w2. list_batch_items env (sub_batch_id sub) w1 = Some (Inr items, w2) \<and> length items = sub_item_count sub \<and>
       (\<forall>x \<in> set items. delivered x) \<and> uuids = map (the \<circ> bi_episode_uuid) (sort_key sequence_key items))"
proof -
  obtain t0 w0 where t0: "ge_time env w = (t0, w0)" by (cases "ge_time env w")
  from assms obtain q st w1 items w2 where poll: "poll_batch env sub cb t0 q w0 = Some (Inr st, w1)"
    and ls: "list_batch_items env (sub_batch_id sub) w1 = Some (Inr items, w2)"
    and ok: "st = lit ''succeeded''" "length items = sub_item_count sub"
    and ver: "verify_items sub (sort_key sequence_key items) [] = Inr uuids"
    unfolding wait_for_batch_def t0 Let_def pbind_ok_iff
    by (auto simp: pbind_ok_iff split: if_splits sum.splits)
  from poll_batch_sound [OF poll] ls ok verify_items_sound [OF ver] show ?thesis by auto
qed

end
