(* ===== verification/Graph_Build.thy ===== *)
theory Graph_Build
  imports Graph_Batches Graph_Lifecycle Text_Chunks
begin

text \<open>
  The graph construction job: the handler \<^verbatim>\<open>build_graph\<close> of \<^verbatim>\<open>app/api/graph.py\<close> with the background
  function \<^verbatim>\<open>build_task\<close> it starts, and the older worker \<^verbatim>\<open>_build_graph_worker\<close> of
  \<^verbatim>\<open>app/services/graph_builder.py\<close>.

  A response is a status code and a JSON body.  The background function runs on the handler's
  \<^verbatim>\<open>project\<close> object, the project store, the task registry and the cloud; what other threads do
  meanwhile is left to the cloud's world.  Ids in project documents are strings or null.
\<close>

section \<open>Responses\<close>

type_synonym response = "int \<times> pydict"

definition error_body :: "pystr \<Rightarrow> pydict" where
  "error_body msg = [(lit ''success'', PyBool False), (lit ''error'', PyStr msg)]"

definition fail_with :: "int \<Rightarrow> pystr \<Rightarrow> response" where
  "fail_with code msg = (code, error_body msg)"

definition data_body :: "pyval \<Rightarrow> pydict" where
  "data_body d = [(lit ''success'', PyBool True), (lit ''data'', d)]"

definition respond_data :: "pyval \<Rightarrow> response" where
  "respond_data d = (200, data_body d)"

definition with_traceback :: "(exn \<Rightarrow> pystr) \<Rightarrow> exn \<Rightarrow> response" where
  "with_traceback format_exc e = (500, error_body (exn_msg e) @ [(lit ''traceback'', PyStr (format_exc e))])"

section \<open>The state of a job\<close>

record build_local =
  bl_project :: Project
  bl_projects :: projects
  bl_tasks :: task_registry

text \<open>Cloud calls leave the local state alone.\<close>

definition lift_action :: "('w, 'a) action \<Rightarrow> ('l \<times> 'w, 'a) action" where
  "lift_action act = (\<lambda>(l, w). case act w of (r, w') \<Rightarrow> (r, (l, w')))"

definition lift_read :: "('w \<Rightarrow> 'a \<times> 'w) \<Rightarrow> 'l \<times> 'w \<Rightarrow> 'a \<times> ('l \<times> 'w)" where
  "lift_read f = (\<lambda>(l, w). case f w of (a, w') \<Rightarrow> (a, (l, w')))"

definition lift_env :: "'w builder_env \<Rightarrow> ('l \<times> 'w) builder_env" where
  "lift_env env =
     \<lparr>ge_float = ge_float env, ge_sleep = (\<lambda>d (l, w). (l, ge_sleep env d w)), ge_time = lift_read (ge_time env),
      ge_uuid_hex = lift_read (ge_uuid_hex env), ge_sha256 = ge_sha256 env, ge_tr = ge_tr env, ge_str = ge_str env,
      ge_order = ge_order env, ge_class = ge_class env,
      ge_graph_create = (\<lambda>g n d. lift_action (ge_graph_create env g n d)), ge_graph_get = (\<lambda>g. lift_action (ge_graph_get env g)),
      ge_graph_delete = (\<lambda>g. lift_action (ge_graph_delete env g)),
      ge_set_ontology = (\<lambda>g es ds. lift_action (ge_set_ontology env g es ds)),
      ge_batch_create = (\<lambda>m. lift_action (ge_batch_create env m)), ge_batch_list = (\<lambda>n c. lift_action (ge_batch_list env n c)),
      ge_batch_add = (\<lambda>b xs. lift_action (ge_batch_add env b xs)), ge_batch_items = (\<lambda>b n c. lift_action (ge_batch_items env b n c)),
      ge_batch_process = (\<lambda>b. lift_action (ge_batch_process env b)), ge_batch_get = (\<lambda>b. lift_action (ge_batch_get env b)),
      ge_episode_processed = (\<lambda>u. lift_action (ge_episode_processed env u)),
      ge_nodes = (\<lambda>g n c. lift_action (ge_nodes env g n c)), ge_edges = (\<lambda>g n c. lift_action (ge_edges env g n c))\<rparr>"

text \<open>
  The surroundings of a job: the service, the clock in microseconds with its rendering, the
  rendering of tracebacks and the configuration.
\<close>

record 'w job_env =
  je_builder :: "'w builder_env"
  je_clock :: "'w \<Rightarrow> int"
  je_iso :: "int \<Rightarrow> pystr"
  je_format_exc :: "exn \<Rightarrow> pystr"
  je_url :: "pystr option"
  je_key :: "pystr option"

abbreviation je_tr :: "'w job_env \<Rightarrow> string \<Rightarrow> (string \<times> pystr) list \<Rightarrow> pystr" where
  "je_tr env \<equiv> ge_tr (je_builder env)"

definition je_cloud :: "'w job_env \<Rightarrow> 'w cloud" where
  "je_cloud env = \<lparr>cl_url = je_url env, cl_key = je_key env, cl_delete = ge_graph_delete (je_builder env)\<rparr>"

definition task_note ::
  "'w job_env \<Rightarrow> pystr \<Rightarrow> TaskStatus option \<Rightarrow> int option \<Rightarrow> pystr option \<Rightarrow> pydict option \<Rightarrow> pystr option \<Rightarrow>
   build_local \<times> 'w \<Rightarrow> build_local \<times> 'w" where
  "task_note env tid st pr msg res err = (\<lambda>(l, w). (l\<lparr>bl_tasks := update_task (je_clock env w) tid st pr msg res err None (bl_tasks l)\<rparr>, w))"

definition save_local :: "'w job_env \<Rightarrow> (build_local \<times> 'w, unit) action" where
  "save_local env = (\<lambda>(l, w).
     case save_project (je_iso env (je_clock env w)) (bl_project l) (bl_projects l) of
       (r, p, fs) \<Rightarrow> (r, (l\<lparr>bl_project := p, bl_projects := fs\<rparr>, w)))"

definition set_project :: "(Project \<Rightarrow> Project) \<Rightarrow> build_local \<times> 'w \<Rightarrow> build_local \<times> 'w" where
  "set_project f = (\<lambda>(l, w). (l\<lparr>bl_project := f (bl_project l)\<rparr>, w))"

definition remember_graph :: "'w job_env \<Rightarrow> pystr \<Rightarrow> (build_local \<times> 'w, unit) action" where
  "remember_graph env graph_id s = save_local env (set_project (\<lambda>p. p\<lparr>pr_graph_id := PyStr graph_id\<rparr>) s)"

definition remember_batch :: "'w job_env \<Rightarrow> pystr option \<Rightarrow> pystr \<Rightarrow> (build_local \<times> 'w, unit) action" where
  "remember_batch env batch_id operation_id s =
     save_local env (set_project (\<lambda>p. p\<lparr>pr_zep_batch_id := str_or_none batch_id, pr_zep_batch_operation_id := PyStr operation_id\<rparr>) s)"

definition scaled_progress :: "'w job_env \<Rightarrow> pystr \<Rightarrow> int \<Rightarrow> rat \<Rightarrow> pystr \<Rightarrow> rat \<Rightarrow> (build_local \<times> 'w, unit) action" where
  "scaled_progress env tid base scale msg ratio s = (Inr (), task_note env tid None (Some (base + rat_trunc (ratio * scale))) (Some msg) None None s)"

section \<open>The background job\<close>

record build_job =
  bj_task_id :: pystr
  bj_project_id :: pystr
  bj_text :: pystr
  bj_chunk_size :: int
  bj_chunk_overlap :: int
  bj_ontology :: pydict
  bj_graph_name :: pystr
  bj_resume :: bool

definition str_value :: "pyval \<Rightarrow> pystr" where
  "str_value v = (case v of PyStr s \<Rightarrow> s | _ \<Rightarrow> [])"

text \<open>The identity of the batch to wait for, taken over from the project or submitted anew.\<close>

definition resumed_submission ::
  "'w job_env \<Rightarrow> build_job \<Rightarrow> pystr list \<Rightarrow> (build_local \<times> 'w, pystr \<times> BatchSubmission) action" where
  "resumed_submission env job chunks s =
     (let p = bl_project (fst s); graph_id = str_value (pr_graph_id p);
          operation_id = build_operation_id (je_builder env) graph_id chunks
      in if PyStr operation_id \<noteq> pr_zep_batch_operation_id p
         then (Inl (runtime (lit ''Persisted Zep batch does not match the current graph input'')), s)
         else (Inr (graph_id, \<lparr>sub_batch_id = str_value (pr_zep_batch_id p), sub_operation_id = operation_id,
                      sub_episode_uuids = [], sub_item_count = length chunks\<rparr>),
               task_note env (bj_task_id job) None (Some 55) (Some (je_tr env ''progress.waitingZepProcess'' [])) None None s))"

definition new_submission ::
  "'w job_env \<Rightarrow> build_job \<Rightarrow> pystr list \<Rightarrow> (build_local \<times> 'w, pystr \<times> BatchSubmission) proc" where
  "new_submission env job chunks s =
     (let tid = bj_task_id job; cloud = lift_env (je_builder env) in
      pbind (Some (create_graph cloud (bj_graph_name job) None (Some (remember_graph env))
               (task_note env tid None (Some 10) (Some (je_tr env ''progress.creatingZepGraph'' [])) None None s))) (\<lambda>graph_id s.
      pbind (Some (set_ontology cloud graph_id (bj_ontology job)
               (task_note env tid None (Some 15) (Some (je_tr env ''progress.settingOntology'' [])) None None s))) (\<lambda>_ s.
      pbind (add_text_batches cloud graph_id chunks 350 (Some (scaled_progress env tid 15 40)) (Some (remember_batch env))
               (task_note env tid None (Some 15) (Some (je_tr env ''progress.addingChunks'' [(''count'', nat_digits (length chunks))])) None None s))
        (\<lambda>submission s. Some (Inr (graph_id, submission), s)))))"

definition build_body :: "'w job_env \<Rightarrow> build_job \<Rightarrow> (build_local \<times> 'w, unit) proc" where
  "build_body env job s =
     (let tid = bj_task_id job; cloud = lift_env (je_builder env);
          s = task_note env tid (Some TASK_PROCESSING) None (Some (je_tr env ''progress.initGraphService'' [])) None None s
      in case new_graph_builder (je_cloud env) of
           Inl e \<Rightarrow> Some (Inl e, s)
         | Inr _ \<Rightarrow>
             (let s = task_note env tid None (Some 5) (Some (je_tr env ''progress.textChunking'' [])) None None s in
              case split_text (bj_text job) (bj_chunk_size job) (bj_chunk_overlap job) of
                None \<Rightarrow> None
              | Some chunks \<Rightarrow>
                  pbind (Some (validate_batch_chunks chunks 350, s)) (\<lambda>_ s.
                  pbind (if bj_resume job then Some (resumed_submission env job chunks s) else new_submission env job chunks s)
                    (\<lambda>(graph_id, submission) s.
                  pbind (wait_for_batch cloud submission (Some (scaled_progress env tid 55 35)) None
                           (task_note env tid None (Some 55) (Some (je_tr env ''progress.waitingZepProcess'' [])) None None s)) (\<lambda>_ s.
                  pbind (get_graph_data cloud graph_id
                           (task_note env tid None (Some 95) (Some (je_tr env ''progress.fetchingGraphData'' [])) None None s)) (\<lambda>graph_data s.
                  pbind (Some (save_local env (set_project (\<lambda>p. p\<lparr>pr_status := StatusEnum GRAPH_COMPLETED, pr_error := PyNone\<rparr>) s))) (\<lambda>_ s.
                    Some (Inr (),
                      task_note env tid (Some TASK_COMPLETED) (Some 100) (Some (je_tr env ''progress.graphBuildComplete'' []))
                        (Some [(lit ''project_id'', PyStr (bj_project_id job)), (lit ''graph_id'', PyStr graph_id),
                               (lit ''node_count'', dget_or graph_data (lit ''node_count'') (PyInt 0)),
                               (lit ''edge_count'', dget_or graph_data (lit ''edge_count'') (PyInt 0)),
                               (lit ''chunk_count'', PyInt (int (length chunks))), (lit ''zep_batch_id'', PyStr (sub_batch_id submission))])
                        None s))))))))"

text \<open>\<^verbatim>\<open>build_task\<close>; \<open>Inl\<close> is an exception of the error handler itself, which ends the thread.\<close>

definition build_task :: "'w job_env \<Rightarrow> build_job \<Rightarrow> (build_local \<times> 'w, unit) proc" where
  "build_task env job s =
     (case build_body env job s of
        None \<Rightarrow> None
      | Some (Inr _, s) \<Rightarrow> Some (Inr (), s)
      | Some (Inl e, s) \<Rightarrow>
          pbind (Some (save_local env (set_project (\<lambda>p. p\<lparr>pr_status := StatusEnum PROJECT_FAILED, pr_error := PyStr (exn_msg e)\<rparr>) s))) (\<lambda>_ s.
            Some (Inr (), task_note env (bj_task_id job) (Some TASK_FAILED) None
                    (Some (je_tr env ''progress.buildFailed'' [(''error'', exn_msg e)])) None (Some (je_format_exc env e)) s)))"

section \<open>The handler\<close>

definition int_value :: "pyval \<Rightarrow> int option" where
  "int_value v = (case v of PyInt i \<Rightarrow> Some i | PyBool b \<Rightarrow> Some (if b then 1 else 0) | _ \<Rightarrow> None)"

definition render_str :: "'w job_env \<Rightarrow> pyval \<Rightarrow> pystr" where
  "render_str env v = (case v of PyStr s \<Rightarrow> s | _ \<Rightarrow> ge_str (je_builder env) v)"

definition reused_build :: "pystr \<Rightarrow> Project \<Rightarrow> pystr \<Rightarrow> response" where
  "reused_build project_id p msg =
     respond_data (PyDict [(lit ''project_id'', PyStr project_id), (lit ''task_id'', pr_graph_build_task_id p),
       (lit ''graph_id'', pr_graph_id p), (lit ''reused'', PyBool True), (lit ''message'', PyStr msg)])"

definition lost_build_error :: pystr where
  "lost_build_error = lit ''Graph build task is no longer present; the persisted Zep batch cannot be resumed automatically''"

text \<open>
  What the handler makes of a project whose build is recorded as running: an early reply, or the
  project to go on with and whether its batch is resumed.
\<close>

definition recover_build ::
  "'w job_env \<Rightarrow> pystr \<Rightarrow> bool \<Rightarrow> Project \<Rightarrow> server \<Rightarrow> 'w \<Rightarrow> ((response + Project \<times> bool) res \<times> server \<times> 'w)" where
  "recover_build env project_id force p S w =
     (if pr_status p \<noteq> StatusEnum GRAPH_BUILDING then (Inr (Inr (p, False)), S, w)
      else if project_has_active_build (sv_tasks S) p
      then (Inr (Inl (reused_build project_id p (je_tr env ''api.graphBuilding'' []))), S, w)
      else
        (case (if \<not> force \<and> graph_ref p \<noteq> None \<and> truthy (pr_zep_batch_id p) \<and> truthy (pr_zep_batch_operation_id p)
               then (case new_graph_builder (je_cloud env) of
                       Inl e \<Rightarrow> (Inl e, w)
                     | Inr _ \<Rightarrow>
                         (case get_batch_summary (je_builder env) (str_value (pr_zep_batch_id p)) w of
                            (Inl e, w) \<Rightarrow> (Inl e, w)
                          | (Inr b, w) \<Rightarrow> (Inr (zb_status b \<in> set (map (Some \<circ> lit) [''queued'', ''processing'', ''succeeded''])), w)))
               else (Inr False, w)) of
           (Inl e, w) \<Rightarrow> (Inl e, S, w)
         | (Inr True, w) \<Rightarrow> (Inr (Inr (p, True)), S, w)
         | (Inr False, w) \<Rightarrow>
             (case save_project (je_iso env (je_clock env w)) (p\<lparr>pr_status := StatusEnum PROJECT_FAILED, pr_error := PyStr lost_build_error\<rparr>)
                     (sv_projects S) of
                (Inl e, _, fs) \<Rightarrow> (Inl e, S\<lparr>sv_projects := fs\<rparr>, w)
              | (Inr _, p, fs) \<Rightarrow>
                  (Inr (if force then Inr (p, False)
                        else Inl (409, error_body lost_build_error @ [(lit ''task_id'', pr_graph_build_task_id p), (lit ''recoverable'', PyBool True)])),
                   S\<lparr>sv_projects := fs\<rparr>, w))))"

definition bad_chunks :: "pyval \<Rightarrow> pyval \<Rightarrow> response option" where
  "bad_chunks chunk_size chunk_overlap =
     (case int_value chunk_size of
        None \<Rightarrow> Some (fail_with 400 (lit ''chunk_size must be a positive integer''))
      | Some n \<Rightarrow>
          if n \<le> 0 then Some (fail_with 400 (lit ''chunk_size must be a positive integer''))
          else (case int_value chunk_overlap of
                  Some k \<Rightarrow> if 0 \<le> k \<and> k < n then None
                            else Some (fail_with 400 (lit ''chunk_overlap must satisfy 0 <= chunk_overlap < chunk_size''))
                | None \<Rightarrow> Some (fail_with 400 (lit ''chunk_overlap must satisfy 0 <= chunk_overlap < chunk_size''))))"

text \<open>A failed or forcibly rebuilt project first gives up its old graph.\<close>

definition drop_old_graph ::
  "'w job_env \<Rightarrow> (pystr \<Rightarrow> bool) \<Rightarrow> bool \<Rightarrow> Project \<Rightarrow> server \<Rightarrow> 'w \<Rightarrow> Project res \<times> server \<times> 'w" where
  "drop_old_graph env busy force p S w =
     (if pr_status p = StatusEnum PROJECT_FAILED \<or> (force \<and> pr_status p = StatusEnum GRAPH_COMPLETED)
      then (case delete_cloud_graph_if_present (je_cloud env) busy (je_iso env (je_clock env w)) (graph_ref p) S w of
              (Inl e, S, w) \<Rightarrow> (Inl e, S, w)
            | (Inr _, S, w) \<Rightarrow>
                (case save_project (je_iso env (je_clock env w))
                        (clear_project_graph_reference (p\<lparr>pr_status := StatusEnum ONTOLOGY_GENERATED\<rparr>)) (sv_projects S) of
                   (Inl e, _, fs) \<Rightarrow> (Inl e, S\<lparr>sv_projects := fs\<rparr>, w)
                 | (Inr _, p, fs) \<Rightarrow> (Inr p, S\<lparr>sv_projects := fs\<rparr>, w)))
      else (Inr p, S, w))"

definition start_build ::
  "'w job_env \<Rightarrow> pystr \<Rightarrow> pystr \<Rightarrow> pyval \<Rightarrow> pystr \<Rightarrow> pydict \<Rightarrow> bool \<Rightarrow> Project \<Rightarrow> server \<Rightarrow> 'w \<Rightarrow>
   (response \<times> (build_job \<times> Project) option) res \<times> server \<times> 'w" where
  "start_build env uuid project_id graph_name contents ontology resume p S w =
     (case create_task uuid (je_clock env w) ([26500, 24314, 22270, 35889] @ lit '': '' @ render_str env graph_name) None (sv_tasks S) of
        (tid, tasks) \<Rightarrow>
          (case save_project (je_iso env (je_clock env w))
                  (p\<lparr>pr_status := StatusEnum GRAPH_BUILDING, pr_graph_build_task_id := PyStr tid\<rparr>) (sv_projects S) of
             (Inl e, _, fs) \<Rightarrow> (Inl e, S\<lparr>sv_tasks := tasks, sv_projects := fs\<rparr>, w)
           | (Inr _, p, fs) \<Rightarrow>
               (Inr (respond_data (PyDict [(lit ''project_id'', PyStr project_id), (lit ''task_id'', PyStr tid),
                       (lit ''resumed'', PyBool resume), (lit ''message'', PyStr (je_tr env ''api.graphBuildStarted'' [(''taskId'', tid)]))]),
                     Some (\<lparr>bj_task_id = tid, bj_project_id = project_id, bj_text = contents,
                            bj_chunk_size = the (int_value (pr_chunk_size p)), bj_chunk_overlap = the (int_value (pr_chunk_overlap p)),
                            bj_ontology = ontology, bj_graph_name = render_str env graph_name, bj_resume = resume\<rparr>, p)),
                S\<lparr>sv_tasks := tasks, sv_projects := fs\<rparr>, w)))"

definition build_checked ::
  "'w job_env \<Rightarrow> (pystr \<Rightarrow> bool) \<Rightarrow> pystr \<Rightarrow> pydict \<Rightarrow> pystr \<Rightarrow> bool \<Rightarrow> bool \<Rightarrow> Project \<Rightarrow> server \<Rightarrow> 'w \<Rightarrow>
   (response \<times> (build_job \<times> Project) option) res \<times> server \<times> 'w" where
  "build_checked env busy uuid data project_id force resume p S w =
     (let graph_name = dget_or data (lit ''graph_name'') (or_else (pr_name p) (PyStr (lit ''Robin Swarm Graph'')));
          chunk_size = dget_or data (lit ''chunk_size'') (or_else (pr_chunk_size p) (PyInt 500));
          chunk_overlap = dget_or data (lit ''chunk_overlap'') (or_else (pr_chunk_overlap p) (PyInt 50))
      in case bad_chunks chunk_size chunk_overlap of
           Some rep \<Rightarrow> (Inr (rep, None), S, w)
         | None \<Rightarrow>
             (let p = p\<lparr>pr_chunk_size := chunk_size, pr_chunk_overlap := chunk_overlap\<rparr> in
              case or_str (get_extracted_text (sv_projects S) project_id) None of
                None \<Rightarrow> (Inr (fail_with 400 (je_tr env ''api.textNotFound'' []), None), S, w)
              | Some contents \<Rightarrow>
                  if \<not> truthy (pr_ontology p) then (Inr (fail_with 400 (je_tr env ''api.ontologyNotFound'' []), None), S, w)
                  else
                    (case drop_old_graph env busy force p S w of
                       (Inl e, S, w) \<Rightarrow> (Inl e, S, w)
                     | (Inr p, S, w) \<Rightarrow>
                         start_build env uuid project_id graph_name contents (case pr_ontology p of PyDict d \<Rightarrow> d | _ \<Rightarrow> []) resume p S w)))"

text \<open>
  \<^verbatim>\<open>_build_graph_impl\<close>: the response, and the job to start with the \<^verbatim>\<open>project\<close> object it shares.
  \<open>uuid\<close> is the task's fresh id.
\<close>

definition build_graph_impl ::
  "'w job_env \<Rightarrow> (pystr \<Rightarrow> bool) \<Rightarrow> pystr \<Rightarrow> pydict \<Rightarrow> server \<Rightarrow> 'w \<Rightarrow>
   (response \<times> (build_job \<times> Project) option) \<times> server \<times> 'w" where
  "build_graph_impl env busy uuid data S w =
     (if or_str (je_key env) None = None
      then ((fail_with 500 (je_tr env ''api.configError'' [(''details'', je_tr env ''api.zepApiKeyMissing'' [])]), None), S, w)
      else
        (case (case dget_or data (lit ''project_id'') PyNone of
                 PyStr (c # cs) \<Rightarrow>
                   (case get_project (sv_projects S) (c # cs) of
                      Inl e \<Rightarrow> (Inl e, S, w)
                    | Inr None \<Rightarrow> (Inr (fail_with 404 (je_tr env ''api.projectNotFound'' [(''id'', c # cs)]), None), S, w)
                    | Inr (Some p) \<Rightarrow>
                        (case dget_or data (lit ''force'') (PyBool False) of
                           PyBool force \<Rightarrow>
                             if pr_status p = StatusEnum PROJECT_CREATED
                             then (Inr (fail_with 400 (je_tr env ''api.ontologyNotGenerated'' []), None), S, w)
                             else
                               (case recover_build env (c # cs) force p S w of
                                  (Inl e, S, w) \<Rightarrow> (Inl e, S, w)
                                | (Inr (Inl rep), S, w) \<Rightarrow> (Inr (rep, None), S, w)
                                | (Inr (Inr (p, resume)), S, w) \<Rightarrow>
                                    if pr_status p = StatusEnum GRAPH_COMPLETED \<and> \<not> force
                                    then (Inr (reused_build (c # cs) p (je_tr env ''progress.graphBuildComplete'' []), None), S, w)
                                    else build_checked env busy uuid data (c # cs) force resume p S w)
                         | _ \<Rightarrow> (Inr (fail_with 400 (lit ''force must be a JSON boolean''), None), S, w)))
               | v \<Rightarrow> if truthy v then (Inl TypeError, S, w)
                      else (Inr (fail_with 400 (je_tr env ''api.requireProjectId'' []), None), S, w)) of
           (Inr out, S, w) \<Rightarrow> (out, S, w)
         | (Inl e, S, w) \<Rightarrow>
             ((if exn_kind e = GraphInUseErr then fail_with 409 (exn_msg e) else with_traceback (je_format_exc env) e, None), S, w)))"

section \<open>The older worker\<close>

definition build_graph_async :: "'w job_env \<Rightarrow> pystr \<Rightarrow> pystr \<Rightarrow> int \<Rightarrow> pystr \<Rightarrow> build_local \<times> 'w \<Rightarrow> pystr \<times> (build_local \<times> 'w)" where
  "build_graph_async env uuid contents chunk_size graph_name = (\<lambda>(l, w).
     case create_task uuid (je_clock env w) (lit ''graph_build'')
            (Some [(lit ''graph_name'', PyStr graph_name), (lit ''chunk_size'', PyInt chunk_size), (lit ''text_length'', PyInt (int (length contents)))])
            (bl_tasks l) of
       (tid, tasks) \<Rightarrow> (tid, (l\<lparr>bl_tasks := tasks\<rparr>, w)))"

definition worker_body ::
  "'w job_env \<Rightarrow> pystr \<Rightarrow> pystr \<Rightarrow> pydict \<Rightarrow> pystr \<Rightarrow> int \<Rightarrow> int \<Rightarrow> int \<Rightarrow> (build_local \<times> 'w, unit) proc" where
  "worker_body env tid contents ontology graph_name chunk_size chunk_overlap batch_size s =
     (let cloud = lift_env (je_builder env); note = (\<lambda>pr msg. task_note env tid None (Some pr) (Some msg) None None);
          s = task_note env tid (Some TASK_PROCESSING) (Some 5) (Some (je_tr env ''progress.startBuildingGraph'' [])) None None s
      in case split_text contents chunk_size chunk_overlap of
           None \<Rightarrow> None
         | Some chunks \<Rightarrow>
             pbind (Some (validate_batch_chunks chunks batch_size, s)) (\<lambda>_ s.
             pbind (Some (create_graph cloud graph_name None None s)) (\<lambda>graph_id s.
             pbind (Some (set_ontology cloud graph_id ontology (note 10 (je_tr env ''progress.graphCreated'' [(''graphId'', graph_id)]) s))) (\<lambda>_ s.
             pbind (add_text_batches cloud graph_id chunks batch_size (Some (scaled_progress env tid 20 (2 / 5))) None
                      (note 20 (je_tr env ''progress.textSplit'' [(''count'', nat_digits (length chunks))])
                        (note 15 (je_tr env ''progress.ontologySet'' []) s))) (\<lambda>submission s.
             pbind (wait_for_batch cloud submission (Some (scaled_progress env tid 60 (3 / 10))) None
                      (note 60 (je_tr env ''progress.waitingZepProcess'' []) s)) (\<lambda>_ s.
             pbind (get_graph_info cloud graph_id (note 90 (je_tr env ''progress.fetchingGraphInfo'' []) s)) (\<lambda>graph_info (l, w).
               Some (Inr (), (l\<lparr>bl_tasks := complete_task (\<lambda>k. je_tr env ''progress.taskComplete'' []) (je_clock env w) tid
                                 [(lit ''graph_id'', PyStr graph_id), (lit ''graph_info'', PyDict (graph_info_dict graph_info)),
                                  (lit ''chunks_processed'', PyInt (int (length chunks)))] (bl_tasks l)\<rparr>, w)))))))))"

definition build_graph_worker ::
  "'w job_env \<Rightarrow> pystr \<Rightarrow> pystr \<Rightarrow> pydict \<Rightarrow> pystr \<Rightarrow> int \<Rightarrow> int \<Rightarrow> int \<Rightarrow> (build_local \<times> 'w, unit) proc" where
  "build_graph_worker env tid contents ontology graph_name chunk_size chunk_overlap batch_size s =
     (case worker_body env tid contents ontology graph_name chunk_size chunk_overlap batch_size s of
        None \<Rightarrow> None
      | Some (Inr _, s) \<Rightarrow> Some (Inr (), s)
      | Some (Inl e, (l, w)) \<Rightarrow>
          Some (Inr (), (l\<lparr>bl_tasks := fail_task (\<lambda>k. je_tr env ''progress.taskFailed'' []) (je_clock env w) tid
                           (exn_msg e @ [10] @ je_format_exc env e) (bl_tasks l)\<rparr>, w)))"

end
