(* ===== verification/Graph_Verdicts.thy ===== *)
theory Graph_Verdicts
  imports Graph_Build
begin

text \<open>
  What a finished graph construction job means: the project and the task get the same verdict, a
  project published as completed has exactly the chunks of its text on the service, and a running
  build is not started a second time.
\<close>

section \<open>Saving\<close>

lemma saved_project:
  assumes "save_project now p fs = (Inr u, p', fs')" "status_wf (pr_status p)"
  shows "p' = p\<lparr>pr_updated_at := PyStr now\<rparr> \<and> (\<exists>pid. pr_project_id p = PyStr pid \<and> get_project fs' pid = Inr (Some p'))"
proof -
  from assms(1) obtain pid d where pid: "pr_project_id p = PyStr pid" "dget fs pid = Some d"
    and p': "p' = p\<lparr>pr_updated_at := PyStr now\<rparr>" and fs': "fs' = dset fs pid (d\<lparr>pd_meta := Some (Json (PyDict (project_to_dict p')))\<rparr>)"
    by (auto simp: save_project_def Let_def split: pyval.splits option.splits)
  have "project_from_dict (PyDict (project_to_dict p')) = Inr p'"
    by (rule project_roundtrip) (use p' assms(2) in simp)
  then have "get_project fs' pid = Inr (Some p')" by (simp add: fs' get_project_def json_load_def)
  with pid p' show ?thesis by blast
qed

definition published_as :: "build_local \<Rightarrow> ProjectStatus \<Rightarrow> bool" where
  "published_as l st \<longleftrightarrow> pr_status (bl_project l) = StatusEnum st \<and>
     (\<exists>pid. pr_project_id (bl_project l) = PyStr pid \<and> get_project (bl_projects l) pid = Inr (Some (bl_project l)))"

lemma save_local_publishes:
  assumes "save_local env (set_project f (l, w)) = (Inr u, (l', w'))" "pr_status (f (bl_project l)) = StatusEnum st"
  shows "published_as l' st \<and> w' = w"
proof -
  from assms(1) obtain p fs where sv: "save_project (je_iso env (je_clock env w)) (f (bl_project l)) (bl_projects l) = (Inr u, p, fs)"
    and l': "l' = l\<lparr>bl_project := p, bl_projects := fs\<rparr>" "w' = w"
    by (auto simp: save_local_def set_project_def split: prod.splits)
  from saved_project [OF sv] assms(2) l' show ?thesis by (auto simp: published_as_def status_wf_def)
qed

lemma published_task_note: "published_as (fst (task_note env tid ts pr msg res err (l, w))) st = published_as l st"
  by (simp add: task_note_def published_as_def)

definition task_has :: "pystr \<Rightarrow> TaskStatus \<Rightarrow> task_registry \<Rightarrow> bool" where
  "task_has tid st tasks \<longleftrightarrow> (case get_task tasks tid of None \<Rightarrow> True | Some k \<Rightarrow> task_status k = st)"

lemma task_note_status: "task_has tid st (bl_tasks (fst (task_note env tid (Some st) pr msg res err s)))"
  by (cases s) (auto simp: task_has_def task_note_def get_task_def update_task_def apply_update_def assign_def split: option.splits)

text \<open>The steps of a build that succeeds.\<close>

abbreviation started :: "'w job_env \<Rightarrow> build_job \<Rightarrow> build_local \<times> 'w \<Rightarrow> build_local \<times> 'w" where
  "started env job s \<equiv> task_note env (bj_task_id job) None (Some 5) (Some (je_tr env ''progress.textChunking'' [])) None None
     (task_note env (bj_task_id job) (Some TASK_PROCESSING) None (Some (je_tr env ''progress.initGraphService'' [])) None None s)"

lemma build_body_ok:
  assumes "build_body env job s = Some (Inr u, s')"
  obtains chunks graph_id sub s1 uuids s2 graph_data s3 u3 s4 res
  where "split_text (bj_text job) (bj_chunk_size job) (bj_chunk_overlap job) = Some chunks"
    and "(if bj_resume job then Some (resumed_submission env job chunks (started env job s))
          else new_submission env job chunks (started env job s)) = Some (Inr (graph_id, sub), s1)"
    and "wait_for_batch (lift_env (je_builder env)) sub (Some (scaled_progress env (bj_task_id job) 55 35)) None
          (task_note env (bj_task_id job) None (Some 55) (Some (je_tr env ''progress.waitingZepProcess'' [])) None None s1) = Some (Inr uuids, s2)"
    and "get_graph_data (lift_env (je_builder env)) graph_id
          (task_note env (bj_task_id job) None (Some 95) (Some (je_tr env ''progress.fetchingGraphData'' [])) None None s2) = Some (Inr graph_data, s3)"
    and "save_local env (set_project (\<lambda>p. p\<lparr>pr_status := StatusEnum GRAPH_COMPLETED, pr_error := PyNone\<rparr>) s3) = (Inr u3, s4)"
    and "task_note env (bj_task_id job) (Some TASK_COMPLETED) (Some 100) (Some (je_tr env ''progress.graphBuildComplete'' [])) (Some res) None s4 = s'"
proof -
  obtain y chunks where nb: "new_graph_builder (je_cloud env) = Inr y"
    and sp: "split_text (bj_text job) (bj_chunk_size job) (bj_chunk_overlap job) = Some chunks"
    using assms by (auto simp: build_body_def Let_def split: sum.splits option.splits)
  show ?thesis
    using assms unfolding build_body_def Let_def nb sp sum.case option.case pbind_ok_iff case_prod_unfold option.inject prod.inject
    by (elim exE conjE) (rule that [OF sp]; simp only: prod.collapse)
qed

text \<open>
  C21: One verdict.  When \<^verbatim>\<open>build_task\<close> ends, the project on disk and the task agree: both completed, or
  both failed.
\<close>

theorem build_task_verdict:
  assumes "build_task env job (l, w) = Some (Inr u, (l', w'))"
  shows "published_as l' GRAPH_COMPLETED \<and> task_has (bj_task_id job) TASK_COMPLETED (bl_tasks l')
       \<or> published_as l' PROJECT_FAILED \<and> task_has (bj_task_id job) TASK_FAILED (bl_tasks l')"
proof -
  from assms obtain r l1 w1 where body: "build_body env job (l, w) = Some (r, (l1, w1))"
    by (auto simp: build_task_def split: option.splits)
  show ?thesis
  proof (cases r)
    case (Inr x)
    with body assms have end_: "l' = l1" "w' = w1" by (auto simp: build_task_def)
    obtain s3 u3 s4 res where
      sv: "save_local env (set_project (\<lambda>p. p\<lparr>pr_status := StatusEnum GRAPH_COMPLETED, pr_error := PyNone\<rparr>) s3) = (Inr u3, s4)"
      and nt: "task_note env (bj_task_id job) (Some TASK_COMPLETED) (Some 100) (Some (je_tr env ''progress.graphBuildComplete'' [])) (Some res) None s4 = (l1, w1)"
      by (rule build_body_ok [OF body [unfolded Inr]]) blast
    obtain l0 w0 l2 w2 where s: "s3 = (l0, w0)" "s4 = (l2, w2)" by (cases s3; cases s4)
    have "published_as l2 GRAPH_COMPLETED" using save_local_publishes [OF sv [unfolded s], of GRAPH_COMPLETED] by simp
    then have "published_as l1 GRAPH_COMPLETED" using nt published_task_note unfolding s by (metis fst_conv)
    moreover have "task_has (bj_task_id job) TASK_COMPLETED (bl_tasks l1)" using nt task_note_status by (metis fst_conv)
    ultimately show ?thesis using end_ by simp
  next
    case (Inl e)
    with body assms obtain l2 w2 u2 pr msg res err where
      sv: "save_local env (set_project (\<lambda>p. p\<lparr>pr_status := StatusEnum PROJECT_FAILED, pr_error := PyStr (exn_msg e)\<rparr>) (l1, w1)) = (Inr u2, (l2, w2))"
      and nt: "task_note env (bj_task_id job) (Some TASK_FAILED) pr msg res err (l2, w2) = (l', w')"
      by (auto simp: build_task_def pbind_ok_iff)
    have "published_as l2 PROJECT_FAILED" using save_local_publishes [OF sv, of PROJECT_FAILED] by simp
    then have "published_as l' PROJECT_FAILED" using nt published_task_note by (metis fst_conv)
    moreover have "task_has (bj_task_id job) TASK_FAILED (bl_tasks l')" using nt task_note_status by (metis fst_conv)
    ultimately show ?thesis by simp
  qed
qed

section \<open>Completed builds\<close>

lemma keeps_lift: "keeps content act \<Longrightarrow> keeps (\<lambda>s. content (snd s)) (lift_action act)"
  by (auto simp: keeps_def lift_action_def split_beta)

lemma creates_batch_lift: "creates_batch (\<lambda>s. content (snd s)) m s r s' = creates_batch content m (snd s) r (snd s')"
  by (simp add: creates_batch_def)

lemma batch_service_lift:
  assumes "batch_service env content pos"
  shows "batch_service (lift_env env) (\<lambda>s. content (snd s)) pos"
proof -
  have create: "creates_batch (\<lambda>s. content (snd s)) m s r s' \<or> (\<not> is_ok r \<and> content (snd s') = content (snd s))"
    if "ge_batch_create (lift_env env) m s = (r, s')" for m s r s'
    using that batch_service_create [OF assms, of m "snd s" r "snd s'"]
    by (cases s) (auto simp: lift_env_def lift_action_def creates_batch_lift split: prod.splits)
  have add: "appends_items (\<lambda>s. content (snd s)) b new s s' \<or>
      (content (snd s') = content (snd s) \<and> (\<forall>ds. r = Inr ds \<longrightarrow> length (or_nil ds) \<noteq> length new))"
    if "ge_batch_add (lift_env env) b new s = (r, s')" for b new s r s'
    using that batch_service_add [OF assms, of b new "snd s" r "snd s'"]
    by (cases s) (auto simp: lift_env_def lift_action_def appends_items_def split: prod.splits)
  have listed: "map_option fst (content (snd s) bid) = Some (or_nil (zb_metadata b))"
    if "ge_batch_list (lift_env env) n c s = (Inr p, s') \<and> b \<in> set (or_nil (cp_items p)) \<and> zb_id b = Some bid" for n c s p s' b bid
    using that batch_service_listed [OF assms, of n c "snd s" p "snd s'" b bid]
    by (cases s) (auto simp: lift_env_def lift_action_def split: prod.splits)
  have items: "case cp_next p of None \<Rightarrow> pos c + length (or_nil (cp_items p)) = length its
         | Some nc \<Rightarrow> pos (Some nc) = pos c + length (or_nil (cp_items p))"
    if "ge_batch_items (lift_env env) bid n c s = (Inr p, s') \<and> content (snd s) bid = Some (m, its)" for bid n c s p s' m its
    using that batch_service_items [OF assms, of bid n c "snd s" p "snd s'" m its]
    by (cases s) (auto simp: lift_env_def lift_action_def split: prod.splits)
  have pos: "pos None = 0" using assms by (simp add: batch_service_def)
  note reads = batch_service_reads [OF assms]
  have sleep: "content (snd (ge_sleep (lift_env env) d s)) = content (snd s)" for d and s :: "'b \<times> 'a"
    by (simp add: lift_env_def split_beta reads(1))
  have kept: "keeps (\<lambda>s :: 'b \<times> 'a. content (snd s)) (ge_batch_list (lift_env env) n c)"
    "keeps (\<lambda>s :: 'b \<times> 'a. content (snd s)) (ge_batch_items (lift_env env) b n c)"
    "keeps (\<lambda>s :: 'b \<times> 'a. content (snd s)) (ge_batch_process (lift_env env) b)"
    "keeps (\<lambda>s :: 'b \<times> 'a. content (snd s)) (ge_batch_get (lift_env env) b)" for n c b
    by (simp_all add: lift_env_def keeps_lift reads)
  show ?thesis
    unfolding batch_service_def
    by (intro conjI allI impI; (rule sleep | rule kept | rule pos | erule create | erule add | erule listed | erule items))
qed

text \<open>The calls of a build that are not about batches leave the batches alone.\<close>

definition quiet_graph :: "'w builder_env \<Rightarrow> ('w \<Rightarrow> batches) \<Rightarrow> bool" where
  "quiet_graph env content \<longleftrightarrow>
     (\<forall>w. content (snd (ge_time env w)) = content w) \<and> (\<forall>w. content (snd (ge_uuid_hex env w)) = content w) \<and>
     (\<forall>g n d. keeps content (ge_graph_create env g n d)) \<and> (\<forall>g. keeps content (ge_graph_get env g)) \<and>
     (\<forall>g es ds. keeps content (ge_set_ontology env g es ds)) \<and>
     (\<forall>g n c. keeps content (ge_nodes env g n c)) \<and> (\<forall>g n c. keeps content (ge_edges env g n c))"

definition fresh_graph_id :: "'w job_env \<Rightarrow> 'w \<Rightarrow> pystr" where
  "fresh_graph_id env w = lit ''robin-swarm_'' @ take 16 (fst (ge_uuid_hex (je_builder env) w))"

lemma quiet_graphD:
  assumes "quiet_graph env content"
  shows "content (snd (ge_time env w)) = content w" "content (snd (ge_uuid_hex env w)) = content w"
    and "keeps content (ge_graph_create env g n d)" "keeps content (ge_graph_get env g)"
    and "keeps content (ge_set_ontology env g es ds)" "keeps content (ge_nodes env g k c)" "keeps content (ge_edges env g k c)"
  using assms by (auto simp: quiet_graph_def)

lemma quiet_graph_lift: "quiet_graph env content \<Longrightarrow> quiet_graph (lift_env env) (\<lambda>s. content (snd s))"
  unfolding quiet_graph_def by (auto simp: lift_env_def lift_read_def split_beta intro: keeps_lift)

lemma reconcile_graph_keeps:
  assumes "quiet_graph env content" "\<And>d w. content (ge_sleep env d w) = content w"
  shows "reconcile_graph env g attempts w = (b, w') \<Longrightarrow> content w' = content w"
proof (induction attempts arbitrary: w)
  case (Cons a as)
  obtain r w1 where rd: "zep_read env (ge_graph_get env g) w = (r, w1)" by (cases "zep_read env (ge_graph_get env g) w")
  have "keeps content (ge_graph_get env g)" using assms(1) by (simp add: quiet_graph_def)
  from zep_read_keeps(1) [OF this assms(2) rd] Cons.prems rd Cons.IH [of "ge_sleep env (of_nat a + 1) w1"] assms(2)
  show ?case by (auto split: sum.splits if_splits)
qed simp

lemma create_graph_keeps:
  assumes quiet: "quiet_graph env content" and sleep: "\<And>d w. content (ge_sleep env d w) = content w"
    and cb: "\<forall>f. cb = Some f \<longrightarrow> (\<forall>g. keeps content (f g))"
    and run: "create_graph env name None cb w = (Inr graph_id, w')"
  shows "content w' = content w \<and> graph_id = lit ''robin-swarm_'' @ take 16 (fst (ge_uuid_hex env w))"
proof -
  let ?g = "lit ''robin-swarm_'' @ take 16 (fst (ge_uuid_hex env w))"
  obtain w1 where w1: "ge_uuid_hex env w = (fst (ge_uuid_hex env w), w1)" by (metis prod.collapse)
  have c1: "content w1 = content w" using quiet w1 unfolding quiet_graph_def by (metis snd_conv)
  obtain r2 w2 where w2: "(case cb of None \<Rightarrow> (Inr (), w1) | Some f \<Rightarrow> f ?g w1) = (r2, w2)" by (meson surj_pair)
  have c2: "content w2 = content w1" using w2 cb by (auto dest: keepsD split: option.splits)
  obtain r3 w3 where w3: "ge_graph_create env ?g name (lit ''Robin Swarm Social Simulation Graph'') w2 = (r3, w3)" by (meson surj_pair)
  have c3: "content w3 = content w2" using keepsD [OF quiet_graphD(3) [OF quiet] w3] .
  obtain b w4 where w4: "reconcile_graph env ?g [0, 1, 2] w3 = (b, w4)" by (meson surj_pair)
  have c4: "content w4 = content w3" using reconcile_graph_keeps [OF quiet sleep w4] .
  show ?thesis
    using run w2 w3 w4 c1 c2 c3 c4
    by (subst (asm) create_graph_def, subst (asm) w1) (auto simp: or_str_def split: sum.splits if_splits option.splits)
qed

lemma set_ontology_keeps:
  assumes "quiet_graph env content" "set_ontology env g ontology w = (r, w')"
  shows "content w' = content w"
  using assms(2) keepsD [OF quiet_graphD(5) [OF assms(1)]]
  by (auto simp: set_ontology_def split: sum.splits if_splits)

lemma list_batch_items_keeps:
  assumes "batch_service env content pos" "list_batch_items env bid w = Some (r, w')"
  shows "content w' = content w"
proof -
  have "content w' = content w \<and> (\<forall>xs. r = Inr xs \<longrightarrow> True)"
    by (rule cursor_pages_inv [where Q = "\<lambda>_ _. True", OF _ _ _ assms(2) [unfolded list_batch_items_def]])
      (auto simp: batch_service_reads [OF assms(1)] split: option.splits)
  then show ?thesis by simp
qed

lemma batch_progress_keeps:
  assumes "\<And>w. content (snd (ge_time env w)) = content w" "\<forall>f. cb = Some f \<longrightarrow> (\<forall>m q. keeps content (f m q))"
    and "batch_progress env sub cb t0 b w = (r, w')"
  shows "content w' = content w"
proof (cases cb)
  case (Some f)
  obtain t1 w1 where t: "ge_time env w = (t1, w1)" by (meson surj_pair)
  then have "content w1 = content w" using assms(1) [of w] by simp
  with Some t assms(3) keepsD [OF report_progress_keeps [OF assms(2)]] show ?thesis
    by (auto simp: batch_progress_def Let_def)
qed (use assms(3) in \<open>simp add: batch_progress_def\<close>)

lemma poll_batch_keeps:
  assumes service: "batch_service env content pos" and time: "\<And>w. content (snd (ge_time env w)) = content w"
    and cb: "\<forall>f. cb = Some f \<longrightarrow> (\<forall>m q. keeps content (f m q))"
    and run: "poll_batch env sub cb t0 timeout w = Some (r, w')"
  shows "content w' = content w"
proof -
  define P where "P = (\<lambda>(e :: 'a builder_env) (sb :: BatchSubmission) (c :: 'a progress) (t0 :: rat) (timeout :: rat) (w :: 'a) (out :: pystr res \<times> 'a).
    e = env \<and> sb = sub \<and> c = cb \<longrightarrow> content (snd out) = content w)"
  have "P env sub cb t0 timeout w (r, w')"
  proof (rule poll_batch.raw_induct [OF _ run])
    fix f and e :: "'a builder_env" and sb :: BatchSubmission and c :: "'a progress" and t0 timeout :: rat and w :: 'a and out
    assume IH: "\<And>e sb c t0 timeout w out. f e sb c t0 timeout w = Some out \<Longrightarrow> P e sb c t0 timeout w out"
      and eq: "(let (now, w1) = ge_time e w in
          if timeout < now - t0
          then Some (Inl (Exn TimeoutErr (lit ''Zep batch '' @ sub_batch_id sb @ lit '' did not finish within '' @ int_str \<lfloor>timeout\<rfloor> @ lit ''s'')), w1)
          else case zep_read e (ge_batch_get e (sub_batch_id sb)) w1 of (Inl e, w2) \<Rightarrow> Some (Inl e, w2)
            | (Inr b, w2) \<Rightarrow>
                (case batch_progress e sb c t0 b w2 of (Inl e, w3) \<Rightarrow> Some (Inl e, w3)
                 | (Inr u, w3) \<Rightarrow>
                     (case zb_status b of None \<Rightarrow> f e sb c t0 timeout (ge_sleep e 3 w3)
                      | Some st \<Rightarrow> if st \<in> set TERMINAL_STATES then Some (Inr st, w3) else f e sb c t0 timeout (ge_sleep e 3 w3)))) = Some out"
    show "P e sb c t0 timeout w out"
      unfolding P_def
    proof (intro impI, elim conjE)
      assume h: "e = env" "sb = sub" "c = cb"
      obtain t1 w1 where t1: "ge_time env w = (t1, w1)" by (meson surj_pair)
      obtain r2 w2 where r2: "zep_read env (ge_batch_get env (sub_batch_id sub)) w1 = (r2, w2)" by (meson surj_pair)
      have c2: "content w2 = content w"
        using zep_read_keeps(1) [OF batch_service_reads(5,1) [OF service] r2] time [of w] t1 batch_service_reads(1) [OF service] by simp
      have c1: "content w1 = content w" using time [of w] t1 by simp
      have again: "content (snd out) = content w" if "f env sub cb t0 timeout (ge_sleep env 3 w3) = Some out" "content w3 = content w2" for w3
        using IH [OF that(1)] that(2) c2 batch_service_reads(1) [OF service] by (simp add: P_def)
      show "content (snd out) = content w"
      proof (cases r2)
        case (Inr b)
        obtain r3 w3 where r3: "batch_progress env sub cb t0 b w2 = (r3, w3)" by (meson surj_pair)
        have "content w3 = content w2" using batch_progress_keeps [OF time cb r3] .
        with eq h t1 r2 r3 Inr c1 c2 again show ?thesis
          by (auto split: sum.splits option.splits if_splits)
      qed (use eq h t1 r2 c1 c2 in \<open>auto split: if_splits\<close>)
    qed
  qed
  then show ?thesis by (simp add: P_def)
qed

lemma wait_for_batch_keeps:
  assumes service: "batch_service env content pos" and time: "\<And>w. content (snd (ge_time env w)) = content w"
    and cb: "\<forall>f. cb = Some f \<longrightarrow> (\<forall>m q. keeps content (f m q))"
    and run: "wait_for_batch env sub cb timeout w = Some (Inr uuids, w')"
  shows "content w' = content w"
proof -
  obtain t0 w0 where t0: "ge_time env w = (t0, w0)" by (cases "ge_time env w")
  from run obtain q st w1 items w2 msg u where poll: "poll_batch env sub cb t0 q w0 = Some (Inr st, w1)"
    and ls: "list_batch_items env (sub_batch_id sub) w1 = Some (Inr items, w2)"
    and rp: "report_progress cb msg 1 w2 = (Inr u, w')"
    unfolding wait_for_batch_def t0 Let_def pbind_ok_iff
    by (auto simp: pbind_ok_iff split: if_splits sum.splits)
  show ?thesis
    using poll_batch_keeps [OF service time cb poll] list_batch_items_keeps [OF service ls]
      keepsD [OF report_progress_keeps [OF cb] rp] time [of w] t0 by simp
qed

lemma fetch_pages_keeps:
  assumes call: "\<And>c. keeps content (call n c)" and read: "\<And>act w r w'. keeps content act \<Longrightarrow> rd act w = (r, w') \<Longrightarrow> content w' = content w"
    and run: "fetch_pages rd call stuck n m cur seen acc w = Some (r, w')"
  shows "content w' = content w"
proof -
  have "rd = rd \<and> call = call \<and> n = n \<longrightarrow> content (snd (r, w')) = content w"
  proof (rule fetch_pages.raw_induct [where P = "\<lambda>rd' call' _ n' _ _ _ _ w out. rd' = rd \<and> call' = call \<and> n' = n \<longrightarrow> content (snd out) = content w", OF _ run])
    fix f rd' call' stuck n' m cur seen acc w out
    assume IH: "\<And>rd' call' stuck n' m cur seen acc w out. f rd' call' stuck n' m cur seen acc w = Some out \<Longrightarrow>
         rd' = rd \<and> call' = call \<and> n' = n \<longrightarrow> content (snd out) = content w"
      and eq: "(case rd' (call' n' cur) w of (Inl e, w') \<Rightarrow> Some (Inl e, w')
        | (Inr response, w') \<Rightarrow>
            let items = acc @ page_items response in
            if case m of None \<Rightarrow> False | Some m \<Rightarrow> m \<le> length items then Some (Inr (case m of None \<Rightarrow> items | Some m \<Rightarrow> take m items), w')
            else case next_cursor response of None \<Rightarrow> Some (Inr items, w')
              | Some nc \<Rightarrow> if nc \<in> seen \<or> Some nc = cur then Some (Inl stuck, w') else f rd' call' stuck n' m (Some nc) (insert nc seen) items w') = Some out"
    show "rd' = rd \<and> call' = call \<and> n' = n \<longrightarrow> content (snd out) = content w"
    proof (intro impI, elim conjE)
      assume h: "rd' = rd" "call' = call" "n' = n"
      obtain r1 w1 where r1: "rd (call n cur) w = (r1, w1)" by (meson surj_pair)
      have "content w1 = content w" using read [OF call r1] .
      then show "content (snd out) = content w"
        using eq h r1 IH by (auto simp: Let_def split: sum.splits if_splits option.splits)
    qed
  qed
  then show ?thesis by simp
qed

lemma fetch_page_keeps:
  assumes "\<And>d w. content (sleep d w) = content w" "keeps content act" "fetch_page_with_retry fl sleep k q act w = (r, w')"
  shows "content w' = content w"
  using zep_attempts_keeps [where content = content and act = act and sleep = sleep, OF assms(2,1)] assms(3)
  by (auto simp: fetch_page_with_retry_def call_zep_read_with_retry_def split: if_splits)

lemma get_graph_data_keeps:
  assumes quiet: "quiet_graph env content" and sleep: "\<And>d w. content (ge_sleep env d w) = content w"
    and run: "get_graph_data env g w = Some (Inr d, w')"
  shows "content w' = content w"
proof -
  from run obtain nodes w1 edges where n: "fetch_all_nodes (ge_float env) (ge_sleep env) (ge_nodes env) g 100 None 3 2 w = Some (Inr nodes, w1)"
    and e: "fetch_all_edges (ge_float env) (ge_sleep env) (ge_edges env) g 100 3 2 None w1 = Some (Inr edges, w')"
    by (auto simp: get_graph_data_def pbind_ok_iff)
  have "content w1 = content w"
    by (rule fetch_pages_keeps [where content = content and rd = "fetch_page_with_retry (ge_float env) (ge_sleep env) 3 2"
        and call = "ge_nodes env g", OF quiet_graphD(6) [OF quiet]])
      (use n fetch_page_keeps [where content = content and sleep = "ge_sleep env"] sleep in \<open>auto simp: fetch_all_nodes_def fetch_all_def\<close>)
  moreover have "content w' = content w1"
    by (rule fetch_pages_keeps [where content = content and rd = "fetch_page_with_retry (ge_float env) (ge_sleep env) 3 2"
        and call = "ge_edges env g", OF quiet_graphD(7) [OF quiet]])
      (use e fetch_page_keeps [where content = content and sleep = "ge_sleep env"] sleep in \<open>auto simp: fetch_all_edges_def fetch_all_def\<close>)
  ultimately show ?thesis by simp
qed

lemma local_callbacks_keep:
  "keeps (\<lambda>s. content (snd s)) (remember_graph env g)" "keeps (\<lambda>s. content (snd s)) (remember_batch env b op)"
  "keeps (\<lambda>s. content (snd s)) (scaled_progress env tid base scale msg ratio)"
  "snd (task_note env tid st pr m res err s) = snd s" "save_local env s = (r, s') \<Longrightarrow> snd s' = snd s" "snd (set_project f s) = snd s"
  by (cases s; auto simp: keeps_def remember_graph_def remember_batch_def scaled_progress_def save_local_def set_project_def task_note_def
      split: prod.splits)+

lemma new_submission_exact:
  assumes service: "batch_service (je_builder env) content pos" and quiet: "quiet_graph (je_builder env) content"
    and new: "\<And>op. new_operation (content (snd s)) (fresh_graph_id env (snd s)) op"
    and run: "new_submission env job chunks s = Some (Inr (graph_id, sub), s')"
  shows "graph_id = fresh_graph_id env (snd s) \<and>
    (\<exists>m its. content (snd s') = (content (snd s))(sub_batch_id sub \<mapsto> (m, its)) \<and> map ai_data its = chunks \<and>
       for_operation graph_id (sub_operation_id sub) m \<and> sub_item_count sub = length chunks)"
proof -
  let ?c = "\<lambda>s :: build_local \<times> 'a. content (snd s)" and ?e = "lift_env (je_builder env) :: (build_local \<times> 'a) builder_env"
  have service': "batch_service ?e ?c pos" using batch_service_lift [OF service] .
  have quiet': "quiet_graph ?e ?c" using quiet_graph_lift [OF quiet] .
  note sleep = batch_service_reads(1) [OF service']
  from run obtain g s1 s2 u s3 msg1 msg2 msg3 where
    cr: "create_graph ?e (bj_graph_name job) None (Some (remember_graph env)) (task_note env (bj_task_id job) None (Some 10) msg1 None None s) = (Inr g, s1)"
    and on: "set_ontology ?e g (bj_ontology job) (task_note env (bj_task_id job) None (Some 15) msg2 None None s1) = (Inr u, s2)"
    and add: "add_text_batches ?e g chunks 350 (Some (scaled_progress env (bj_task_id job) 15 40)) (Some (remember_batch env))
        (task_note env (bj_task_id job) None (Some 15) msg3 None None s2) = Some (Inr sub, s')"
    and g: "graph_id = g"
    by (auto simp: new_submission_def Let_def pbind_ok_iff)
  have c1: "?c s1 = ?c s" "g = lit ''robin-swarm_'' @ take 16 (fst (ge_uuid_hex ?e (task_note env (bj_task_id job) None (Some 10) msg1 None None s)))"
    using create_graph_keeps [OF quiet' sleep _ cr] by (auto simp: local_callbacks_keep)
  then have gid: "g = fresh_graph_id env (snd s)"
    by (simp add: fresh_graph_id_def lift_env_def lift_read_def split_beta local_callbacks_keep)
  have c2: "?c s2 = ?c s" using set_ontology_keeps [OF quiet' on] c1 by (simp add: local_callbacks_keep)
  show ?thesis
    using batch_submission_exact_lemma [OF service' _ _ _ add] new [of "build_operation_id ?e g chunks"] c2 g gid
    by (auto simp: local_callbacks_keep)
qed

text \<open>
  C19: Completed means delivered.  A new build whose project is published as completed has chunked the
  text, and the service holds one new batch with exactly these chunks in order, under the project's
  fresh graph; the service has listed every one of its items as processed.
\<close>

theorem build_completed_delivers:
  assumes service: "batch_service (je_builder env) content pos" and quiet: "quiet_graph (je_builder env) content"
    and job: "\<not> bj_resume job" and new: "\<forall>op. new_operation (content w) (fresh_graph_id env w) op"
    and run: "build_task env job (l, w) = Some (Inr u, (l', w'))" and fin: "pr_status (bl_project l') = StatusEnum GRAPH_COMPLETED"
  shows "\<exists>chunks bid op m its. split_text (bj_text job) (bj_chunk_size job) (bj_chunk_overlap job) = Some chunks \<and>
    content w' = (content w)(bid \<mapsto> (m, its)) \<and> map ai_data its = chunks \<and> for_operation (fresh_graph_id env w) op m \<and>
    (\<exists>s1 items s2. list_batch_items (lift_env (je_builder env) :: (build_local \<times> 'a) builder_env) bid s1 = Some (Inr items, s2) \<and>
       length items = length chunks \<and> list_all delivered items)"
proof -
  let ?c = "\<lambda>s :: build_local \<times> 'a. content (snd s)" and ?e = "lift_env (je_builder env) :: (build_local \<times> 'a) builder_env"
  have service': "batch_service ?e ?c pos" using batch_service_lift [OF service] .
  have quiet': "quiet_graph ?e ?c" using quiet_graph_lift [OF quiet] .
  have body: "\<exists>u. build_body env job (l, w) = Some (Inr u, (l', w'))"
  proof -
    obtain r s1 where b: "build_body env job (l, w) = Some (r, s1)"
      using run by (auto simp: build_task_def split: option.splits)
    show ?thesis
    proof (cases r)
      case (Inl e)
      with run b obtain l2 w2 u2 pr msg res err l1 w1 where
        sv: "save_local env (set_project (\<lambda>p. p\<lparr>pr_status := StatusEnum PROJECT_FAILED, pr_error := PyStr (exn_msg e)\<rparr>) (l1, w1)) = (Inr u2, (l2, w2))"
        and nt: "task_note env (bj_task_id job) (Some TASK_FAILED) pr msg res err (l2, w2) = (l', w')"
        by (cases s1) (auto simp: build_task_def pbind_ok_iff)
      have "published_as l2 PROJECT_FAILED" using save_local_publishes [OF sv, of PROJECT_FAILED] by simp
      then have "published_as l' PROJECT_FAILED" using nt published_task_note by (metis fst_conv)
      with fin show ?thesis by (simp add: published_as_def)
    qed (use run b in \<open>auto simp: build_task_def\<close>)
  qed
  then obtain u' where body: "build_body env job (l, w) = Some (Inr u', (l', w'))" by blast
  show ?thesis
  proof (rule build_body_ok [OF body])
    fix chunks graph_id sub s1 uuids s2 graph_data s3 u3 s4 res
    assume sp: "split_text (bj_text job) (bj_chunk_size job) (bj_chunk_overlap job) = Some chunks"
      and sub: "(if bj_resume job then Some (resumed_submission env job chunks (started env job (l, w)))
          else new_submission env job chunks (started env job (l, w))) = Some (Inr (graph_id, sub), s1)"
      and wait: "wait_for_batch ?e sub (Some (scaled_progress env (bj_task_id job) 55 35)) None
          (task_note env (bj_task_id job) None (Some 55) (Some (je_tr env ''progress.waitingZepProcess'' [])) None None s1) = Some (Inr uuids, s2)"
      and get: "get_graph_data ?e graph_id
          (task_note env (bj_task_id job) None (Some 95) (Some (je_tr env ''progress.fetchingGraphData'' [])) None None s2) = Some (Inr graph_data, s3)"
      and sv: "save_local env (set_project (\<lambda>p. p\<lparr>pr_status := StatusEnum GRAPH_COMPLETED, pr_error := PyNone\<rparr>) s3) = (Inr u3, s4)"
      and nt: "task_note env (bj_task_id job) (Some TASK_COMPLETED) (Some 100) (Some (je_tr env ''progress.graphBuildComplete'' [])) (Some res) None s4 = (l', w')"
    have sub': "new_submission env job chunks (started env job (l, w)) = Some (Inr (graph_id, sub), s1)" using sub job by simp
    have w0: "snd (started env job (l, w)) = w" by (simp add: local_callbacks_keep)
    obtain m its where its: "?c s1 = (content w)(sub_batch_id sub \<mapsto> (m, its))" "map ai_data its = chunks"
      "for_operation (fresh_graph_id env w) (sub_operation_id sub) m" "sub_item_count sub = length chunks"
      using new_submission_exact [OF service quiet _ sub', unfolded w0] new by blast
    have "?c s2 = ?c s1"
      using wait_for_batch_keeps [OF service' quiet_graphD(1) [OF quiet'] _ wait] by (auto simp: local_callbacks_keep)
    moreover have "?c s3 = ?c s2"
      using get_graph_data_keeps [OF quiet' batch_service_reads(1) [OF service'] get] by (simp add: local_callbacks_keep)
    moreover have "content w' = ?c s3"
      using nt local_callbacks_keep(5) [OF sv] by (metis local_callbacks_keep(4,6) snd_conv)
    ultimately have "content w' = (content w)(sub_batch_id sub \<mapsto> (m, its))" using its(1) by simp
    with sp its wait_for_batch_sound [OF wait] show ?thesis unfolding list_all_iff by metis
  qed
qed

section \<open>A build is not started twice\<close>

lemma project_has_active_build_new:
  "tid \<noteq> [] \<Longrightarrow> project_has_active_build (snd (create_task tid now ty md ts))
     (p\<lparr>pr_status := StatusEnum GRAPH_BUILDING, pr_graph_build_task_id := PyStr tid, pr_updated_at := u\<rparr>)"
  by (simp add: project_has_active_build_def create_task_def get_task_def)

lemma start_build_claims:
  assumes "start_build env uuid pid name contents ontology resume p S w = (Inr (rep, Some (job, p')), S', w')" "uuid \<noteq> []"
    and "pr_project_id p = PyStr pid"
  shows "get_project (sv_projects S') pid = Inr (Some p') \<and> pr_status p' = StatusEnum GRAPH_BUILDING \<and>
    project_has_active_build (sv_tasks S') p' \<and> pr_graph_build_task_id p' = PyStr (bj_task_id job)"
proof -
  let ?p = "p\<lparr>pr_status := StatusEnum GRAPH_BUILDING, pr_graph_build_task_id := PyStr uuid\<rparr>"
  obtain tasks where t: "create_task uuid (je_clock env w) ([26500, 24314, 22270, 35889] @ lit '': '' @ render_str env name) None (sv_tasks S) = (uuid, tasks)"
    by (simp add: create_task_def)
  from assms(1) t obtain u fs where sv: "save_project (je_iso env (je_clock env w)) ?p (sv_projects S) = (Inr u, p', fs)"
    and S': "S' = S\<lparr>sv_tasks := tasks, sv_projects := fs\<rparr>" and job: "bj_task_id job = uuid"
    by (auto simp: start_build_def split: prod.splits sum.splits)
  from saved_project [OF sv] have p': "p' = ?p\<lparr>pr_updated_at := PyStr (je_iso env (je_clock env w))\<rparr>" "get_project fs pid = Inr (Some p')"
    using assms(3) by (auto simp: status_wf_def)
  have "project_has_active_build tasks p'"
    using project_has_active_build_new [where now = "je_clock env w" and md = None and ts = "sv_tasks S" and p = p, OF assms(2)] t unfolding p'(1) by (metis snd_conv)
  with p' S' job show ?thesis by simp
qed

definition asks_for :: "pydict \<Rightarrow> pystr \<Rightarrow> bool" where
  "asks_for data pid \<longleftrightarrow> dget_or data (lit ''project_id'') PyNone = PyStr pid \<and> (\<exists>b. dget_or data (lit ''force'') (PyBool False) = PyBool b)"

lemma active_build_reused:
  assumes "or_str (je_key env) None \<noteq> None" "asks_for data pid" "pid \<noteq> []" "get_project (sv_projects S) pid = Inr (Some p)"
    and "pr_status p = StatusEnum GRAPH_BUILDING" "project_has_active_build (sv_tasks S) p"
  shows "build_graph_impl env busy uuid data S w = ((reused_build pid p (je_tr env ''api.graphBuilding'' []), None), S, w)"
  using assms by (cases pid) (auto simp: build_graph_impl_def asks_for_def recover_build_def)

text \<open>
  C22: One build at a time.  When a request has started a build, every further request for the same
  project that finds the task still pending starts nothing, changes nothing and answers with the
  running build, forced or not.
\<close>

theorem build_not_started_twice:
  assumes "build_graph_impl env busy uuid data S w = ((rep, Some (job, p)), S', w')" "uuid \<noteq> []"
    and "asks_for data pid" "asks_for data' pid" "pr_project_id p = PyStr pid"
  shows "build_graph_impl env busy' uuid' data' S' w'' = ((reused_build pid p (je_tr env ''api.graphBuilding'' []), None), S', w'')
    \<and> pr_graph_build_task_id p = PyStr (bj_task_id job)"
proof -
  have key: "or_str (je_key env) None \<noteq> None" using assms(1) by (auto simp: build_graph_impl_def split: if_splits)
  from assms(3) obtain b where d: "dget_or data (lit ''project_id'') PyNone = PyStr pid" "dget_or data (lit ''force'') (PyBool False) = PyBool b"
    by (auto simp: asks_for_def)
  have ne: "pid \<noteq> []" using assms(1) key d by (auto simp: build_graph_impl_def split: if_splits)
  obtain p0 resume S0 w0 where "build_checked env busy uuid data pid b resume p0 S0 w0 = (Inr (rep, Some (job, p)), S', w')"
    using assms(1) key d ne by (cases pid) (auto simp: build_graph_impl_def split: if_splits sum.splits prod.splits option.splits)
  then obtain name contents ont p1 S1 w1 where st: "start_build env uuid pid name contents ont resume p1 S1 w1 = (Inr (rep, Some (job, p)), S', w')"
    by (auto simp: build_checked_def Let_def split: option.splits if_splits sum.splits prod.splits)
  have "pr_project_id p = pr_project_id p1"
    using st by (auto simp: start_build_def save_project_def Let_def split: prod.splits sum.splits pyval.splits option.splits)
  then have claim: "get_project (sv_projects S') pid = Inr (Some p)" "pr_status p = StatusEnum GRAPH_BUILDING"
    "project_has_active_build (sv_tasks S') p" "pr_graph_build_task_id p = PyStr (bj_task_id job)"
    using start_build_claims [OF st assms(2)] assms(5) by auto
  from active_build_reused [OF key assms(4) ne claim(1-3)] claim(4) show ?thesis by simp
qed

end
