(* ===== verification/Build_Runs.thy ===== *)
theory Build_Runs
  imports Graph_Verdicts Graph_Runs
begin

text \<open>
  A concrete Batch API on which the statements about graph construction are applied: it keeps its
  batches in a list and loses the reply to as many \<^verbatim>\<open>batch.add\<close> calls as its counter says, after
  having carried them out.
\<close>

type_synonym shelf = "(pystr \<times> pydict \<times> BatchAddItem list) list \<times> nat"

definition shelf_content :: "shelf \<Rightarrow> batches" where
  "shelf_content w = map_of (fst w)"

definition unused_id :: "(pystr \<times> 'a) list \<Rightarrow> pystr" where
  "unused_id bs = replicate (Suc (sum_list (map (length \<circ> fst) bs))) 98"

lemma unused_id: "map_of bs (unused_id bs) = None"
proof -
  have "length b \<le> sum_list (map (length \<circ> fst) bs)" if "b \<in> fst ` set bs" for b
    using that member_le_sum_list [of "length b" "map (length \<circ> fst) bs"] by auto
  then show ?thesis by (force simp: map_of_eq_None_iff unused_id_def)
qed

definition shelf_item :: "nat \<Rightarrow> batch_item" where
  "shelf_item i = \<lparr>bi_sequence_index = Some (int i), bi_status = Some (lit ''succeeded''), bi_episode_uuid = Some (101 # nat_digits i),
     bi_source_uuid = None, bi_error = None\<rparr>"

definition shelf_batch :: "pystr \<Rightarrow> pydict \<Rightarrow> zep_batch" where
  "shelf_batch b m = \<lparr>zb_id = Some b, zb_status = Some (lit ''succeeded''), zb_metadata = Some m, zb_percent = Some 100, zb_succeeded = None\<rparr>"

definition shelf_env :: "shelf builder_env" where
  "shelf_env =
     \<lparr>ge_float = (\<lambda>_. None), ge_sleep = (\<lambda>_ w. w), ge_time = (\<lambda>w. (0, w)), ge_uuid_hex = (\<lambda>w. (lit ''1f2e'', w)), ge_sha256 = id,
      ge_tr = (\<lambda>_ _. []), ge_str = (\<lambda>_. []), ge_order = id, ge_class = Inr,
      ge_graph_create = (\<lambda>_ _ _ w. (Inr (), w)), ge_graph_get = (\<lambda>_ w. (Inr (), w)), ge_graph_delete = (\<lambda>_ w. (Inr (), w)),
      ge_set_ontology = (\<lambda>_ _ _ w. (Inr (), w)),
      ge_batch_create = (\<lambda>m (bs, k). (Inr (shelf_batch (unused_id bs) m), ((unused_id bs, m, []) # bs, k))),
      ge_batch_list = (\<lambda>_ _ (bs, k). (Inr \<lparr>cp_items = Some (map (\<lambda>(b, m, _). shelf_batch b m) (filter (\<lambda>(b, v). map_of bs b = Some v) bs)),
         cp_next = None\<rparr>, (bs, k))),
      ge_batch_add = (\<lambda>b new (bs, k).
         case map_of bs b of
           None \<Rightarrow> (Inl (Exn NotFoundErr []), (bs, k))
         | Some (m, its) \<Rightarrow>
             (let bs' = AList.update b (m, its @ new) bs in
              if k = 0 then (Inr (Some (map shelf_item [length its..<length its + length new])), (bs', 0))
              else (Inl (Exn ConnectionErr []), (bs', k - 1)))),
      ge_batch_items = (\<lambda>b _ _ (bs, k). (Inr \<lparr>cp_items = Some (case map_of bs b of None \<Rightarrow> [] | Some (m, its) \<Rightarrow> map shelf_item [0..<length its]),
         cp_next = None\<rparr>, (bs, k))),
      ge_batch_process = (\<lambda>_ w. (Inr (), w)), ge_batch_get = (\<lambda>b w. (Inr (shelf_batch b []), w)),
      ge_episode_processed = (\<lambda>_ w. (Inr True, w)),
      ge_nodes = (\<lambda>_ _ _ w. (Inr \<lparr>page_data = None, page_headers = None\<rparr>, w)),
      ge_edges = (\<lambda>_ _ _ w. (Inr \<lparr>page_data = None, page_headers = None\<rparr>, w))\<rparr>"

lemma shelf_service: "batch_service shelf_env shelf_content (\<lambda>_. 0)"
proof -
  have create: "creates_batch shelf_content m w r w'" if "ge_batch_create shelf_env m w = (r, w')" for m w r w'
    using that unused_id [of "fst w"]
    by (cases w) (auto simp: shelf_env_def creates_batch_def shelf_content_def shelf_batch_def intro!: exI [of _ "unused_id (fst w)"])
  have add: "appends_items shelf_content b new w w'" if "ge_batch_add shelf_env b new w = (r, w')" for b new w r w'
    using that by (cases w) (auto simp: shelf_env_def appends_items_def shelf_content_def update_conv' Let_def split: option.splits if_splits)
  show ?thesis
    unfolding batch_service_def
  proof (intro conjI allI impI)
    show "creates_batch shelf_content m w r w' \<or> (\<not> is_ok r \<and> shelf_content w' = shelf_content w)"
      if "ge_batch_create shelf_env m w = (r, w')" for m w r w' using create [OF that] by simp
    show "appends_items shelf_content b new w w' \<or> (shelf_content w' = shelf_content w \<and> (\<forall>ds. r = Inr ds \<longrightarrow> length (or_nil ds) \<noteq> length new))"
      if "ge_batch_add shelf_env b new w = (r, w')" for b new w r w' using add [OF that] by simp
  qed (auto simp: shelf_env_def keeps_def shelf_content_def shelf_batch_def or_nil_def)
qed

lemma shelf_quiet: "quiet_graph shelf_env shelf_content"
  by (simp add: quiet_graph_def shelf_env_def keeps_def)

definition shelf_job_env :: "shelf job_env" where
  "shelf_job_env = \<lparr>je_builder = shelf_env, je_clock = (\<lambda>_. 0), je_iso = (\<lambda>_. []), je_format_exc = exn_msg, je_url = None, je_key = Some (lit ''k'')\<rparr>"

definition shelf_job :: build_job where
  "shelf_job = \<lparr>bj_task_id = lit ''t'', bj_project_id = lit ''p'', bj_text = lit ''hello'', bj_chunk_size = 500, bj_chunk_overlap = 50,
     bj_ontology = [], bj_graph_name = lit ''n'', bj_resume = False\<rparr>"

definition shelf_local :: build_local where
  "shelf_local = \<lparr>bl_project = (new_project (lit ''p'') [] [])\<lparr>pr_status := StatusEnum GRAPH_BUILDING\<rparr>,
     bl_projects = [(lit ''p'', empty_dir)], bl_tasks = []\<rparr>"

lemma shelf_fields [simp]:
  "ge_float shelf_env = (\<lambda>_. None)" "ge_sleep shelf_env d w = w" "ge_time shelf_env w = (0, w)" "ge_uuid_hex shelf_env w = (lit ''1f2e'', w)"
  "ge_sha256 shelf_env x = x" "ge_tr shelf_env key args = []" "ge_graph_create shelf_env g n desc w = (Inr (), w)"
  "ge_batch_create shelf_env m (bs, k) = (Inr (shelf_batch (unused_id bs) m), ((unused_id bs, m, []) # bs, k))"
  "ge_batch_process shelf_env b w = (Inr (), w)" "ge_batch_get shelf_env b w = (Inr (shelf_batch b []), w)"
  "ge_nodes shelf_env gid sz cu w = (Inr \<lparr>page_data = None, page_headers = None\<rparr>, w)"
  "ge_edges shelf_env gid sz cu w = (Inr \<lparr>page_data = None, page_headers = None\<rparr>, w)"
  "ge_batch_add shelf_env b new ((b, m, its) # bs, 0) =
     (Inr (Some (map shelf_item [length its..<length its + length new])), ((b, m, its @ new) # bs, 0))"
  "ge_batch_add shelf_env b new ((b, m, its) # bs, Suc k) = (Inl (Exn ConnectionErr []), ((b, m, its @ new) # bs, k))"
  "ge_batch_items shelf_env b sz cuu ((b, m, its) # bs, k) =
     (Inr \<lparr>cp_items = Some (map shelf_item [0..<length its]), cp_next = None\<rparr>, ((b, m, its) # bs, k))"
  by (simp_all add: shelf_env_def)

lemma lift_fields [simp]:
  "ge_float (lift_env e) = ge_float e" "ge_sleep (lift_env e) d (l, w) = (l, ge_sleep e d w)" "ge_time (lift_env e) = lift_read (ge_time e)"
  "ge_uuid_hex (lift_env e) = lift_read (ge_uuid_hex e)" "ge_sha256 (lift_env e) = ge_sha256 e" "ge_tr (lift_env e) = ge_tr e"
  "ge_graph_create (lift_env e) g n desc = lift_action (ge_graph_create e g n desc)" "ge_batch_create (lift_env e) m = lift_action (ge_batch_create e m)"
  "ge_batch_add (lift_env e) b xs = lift_action (ge_batch_add e b xs)" "ge_batch_items (lift_env e) b sz cuu = lift_action (ge_batch_items e b sz cuu)"
  "ge_batch_process (lift_env e) b = lift_action (ge_batch_process e b)" "ge_batch_get (lift_env e) b = lift_action (ge_batch_get e b)"
  "ge_nodes (lift_env e) gid sz cu = lift_action (ge_nodes e gid sz cu)" "ge_edges (lift_env e) gid sz cu = lift_action (ge_edges e gid sz cu)"
  by (simp_all add: lift_env_def)

lemma shelf_job_fields [simp]:
  "je_builder shelf_job_env = shelf_env" "je_clock shelf_job_env w = 0" "je_iso shelf_job_env t = []" "je_url shelf_job_env = None"
  "je_key shelf_job_env = Some (lit ''k'')"
  by (simp_all add: shelf_job_env_def)

lemma zep_read_ok: "act w = (Inr x, w') \<Longrightarrow> zep_read env act w = (Inr x, w')"
  by (simp add: zep_read_def call_zep_read_with_retry_def zep_attempts.simps)

text \<open>One chunk, and the reply to adding it is lost.\<close>

theorem batch_submission_exact_witness:
  "\<exists>sub w' m its. add_text_batches shelf_env (lit ''g'') [lit ''one''] 1 None None ([], 1) = Some (Inr sub, w') \<and>
     shelf_content w' = [sub_batch_id sub \<mapsto> (m, its)] \<and> map ai_data its = [lit ''one'']"
proof -
  let ?op = "build_operation_id shelf_env (lit ''g'') [lit ''one'']"
  let ?w = "([([98], operation_metadata ?op (lit ''g'') 1, add_items shelf_env (lit ''g'') ?op 0 [lit ''one''])], 0) :: shelf"
  have read: "zep_read shelf_env (ge_batch_items shelf_env [98] 100 None) ?w = (Inr \<lparr>cp_items = Some [shelf_item 0], cp_next = None\<rparr>, ?w)"
    by (rule zep_read_ok) simp
  have list: "list_batch_items shelf_env [98] ?w = Some (Inr [shelf_item 0], ?w)"
    using read unfolding list_batch_items_def by (subst cursor_pages.simps) (simp add: or_nil_def)
  have seg: "segments (Suc 0) [lit ''one''] = [[lit ''one'']]" by (simp add: segments.simps)
  have "\<exists>sub w'. add_text_batches shelf_env (lit ''g'') [lit ''one''] 1 None None ([], 1) = Some (Inr sub, w')"
    using list
    by (simp add: add_text_batches_def validate_batch_chunks_def notify_batch_def create_batch_def unused_id_def shelf_batch_def or_str_def
        seg report_progress_def add_one_segment_def confirm_items_def reconcile_batch_item_count_def all_indexes_def shelf_item_def
        process_batch_def or_nil_def Let_def)
  then obtain sub w' where run: "add_text_batches shelf_env (lit ''g'') [lit ''one''] 1 None None ([], 1) = Some (Inr sub, w')" by blast
  have new: "new_operation (shelf_content ([], 1)) (lit ''g'') ?op"
    by (simp add: new_operation_def shelf_content_def)
  show ?thesis
    using batch_submission_exact [OF shelf_service _ _ new run] run unfolding shelf_content_def by fastforce
qed

text \<open>Saving works as long as the project keeps its id and its directory.\<close>

definition savable :: "build_local \<Rightarrow> bool" where
  "savable l \<longleftrightarrow> pr_project_id (bl_project l) = PyStr (lit ''p'') \<and> dhas (bl_projects l) (lit ''p'')"

lemma savable_steps [simp]:
  "savable (fst (task_note env tid st pr msg res err s)) = savable (fst s)"
  by (cases s) (simp add: savable_def task_note_def)

lemma shelf_savable: "savable shelf_local"
  by (simp add: savable_def shelf_local_def new_project_def dhas_def)

lemma save_local_ok:
  assumes "savable l" "pr_project_id (f (bl_project l)) = pr_project_id (bl_project l)"
  shows "\<exists>l'. save_local env (set_project f (l, w)) = (Inr (), (l', w)) \<and> savable l' \<and> pr_status (bl_project l') = pr_status (f (bl_project l))"
  using assms by (auto simp: savable_def save_local_def set_project_def save_project_def Let_def dhas_iff_dget)

lemma remember_ok:
  assumes "savable l"
  shows "\<exists>l'. remember_graph env g (l, w) = (Inr (), (l', w)) \<and> savable l'" "\<exists>l'. remember_batch env b op (l, w) = (Inr (), (l', w)) \<and> savable l'"
proof -
  let ?g = "\<lambda>p. p\<lparr>pr_graph_id := PyStr g\<rparr>" and ?b = "\<lambda>p. p\<lparr>pr_zep_batch_id := str_or_none b, pr_zep_batch_operation_id := PyStr op\<rparr>"
  show "\<exists>l'. remember_graph env g (l, w) = (Inr (), (l', w)) \<and> savable l'"
    using save_local_ok [OF assms, of ?g env w] by (auto simp: remember_graph_def)
  show "\<exists>l'. remember_batch env b op (l, w) = (Inr (), (l', w)) \<and> savable l'"
    using save_local_ok [OF assms, of ?b env w] by (auto simp: remember_batch_def)
qed

lemma note_pair: "savable l \<Longrightarrow> \<exists>l'. task_note env tid st pr msg res err (l, w) = (l', w) \<and> savable l'"
  by (simp add: task_note_def savable_def)

lemma shelf_adds:
  assumes "savable l" "g \<noteq> []"
  shows "\<exists>l' sub m its. add_text_batches (lift_env shelf_env) g [lit ''hello''] 350 (Some (scaled_progress env tid 15 40)) (Some (remember_batch env)) (l, ([], 0))
      = Some (Inr sub, (l', ([(sub_batch_id sub, m, its)], 0))) \<and> savable l' \<and> length its = 1 \<and> sub_item_count sub = 1"
proof -
  let ?op = "build_operation_id (lift_env shelf_env :: (build_local \<times> shelf) builder_env) g [lit ''hello'']"
  let ?w = "([([98], operation_metadata ?op g 1, [])], 0) :: shelf"
  obtain l1 where l1: "remember_batch env None ?op (l, ([], 0)) = (Inr (), (l1, ([], 0)))" "savable l1" using remember_ok(2) [OF assms(1), of env None ?op "([], 0)"] by auto
  obtain l2 where l2: "remember_batch env (Some [98]) ?op (l1, ?w) = (Inr (), (l2, ?w))" "savable l2" using remember_ok(2) [OF l1(2), of env "Some [98]" ?op ?w] by auto
  obtain l3 where l3: "scaled_progress env tid 15 40 [] 1 (l2, ?w) = (Inr (), (l3, ?w))" "savable l3"
    using note_pair [OF l2(2)] unfolding scaled_progress_def by metis
  have seg: "segments 350 [lit ''hello''] = [[lit ''hello'']]" by (simp add: segments.simps)
  show ?thesis
    using assms(2) l1 l2 l3
    by (simp add: add_text_batches_def validate_batch_chunks_def notify_batch_def create_batch_def lift_action_def unused_id_def shelf_batch_def or_str_def
        seg report_progress_def add_one_segment_def add_items_def process_batch_def or_nil_def Let_def)
qed

lemma shelf_waits:
  assumes "savable l" "length its = 1" "sub_item_count sub = 1"
  shows "\<exists>l' uuids. wait_for_batch (lift_env shelf_env) sub (Some (scaled_progress env tid 55 35)) None (l, ([(sub_batch_id sub, m, its)], 0))
      = Some (Inr uuids, (l', ([(sub_batch_id sub, m, its)], 0))) \<and> savable l'"
proof -
  let ?w = "([(sub_batch_id sub, m, its)], 0) :: shelf"
  obtain l1 where l1: "scaled_progress env tid 55 35 [] 1 (l, ?w) = (Inr (), (l1, ?w))" "savable l1"
    using note_pair [OF assms(1)] unfolding scaled_progress_def by metis
  obtain l2 where l2: "scaled_progress env tid 55 35 [] 1 (l1, ?w) = (Inr (), (l2, ?w))" "savable l2"
    using note_pair [OF l1(2)] unfolding scaled_progress_def by metis
  have read: "zep_read (lift_env shelf_env) (lift_action (ge_batch_get shelf_env (sub_batch_id sub))) (l, ?w) = (Inr (shelf_batch (sub_batch_id sub) []), (l, ?w))"
    by (rule zep_read_ok) (simp add: lift_action_def)
  have items: "zep_read (lift_env shelf_env) (lift_action (ge_batch_items shelf_env (sub_batch_id sub) 100 None)) (l1, ?w)
      = (Inr \<lparr>cp_items = Some [shelf_item 0], cp_next = None\<rparr>, (l1, ?w))"
    by (rule zep_read_ok) (simp add: lift_action_def assms(2))
  have poll: "poll_batch (lift_env shelf_env) sub (Some (scaled_progress env tid 55 35)) 0 600 (l, ?w) = Some (Inr (lit ''succeeded''), (l1, ?w))"
    using read l1 by (subst poll_batch.simps) (simp add: lift_read_def batch_progress_def shelf_batch_def report_progress_def TERMINAL_STATES_def)
  have list: "list_batch_items (lift_env shelf_env) (sub_batch_id sub) (l1, ?w) = Some (Inr [shelf_item 0], (l1, ?w))"
    using items unfolding list_batch_items_def by (subst cursor_pages.simps) (simp add: or_nil_def)
  show ?thesis
    using poll list l2 assms(3)
    by (simp add: wait_for_batch_def lift_read_def ZEP_INGESTION_WAIT_TIMEOUT_SECONDS_def shelf_item_def or_str_def report_progress_def)
qed

lemma page_ok:
  "act (l, w) = (Inr p, (l, w)) \<Longrightarrow> fetch_page_with_retry fl sleep 3 2 act (l, w) = (Inr p, (l, w))"
  by (simp add: fetch_page_with_retry_def call_zep_read_with_retry_def zep_attempts.simps)

lemma empty_pages:
  assumes "act (l, w) = (Inr \<lparr>page_data = None, page_headers = None\<rparr>, (l, w))" "call 100 None = act"
  shows "fetch_pages (fetch_page_with_retry fl sleep 3 2) call stuck 100 None None {} [] (l, w) = Some (Inr [], (l, w))"
  using page_ok [where act = act and fl = fl and sleep = sleep, OF assms(1)] assms(2)
  by (subst fetch_pages.simps) (simp add: page_items_def next_cursor_def header_value_def)

lemma shelf_reads: "\<exists>d. get_graph_data (lift_env shelf_env) g (l, w) = Some (Inr d, (l, w))"
  unfolding get_graph_data_def fetch_all_nodes_def fetch_all_edges_def fetch_all_def
  by (simp add: empty_pages lift_action_def)

lemma shelf_chunks: "split_text (bj_text shelf_job) (bj_chunk_size shelf_job) (bj_chunk_overlap shelf_job) = Some [lit ''hello'']"
  by (simp add: shelf_job_def split_text_def split_text_into_chunks_def py_strip_eq_Nil_iff lit_def is_space_def)

lemma shelf_build_completes:
  assumes "savable l"
  shows "\<exists>l' w'. build_task shelf_job_env shelf_job (l, ([], 0)) = Some (Inr (), (l', w')) \<and> pr_status (bl_project l') = StatusEnum GRAPH_COMPLETED"
proof -
  let ?e = shelf_job_env and ?t = "lit ''t''"
  have split: "split_text (bj_text shelf_job) (bj_chunk_size shelf_job) (bj_chunk_overlap shelf_job) = Some [lit ''hello'']"
    by (rule shelf_chunks)
  have key: "new_graph_builder (je_cloud ?e) = Inr ()"
    by (simp add: new_graph_builder_def je_cloud_def get_zep_client_def or_str_def py_strip_eq_Nil_iff lit_def is_space_def
        ZEP_HTTP_REQUEST_TIMEOUT_SECONDS_def)
  obtain l1 where l1: "started ?e shelf_job (l, ([], 0)) = (l1, ([], 0))" "savable l1"
    using note_pair assms by metis
  obtain l2 where l2: "task_note ?e ?t None (Some 10) (Some []) None None (l1, ([], 0)) = (l2, ([], 0))" "savable l2" using note_pair [OF l1(2)] by metis
  let ?g = "lit ''robin-swarm_1f2e''"
  obtain l3 where l3: "remember_graph ?e ?g (l2, ([], 0)) = (Inr (), (l3, ([], 0)))" "savable l3" using remember_ok(1) [OF l2(2), of ?e ?g "([], 0)"] by auto
  have graph: "create_graph (lift_env shelf_env) (lit ''n'') None (Some (remember_graph ?e)) (l2, ([], 0)) = (Inr ?g, (l3, ([], 0)))"
    using l3(1) by (simp add: create_graph_def or_str_def lift_read_def lift_action_def lit_def)
  obtain l4 where l4: "task_note ?e ?t None (Some 15) (Some []) None None (l3, ([], 0)) = (l4, ([], 0))" "savable l4" using note_pair [OF l3(2)] by metis
  have ont: "set_ontology (lift_env shelf_env) ?g [] s = (Inr (), s)" for s :: "build_local \<times> shelf"
    by (simp add: set_ontology_def first_types_def dget_or_def)
  obtain l5 where l5: "task_note ?e ?t None (Some 15) (Some []) None None (l4, ([], 0)) = (l5, ([], 0))" "savable l5" using note_pair [OF l4(2)] by metis
  obtain l6 sub m its where sub: "add_text_batches (lift_env shelf_env) ?g [lit ''hello''] 350 (Some (scaled_progress ?e ?t 15 40)) (Some (remember_batch ?e)) (l5, ([], 0))
      = Some (Inr sub, (l6, ([(sub_batch_id sub, m, its)], 0)))" "savable l6" "length its = 1" "sub_item_count sub = 1"
    using shelf_adds [OF l5(2), of ?g ?e ?t] by auto
  let ?w = "([(sub_batch_id sub, m, its)], 0) :: shelf"
  have new: "new_submission ?e shelf_job [lit ''hello''] (l1, ([], 0)) = Some (Inr (?g, sub), (l6, ?w))"
    using l2 graph l4 l5 ont sub(1) by (simp add: new_submission_def shelf_job_def)
  obtain l7 where l7: "task_note ?e ?t None (Some 55) (Some []) None None (l6, ?w) = (l7, ?w)" "savable l7" using note_pair [OF sub(2)] by metis
  obtain l8 uuids where l8: "wait_for_batch (lift_env shelf_env) sub (Some (scaled_progress ?e ?t 55 35)) None (l7, ?w) = Some (Inr uuids, (l8, ?w))" "savable l8"
    using shelf_waits [OF l7(2) sub(3,4), of ?e ?t m] by auto
  obtain l9 where l9: "task_note ?e ?t None (Some 95) (Some []) None None (l8, ?w) = (l9, ?w)" "savable l9" using note_pair [OF l8(2)] by metis
  obtain d where d: "get_graph_data (lift_env shelf_env) ?g (l9, ?w) = Some (Inr d, (l9, ?w))" using shelf_reads [of ?g l9 ?w] by auto
  obtain l10 where l10: "save_local ?e (set_project (\<lambda>p. p\<lparr>pr_status := StatusEnum GRAPH_COMPLETED, pr_error := PyNone\<rparr>) (l9, ?w)) = (Inr (), (l10, ?w))"
    "pr_status (bl_project l10) = StatusEnum GRAPH_COMPLETED"
    using save_local_ok [OF l9(2), of "\<lambda>p. p\<lparr>pr_status := StatusEnum GRAPH_COMPLETED, pr_error := PyNone\<rparr>" ?e ?w] by auto
  have valid: "validate_batch_chunks [lit ''hello''] 350 = Inr ()" by (simp add: validate_batch_chunks_def)
  have job: "bj_task_id shelf_job = ?t" "\<not> bj_resume shelf_job" by (simp_all add: shelf_job_def)
  show ?thesis
    using l1(1) new l7(1) l8(1) l9(1) d l10
    by (simp add: build_task_def build_body_def key split valid job) (simp add: task_note_def)
qed

theorem build_task_verdict_witness:
  "\<exists>l' w'. build_task shelf_job_env shelf_job (shelf_local, ([], 0)) = Some (Inr (), (l', w')) \<and> published_as l' GRAPH_COMPLETED"
proof -
  obtain l' w' where run: "build_task shelf_job_env shelf_job (shelf_local, ([], 0)) = Some (Inr (), (l', w'))"
    and st: "pr_status (bl_project l') = StatusEnum GRAPH_COMPLETED"
    using shelf_build_completes [OF shelf_savable] by auto
  from build_task_verdict [OF run] st run show ?thesis by (auto simp: published_as_def)
qed

theorem build_completed_delivers_witness:
  "\<exists>l' w' bid m its. build_task shelf_job_env shelf_job (shelf_local, ([], 0)) = Some (Inr (), (l', w')) \<and>
     shelf_content w' = [bid \<mapsto> (m, its)] \<and> map ai_data its = [lit ''hello'']"
proof -
  obtain l' w' where run: "build_task shelf_job_env shelf_job (shelf_local, ([], 0)) = Some (Inr (), (l', w'))"
    and st: "pr_status (bl_project l') = StatusEnum GRAPH_COMPLETED"
    using shelf_build_completes [OF shelf_savable] by auto
  have "\<exists>chunks bid op m its. split_text (bj_text shelf_job) (bj_chunk_size shelf_job) (bj_chunk_overlap shelf_job) = Some chunks \<and>
    shelf_content w' = (shelf_content ([], 0))(bid \<mapsto> (m, its)) \<and> map ai_data its = chunks"
    using build_completed_delivers [of shelf_job_env shelf_content "\<lambda>_. 0" shelf_job "([], 0)", OF _ _ _ _ run st] shelf_service shelf_quiet
    by (auto simp: shelf_job_env_def shelf_job_def new_operation_def shelf_content_def)
  then show ?thesis using run unfolding shelf_chunks shelf_content_def by fastforce
qed

section \<open>Two requests\<close>

definition ready_project :: Project where
  "ready_project = (new_project (lit ''p'') [] (lit ''n''))\<lparr>pr_status := StatusEnum ONTOLOGY_GENERATED, pr_ontology := PyDict [(lit ''entity_types'', PyList [])]\<rparr>"

definition ready_server :: server where
  "ready_server = quiet_server\<lparr>sv_projects := [(lit ''p'', empty_dir\<lparr>pd_meta := Some (Json (PyDict (project_to_dict ready_project))), pd_text := Some (lit ''hello'')\<rparr>)]\<rparr>"

definition build_request :: pydict where
  "build_request = [(lit ''project_id'', PyStr (lit ''p''))]"

lemma ready_loads: "get_project (sv_projects ready_server) (lit ''p'') = Inr (Some ready_project)"
  using project_roundtrip [of ready_project]
  by (simp add: ready_server_def get_project_def json_load_def ready_project_def status_wf_def new_project_def)

lemma ready_starts:
  "\<exists>rep job p S' w'. build_graph_impl shelf_job_env (\<lambda>_. False) (lit ''t'') build_request ready_server ([], 0) = ((rep, Some (job, p)), S', w') \<and>
     pr_project_id p = PyStr (lit ''p'')"
proof -
  have p: "lit ''p'' = 112 # []" by (simp add: lit_def)
  have status: "pr_status ready_project = StatusEnum ONTOLOGY_GENERATED" "pr_chunk_size ready_project = PyInt 500" "pr_chunk_overlap ready_project = PyInt 50"
    "truthy (pr_ontology ready_project)" "pr_project_id ready_project = PyStr (lit ''p'')"
    by (simp_all add: ready_project_def new_project_def)
  have dir: "dget (sv_projects ready_server) (lit ''p'') \<noteq> None" "get_extracted_text (sv_projects ready_server) (lit ''p'') = Some (lit ''hello'')"
    by (simp_all add: ready_server_def get_extracted_text_def)
  have checked: "\<exists>rep job p S' w'. build_checked shelf_job_env (\<lambda>_. False) (lit ''t'') build_request (lit ''p'') False False ready_project ready_server ([], 0)
     = (Inr (rep, Some (job, p)), S', w') \<and> pr_project_id p = PyStr (lit ''p'')"
    using status dir
    by (auto simp: build_checked_def build_request_def dget_or_dget bad_chunks_def or_else_def int_value_def or_str_def drop_old_graph_def start_build_def
        create_task_def save_project_def Let_def split: option.splits)
  then obtain rep job q S' w' where "build_checked shelf_job_env (\<lambda>_. False) (lit ''t'') build_request (lit ''p'') False False ready_project ready_server ([], 0)
     = (Inr (rep, Some (job, q)), S', w')" "pr_project_id q = PyStr (lit ''p'')" by auto
  with ready_loads status show ?thesis
    by (simp add: build_graph_impl_def build_request_def dget_or_dget or_str_def recover_build_def p)
qed

theorem build_not_started_twice_witness:
  "\<exists>rep job p S' w'. build_graph_impl shelf_job_env (\<lambda>_. False) (lit ''t'') build_request ready_server ([], 0) = ((rep, Some (job, p)), S', w') \<and>
     build_graph_impl shelf_job_env (\<lambda>_. False) (lit ''t2'') build_request S' w' = ((reused_build (lit ''p'') p [], None), S', w')"
proof -
  obtain rep job p S' w' where run: "build_graph_impl shelf_job_env (\<lambda>_. False) (lit ''t'') build_request ready_server ([], 0) = ((rep, Some (job, p)), S', w')"
    "pr_project_id p = PyStr (lit ''p'')" using ready_starts by auto
  have ask: "asks_for build_request (lit ''p'')" by (simp add: asks_for_def build_request_def dget_or_dget) (rule exI [of _ False], simp)
  from build_not_started_twice [OF run(1) _ ask ask run(2), of "\<lambda>_. False" "lit ''t2''" w'] run(1) show ?thesis by auto
qed

end
