(* ===== verification/Py_Text.thy ===== *)
theory Py_Text
  imports Text_Chunks
begin

text \<open>
  Python's text primitives that the language-model facing services share: \<^verbatim>\<open>str.startswith\<close>,
  \<^verbatim>\<open>str.find\<close>, \<^verbatim>\<open>str.split(sep)\<close>, \<^verbatim>\<open>str.replace\<close>, and the two regular-expression idioms of the code,
  removing every shortest span between two fixed markers and matching a literal without regard to
  case.  General facts about occurrences of a pattern in a string come with them.
\<close>

definition starts_with :: "pystr \<Rightarrow> pystr \<Rightarrow> bool" where
  "starts_with p s \<longleftrightarrow> take (length p) s = p"

definition text_ends :: "pystr \<Rightarrow> pystr \<Rightarrow> bool" where
  "text_ends p s \<longleftrightarrow> starts_with (rev p) (rev s)"

text \<open>\<^verbatim>\<open>s.find(p)\<close>, with \<open>None\<close> for \<open>-1\<close>.\<close>

fun find_sub :: "pystr \<Rightarrow> pystr \<Rightarrow> nat option" where
  "find_sub p [] = (if p = [] then Some 0 else None)"
| "find_sub p (c # s) = (if starts_with p (c # s) then Some 0 else map_option Suc (find_sub p s))"

definition occurs :: "pystr \<Rightarrow> pystr \<Rightarrow> bool" where
  "occurs p s \<longleftrightarrow> find_sub p s \<noteq> None"

lemma starts_with_iff: "starts_with p s \<longleftrightarrow> (\<exists>r. s = p @ r)"
  unfolding starts_with_def by (metis append_eq_conv_conj append_take_drop_id)

lemma text_ends_iff: "text_ends p s \<longleftrightarrow> (\<exists>r. s = r @ p)"
  unfolding text_ends_def starts_with_iff by (metis rev_append rev_rev_ident)

lemma starts_with_append [simp]: "starts_with p (p @ r)"
  by (simp add: starts_with_def)

lemma find_sub_SomeD: "find_sub p s = Some i \<Longrightarrow> s = take i s @ p @ drop (i + length p) s"
proof (induction s arbitrary: i)
  case (Cons c s)
  then show ?case
    by (auto simp: starts_with_iff split: if_splits)
qed (simp split: if_splits)

lemma occurs_iff: "occurs p s \<longleftrightarrow> (\<exists>a b. s = a @ p @ b)"
proof (induction s)
  case (Cons c s)
  have "occurs p (c # s) \<longleftrightarrow> starts_with p (c # s) \<or> occurs p s"
    by (simp add: occurs_def)
  also have "\<dots> \<longleftrightarrow> (\<exists>a b. c # s = a @ p @ b)"
    unfolding Cons.IH starts_with_iff by (metis append_Cons append_Nil list.exhaust list.inject)
  finally show ?case .
qed (auto simp: occurs_def)

lemma occurs_Nil_left [simp]: "occurs [] s"
  by (cases s) (simp_all add: occurs_def starts_with_def)

lemma find_sub_None_append: "find_sub p (a @ b) = None \<Longrightarrow> find_sub p a = None \<and> find_sub p b = None"
  using occurs_iff [of p "a @ b"] occurs_iff [of p a] occurs_iff [of p b]
  unfolding occurs_def by (metis append.assoc option.distinct(1) option.exhaust)

text \<open>\<^verbatim>\<open>s.split(sep)\<close> for a non-empty separator.\<close>

function split_str :: "pystr \<Rightarrow> pystr \<Rightarrow> pystr list" where
  "split_str sep s =
     (if sep = [] then [s]
      else case find_sub sep s of
        None \<Rightarrow> [s]
      | Some i \<Rightarrow> take i s # split_str sep (drop (i + length sep) s))"
  by auto
termination
proof (relation "measure (length \<circ> snd)")
  show "((sep, drop (i + length sep) s), sep, s) \<in> measure (length \<circ> snd)"
    if "sep \<noteq> []" "find_sub sep s = Some i" for sep s :: pystr and i
    using that find_sub_SomeD [OF that(2)]
    by (cases s) (auto split: if_splits)
qed simp

declare split_str.simps [simp del]

lemma split_str_nonempty: "split_str sep s \<noteq> []"
  by (subst split_str.simps) (simp split: option.split)

lemma py_join_split_str: "py_join sep (split_str sep s) = s"
proof (induction sep s rule: split_str.induct)
  case (1 sep s)
  show ?case
  proof (cases "sep = [] \<or> find_sub sep s = None")
    case True
    then show ?thesis by (subst split_str.simps) auto
  next
    case False
    then obtain i where i: "sep \<noteq> []" "find_sub sep s = Some i" by auto
    let ?rest = "split_str sep (drop (i + length sep) s)"
    obtain y ys where y: "?rest = y # ys"
      using split_str_nonempty by (metis list.exhaust)
    have "split_str sep s = take i s # ?rest"
      using i by (subst split_str.simps) simp
    with 1 [OF i] y show ?thesis
      using find_sub_SomeD [OF i(2)] by simp
  qed
qed

lemma last_split_str: "sep \<noteq> [] \<Longrightarrow> \<not> occurs sep (last (split_str sep s))"
proof (induction sep s rule: split_str.induct)
  case (1 sep s)
  show ?case
  proof (cases "find_sub sep s")
    case None
    then show ?thesis using 1(2) by (subst split_str.simps) (simp add: occurs_def)
  next
    case (Some i)
    then have "split_str sep s = take i s # split_str sep (drop (i + length sep) s)"
      using 1(2) by (subst split_str.simps) simp
    with 1(1) [OF 1(2) Some] 1(2) show ?thesis
      by (simp add: split_str_nonempty)
  qed
qed

definition replace_sub :: "pystr \<Rightarrow> pystr \<Rightarrow> pystr \<Rightarrow> pystr" where
  "replace_sub old new s = py_join new (split_str old s)"

text \<open>
  \<^verbatim>\<open>re.sub(a + '.*?' + b, '', s)\<close> with fixed markers \<open>a\<close> and \<open>b\<close>.  \<open>ok\<close> says which characters the dot
  matches: all of them under \<^verbatim>\<open>re.DOTALL\<close>, all but the newline otherwise.
\<close>

function remove_between :: "(nat \<Rightarrow> bool) \<Rightarrow> pystr \<Rightarrow> pystr \<Rightarrow> pystr \<Rightarrow> pystr" where
  "remove_between ok a b [] = []"
| "remove_between ok a b (c # s) =
     (if a \<noteq> [] \<and> starts_with a (c # s)
      then (case find_sub b (drop (length a) (c # s)) of
              None \<Rightarrow> c # remove_between ok a b s
            | Some i \<Rightarrow>
                if list_all ok (take i (drop (length a) (c # s)))
                then remove_between ok a b (drop (length a + i + length b) (c # s))
                else c # remove_between ok a b s)
      else c # remove_between ok a b s)"
  by pat_completeness auto
termination
  by (relation "measure (\<lambda>(ok, a, b, s). length s)") (auto simp: neq_Nil_conv)

text \<open>
  Literals matched with \<^verbatim>\<open>re.IGNORECASE\<close>.  Beside the two ASCII cases the letter s also matches
  the long s (U+017F); the literals of the program contain no other letter with such a variant.
\<close>

definition ci_char :: "nat \<Rightarrow> nat \<Rightarrow> bool" where
  "ci_char a c \<longleftrightarrow> lower_char c = a \<or> (a = 115 \<and> c = 383)"

fun ci_starts :: "pystr \<Rightarrow> pystr \<Rightarrow> bool" where
  "ci_starts [] s = True"
| "ci_starts (a # p) [] = False"
| "ci_starts (a # p) (c # s) = (ci_char a c \<and> ci_starts p s)"

lemma ci_starts_length: "ci_starts p s \<Longrightarrow> length p \<le> length s"
  by (induction p s rule: ci_starts.induct) simp_all

lemma ci_starts_append: "ci_starts p s \<Longrightarrow> ci_starts p (s @ r)"
  by (induction p s rule: ci_starts.induct) simp_all

text \<open>\<^verbatim>\<open>s.lstrip(c)\<close> with one character.\<close>

definition lstrip_char :: "nat \<Rightarrow> pystr \<Rightarrow> pystr" where
  "lstrip_char c s = dropWhile (\<lambda>d. d = c) s"

definition rstrip_chars :: "nat list \<Rightarrow> pystr \<Rightarrow> pystr" where
  "rstrip_chars cs s = rev (dropWhile (\<lambda>d. d \<in> set cs) (rev s))"

end
