(* ===== verification/LLM_Client.thy ===== *)
theory LLM_Client
  imports Py_Text Zep_Access
begin

text \<open>
  The language model client, \<^verbatim>\<open>app/utils/llm_client.py\<close> and \<^verbatim>\<open>app/utils/openai_chat_compat.py\<close>: request
  parameters per model family, the text of a completion in its several shapes, clean-up of
  reasoning wrappers and code fences, and the bounded negotiation for a JSON object.

  The provider's \<^verbatim>\<open>chat.completions.create\<close>, the attributes of the errors it raises, \<^verbatim>\<open>json.loads\<close>,
  \<^verbatim>\<open>JSONDecoder.raw_decode\<close> and \<^verbatim>\<open>str\<close> of a JSON value are fields of \<open>llm_env\<close>.
\<close>

section \<open>Completions\<close>

text \<open>
  The content of a message is a value or a list of parts; a part is a dict or an object, of which
  the attributes \<^verbatim>\<open>text\<close> and \<^verbatim>\<open>content\<close> are read (\<open>PyNone\<close> when missing).
\<close>

datatype chat_item = ItemDict pydict | ItemObject pyval pyval

datatype chat_content = ContentValue pyval | ContentItems "chat_item list"

record chat_choice =
  cc_finish_reason :: pyval
  cc_message :: "chat_content option"

type_synonym completion = "chat_choice list"

record 'w llm_env =
  le_create :: "pydict \<Rightarrow> ('w, completion) action"
  le_status :: "exn \<Rightarrow> pyval"
  le_body :: "exn \<Rightarrow> pyval"
  le_loads :: "pystr \<Rightarrow> (nat \<times> nat) + pyval"
  le_raw_decode :: "pystr \<Rightarrow> (pyval \<times> nat) option"
  le_str :: "pyval \<Rightarrow> pystr"
  le_model :: pystr

section \<open>Requests\<close>

definition is_gpt5_family :: "pystr \<Rightarrow> bool" where
  "is_gpt5_family model \<longleftrightarrow> model \<noteq> [] \<and> starts_with (lit ''gpt-5'') (py_lower (py_strip model))"

definition completion_kwargs ::
  "pystr \<Rightarrow> pydict list \<Rightarrow> rat option \<Rightarrow> int option \<Rightarrow> pydict option \<Rightarrow> pydict" where
  "completion_kwargs model messages temperature max_tokens response_format =
     [(lit ''model'', PyStr model), (lit ''messages'', PyList (map PyDict messages))]
     @ (case response_format of Some f \<Rightarrow> [(lit ''response_format'', PyDict f)] | None \<Rightarrow> [])
     @ (case temperature of Some q \<Rightarrow> if is_gpt5_family model then [] else [(lit ''temperature'', PyFloat q)] | None \<Rightarrow> [])
     @ (case max_tokens of
          Some n \<Rightarrow> [(if is_gpt5_family model then lit ''max_completion_tokens'' else lit ''max_tokens'', PyInt n)]
        | None \<Rightarrow> [])"

definition create_completion ::
  "'w llm_env \<Rightarrow> pydict list \<Rightarrow> rat option \<Rightarrow> int option \<Rightarrow> pydict option \<Rightarrow> ('w, completion) action" where
  "create_completion env messages temperature max_tokens response_format =
     le_create env (completion_kwargs (le_model env) messages temperature max_tokens response_format)"

section \<open>Texts\<close>

definition part_text :: "pyval \<Rightarrow> pyval \<Rightarrow> pystr list" where
  "part_text text_obj content_obj =
     (let text_obj = (case text_obj of PyDict d \<Rightarrow> dget_or d (lit ''value'') PyNone | v \<Rightarrow> v) in
      case text_obj of
        PyStr s \<Rightarrow> [s]
      | _ \<Rightarrow> (case content_obj of PyStr s \<Rightarrow> [s] | _ \<Rightarrow> []))"

fun item_chunks :: "chat_item \<Rightarrow> pystr list" where
  "item_chunks (ItemDict d) = part_text (dget_or d (lit ''text'') PyNone) (dget_or d (lit ''content'') PyNone)"
| "item_chunks (ItemObject text_obj content_obj) = part_text text_obj content_obj"

definition str_or_empty :: "(pyval \<Rightarrow> pystr) \<Rightarrow> pyval \<Rightarrow> pystr" where
  "str_or_empty str v = (case v of PyStr s \<Rightarrow> s | _ \<Rightarrow> if truthy v then str v else [])"

definition extract_chat_completion_text :: "(pyval \<Rightarrow> pystr) \<Rightarrow> completion \<Rightarrow> pystr" where
  "extract_chat_completion_text str response =
     (case response of
        [] \<Rightarrow> []
      | choice # _ \<Rightarrow>
          (case cc_message choice of
             None \<Rightarrow> []
           | Some (ContentValue v) \<Rightarrow> str_or_empty str v
           | Some (ContentItems items) \<Rightarrow> py_strip (concat (concat (map item_chunks items)))))"

definition FENCE :: pystr where "FENCE = [96, 96, 96]"

text \<open>\<^verbatim>\<open>^```(?:json)?\s*\n?\<close> at the start, and \<^verbatim>\<open>\n?```\s*$\<close> at the end.\<close>

definition drop_open_fence :: "pystr \<Rightarrow> pystr" where
  "drop_open_fence s =
     (if starts_with FENCE s
      then (let r = drop 3 s in py_lstrip (if ci_starts (lit ''json'') r then drop 4 r else r))
      else s)"

definition drop_close_fence :: "pystr \<Rightarrow> pystr" where
  "drop_close_fence s =
     (let r = py_rstrip s in
      if text_ends FENCE r
      then (let b = take (length r - 3) r in if text_ends [10] b then butlast b else b)
      else s)"

definition clean_chat_text :: "pystr \<Rightarrow> pystr" where
  "clean_chat_text content =
     (let cleaned = py_strip (remove_between (\<lambda>c. True) (lit ''<think>'') (lit ''</think>'') content);
          cleaned = lstrip_char 65279 cleaned
      in py_strip (drop_close_fence (drop_open_fence cleaned)))"

definition llm_chat :: "'w llm_env \<Rightarrow> pydict list \<Rightarrow> rat option \<Rightarrow> int option \<Rightarrow> pydict option \<Rightarrow> ('w, pystr) action" where
  "llm_chat env messages temperature max_tokens response_format w =
     (case create_completion env messages temperature max_tokens response_format w of
        (Inl e, w) \<Rightarrow> (Inl e, w)
      | (Inr response, w) \<Rightarrow> (Inr (clean_chat_text (extract_chat_completion_text (le_str env) response)), w))"

section \<open>JSON objects\<close>

definition is_response_format_unsupported :: "'w llm_env \<Rightarrow> exn \<Rightarrow> bool" where
  "is_response_format_unsupported env error =
     (if \<not> (py_eq_int (le_status env error) 400 \<or> py_eq_int (le_status env error) 422) then False
      else case le_body env error of
        PyDict body \<Rightarrow>
          (case dget_or body (lit ''error'') (PyDict body) of
             PyDict details \<Rightarrow>
               (let field = (\<lambda>k. str_or_empty (le_str env) (dget_or details (lit k) PyNone));
                    param = py_lower (py_strip (field ''param''));
                    message = py_lower (field ''message'');
                    code = py_lower (field ''code'')
                in if param = lit ''response_format'' \<or> starts_with (lit ''response_format.'') param then True
                   else if \<not> occurs (lit ''response_format'') message then False
                   else code \<in> set (map lit [''unsupported_parameter'', ''unsupported_value'', ''unknown_parameter'',
                                              ''invalid_parameter''])
                        \<or> list_ex (\<lambda>phrase. occurs (lit phrase) message)
                            [''not support'', ''unsupported'', ''unknown parameter'', ''unrecognized parameter''])
           | _ \<Rightarrow> False)
      | _ \<Rightarrow> False)"

fun is_container :: "pyval \<Rightarrow> bool" where
  "is_container (PyDict _) = True"
| "is_container (PyList _) = True"
| "is_container _ = False"

fun contains_additional_json_container :: "(pystr \<Rightarrow> (pyval \<times> nat) option) \<Rightarrow> pystr \<Rightarrow> bool" where
  "contains_additional_json_container raw [] = False"
| "contains_additional_json_container raw (c # s) =
     ((c = 91 \<or> c = 123) \<and> (case raw (c # s) of Some (v, _) \<Rightarrow> is_container v | None \<Rightarrow> False)
      \<or> contains_additional_json_container raw s)"

definition llm_error :: "pystr \<Rightarrow> pyval \<Rightarrow> exn" where
  "llm_error message finish_reason = Exn (LLMResponseErr finish_reason) message"

definition decode_content :: "'w llm_env \<Rightarrow> pyval \<Rightarrow> pystr \<Rightarrow> pyval res" where
  "decode_content env finish_reason content =
     (case le_loads env content of
        Inr v \<Rightarrow> Inr v
      | Inl (lineno, colno) \<Rightarrow>
          (case le_raw_decode env content of
             None \<Rightarrow> Inl (llm_error (lit ''LLM returned invalid JSON (line '' @ nat_digits lineno
                                      @ lit '', column '' @ nat_digits colno @ lit '')'') finish_reason)
           | Some (v, end) \<Rightarrow>
               if contains_additional_json_container (le_raw_decode env) (py_strip (drop end content))
               then Inl (llm_error (lit ''LLM returned multiple JSON values'') finish_reason)
               else Inr v))"

definition parse_json_response :: "'w llm_env \<Rightarrow> completion \<Rightarrow> pydict res" where
  "parse_json_response env response =
     (case response of
        [] \<Rightarrow> Inl (llm_error (lit ''LLM returned no choices'') PyNone)
      | choice # _ \<Rightarrow>
          let finish_reason = cc_finish_reason choice in
          if finish_reason = PyStr (lit ''length'')
          then Inl (llm_error (lit ''LLM JSON output was truncated at the token limit'') finish_reason)
          else if finish_reason \<noteq> PyNone \<and> finish_reason \<noteq> PyStr (lit ''stop'')
          then Inl (llm_error (lit ''LLM JSON generation stopped unexpectedly ('' @ str_or_empty (le_str env) finish_reason
                               @ lit '')'') finish_reason)
          else
            let content = clean_chat_text (extract_chat_completion_text (le_str env) response) in
            if content = [] then Inl (llm_error (lit ''LLM returned empty JSON content'') finish_reason)
            else bind_res (decode_content env finish_reason content) (\<lambda>value.
              case value of
                PyDict d \<Rightarrow> Inr d
              | _ \<Rightarrow> Inl (llm_error (lit ''LLM JSON response must be a top-level JSON object'') finish_reason)))"

text \<open>The inner \<^verbatim>\<open>while True\<close>: one more request when the provider rejects \<^verbatim>\<open>response_format\<close>.\<close>

function negotiate ::
  "'w llm_env \<Rightarrow> pydict list \<Rightarrow> rat option \<Rightarrow> int option \<Rightarrow> pydict option \<Rightarrow> 'w \<Rightarrow> completion res \<times> pydict option \<times> 'w" where
  "negotiate env messages temperature max_tokens response_format w =
     (case create_completion env messages temperature max_tokens response_format w of
        (Inr response, w) \<Rightarrow> (Inr response, response_format, w)
      | (Inl e, w) \<Rightarrow>
          if response_format \<noteq> None \<and> is_response_format_unsupported env e
          then negotiate env messages temperature max_tokens None w
          else (Inl e, response_format, w))"
  by auto
termination
  by (relation "measure (\<lambda>(env, ms, q, n, rf, w). if rf = None then 0 else 1)") auto

declare negotiate.simps [simp del]

fun json_attempts ::
  "'w llm_env \<Rightarrow> pydict list \<Rightarrow> rat option \<Rightarrow> int option \<Rightarrow> pydict option \<Rightarrow> nat \<Rightarrow> ('w, pydict) action" where
  "json_attempts env messages temperature max_tokens response_format 0 w =
     (Inl (llm_error (lit ''LLM did not produce a JSON response'') PyNone), w)"
| "json_attempts env messages temperature max_tokens response_format (Suc n) w =
     (case negotiate env messages temperature max_tokens response_format w of
        (Inl e, _, w) \<Rightarrow> (Inl e, w)
      | (Inr response, response_format, w) \<Rightarrow>
          (case parse_json_response env response of
             Inr d \<Rightarrow> (Inr d, w)
           | Inl e \<Rightarrow>
               if n = 0 then (Inl e, w)
               else json_attempts env messages temperature None response_format n w))"

definition chat_json :: "'w llm_env \<Rightarrow> pydict list \<Rightarrow> rat option \<Rightarrow> int option \<Rightarrow> int \<Rightarrow> ('w, pydict) action" where
  "chat_json env messages temperature max_tokens max_attempts w =
     (if max_attempts < 1 then (Inl (Exn ValueError (lit ''max_attempts must be at least 1'')), w)
      else json_attempts env messages temperature max_tokens
             (Some [(lit ''type'', PyStr (lit ''json_object''))]) (nat max_attempts) w)"

definition new_llm_client :: "pystr option \<Rightarrow> pystr \<Rightarrow> pystr res" where
  "new_llm_client api_key config_key =
     (let key = (case api_key of Some k \<Rightarrow> if k = [] then config_key else k | None \<Rightarrow> config_key)
      in if key = [] then Inl (Exn ValueError (lit ''LLM_API_KEY '' @ [26410, 37197, 32622])) else Inr key)"

section \<open>The requests of one call\<close>

text \<open>The same client over a provider that also keeps the list of the requests it got.\<close>

definition recording :: "'w llm_env \<Rightarrow> ('w \<times> pydict list) llm_env" where
  "recording env =
     \<lparr>le_create = (\<lambda>kwargs (w, sent). let (r, w') = le_create env kwargs w in (r, (w', sent @ [kwargs]))),
      le_status = le_status env, le_body = le_body env, le_loads = le_loads env,
      le_raw_decode = le_raw_decode env, le_str = le_str env, le_model = le_model env\<rparr>"

lemma recording_fields [simp]:
  "le_status (recording env) = le_status env" "le_body (recording env) = le_body env"
  "le_loads (recording env) = le_loads env" "le_raw_decode (recording env) = le_raw_decode env"
  "le_str (recording env) = le_str env" "le_model (recording env) = le_model env"
  by (simp_all add: recording_def)

lemma recording_parse [simp]: "parse_json_response (recording env) response = parse_json_response env response"
  unfolding parse_json_response_def decode_content_def recording_fields by (rule refl)

text \<open>A request as the pair of its token cap and its response format.\<close>

type_synonym request_plan = "(int option \<times> pydict option) list"

definition sent_requests :: "'w llm_env \<Rightarrow> pydict list \<Rightarrow> rat option \<Rightarrow> request_plan \<Rightarrow> pydict list" where
  "sent_requests env messages q plan = map (\<lambda>(cap, rf). completion_kwargs (le_model env) messages q cap rf) plan"

lemma sent_requests_append [simp]:
  "sent_requests env messages q (p1 @ p2) = sent_requests env messages q p1 @ sent_requests env messages q p2"
  by (simp add: sent_requests_def)

lemma create_recording:
  "create_completion (recording env) messages q cap rf (w, sent) =
     (let (r, w') = create_completion env messages q cap rf w in (r, (w', sent @ sent_requests env messages q [(cap, rf)])))"
  by (simp add: create_completion_def recording_def sent_requests_def)

lemma negotiate_plan:
  assumes "negotiate (recording env) messages q cap rf (w, sent) = (r, rf', (w', sent'))"
  shows "(sent' = sent @ sent_requests env messages q [(cap, rf)] \<and> rf' = rf)
    \<or> (rf \<noteq> None \<and> sent' = sent @ sent_requests env messages q [(cap, rf), (cap, None)] \<and> rf' = None)"
proof -
  have last: "sent' = sent0 @ sent_requests env messages q [(cap, None)] \<and> rf' = None"
    if "negotiate (recording env) messages q cap None (w0, sent0) = (r, rf', (w', sent'))" for w0 sent0
    using that by (subst (asm) negotiate.simps) (auto simp: create_recording Let_def split: prod.splits sum.splits)
  show ?thesis
    using assms
    by (subst (asm) negotiate.simps)
      (auto simp: create_recording Let_def sent_requests_def split: prod.splits sum.splits if_splits dest!: last)
qed

text \<open>
  JSON mode is asked for in a first stretch of the requests and never after it; the token cap is
  sent with the first one or two requests and never after them.
\<close>

definition plan_ok :: "int option \<Rightarrow> pydict option \<Rightarrow> request_plan \<Rightarrow> bool" where
  "plan_ok cap rf plan \<longleftrightarrow>
     (\<exists>i j. map snd plan = replicate i rf @ replicate (length plan - i) None \<and> 1 \<le> i
        \<and> map fst plan = replicate j cap @ replicate (length plan - j) None \<and> 1 \<le> j \<and> j \<le> 2)"

lemma plan_okI:
  "plan = [(cap, rf)] @ map (Pair None) (replicate k rf @ replicate l None) \<Longrightarrow> plan_ok cap rf plan"
  "plan = [(cap, rf), (cap, None)] @ replicate l (None, None) \<Longrightarrow> plan_ok cap rf plan"
proof -
  show "plan_ok cap rf plan" if "plan = [(cap, rf)] @ map (Pair None) (replicate k rf @ replicate l None)"
    unfolding plan_ok_def that
    by (rule exI [of _ "Suc k"], rule exI [of _ 1]) (simp add: comp_def map_replicate_const replicate_add)
  show "plan_ok cap rf plan" if "plan = [(cap, rf), (cap, None)] @ replicate l (None, None)"
    unfolding plan_ok_def that
    by (rule exI [of _ 1], rule exI [of _ 2]) (simp add: numeral_2_eq_2)
qed

lemma json_attempts_step:
  assumes "json_attempts (recording env) messages q cap rf (Suc n) (w, sent) = (r, (w', sent'))"
  obtains (stay) plan where "plan = [(cap, rf)]" "sent' = sent @ sent_requests env messages q plan"
  | (stay_degraded) plan where "rf \<noteq> None" "plan = [(cap, rf), (cap, None)]" "sent' = sent @ sent_requests env messages q plan"
  | (again) plan w1 where "plan = [(cap, rf)]"
      "json_attempts (recording env) messages q None rf n (w1, sent @ sent_requests env messages q plan) = (r, (w', sent'))"
  | (again_degraded) plan w1 where "rf \<noteq> None" "plan = [(cap, rf), (cap, None)]"
      "json_attempts (recording env) messages q None None n (w1, sent @ sent_requests env messages q plan) = (r, (w', sent'))"
proof -
  obtain nr rf1 w1 sent1 where n: "negotiate (recording env) messages q cap rf (w, sent) = (nr, rf1, (w1, sent1))"
    by (metis prod_cases4)
  have "sent' = sent1 \<or> json_attempts (recording env) messages q None rf1 n (w1, sent1) = (r, (w', sent'))"
    using assms by (auto simp: n split: sum.splits if_splits)
  with negotiate_plan [OF n] that show thesis by metis
qed

lemma json_attempts_rest:
  assumes "json_attempts (recording env) messages q None rf n (w, sent) = (r, (w', sent'))"
  shows "\<exists>k l. sent' = sent @ sent_requests env messages q (map (Pair None) (replicate k rf @ replicate l None))
    \<and> k + l \<le> n + (if rf = None then 0 else 1)"
  using assms
proof (induction n arbitrary: rf w sent)
  case 0
  then show ?case
    by (intro exI [of _ 0]) (auto simp: sent_requests_def)
next
  case (Suc n)
  from Suc.prems show ?case
  proof (cases rule: json_attempts_step)
    case (stay plan)
    then show ?thesis by (intro exI [of _ 1] exI [of _ 0]) simp
  next
    case (stay_degraded plan)
    then show ?thesis by (intro exI [of _ 1]) auto
  next
    case (again plan w1)
    from Suc.IH [OF again(2)] obtain k l where kl: "k + l \<le> n + (if rf = None then 0 else 1)"
      "sent' = (sent @ sent_requests env messages q plan)
         @ sent_requests env messages q (map (Pair None) (replicate k rf @ replicate l None))" by blast
    then show ?thesis
      by (intro exI [of _ "Suc k"] exI [of _ l]) (simp add: again(1) flip: sent_requests_append)
  next
    case (again_degraded plan w1)
    from Suc.IH [OF again_degraded(3)] obtain k l where kl: "k + l \<le> n"
      "sent' = (sent @ sent_requests env messages q plan)
         @ sent_requests env messages q (map (Pair None) (replicate k None @ replicate l None))" by auto
    then show ?thesis
      by (intro exI [of _ 1] exI [of _ "Suc (k + l)"])
        (simp add: again_degraded(1,2) replicate_add flip: sent_requests_append)
  qed
qed

lemma json_attempts_plan:
  assumes "json_attempts (recording env) messages q cap rf (Suc n) (w, sent) = (r, (w', sent'))"
  shows "\<exists>plan. sent' = sent @ sent_requests env messages q plan \<and> plan_ok cap rf plan
    \<and> length plan \<le> Suc n + (if rf = None then 0 else 1)"
  using assms
proof (cases rule: json_attempts_step)
  case (stay plan)
  then show ?thesis using plan_okI(1) [of plan cap rf 0 0] by auto
next
  case (stay_degraded plan)
  then show ?thesis using plan_okI(2) [of plan cap rf 0] by auto
next
  case (again plan w1)
  from json_attempts_rest [OF again(2)] obtain k l where
    "k + l \<le> n + (if rf = None then 0 else 1)"
    "sent' = (sent @ sent_requests env messages q plan)
       @ sent_requests env messages q (map (Pair None) (replicate k rf @ replicate l None))" by blast
  then show ?thesis
    using plan_okI(1) [OF refl, of cap rf k l] again(1)
    by (intro exI [of _ "[(cap, rf)] @ map (Pair None) (replicate k rf @ replicate l None)"])
      (simp flip: sent_requests_append)
next
  case (again_degraded plan w1)
  from json_attempts_rest [OF again_degraded(3)] obtain k l where
    "k + l \<le> n"
    "sent' = (sent @ sent_requests env messages q plan)
       @ sent_requests env messages q (map (Pair None) (replicate k None @ replicate l None))" by auto
  then show ?thesis
    using plan_okI(2) [OF refl, of cap rf "k + l"] again_degraded(1,2)
    by (intro exI [of _ "[(cap, rf), (cap, None)] @ replicate (k + l) (None, None)"])
      (auto simp: replicate_add simp flip: sent_requests_append)
qed

section \<open>What a JSON answer is\<close>

text \<open>
  The object is decoded from the beginning of the cleaned text of a completion that ended by
  itself: either all of the text is the object, or what follows holds no other object or array.
\<close>

definition decoded_from :: "'w llm_env \<Rightarrow> completion \<Rightarrow> pydict \<Rightarrow> bool" where
  "decoded_from env response d \<longleftrightarrow>
     (\<exists>choice rest. response = choice # rest
        \<and> (cc_finish_reason choice = PyNone \<or> cc_finish_reason choice = PyStr (lit ''stop'')))
     \<and> (let content = clean_chat_text (extract_chat_completion_text (le_str env) response) in
        content \<noteq> [] \<and>
        (le_loads env content = Inr (PyDict d)
         \<or> ((\<exists>e. le_loads env content = Inl e)
            \<and> (\<exists>n. le_raw_decode env content = Some (PyDict d, n)
                  \<and> \<not> contains_additional_json_container (le_raw_decode env) (py_strip (drop n content))))))"

lemma parse_json_response_ok: "parse_json_response env response = Inr d \<Longrightarrow> decoded_from env response d"
  by (auto simp: parse_json_response_def decoded_from_def decode_content_def Let_def exn_simps
      split: list.splits if_splits sum.splits prod.splits option.splits pyval.splits)

definition provided :: "'w llm_env \<Rightarrow> completion \<Rightarrow> bool" where
  "provided env response \<longleftrightarrow> (\<exists>kwargs w w'. le_create env kwargs w = (Inr response, w'))"

lemma create_result: "create_completion env messages q cap rf w = (Inr response, w') \<Longrightarrow> provided env response"
  unfolding create_completion_def provided_def by blast

lemma negotiate_result: "negotiate env messages q cap rf w = (Inr response, rf', w') \<Longrightarrow> provided env response"
proof (induction env messages q cap rf w rule: negotiate.induct)
  case (1 env messages q cap rf w)
  obtain c w1 where c: "create_completion env messages q cap rf w = (c, w1)"
    by fastforce
  show ?case
  proof (cases c)
    case (Inl e)
    with c 1(2) have "rf \<noteq> None \<and> is_response_format_unsupported env e"
      by (subst (asm) negotiate.simps) (auto split: if_splits)
    moreover from this c Inl 1(2) have "negotiate env messages q cap None w1 = (Inr response, rf', w')"
      by (subst (asm) negotiate.simps) simp
    ultimately show ?thesis using 1(1) [OF c [symmetric] Inl] by blast
  next
    case (Inr x)
    with c 1(2) show ?thesis
      by (subst (asm) negotiate.simps) (auto dest: create_result)
  qed
qed

lemma json_attempts_result:
  "json_attempts env messages q cap rf n w = (Inr d, w') \<Longrightarrow> \<exists>response. provided env response \<and> decoded_from env response d"
proof (induction n arbitrary: cap rf w)
  case (Suc n)
  obtain nr rf1 w1 where n: "negotiate env messages q cap rf w = (nr, rf1, w1)"
    by (metis prod_cases3)
  with Suc.prems obtain response where r: "nr = Inr response"
    by (cases nr) auto
  show ?case
  proof (cases "parse_json_response env response")
    case (Inl e)
    with Suc.prems n r have "json_attempts env messages q None rf1 n w1 = (Inr d, w')"
      by (auto split: if_splits)
    then show ?thesis by (rule Suc.IH)
  next
    case (Inr d')
    with Suc.prems n r have "parse_json_response env response = Inr d" by simp
    with n r show ?thesis by (blast dest: negotiate_result parse_json_response_ok)
  qed
qed simp

lemma provided_recording: "provided (recording env) response \<Longrightarrow> provided env response"
  unfolding provided_def recording_def by (simp add: Let_def split: prod.splits) (metis surj_pair)

definition JSON_MODE :: pydict where
  "JSON_MODE = [(lit ''type'', PyStr (lit ''json_object''))]"


text \<open>A provider that rejects JSON mode, then truncates, then answers.\<close>

definition terse_provider :: "nat llm_env" where
  "terse_provider =
     \<lparr>le_create = (\<lambda>kwargs k. (if k < 8 then Inl (Exn OtherExc (lit ''bad request''))
          else Inr [\<lparr>cc_finish_reason = PyStr (if k = 8 then lit ''length'' else lit ''stop''),
                     cc_message = Some (ContentValue (PyStr (lit ''{}'')))\<rparr>], Suc k)),
      le_status = (\<lambda>e. PyInt 400), le_body = (\<lambda>e. PyDict [(lit ''param'', PyStr (lit ''response_format''))]),
      le_loads = (\<lambda>s. if s = lit ''{}'' then Inr (PyDict []) else Inl (1, 1)),
      le_raw_decode = (\<lambda>s. None), le_str = (\<lambda>v. []), le_model = lit ''gpt-4o''\<rparr>"

lemma terse_create:
  "create_completion terse_provider ms q cap rf 7 = (Inl (Exn OtherExc (lit ''bad request'')), 8)"
  "create_completion terse_provider ms q cap rf 8 =
     (Inr [\<lparr>cc_finish_reason = PyStr (lit ''length''), cc_message = Some (ContentValue (PyStr (lit ''{}'')))\<rparr>], 9)"
  "create_completion terse_provider ms q cap rf 9 =
     (Inr [\<lparr>cc_finish_reason = PyStr (lit ''stop''), cc_message = Some (ContentValue (PyStr (lit ''{}'')))\<rparr>], 10)"
  by (simp_all add: create_completion_def terse_provider_def)

lemma terse_rejects: "is_response_format_unsupported (recording terse_provider) e"
proof -
  have "py_lower (py_strip (lit ''response_format'')) = lit ''response_format''"
    by (simp add: lit_def py_strip_def py_lstrip_def py_rstrip_def is_space_def py_lower_def lower_char_def)
  then show ?thesis
    by (simp add: is_response_format_unsupported_def terse_provider_def str_or_empty_def dget_or_def)
qed

lemma terse_text: "clean_chat_text (lit ''{}'') = lit ''{}''"
  by (simp add: clean_chat_text_def lit_def starts_with_def py_strip_def py_lstrip_def py_rstrip_def is_space_def
      lstrip_char_def drop_open_fence_def drop_close_fence_def text_ends_def FENCE_def)

lemma terse_parse:
  "parse_json_response terse_provider [\<lparr>cc_finish_reason = PyStr (lit ''stop''), cc_message = Some (ContentValue (PyStr (lit ''{}'')))\<rparr>] = Inr []"
  by (simp add: parse_json_response_def decode_content_def extract_chat_completion_text_def str_or_empty_def terse_text)
    (simp add: terse_provider_def)

lemma terse_negotiate:
  "negotiate (recording terse_provider) ms q cap (Some rf) (7, sent) =
     (fst (create_completion terse_provider ms q cap None 8), None,
      (9, sent @ sent_requests terse_provider ms q [(cap, Some rf), (cap, None)]))"
  "negotiate (recording terse_provider) ms q cap None (9, sent) =
     (fst (create_completion terse_provider ms q cap None 9), None, (10, sent @ sent_requests terse_provider ms q [(cap, None)]))"
  by (simp_all add: negotiate.simps create_recording terse_create terse_rejects sent_requests_def)

lemma terse_run:
  "chat_json (recording terse_provider) [] None (Some 4096) 2 (7, []) =
     (Inr [], (10, sent_requests terse_provider [] None [(Some 4096, Some JSON_MODE), (Some 4096, None), (None, None)]))"
proof -
  have trunc: "parse_json_response terse_provider
      [\<lparr>cc_finish_reason = PyStr (lit ''length''), cc_message = c\<rparr>] = Inl (llm_error m (PyStr (lit ''length'')))"
    if "m = lit ''LLM JSON output was truncated at the token limit''" for c m
    using that by (simp add: parse_json_response_def)
  show ?thesis
    by (simp add: chat_json_def numeral_2_eq_2 terse_negotiate terse_create terse_parse trunc JSON_MODE_def sent_requests_def)
qed


end
