(* ===== verification/Report_Text.thy ===== *)
theory Report_Text
  imports Py_Text "HOL-Library.Sublist"
begin

text \<open>
  The text processing of \<^verbatim>\<open>ReportManager\<close> in \<^verbatim>\<open>app/services/report_agent.py\<close>: cleaning the Markdown of
  one section and post-processing an assembled report.  Titles come out of a language model's JSON
  answer, so they are JSON values; a title that is not a string raises where the code calls a string
  method on it.
\<close>

section \<open>Headings\<close>

text \<open>
  \<^verbatim>\<open>re.match(r'^(#{1,6})\s+(.+)$', stripped)\<close> on a stripped line without newlines: the level and the
  stripped title.
\<close>

definition heading_of :: "pystr \<Rightarrow> (nat \<times> pystr) option" where
  "heading_of s =
     (let hashes = takeWhile (\<lambda>c. c = 35) s; r = dropWhile (\<lambda>c. c = 35) s in
      if 1 \<le> length hashes \<and> length hashes \<le> 6 \<and> r \<noteq> [] \<and> is_space (hd r) \<and> py_strip r \<noteq> []
      then Some (length hashes, py_strip r) else None)"

abbreviation line_heading :: "pystr \<Rightarrow> (nat \<times> pystr) option" where
  "line_heading line \<equiv> heading_of (py_strip line)"

definition bold :: "pystr \<Rightarrow> pystr" where
  "bold s = lit ''**'' @ s @ lit ''**''"

abbreviation blank :: "pystr \<Rightarrow> bool" where
  "blank line \<equiv> py_strip line = []"

definition is_rule :: "pystr \<Rightarrow> bool" where
  "is_rule line \<longleftrightarrow> py_strip line \<in> set [lit ''---'', lit ''***'', lit ''___'']"

section \<open>Sections\<close>

definition same_title :: "pyval \<Rightarrow> pystr \<Rightarrow> bool res" where
  "same_title section_title title_text =
     (case section_title of
        PyStr s \<Rightarrow> Inr (title_text = s \<or> replace_sub [32] [] title_text = replace_sub [32] [] s)
      | _ \<Rightarrow> Inl (Exn AttributeErr (lit ''object has no attribute replace'')))"

text \<open>The loop over the lines: \<open>i\<close> is the index of the line, \<open>skip\<close> the flag \<^verbatim>\<open>skip_next_empty\<close>.\<close>

fun clean_lines :: "pyval \<Rightarrow> nat \<Rightarrow> bool \<Rightarrow> pystr list \<Rightarrow> pystr list res" where
  "clean_lines section_title i skip [] = Inr []"
| "clean_lines section_title i skip (line # lines) =
     (case line_heading line of
        Some (level, title_text) \<Rightarrow>
          bind_res (if i < 5 then same_title section_title title_text else Inr False) (\<lambda>same.
          if same then clean_lines section_title (Suc i) True lines
          else bind_res (clean_lines section_title (Suc i) skip lines) (\<lambda>rest. Inr (bold title_text # [] # rest)))
      | None \<Rightarrow>
          if skip \<and> blank line then clean_lines section_title (Suc i) False lines
          else bind_res (clean_lines section_title (Suc i) False lines) (\<lambda>rest. Inr (line # rest)))"

function drop_rules :: "pystr list \<Rightarrow> pystr list" where
  "drop_rules [] = []"
| "drop_rules (line # lines) =
     (if is_rule line then drop_rules (dropWhile blank lines) else line # lines)"
  by pat_completeness auto
termination
  by (relation "measure length") (auto simp: less_Suc_eq_le length_dropWhile_le)

definition clean_section_content :: "pystr \<Rightarrow> pyval \<Rightarrow> pystr res" where
  "clean_section_content content section_title =
     (if content = [] then Inr content
      else bind_res (clean_lines section_title 0 False (split_on 10 (py_strip content))) (\<lambda>cleaned.
        Inr (py_join [10] (drop_rules (dropWhile blank cleaned)))))"

section \<open>Whole reports\<close>

definition recent_heading :: "pystr \<Rightarrow> pystr list \<Rightarrow> bool" where
  "recent_heading title processed =
     list_ex (\<lambda>p. case line_heading p of Some (_, t) \<Rightarrow> t = title | None \<Rightarrow> False)
       (drop (length processed - 5) processed)"

text \<open>What a heading that is not a duplicate becomes, and the new value of \<^verbatim>\<open>prev_was_heading\<close>.\<close>

definition place_heading :: "pyval \<Rightarrow> pyval list \<Rightarrow> pystr \<Rightarrow> nat \<Rightarrow> pystr \<Rightarrow> pystr list \<times> bool" where
  "place_heading main_title section_titles line level title =
     (if level = 1 then
        if PyStr title = main_title then ([line], True)
        else if PyStr title \<in> set section_titles then ([lit ''## '' @ title], True)
        else ([bold title, []], False)
      else if level = 2 then
        if PyStr title \<in> set section_titles \<or> PyStr title = main_title then ([line], True)
        else ([bold title, []], False)
      else ([bold title, []], False))"

function post_lines :: "pyval \<Rightarrow> pyval list \<Rightarrow> pystr list \<Rightarrow> bool \<Rightarrow> pystr list \<Rightarrow> pystr list" where
  "post_lines main_title section_titles processed prev [] = processed"
| "post_lines main_title section_titles processed prev (line # lines) =
     (case line_heading line of
        Some (level, title) \<Rightarrow>
          if recent_heading title processed
          then post_lines main_title section_titles processed prev (dropWhile blank lines)
          else (let (new, prev) = place_heading main_title section_titles line level title
                in post_lines main_title section_titles (processed @ new) prev lines)
      | None \<Rightarrow>
          if py_strip line = lit ''---'' \<and> prev
          then post_lines main_title section_titles processed prev lines
          else if blank line \<and> prev
          then post_lines main_title section_titles
                 (if processed \<noteq> [] \<and> \<not> blank (last processed) then processed @ [line] else processed) False lines
          else post_lines main_title section_titles (processed @ [line]) False lines)"
  by pat_completeness auto
termination
  by (relation "measure (\<lambda>(m, s, p, b, ls). length ls)") (auto simp: less_Suc_eq_le length_dropWhile_le)

fun squeeze_blanks :: "nat \<Rightarrow> pystr list \<Rightarrow> pystr list" where
  "squeeze_blanks k [] = []"
| "squeeze_blanks k (line # lines) =
     (if blank line then (if Suc k \<le> 2 then line # squeeze_blanks (Suc k) lines else squeeze_blanks (Suc k) lines)
      else line # squeeze_blanks 0 lines)"

fun py_hashable :: "pyval \<Rightarrow> bool" where
  "py_hashable (PyList _) = False"
| "py_hashable (PyDict _) = False"
| "py_hashable _ = True"

definition post_process_report :: "pyval \<Rightarrow> pyval list \<Rightarrow> pystr \<Rightarrow> pystr res" where
  "post_process_report main_title section_titles content =
     (if list_all py_hashable section_titles
      then Inr (py_join [10] (squeeze_blanks 0 (post_lines main_title section_titles [] False (split_on 10 content))))
      else Inl (Exn TypeErr (lit ''unhashable type'')))"

section \<open>Lines\<close>

lemma split_on_nonempty [simp]: "split_on c s \<noteq> []"
  by (cases s) (auto split: list.splits)

lemma split_on_no_sep: "l \<in> set (split_on c s) \<Longrightarrow> c \<notin> set l"
proof (induction s arbitrary: l)
  case (Cons x xs)
  then show ?case
    by (cases "split_on c xs") (auto split: if_splits)
qed simp

lemma split_on_id: "c \<notin> set s \<Longrightarrow> split_on c s = [s]"
  by (induction s) auto

lemma split_on_append_sep: "c \<notin> set a \<Longrightarrow> split_on c (a @ c # b) = a # split_on c b"
  by (induction a) auto

lemma split_on_join: "ls \<noteq> [] \<Longrightarrow> (\<And>l. l \<in> set ls \<Longrightarrow> c \<notin> set l) \<Longrightarrow> split_on c (py_join [c] ls) = ls"
proof (induction "[c]" ls rule: py_join.induct)
  case (3 x y ys)
  then show ?case by (simp add: split_on_append_sep)
qed (auto simp: split_on_id)

section \<open>Headings of a report\<close>

lemma is_space_facts [simp]: "\<not> is_space 35" "\<not> is_space 42" "\<not> is_space 45" "\<not> is_space 62" "is_space 32" "is_space 10"
  by (simp_all add: is_space_def)

lemma last_py_strip: "py_strip s \<noteq> [] \<Longrightarrow> \<not> is_space (last (py_strip s))"
  unfolding py_strip_def py_rstrip_def by (metis hd_dropWhile last_rev rev_is_Nil_conv)

lemma hd_py_strip: "py_strip s \<noteq> [] \<Longrightarrow> \<not> is_space (hd (py_strip s))"
  unfolding py_strip_def by (metis hd_dropWhile py_lstrip_def py_lstrip_idem_rstrip)

lemma py_strip_framed:
  assumes "\<not> is_space c" and "py_strip t = t" and "t \<noteq> []"
  shows "py_strip (c # s @ t) = c # s @ t"
proof -
  obtain u x where t: "t = u @ [x]"
    using assms(3) by (metis append_butlast_last_id)
  then have "\<not> is_space x"
    using last_py_strip [of t] assms(2) by simp
  then show ?thesis
    by (simp add: t py_strip_def py_lstrip_def py_rstrip_def assms(1))
qed

lemma heading_title:
  assumes "heading_of s = Some (level, title)"
  shows "py_strip title = title" "title \<noteq> []" "set title \<subseteq> set s"
proof -
  let ?r = "dropWhile (\<lambda>c. c = 35) s"
  have t: "title = py_strip ?r" "title \<noteq> []"
    using assms by (auto simp: heading_of_def Let_def split: if_splits)
  then show "py_strip title = title" "title \<noteq> []" by simp_all
  show "set title \<subseteq> set s"
    using t(1) set_py_strip [of ?r] by (auto dest: set_dropWhileD)
qed

lemma heading_restored: "heading_of s = Some (level, title) \<Longrightarrow> line_heading (lit ''## '' @ title) = Some (2, title)"
  using heading_title [of s level title] py_strip_framed [of 35 title "[35, 32]"]
  by (simp add: lit_def heading_of_def py_strip_def py_lstrip_def Let_def) 

lemma heading_of_Nil [simp]: "heading_of [] = None"
  by (simp add: heading_of_def)

lemma no_heading [simp]: "line_heading (bold t) = None" "line_heading [] = None"
proof -
  have "py_strip (bold t) = bold t"
    using py_strip_framed [of 42 "[42, 42]" "42 # t"]
    by (simp add: bold_def lit_def py_strip_def py_lstrip_def py_rstrip_def)
  then show "line_heading (bold t) = None"
    by (simp add: heading_of_def bold_def lit_def)
qed (simp add: heading_of_def py_strip_def py_lstrip_def py_rstrip_def)

text \<open>The headings a finished report may have: its title, at level one or two, and section titles at level two.\<close>

definition allowed_heading :: "pyval \<Rightarrow> pyval list \<Rightarrow> nat \<Rightarrow> pystr \<Rightarrow> bool" where
  "allowed_heading main_title section_titles level title \<longleftrightarrow>
     level = 1 \<and> PyStr title = main_title
     \<or> level = 2 \<and> (PyStr title \<in> set section_titles \<or> PyStr title = main_title)"

definition allowed_line :: "pyval \<Rightarrow> pyval list \<Rightarrow> pystr \<Rightarrow> bool" where
  "allowed_line main_title section_titles line =
     (case line_heading line of Some (level, title) \<Rightarrow> allowed_heading main_title section_titles level title | None \<Rightarrow> True)"

lemma place_heading_allowed:
  assumes "line_heading line = Some (level, title)" and "place_heading m ts line level title = (new, prev)" and "l \<in> set new"
  shows "allowed_line m ts l"
  using assms heading_restored [OF assms(1)]
  by (auto simp: place_heading_def allowed_line_def allowed_heading_def split: if_splits)

lemma post_lines_allowed:
  "list_all (allowed_line m ts) processed \<Longrightarrow> list_all (allowed_line m ts) (post_lines m ts processed prev lines)"
proof (induction m ts processed prev lines rule: post_lines.induct)
  case (2 m ts processed prev line lines)
  show ?case
  proof (cases "line_heading line")
    case None
    then have "allowed_line m ts line" by (simp add: allowed_line_def)
    with 2 None show ?thesis by auto
  next
    case (Some ht)
    then obtain level title where h: "line_heading line = Some (level, title)" by (cases ht) auto
    obtain new prev' where p: "place_heading m ts line level title = (new, prev')" by fastforce
    have "list_all (allowed_line m ts) new"
      using place_heading_allowed [OF h p] by (simp add: list_all_iff)
    with 2 h p show ?thesis by auto
  qed
qed simp

lemma set_squeeze_blanks: "set (squeeze_blanks k lines) \<subseteq> set lines"
  by (induction k lines rule: squeeze_blanks.induct) auto

section \<open>Blank lines\<close>

text \<open>No more than \<open>k\<close> blank lines at the start, and never more than two in a row.\<close>

fun blank_runs_ok :: "nat \<Rightarrow> pystr list \<Rightarrow> bool" where
  "blank_runs_ok k [] = True"
| "blank_runs_ok k (line # lines) =
     (if blank line then 0 < k \<and> blank_runs_ok (k - 1) lines else blank_runs_ok 2 lines)"

lemma squeeze_blanks_ok: "blank_runs_ok (2 - k) (squeeze_blanks k lines)"
proof (induction k lines rule: squeeze_blanks.induct)
  case (2 k line lines)
  then show ?case
    by (cases "k < 2") auto
qed simp

lemma blank_runs_okD: "blank_runs_ok k lines \<Longrightarrow> k \<le> 2 \<Longrightarrow> lines = a @ x # y # z # b \<Longrightarrow> \<not> (blank x \<and> blank y \<and> blank z)"
proof (induction k lines arbitrary: a rule: blank_runs_ok.induct)
  case (2 k line lines)
  show ?case
  proof (cases a)
    case Nil
    with 2 show ?thesis by (auto split: if_splits)
  next
    case (Cons c a')
    with 2(3-5) show ?thesis
      using 2(1) [of a'] 2(2) [of a'] by (auto split: if_splits)
  qed
qed simp

section \<open>Prose\<close>

text \<open>
  The prose of a text: its lines, stripped, less blank lines, headings and horizontal rules.
\<close>

definition is_prose :: "pystr \<Rightarrow> bool" where
  "is_prose line \<longleftrightarrow> line \<noteq> [] \<and> heading_of line = None \<and> \<not> is_rule line"

definition prose_lines :: "pystr list \<Rightarrow> pystr list" where
  "prose_lines lines = filter is_prose (map py_strip lines)"

definition prose :: "pystr \<Rightarrow> pystr list" where
  "prose s = prose_lines (split_on 10 s)"

lemma prose_lines_simps [simp]:
  "prose_lines [] = []"
  "prose_lines (l # ls) = (if is_prose (py_strip l) then py_strip l # prose_lines ls else prose_lines ls)"
  "prose_lines (ls @ ms) = prose_lines ls @ prose_lines ms"
  by (simp_all add: prose_lines_def)

lemma py_strip_Nil [simp]: "py_strip [] = []"
  by (simp add: py_strip_def py_lstrip_def py_rstrip_def)

lemma py_strip_rule [simp]: "py_strip (lit ''---'') = lit ''---''"
  by (simp add: lit_def py_strip_def py_lstrip_def py_rstrip_def)

lemma not_prose [simp]:
  "\<not> is_prose []" "\<not> is_prose (lit ''---'')"
  "line_heading l = Some h \<Longrightarrow> \<not> is_prose (py_strip l)" "is_rule l \<Longrightarrow> \<not> is_prose (py_strip l)"
  by (simp_all add: is_prose_def is_rule_def)

lemma prose_lines_blanks [simp]: "prose_lines (dropWhile blank ls) = prose_lines ls"
  by (induction ls) auto

lemma prose_lines_drop_rules [simp]: "prose_lines (drop_rules ls) = prose_lines ls"
  by (induction ls rule: drop_rules.induct) auto

lemma prose_lines_squeeze [simp]: "prose_lines (squeeze_blanks k ls) = prose_lines ls"
  by (induction k ls rule: squeeze_blanks.induct) auto

lemma post_lines_prose: "subseq (prose_lines processed @ prose_lines lines) (prose_lines (post_lines m ts processed prev lines))"
proof (induction m ts processed prev lines rule: post_lines.induct)
  case (2 m ts processed prev line lines)
  show ?case
  proof (cases "line_heading line")
    case None
    have "prose_lines (if processed \<noteq> [] \<and> \<not> blank (last processed) then processed @ [line] else processed) = prose_lines processed"
      if "blank line" using that by simp
    with 2 None show ?thesis by (auto split: if_splits)
  next
    case (Some ht)
    then obtain level title where h: "line_heading line = Some (level, title)" by (cases ht) auto
    obtain new prev' where p: "place_heading m ts line level title = (new, prev')" by fastforce
    have "subseq (prose_lines processed @ prose_lines lines) (prose_lines (processed @ new) @ prose_lines lines)"
      by (simp add: list_emb_append_mono [OF subseq_order.refl subseq_drop_many [OF subseq_order.refl]])
    moreover have "subseq (prose_lines (processed @ new) @ prose_lines lines)
        (prose_lines (post_lines m ts (processed @ new) prev' lines))" if "\<not> recent_heading title processed"
      using 2 h p that by auto
    ultimately have "subseq (prose_lines processed @ prose_lines lines)
        (prose_lines (post_lines m ts (processed @ new) prev' lines))" if "\<not> recent_heading title processed"
      using that by (blast intro: subseq_order.trans)
    with 2 h p show ?thesis by auto
  qed
qed simp

lemma clean_lines_prose: "clean_lines title i skip lines = Inr cleaned \<Longrightarrow> subseq (prose_lines lines) (prose_lines cleaned)"
proof (induction lines arbitrary: i skip cleaned)
  case (Cons line lines)
  show ?case
  proof (cases "line_heading line")
    case None
    with Cons.prems show ?thesis
      by (auto simp: exn_simps split: if_splits dest: Cons.IH)
  next
    case (Some ht)
    then obtain level t where h: "line_heading line = Some (level, t)" by (cases ht) auto
    have keep: "subseq xs (prose_lines (l # l' # rest))" if "subseq xs (prose_lines rest)" for xs l l' rest
      using that by auto
    from Cons.prems h obtain rest i' skip' where "clean_lines title i' skip' lines = Inr rest"
      "cleaned = rest \<or> cleaned = bold t # [] # rest"
      by (auto simp: exn_simps split: if_splits)
    then show ?thesis
      using h keep Cons.IH by (metis not_prose(3) prose_lines_simps(2))
  qed
qed simp

section \<open>Cleaning keeps the prose\<close>

lemma py_strip_space_Cons: "is_space c \<Longrightarrow> py_strip (c # l) = py_strip l"
  by (simp add: py_strip_def py_lstrip_def)

lemma py_strip_space_snoc: "is_space c \<Longrightarrow> py_strip (l @ [c]) = py_strip l"
proof (cases "\<forall>x \<in> set l. is_space x")
  case True
  assume "is_space c"
  with True have "py_strip (l @ [c]) = []" "py_strip l = []"
    by (auto simp: py_strip_eq_Nil_iff)
  then show ?thesis by simp
next
  case False
  assume "is_space c"
  moreover from False have "dropWhile is_space (l @ [c]) = dropWhile is_space l @ [c]"
    by (auto simp: dropWhile_append)
  ultimately show ?thesis
    by (simp add: py_strip_def py_lstrip_def py_rstrip_def)
qed

lemma prose_space_Cons: "is_space c \<Longrightarrow> prose (c # s) = prose s"
  by (cases "split_on 10 s") (auto simp: prose_def py_strip_space_Cons)

lemma split_on_snoc:
  "split_on d (s @ [c]) = (if c = d then split_on d s @ [[]] else butlast (split_on d s) @ [last (split_on d s) @ [c]])"
proof (induction s)
  case (Cons x s)
  then show ?case
    by (cases "split_on d s") (auto simp: neq_Nil_conv)
qed simp

lemma prose_space_snoc: "is_space c \<Longrightarrow> prose (s @ [c]) = prose s"
proof -
  assume c: "is_space c"
  have "prose_lines (butlast ls @ [last ls @ [c]]) = prose_lines ls" if "ls \<noteq> []" for ls
    using that c by (induction ls) (auto simp: py_strip_space_snoc)
  then show ?thesis
    by (simp add: prose_def split_on_snoc)
qed

lemma prose_py_strip [simp]: "prose (py_strip s) = prose s"
proof -
  have l: "prose (dropWhile is_space t) = prose t" for t
    by (induction t) (auto simp: prose_space_Cons)
  have r: "prose (rev (dropWhile is_space t)) = prose (rev t)" for t
    by (induction t) (auto simp: prose_space_snoc)
  show ?thesis
    using l r [of "rev (py_lstrip s)"] by (simp add: py_strip_def py_lstrip_def py_rstrip_def)
qed

lemma clean_lines_no_newline:
  "clean_lines title i skip lines = Inr cleaned \<Longrightarrow> list_all (\<lambda>l. 10 \<notin> set l) lines \<Longrightarrow> list_all (\<lambda>l. 10 \<notin> set l) cleaned"
proof (induction lines arbitrary: i skip cleaned)
  case (Cons line lines)
  have "10 \<notin> set (bold t)" if "line_heading line = Some (level, t)" for level t
    using heading_title(3) [OF that] set_py_strip [of line] Cons.prems(2) by (auto simp: bold_def lit_def)
  with Cons show ?case
    by (auto simp: exn_simps split: option.splits if_splits)
qed simp

lemma prose_join: "list_all (\<lambda>l. 10 \<notin> set l) ls \<Longrightarrow> prose (py_join [10] ls) = prose_lines ls"
  by (cases "ls = []") (simp_all add: prose_def split_on_join list_all_iff)

lemma set_drop_rules: "set (drop_rules ls) \<subseteq> set ls"
  by (induction ls rule: drop_rules.induct) (auto dest: set_dropWhileD)

lemma clean_section_prose:
  assumes "clean_section_content content title = Inr cleaned"
  shows "subseq (prose content) (prose cleaned)"
proof (cases "content = []")
  case False
  with assms obtain ls where ls: "clean_lines title 0 False (split_on 10 (py_strip content)) = Inr ls"
    "cleaned = py_join [10] (drop_rules (dropWhile blank ls))"
    by (auto simp: clean_section_content_def exn_simps)
  have "list_all (\<lambda>l. 10 \<notin> set l) ls"
    using clean_lines_no_newline [OF ls(1)] split_on_no_sep by (simp add: list_all_iff)
  then have "list_all (\<lambda>l. 10 \<notin> set l) (drop_rules (dropWhile blank ls))"
    using set_drop_rules [of "dropWhile blank ls"] by (auto simp: list_all_iff dest: set_dropWhileD)
  then show ?thesis
    using clean_lines_prose [OF ls(1)] by (simp add: ls(2) prose_join prose_def [symmetric])
qed (use assms in \<open>simp add: clean_section_content_def\<close>)

section \<open>A post-processed report\<close>

lemma place_heading_no_newline:
  assumes "line_heading line = Some (level, title)" and "10 \<notin> set line" and "place_heading m ts line level title = (new, prev)"
  shows "list_all (\<lambda>l. 10 \<notin> set l) new"
  using assms heading_title(3) [OF assms(1)] set_py_strip [of line]
  by (auto simp: place_heading_def bold_def lit_def split: if_splits)

abbreviation single_lines :: "pystr list \<Rightarrow> bool" where
  "single_lines ls \<equiv> list_all (\<lambda>l. 10 \<notin> set l) ls"

lemma single_lines_dropWhile: "single_lines ls \<Longrightarrow> single_lines (dropWhile P ls)"
  by (auto simp: list_all_iff dest: set_dropWhileD)

lemma post_lines_no_newline:
  "single_lines processed \<Longrightarrow> single_lines lines \<Longrightarrow> single_lines (post_lines m ts processed prev lines)"
proof (induction m ts processed prev lines rule: post_lines.induct)
  case (2 m ts processed prev line lines)
  then have line: "10 \<notin> set line" by simp
  show ?case
  proof (cases "line_heading line")
    case None
    with 2 show ?thesis by auto
  next
    case (Some ht)
    then obtain level title where h: "line_heading line = Some (level, title)" by (cases ht) auto
    obtain new prev' where p: "place_heading m ts line level title = (new, prev')" by fastforce
    have "single_lines new"
      by (rule place_heading_no_newline [OF h line p])
    with 2 h p show ?thesis by (simp add: single_lines_dropWhile)
  qed
qed simp

lemma post_process_report_lines:
  assumes "post_process_report m ts content = Inr r"
  shows "list_all (allowed_line m ts) (split_on 10 r)" "blank_runs_ok 2 (split_on 10 r)" "subseq (prose content) (prose r)"
proof -
  let ?p = "post_lines m ts [] False (split_on 10 content)"
  let ?ls = "squeeze_blanks 0 ?p"
  have r: "r = py_join [10] ?ls"
    using assms by (auto simp: post_process_report_def split: if_splits)
  have "list_all (\<lambda>l. 10 \<notin> set l) ?p"
    by (rule post_lines_no_newline) (auto simp: list_all_iff dest: split_on_no_sep)
  then have nl: "list_all (\<lambda>l. 10 \<notin> set l) ?ls"
    using set_squeeze_blanks [of 0 ?p] by (auto simp: list_all_iff)
  then have split: "split_on 10 r = (if ?ls = [] then [[]] else ?ls)"
    by (simp add: r split_on_join list_all_iff)
  have "list_all (allowed_line m ts) ?ls"
    using post_lines_allowed [of m ts "[]" False "split_on 10 content"] set_squeeze_blanks [of 0 ?p]
    by (auto simp: list_all_iff)
  then show "list_all (allowed_line m ts) (split_on 10 r)"
    by (simp add: split allowed_line_def)
  show "blank_runs_ok 2 (split_on 10 r)"
    using squeeze_blanks_ok [of 0 ?p] by (simp add: split)
  show "subseq (prose content) (prose r)"
    using post_lines_prose [of "[]" "split_on 10 content" m ts False]
    by (simp add: r prose_join [OF nl]) (simp add: prose_def)
qed

lemma split_on_append: "split_on c (a @ c # b) = split_on c a @ split_on c b"
proof (induction a)
  case (Cons x a)
  then show ?case by (cases "split_on c a") auto
qed simp

lemma prose_append_newline: "prose (a @ 10 # b) = prose a @ prose b"
  by (simp add: prose_def split_on_append)

end
