(* ===== verification/Report_Store.thy ===== *)
theory Report_Store
  imports Report_Text Project_Store
begin

text \<open>
  Reports on disk: the data classes and \<^verbatim>\<open>ReportManager\<close> of \<^verbatim>\<open>app/services/report_agent.py\<close>.

  The directory \<^verbatim>\<open>uploads/reports\<close> is an association list of its entries in listing order.  A
  report has a folder with JSON documents, text files and the two logs; old reports are single
  JSON files.  Report identifiers are single path components.  Text files are read with universal
  newlines, as \<^verbatim>\<open>open(path, 'r')\<close> does; writes into an existing folder succeed.  \<^verbatim>\<open>str\<close> of a JSON value
  that is not a string and \<^verbatim>\<open>int\<close> of a string are arguments.
\<close>

section \<open>Data\<close>

datatype ReportStatus = REPORT_PENDING | REPORT_PLANNING | REPORT_GENERATING | REPORT_COMPLETED | REPORT_FAILED

fun report_status_value :: "ReportStatus \<Rightarrow> pystr" where
  "report_status_value REPORT_PENDING = lit ''pending''"
| "report_status_value REPORT_PLANNING = lit ''planning''"
| "report_status_value REPORT_GENERATING = lit ''generating''"
| "report_status_value REPORT_COMPLETED = lit ''completed''"
| "report_status_value REPORT_FAILED = lit ''failed''"

definition parse_report_status :: "pyval \<Rightarrow> ReportStatus res" where
  "parse_report_status v =
     (case find (\<lambda>st. PyStr (report_status_value st) = v)
        [REPORT_PENDING, REPORT_PLANNING, REPORT_GENERATING, REPORT_COMPLETED, REPORT_FAILED] of
        Some st \<Rightarrow> Inr st
      | None \<Rightarrow> Inl (Exn ValueError (lit ''not a valid ReportStatus'')))"

record ReportSection =
  sec_title :: pyval
  sec_content :: pyval

record ReportOutline =
  out_title :: pyval
  out_summary :: pyval
  out_sections :: "ReportSection list"

record Report =
  rp_report_id :: pyval
  rp_simulation_id :: pyval
  rp_graph_id :: pyval
  rp_simulation_requirement :: pyval
  rp_status :: ReportStatus
  rp_outline :: "ReportOutline option"
  rp_markdown :: pyval
  rp_created_at :: pyval
  rp_completed_at :: pyval
  rp_error :: pyval

definition section_to_dict :: "ReportSection \<Rightarrow> pydict" where
  "section_to_dict s = [(lit ''title'', sec_title s), (lit ''content'', sec_content s)]"

definition outline_to_dict :: "ReportOutline \<Rightarrow> pydict" where
  "outline_to_dict outline =
     [(lit ''title'', out_title outline), (lit ''summary'', out_summary outline),
      (lit ''sections'', PyList (map (\<lambda>s. PyDict (section_to_dict s)) (out_sections outline)))]"

definition report_to_dict :: "Report \<Rightarrow> pydict" where
  "report_to_dict r =
     [(lit ''report_id'', rp_report_id r), (lit ''simulation_id'', rp_simulation_id r),
      (lit ''graph_id'', rp_graph_id r), (lit ''simulation_requirement'', rp_simulation_requirement r),
      (lit ''status'', PyStr (report_status_value (rp_status r))),
      (lit ''outline'', case rp_outline r of Some outline \<Rightarrow> PyDict (outline_to_dict outline) | None \<Rightarrow> PyNone),
      (lit ''markdown_content'', rp_markdown r), (lit ''created_at'', rp_created_at r),
      (lit ''completed_at'', rp_completed_at r), (lit ''error'', rp_error r)]"

definition fstr :: "(pyval \<Rightarrow> pystr) \<Rightarrow> pyval \<Rightarrow> pystr" where
  "fstr str v = (case v of PyStr s \<Rightarrow> s | _ \<Rightarrow> str v)"

definition section_to_markdown :: "(pyval \<Rightarrow> pystr) \<Rightarrow> nat \<Rightarrow> ReportSection \<Rightarrow> pystr" where
  "section_to_markdown str level s =
     replicate level 35 @ lit '' '' @ fstr str (sec_title s) @ [10, 10]
     @ (if truthy (sec_content s) then fstr str (sec_content s) @ [10, 10] else [])"

definition outline_to_markdown :: "(pyval \<Rightarrow> pystr) \<Rightarrow> ReportOutline \<Rightarrow> pystr" where
  "outline_to_markdown str outline =
     lit ''# '' @ fstr str (out_title outline) @ [10, 10] @ lit ''> '' @ fstr str (out_summary outline) @ [10, 10]
     @ concat (map (section_to_markdown str 2) (out_sections outline))"

section \<open>Folders\<close>

record report_folder =
  rf_meta :: "json_file option"
  rf_outline :: "json_file option"
  rf_progress :: "json_file option"
  rf_texts :: "(pystr \<times> pystr) list"
  rf_agent_log :: "json_file list option"

datatype report_entry = Folder report_folder | LegacyJson json_file | LegacyFile

type_synonym reports = "(pystr \<times> report_entry) list"

definition empty_folder :: report_folder where
  "empty_folder = \<lparr>rf_meta = None, rf_outline = None, rf_progress = None, rf_texts = [], rf_agent_log = None\<rparr>"

definition folder_of :: "reports \<Rightarrow> pystr \<Rightarrow> report_folder option" where
  "folder_of fs report_id = (case dget fs report_id of Some (Folder d) \<Rightarrow> Some d | _ \<Rightarrow> None)"

definition ensure_report_folder :: "pystr \<Rightarrow> reports \<Rightarrow> unit res \<times> reports" where
  "ensure_report_folder report_id fs =
     (case dget fs report_id of
        None \<Rightarrow> (Inr (), dset fs report_id (Folder empty_folder))
      | Some (Folder _) \<Rightarrow> (Inr (), fs)
      | Some _ \<Rightarrow> (Inl (Exn OSErr (lit ''File exists'')), fs))"

definition change_folder :: "pystr \<Rightarrow> (report_folder \<Rightarrow> report_folder) \<Rightarrow> reports \<Rightarrow> unit res \<times> reports" where
  "change_folder report_id f fs =
     (case folder_of fs report_id of
        Some d \<Rightarrow> (Inr (), dset fs report_id (Folder (f d)))
      | None \<Rightarrow> (Inl no_such_file, fs))"

definition in_folder :: "pystr \<Rightarrow> (report_folder \<Rightarrow> report_folder) \<Rightarrow> reports \<Rightarrow> unit res \<times> reports" where
  "in_folder report_id f fs = st_bind (ensure_report_folder report_id fs) (\<lambda>_. change_folder report_id f)"

definition put_text :: "pystr \<Rightarrow> pystr \<Rightarrow> report_folder \<Rightarrow> report_folder" where
  "put_text name s d = d\<lparr>rf_texts := dset (rf_texts d) name s\<rparr>"

text \<open>Universal newlines, and the lines of an open text file without their terminators.\<close>

definition read_text :: "pystr \<Rightarrow> pystr" where
  "read_text s = replace_cr (replace_crlf s)"

definition text_lines :: "pystr \<Rightarrow> pystr list" where
  "text_lines s = (let ls = split_on 10 (read_text s) in if last ls = [] then butlast ls else ls)"

definition FULL_REPORT :: pystr where "FULL_REPORT = lit ''full_report.md''"

definition CONSOLE_LOG :: pystr where "CONSOLE_LOG = lit ''console_log.txt''"

section \<open>Logs\<close>

record log_page =
  lp_logs :: "pyval list"
  lp_total_lines :: nat
  lp_from_line :: int
  lp_has_more :: bool

definition from_index :: "int \<Rightarrow> 'a list \<Rightarrow> 'a list" where
  "from_index from_line xs = map snd (filter (\<lambda>(i, _). int i \<ge> from_line) (zip [0 ..< length xs] xs))"

definition get_console_log :: "reports \<Rightarrow> pystr \<Rightarrow> int \<Rightarrow> log_page" where
  "get_console_log fs report_id from_line =
     (case folder_of fs report_id of
        None \<Rightarrow> \<lparr>lp_logs = [], lp_total_lines = 0, lp_from_line = 0, lp_has_more = False\<rparr>
      | Some d \<Rightarrow>
          (case dget (rf_texts d) CONSOLE_LOG of
             None \<Rightarrow> \<lparr>lp_logs = [], lp_total_lines = 0, lp_from_line = 0, lp_has_more = False\<rparr>
           | Some s \<Rightarrow>
               \<lparr>lp_logs = map PyStr (from_index from_line (text_lines s)), lp_total_lines = length (text_lines s),
                lp_from_line = from_line, lp_has_more = False\<rparr>))"

definition get_console_log_stream :: "reports \<Rightarrow> pystr \<Rightarrow> pyval list" where
  "get_console_log_stream fs report_id = lp_logs (get_console_log fs report_id 0)"

definition parsed :: "json_file \<Rightarrow> pyval option" where
  "parsed f = (case f of Json v \<Rightarrow> Some v | NotJson \<Rightarrow> None)"

definition get_agent_log :: "reports \<Rightarrow> pystr \<Rightarrow> int \<Rightarrow> log_page" where
  "get_agent_log fs report_id from_line =
     (case folder_of fs report_id of
        None \<Rightarrow> \<lparr>lp_logs = [], lp_total_lines = 0, lp_from_line = 0, lp_has_more = False\<rparr>
      | Some d \<Rightarrow>
          (case rf_agent_log d of
             None \<Rightarrow> \<lparr>lp_logs = [], lp_total_lines = 0, lp_from_line = 0, lp_has_more = False\<rparr>
           | Some ls \<Rightarrow>
               \<lparr>lp_logs = List.map_filter parsed (from_index from_line ls), lp_total_lines = length ls,
                lp_from_line = from_line, lp_has_more = False\<rparr>))"

definition get_agent_log_stream :: "reports \<Rightarrow> pystr \<Rightarrow> pyval list" where
  "get_agent_log_stream fs report_id = lp_logs (get_agent_log fs report_id 0)"

section \<open>Outline, sections and progress\<close>

definition save_outline :: "pystr \<Rightarrow> ReportOutline \<Rightarrow> reports \<Rightarrow> unit res \<times> reports" where
  "save_outline report_id outline =
     in_folder report_id (\<lambda>d. d\<lparr>rf_outline := Some (Json (PyDict (outline_to_dict outline)))\<rparr>)"

definition section_file :: "nat \<Rightarrow> pystr" where
  "section_file n = lit ''section_'' @ (if n < 10 then lit ''0'' else []) @ nat_digits n @ lit ''.md''"

definition section_text :: "(pyval \<Rightarrow> pystr) \<Rightarrow> ReportSection \<Rightarrow> pystr res" where
  "section_text str section =
     bind_res (case sec_content section of
                 PyStr s \<Rightarrow> clean_section_content s (sec_title section)
               | v \<Rightarrow> if truthy v then Inl (Exn AttributeErr (lit ''object has no attribute strip'')) else Inr [])
       (\<lambda>cleaned_content.
          Inr (lit ''## '' @ fstr str (sec_title section) @ [10, 10]
               @ (if cleaned_content \<noteq> [] then cleaned_content @ [10, 10] else [])))"

definition save_section :: "(pyval \<Rightarrow> pystr) \<Rightarrow> pystr \<Rightarrow> nat \<Rightarrow> ReportSection \<Rightarrow> reports \<Rightarrow> unit res \<times> reports" where
  "save_section str report_id section_index section fs =
     st_bind (ensure_report_folder report_id fs) (\<lambda>_ fs.
     st_bind (section_text str section, fs) (\<lambda>md_content.
       change_folder report_id (put_text (section_file section_index) md_content)))"

definition update_progress ::
  "pystr \<Rightarrow> pystr \<Rightarrow> pystr \<Rightarrow> int \<Rightarrow> pystr \<Rightarrow> pyval \<Rightarrow> pyval list \<Rightarrow> reports \<Rightarrow> unit res \<times> reports" where
  "update_progress now report_id status progress message current_section completed_sections =
     in_folder report_id (\<lambda>d. d\<lparr>rf_progress := Some (Json (PyDict
       [(lit ''status'', PyStr status), (lit ''progress'', PyInt progress), (lit ''message'', PyStr message),
        (lit ''current_section'', current_section), (lit ''completed_sections'', PyList completed_sections),
        (lit ''updated_at'', PyStr now)]))\<rparr>)"

definition get_progress :: "reports \<Rightarrow> pystr \<Rightarrow> pyval option res" where
  "get_progress fs report_id =
     (case folder_of fs report_id of
        None \<Rightarrow> Inr None
      | Some d \<Rightarrow>
          (case rf_progress d of None \<Rightarrow> Inr None | Some f \<Rightarrow> bind_res (json_load f) (\<lambda>v. Inr (Some v))))"

definition is_section_file :: "pystr \<Rightarrow> bool" where
  "is_section_file name \<longleftrightarrow> starts_with (lit ''section_'') name \<and> text_ends (lit ''.md'') name"

definition section_number :: "(pystr \<Rightarrow> int option) \<Rightarrow> pystr \<Rightarrow> int res" where
  "section_number parse_int name =
     (case drop 1 (split_str (lit ''_'') (replace_sub (lit ''.md'') [] name)) of
        [] \<Rightarrow> Inl (Exn IndexErr (lit ''list index out of range''))
      | part # _ \<Rightarrow>
          (case parse_int part of
             Some n \<Rightarrow> Inr n
           | None \<Rightarrow> Inl (Exn ValueError (lit ''invalid literal for int() with base 10''))))"

record generated_section =
  gs_filename :: pystr
  gs_index :: int
  gs_content :: pystr

definition get_generated_sections :: "(pystr \<Rightarrow> int option) \<Rightarrow> reports \<Rightarrow> pystr \<Rightarrow> generated_section list res" where
  "get_generated_sections parse_int fs report_id =
     (case folder_of fs report_id of
        None \<Rightarrow> Inr []
      | Some d \<Rightarrow>
          map_res (\<lambda>name. bind_res (section_number parse_int name) (\<lambda>n.
              Inr \<lparr>gs_filename = name, gs_index = n, gs_content = read_text (dget_or (rf_texts d) name [])\<rparr>))
            (filter is_section_file (sort (map fst (rf_texts d)))))"

definition report_header :: "(pyval \<Rightarrow> pystr) \<Rightarrow> ReportOutline \<Rightarrow> pystr" where
  "report_header str outline =
     lit ''# '' @ fstr str (out_title outline) @ [10, 10] @ lit ''> '' @ fstr str (out_summary outline) @ [10, 10]
     @ lit ''---'' @ [10, 10]"

definition assemble_full_report ::
  "(pyval \<Rightarrow> pystr) \<Rightarrow> (pystr \<Rightarrow> int option) \<Rightarrow> pystr \<Rightarrow> ReportOutline \<Rightarrow> reports \<Rightarrow> pystr res \<times> reports" where
  "assemble_full_report str parse_int report_id outline fs =
     st_bind (get_generated_sections parse_int fs report_id, fs) (\<lambda>sections fs.
     st_bind (post_process_report (out_title outline) (map sec_title (out_sections outline))
                (report_header str outline @ concat (map gs_content sections)), fs) (\<lambda>md_content fs.
     st_bind (change_folder report_id (put_text FULL_REPORT md_content) fs) (\<lambda>_ fs. (Inr md_content, fs))))"

section \<open>Reports\<close>

definition save_report :: "Report \<Rightarrow> reports \<Rightarrow> unit res \<times> reports" where
  "save_report r fs =
     (case rp_report_id r of
        PyStr report_id \<Rightarrow>
          st_bind (in_folder report_id (\<lambda>d. d\<lparr>rf_meta := Some (Json (PyDict (report_to_dict r)))\<rparr>) fs) (\<lambda>_ fs.
          st_bind (case rp_outline r of Some outline \<Rightarrow> save_outline report_id outline fs | None \<Rightarrow> (Inr (), fs)) (\<lambda>_ fs.
            case rp_markdown r of
              PyStr s \<Rightarrow> if s = [] then (Inr (), fs) else change_folder report_id (put_text FULL_REPORT s) fs
            | v \<Rightarrow> if truthy v then (Inl (Exn TypeErr (lit ''write() argument must be str'')), fs) else (Inr (), fs)))
      | _ \<Rightarrow> (Inl (Exn TypeErr (lit ''join() argument must be str'')), fs))"

definition section_from :: "pyval \<Rightarrow> ReportSection res" where
  "section_from v =
     (case v of
        PyDict d \<Rightarrow> bind_res (require_key d ''title'') (\<lambda>title. Inr \<lparr>sec_title = title, sec_content = field_or d ''content'' (PyStr [])\<rparr>)
      | _ \<Rightarrow> Inl (Exn TypeErr (lit ''indices must be integers'')))"

text \<open>\<^verbatim>\<open>for s in outline_data.get('sections', [])\<close>: a dict yields its keys, a string its characters.\<close>

definition iterate :: "pyval \<Rightarrow> pyval list res" where
  "iterate v =
     (case v of
        PyList xs \<Rightarrow> Inr xs
      | PyDict d \<Rightarrow> Inr (map (PyStr \<circ> fst) d)
      | PyStr s \<Rightarrow> Inr (map (\<lambda>c. PyStr [c]) s)
      | _ \<Rightarrow> Inl (Exn TypeErr (lit ''object is not iterable'')))"

definition outline_from :: "pyval \<Rightarrow> ReportOutline option res" where
  "outline_from v =
     (if truthy v then
        bind_res (as_dict v) (\<lambda>d.
        bind_res (iterate (field_or d ''sections'' (PyList []))) (\<lambda>xs.
        bind_res (map_res section_from xs) (\<lambda>sections.
        bind_res (require_key d ''title'') (\<lambda>title.
        bind_res (require_key d ''summary'') (\<lambda>summary.
          Inr (Some \<lparr>out_title = title, out_summary = summary, out_sections = sections\<rparr>))))))
      else Inr None)"

definition legacy_json :: "reports \<Rightarrow> pystr \<Rightarrow> json_file option" where
  "legacy_json fs report_id =
     (case dget fs (report_id @ lit ''.json'') of Some (LegacyJson f) \<Rightarrow> Some f | _ \<Rightarrow> None)"

definition meta_of :: "reports \<Rightarrow> pystr \<Rightarrow> json_file option" where
  "meta_of fs report_id =
     (case Option.bind (folder_of fs report_id) rf_meta of Some f \<Rightarrow> Some f | None \<Rightarrow> legacy_json fs report_id)"

definition full_text :: "reports \<Rightarrow> pystr \<Rightarrow> pystr option" where
  "full_text fs report_id = Option.bind (folder_of fs report_id) (\<lambda>d. map_option read_text (dget (rf_texts d) FULL_REPORT))"

definition get_report :: "reports \<Rightarrow> pystr \<Rightarrow> Report option res" where
  "get_report fs report_id =
     (case meta_of fs report_id of
        None \<Rightarrow> Inr None
      | Some f \<Rightarrow>
          bind_res (json_load f) (\<lambda>v.
          bind_res (as_dict v) (\<lambda>data.
          bind_res (outline_from (field_or data ''outline'' PyNone)) (\<lambda>outline.
          let markdown = field_or data ''markdown_content'' (PyStr []);
              markdown = (if truthy markdown then markdown
                          else case full_text fs report_id of Some s \<Rightarrow> PyStr s | None \<Rightarrow> markdown) in
          bind_res (require_key data ''report_id'') (\<lambda>rid.
          bind_res (require_key data ''simulation_id'') (\<lambda>simulation_id.
          bind_res (require_key data ''graph_id'') (\<lambda>graph_id.
          bind_res (require_key data ''simulation_requirement'') (\<lambda>requirement.
          bind_res (bind_res (require_key data ''status'') parse_report_status) (\<lambda>status.
            Inr (Some \<lparr>rp_report_id = rid, rp_simulation_id = simulation_id, rp_graph_id = graph_id,
                       rp_simulation_requirement = requirement, rp_status = status, rp_outline = outline,
                       rp_markdown = markdown, rp_created_at = field_or data ''created_at'' (PyStr []),
                       rp_completed_at = field_or data ''completed_at'' (PyStr []),
                       rp_error = field_or data ''error'' PyNone\<rparr>))))))))))"

text \<open>The identifier under which an entry of the directory is looked up, if it is a report.\<close>

definition entry_id :: "pystr \<times> report_entry \<Rightarrow> pystr option" where
  "entry_id e =
     (case e of
        (name, Folder _) \<Rightarrow> Some name
      | (name, _) \<Rightarrow> if text_ends (lit ''.json'') name then Some (take (length name - 5) name) else None)"

fun first_of_simulation :: "reports \<Rightarrow> pystr \<Rightarrow> pystr list \<Rightarrow> Report option res" where
  "first_of_simulation fs simulation_id [] = Inr None"
| "first_of_simulation fs simulation_id (rid # rids) =
     bind_res (get_report fs rid) (\<lambda>found.
       case found of
         Some r \<Rightarrow> if rp_simulation_id r = PyStr simulation_id then Inr (Some r) else first_of_simulation fs simulation_id rids
       | None \<Rightarrow> first_of_simulation fs simulation_id rids)"

definition get_report_by_simulation :: "reports \<Rightarrow> pystr \<Rightarrow> Report option res" where
  "get_report_by_simulation fs simulation_id = first_of_simulation fs simulation_id (List.map_filter entry_id fs)"

fun collect_reports :: "reports \<Rightarrow> pystr option \<Rightarrow> pystr list \<Rightarrow> Report list res" where
  "collect_reports fs simulation_id [] = Inr []"
| "collect_reports fs simulation_id (rid # rids) =
     bind_res (get_report fs rid) (\<lambda>found.
     bind_res (collect_reports fs simulation_id rids) (\<lambda>rest.
       Inr (case found of
              Some r \<Rightarrow> if simulation_id = None \<or> rp_simulation_id r = PyStr (the simulation_id) then r # rest else rest
            | None \<Rightarrow> rest)))"

definition list_reports :: "reports \<Rightarrow> pystr option \<Rightarrow> int \<Rightarrow> Report list res" where
  "list_reports fs simulation_id limit =
     bind_res (collect_reports fs simulation_id (List.map_filter entry_id fs)) (\<lambda>reports.
     bind_res (sort_desc_by rp_created_at reports) (\<lambda>reports. Inr (py_slice reports 0 limit)))"

definition delete_report :: "pystr \<Rightarrow> reports \<Rightarrow> bool \<times> reports" where
  "delete_report report_id fs =
     (case folder_of fs report_id of
        Some _ \<Rightarrow> (True, dpop fs report_id)
      | None \<Rightarrow>
          let json = report_id @ lit ''.json''; md = report_id @ lit ''.md''
          in (dhas fs json \<or> dhas fs md, dpop (dpop fs json) md))"

section \<open>Store laws\<close>

definition found_folder :: "reports \<Rightarrow> pystr \<Rightarrow> report_folder" where
  "found_folder fs rid = (case folder_of fs rid of Some d \<Rightarrow> d | None \<Rightarrow> empty_folder)"

lemma folder_of_dset [simp]: "folder_of (dset fs k (Folder d)) = (folder_of fs)(k \<mapsto> d)"
  by (simp add: folder_of_def fun_eq_iff)

lemma legacy_json_dset:
  "\<not> (\<exists>f. dget fs k = Some (LegacyJson f)) \<Longrightarrow> legacy_json (dset fs k (Folder d)) = legacy_json fs"
  by (auto simp: legacy_json_def fun_eq_iff split: option.splits report_entry.splits)

lemma change_folder_ok:
  assumes "change_folder rid f fs = (Inr (), fs')"
  shows "folder_of fs' = (folder_of fs)(rid \<mapsto> f (found_folder fs rid))" "legacy_json fs' = legacy_json fs"
proof -
  obtain d where d: "folder_of fs rid = Some d" "fs' = dset fs rid (Folder (f d))"
    using assms by (auto simp: change_folder_def split: option.splits)
  then have "dget fs rid = Some (Folder d)"
    by (auto simp: folder_of_def split: option.splits report_entry.splits)
  with d show "folder_of fs' = (folder_of fs)(rid \<mapsto> f (found_folder fs rid))" "legacy_json fs' = legacy_json fs"
    by (simp_all add: found_folder_def legacy_json_dset)
qed

lemma in_folder_ok:
  assumes "in_folder rid f fs = (Inr (), fs')"
  shows "folder_of fs' = (folder_of fs)(rid \<mapsto> f (found_folder fs rid))" "legacy_json fs' = legacy_json fs"
proof -
  obtain fs1 where e: "ensure_report_folder rid fs = (Inr (), fs1)" and c: "change_folder rid f fs1 = (Inr (), fs')"
    using assms by (auto simp: in_folder_def st_bind_def split: prod.splits sum.splits)
  have "folder_of fs1 = (folder_of fs)(rid \<mapsto> found_folder fs rid) \<and> legacy_json fs1 = legacy_json fs"
  proof (cases "dget fs rid")
    case None
    with e show ?thesis
      by (auto simp: ensure_report_folder_def found_folder_def legacy_json_dset) (simp add: folder_of_def)
  next
    case (Some entry)
    with e show ?thesis
      by (cases entry) (auto simp: ensure_report_folder_def found_folder_def folder_of_def fun_eq_iff)
  qed
  with change_folder_ok [OF c] show "folder_of fs' = (folder_of fs)(rid \<mapsto> f (found_folder fs rid))"
    "legacy_json fs' = legacy_json fs"
    by (simp_all add: found_folder_def)
qed

text \<open>A folder can be made or is there unless a plain file has the report's name.\<close>

definition usable :: "reports \<Rightarrow> pystr \<Rightarrow> bool" where
  "usable fs rid = (case dget fs rid of None \<Rightarrow> True | Some (Folder _) \<Rightarrow> True | _ \<Rightarrow> False)"

lemma in_folder_total: "usable fs rid \<Longrightarrow> \<exists>fs'. in_folder rid f fs = (Inr (), fs') \<and> folder_of fs' rid \<noteq> None"
proof (cases "dget fs rid")
  case None
  then show ?thesis by (simp add: in_folder_def ensure_report_folder_def change_folder_def)
next
  case (Some e)
  assume "usable fs rid"
  with Some obtain d where "e = Folder d" by (cases e) (simp_all add: usable_def)
  with Some show ?thesis by (simp add: in_folder_def ensure_report_folder_def change_folder_def folder_of_def)
qed

lemma usable_folder: "folder_of fs rid \<noteq> None \<Longrightarrow> usable fs rid"
  by (auto simp: usable_def folder_of_def split: option.splits report_entry.splits)

lemma parse_report_status_value [simp]: "parse_report_status (PyStr (report_status_value st)) = Inr st"
  by (cases st) (simp_all add: parse_report_status_def)

lemma section_roundtrip: "section_from (PyDict (section_to_dict s)) = Inr s"
  by (simp add: section_from_def section_to_dict_def require_key_def field_or_def dget_or_dget)

lemma map_res_section_from: "map_res section_from (map (\<lambda>s. PyDict (section_to_dict s)) ss) = Inr ss"
  by (induction ss) (simp_all add: section_roundtrip)

lemma outline_roundtrip: "outline_from (PyDict (outline_to_dict outline)) = Inr (Some outline)"
  by (simp add: outline_from_def outline_to_dict_def as_dict_def iterate_def map_res_section_from require_key_def
      field_or_def dget_or_dget)

text \<open>What the directory shows of one report besides its \<^verbatim>\<open>meta.json\<close>: an empty text is replaced by the file's.\<close>

definition read_markdown :: "reports \<Rightarrow> pystr \<Rightarrow> pyval \<Rightarrow> pyval" where
  "read_markdown fs rid v =
     (if truthy v then v else case full_text fs rid of Some s \<Rightarrow> PyStr s | None \<Rightarrow> v)"

lemma get_report_meta:
  assumes "meta_of fs k = Some (Json (PyDict (report_to_dict r)))"
  shows "get_report fs k = Inr (Some (r\<lparr>rp_markdown := read_markdown fs k (rp_markdown r)\<rparr>))"
proof -
  have outline: "outline_from (case x of Some outline \<Rightarrow> PyDict (outline_to_dict outline) | None \<Rightarrow> PyNone) = Inr x" for x
    by (cases x) (simp_all add: outline_roundtrip, simp add: outline_from_def)
  show ?thesis
    by (cases r; cases "full_text fs k")
      (simp_all add: get_report_def assms json_load_def as_dict_def report_to_dict_def require_key_def field_or_def
        dget_or_dget outline read_markdown_def Let_def)
qed

definition saved_folder :: "Report \<Rightarrow> report_folder \<Rightarrow> report_folder" where
  "saved_folder r d =
     (let d = d\<lparr>rf_meta := Some (Json (PyDict (report_to_dict r)))\<rparr>;
          d = (case rp_outline r of Some outline \<Rightarrow> d\<lparr>rf_outline := Some (Json (PyDict (outline_to_dict outline)))\<rparr> | None \<Rightarrow> d)
      in case rp_markdown r of PyStr s \<Rightarrow> if s = [] then d else put_text FULL_REPORT s d | _ \<Rightarrow> d)"

lemma save_report_ok:
  assumes "save_report r fs = (Inr (), fs')" and "rp_report_id r = PyStr rid"
  shows "folder_of fs' = (folder_of fs)(rid \<mapsto> saved_folder r (found_folder fs rid))" "legacy_json fs' = legacy_json fs"
proof -
  let ?d1 = "(found_folder fs rid)\<lparr>rf_meta := Some (Json (PyDict (report_to_dict r)))\<rparr>"
  let ?d2 = "case rp_outline r of Some outline \<Rightarrow> ?d1\<lparr>rf_outline := Some (Json (PyDict (outline_to_dict outline)))\<rparr> | None \<Rightarrow> ?d1"
  obtain fs1 fs2 where
    1: "in_folder rid (\<lambda>d. d\<lparr>rf_meta := Some (Json (PyDict (report_to_dict r)))\<rparr>) fs = (Inr (), fs1)" and
    2: "(case rp_outline r of Some outline \<Rightarrow> save_outline rid outline fs1 | None \<Rightarrow> (Inr (), fs1)) = (Inr (), fs2)" and
    3: "(case rp_markdown r of
              PyStr s \<Rightarrow> if s = [] then (Inr (), fs2) else change_folder rid (put_text FULL_REPORT s) fs2
            | v \<Rightarrow> if truthy v then (Inl (Exn TypeErr (lit ''write() argument must be str'')), fs2) else (Inr (), fs2)) = (Inr (), fs')"
    using assms unfolding save_report_def
    by (auto simp: st_bind_def split: prod.splits sum.splits)
  note one = in_folder_ok [OF 1]
  have two: "folder_of fs2 = (folder_of fs)(rid \<mapsto> ?d2) \<and> legacy_json fs2 = legacy_json fs"
  proof (cases "rp_outline r")
    case (Some outline)
    with 2 have "save_outline rid outline fs1 = (Inr (), fs2)" by simp
    from in_folder_ok [OF this [unfolded save_outline_def]] one Some
    show ?thesis by (simp add: found_folder_def)
  qed (use 2 one in simp)
  have "folder_of fs' = (folder_of fs)(rid \<mapsto> saved_folder r (found_folder fs rid)) \<and> legacy_json fs' = legacy_json fs"
  proof (cases "\<exists>s. rp_markdown r = PyStr s \<and> s \<noteq> []")
    case True
    then obtain s where s: "rp_markdown r = PyStr s" "s \<noteq> []" by blast
    with 3 have "change_folder rid (put_text FULL_REPORT s) fs2 = (Inr (), fs')" by simp
    moreover have "found_folder fs2 rid = ?d2" using two by (simp add: found_folder_def)
    ultimately show ?thesis
      using change_folder_ok [of rid "put_text FULL_REPORT s" fs2 fs'] two s by (simp add: saved_folder_def Let_def)
  next
    case False
    with 3 have "fs' = fs2" by (auto split: pyval.splits if_splits)
    with two False show ?thesis
      by (auto simp: saved_folder_def Let_def split: pyval.splits)
  qed
  then show "folder_of fs' = (folder_of fs)(rid \<mapsto> saved_folder r (found_folder fs rid))" "legacy_json fs' = legacy_json fs"
    by simp_all
qed

lemma saved_meta [simp]: "rf_meta (saved_folder r d) = Some (Json (PyDict (report_to_dict r)))"
  by (simp add: saved_folder_def put_text_def Let_def split: pyval.split option.split)

lemma saved_text: "dget (rf_texts (saved_folder r d)) name =
    (if name = FULL_REPORT \<and> (\<exists>s. rp_markdown r = PyStr s \<and> s \<noteq> [])
     then map_option id (case rp_markdown r of PyStr s \<Rightarrow> Some s | _ \<Rightarrow> None) else dget (rf_texts d) name)"
  by (simp add: saved_folder_def put_text_def Let_def split: pyval.split option.split)

text \<open>
  Reading a report back gives the report that was saved, except that an empty Markdown text is
  filled from \<^verbatim>\<open>full_report.md\<close>; no other report changes.
\<close>

lemma get_report_save:
  assumes "save_report r fs = (Inr (), fs')" and "rp_report_id r = PyStr rid"
  shows "get_report fs' k =
    (if k = rid then Inr (Some (r\<lparr>rp_markdown := read_markdown fs' rid (rp_markdown r)\<rparr>)) else get_report fs k)"
proof -
  note ok = save_report_ok [OF assms]
  show ?thesis
  proof (cases "k = rid")
    case True
    then show ?thesis by (simp add: get_report_meta meta_of_def ok)
  next
    case False
    then have same: "meta_of fs' k = meta_of fs k" "full_text fs' k = full_text fs k"
      by (simp_all add: meta_of_def full_text_def ok split: option.split)
    have "get_report fs' k = get_report fs k"
      unfolding get_report_def same by (rule refl)
    with False show ?thesis by simp
  qed
qed

end
