(* ===== verification/Report_Prompts.thy ===== *)
theory Report_Prompts
  imports Prelude
begin

text \<open>
  The prompt constants of \<^verbatim>\<open>app/services/report_agent.py\<close>.  A template of \<^verbatim>\<open>str.format\<close> is kept as the list
  of its literal stretches and its fields (doubled braces already read as one); \<open>format_template\<close>
  fills it and raises \<^verbatim>\<open>KeyError\<close> for a field that the call does not supply.
\<close>

datatype template_part = Txt pystr | Fld string

type_synonym template = "template_part list"

fun format_template :: "template \<Rightarrow> (string \<times> pystr) list \<Rightarrow> pystr res" where
  "format_template [] fields = Inr []"
| "format_template (Txt s # parts) fields = bind_res (format_template parts fields) (\<lambda>rest. Inr (s @ rest))"
| "format_template (Fld name # parts) fields =
     (case map_of fields name of
        None \<Rightarrow> Inl (Exn KeyErr (lit name))
      | Some v \<Rightarrow> bind_res (format_template parts fields) (\<lambda>rest. Inr (v @ rest)))"

fun template_fields :: "template \<Rightarrow> string list" where
  "template_fields [] = []"
| "template_fields (Txt s # parts) = template_fields parts"
| "template_fields (Fld name # parts) = name # template_fields parts"

lemma format_template_total:
  "set (template_fields parts) \<subseteq> fst ` set fields \<Longrightarrow> \<exists>s. format_template parts fields = Inr s"
proof (induction parts fields rule: format_template.induct)
  case (3 name parts fields)
  then obtain v where "map_of fields name = Some v"
    by (metis (no_types, lifting) domD dom_map_of_conv_image_fst list.set_intros(1) subsetD template_fields.simps(3))
  with 3 show ?case by auto
qed auto

definition TOOL_DESC_INSIGHT_FORGE :: pystr where
  "TOOL_DESC_INSIGHT_FORGE =
     [12304, 28145, 24230, 27934, 23519, 26816, 32034] @ lit '' - '' @ [24378, 22823, 30340, 26816, 32034,
     24037, 20855, 12305, 10, 36825, 26159, 25105, 20204, 24378, 22823, 30340, 26816, 32034, 20989, 25968,
     65292, 19987, 20026, 28145, 24230, 20998, 26512, 35774, 35745, 12290, 23427, 20250, 65306, 10] @ lit ''1. ''
     @ [33258, 21160, 23558, 20320, 30340, 38382, 39064, 20998, 35299, 20026, 22810, 20010, 23376, 38382,
     39064, 10] @ lit ''2. '' @ [20174, 22810, 20010, 32500, 24230, 26816, 32034, 27169, 25311, 22270, 35889,
     20013, 30340, 20449, 24687, 10] @ lit ''3. '' @ [25972, 21512, 35821, 20041, 25628, 32034, 12289, 23454,
     20307, 20998, 26512, 12289, 20851, 31995, 38142, 36861, 36394, 30340, 32467, 26524, 10] @ lit ''4. '' @
     [36820, 22238, 26368, 20840, 38754, 12289, 26368, 28145, 24230, 30340, 26816, 32034, 20869, 23481, 10,
     10, 12304, 20351, 29992, 22330, 26223, 12305, 10] @ lit ''- '' @ [38656, 35201, 28145, 20837, 20998,
     26512, 26576, 20010, 35805, 39064, 10] @ lit ''- '' @ [38656, 35201, 20102, 35299, 20107, 20214, 30340,
     22810, 20010, 26041, 38754, 10] @ lit ''- '' @ [38656, 35201, 33719, 21462, 25903, 25745, 25253, 21578,
     31456, 33410, 30340, 20016, 23500, 32032, 26448, 10, 10, 12304, 36820, 22238, 20869, 23481, 12305, 10] @
     lit ''- '' @ [30456, 20851, 20107, 23454, 21407, 25991, 65288, 21487, 30452, 25509, 24341, 29992, 65289,
     10] @ lit ''- '' @ [26680, 24515, 23454, 20307, 27934, 23519, 10] @ lit ''- '' @ [20851, 31995, 38142,
     20998, 26512]"

definition TOOL_DESC_PANORAMA_SEARCH :: pystr where
  "TOOL_DESC_PANORAMA_SEARCH =
     [12304, 24191, 24230, 25628, 32034] @ lit '' - '' @ [33719, 21462, 20840, 35980, 35270, 22270, 12305, 10,
     36825, 20010, 24037, 20855, 29992, 20110, 33719, 21462, 27169, 25311, 32467, 26524, 30340, 23436, 25972,
     20840, 35980, 65292, 29305, 21035, 36866, 21512, 20102, 35299, 20107, 20214, 28436, 21464, 36807, 31243,
     12290, 23427, 20250, 65306, 10] @ lit ''1. '' @ [33719, 21462, 25152, 26377, 30456, 20851, 33410, 28857,
     21644, 20851, 31995, 10] @ lit ''2. '' @ [21306, 20998, 24403, 21069, 26377, 25928, 30340, 20107, 23454,
     21644, 21382, 21490] @ lit ''/'' @ [36807, 26399, 30340, 20107, 23454, 10] @ lit ''3. '' @ [24110, 21161,
     20320, 20102, 35299, 33286, 24773, 26159, 22914, 20309, 28436, 21464, 30340, 10, 10, 12304, 20351, 29992,
     22330, 26223, 12305, 10] @ lit ''- '' @ [38656, 35201, 20102, 35299, 20107, 20214, 30340, 23436, 25972,
     21457, 23637, 33033, 32476, 10] @ lit ''- '' @ [38656, 35201, 23545, 27604, 19981, 21516, 38454, 27573,
     30340, 33286, 24773, 21464, 21270, 10] @ lit ''- '' @ [38656, 35201, 33719, 21462, 20840, 38754, 30340,
     23454, 20307, 21644, 20851, 31995, 20449, 24687, 10, 10, 12304, 36820, 22238, 20869, 23481, 12305, 10] @
     lit ''- '' @ [24403, 21069, 26377, 25928, 20107, 23454, 65288, 27169, 25311, 26368, 26032, 32467, 26524,
     65289, 10] @ lit ''- '' @ [21382, 21490] @ lit ''/'' @ [36807, 26399, 20107, 23454, 65288, 28436, 21464,
     35760, 24405, 65289, 10] @ lit ''- '' @ [25152, 26377, 28041, 21450, 30340, 23454, 20307]"

definition TOOL_DESC_QUICK_SEARCH :: pystr where
  "TOOL_DESC_QUICK_SEARCH =
     [12304, 31616, 21333, 25628, 32034] @ lit '' - '' @ [24555, 36895, 26816, 32034, 12305, 10, 36731, 37327,
     32423, 30340, 24555, 36895, 26816, 32034, 24037, 20855, 65292, 36866, 21512, 31616, 21333, 12289, 30452,
     25509, 30340, 20449, 24687, 26597, 35810, 12290, 10, 10, 12304, 20351, 29992, 22330, 26223, 12305, 10] @
     lit ''- '' @ [38656, 35201, 24555, 36895, 26597, 25214, 26576, 20010, 20855, 20307, 20449, 24687, 10] @
     lit ''- '' @ [38656, 35201, 39564, 35777, 26576, 20010, 20107, 23454, 10] @ lit ''- '' @ [31616, 21333,
     30340, 20449, 24687, 26816, 32034, 10, 10, 12304, 36820, 22238, 20869, 23481, 12305, 10] @ lit ''- '' @
     [19982, 26597, 35810, 26368, 30456, 20851, 30340, 20107, 23454, 21015, 34920]"

definition TOOL_DESC_INTERVIEW_AGENTS :: pystr where
  "TOOL_DESC_INTERVIEW_AGENTS =
     [12304, 28145, 24230, 37319, 35775] @ lit '' - '' @ [30495, 23454] @ lit ''Agent'' @ [37319, 35775,
     65288, 21452, 24179, 21488, 65289, 12305, 10, 35843, 29992] @ lit ''OASIS'' @ [27169, 25311, 29615,
     22659, 30340, 37319, 35775] @ lit ''API'' @ [65292, 23545, 27491, 22312, 36816, 34892, 30340, 27169,
     25311] @ lit ''Agent'' @ [36827, 34892, 30495, 23454, 37319, 35775, 65281, 10, 36825, 19981, 26159] @ lit
     ''LLM'' @ [27169, 25311, 65292, 32780, 26159, 35843, 29992, 30495, 23454, 30340, 37319, 35775, 25509,
     21475, 33719, 21462, 27169, 25311] @ lit ''Agent'' @ [30340, 21407, 22987, 22238, 31572, 12290, 10,
     40664, 35748, 22312] @ lit ''Twitter'' @ [21644] @ lit ''Reddit'' @ [20004, 20010, 24179, 21488, 21516,
     26102, 37319, 35775, 65292, 33719, 21462, 26356, 20840, 38754, 30340, 35266, 28857, 12290, 10, 10, 21151,
     33021, 27969, 31243, 65306, 10] @ lit ''1. '' @ [33258, 21160, 35835, 21462, 20154, 35774, 25991, 20214,
     65292, 20102, 35299, 25152, 26377, 27169, 25311] @ lit ''Agent'' @ [10] @ lit ''2. '' @ [26234, 33021,
     36873, 25321, 19982, 37319, 35775, 20027, 39064, 26368, 30456, 20851, 30340] @ lit ''Agent'' @ [65288,
     22914, 23398, 29983, 12289, 23186, 20307, 12289, 23448, 26041, 31561, 65289, 10] @ lit ''3. '' @ [33258,
     21160, 29983, 25104, 37319, 35775, 38382, 39064, 10] @ lit ''4. '' @ [35843, 29992] @ lit '' /api/simulation/interview/batch ''
     @ [25509, 21475, 22312, 21452, 24179, 21488, 36827, 34892, 30495, 23454, 37319, 35775, 10] @ lit ''5. ''
     @ [25972, 21512, 25152, 26377, 37319, 35775, 32467, 26524, 65292, 25552, 20379, 22810, 35270, 35282,
     20998, 26512, 10, 10, 12304, 20351, 29992, 22330, 26223, 12305, 10] @ lit ''- '' @ [38656, 35201, 20174,
     19981, 21516, 35282, 33394, 35270, 35282, 20102, 35299, 20107, 20214, 30475, 27861, 65288, 23398, 29983,
     24590, 20040, 30475, 65311, 23186, 20307, 24590, 20040, 30475, 65311, 23448, 26041, 24590, 20040, 35828,
     65311, 65289, 10] @ lit ''- '' @ [38656, 35201, 25910, 38598, 22810, 26041, 24847, 35265, 21644, 31435,
     22330, 10] @ lit ''- '' @ [38656, 35201, 33719, 21462, 27169, 25311] @ lit ''Agent'' @ [30340, 30495,
     23454, 22238, 31572, 65288, 26469, 33258] @ lit ''OASIS'' @ [27169, 25311, 29615, 22659, 65289, 10] @ lit
     ''- '' @ [24819, 35753, 25253, 21578, 26356, 29983, 21160, 65292, 21253, 21547, 34, 37319, 35775, 23454,
     24405, 34, 10, 10, 12304, 36820, 22238, 20869, 23481, 12305, 10] @ lit ''- '' @ [34987, 37319, 35775] @
     lit ''Agent'' @ [30340, 36523, 20221, 20449, 24687, 10] @ lit ''- '' @ [21508] @ lit ''Agent'' @ [22312]
     @ lit ''Twitter'' @ [21644] @ lit ''Reddit'' @ [20004, 20010, 24179, 21488, 30340, 37319, 35775, 22238,
     31572, 10] @ lit ''- '' @ [20851, 38190, 24341, 35328, 65288, 21487, 30452, 25509, 24341, 29992, 65289,
     10] @ lit ''- '' @ [37319, 35775, 25688, 35201, 21644, 35266, 28857, 23545, 27604, 10, 10, 12304, 37325,
     35201, 12305, 38656, 35201] @ lit ''OASIS'' @ [27169, 25311, 29615, 22659, 27491, 22312, 36816, 34892,
     25165, 33021, 20351, 29992, 27492, 21151, 33021, 65281]"

definition PLAN_SYSTEM_PROMPT :: pystr where
  "PLAN_SYSTEM_PROMPT =
     [20320, 26159, 19968, 20010, 12300, 26410, 26469, 39044, 27979, 25253, 21578, 12301, 30340, 25776, 20889,
     19987, 23478, 65292, 25317, 26377, 23545, 27169, 25311, 19990, 30028, 30340, 12300, 19978, 24093, 35270,
     35282, 12301, 8212, 8212, 20320, 21487, 20197, 27934, 23519, 27169, 25311, 20013, 27599, 19968, 20301] @
     lit ''Agent'' @ [30340, 34892, 20026, 12289, 35328, 35770, 21644, 20114, 21160, 12290, 10, 10, 12304,
     26680, 24515, 29702, 24565, 12305, 10, 25105, 20204, 26500, 24314, 20102, 19968, 20010, 27169, 25311,
     19990, 30028, 65292, 24182, 21521, 20854, 20013, 27880, 20837, 20102, 29305, 23450, 30340, 12300, 27169,
     25311, 38656, 27714, 12301, 20316, 20026, 21464, 37327, 12290, 27169, 25311, 19990, 30028, 30340, 28436,
     21270, 32467, 26524, 65292, 23601, 26159, 23545, 26410, 26469, 21487, 33021, 21457, 29983, 24773, 20917,
     30340, 39044, 27979, 12290, 20320, 27491, 22312, 35266, 23519, 30340, 19981, 26159, 34, 23454, 39564,
     25968, 25454, 34, 65292, 32780, 26159, 34, 26410, 26469, 30340, 39044, 28436, 34, 12290, 10, 10, 12304,
     20320, 30340, 20219, 21153, 12305, 10, 25776, 20889, 19968, 20221, 12300, 26410, 26469, 39044, 27979,
     25253, 21578, 12301, 65292, 22238, 31572, 65306, 10] @ lit ''1. '' @ [22312, 25105, 20204, 35774, 23450,
     30340, 26465, 20214, 19979, 65292, 26410, 26469, 21457, 29983, 20102, 20160, 20040, 65311, 10] @ lit ''2. ''
     @ [21508, 31867] @ lit ''Agent'' @ [65288, 20154, 32676, 65289, 26159, 22914, 20309, 21453, 24212, 21644,
     34892, 21160, 65311, 10] @ lit ''3. '' @ [36825, 20010, 27169, 25311, 25581, 31034, 20102, 21738, 20123,
     20540, 24471, 20851, 27880, 30340, 26410, 26469, 36235, 21183, 21644, 39118, 38505, 65311, 10, 10, 12304,
     25253, 21578, 23450, 20301, 12305, 10] @ lit ''- '' @ [9989] @ lit '' '' @ [36825, 26159, 19968, 20221,
     22522, 20110, 27169, 25311, 30340, 26410, 26469, 39044, 27979, 25253, 21578, 65292, 25581, 31034, 34,
     22914, 26524, 36825, 26679, 65292, 26410, 26469, 20250, 24590, 26679, 34, 10] @ lit ''- '' @ [9989] @ lit
     '' '' @ [32858, 28966, 20110, 39044, 27979, 32467, 26524, 65306, 20107, 20214, 36208, 21521, 12289,
     32676, 20307, 21453, 24212, 12289, 28044, 29616, 29616, 35937, 12289, 28508, 22312, 39118, 38505, 10] @
     lit ''- '' @ [9989] @ lit '' '' @ [27169, 25311, 19990, 30028, 20013, 30340] @ lit ''Agent'' @ [35328,
     34892, 23601, 26159, 23545, 26410, 26469, 20154, 32676, 34892, 20026, 30340, 39044, 27979, 10] @ lit ''- ''
     @ [10060] @ lit '' '' @ [19981, 26159, 23545, 29616, 23454, 19990, 30028, 29616, 29366, 30340, 20998,
     26512, 10] @ lit ''- '' @ [10060] @ lit '' '' @ [19981, 26159, 27867, 27867, 32780, 35848, 30340, 33286,
     24773, 32508, 36848, 10, 10, 12304, 31456, 33410, 25968, 37327, 38480, 21046, 12305, 10] @ lit ''- '' @
     [26368, 23569] @ lit ''2'' @ [20010, 31456, 33410, 65292, 26368, 22810] @ lit ''5'' @ [20010, 31456,
     33410, 10] @ lit ''- '' @ [19981, 38656, 35201, 23376, 31456, 33410, 65292, 27599, 20010, 31456, 33410,
     30452, 25509, 25776, 20889, 23436, 25972, 20869, 23481, 10] @ lit ''- '' @ [20869, 23481, 35201, 31934,
     28860, 65292, 32858, 28966, 20110, 26680, 24515, 39044, 27979, 21457, 29616, 10] @ lit ''- '' @ [31456,
     33410, 32467, 26500, 30001, 20320, 26681, 25454, 39044, 27979, 32467, 26524, 33258, 20027, 35774, 35745,
     10, 10, 35831, 36755, 20986] @ lit ''JSON'' @ [26684, 24335, 30340, 25253, 21578, 22823, 32434, 65292,
     26684, 24335, 22914, 19979, 65306, 10] @ lit ''{'' @ [10] @ lit ''    '' @ [34] @ lit ''title'' @ [34] @
     lit '': '' @ [34, 25253, 21578, 26631, 39064, 34] @ lit '','' @ [10] @ lit ''    '' @ [34] @ lit
     ''summary'' @ [34] @ lit '': '' @ [34, 25253, 21578, 25688, 35201, 65288, 19968, 21477, 35805, 27010,
     25324, 26680, 24515, 39044, 27979, 21457, 29616, 65289, 34] @ lit '','' @ [10] @ lit ''    '' @ [34] @
     lit ''sections'' @ [34] @ lit '': ['' @ [10] @ lit ''        {'' @ [10] @ lit ''            '' @ [34] @
     lit ''title'' @ [34] @ lit '': '' @ [34, 31456, 33410, 26631, 39064, 34] @ lit '','' @ [10] @ lit ''            ''
     @ [34] @ lit ''description'' @ [34] @ lit '': '' @ [34, 31456, 33410, 20869, 23481, 25551, 36848, 34, 10]
     @ lit ''        }'' @ [10] @ lit ''    ]'' @ [10] @ lit ''}'' @ [10, 10, 27880, 24847, 65306] @ lit
     ''sections'' @ [25968, 32452, 26368, 23569] @ lit ''2'' @ [20010, 65292, 26368, 22810] @ lit ''5'' @
     [20010, 20803, 32032, 65281]"

definition PLAN_USER_PROMPT_TEMPLATE :: template where
  "PLAN_USER_PROMPT_TEMPLATE =
     [Txt ([12304, 39044, 27979, 22330, 26223, 35774, 23450, 12305, 10, 25105, 20204, 21521, 27169, 25311, 19990,
        30028, 27880, 20837, 30340, 21464, 37327, 65288, 27169, 25311, 38656, 27714, 65289, 65306]),
      Fld ''simulation_requirement'',
      Txt ([10, 10, 12304, 27169, 25311, 19990, 30028, 35268, 27169, 12305, 10] @ lit ''- '' @ [21442, 19982, 27169,
        25311, 30340, 23454, 20307, 25968, 37327] @ lit '': ''),
      Fld ''total_nodes'',
      Txt ([10] @ lit ''- '' @ [23454, 20307, 38388, 20135, 29983, 30340, 20851, 31995, 25968, 37327] @ lit '': ''),
      Fld ''total_edges'',
      Txt ([10] @ lit ''- '' @ [23454, 20307, 31867, 22411, 20998, 24067] @ lit '': ''),
      Fld ''entity_types'',
      Txt ([10] @ lit ''- '' @ [27963, 36291] @ lit ''Agent'' @ [25968, 37327] @ lit '': ''),
      Fld ''total_entities'',
      Txt ([10, 10, 12304, 27169, 25311, 39044, 27979, 21040, 30340, 37096, 20998, 26410, 26469, 20107, 23454,
        26679, 26412, 12305, 10]),
      Fld ''related_facts_json'',
      Txt ([10, 10, 35831, 20197, 12300, 19978, 24093, 35270, 35282, 12301, 23457, 35270, 36825, 20010, 26410,
        26469, 39044, 28436, 65306, 10] @ lit ''1. '' @ [22312, 25105, 20204, 35774, 23450, 30340, 26465, 20214,
        19979, 65292, 26410, 26469, 21576, 29616, 20986, 20102, 20160, 20040, 26679, 30340, 29366, 24577, 65311,
        10] @ lit ''2. '' @ [21508, 31867, 20154, 32676, 65288] @ lit ''Agent'' @ [65289, 26159, 22914, 20309,
        21453, 24212, 21644, 34892, 21160, 30340, 65311, 10] @ lit ''3. '' @ [36825, 20010, 27169, 25311, 25581,
        31034, 20102, 21738, 20123, 20540, 24471, 20851, 27880, 30340, 26410, 26469, 36235, 21183, 65311, 10, 10,
        26681, 25454, 39044, 27979, 32467, 26524, 65292, 35774, 35745, 26368, 21512, 36866, 30340, 25253, 21578,
        31456, 33410, 32467, 26500, 12290, 10, 10, 12304, 20877, 27425, 25552, 37266, 12305, 25253, 21578, 31456,
        33410, 25968, 37327, 65306, 26368, 23569] @ lit ''2'' @ [20010, 65292, 26368, 22810] @ lit ''5'' @
        [20010, 65292, 20869, 23481, 35201, 31934, 28860, 32858, 28966, 20110, 26680, 24515, 39044, 27979, 21457,
        29616, 12290])]"

definition SECTION_SYSTEM_PROMPT_TEMPLATE :: template where
  "SECTION_SYSTEM_PROMPT_TEMPLATE =
     [Txt ([20320, 26159, 19968, 20010, 12300, 26410, 26469, 39044, 27979, 25253, 21578, 12301, 30340, 25776, 20889,
        19987, 23478, 65292, 27491, 22312, 25776, 20889, 25253, 21578, 30340, 19968, 20010, 31456, 33410, 12290,
        10, 10, 25253, 21578, 26631, 39064] @ lit '': ''),
      Fld ''report_title'',
      Txt ([10, 25253, 21578, 25688, 35201] @ lit '': ''),
      Fld ''report_summary'',
      Txt ([10, 39044, 27979, 22330, 26223, 65288, 27169, 25311, 38656, 27714, 65289] @ lit '': ''),
      Fld ''simulation_requirement'',
      Txt ([10, 10, 24403, 21069, 35201, 25776, 20889, 30340, 31456, 33410] @ lit '': ''),
      Fld ''section_title'',
      Txt ([10, 10, 9552, 9552, 9552, 9552, 9552, 9552, 9552, 9552, 9552, 9552, 9552, 9552, 9552, 9552, 9552, 9552,
        9552, 9552, 9552, 9552, 9552, 9552, 9552, 9552, 9552, 9552, 9552, 9552, 9552, 9552, 9552, 9552, 9552,
        9552, 9552, 9552, 9552, 9552, 9552, 9552, 9552, 9552, 9552, 9552, 9552, 9552, 9552, 9552, 9552, 9552,
        9552, 9552, 9552, 9552, 9552, 9552, 9552, 9552, 9552, 9552, 9552, 9552, 9552, 10, 12304, 26680, 24515,
        29702, 24565, 12305, 10, 9552, 9552, 9552, 9552, 9552, 9552, 9552, 9552, 9552, 9552, 9552, 9552, 9552,
        9552, 9552, 9552, 9552, 9552, 9552, 9552, 9552, 9552, 9552, 9552, 9552, 9552, 9552, 9552, 9552, 9552,
        9552, 9552, 9552, 9552, 9552, 9552, 9552, 9552, 9552, 9552, 9552, 9552, 9552, 9552, 9552, 9552, 9552,
        9552, 9552, 9552, 9552, 9552, 9552, 9552, 9552, 9552, 9552, 9552, 9552, 9552, 9552, 9552, 9552, 10, 10,
        27169, 25311, 19990, 30028, 26159, 23545, 26410, 26469, 30340, 39044, 28436, 12290, 25105, 20204, 21521,
        27169, 25311, 19990, 30028, 27880, 20837, 20102, 29305, 23450, 26465, 20214, 65288, 27169, 25311, 38656,
        27714, 65289, 65292, 10, 27169, 25311, 20013] @ lit ''Agent'' @ [30340, 34892, 20026, 21644, 20114,
        21160, 65292, 23601, 26159, 23545, 26410, 26469, 20154, 32676, 34892, 20026, 30340, 39044, 27979, 12290,
        10, 10, 20320, 30340, 20219, 21153, 26159, 65306, 10] @ lit ''- '' @ [25581, 31034, 22312, 35774, 23450,
        26465, 20214, 19979, 65292, 26410, 26469, 21457, 29983, 20102, 20160, 20040, 10] @ lit ''- '' @ [39044,
        27979, 21508, 31867, 20154, 32676, 65288] @ lit ''Agent'' @ [65289, 26159, 22914, 20309, 21453, 24212,
        21644, 34892, 21160, 30340, 10] @ lit ''- '' @ [21457, 29616, 20540, 24471, 20851, 27880, 30340, 26410,
        26469, 36235, 21183, 12289, 39118, 38505, 21644, 26426, 20250, 10, 10, 10060] @ lit '' '' @ [19981,
        35201, 20889, 25104, 23545, 29616, 23454, 19990, 30028, 29616, 29366, 30340, 20998, 26512, 10, 9989] @
        lit '' '' @ [35201, 32858, 28966, 20110, 34, 26410, 26469, 20250, 24590, 26679, 34, 8212, 8212, 27169,
        25311, 32467, 26524, 23601, 26159, 39044, 27979, 30340, 26410, 26469, 10, 10, 9552, 9552, 9552, 9552,
        9552, 9552, 9552, 9552, 9552, 9552, 9552, 9552, 9552, 9552, 9552, 9552, 9552, 9552, 9552, 9552, 9552,
        9552, 9552, 9552, 9552, 9552, 9552, 9552, 9552, 9552, 9552, 9552, 9552, 9552, 9552, 9552, 9552, 9552,
        9552, 9552, 9552, 9552, 9552, 9552, 9552, 9552, 9552, 9552, 9552, 9552, 9552, 9552, 9552, 9552, 9552,
        9552, 9552, 9552, 9552, 9552, 9552, 9552, 9552, 10, 12304, 26368, 37325, 35201, 30340, 35268, 21017] @
        lit '' - '' @ [24517, 39035, 36981, 23432, 12305, 10, 9552, 9552, 9552, 9552, 9552, 9552, 9552, 9552,
        9552, 9552, 9552, 9552, 9552, 9552, 9552, 9552, 9552, 9552, 9552, 9552, 9552, 9552, 9552, 9552, 9552,
        9552, 9552, 9552, 9552, 9552, 9552, 9552, 9552, 9552, 9552, 9552, 9552, 9552, 9552, 9552, 9552, 9552,
        9552, 9552, 9552, 9552, 9552, 9552, 9552, 9552, 9552, 9552, 9552, 9552, 9552, 9552, 9552, 9552, 9552,
        9552, 9552, 9552, 9552, 10, 10] @ lit ''1. '' @ [12304, 24517, 39035, 35843, 29992, 24037, 20855, 35266,
        23519, 27169, 25311, 19990, 30028, 12305, 10] @ lit ''   - '' @ [20320, 27491, 22312, 20197, 12300,
        19978, 24093, 35270, 35282, 12301, 35266, 23519, 26410, 26469, 30340, 39044, 28436, 10] @ lit ''   - '' @
        [25152, 26377, 20869, 23481, 24517, 39035, 26469, 33258, 27169, 25311, 19990, 30028, 20013, 21457, 29983,
        30340, 20107, 20214, 21644] @ lit ''Agent'' @ [35328, 34892, 10] @ lit ''   - '' @ [31105, 27490, 20351,
        29992, 20320, 33258, 24049, 30340, 30693, 35782, 26469, 32534, 20889, 25253, 21578, 20869, 23481, 10] @
        lit ''   - '' @ [27599, 20010, 31456, 33410, 33267, 23569, 35843, 29992] @ lit ''3'' @ [27425, 24037,
        20855, 65288, 26368, 22810] @ lit ''5'' @ [27425, 65289, 26469, 35266, 23519, 27169, 25311, 30340, 19990,
        30028, 65292, 23427, 20195, 34920, 20102, 26410, 26469, 10, 10] @ lit ''2. '' @ [12304, 24517, 39035,
        24341, 29992] @ lit ''Agent'' @ [30340, 21407, 22987, 35328, 34892, 12305, 10] @ lit ''   - Agent'' @
        [30340, 21457, 35328, 21644, 34892, 20026, 26159, 23545, 26410, 26469, 20154, 32676, 34892, 20026, 30340,
        39044, 27979, 10] @ lit ''   - '' @ [22312, 25253, 21578, 20013, 20351, 29992, 24341, 29992, 26684,
        24335, 23637, 31034, 36825, 20123, 39044, 27979, 65292, 20363, 22914, 65306, 10] @ lit ''     > '' @ [34,
        26576, 31867, 20154, 32676, 20250, 34920, 31034, 65306, 21407, 25991, 20869, 23481] @ lit ''...'' @ [34,
        10] @ lit ''   - '' @ [36825, 20123, 24341, 29992, 26159, 27169, 25311, 39044, 27979, 30340, 26680,
        24515, 35777, 25454, 10, 10] @ lit ''3. '' @ [12304, 35821, 35328, 19968, 33268, 24615] @ lit '' - '' @
        [24341, 29992, 20869, 23481, 24517, 39035, 32763, 35793, 20026, 25253, 21578, 35821, 35328, 12305, 10] @
        lit ''   - '' @ [24037, 20855, 36820, 22238, 30340, 20869, 23481, 21487, 33021, 21253, 21547, 19982,
        25253, 21578, 35821, 35328, 19981, 21516, 30340, 34920, 36848, 10] @ lit ''   - '' @ [25253, 21578,
        24517, 39035, 20840, 37096, 20351, 29992, 19982, 29992, 25143, 25351, 23450, 35821, 35328, 19968, 33268,
        30340, 35821, 35328, 25776, 20889, 10] @ lit ''   - '' @ [24403, 20320, 24341, 29992, 24037, 20855,
        36820, 22238, 30340, 20854, 20182, 35821, 35328, 20869, 23481, 26102, 65292, 24517, 39035, 23558, 20854,
        32763, 35793, 20026, 25253, 21578, 35821, 35328, 21518, 20877, 20889, 20837, 10] @ lit ''   - '' @
        [32763, 35793, 26102, 20445, 25345, 21407, 24847, 19981, 21464, 65292, 30830, 20445, 34920, 36848, 33258,
        28982, 36890, 39034, 10] @ lit ''   - '' @ [36825, 19968, 35268, 21017, 21516, 26102, 36866, 29992,
        20110, 27491, 25991, 21644, 24341, 29992, 22359, 65288] @ lit ''> '' @ [26684, 24335, 65289, 20013,
        30340, 20869, 23481, 10, 10] @ lit ''4. '' @ [12304, 24544, 23454, 21576, 29616, 39044, 27979, 32467,
        26524, 12305, 10] @ lit ''   - '' @ [25253, 21578, 20869, 23481, 24517, 39035, 21453, 26144, 27169,
        25311, 19990, 30028, 20013, 30340, 20195, 34920, 26410, 26469, 30340, 27169, 25311, 32467, 26524, 10] @
        lit ''   - '' @ [19981, 35201, 28155, 21152, 27169, 25311, 20013, 19981, 23384, 22312, 30340, 20449,
        24687, 10] @ lit ''   - '' @ [22914, 26524, 26576, 26041, 38754, 20449, 24687, 19981, 36275, 65292,
        22914, 23454, 35828, 26126, 10, 10] @ lit ''5. '' @ [12304, 31105, 27490, 25423, 36896, 25968, 25454,
        12305, 10] @ lit ''   - '' @ [10060] @ lit '' '' @ [31105, 27490, 25423, 36896, 29992, 25143, 21517,
        12289, 24341, 29992, 12289, 32479, 35745, 25968, 23383, 25110, 20114, 21160, 25968, 25454, 10] @ lit ''   - ''
        @ [10060] @ lit '' '' @ [31105, 27490, 22312, 22238, 22797, 20013, 21253, 21547] @ lit '' <tool_result> ''
        @ [22359] @ lit '' '' @ [8212] @ lit '' '' @ [21482, 26377, 31995, 32479, 20250, 25552, 20379, 24037,
        20855, 32467, 26524, 10] @ lit ''   - '' @ [9989] @ lit '' '' @ [21482, 33021, 24341, 29992, 30495,
        23454, 20986, 29616, 22312, 24037, 20855, 32467, 26524, 20013, 30340, 23454, 20307, 12289, 24341, 29992,
        21644, 25968, 25454, 10] @ lit ''   - '' @ [22914, 26524, 24037, 20855, 32467, 26524, 20013, 27809,
        26377, 30456, 20851, 20869, 23481, 65292, 24212, 22914, 23454, 35828, 26126, 65292, 32780, 38750, 32534,
        36896, 10, 10, 9552, 9552, 9552, 9552, 9552, 9552, 9552, 9552, 9552, 9552, 9552, 9552, 9552, 9552, 9552,
        9552, 9552, 9552, 9552, 9552, 9552, 9552, 9552, 9552, 9552, 9552, 9552, 9552, 9552, 9552, 9552, 9552,
        9552, 9552, 9552, 9552, 9552, 9552, 9552, 9552, 9552, 9552, 9552, 9552, 9552, 9552, 9552, 9552, 9552,
        9552, 9552, 9552, 9552, 9552, 9552, 9552, 9552, 9552, 9552, 9552, 9552, 9552, 9552, 10, 12304, 9888,
        65039] @ lit '' '' @ [26684, 24335, 35268, 33539] @ lit '' - '' @ [26497, 20854, 37325, 35201, 65281,
        12305, 10, 9552, 9552, 9552, 9552, 9552, 9552, 9552, 9552, 9552, 9552, 9552, 9552, 9552, 9552, 9552,
        9552, 9552, 9552, 9552, 9552, 9552, 9552, 9552, 9552, 9552, 9552, 9552, 9552, 9552, 9552, 9552, 9552,
        9552, 9552, 9552, 9552, 9552, 9552, 9552, 9552, 9552, 9552, 9552, 9552, 9552, 9552, 9552, 9552, 9552,
        9552, 9552, 9552, 9552, 9552, 9552, 9552, 9552, 9552, 9552, 9552, 9552, 9552, 9552, 10, 10, 12304, 19968,
        20010, 31456, 33410] @ lit '' = '' @ [26368, 23567, 20869, 23481, 21333, 20301, 12305, 10] @ lit ''- '' @
        [27599, 20010, 31456, 33410, 26159, 25253, 21578, 30340, 26368, 23567, 20998, 22359, 21333, 20301, 10] @
        lit ''- '' @ [10060] @ lit '' '' @ [31105, 27490, 22312, 31456, 33410, 20869, 20351, 29992, 20219, 20309]
        @ lit '' Markdown '' @ [26631, 39064, 65288] @ lit ''#'' @ [12289] @ lit ''##'' @ [12289] @ lit ''###'' @
        [12289] @ lit ''#### '' @ [31561, 65289, 10] @ lit ''- '' @ [10060] @ lit '' '' @ [31105, 27490, 22312,
        20869, 23481, 24320, 22836, 28155, 21152, 31456, 33410, 20027, 26631, 39064, 10] @ lit ''- '' @ [9989] @
        lit '' '' @ [31456, 33410, 26631, 39064, 30001, 31995, 32479, 33258, 21160, 28155, 21152, 65292, 20320,
        21482, 38656, 25776, 20889, 32431, 27491, 25991, 20869, 23481, 10] @ lit ''- '' @ [9989] @ lit '' '' @
        [20351, 29992] @ lit ''**'' @ [31895, 20307] @ lit ''**'' @ [12289, 27573, 33853, 20998, 38548, 12289,
        24341, 29992, 12289, 21015, 34920, 26469, 32452, 32455, 20869, 23481, 65292, 20294, 19981, 35201, 29992,
        26631, 39064, 10, 10, 12304, 27491, 30830, 31034, 20363, 12305, 10] @ lit ''```'' @ [10, 26412, 31456,
        33410, 20998, 26512, 20102, 20107, 20214, 30340, 33286, 35770, 20256, 25773, 24577, 21183, 12290, 36890,
        36807, 23545, 27169, 25311, 25968, 25454, 30340, 28145, 20837, 20998, 26512, 65292, 25105, 20204, 21457,
        29616] @ lit ''...'' @ [10, 10] @ lit ''**'' @ [39318, 21457, 24341, 29190, 38454, 27573] @ lit ''**'' @
        [10, 10, 24494, 21338, 20316, 20026, 33286, 24773, 30340, 31532, 19968, 29616, 22330, 65292, 25215,
        25285, 20102, 20449, 24687, 39318, 21457, 30340, 26680, 24515, 21151, 33021, 65306, 10, 10] @ lit ''> ''
        @ [34, 24494, 21338, 36129, 29486, 20102] @ lit ''68%'' @ [30340, 39318, 21457, 22768, 37327] @ lit
        ''...'' @ [34, 10, 10] @ lit ''**'' @ [24773, 32490, 25918, 22823, 38454, 27573] @ lit ''**'' @ [10, 10,
        25238, 38899, 24179, 21488, 36827, 19968, 27493, 25918, 22823, 20102, 20107, 20214, 24433, 21709, 21147,
        65306, 10, 10] @ lit ''- '' @ [35270, 35273, 20914, 20987, 21147, 24378, 10] @ lit ''- '' @ [24773,
        32490, 20849, 40483, 24230, 39640, 10] @ lit ''```'' @ [10, 10, 12304, 38169, 35823, 31034, 20363, 12305,
        10] @ lit ''```'' @ [10] @ lit ''## '' @ [25191, 34892, 25688, 35201] @ lit ''          '' @ [8592] @ lit
        '' '' @ [38169, 35823, 65281, 19981, 35201, 28155, 21152, 20219, 20309, 26631, 39064, 10] @ lit ''### ''
        @ [19968, 12289, 39318, 21457, 38454, 27573] @ lit ''     '' @ [8592] @ lit '' '' @ [38169, 35823, 65281,
        19981, 35201, 29992] @ lit ''###'' @ [20998, 23567, 33410, 10] @ lit ''#### 1.1 '' @ [35814, 32454,
        20998, 26512] @ lit ''   '' @ [8592] @ lit '' '' @ [38169, 35823, 65281, 19981, 35201, 29992] @ lit
        ''####'' @ [32454, 20998, 10, 10, 26412, 31456, 33410, 20998, 26512, 20102] @ lit ''...'' @ [10] @ lit
        ''```'' @ [10, 10, 9552, 9552, 9552, 9552, 9552, 9552, 9552, 9552, 9552, 9552, 9552, 9552, 9552, 9552,
        9552, 9552, 9552, 9552, 9552, 9552, 9552, 9552, 9552, 9552, 9552, 9552, 9552, 9552, 9552, 9552, 9552,
        9552, 9552, 9552, 9552, 9552, 9552, 9552, 9552, 9552, 9552, 9552, 9552, 9552, 9552, 9552, 9552, 9552,
        9552, 9552, 9552, 9552, 9552, 9552, 9552, 9552, 9552, 9552, 9552, 9552, 9552, 9552, 9552, 10, 12304,
        21487, 29992, 26816, 32034, 24037, 20855, 12305, 65288, 27599, 31456, 33410, 35843, 29992] @ lit ''3-5''
        @ [27425, 65289, 10, 9552, 9552, 9552, 9552, 9552, 9552, 9552, 9552, 9552, 9552, 9552, 9552, 9552, 9552,
        9552, 9552, 9552, 9552, 9552, 9552, 9552, 9552, 9552, 9552, 9552, 9552, 9552, 9552, 9552, 9552, 9552,
        9552, 9552, 9552, 9552, 9552, 9552, 9552, 9552, 9552, 9552, 9552, 9552, 9552, 9552, 9552, 9552, 9552,
        9552, 9552, 9552, 9552, 9552, 9552, 9552, 9552, 9552, 9552, 9552, 9552, 9552, 9552, 9552, 10, 10]),
      Fld ''tools_description'',
      Txt ([10, 10, 12304, 24037, 20855, 20351, 29992, 24314, 35758] @ lit '' - '' @ [35831, 28151, 21512, 20351,
        29992, 19981, 21516, 24037, 20855, 65292, 19981, 35201, 21482, 29992, 19968, 31181, 12305, 10] @ lit ''- insight_forge: ''
        @ [28145, 24230, 27934, 23519, 20998, 26512, 65292, 33258, 21160, 20998, 35299, 38382, 39064, 24182,
        22810, 32500, 24230, 26816, 32034, 20107, 23454, 21644, 20851, 31995, 10] @ lit ''- panorama_search: '' @
        [24191, 35282, 20840, 26223, 25628, 32034, 65292, 20102, 35299, 20107, 20214, 20840, 35980, 12289, 26102,
        38388, 32447, 21644, 28436, 21464, 36807, 31243, 10] @ lit ''- quick_search: '' @ [24555, 36895, 39564,
        35777, 26576, 20010, 20855, 20307, 20449, 24687, 28857, 10] @ lit ''- interview_agents: '' @ [37319,
        35775, 27169, 25311] @ lit ''Agent'' @ [65292, 33719, 21462, 19981, 21516, 35282, 33394, 30340, 31532,
        19968, 20154, 31216, 35266, 28857, 21644, 30495, 23454, 21453, 24212, 10, 10, 9552, 9552, 9552, 9552,
        9552, 9552, 9552, 9552, 9552, 9552, 9552, 9552, 9552, 9552, 9552, 9552, 9552, 9552, 9552, 9552, 9552,
        9552, 9552, 9552, 9552, 9552, 9552, 9552, 9552, 9552, 9552, 9552, 9552, 9552, 9552, 9552, 9552, 9552,
        9552, 9552, 9552, 9552, 9552, 9552, 9552, 9552, 9552, 9552, 9552, 9552, 9552, 9552, 9552, 9552, 9552,
        9552, 9552, 9552, 9552, 9552, 9552, 9552, 9552, 10, 12304, 24037, 20316, 27969, 31243, 12305, 10, 9552,
        9552, 9552, 9552, 9552, 9552, 9552, 9552, 9552, 9552, 9552, 9552, 9552, 9552, 9552, 9552, 9552, 9552,
        9552, 9552, 9552, 9552, 9552, 9552, 9552, 9552, 9552, 9552, 9552, 9552, 9552, 9552, 9552, 9552, 9552,
        9552, 9552, 9552, 9552, 9552, 9552, 9552, 9552, 9552, 9552, 9552, 9552, 9552, 9552, 9552, 9552, 9552,
        9552, 9552, 9552, 9552, 9552, 9552, 9552, 9552, 9552, 9552, 9552, 10, 10, 27599, 27425, 22238, 22797,
        20320, 21482, 33021, 20570, 20197, 19979, 20004, 20214, 20107, 20043, 19968, 65288, 19981, 21487, 21516,
        26102, 20570, 65289, 65306, 10, 10, 36873, 39033] @ lit ''A - '' @ [35843, 29992, 24037, 20855, 65306,
        10, 36755, 20986, 20320, 30340, 24605, 32771, 65292, 28982, 21518, 29992, 20197, 19979, 26684, 24335,
        35843, 29992, 19968, 20010, 24037, 20855, 65306, 10] @ lit ''<tool_call>'' @ [10] @ lit ''{''),
      Txt ([34] @ lit ''name'' @ [34] @ lit '': '' @ [34, 24037, 20855, 21517, 31216, 34] @ lit '', '' @ [34] @ lit
        ''parameters'' @ [34] @ lit '': {''),
      Txt ([34, 21442, 25968, 21517, 34] @ lit '': '' @ [34, 21442, 25968, 20540, 34] @ lit ''}''),
      Txt (lit ''}''),
      Txt ([10] @ lit ''</tool_call>'' @ [10, 31995, 32479, 20250, 25191, 34892, 24037, 20855, 24182, 25226, 32467,
        26524, 36820, 22238, 32473, 20320, 12290, 20320, 19981, 38656, 35201, 20063, 19981, 33021, 33258, 24049,
        32534, 20889, 24037, 20855, 36820, 22238, 32467, 26524, 12290, 10, 10, 36873, 39033] @ lit ''B - '' @
        [36755, 20986, 26368, 32456, 20869, 23481, 65306, 10, 24403, 20320, 24050, 36890, 36807, 24037, 20855,
        33719, 21462, 20102, 36275, 22815, 20449, 24687, 65292, 20197] @ lit '' '' @ [34] @ lit ''Final Answer:''
        @ [34] @ lit '' '' @ [24320, 22836, 36755, 20986, 31456, 33410, 20869, 23481, 12290, 10, 10, 9888, 65039]
        @ lit '' '' @ [20005, 26684, 31105, 27490, 65306, 10] @ lit ''- '' @ [31105, 27490, 22312, 19968, 27425,
        22238, 22797, 20013, 21516, 26102, 21253, 21547, 24037, 20855, 35843, 29992, 21644] @ lit '' Final Answer''
        @ [10] @ lit ''- '' @ [31105, 27490, 33258, 24049, 32534, 36896, 24037, 20855, 36820, 22238, 32467,
        26524, 65288] @ lit ''Observation'' @ [65289, 65292, 25152, 26377, 24037, 20855, 32467, 26524, 30001,
        31995, 32479, 27880, 20837, 10] @ lit ''- '' @ [27599, 27425, 22238, 22797, 26368, 22810, 35843, 29992,
        19968, 20010, 24037, 20855, 10, 10, 9552, 9552, 9552, 9552, 9552, 9552, 9552, 9552, 9552, 9552, 9552,
        9552, 9552, 9552, 9552, 9552, 9552, 9552, 9552, 9552, 9552, 9552, 9552, 9552, 9552, 9552, 9552, 9552,
        9552, 9552, 9552, 9552, 9552, 9552, 9552, 9552, 9552, 9552, 9552, 9552, 9552, 9552, 9552, 9552, 9552,
        9552, 9552, 9552, 9552, 9552, 9552, 9552, 9552, 9552, 9552, 9552, 9552, 9552, 9552, 9552, 9552, 9552,
        9552, 10, 12304, 31456, 33410, 20869, 23481, 35201, 27714, 12305, 10, 9552, 9552, 9552, 9552, 9552, 9552,
        9552, 9552, 9552, 9552, 9552, 9552, 9552, 9552, 9552, 9552, 9552, 9552, 9552, 9552, 9552, 9552, 9552,
        9552, 9552, 9552, 9552, 9552, 9552, 9552, 9552, 9552, 9552, 9552, 9552, 9552, 9552, 9552, 9552, 9552,
        9552, 9552, 9552, 9552, 9552, 9552, 9552, 9552, 9552, 9552, 9552, 9552, 9552, 9552, 9552, 9552, 9552,
        9552, 9552, 9552, 9552, 9552, 9552, 10, 10] @ lit ''1. '' @ [20869, 23481, 24517, 39035, 22522, 20110,
        24037, 20855, 26816, 32034, 21040, 30340, 27169, 25311, 25968, 25454, 10] @ lit ''2. '' @ [22823, 37327,
        24341, 29992, 21407, 25991, 26469, 23637, 31034, 27169, 25311, 25928, 26524, 10] @ lit ''3. '' @ [20351,
        29992] @ lit ''Markdown'' @ [26684, 24335, 65288, 20294, 31105, 27490, 20351, 29992, 26631, 39064, 65289,
        65306, 10] @ lit ''   - '' @ [20351, 29992] @ lit '' **'' @ [31895, 20307, 25991, 23383] @ lit ''** '' @
        [26631, 35760, 37325, 28857, 65288, 20195, 26367, 23376, 26631, 39064, 65289, 10] @ lit ''   - '' @
        [20351, 29992, 21015, 34920, 65288] @ lit ''-'' @ [25110] @ lit ''1.2.3.'' @ [65289, 32452, 32455, 35201,
        28857, 10] @ lit ''   - '' @ [20351, 29992, 31354, 34892, 20998, 38548, 19981, 21516, 27573, 33853, 10] @
        lit ''   - '' @ [10060] @ lit '' '' @ [31105, 27490, 20351, 29992] @ lit '' #'' @ [12289] @ lit ''##'' @
        [12289] @ lit ''###'' @ [12289] @ lit ''#### '' @ [31561, 20219, 20309, 26631, 39064, 35821, 27861, 10] @
        lit ''4. '' @ [12304, 24341, 29992, 26684, 24335, 35268, 33539] @ lit '' - '' @ [24517, 39035, 21333,
        29420, 25104, 27573, 12305, 10] @ lit ''   '' @ [24341, 29992, 24517, 39035, 29420, 31435, 25104, 27573,
        65292, 21069, 21518, 21508, 26377, 19968, 20010, 31354, 34892, 65292, 19981, 33021, 28151, 22312, 27573,
        33853, 20013, 65306, 10, 10] @ lit ''   '' @ [9989] @ lit '' '' @ [27491, 30830, 26684, 24335, 65306, 10]
        @ lit ''   ```'' @ [10] @ lit ''   '' @ [26657, 26041, 30340, 22238, 24212, 34987, 35748, 20026, 32570,
        20047, 23454, 36136, 20869, 23481, 12290, 10, 10] @ lit ''   > '' @ [34, 26657, 26041, 30340, 24212,
        23545, 27169, 24335, 22312, 30636, 24687, 19975, 21464, 30340, 31038, 20132, 23186, 20307, 29615, 22659,
        20013, 26174, 24471, 20725, 21270, 21644, 36831, 32531, 12290, 34, 10, 10] @ lit ''   '' @ [36825, 19968,
        35780, 20215, 21453, 26144, 20102, 20844, 20247, 30340, 26222, 36941, 19981, 28385, 12290, 10] @ lit ''   ```''
        @ [10, 10] @ lit ''   '' @ [10060] @ lit '' '' @ [38169, 35823, 26684, 24335, 65306, 10] @ lit ''   ```''
        @ [10] @ lit ''   '' @ [26657, 26041, 30340, 22238, 24212, 34987, 35748, 20026, 32570, 20047, 23454,
        36136, 20869, 23481, 12290] @ lit ''> '' @ [34, 26657, 26041, 30340, 24212, 23545, 27169, 24335] @ lit
        ''...'' @ [34] @ lit '' '' @ [36825, 19968, 35780, 20215, 21453, 26144, 20102] @ lit ''...'' @ [10] @ lit
        ''   ```'' @ [10] @ lit ''5. '' @ [20445, 25345, 19982, 20854, 20182, 31456, 33410, 30340, 36923, 36753,
        36830, 36143, 24615, 10] @ lit ''6. '' @ [12304, 36991, 20813, 37325, 22797, 12305, 20180, 32454, 38405,
        35835, 19979, 26041, 24050, 23436, 25104, 30340, 31456, 33410, 20869, 23481, 65292, 19981, 35201, 37325,
        22797, 25551, 36848, 30456, 21516, 30340, 20449, 24687, 10] @ lit ''7. '' @ [12304, 20877, 27425, 24378,
        35843, 12305, 19981, 35201, 28155, 21152, 20219, 20309, 26631, 39064, 65281, 29992] @ lit ''**'' @
        [31895, 20307] @ lit ''**'' @ [20195, 26367, 23567, 33410, 26631, 39064])]"

definition SECTION_USER_PROMPT_TEMPLATE :: template where
  "SECTION_USER_PROMPT_TEMPLATE =
     [Txt ([24050, 23436, 25104, 30340, 31456, 33410, 20869, 23481, 65288, 35831, 20180, 32454, 38405, 35835, 65292,
        36991, 20813, 37325, 22797, 65289, 65306, 10]),
      Fld ''previous_content'',
      Txt ([10, 10, 9552, 9552, 9552, 9552, 9552, 9552, 9552, 9552, 9552, 9552, 9552, 9552, 9552, 9552, 9552, 9552,
        9552, 9552, 9552, 9552, 9552, 9552, 9552, 9552, 9552, 9552, 9552, 9552, 9552, 9552, 9552, 9552, 9552,
        9552, 9552, 9552, 9552, 9552, 9552, 9552, 9552, 9552, 9552, 9552, 9552, 9552, 9552, 9552, 9552, 9552,
        9552, 9552, 9552, 9552, 9552, 9552, 9552, 9552, 9552, 9552, 9552, 9552, 9552, 10, 12304, 24403, 21069,
        20219, 21153, 12305, 25776, 20889, 31456, 33410] @ lit '': ''),
      Fld ''section_title'',
      Txt ([10, 9552, 9552, 9552, 9552, 9552, 9552, 9552, 9552, 9552, 9552, 9552, 9552, 9552, 9552, 9552, 9552,
        9552, 9552, 9552, 9552, 9552, 9552, 9552, 9552, 9552, 9552, 9552, 9552, 9552, 9552, 9552, 9552, 9552,
        9552, 9552, 9552, 9552, 9552, 9552, 9552, 9552, 9552, 9552, 9552, 9552, 9552, 9552, 9552, 9552, 9552,
        9552, 9552, 9552, 9552, 9552, 9552, 9552, 9552, 9552, 9552, 9552, 9552, 9552, 10, 10, 12304, 37325,
        35201, 25552, 37266, 12305, 10] @ lit ''1. '' @ [20180, 32454, 38405, 35835, 19978, 26041, 24050, 23436,
        25104, 30340, 31456, 33410, 65292, 36991, 20813, 37325, 22797, 30456, 21516, 30340, 20869, 23481, 65281,
        10] @ lit ''2. '' @ [24320, 22987, 21069, 24517, 39035, 20808, 35843, 29992, 24037, 20855, 33719, 21462,
        27169, 25311, 25968, 25454, 10] @ lit ''3. '' @ [35831, 28151, 21512, 20351, 29992, 19981, 21516, 24037,
        20855, 65292, 19981, 35201, 21482, 29992, 19968, 31181, 10] @ lit ''4. '' @ [25253, 21578, 20869, 23481,
        24517, 39035, 26469, 33258, 26816, 32034, 32467, 26524, 65292, 19981, 35201, 20351, 29992, 33258, 24049,
        30340, 30693, 35782, 10, 10, 12304, 9888, 65039] @ lit '' '' @ [26684, 24335, 35686, 21578] @ lit '' - ''
        @ [24517, 39035, 36981, 23432, 12305, 10] @ lit ''- '' @ [10060] @ lit '' '' @ [19981, 35201, 20889,
        20219, 20309, 26631, 39064, 65288] @ lit ''#'' @ [12289] @ lit ''##'' @ [12289] @ lit ''###'' @ [12289] @
        lit ''####'' @ [37117, 19981, 34892, 65289, 10] @ lit ''- '' @ [10060] @ lit '' '' @ [19981, 35201,
        20889, 34]),
      Fld ''section_title'',
      Txt ([34, 20316, 20026, 24320, 22836, 10] @ lit ''- '' @ [9989] @ lit '' '' @ [31456, 33410, 26631, 39064,
        30001, 31995, 32479, 33258, 21160, 28155, 21152, 10] @ lit ''- '' @ [9989] @ lit '' '' @ [30452, 25509,
        20889, 27491, 25991, 65292, 29992] @ lit ''**'' @ [31895, 20307] @ lit ''**'' @ [20195, 26367, 23567,
        33410, 26631, 39064, 10, 10, 35831, 24320, 22987, 65306, 10] @ lit ''1. '' @ [39318, 20808, 24605, 32771,
        65288] @ lit ''Thought'' @ [65289, 36825, 20010, 31456, 33410, 38656, 35201, 20160, 20040, 20449, 24687,
        10] @ lit ''2. '' @ [28982, 21518, 35843, 29992, 24037, 20855, 65288] @ lit ''Action'' @ [65289, 33719,
        21462, 27169, 25311, 25968, 25454, 10] @ lit ''3. '' @ [25910, 38598, 36275, 22815, 20449, 24687, 21518,
        36755, 20986] @ lit '' Final Answer'' @ [65288, 32431, 27491, 25991, 65292, 26080, 20219, 20309, 26631,
        39064, 65289])]"

definition REACT_OBSERVATION_TEMPLATE :: template where
  "REACT_OBSERVATION_TEMPLATE =
     [Txt (lit ''Observation'' @ [65288, 26816, 32034, 32467, 26524, 65289] @ lit '':'' @ [10, 10, 9552, 9552, 9552]
        @ lit '' '' @ [24037, 20855] @ lit '' ''),
      Fld ''tool_name'',
      Txt (lit '' '' @ [36820, 22238] @ lit '' '' @ [9552, 9552, 9552, 10]),
      Fld ''result'',
      Txt ([10, 10, 9552, 9552, 9552, 9552, 9552, 9552, 9552, 9552, 9552, 9552, 9552, 9552, 9552, 9552, 9552, 9552,
        9552, 9552, 9552, 9552, 9552, 9552, 9552, 9552, 9552, 9552, 9552, 9552, 9552, 9552, 9552, 9552, 9552,
        9552, 9552, 9552, 9552, 9552, 9552, 9552, 9552, 9552, 9552, 9552, 9552, 9552, 9552, 9552, 9552, 9552,
        9552, 9552, 9552, 9552, 9552, 9552, 9552, 9552, 9552, 9552, 9552, 9552, 9552, 10, 24050, 35843, 29992,
        24037, 20855] @ lit '' ''),
      Fld ''tool_calls_count'',
      Txt (lit ''/''),
      Fld ''max_tool_calls'',
      Txt (lit '' '' @ [27425, 65288, 24050, 29992] @ lit '': ''),
      Fld ''used_tools_str'',
      Txt ([65289]),
      Fld ''unused_hint'',
      Txt ([10] @ lit ''- '' @ [22914, 26524, 20449, 24687, 20805, 20998, 65306, 20197] @ lit '' '' @ [34] @ lit
        ''Final Answer:'' @ [34] @ lit '' '' @ [24320, 22836, 36755, 20986, 31456, 33410, 20869, 23481, 65288,
        24517, 39035, 24341, 29992, 19978, 36848, 21407, 25991, 65289, 10] @ lit ''- '' @ [22914, 26524, 38656,
        35201, 26356, 22810, 20449, 24687, 65306, 35843, 29992, 19968, 20010, 24037, 20855, 32487, 32493, 26816,
        32034, 10, 9552, 9552, 9552, 9552, 9552, 9552, 9552, 9552, 9552, 9552, 9552, 9552, 9552, 9552, 9552,
        9552, 9552, 9552, 9552, 9552, 9552, 9552, 9552, 9552, 9552, 9552, 9552, 9552, 9552, 9552, 9552, 9552,
        9552, 9552, 9552, 9552, 9552, 9552, 9552, 9552, 9552, 9552, 9552, 9552, 9552, 9552, 9552, 9552, 9552,
        9552, 9552, 9552, 9552, 9552, 9552, 9552, 9552, 9552, 9552, 9552, 9552, 9552, 9552])]"

definition REACT_INSUFFICIENT_TOOLS_MSG :: template where
  "REACT_INSUFFICIENT_TOOLS_MSG =
     [Txt ([12304, 27880, 24847, 12305, 20320, 21482, 35843, 29992, 20102]),
      Fld ''tool_calls_count'',
      Txt ([27425, 24037, 20855, 65292, 33267, 23569, 38656, 35201]),
      Fld ''min_tool_calls'',
      Txt ([27425, 12290, 35831, 20877, 35843, 29992, 24037, 20855, 33719, 21462, 26356, 22810, 27169, 25311, 25968,
        25454, 65292, 28982, 21518, 20877, 36755, 20986] @ lit '' Final Answer'' @ [12290]),
      Fld ''unused_hint'']"

definition REACT_INSUFFICIENT_TOOLS_MSG_ALT :: template where
  "REACT_INSUFFICIENT_TOOLS_MSG_ALT =
     [Txt ([24403, 21069, 21482, 35843, 29992, 20102] @ lit '' ''),
      Fld ''tool_calls_count'',
      Txt (lit '' '' @ [27425, 24037, 20855, 65292, 33267, 23569, 38656, 35201] @ lit '' ''),
      Fld ''min_tool_calls'',
      Txt (lit '' '' @ [27425, 12290, 35831, 35843, 29992, 24037, 20855, 33719, 21462, 27169, 25311, 25968, 25454,
        12290]),
      Fld ''unused_hint'']"

definition REACT_TOOL_LIMIT_MSG :: template where
  "REACT_TOOL_LIMIT_MSG =
     [Txt ([24037, 20855, 35843, 29992, 27425, 25968, 24050, 36798, 19978, 38480, 65288]),
      Fld ''tool_calls_count'',
      Txt (lit ''/''),
      Fld ''max_tool_calls'',
      Txt ([65289, 65292, 19981, 33021, 20877, 35843, 29992, 24037, 20855, 12290, 35831, 31435, 21363, 22522, 20110,
        24050, 33719, 21462, 30340, 20449, 24687, 65292, 20197] @ lit '' '' @ [34] @ lit ''Final Answer:'' @ [34]
        @ lit '' '' @ [24320, 22836, 36755, 20986, 31456, 33410, 20869, 23481, 12290])]"

definition REACT_UNUSED_TOOLS_HINT :: template where
  "REACT_UNUSED_TOOLS_HINT =
     [Txt ([10, 128161] @ lit '' '' @ [20320, 36824, 27809, 26377, 20351, 29992, 36807] @ lit '': ''),
      Fld ''unused_list'',
      Txt ([65292, 24314, 35758, 23581, 35797, 19981, 21516, 24037, 20855, 33719, 21462, 22810, 35282, 24230, 20449,
        24687])]"

definition REACT_FORCE_FINAL_MSG :: pystr where
  "REACT_FORCE_FINAL_MSG =
     [24050, 36798, 21040, 24037, 20855, 35843, 29992, 38480, 21046, 65292, 35831, 30452, 25509, 36755, 20986]
     @ lit '' Final Answer: '' @ [24182, 29983, 25104, 31456, 33410, 20869, 23481, 12290]"

definition CHAT_SYSTEM_PROMPT_TEMPLATE :: template where
  "CHAT_SYSTEM_PROMPT_TEMPLATE =
     [Txt ([20320, 26159, 19968, 20010, 31616, 27905, 39640, 25928, 30340, 27169, 25311, 39044, 27979, 21161, 25163,
        12290, 10, 10, 12304, 32972, 26223, 12305, 10, 39044, 27979, 26465, 20214] @ lit '': ''),
      Fld ''simulation_requirement'',
      Txt ([10, 10, 12304, 24050, 29983, 25104, 30340, 20998, 26512, 25253, 21578, 12305, 10]),
      Fld ''report_content'',
      Txt ([10, 10, 12304, 35268, 21017, 12305, 10] @ lit ''1. '' @ [20248, 20808, 22522, 20110, 19978, 36848,
        25253, 21578, 20869, 23481, 22238, 31572, 38382, 39064, 10] @ lit ''2. '' @ [30452, 25509, 22238, 31572,
        38382, 39064, 65292, 36991, 20813, 20887, 38271, 30340, 24605, 32771, 35770, 36848, 10] @ lit ''3. '' @
        [20165, 22312, 25253, 21578, 20869, 23481, 19981, 36275, 20197, 22238, 31572, 26102, 65292, 25165, 35843,
        29992, 24037, 20855, 26816, 32034, 26356, 22810, 25968, 25454, 10] @ lit ''4. '' @ [22238, 31572, 35201,
        31616, 27905, 12289, 28165, 26224, 12289, 26377, 26465, 29702, 10, 10, 12304, 21487, 29992, 24037, 20855,
        12305, 65288, 20165, 22312, 38656, 35201, 26102, 20351, 29992, 65292, 26368, 22810, 35843, 29992] @ lit
        ''1-2'' @ [27425, 65289, 10]),
      Fld ''tools_description'',
      Txt ([10, 10, 12304, 24037, 20855, 35843, 29992, 26684, 24335, 12305, 10] @ lit ''<tool_call>'' @ [10] @ lit
        ''{''),
      Txt ([34] @ lit ''name'' @ [34] @ lit '': '' @ [34, 24037, 20855, 21517, 31216, 34] @ lit '', '' @ [34] @ lit
        ''parameters'' @ [34] @ lit '': {''),
      Txt ([34, 21442, 25968, 21517, 34] @ lit '': '' @ [34, 21442, 25968, 20540, 34] @ lit ''}''),
      Txt (lit ''}''),
      Txt ([10] @ lit ''</tool_call>'' @ [10, 10, 12304, 22238, 31572, 39118, 26684, 12305, 10] @ lit ''- '' @
        [31616, 27905, 30452, 25509, 65292, 19981, 35201, 38271, 31687, 22823, 35770, 10] @ lit ''- '' @ [20351,
        29992] @ lit '' > '' @ [26684, 24335, 24341, 29992, 20851, 38190, 20869, 23481, 10] @ lit ''- '' @
        [20248, 20808, 32473, 20986, 32467, 35770, 65292, 20877, 35299, 37322, 21407, 22240])]"

definition CHAT_OBSERVATION_SUFFIX :: pystr where
  "CHAT_OBSERVATION_SUFFIX =
     [10, 10, 35831, 31616, 27905, 22238, 31572, 38382, 39064, 12290]"

end
