(* ===== verification/Tool_Calls.thy ===== *)
theory Tool_Calls
  imports Report_Text
begin

text \<open>
  Reading a language model's reply in \<^verbatim>\<open>app/services/report_agent.py\<close>: \<^verbatim>\<open>_parse_tool_calls\<close>,
  \<^verbatim>\<open>_is_valid_tool_call\<close>, \<^verbatim>\<open>_strip_fake_tool_results\<close> and the clean-up of a chat reply.  \<^verbatim>\<open>json.loads\<close> is an
  argument (\<open>None\<close> is a \<^verbatim>\<open>JSONDecodeError\<close>), and so is the character class \<^verbatim>\<open>\w\<close> that decides the word
  boundary \<^verbatim>\<open>\b\<close>.
\<close>

definition VALID_TOOL_NAMES :: "pystr list" where
  "VALID_TOOL_NAMES = [lit ''insight_forge'', lit ''panorama_search'', lit ''quick_search'', lit ''interview_agents'']"

section \<open>Tool calls\<close>

definition CALL_OPEN :: pystr where "CALL_OPEN = lit ''<tool_call>''"

definition CALL_CLOSE :: pystr where "CALL_CLOSE = lit ''</tool_call>''"

text \<open>
  The rest of \<^verbatim>\<open>\{.*?\})\s*</tool_call>\<close> after its opening brace: up to the first closing brace that the
  end tag follows.
\<close>

fun close_call :: "pystr \<Rightarrow> (pystr \<times> pystr) option" where
  "close_call [] = None"
| "close_call (c # s) =
     (if c = 125 \<and> starts_with CALL_CLOSE (py_lstrip s) then Some ([125], drop (length CALL_CLOSE) (py_lstrip s))
      else map_option (\<lambda>(g, r). (c # g, r)) (close_call s))"

lemma close_call_length: "close_call s = Some (g, r) \<Longrightarrow> length r \<le> length s"
proof (induction s arbitrary: g)
  case (Cons c s)
  have "length (drop n (py_lstrip s)) \<le> length s" for n
    using length_dropWhile_le [of is_space s] by (simp add: py_lstrip_def)
  with Cons show ?case
    by (auto split: if_splits simp: le_SucI)
qed simp

definition call_at :: "pystr \<Rightarrow> (pystr \<times> pystr) option" where
  "call_at s =
     (if starts_with CALL_OPEN s
      then (case py_lstrip (drop (length CALL_OPEN) s) of
              c # r \<Rightarrow> if c = 123 then map_option (\<lambda>(g, rest). (123 # g, rest)) (close_call r) else None
            | [] \<Rightarrow> None)
      else None)"

lemma call_at_length:
  assumes "call_at (c # s) = Some (g, rest)"
  shows "length rest \<le> length s"
proof -
  obtain d r where dr: "py_lstrip (drop (length CALL_OPEN) (c # s)) = d # r" and cl: "\<exists>g'. close_call r = Some (g', rest)"
    using assms by (auto simp: call_at_def split: if_splits list.splits)
  have "length (py_lstrip t) \<le> length t" for t
    by (simp add: py_lstrip_def length_dropWhile_le)
  from this [of "drop (length CALL_OPEN) (c # s)"] dr have "length r < length (c # s)"
    by simp
  with cl close_call_length show ?thesis by fastforce
qed

function xml_calls :: "pystr \<Rightarrow> pystr list" where
  "xml_calls [] = []"
| "xml_calls (c # s) = (case call_at (c # s) of Some (g, rest) \<Rightarrow> g # xml_calls rest | None \<Rightarrow> xml_calls s)"
  by pat_completeness auto
termination
  by (relation "measure length") (auto simp: less_Suc_eq_le dest: call_at_length)

definition valid_tool_call :: "pydict \<Rightarrow> pydict option res" where
  "valid_tool_call data =
     (let tool_name = (let n = dget_or data (lit ''name'') PyNone in
                       if truthy n then n else dget_or data (lit ''tool'') PyNone) in
      if \<not> truthy tool_name then Inr None
      else if \<not> py_hashable tool_name then Inl (Exn TypeErr (lit ''unhashable type''))
      else if tool_name \<notin> set (map PyStr VALID_TOOL_NAMES) then Inr None
      else
        let data = (case dget data (lit ''tool'') of
                Some v \<Rightarrow> dset (dpop data (lit ''tool'')) (lit ''name'') v | None \<Rightarrow> data);
            data = (case dget data (lit ''params'') of
                Some v \<Rightarrow> if dhas data (lit ''parameters'') then data
                          else dset (dpop data (lit ''params'')) (lit ''parameters'') v
              | None \<Rightarrow> data)
        in Inr (Some data))"

text \<open>A decoded object that is not a dict has no \<^verbatim>\<open>get\<close>.\<close>

definition checked_call :: "pyval \<Rightarrow> pydict option res" where
  "checked_call v =
     (case v of PyDict d \<Rightarrow> valid_tool_call d
      | _ \<Rightarrow> Inl (Exn AttributeErr (lit ''object has no attribute get'')))"

definition name_prefix :: "pystr \<Rightarrow> bool" where
  "name_prefix s \<longleftrightarrow>
     list_ex (\<lambda>k. let p = [123, 34] @ lit k @ [34] in
                  starts_with p s \<and> starts_with [58] (py_lstrip (drop (length p) s))
                  \<and> text_ends [125] (drop 1 (py_lstrip (drop (length p) s)))) [''name'', ''tool'']"

text \<open>The first match of \<^verbatim>\<open>(\{"(?:name|tool)"\s*:.*?\})\s*$\<close> in a stripped text: a tail of the text.\<close>

fun bare_tail :: "pystr \<Rightarrow> pystr option" where
  "bare_tail [] = None"
| "bare_tail (c # s) = (if name_prefix (c # s) then Some (c # s) else bare_tail s)"

definition try_bare :: "(pystr \<Rightarrow> pyval option) \<Rightarrow> pystr \<Rightarrow> pydict option res" where
  "try_bare loads s = (case loads s of None \<Rightarrow> Inr None | Some v \<Rightarrow> checked_call v)"

definition parse_tool_calls :: "(pystr \<Rightarrow> pyval option) \<Rightarrow> pystr \<Rightarrow> pyval list res" where
  "parse_tool_calls loads response =
     (let calls = List.map_filter loads (xml_calls response); stripped = py_strip response in
      if calls \<noteq> [] then Inr calls
      else
        bind_res (if starts_with [123] stripped \<and> text_ends [125] stripped then try_bare loads stripped else Inr None) (\<lambda>whole.
          case whole of
            Some d \<Rightarrow> Inr [PyDict d]
          | None \<Rightarrow>
              (case bare_tail stripped of
                 None \<Rightarrow> Inr []
               | Some s \<Rightarrow> bind_res (try_bare loads s) (\<lambda>found. Inr (case found of Some d \<Rightarrow> [PyDict d] | None \<Rightarrow> [])))))"

section \<open>Fabricated tool results\<close>

definition TAG :: pystr where "TAG = lit ''tool_result''"

text \<open>\<^verbatim>\<open>tool_result\b\<close> without regard to case.\<close>

definition tag_name_at :: "(nat \<Rightarrow> bool) \<Rightarrow> pystr \<Rightarrow> bool" where
  "tag_name_at word s \<longleftrightarrow> ci_starts TAG s \<and> (case drop (length TAG) s of [] \<Rightarrow> True | c # _ \<Rightarrow> \<not> word c)"

definition tag_tail :: "(nat \<Rightarrow> bool) \<Rightarrow> pystr \<Rightarrow> pystr option" where
  "tag_tail word s =
     (if tag_name_at word s
      then (let q = drop (length TAG) s in case find_sub [62] q of Some i \<Rightarrow> Some (drop (Suc i) q) | None \<Rightarrow> None)
      else None)"

text \<open>\<^verbatim>\<open></?tool_result\b[^>]*>\<close>: whether the tag closes, and the text after it.\<close>

definition tag_at :: "(nat \<Rightarrow> bool) \<Rightarrow> pystr \<Rightarrow> (bool \<times> pystr) option" where
  "tag_at word s =
     (case s of
        c # r \<Rightarrow>
          if c \<noteq> 60 then None
          else if starts_with [47] r then map_option (Pair True) (tag_tail word (drop 1 r))
          else map_option (Pair False) (tag_tail word r)
      | [] \<Rightarrow> None)"

lemma tag_at_length: "tag_at word (c # s) = Some (closing, rest) \<Longrightarrow> length rest \<le> length s"
  by (auto simp: tag_at_def tag_tail_def Let_def split: if_splits option.splits)

function strip_tags :: "(nat \<Rightarrow> bool) \<Rightarrow> nat \<Rightarrow> pystr \<Rightarrow> pystr" where
  "strip_tags word depth [] = []"
| "strip_tags word depth (c # s) =
     (case tag_at word (c # s) of
        Some (closing, rest) \<Rightarrow> strip_tags word (if closing then depth - 1 else Suc depth) rest
      | None \<Rightarrow> (if depth = 0 then [c] else []) @ strip_tags word depth s)"
  by pat_completeness auto
termination
  by (relation "measure (\<lambda>(word, d, s). length s)") (auto simp: less_Suc_eq_le dest: tag_at_length)

definition open_tag_at :: "(nat \<Rightarrow> bool) \<Rightarrow> pystr \<Rightarrow> bool" where
  "open_tag_at word s \<longleftrightarrow> starts_with [60] s \<and> tag_name_at word (drop 1 s)"

text \<open>\<^verbatim>\<open>re.sub(r'<tool_result\b.*$', '', s)\<close> with \<^verbatim>\<open>re.DOTALL\<close>.\<close>

fun cut_open_tag :: "(nat \<Rightarrow> bool) \<Rightarrow> pystr \<Rightarrow> pystr" where
  "cut_open_tag word [] = []"
| "cut_open_tag word (c # s) = (if open_tag_at word (c # s) then [] else c # cut_open_tag word s)"

definition strip_fake_tool_results :: "(nat \<Rightarrow> bool) \<Rightarrow> pystr \<Rightarrow> pystr" where
  "strip_fake_tool_results word response =
     py_strip (squeeze_newlines 0 (cut_open_tag word (strip_tags word 0 response)))"

definition clean_chat_reply :: "(nat \<Rightarrow> bool) \<Rightarrow> pystr \<Rightarrow> pystr" where
  "clean_chat_reply word response =
     (let s = remove_between (\<lambda>c. True) CALL_OPEN CALL_CLOSE response;
          s = remove_between (\<lambda>c. c \<noteq> 10) (lit ''[TOOL_CALL]'') (lit '')'') s
      in py_strip (strip_fake_tool_results word s))"

section \<open>No opening tag survives\<close>

text \<open>Somewhere in the text a \<^verbatim>\<open><tool_result\<close> tag opens.\<close>

definition opens_result :: "(nat \<Rightarrow> bool) \<Rightarrow> pystr \<Rightarrow> bool" where
  "opens_result word s \<longleftrightarrow> (\<exists>a b. s = a @ b \<and> open_tag_at word b)"

lemma opens_result_Nil [simp]: "\<not> opens_result word []"
  by (simp add: opens_result_def open_tag_at_def starts_with_def)

lemma opens_result_Cons: "opens_result word (c # s) \<longleftrightarrow> open_tag_at word (c # s) \<or> opens_result word s"
proof -
  have "opens_result word (c # s) \<longleftrightarrow> (\<exists>a b. (a = [] \<and> b = c # s \<or> (\<exists>a'. a = c # a' \<and> s = a' @ b)) \<and> open_tag_at word b)"
    unfolding opens_result_def by (simp add: Cons_eq_append_conv) blast
  then show ?thesis
    unfolding opens_result_def by blast
qed

lemma cut_open_tag_prefix: "\<exists>r. s = cut_open_tag word s @ r \<and> (r = [] \<or> open_tag_at word r)"
  by (induction s) auto

lemma tag_name_append: "tag_name_at word q \<Longrightarrow> r = [] \<or> \<not> word (hd r) \<Longrightarrow> tag_name_at word (q @ r)"
proof -
  assume q: "tag_name_at word q" and r: "r = [] \<or> \<not> word (hd r)"
  then have "length TAG \<le> length q"
    using ci_starts_length by (auto simp: tag_name_at_def)
  with q r show ?thesis
    by (auto simp: tag_name_at_def intro: ci_starts_append split: list.splits)
qed

lemma open_tag_append: "open_tag_at word q \<Longrightarrow> r = [] \<or> \<not> word (hd r) \<Longrightarrow> open_tag_at word (q @ r)"
  by (cases q) (auto simp: open_tag_at_def starts_with_def intro: tag_name_append)

lemma opens_result_append: "opens_result word s \<Longrightarrow> r = [] \<or> \<not> word (hd r) \<Longrightarrow> opens_result word (s @ r)"
  unfolding opens_result_def by (metis append.assoc open_tag_append)

lemma opens_result_suffix: "opens_result word b \<Longrightarrow> opens_result word (a @ b)"
  unfolding opens_result_def by (metis append.assoc)

lemma cut_open_tag_clean: "\<not> word 60 \<Longrightarrow> \<not> opens_result word (cut_open_tag word s)"
proof (induction s)
  case (Cons c s)
  obtain r where r: "s = cut_open_tag word s @ r" "r = [] \<or> open_tag_at word r"
    using cut_open_tag_prefix by blast
  then have "r = [] \<or> \<not> word (hd r)"
    using Cons.prems by (cases r) (auto simp: open_tag_at_def starts_with_def)
  then have "open_tag_at word (c # cut_open_tag word s) \<Longrightarrow> open_tag_at word (c # s)"
    using open_tag_append [of word "c # cut_open_tag word s" r] r(1) by simp
  with Cons show ?case by (auto simp: opens_result_Cons)
qed simp

lemma squeeze_zero: "squeeze_newlines 0 t = [] \<longleftrightarrow> t = []" "t \<noteq> [] \<Longrightarrow> hd (squeeze_newlines 0 t) = hd t"
  by (cases t; simp)+

lemma ci_starts_squeeze:
  "ci_starts p (squeeze_newlines 0 s) \<Longrightarrow> \<not> (\<exists>a \<in> set p. ci_char a 10)
    \<Longrightarrow> ci_starts p s \<and> drop (length p) (squeeze_newlines 0 s) = squeeze_newlines 0 (drop (length p) s)"
proof (induction p arbitrary: s)
  case (Cons a p)
  then obtain c t where s: "s = c # t" "c \<noteq> 10"
    by (cases s) (auto split: if_splits)
  with Cons show ?case by simp
qed simp

lemma tag_name_squeeze: "tag_name_at word (squeeze_newlines 0 s) \<Longrightarrow> tag_name_at word s"
proof -
  assume t: "tag_name_at word (squeeze_newlines 0 s)"
  have "\<not> (\<exists>a \<in> set TAG. ci_char a 10)"
    by (simp add: TAG_def lit_def ci_char_def lower_char_def)
  with t ci_starts_squeeze have
    "ci_starts TAG s" "drop (length TAG) (squeeze_newlines 0 s) = squeeze_newlines 0 (drop (length TAG) s)"
    by (auto simp: tag_name_at_def)
  with t show ?thesis
    using squeeze_zero [of "drop (length TAG) s"] by (auto simp: tag_name_at_def split: list.splits)
qed

lemma squeeze_newlines_clean: "\<not> opens_result word s \<Longrightarrow> \<not> opens_result word (squeeze_newlines k s)"
proof (induction s arbitrary: k)
  case (Cons c s)
  have "\<not> open_tag_at word (c # squeeze_newlines 0 s)"
    using Cons.prems tag_name_squeeze [of word s]
    by (auto simp: opens_result_Cons open_tag_at_def starts_with_def)
  moreover have "\<not> open_tag_at word (10 # t)" for t
    by (simp add: open_tag_at_def starts_with_def)
  ultimately show ?case
    using Cons by (auto simp: opens_result_Cons)
qed simp

lemma py_strip_decomp: "\<exists>a b. s = a @ py_strip s @ b \<and> (\<forall>c \<in> set b. is_space c)"
proof -
  let ?l = "py_lstrip s"
  have "s = takeWhile is_space s @ ?l"
    by (simp add: py_lstrip_def)
  moreover have "?l = py_strip s @ rev (takeWhile is_space (rev ?l))"
    unfolding py_strip_def py_rstrip_def by (metis rev_append rev_rev_ident takeWhile_dropWhile_id)
  moreover have "\<forall>c \<in> set (rev (takeWhile is_space (rev ?l))). is_space c"
    by (auto dest: set_takeWhileD)
  ultimately show ?thesis by (metis append.assoc)
qed

lemma py_strip_clean:
  assumes "\<And>c. is_space c \<Longrightarrow> \<not> word c" and "\<not> opens_result word s"
  shows "\<not> opens_result word (py_strip s)"
proof
  assume o: "opens_result word (py_strip s)"
  obtain a b where ab: "s = a @ py_strip s @ b" "\<forall>c \<in> set b. is_space c"
    using py_strip_decomp by blast
  then have "b = [] \<or> \<not> word (hd b)"
    using assms(1) by (cases b) auto
  then have "opens_result word (a @ py_strip s @ b)"
    by (intro opens_result_suffix opens_result_append o)
  with ab(1) assms(2) show False by simp
qed

text \<open>The documented facts about \<^verbatim>\<open>\w\<close> that the code relies on.\<close>

definition word_class_ok :: "(nat \<Rightarrow> bool) \<Rightarrow> bool" where
  "word_class_ok word \<longleftrightarrow> \<not> word 60 \<and> (\<forall>c. is_space c \<longrightarrow> \<not> word c)"

lemma strip_fake_clean:
  assumes "word_class_ok word"
  shows "\<not> opens_result word (strip_fake_tool_results word response)"
  using assms unfolding strip_fake_tool_results_def word_class_ok_def
  by (intro py_strip_clean squeeze_newlines_clean cut_open_tag_clean) simp_all

lemma last_split_suffix: "\<exists>a. s = a @ last (split_str sep s)"
proof (induction sep s rule: split_str.induct)
  case (1 sep s)
  show ?case
  proof (cases "sep = [] \<or> find_sub sep s = None")
    case True
    then show ?thesis by (subst split_str.simps) auto
  next
    case False
    then obtain i where i: "sep \<noteq> []" "find_sub sep s = Some i" by auto
    then have "last (split_str sep s) = last (split_str sep (drop (i + length sep) s))"
      by (subst split_str.simps) (simp add: split_str_nonempty)
    moreover obtain a where "drop (i + length sep) s = a @ last (split_str sep (drop (i + length sep) s))"
      using 1 [OF i] by blast
    then have "s = (take (i + length sep) s @ a) @ last (split_str sep (drop (i + length sep) s))"
      by (metis append.assoc append_take_drop_id)
    ultimately show ?thesis by metis
  qed
qed

lemma final_answer_clean:
  assumes "word_class_ok word"
  shows "\<not> opens_result word (py_strip (last (split_str sep (strip_fake_tool_results word response))))"
proof (rule py_strip_clean)
  show "\<not> opens_result word (last (split_str sep (strip_fake_tool_results word response)))"
    using strip_fake_clean [OF assms, of response] last_split_suffix opens_result_suffix by metis
qed (use assms in \<open>simp add: word_class_ok_def\<close>)

end
