(* ===== verification/Report_Agent.thy ===== *)
theory Report_Agent
  imports Report_Store Report_Prompts Tool_Calls Zep_Access
begin

text \<open>
  The report agent of \<^verbatim>\<open>app/services/report_agent.py\<close>: its log entries, tools and tool-call parsing, the
  outline, the ReACT loop of one section, the generation of a whole report and the chat.

  The language model, the retrieval tools of \<^verbatim>\<open>zep_tools.py\<close>, the clock, \<^verbatim>\<open>uuid4\<close>, the message catalogue
  \<^verbatim>\<open>t\<close>, JSON reading and writing, \<^verbatim>\<open>str\<close> of a JSON value, the character class \<^verbatim>\<open>\w\<close> and the iteration order of
  a set are fields of \<open>report_env\<close>.  A tool returns the text of its result.  The state \<open>gen\<close> of a run
  holds the report store, the outside world, the report object, the titles already finished and
  whether the agent has a logger; an exception keeps the changes made before it.  The console log
  handler is only modelled as the file it creates.
\<close>

section \<open>Environment and state\<close>

record 'w report_env =
  re_tr :: "string \<Rightarrow> (string \<times> pyval) list \<Rightarrow> pystr"
  re_str :: "pyval \<Rightarrow> pystr"
  re_parse_int :: "pystr \<Rightarrow> int option"
  re_loads :: "pystr \<Rightarrow> pyval option"
  re_dumps :: "pyval \<Rightarrow> pystr"
  re_word :: "nat \<Rightarrow> bool"
  re_order :: "pystr list \<Rightarrow> pystr list"
  re_language :: pystr
  re_now :: "'w \<Rightarrow> pystr \<times> 'w"
  re_elapsed :: "'w \<Rightarrow> rat \<times> 'w"
  re_uuid_hex :: "'w \<Rightarrow> pystr \<times> 'w"
  re_chat :: "pydict list \<Rightarrow> int option \<Rightarrow> ('w, pystr option) action"
  re_chat_json :: "pydict list \<Rightarrow> ('w, pydict) action"
  re_insight_forge :: "pystr \<Rightarrow> pyval \<Rightarrow> pystr \<Rightarrow> pyval \<Rightarrow> ('w, pystr) action"
  re_panorama_search :: "pystr \<Rightarrow> pyval \<Rightarrow> pyval \<Rightarrow> ('w, pystr) action"
  re_quick_search :: "pystr \<Rightarrow> pyval \<Rightarrow> pyval \<Rightarrow> ('w, pystr) action"
  re_interview_agents :: "pystr \<Rightarrow> pyval \<Rightarrow> pystr \<Rightarrow> pyval \<Rightarrow> ('w, pystr) action"
  re_graph_statistics :: "pystr \<Rightarrow> ('w, pyval) action"
  re_entity_summary :: "pystr \<Rightarrow> pyval \<Rightarrow> ('w, pyval) action"
  re_entities_by_type :: "pystr \<Rightarrow> pyval \<Rightarrow> ('w, pyval) action"
  re_simulation_context :: "pystr \<Rightarrow> pystr \<Rightarrow> ('w, pydict) action"

record report_agent =
  ag_graph_id :: pystr
  ag_simulation_id :: pystr
  ag_requirement :: pystr

record 'w gen =
  g_fs :: reports
  g_w :: 'w
  g_report :: Report
  g_done :: "pyval list"
  g_logger :: bool

type_synonym ('w, 'a) gproc = "'w gen \<Rightarrow> 'a res \<times> 'w gen"

definition on_world :: "('w, 'a) action \<Rightarrow> ('w, 'a) gproc" where
  "on_world f g = (let (r, w) = f (g_w g) in (r, g\<lparr>g_w := w\<rparr>))"

definition on_store :: "(reports \<Rightarrow> 'a res \<times> reports) \<Rightarrow> ('w, 'a) gproc" where
  "on_store f g = (let (r, fs) = f (g_fs g) in (r, g\<lparr>g_fs := fs\<rparr>))"

definition pure :: "'a res \<Rightarrow> ('w, 'a) gproc" where
  "pure r g = (r, g)"

definition now :: "'w report_env \<Rightarrow> ('w, pystr) gproc" where
  "now env = on_world (\<lambda>w. let (s, w) = re_now env w in (Inr s, w))"

section \<open>The agent log\<close>

definition agent_log_entry ::
  "'w report_env \<Rightarrow> pystr \<Rightarrow> string \<Rightarrow> string \<Rightarrow> pydict \<Rightarrow> pyval \<Rightarrow> pyval \<Rightarrow> ('w, unit) gproc" where
  "agent_log_entry env rid action stage details section_title section_index g =
     st_bind (now env g) (\<lambda>timestamp g.
     st_bind (on_world (\<lambda>w. let (q, w) = re_elapsed env w in (Inr q, w)) g) (\<lambda>elapsed.
       on_store (change_folder rid (\<lambda>d. d\<lparr>rf_agent_log := Some ((case rf_agent_log d of Some ls \<Rightarrow> ls | None \<Rightarrow> []) @
         [Json (PyDict [(lit ''timestamp'', PyStr timestamp), (lit ''elapsed_seconds'', PyFloat elapsed),
           (lit ''report_id'', PyStr rid), (lit ''action'', PyStr (lit action)), (lit ''stage'', PyStr (lit stage)),
           (lit ''section_title'', section_title), (lit ''section_index'', section_index),
           (lit ''details'', PyDict details)])])\<rparr>))))"

text \<open>\<^verbatim>\<open>if self.report_logger: ...\<close>\<close>

definition if_logger :: "('w, unit) gproc \<Rightarrow> ('w, unit) gproc" where
  "if_logger f g = (if g_logger g then f g else (Inr (), g))"

definition log_start :: "'w report_env \<Rightarrow> pystr \<Rightarrow> report_agent \<Rightarrow> ('w, unit) gproc" where
  "log_start env rid ag =
     agent_log_entry env rid ''report_start'' ''pending''
       [(lit ''simulation_id'', PyStr (ag_simulation_id ag)), (lit ''graph_id'', PyStr (ag_graph_id ag)),
        (lit ''simulation_requirement'', PyStr (ag_requirement ag)),
        (lit ''message'', PyStr (re_tr env ''report.taskStarted'' []))] PyNone PyNone"

definition log_planning_start :: "'w report_env \<Rightarrow> pystr \<Rightarrow> ('w, unit) gproc" where
  "log_planning_start env rid =
     agent_log_entry env rid ''planning_start'' ''planning'' [(lit ''message'', PyStr (re_tr env ''report.planningStart'' []))] PyNone PyNone"

definition log_planning_context :: "'w report_env \<Rightarrow> pystr \<Rightarrow> pydict \<Rightarrow> ('w, unit) gproc" where
  "log_planning_context env rid context =
     agent_log_entry env rid ''planning_context'' ''planning''
       [(lit ''message'', PyStr (re_tr env ''report.fetchSimContext'' [])), (lit ''context'', PyDict context)] PyNone PyNone"

definition log_planning_complete :: "'w report_env \<Rightarrow> pystr \<Rightarrow> pydict \<Rightarrow> ('w, unit) gproc" where
  "log_planning_complete env rid outline_dict =
     agent_log_entry env rid ''planning_complete'' ''planning''
       [(lit ''message'', PyStr (re_tr env ''report.planningComplete'' [])), (lit ''outline'', PyDict outline_dict)] PyNone PyNone"

definition log_section_start :: "'w report_env \<Rightarrow> pystr \<Rightarrow> pyval \<Rightarrow> nat \<Rightarrow> ('w, unit) gproc" where
  "log_section_start env rid title n =
     agent_log_entry env rid ''section_start'' ''generating''
       [(lit ''message'', PyStr (re_tr env ''report.sectionStart'' [(''title'', title)]))] title (PyInt (int n))"

definition log_react_thought :: "'w report_env \<Rightarrow> pystr \<Rightarrow> pyval \<Rightarrow> nat \<Rightarrow> nat \<Rightarrow> pystr \<Rightarrow> ('w, unit) gproc" where
  "log_react_thought env rid title n iteration thought =
     agent_log_entry env rid ''react_thought'' ''generating''
       [(lit ''iteration'', PyInt (int iteration)), (lit ''thought'', PyStr thought),
        (lit ''message'', PyStr (re_tr env ''report.reactThought'' [(''iteration'', PyInt (int iteration))]))] title (PyInt (int n))"

definition log_tool_call :: "'w report_env \<Rightarrow> pystr \<Rightarrow> pyval \<Rightarrow> nat \<Rightarrow> pyval \<Rightarrow> pyval \<Rightarrow> nat \<Rightarrow> ('w, unit) gproc" where
  "log_tool_call env rid title n tool_name parameters iteration =
     agent_log_entry env rid ''tool_call'' ''generating''
       [(lit ''iteration'', PyInt (int iteration)), (lit ''tool_name'', tool_name), (lit ''parameters'', parameters),
        (lit ''message'', PyStr (re_tr env ''report.toolCall'' [(''toolName'', tool_name)]))] title (PyInt (int n))"

definition log_tool_result :: "'w report_env \<Rightarrow> pystr \<Rightarrow> pyval \<Rightarrow> nat \<Rightarrow> pyval \<Rightarrow> pystr \<Rightarrow> nat \<Rightarrow> ('w, unit) gproc" where
  "log_tool_result env rid title n tool_name result iteration =
     agent_log_entry env rid ''tool_result'' ''generating''
       [(lit ''iteration'', PyInt (int iteration)), (lit ''tool_name'', tool_name), (lit ''result'', PyStr result),
        (lit ''result_length'', PyInt (int (length result))),
        (lit ''message'', PyStr (re_tr env ''report.toolResult'' [(''toolName'', tool_name)]))] title (PyInt (int n))"

definition log_llm_response ::
  "'w report_env \<Rightarrow> pystr \<Rightarrow> pyval \<Rightarrow> nat \<Rightarrow> pystr \<Rightarrow> nat \<Rightarrow> bool \<Rightarrow> bool \<Rightarrow> ('w, unit) gproc" where
  "log_llm_response env rid title n response iteration has_tool_calls has_final_answer =
     agent_log_entry env rid ''llm_response'' ''generating''
       [(lit ''iteration'', PyInt (int iteration)), (lit ''response'', PyStr response),
        (lit ''response_length'', PyInt (int (length response))), (lit ''has_tool_calls'', PyBool has_tool_calls),
        (lit ''has_final_answer'', PyBool has_final_answer),
        (lit ''message'', PyStr (re_tr env ''report.llmResponse''
           [(''hasToolCalls'', PyBool has_tool_calls), (''hasFinalAnswer'', PyBool has_final_answer)]))] title (PyInt (int n))"

definition log_section_content :: "'w report_env \<Rightarrow> pystr \<Rightarrow> pyval \<Rightarrow> nat \<Rightarrow> pystr \<Rightarrow> nat \<Rightarrow> ('w, unit) gproc" where
  "log_section_content env rid title n content tool_calls_count =
     agent_log_entry env rid ''section_content'' ''generating''
       [(lit ''content'', PyStr content), (lit ''content_length'', PyInt (int (length content))),
        (lit ''tool_calls_count'', PyInt (int tool_calls_count)),
        (lit ''message'', PyStr (re_tr env ''report.sectionContentDone'' [(''title'', title)]))] title (PyInt (int n))"

definition log_section_full_complete :: "'w report_env \<Rightarrow> pystr \<Rightarrow> pyval \<Rightarrow> nat \<Rightarrow> pystr \<Rightarrow> ('w, unit) gproc" where
  "log_section_full_complete env rid title n full_content =
     agent_log_entry env rid ''section_complete'' ''generating''
       [(lit ''content'', PyStr full_content), (lit ''content_length'', PyInt (int (length full_content))),
        (lit ''message'', PyStr (re_tr env ''report.sectionComplete'' [(''title'', title)]))] title (PyInt (int n))"

definition log_report_complete :: "'w report_env \<Rightarrow> pystr \<Rightarrow> nat \<Rightarrow> rat \<Rightarrow> ('w, unit) gproc" where
  "log_report_complete env rid total_sections total_time =
     agent_log_entry env rid ''report_complete'' ''completed''
       [(lit ''total_sections'', PyInt (int total_sections)), (lit ''total_time_seconds'', PyFloat total_time),
        (lit ''message'', PyStr (re_tr env ''report.reportComplete'' []))] PyNone PyNone"

definition log_error :: "'w report_env \<Rightarrow> pystr \<Rightarrow> pystr \<Rightarrow> string \<Rightarrow> pyval \<Rightarrow> ('w, unit) gproc" where
  "log_error env rid error_message stage title =
     agent_log_entry env rid ''error'' stage
       [(lit ''error'', PyStr error_message),
        (lit ''message'', PyStr (re_tr env ''report.errorOccurred'' [(''error'', PyStr error_message)]))] title PyNone"

section \<open>Tools\<close>

definition MAX_TOOL_CALLS_PER_SECTION :: nat where "MAX_TOOL_CALLS_PER_SECTION = 5"

definition MAX_TOOL_CALLS_PER_CHAT :: nat where "MAX_TOOL_CALLS_PER_CHAT = 2"

record tool_def =
  td_name :: pystr
  td_description :: pystr
  td_parameters :: "(string \<times> pystr) list"

definition define_tools :: "tool_def list" where
  "define_tools =
     [\<lparr>td_name = lit ''insight_forge'', td_description = TOOL_DESC_INSIGHT_FORGE,
       td_parameters = [(''query'', [20320, 24819, 28145, 20837, 20998, 26512, 30340, 38382, 39064, 25110, 35805, 39064]),
         (''report_context'', [24403, 21069, 25253, 21578, 31456, 33410, 30340, 19978, 19979, 25991, 65288, 21487, 36873, 65292, 26377, 21161, 20110, 29983, 25104, 26356, 31934, 20934, 30340, 23376, 38382, 39064, 65289])]\<rparr>,
      \<lparr>td_name = lit ''panorama_search'', td_description = TOOL_DESC_PANORAMA_SEARCH,
       td_parameters = [(''query'', [25628, 32034, 26597, 35810, 65292, 29992, 20110, 30456, 20851, 24615, 25490, 24207]),
         (''include_expired'', [26159, 21542, 21253, 21547, 36807, 26399] @ lit ''/'' @ [21382, 21490, 20869, 23481, 65288, 40664, 35748] @ lit ''True'' @ [65289])]\<rparr>,
      \<lparr>td_name = lit ''quick_search'', td_description = TOOL_DESC_QUICK_SEARCH,
       td_parameters = [(''query'', [25628, 32034, 26597, 35810, 23383, 31526, 20018]), (''limit'', [36820, 22238, 32467, 26524, 25968, 37327, 65288, 21487, 36873, 65292, 40664, 35748] @ lit ''10'' @ [65289])]\<rparr>,
      \<lparr>td_name = lit ''interview_agents'', td_description = TOOL_DESC_INTERVIEW_AGENTS,
       td_parameters = [(''interview_topic'', [37319, 35775, 20027, 39064, 25110, 38656, 27714, 25551, 36848, 65288, 22914, 65306, 39, 20102, 35299, 23398, 29983, 23545, 23487, 33293, 30002, 37275, 20107, 20214, 30340, 30475, 27861, 39, 65289]),
         (''max_agents'', [26368, 22810, 37319, 35775, 30340] @ lit ''Agent'' @ [25968, 37327, 65288, 21487, 36873, 65292, 40664, 35748] @ lit ''5'' @ [65292, 26368, 22823] @ lit ''10'' @ [65289])]\<rparr>]"

definition get_tools_description :: "tool_def list \<Rightarrow> pystr" where
  "get_tools_description tools =
     py_join [10] (([21487, 29992, 24037, 20855, 65306])
       # concat (map (\<lambda>tool.
           (lit ''- '' @ td_name tool @ lit '': '' @ td_description tool)
           # (let params = py_join (lit '', '') (map (\<lambda>(k, v). lit k @ lit '': '' @ v) (td_parameters tool))
              in if params = [] then [] else [lit ''  '' @ [21442, 25968] @ lit '': '' @ params])) tools))"

definition str_to_int :: "'w report_env \<Rightarrow> pyval \<Rightarrow> pyval res" where
  "str_to_int env v =
     (case v of
        PyStr s \<Rightarrow> (case re_parse_int env s of Some n \<Rightarrow> Inr (PyInt n)
                    | None \<Rightarrow> Inl (Exn ValueError (lit ''invalid literal for int() with base 10'')))
      | _ \<Rightarrow> Inr v)"

text \<open>\<^verbatim>\<open>min(v, 10)\<close>\<close>

definition min_ten :: "pyval \<Rightarrow> pyval res" where
  "min_ten v =
     (case key_num v of
        Some q \<Rightarrow> Inr (if 10 < q then PyInt 10 else v)
      | None \<Rightarrow> Inl (Exn TypeErr (lit ''unorderable types'')))"

definition param :: "pydict \<Rightarrow> string \<Rightarrow> pyval \<Rightarrow> pyval" where
  "param d k v = dget_or d (lit k) v"

definition is_string :: "pyval \<Rightarrow> bool" where
  "is_string v = (case v of PyStr _ \<Rightarrow> True | _ \<Rightarrow> False)"

definition run_insight_forge :: "'w report_env \<Rightarrow> report_agent \<Rightarrow> pydict \<Rightarrow> pystr \<Rightarrow> ('w, pystr) action" where
  "run_insight_forge env ag d report_context =
     re_insight_forge env (ag_graph_id ag) (param d ''query'' (PyStr [])) (ag_requirement ag)
       (let ctx = param d ''report_context'' (PyStr []) in if truthy ctx then ctx else PyStr report_context)"

definition run_quick_search :: "'w report_env \<Rightarrow> report_agent \<Rightarrow> pydict \<Rightarrow> ('w, pystr) action" where
  "run_quick_search env ag d w =
     (case str_to_int env (param d ''limit'' (PyInt 10)) of
        Inl e \<Rightarrow> (Inl e, w)
      | Inr limit \<Rightarrow> re_quick_search env (ag_graph_id ag) (param d ''query'' (PyStr [])) limit w)"

definition run_interview :: "'w report_env \<Rightarrow> report_agent \<Rightarrow> pydict \<Rightarrow> ('w, pystr) action" where
  "run_interview env ag d w =
     (case bind_res (str_to_int env (param d ''max_agents'' (PyInt 5))) min_ten of
        Inl e \<Rightarrow> (Inl e, w)
      | Inr max_agents \<Rightarrow>
          re_interview_agents env (ag_simulation_id ag)
            (param d ''interview_topic'' (param d ''query'' (PyStr []))) (ag_requirement ag) max_agents w)"

definition dumped :: "'w report_env \<Rightarrow> ('w, pyval) action \<Rightarrow> ('w, pystr) action" where
  "dumped env f w = (case f w of (Inl e, w) \<Rightarrow> (Inl e, w) | (Inr v, w) \<Rightarrow> (Inr (re_dumps env v), w))"

definition with_dict :: "pyval \<Rightarrow> (pydict \<Rightarrow> ('w, 'a) action) \<Rightarrow> ('w, 'a) action" where
  "with_dict v f w = (case as_dict v of Inl e \<Rightarrow> (Inl e, w) | Inr d \<Rightarrow> f d w)"

definition dispatch_tool :: "'w report_env \<Rightarrow> report_agent \<Rightarrow> pyval \<Rightarrow> pyval \<Rightarrow> pystr \<Rightarrow> ('w, pystr) action" where
  "dispatch_tool env ag tool_name parameters report_context =
     (if tool_name = PyStr (lit ''insight_forge'') then
        with_dict parameters (\<lambda>d. run_insight_forge env ag d report_context)
      else if tool_name = PyStr (lit ''panorama_search'') then
        with_dict parameters (\<lambda>d.
          let include_expired = param d ''include_expired'' (PyBool True);
              include_expired = (case include_expired of
                  PyStr s \<Rightarrow> PyBool (py_lower s \<in> set [lit ''true'', lit ''1'', lit ''yes'']) | v \<Rightarrow> v)
          in re_panorama_search env (ag_graph_id ag) (param d ''query'' (PyStr [])) include_expired)
      else if tool_name = PyStr (lit ''quick_search'') \<or> tool_name = PyStr (lit ''search_graph'') then
        with_dict parameters (run_quick_search env ag)
      else if tool_name = PyStr (lit ''interview_agents'') then
        with_dict parameters (run_interview env ag)
      else if tool_name = PyStr (lit ''get_graph_statistics'') then
        dumped env (re_graph_statistics env (ag_graph_id ag))
      else if tool_name = PyStr (lit ''get_entity_summary'') then
        with_dict parameters (\<lambda>d. dumped env (re_entity_summary env (ag_graph_id ag) (param d ''entity_name'' (PyStr []))))
      else if tool_name = PyStr (lit ''get_simulation_context'') then
        with_dict parameters (\<lambda>d.
          run_insight_forge env ag [(lit ''query'', param d ''query'' (PyStr (ag_requirement ag)))] report_context)
      else if tool_name = PyStr (lit ''get_entities_by_type'') then
        with_dict parameters (\<lambda>d. dumped env (re_entities_by_type env (ag_graph_id ag) (param d ''entity_type'' (PyStr []))))
      else (\<lambda>w. (Inr ([26410, 30693, 24037, 20855] @ lit '': '' @ fstr (re_str env) tool_name
                     @ [12290, 35831, 20351, 29992, 20197, 19979, 24037, 20855, 20043, 19968] @ lit '': insight_forge, panorama_search, quick_search''), w)))"

definition execute_tool :: "'w report_env \<Rightarrow> report_agent \<Rightarrow> pyval \<Rightarrow> pyval \<Rightarrow> pystr \<Rightarrow> 'w \<Rightarrow> pystr \<times> 'w" where
  "execute_tool env ag tool_name parameters report_context w =
     (case dispatch_tool env ag tool_name parameters report_context w of
        (Inr result, w) \<Rightarrow> (result, w)
      | (Inl e, w) \<Rightarrow> ([24037, 20855, 25191, 34892, 22833, 36133] @ lit '': '' @ exn_msg e, w))"

section \<open>The outline\<close>

type_synonym 'w callback = "(string \<Rightarrow> int \<Rightarrow> pystr \<Rightarrow> ('w, unit) action) option"

definition call_back :: "'w callback \<Rightarrow> string \<Rightarrow> int \<Rightarrow> pystr \<Rightarrow> ('w, unit) gproc" where
  "call_back cb stage progress message g =
     (case cb of None \<Rightarrow> (Inr (), g) | Some f \<Rightarrow> on_world (f stage progress message) g)"

definition chat_msg :: "string \<Rightarrow> pystr \<Rightarrow> pydict" where
  "chat_msg role content = [(lit ''role'', PyStr (lit role)), (lit ''content'', PyStr content)]"

definition first_ten :: "pyval \<Rightarrow> pyval res" where
  "first_ten v =
     (case v of PyList xs \<Rightarrow> Inr (PyList (take 10 xs)) | PyStr s \<Rightarrow> Inr (PyStr (take 10 s))
      | _ \<Rightarrow> Inl (Exn TypeErr (lit ''object is not subscriptable'')))"

definition plan_user_prompt :: "'w report_env \<Rightarrow> report_agent \<Rightarrow> pydict \<Rightarrow> pystr res" where
  "plan_user_prompt env ag context =
     bind_res (as_dict (param context ''graph_statistics'' (PyDict []))) (\<lambda>stats.
     bind_res (as_dict (param stats ''entity_types'' (PyDict []))) (\<lambda>types.
     bind_res (first_ten (param context ''related_facts'' (PyList []))) (\<lambda>facts.
       format_template PLAN_USER_PROMPT_TEMPLATE
         [(''simulation_requirement'', ag_requirement ag),
          (''total_nodes'', fstr (re_str env) (param stats ''total_nodes'' (PyInt 0))),
          (''total_edges'', fstr (re_str env) (param stats ''total_edges'' (PyInt 0))),
          (''entity_types'', re_str env (PyList (map (PyStr \<circ> fst) types))),
          (''total_entities'', fstr (re_str env) (param context ''total_entities'' (PyInt 0))),
          (''related_facts_json'', re_dumps env facts)])))"

definition planned_section :: "pyval \<Rightarrow> ReportSection res" where
  "planned_section v =
     bind_res (as_dict v) (\<lambda>d. Inr \<lparr>sec_title = param d ''title'' (PyStr []), sec_content = PyStr []\<rparr>)"

definition planned_outline :: "pydict \<Rightarrow> ReportOutline res" where
  "planned_outline response =
     bind_res (iterate (param response ''sections'' (PyList []))) (\<lambda>xs.
     bind_res (map_res planned_section xs) (\<lambda>sections.
       Inr \<lparr>out_title = param response ''title'' (PyStr ([27169, 25311, 20998, 26512, 25253, 21578])),
            out_summary = param response ''summary'' (PyStr []), out_sections = sections\<rparr>))"

definition default_outline :: ReportOutline where
  "default_outline =
     \<lparr>out_title = PyStr ([26410, 26469, 39044, 27979, 25253, 21578]), out_summary = PyStr ([22522, 20110, 27169, 25311, 39044, 27979, 30340, 26410, 26469, 36235, 21183, 19982, 39118, 38505, 20998, 26512]),
      out_sections = map (\<lambda>s. \<lparr>sec_title = PyStr s, sec_content = PyStr []\<rparr>)
        [[39044, 27979, 22330, 26223, 19982, 26680, 24515, 21457, 29616], [20154, 32676, 34892, 20026, 39044, 27979, 20998, 26512], [36235, 21183, 23637, 26395, 19982, 39118, 38505, 25552, 31034]]\<rparr>"

text \<open>\<^verbatim>\<open>except Exception\<close> around a procedure: the state changes made before the exception stay.\<close>

definition catching :: "('w, 'a) gproc \<Rightarrow> (exn \<Rightarrow> ('w, 'a) gproc) \<Rightarrow> ('w, 'a) gproc" where
  "catching body handler g = (case body g of (Inl e, g) \<Rightarrow> handler e g | (Inr x, g) \<Rightarrow> (Inr x, g))"

definition plan_outline :: "'w report_env \<Rightarrow> report_agent \<Rightarrow> 'w callback \<Rightarrow> ('w, ReportOutline) gproc" where
  "plan_outline env ag cb g =
     st_bind (call_back cb ''planning'' 0 (re_tr env ''progress.analyzingRequirements'' []) g) (\<lambda>_ g.
     st_bind (on_world (re_simulation_context env (ag_graph_id ag) (ag_requirement ag)) g) (\<lambda>context g.
     st_bind (call_back cb ''planning'' 30 (re_tr env ''progress.generatingOutline'' []) g) (\<lambda>_ g.
     st_bind (plan_user_prompt env ag context, g) (\<lambda>user_prompt.
       catching
         (\<lambda>g. st_bind (on_world (re_chat_json env
                  [chat_msg ''system'' (PLAN_SYSTEM_PROMPT @ [10, 10] @ re_language env), chat_msg ''user'' user_prompt]) g) (\<lambda>response g.
              st_bind (call_back cb ''planning'' 80 (re_tr env ''progress.parsingOutline'' []) g) (\<lambda>_ g.
              st_bind (planned_outline response, g) (\<lambda>outline g.
              st_bind (call_back cb ''planning'' 100 (re_tr env ''progress.outlinePlanComplete'' []) g) (\<lambda>_ g.
                (Inr outline, g))))))
         (\<lambda>e g. (Inr default_outline, g))))))"

section \<open>One section\<close>

record react_state =
  rs_messages :: "pydict list"
  rs_count :: nat
  rs_conflicts :: nat
  rs_used :: "pyval list"

datatype react_out = Again react_state | Answer pystr react_state | GiveUp react_state

definition max_iterations :: nat where "max_iterations = 5"

definition min_tool_calls :: nat where "min_tool_calls = 3"

definition FINAL :: pystr where "FINAL = lit ''Final Answer:''"

definition say :: "react_state \<Rightarrow> pystr \<Rightarrow> pystr \<Rightarrow> react_state" where
  "say rs assistant user = rs\<lparr>rs_messages := rs_messages rs @ [chat_msg ''assistant'' assistant, chat_msg ''user'' user]\<rparr>"

definition unused_tools :: "'w report_env \<Rightarrow> pyval list \<Rightarrow> pystr list" where
  "unused_tools env used = re_order env (filter (\<lambda>n. PyStr n \<notin> set used) VALID_TOOL_NAMES)"

definition unused_hint :: "'w report_env \<Rightarrow> pyval list \<Rightarrow> pystr" where
  "unused_hint env used =
     (let unused = unused_tools env used in
      if unused = [] then [] else [65288, 36825, 20123, 24037, 20855, 36824, 26410, 20351, 29992, 65292, 25512, 33616, 29992, 19968, 19979, 20182, 20204] @ lit '': '' @ py_join (lit '', '') unused @ [65289])"

definition insufficient :: "'w report_env \<Rightarrow> template \<Rightarrow> react_state \<Rightarrow> pystr res" where
  "insufficient env tpl rs =
     format_template tpl [(''tool_calls_count'', nat_digits (rs_count rs)), (''min_tool_calls'', nat_digits min_tool_calls),
       (''unused_hint'', unused_hint env (rs_used rs))]"

definition joined_names :: "'w report_env \<Rightarrow> pyval list \<Rightarrow> pystr res" where
  "joined_names env used =
     bind_res (map_res (\<lambda>v. case v of PyStr s \<Rightarrow> Inr s | _ \<Rightarrow> Inl (Exn TypeErr (lit ''sequence item: expected str instance''))) used)
       (\<lambda>names. Inr (py_join (lit '', '') (re_order env names)))"

definition observation :: "'w report_env \<Rightarrow> pyval \<Rightarrow> pystr \<Rightarrow> react_state \<Rightarrow> pystr res" where
  "observation env tool_name result rs =
     bind_res (if unused_tools env (rs_used rs) \<noteq> [] \<and> rs_count rs < MAX_TOOL_CALLS_PER_SECTION
               then format_template REACT_UNUSED_TOOLS_HINT
                      [(''unused_list'', py_join ([12289]) (unused_tools env (rs_used rs)))]
               else Inr []) (\<lambda>hint.
     bind_res (joined_names env (rs_used rs)) (\<lambda>used_tools_str.
       format_template REACT_OBSERVATION_TEMPLATE
         [(''tool_name'', fstr (re_str env) tool_name), (''result'', result),
          (''tool_calls_count'', nat_digits (rs_count rs)), (''max_tool_calls'', nat_digits MAX_TOOL_CALLS_PER_SECTION),
          (''used_tools_str'', used_tools_str), (''unused_hint'', hint)]))"

definition EMPTY_REPLY :: pystr where "EMPTY_REPLY = [65288, 21709, 24212, 20026, 31354, 65289]"

definition PLEASE_CONTINUE :: pystr where "PLEASE_CONTINUE = [35831, 32487, 32493, 29983, 25104, 20869, 23481, 12290]"

definition CONFLICT_MSG :: pystr where
  "CONFLICT_MSG = [12304, 26684, 24335, 38169, 35823, 12305, 20320, 22312, 19968, 27425, 22238, 22797, 20013, 21516, 26102, 21253, 21547, 20102, 24037, 20855, 35843, 29992, 21644] @ lit '' Final Answer'' @ [65292, 36825, 26159, 19981, 20801, 35768, 30340, 12290, 10, 27599, 27425, 22238, 22797, 21482, 33021, 20570, 20197, 19979, 20004, 20214, 20107, 20043, 19968, 65306, 10] @ lit ''- '' @ [35843, 29992, 19968, 20010, 24037, 20855, 65288, 36755, 20986, 19968, 20010] @ lit '' <tool_call> '' @ [22359, 65292, 19981, 35201, 20889] @ lit '' Final Answer'' @ [65289, 10] @ lit ''- '' @ [36755, 20986, 26368, 32456, 20869, 23481, 65288, 20197] @ lit '' '' @ [39] @ lit ''Final Answer:'' @ [39] @ lit '' '' @ [24320, 22836, 65292, 19981, 35201, 21253, 21547] @ lit '' <tool_call>'' @ [65289, 10, 35831, 37325, 26032, 22238, 22797, 65292, 21482, 20570, 20854, 20013, 19968, 20214, 20107, 12290]"

text \<open>\<^verbatim>\<open>if self.report_logger: self.report_logger.log_section_content(...)\<close> and the return of the answer.\<close>

definition deliver :: "'w report_env \<Rightarrow> pystr \<Rightarrow> pyval \<Rightarrow> nat \<Rightarrow> react_state \<Rightarrow> pystr \<Rightarrow> ('w, react_out) gproc" where
  "deliver env rid title n rs answer g =
     st_bind (if_logger (log_section_content env rid title n answer (rs_count rs)) g) (\<lambda>_ g. (Inr (Answer answer rs), g))"

definition use_tool ::
  "'w report_env \<Rightarrow> report_agent \<Rightarrow> pystr \<Rightarrow> pyval \<Rightarrow> nat \<Rightarrow> pystr \<Rightarrow> nat \<Rightarrow> react_state \<Rightarrow> pystr \<Rightarrow> pyval \<Rightarrow> ('w, react_out) gproc" where
  "use_tool env ag rid title n report_context iteration rs response call g =
     st_bind (as_dict call, g) (\<lambda>d g.
     st_bind (require_key d ''name'', g) (\<lambda>name g.
     let parameters = param d ''parameters'' (PyDict []) in
     st_bind (if_logger (log_tool_call env rid title n name parameters (Suc iteration)) g) (\<lambda>_ g.
     st_bind (on_world (\<lambda>w. let (result, w) = execute_tool env ag name parameters report_context w in (Inr result, w)) g) (\<lambda>result g.
     st_bind (if_logger (log_tool_result env rid title n name result (Suc iteration)) g) (\<lambda>_ g.
     st_bind (if py_hashable name then Inr () else Inl (Exn TypeErr (lit ''unhashable type'')), g) (\<lambda>_ g.
     let rs = rs\<lparr>rs_count := Suc (rs_count rs), rs_used := List.insert name (rs_used rs)\<rparr> in
     st_bind (observation env name result rs, g) (\<lambda>obs g.
       (Inr (Again (say rs (strip_fake_tool_results (re_word env) response) obs)), g))))))))"

text \<open>What one reply leads to, once conflicts between a tool call and an answer have been resolved.\<close>

definition react_reply ::
  "'w report_env \<Rightarrow> report_agent \<Rightarrow> pystr \<Rightarrow> pyval \<Rightarrow> nat \<Rightarrow> pystr \<Rightarrow> nat \<Rightarrow> react_state \<Rightarrow> pystr \<Rightarrow> pyval list \<Rightarrow> bool \<Rightarrow> ('w, react_out) gproc" where
  "react_reply env ag rid title n report_context iteration rs response tool_calls has_final g =
     st_bind (if_logger (log_llm_response env rid title n response (Suc iteration) (tool_calls \<noteq> []) has_final) g) (\<lambda>_ g.
     let cleaned = strip_fake_tool_results (re_word env) response in
     if has_final then
       if rs_count rs < min_tool_calls then
         st_bind (insufficient env REACT_INSUFFICIENT_TOOLS_MSG rs, g) (\<lambda>msg g. (Inr (Again (say rs cleaned msg)), g))
       else deliver env rid title n rs (py_strip (last (split_str FINAL cleaned))) g
     else if tool_calls \<noteq> [] then
       if MAX_TOOL_CALLS_PER_SECTION \<le> rs_count rs then
         st_bind (format_template REACT_TOOL_LIMIT_MSG
             [(''tool_calls_count'', nat_digits (rs_count rs)), (''max_tool_calls'', nat_digits MAX_TOOL_CALLS_PER_SECTION)], g)
           (\<lambda>msg g. (Inr (Again (say rs cleaned msg)), g))
       else use_tool env ag rid title n report_context iteration rs response (hd tool_calls) g
     else if rs_count rs < min_tool_calls then
       st_bind (insufficient env REACT_INSUFFICIENT_TOOLS_MSG_ALT rs, g) (\<lambda>msg g. (Inr (Again (say rs cleaned msg)), g))
     else deliver env rid title n (rs\<lparr>rs_messages := rs_messages rs @ [chat_msg ''assistant'' cleaned]\<rparr>) cleaned g)"

text \<open>Handling of one reply (\<open>None\<close> for no text), conflicts included.\<close>

definition react_handle ::
  "'w report_env \<Rightarrow> report_agent \<Rightarrow> pystr \<Rightarrow> pyval \<Rightarrow> nat \<Rightarrow> pystr \<Rightarrow> nat \<Rightarrow> react_state \<Rightarrow> pystr option \<Rightarrow> ('w, react_out) gproc" where
  "react_handle env ag rid title n report_context iteration rs reply g =
     (case reply of
        None \<Rightarrow>
          (Inr (if iteration < max_iterations - 1 then Again (say rs EMPTY_REPLY PLEASE_CONTINUE) else GiveUp rs), g)
      | Some response \<Rightarrow>
          st_bind (parse_tool_calls (re_loads env) response, g) (\<lambda>tool_calls g.
          let has_final = occurs FINAL response in
          if tool_calls \<noteq> [] \<and> has_final then
            let rs = rs\<lparr>rs_conflicts := Suc (rs_conflicts rs)\<rparr> in
            if rs_conflicts rs \<le> 2 then
              (Inr (Again (say rs (strip_fake_tool_results (re_word env) response) CONFLICT_MSG)), g)
            else
              let rs = rs\<lparr>rs_conflicts := 0\<rparr> in
              (case find_sub CALL_CLOSE response of
                 Some i \<Rightarrow>
                   (let response = take (i + length CALL_CLOSE) response in
                    st_bind (parse_tool_calls (re_loads env) response, g) (\<lambda>tool_calls.
                      react_reply env ag rid title n report_context iteration rs response tool_calls False))
               | None \<Rightarrow> react_reply env ag rid title n report_context iteration rs response tool_calls False g)
          else react_reply env ag rid title n report_context iteration rs response tool_calls has_final g))"

definition react_step ::
  "'w report_env \<Rightarrow> report_agent \<Rightarrow> pystr \<Rightarrow> pyval \<Rightarrow> nat \<Rightarrow> pystr \<Rightarrow> 'w callback \<Rightarrow> nat \<Rightarrow> react_state \<Rightarrow> ('w, react_out) gproc" where
  "react_step env ag rid title n report_context cb iteration rs g =
     st_bind (call_back cb ''generating'' (20 * int iteration)
         (re_tr env ''progress.deepSearchAndWrite''
            [(''current'', PyInt (int (rs_count rs))), (''max'', PyInt (int MAX_TOOL_CALLS_PER_SECTION))]) g) (\<lambda>_ g.
     st_bind (on_world (re_chat env (rs_messages rs) (Some 4096)) g) (\<lambda>reply.
       react_handle env ag rid title n report_context iteration rs reply))"

text \<open>\<^verbatim>\<open>for iteration in range(max_iterations)\<close> with \<open>k\<close> rounds left; \<open>GiveUp\<close> is leaving the loop without an answer.\<close>

fun react_loop ::
  "'w report_env \<Rightarrow> report_agent \<Rightarrow> pystr \<Rightarrow> pyval \<Rightarrow> nat \<Rightarrow> pystr \<Rightarrow> 'w callback \<Rightarrow> nat \<Rightarrow> react_state \<Rightarrow> ('w, react_out) gproc" where
  "react_loop env ag rid title n report_context cb 0 rs g = (Inr (GiveUp rs), g)"
| "react_loop env ag rid title n report_context cb (Suc k) rs g =
     st_bind (react_step env ag rid title n report_context cb (max_iterations - Suc k) rs g) (\<lambda>out g.
       case out of Again rs \<Rightarrow> react_loop env ag rid title n report_context cb k rs g | _ \<Rightarrow> (Inr out, g))"

definition previous_content :: "pystr list \<Rightarrow> pystr" where
  "previous_content previous_sections =
     (if previous_sections = [] then [65288, 36825, 26159, 31532, 19968, 20010, 31456, 33410, 65289]
      else py_join ([10, 10] @ lit ''---'' @ [10, 10])
             (map (\<lambda>s. if length s > 4000 then take 4000 s @ lit ''...'' else s) previous_sections))"

definition start_react :: "'w report_env \<Rightarrow> report_agent \<Rightarrow> pyval \<Rightarrow> ReportOutline \<Rightarrow> pystr list \<Rightarrow> react_state res" where
  "start_react env ag title outline previous_sections =
     bind_res (format_template SECTION_SYSTEM_PROMPT_TEMPLATE
       [(''report_title'', fstr (re_str env) (out_title outline)), (''report_summary'', fstr (re_str env) (out_summary outline)),
        (''simulation_requirement'', ag_requirement ag), (''section_title'', fstr (re_str env) title),
        (''tools_description'', get_tools_description define_tools)]) (\<lambda>system_prompt.
     bind_res (format_template SECTION_USER_PROMPT_TEMPLATE
       [(''previous_content'', previous_content previous_sections), (''section_title'', fstr (re_str env) title)]) (\<lambda>user_prompt.
       Inr \<lparr>rs_messages = [chat_msg ''system'' (system_prompt @ [10, 10] @ re_language env), chat_msg ''user'' user_prompt],
            rs_count = 0, rs_conflicts = 0, rs_used = []\<rparr>))"

definition force_answer :: "'w report_env \<Rightarrow> pystr \<Rightarrow> pyval \<Rightarrow> nat \<Rightarrow> react_state \<Rightarrow> ('w, pystr) gproc" where
  "force_answer env rid title n rs g =
     st_bind (on_world (re_chat env (rs_messages rs @ [chat_msg ''user'' REACT_FORCE_FINAL_MSG]) (Some 4096)) g) (\<lambda>reply g.
     let answer = (case reply of
           None \<Rightarrow> re_tr env ''report.sectionGenFailedContent'' []
         | Some response \<Rightarrow> if occurs FINAL response then py_strip (last (split_str FINAL response)) else response) in
     st_bind (if_logger (log_section_content env rid title n answer (rs_count rs)) g) (\<lambda>_ g. (Inr answer, g)))"

definition generate_section_react ::
  "'w report_env \<Rightarrow> report_agent \<Rightarrow> pystr \<Rightarrow> ReportSection \<Rightarrow> ReportOutline \<Rightarrow> pystr list \<Rightarrow> 'w callback \<Rightarrow> nat \<Rightarrow> ('w, pystr) gproc" where
  "generate_section_react env ag rid section outline previous_sections cb n g =
     (let title = sec_title section;
          report_context = [31456, 33410, 26631, 39064] @ lit '': '' @ fstr (re_str env) title @ [10] @ [27169, 25311, 38656, 27714] @ lit '': '' @ ag_requirement ag in
      st_bind (if_logger (log_section_start env rid title n) g) (\<lambda>_ g.
      st_bind (start_react env ag title outline previous_sections, g) (\<lambda>rs g.
      st_bind (react_loop env ag rid title n report_context cb max_iterations rs g) (\<lambda>out.
        case out of Answer answer _ \<Rightarrow> Pair (Inr answer) | GiveUp rs \<Rightarrow> force_answer env rid title n rs
        | Again rs \<Rightarrow> force_answer env rid title n rs))))"

section \<open>A whole report\<close>

definition put_progress ::
  "'w report_env \<Rightarrow> pystr \<Rightarrow> string \<Rightarrow> int \<Rightarrow> pystr \<Rightarrow> pyval \<Rightarrow> ('w, unit) gproc" where
  "put_progress env rid status progress msg current_section g =
     st_bind (on_store (ensure_report_folder rid) g) (\<lambda>_ g.
     st_bind (now env g) (\<lambda>t g.
       on_store (update_progress t rid (lit status) progress msg current_section (g_done g)) g))"

definition modify :: "('w gen \<Rightarrow> 'w gen) \<Rightarrow> ('w, unit) gproc" where
  "modify f g = (Inr (), f g)"

definition with_report :: "(Report \<Rightarrow> Report) \<Rightarrow> ('w, unit) gproc" where
  "with_report f = modify (\<lambda>g. g\<lparr>g_report := f (g_report g)\<rparr>)"

definition store_report :: "('w, unit) gproc" where
  "store_report g = on_store (save_report (g_report g)) g"

text \<open>\<^verbatim>\<open>section.content = section_content\<close>: the section object is shared with the report's outline.\<close>

definition set_content :: "nat \<Rightarrow> pystr \<Rightarrow> Report \<Rightarrow> Report" where
  "set_content i content r =
     r\<lparr>rp_outline := map_option (\<lambda>outline. outline\<lparr>out_sections := (out_sections outline)[i := (out_sections outline ! i)\<lparr>sec_content := PyStr content\<rparr>]\<rparr>)
        (rp_outline r)\<rparr>"

definition base_progress :: "nat \<Rightarrow> nat \<Rightarrow> int" where
  "base_progress i total_sections = 20 + \<lfloor>of_nat i / of_nat total_sections * 70 :: rat\<rfloor>"

definition section_callback :: "'w callback \<Rightarrow> int \<Rightarrow> nat \<Rightarrow> 'w callback" where
  "section_callback cb base total_sections =
     map_option (\<lambda>f stage prog msg. f stage (base + \<lfloor>of_int prog * 7 / 10 / of_nat total_sections :: rat\<rfloor>) msg) cb"

definition section_message :: "'w report_env \<Rightarrow> pyval \<Rightarrow> nat \<Rightarrow> nat \<Rightarrow> pystr" where
  "section_message env title i total_sections =
     re_tr env ''progress.generatingSection''
       [(''title'', title), (''current'', PyInt (int (Suc i))), (''total'', PyInt (int total_sections))]"

fun section_loop ::
  "'w report_env \<Rightarrow> report_agent \<Rightarrow> pystr \<Rightarrow> ReportOutline \<Rightarrow> 'w callback \<Rightarrow> nat \<Rightarrow> nat \<Rightarrow> ReportSection list \<Rightarrow> pystr list \<Rightarrow> ('w, unit) gproc" where
  "section_loop env ag rid outline cb total_sections i [] generated g = (Inr (), g)"
| "section_loop env ag rid outline cb total_sections i (section # sections) generated g =
     (let title = sec_title section; base = base_progress i total_sections;
          msg = section_message env title i total_sections in
      st_bind (put_progress env rid ''generating'' base msg title g) (\<lambda>_ g.
      st_bind (call_back cb ''generating'' base msg g) (\<lambda>_ g.
      st_bind (generate_section_react env ag rid section outline generated (section_callback cb base total_sections) (Suc i) g) (\<lambda>content g.
      let full = lit ''## '' @ fstr (re_str env) title @ [10, 10] @ content in
      st_bind (with_report (set_content i content) g) (\<lambda>_ g.
      st_bind (on_store (save_section (re_str env) rid (Suc i) (section\<lparr>sec_content := PyStr content\<rparr>)) g) (\<lambda>_ g.
      st_bind (modify (\<lambda>g. g\<lparr>g_done := g_done g @ [title]\<rparr>) g) (\<lambda>_ g.
      st_bind (if_logger (log_section_full_complete env rid title (Suc i) (py_strip full)) g) (\<lambda>_ g.
      st_bind (put_progress env rid ''generating'' (base + int (70 div total_sections))
                 (re_tr env ''progress.sectionDone'' [(''title'', title)]) PyNone g) (\<lambda>_ g.
        section_loop env ag rid outline cb total_sections (Suc i) sections (generated @ [full]) g)))))))))"

definition open_logs :: "'w report_env \<Rightarrow> report_agent \<Rightarrow> pystr \<Rightarrow> ('w, unit) gproc" where
  "open_logs env ag rid g =
     st_bind (on_store (ensure_report_folder rid) g) (\<lambda>_ g.
     st_bind (modify (\<lambda>g. g\<lparr>g_logger := True\<rparr>) g) (\<lambda>_ g.
     st_bind (log_start env rid ag g) (\<lambda>_.
       on_store (in_folder rid (\<lambda>d. if dhas (rf_texts d) CONSOLE_LOG then d else put_text CONSOLE_LOG [] d)))))"

definition planning_phase :: "'w report_env \<Rightarrow> report_agent \<Rightarrow> pystr \<Rightarrow> 'w callback \<Rightarrow> ('w, ReportOutline) gproc" where
  "planning_phase env ag rid cb g =
     st_bind (put_progress env rid ''pending'' 0 (re_tr env ''progress.initReport'' []) PyNone g) (\<lambda>_ g.
     st_bind (store_report g) (\<lambda>_ g.
     st_bind (with_report (\<lambda>r. r\<lparr>rp_status := REPORT_PLANNING\<rparr>) g) (\<lambda>_ g.
     st_bind (put_progress env rid ''planning'' 5 (re_tr env ''progress.startPlanningOutline'' []) PyNone g) (\<lambda>_ g.
     st_bind (log_planning_start env rid g) (\<lambda>_ g.
     st_bind (call_back cb ''planning'' 0 (re_tr env ''progress.startPlanningOutline'' []) g) (\<lambda>_ g.
     st_bind (plan_outline env ag (map_option (\<lambda>f stage prog msg. f stage (prog div 5) msg) cb) g) (\<lambda>outline g.
     st_bind (with_report (\<lambda>r. r\<lparr>rp_outline := Some outline\<rparr>) g) (\<lambda>_ g.
     st_bind (log_planning_complete env rid (outline_to_dict outline) g) (\<lambda>_ g.
     st_bind (on_store (save_outline rid outline) g) (\<lambda>_ g.
     st_bind (put_progress env rid ''planning'' 15
        (re_tr env ''progress.outlineDone'' [(''count'', PyInt (int (length (out_sections outline))))]) PyNone g) (\<lambda>_ g.
     st_bind (store_report g) (\<lambda>_ g.
     st_bind (with_report (\<lambda>r. r\<lparr>rp_status := REPORT_GENERATING\<rparr>) g) (\<lambda>_ g.
       (Inr outline, g))))))))))))))"

definition finishing_phase :: "'w report_env \<Rightarrow> pystr \<Rightarrow> ReportOutline \<Rightarrow> 'w callback \<Rightarrow> ('w, unit) gproc" where
  "finishing_phase env rid outline cb g =
     (let msg = re_tr env ''progress.assemblingReport'' [] in
      st_bind (call_back cb ''generating'' 95 msg g) (\<lambda>_ g.
      st_bind (put_progress env rid ''generating'' 95 msg PyNone g) (\<lambda>_ g.
      st_bind (on_store (assemble_full_report (re_str env) (re_parse_int env) rid outline) g) (\<lambda>markdown g.
      st_bind (with_report (\<lambda>r. r\<lparr>rp_markdown := PyStr markdown, rp_status := REPORT_COMPLETED\<rparr>) g) (\<lambda>_ g.
      st_bind (now env g) (\<lambda>completed_at g.
      st_bind (with_report (\<lambda>r. r\<lparr>rp_completed_at := PyStr completed_at\<rparr>) g) (\<lambda>_ g.
      st_bind (on_world (\<lambda>w. let (q, w) = re_elapsed env w in (Inr q, w)) g) (\<lambda>total_time g.
      st_bind (if_logger (log_report_complete env rid (length (out_sections outline)) total_time) g) (\<lambda>_ g.
      st_bind (store_report g) (\<lambda>_ g.
      let msg = re_tr env ''progress.reportComplete'' [] in
      st_bind (put_progress env rid ''completed'' 100 msg PyNone g) (\<lambda>_ g.
        call_back cb ''completed'' 100 msg g)))))))))))"

definition generate_body :: "'w report_env \<Rightarrow> report_agent \<Rightarrow> pystr \<Rightarrow> 'w callback \<Rightarrow> ('w, unit) gproc" where
  "generate_body env ag rid cb g =
     st_bind (on_store (ensure_report_folder rid) g) (\<lambda>_ g.
     st_bind (open_logs env ag rid g) (\<lambda>_ g.
     st_bind (planning_phase env ag rid cb g) (\<lambda>outline g.
     st_bind (section_loop env ag rid outline cb (length (out_sections outline)) 0 (out_sections outline) [] g) (\<lambda>_.
       finishing_phase env rid outline cb))))"

text \<open>\<^verbatim>\<open>try: ... except Exception: pass\<close>\<close>

definition swallowing :: "('w, unit) gproc \<Rightarrow> ('w, unit) gproc" where
  "swallowing f g = (Inr (), snd (f g))"

definition failure_handler :: "'w report_env \<Rightarrow> pystr \<Rightarrow> exn \<Rightarrow> ('w, unit) gproc" where
  "failure_handler env rid e g =
     st_bind (with_report (\<lambda>r. r\<lparr>rp_status := REPORT_FAILED, rp_error := PyStr (exn_msg e)\<rparr>) g) (\<lambda>_ g.
      st_bind (if_logger (log_error env rid (exn_msg e) ''failed'' PyNone) g) (\<lambda>_.
        swallowing (\<lambda>g. st_bind (store_report g) (\<lambda>_.
          put_progress env rid ''failed'' (- 1) (re_tr env ''progress.reportFailed'' [(''error'', PyStr (exn_msg e))]) PyNone))))"

definition new_report :: "pystr \<Rightarrow> report_agent \<Rightarrow> pystr \<Rightarrow> Report" where
  "new_report rid ag created_at =
     \<lparr>rp_report_id = PyStr rid, rp_simulation_id = PyStr (ag_simulation_id ag), rp_graph_id = PyStr (ag_graph_id ag),
      rp_simulation_requirement = PyStr (ag_requirement ag), rp_status = REPORT_PENDING, rp_outline = None,
      rp_markdown = PyStr [], rp_created_at = PyStr created_at, rp_completed_at = PyStr [], rp_error = PyNone\<rparr>"

text \<open>\<open>logger\<close> says whether the agent already has a logger from an earlier call.\<close>

definition generate_report ::
  "'w report_env \<Rightarrow> report_agent \<Rightarrow> 'w callback \<Rightarrow> pystr option \<Rightarrow> bool \<Rightarrow> reports \<Rightarrow> 'w \<Rightarrow> unit res \<times> 'w gen" where
  "generate_report env ag cb report_id logger fs w =
     (let (rid, w) = (case report_id of
            Some s \<Rightarrow> if s \<noteq> [] then (s, w) else (let (u, w) = re_uuid_hex env w in (lit ''report_'' @ take 12 u, w))
          | None \<Rightarrow> (let (u, w) = re_uuid_hex env w in (lit ''report_'' @ take 12 u, w)));
          (created_at, w) = re_now env w
      in catching (generate_body env ag rid cb) (failure_handler env rid)
           \<lparr>g_fs = fs, g_w = w, g_report = new_report rid ag created_at, g_done = [], g_logger = logger\<rparr>)"

section \<open>Chat\<close>

definition clipped_report :: "'w report_env \<Rightarrow> pyval \<Rightarrow> pystr" where
  "clipped_report env markdown =
     (let tail = [10, 10] @ lit ''... ['' @ [25253, 21578, 20869, 23481, 24050, 25130, 26029] @ lit ''] ...'' in
      case markdown of
        PyStr s \<Rightarrow> if length s > 15000 then take 15000 s @ tail else s
      | PyList xs \<Rightarrow> if xs = [] then [] else
          re_str env (PyList (if length xs > 15000 then take 15000 xs @ map (\<lambda>c. PyStr [c]) tail else xs))
      | _ \<Rightarrow> [])"

definition report_content :: "'w report_env \<Rightarrow> report_agent \<Rightarrow> reports \<Rightarrow> pystr" where
  "report_content env ag fs =
     (case get_report_by_simulation fs (ag_simulation_id ag) of
        Inr (Some r) \<Rightarrow> clipped_report env (rp_markdown r)
      | _ \<Rightarrow> [])"

record chat_result =
  cr_response :: pystr
  cr_tool_calls :: "pyval list"
  cr_sources :: "pyval list"

definition call_source :: "pyval \<Rightarrow> pyval res" where
  "call_source call =
     bind_res (as_dict call) (\<lambda>d. bind_res (as_dict (param d ''parameters'' (PyDict []))) (\<lambda>p. Inr (param p ''query'' (PyStr []))))"

definition chat_reply :: "'w report_env \<Rightarrow> pyval list \<Rightarrow> pystr \<Rightarrow> chat_result res" where
  "chat_reply env made response =
     bind_res (map_res call_source made) (\<lambda>sources.
       Inr \<lparr>cr_response = clean_chat_reply (re_word env) response, cr_tool_calls = made, cr_sources = sources\<rparr>)"

definition no_text :: exn where
  "no_text = Exn TypeErr (lit ''expected string or bytes-like object'')"

definition run_chat_tool ::
  "'w report_env \<Rightarrow> report_agent \<Rightarrow> pyval \<Rightarrow> pyval list \<Rightarrow> ('w, (pyval \<times> pystr) list \<times> pyval list) gproc" where
  "run_chat_tool env ag call made g =
     (if MAX_TOOL_CALLS_PER_CHAT \<le> length made then (Inr ([], made), g)
      else st_bind (as_dict call, g) (\<lambda>d g.
        st_bind (require_key d ''name'', g) (\<lambda>name g.
        st_bind (on_world (\<lambda>w. let (r, w) = execute_tool env ag name (param d ''parameters'' (PyDict [])) [] w in (Inr r, w)) g)
          (\<lambda>result g. (Inr ([(name, take 1500 result)], made @ [call]), g)))))"

fun chat_loop :: "'w report_env \<Rightarrow> report_agent \<Rightarrow> nat \<Rightarrow> pydict list \<Rightarrow> pyval list \<Rightarrow> ('w, chat_result) gproc" where
  "chat_loop env ag 0 messages made g =
     st_bind (on_world (re_chat env messages (Some 4096)) g) (\<lambda>reply g.
       case reply of None \<Rightarrow> (Inl no_text, g) | Some response \<Rightarrow> (chat_reply env made response, g))"
| "chat_loop env ag (Suc k) messages made g =
     st_bind (on_world (re_chat env messages (Some 4096)) g) (\<lambda>reply g.
       case reply of
         None \<Rightarrow> (Inl no_text, g)
       | Some response \<Rightarrow>
           st_bind (parse_tool_calls (re_loads env) response, g) (\<lambda>tool_calls g.
             case tool_calls of
               [] \<Rightarrow> (chat_reply env made response, g)
             | call # _ \<Rightarrow>
                 st_bind (run_chat_tool env ag call made g) (\<lambda>(results, made) g.
                   let obs = py_join [10] (map (\<lambda>(tool, r). lit ''['' @ fstr (re_str env) tool @ [32467, 26524] @ lit '']'' @ [10] @ r) results)
                   in chat_loop env ag k
                        (messages @ [chat_msg ''assistant'' (strip_fake_tool_results (re_word env) response),
                                     chat_msg ''user'' (obs @ CHAT_OBSERVATION_SUFFIX)]) made g)))"

definition agent_chat :: "'w report_env \<Rightarrow> report_agent \<Rightarrow> pystr \<Rightarrow> pydict list \<Rightarrow> ('w, chat_result) gproc" where
  "agent_chat env ag msg chat_history g =
     (let content = report_content env ag (g_fs g) in
      st_bind (format_template CHAT_SYSTEM_PROMPT_TEMPLATE
        [(''simulation_requirement'', ag_requirement ag),
         (''report_content'', if content \<noteq> [] then content else [65288, 26242, 26080, 25253, 21578, 65289]),
         (''tools_description'', get_tools_description define_tools)], g) (\<lambda>system_prompt.
        chat_loop env ag 2
          ([chat_msg ''system'' (system_prompt @ [10, 10] @ re_language env)] @ py_slice chat_history (-10) (int (length chat_history))
           @ [chat_msg ''user'' msg]) []))"

end
