(* ===== verification/Report_Frames.thy ===== *)
theory Report_Frames
  imports Report_Agent
begin

text \<open>
  What the steps of a report's generation leave alone.  \<open>view\<close> is the part of a run's state that
  the finished report depends on; a step is \<open>unchanging\<close> when, in a run whose folder exists, it changes
  nothing but logs, progress and the outside world.  The rules of \<open>keeps_rules\<close> follow the structure
  of the code.
\<close>

named_theorems keeps_rules

definition folder_view :: "report_folder \<Rightarrow> json_file option \<times> (pystr \<times> pystr) list" where
  "folder_view d = (rf_meta d, rf_texts d)"

definition view ::
  "'w gen \<Rightarrow> (pystr \<Rightarrow> (json_file option \<times> (pystr \<times> pystr) list) option) \<times> (pystr \<Rightarrow> json_file option) \<times> Report \<times> pyval list \<times> bool" where
  "view g = (\<lambda>k. map_option folder_view (folder_of (g_fs g) k), legacy_json (g_fs g), g_report g, g_done g, g_logger g)"

definition has_folder :: "pystr \<Rightarrow> 'w gen \<Rightarrow> bool" where
  "has_folder rid g \<longleftrightarrow> folder_of (g_fs g) rid \<noteq> None"

definition unchanging :: "pystr \<Rightarrow> ('w, 'a) gproc \<Rightarrow> bool" where
  "unchanging rid f \<longleftrightarrow> (\<forall>g. has_folder rid g \<longrightarrow> view (snd (f g)) = view g)"

lemma unchangingD: "unchanging rid f \<Longrightarrow> f g = (r, g') \<Longrightarrow> has_folder rid g \<Longrightarrow> view g' = view g"
  unfolding unchanging_def by (metis snd_conv)

lemma view_has_folder: "view g' = view g \<Longrightarrow> has_folder rid g' = has_folder rid g"
proof -
  assume "view g' = view g"
  then have "map_option folder_view (folder_of (g_fs g') rid) = map_option folder_view (folder_of (g_fs g) rid)"
    by (simp add: view_def fun_eq_iff)
  then show ?thesis
    unfolding has_folder_def by (metis option.map_disc_iff)
qed

text \<open>What \<^verbatim>\<open>get_report\<close> reads of a folder is in its view.\<close>

lemma meta_of_view:
  "meta_of fs k = (case Option.bind (map_option folder_view (folder_of fs k)) fst of Some f \<Rightarrow> Some f | None \<Rightarrow> legacy_json fs k)"
  by (cases "folder_of fs k") (simp_all add: meta_of_def folder_view_def)

lemma full_text_view:
  "full_text fs k = Option.bind (map_option folder_view (folder_of fs k)) (\<lambda>v. map_option read_text (dget (snd v) FULL_REPORT))"
  by (cases "folder_of fs k") (simp_all add: full_text_def folder_view_def)

lemma get_report_view:
  assumes f: "map_option folder_view (folder_of fs' k) = map_option folder_view (folder_of fs k)" "legacy_json fs' = legacy_json fs"
  shows "full_text fs' k = full_text fs k" "get_report fs' k = get_report fs k"
proof -
  have m: "meta_of fs' k = meta_of fs k"
    unfolding meta_of_view f by (rule refl)
  show t: "full_text fs' k = full_text fs k"
    unfolding full_text_view f by (rule refl)
  show "get_report fs' k = get_report fs k"
    unfolding get_report_def m t by (rule refl)
qed

lemma view_fields:
  assumes "view g' = view g"
  shows "g_report g' = g_report g" "g_done g' = g_done g" "g_logger g' = g_logger g"
    "legacy_json (g_fs g') = legacy_json (g_fs g)"
    "map_option folder_view (folder_of (g_fs g') k) = map_option folder_view (folder_of (g_fs g) k)"
  using assms by (simp_all add: view_def fun_eq_iff)

lemma view_get_report:
  assumes "view g' = view g"
  shows "get_report (g_fs g') k = get_report (g_fs g) k" "read_markdown (g_fs g') k v = read_markdown (g_fs g) k v"
proof -
  note same = get_report_view [OF view_fields(5) [OF assms] view_fields(4) [OF assms]]
  show "get_report (g_fs g') k = get_report (g_fs g) k" by (rule same)
  show "read_markdown (g_fs g') k v = read_markdown (g_fs g) k v" unfolding read_markdown_def same by (rule refl)
qed

section \<open>Rules\<close>

lemma keeps_bind [keeps_rules]:
  fixes f :: "('w, 'a) gproc"
  assumes "unchanging rid f" and "\<And>x. unchanging rid (h x)"
  shows "unchanging rid (\<lambda>g. st_bind (f g) h)"
  unfolding unchanging_def
proof (intro allI impI)
  fix g :: "'w gen" assume hf: "has_folder rid g"
  obtain r g1 where f: "f g = (r, g1)" by fastforce
  have v: "view g1 = view g" by (rule unchangingD [OF assms(1) f hf])
  show "view (snd (st_bind (f g) h)) = view g"
  proof (cases r)
    case (Inr x)
    have "view (snd (h x g1)) = view g1"
      using assms(2) hf view_has_folder [OF v, of rid] unfolding unchanging_def by blast
    with f v Inr show ?thesis by simp
  qed (use f v in simp)
qed

lemma keeps_result [keeps_rules]: "unchanging rid (\<lambda>g. (r, g))"
  by (simp add: unchanging_def)

lemma keeps_Pair [keeps_rules]: "unchanging rid (Pair r)"
  by (simp add: unchanging_def)

lemma keeps_bind_result [keeps_rules]:
  fixes h :: "'a \<Rightarrow> ('w, 'b) gproc"
  assumes "\<And>x. unchanging rid (h x)"
  shows "unchanging rid (\<lambda>g. st_bind (r, g) h)"
  using keeps_bind [OF keeps_result assms] .

lemma keeps_world [keeps_rules]: "unchanging rid (on_world f)"
  by (auto simp: unchanging_def on_world_def view_def Let_def split: prod.splits)

lemma keeps_now [keeps_rules]: "unchanging rid (now env)"
  unfolding now_def by (rule keeps_world)

lemma keeps_if [keeps_rules]: "unchanging rid f \<Longrightarrow> unchanging rid h \<Longrightarrow> unchanging rid (\<lambda>g. if c then f g else h g)"
  by (cases c) simp_all

lemma keeps_if' [keeps_rules]: "unchanging rid f \<Longrightarrow> unchanging rid h \<Longrightarrow> unchanging rid (if c then f else h)"
  by simp

lemma keeps_callback [keeps_rules]: "unchanging rid (call_back cb stage progress msg)"
  by (cases cb) (auto simp: unchanging_def call_back_def on_world_def view_def Let_def split: prod.splits)

lemma keeps_if_logger [keeps_rules]: "unchanging rid f \<Longrightarrow> unchanging rid (if_logger f)"
  by (simp add: unchanging_def if_logger_def)

lemma keeps_catching [keeps_rules]:
  fixes f :: "('w, 'a) gproc"
  assumes "unchanging rid f" and "\<And>e. unchanging rid (h e)"
  shows "unchanging rid (catching f h)"
  unfolding unchanging_def
proof (intro allI impI)
  fix g :: "'w gen" assume hf: "has_folder rid g"
  obtain r g1 where f: "f g = (r, g1)" by fastforce
  have v: "view g1 = view g" by (rule unchangingD [OF assms(1) f hf])
  show "view (snd (catching f h g)) = view g"
  proof (cases r)
    case (Inl e)
    have "view (snd (h e g1)) = view g1"
      using assms(2) hf view_has_folder [OF v, of rid] unfolding unchanging_def by blast
    with f v Inl show ?thesis by (simp add: catching_def)
  qed (use f v in \<open>simp add: catching_def\<close>)
qed

text \<open>Store operations that leave \<^verbatim>\<open>meta.json\<close> and the text files alone.\<close>

lemma keeps_change [keeps_rules]:
  assumes "\<And>d. folder_view (f d) = folder_view d"
  shows "unchanging rid (on_store (change_folder rid f))"
  unfolding unchanging_def
proof (intro allI impI)
  fix g :: "'a gen" assume "has_folder rid g"
  then obtain d where d: "folder_of (g_fs g) rid = Some d" by (auto simp: has_folder_def)
  then have c: "change_folder rid f (g_fs g) = (Inr (), dset (g_fs g) rid (Folder (f d)))"
    by (simp add: change_folder_def)
  with change_folder_ok [OF c] d show "view (snd (on_store (change_folder rid f) g)) = view g"
    by (simp add: on_store_def view_def found_folder_def fun_eq_iff assms)
qed

lemma keeps_ensure [keeps_rules]: "unchanging rid (on_store (ensure_report_folder rid))"
  by (auto simp: unchanging_def has_folder_def on_store_def ensure_report_folder_def folder_of_def
      split: option.splits report_entry.splits)

lemma in_folder_existing: "folder_of fs rid \<noteq> None \<Longrightarrow> in_folder rid f fs = change_folder rid f fs"
  by (auto simp: in_folder_def ensure_report_folder_def folder_of_def split: option.splits report_entry.splits)

lemma keeps_in_folder [keeps_rules]:
  assumes "\<And>d. folder_view (f d) = folder_view d"
  shows "unchanging rid (on_store (in_folder rid f))"
  using keeps_change [OF assms, of rid]
  by (simp add: unchanging_def has_folder_def on_store_def in_folder_existing)

lemma keeps_log [keeps_rules]: "unchanging rid (agent_log_entry env rid action stage details title n)"
  unfolding agent_log_entry_def by (intro keeps_rules) (simp add: folder_view_def)

lemmas log_defs = log_start_def log_planning_start_def log_planning_context_def log_planning_complete_def
  log_section_start_def log_react_thought_def log_tool_call_def log_tool_result_def log_llm_response_def
  log_section_content_def log_section_full_complete_def log_report_complete_def log_error_def

lemma keeps_put_progress [keeps_rules]: "unchanging rid (put_progress env rid status progress msg current)"
proof -
  have "unchanging rid (on_store (update_progress t rid s p m c titles))" for t s p m c titles
    unfolding update_progress_def by (intro keeps_rules) (simp add: folder_view_def)
  then have "unchanging rid (\<lambda>g. on_store (update_progress t rid s p m c (g_done g)) g)" for t s p m c
    unfolding unchanging_def by blast
  then show ?thesis
    unfolding put_progress_def by (intro keeps_rules)
qed

lemma keeps_save_outline [keeps_rules]: "unchanging rid (on_store (save_outline rid outline))"
  unfolding save_outline_def by (intro keeps_rules) (simp add: folder_view_def)

lemma keeps_plan [keeps_rules]: "unchanging rid (plan_outline env ag cb)"
  unfolding plan_outline_def by (intro keeps_rules)

section \<open>Generating a section\<close>

lemma keeps_deliver [keeps_rules]: "unchanging rid (deliver env rid title n rs answer)"
  unfolding deliver_def log_defs by (intro keeps_rules)

lemma keeps_use_tool [keeps_rules]: "unchanging rid (use_tool env ag rid title n ctx iteration rs response call)"
  unfolding use_tool_def log_defs Let_def by (intro keeps_rules)

lemma keeps_reply [keeps_rules]: "unchanging rid (react_reply env ag rid title n ctx iteration rs response calls final)"
  unfolding react_reply_def log_defs Let_def by (intro keeps_rules)

lemma keeps_option [keeps_rules]:
  "unchanging rid f \<Longrightarrow> (\<And>x. unchanging rid (h x)) \<Longrightarrow> unchanging rid (\<lambda>g. case v of None \<Rightarrow> f g | Some x \<Rightarrow> h x g)"
  by (cases v) simp_all

lemma keeps_out [keeps_rules]:
  "(\<And>rs. unchanging rid (f rs)) \<Longrightarrow> (\<And>a rs. unchanging rid (h a rs)) \<Longrightarrow> (\<And>rs. unchanging rid (k rs))
    \<Longrightarrow> unchanging rid (case out of Again rs \<Rightarrow> f rs | Answer a rs \<Rightarrow> h a rs | GiveUp rs \<Rightarrow> k rs)"
  by (cases out) simp_all

lemma keeps_handle [keeps_rules]: "unchanging rid (react_handle env ag rid title n ctx iteration rs reply)"
  unfolding react_handle_def Let_def by (intro keeps_rules)

lemma keeps_step [keeps_rules]: "unchanging rid (react_step env ag rid title n ctx cb iteration rs)"
  unfolding react_step_def by (intro keeps_rules)

lemma keeps_loop [keeps_rules]: "unchanging rid (react_loop env ag rid title n ctx cb k rs)"
proof (induction k arbitrary: rs)
  case 0
  have "react_loop env ag rid title n ctx cb 0 rs = Pair (Inr (GiveUp rs))"
    by (simp add: fun_eq_iff)
  then show ?case by (simp add: keeps_Pair)
next
  case (Suc k)
  have "unchanging rid (\<lambda>g. case out of Again rs \<Rightarrow> react_loop env ag rid title n ctx cb k rs g | _ \<Rightarrow> (Inr out, g))" for out
    by (cases out) (simp_all add: Suc.IH keeps_result)
  then have "unchanging rid (\<lambda>g. react_loop env ag rid title n ctx cb (Suc k) rs g)"
    unfolding react_loop.simps by (intro keeps_rules)
  then show ?case by simp
qed

lemma keeps_force [keeps_rules]: "unchanging rid (force_answer env rid title n rs)"
  unfolding force_answer_def log_defs Let_def by (intro keeps_rules)

lemma keeps_section [keeps_rules]: "unchanging rid (generate_section_react env ag rid section outline previous cb n)"
  unfolding generate_section_react_def log_defs Let_def by (intro keeps_rules)

section \<open>Invariants of a run\<close>

definition preserves :: "('w gen \<Rightarrow> bool) \<Rightarrow> ('w, 'a) gproc \<Rightarrow> bool" where
  "preserves I f \<longleftrightarrow> (\<forall>g. I g \<longrightarrow> I (snd (f g)))"

named_theorems preserves_rules

lemma st_bind_ok_iff: "st_bind x f = (Inr b, s') \<longleftrightarrow> (\<exists>a s. x = (Inr a, s) \<and> f a s = (Inr b, s'))"
  by (auto simp: st_bind_def split: prod.splits sum.splits)

lemma preservesD: "preserves I f \<Longrightarrow> f g = (r, g') \<Longrightarrow> I g \<Longrightarrow> I g'"
  unfolding preserves_def by (metis snd_conv)

lemma preserves_bind [preserves_rules]:
  fixes f :: "('w, 'a) gproc"
  assumes "preserves I f" and "\<And>x. preserves I (h x)"
  shows "preserves I (\<lambda>g. st_bind (f g) h)"
  unfolding preserves_def
proof (intro allI impI)
  fix g :: "'w gen" assume i: "I g"
  obtain r g1 where f: "f g = (r, g1)" by fastforce
  have i1: "I g1" by (rule preservesD [OF assms(1) f i])
  show "I (snd (st_bind (f g) h))"
    using assms(2) i1 f unfolding preserves_def by (cases r) simp_all
qed

lemma preserves_result [preserves_rules]: "preserves I (\<lambda>g. (r, g))"
  by (simp add: preserves_def)

text \<open>An invariant of runs into an existing folder that depends on the view only.\<close>

locale run_invariant =
  fixes rid :: pystr and I :: "'w gen \<Rightarrow> bool"
  assumes inv_folder: "I g \<Longrightarrow> has_folder rid g"
    and inv_view: "view g' = view g \<Longrightarrow> I g \<Longrightarrow> I g'"
begin

lemma preserves_keeps:
  fixes f :: "('w, 'a) gproc"
  assumes "unchanging rid f"
  shows "preserves I f"
  unfolding preserves_def
proof (intro allI impI)
  fix g :: "'w gen" assume i: "I g"
  then have "view (snd (f g)) = view g"
    using assms inv_folder by (simp add: unchanging_def)
  then show "I (snd (f g))" using i by (rule inv_view)
qed

lemmas kept = preserves_keeps [OF keeps_put_progress] preserves_keeps [OF keeps_callback]
  preserves_keeps [OF keeps_if_logger] preserves_keeps [OF keeps_now] preserves_keeps [OF keeps_world]
  preserves_keeps [OF keeps_plan] preserves_keeps [OF keeps_save_outline] preserves_keeps [OF keeps_section]
  preserves_keeps [OF keeps_log] preserves_keeps [OF keeps_ensure]

end

end
