(* ===== verification/Report_Verdicts.thy ===== *)
theory Report_Verdicts
  imports Report_Frames
begin

text \<open>
  The outcome of generating a report: the run always ends in a report that is completed or failed,
  and the store holds that very report.
\<close>

section \<open>The run's invariant\<close>

text \<open>
  The folder of the report exists, other reports are as \<open>V\<close> and \<open>L\<close> say, and the report object has the
  run's identifier and a string as its text.
\<close>

definition run_inv ::
  "pystr \<Rightarrow> (pystr \<Rightarrow> (json_file option \<times> (pystr \<times> pystr) list) option) \<Rightarrow> (pystr \<Rightarrow> json_file option) \<Rightarrow> 'w gen \<Rightarrow> bool" where
  "run_inv rid V L g \<longleftrightarrow>
     has_folder rid g \<and> (\<forall>k. k \<noteq> rid \<longrightarrow> map_option folder_view (folder_of (g_fs g) k) = V k)
     \<and> legacy_json (g_fs g) = L \<and> rp_report_id (g_report g) = PyStr rid \<and> (\<exists>s. rp_markdown (g_report g) = PyStr s)"

lemma run_inv_view: "view g' = view g \<Longrightarrow> run_inv rid V L g \<Longrightarrow> run_inv rid V L g'"
  using view_has_folder [of g' g rid] by (simp add: run_inv_def view_def fun_eq_iff)

interpretation ri: run_invariant rid "run_inv rid V L" for rid V L
  by unfold_locales (simp add: run_inv_def, rule run_inv_view)

lemma preserves_with_report [preserves_rules]:
  assumes "\<And>r. rp_report_id (f r) = rp_report_id r" and "\<And>r s. rp_markdown r = PyStr s \<Longrightarrow> \<exists>s'. rp_markdown (f r) = PyStr s'"
  shows "preserves (run_inv rid V L) (with_report f)"
  using assms by (auto simp: preserves_def run_inv_def with_report_def modify_def has_folder_def)

lemma preserves_modify [preserves_rules]:
  "preserves (run_inv rid V L) (modify (\<lambda>g. g\<lparr>g_done := f g\<rparr>))" "preserves (run_inv rid V L) (modify (\<lambda>g. g\<lparr>g_logger := b\<rparr>))"
  by (auto simp: preserves_def run_inv_def modify_def has_folder_def)

lemma run_inv_store:
  assumes "run_inv rid V L g" and "folder_of fs' = (folder_of (g_fs g))(rid \<mapsto> d)" and "legacy_json fs' = legacy_json (g_fs g)"
  shows "run_inv rid V L (g\<lparr>g_fs := fs'\<rparr>)"
  using assms by (simp add: run_inv_def has_folder_def)

lemma preserves_change [preserves_rules]: "preserves (run_inv rid V L) (on_store (change_folder rid f))"
  unfolding preserves_def
proof (intro allI impI)
  fix g :: "'a gen" assume i: "run_inv rid V L g"
  obtain r fs' where c: "change_folder rid f (g_fs g) = (r, fs')" by fastforce
  show "run_inv rid V L (snd (on_store (change_folder rid f) g))"
  proof (cases r)
    case (Inl e)
    with c have "fs' = g_fs g" by (auto simp: change_folder_def split: option.splits)
    with c i show ?thesis by (simp add: on_store_def)
  next
    case (Inr u)
    with c change_folder_ok [of rid f "g_fs g" fs'] run_inv_store [OF i] show ?thesis
      by (simp add: on_store_def)
  qed
qed

lemma preserves_in_folder [preserves_rules]: "preserves (run_inv rid V L) (on_store (in_folder rid f))"
proof -
  have "on_store (in_folder rid f) g = on_store (change_folder rid f) g" if "run_inv rid V L g" for g :: "'a gen"
    using that by (simp add: on_store_def in_folder_existing run_inv_def has_folder_def)
  with preserves_change [of rid V L f] show ?thesis
    unfolding preserves_def by metis
qed

lemma save_report_total:
  assumes "folder_of fs rid \<noteq> None" and "rp_report_id r = PyStr rid" and "rp_markdown r = PyStr s"
  shows "\<exists>fs'. save_report r fs = (Inr (), fs')"
proof -
  obtain fs1 where 1: "in_folder rid (\<lambda>d. d\<lparr>rf_meta := Some (Json (PyDict (report_to_dict r)))\<rparr>) fs = (Inr (), fs1)"
    "folder_of fs1 rid \<noteq> None"
    using in_folder_total [OF usable_folder [OF assms(1)]] by blast
  obtain fs2 where 2: "(case rp_outline r of Some outline \<Rightarrow> save_outline rid outline fs1 | None \<Rightarrow> (Inr (), fs1)) = (Inr (), fs2)"
    "folder_of fs2 rid \<noteq> None"
    using in_folder_total [OF usable_folder [OF 1(2)]] 1(2) by (cases "rp_outline r") (auto simp: save_outline_def)
  then show ?thesis
    by (auto simp: save_report_def assms 1 change_folder_def)
qed

lemma store_report_ok:
  assumes "run_inv rid V L g"
  shows "\<exists>fs'. save_report (g_report g) (g_fs g) = (Inr (), fs') \<and> store_report g = (Inr (), g\<lparr>g_fs := fs'\<rparr>)
    \<and> run_inv rid V L (g\<lparr>g_fs := fs'\<rparr>)"
proof -
  obtain s where r: "folder_of (g_fs g) rid \<noteq> None" "rp_report_id (g_report g) = PyStr rid" "rp_markdown (g_report g) = PyStr s"
    using assms by (auto simp: run_inv_def has_folder_def)
  obtain fs' where f: "save_report (g_report g) (g_fs g) = (Inr (), fs')"
    using save_report_total [OF r] by blast
  with run_inv_store [OF assms save_report_ok [OF f r(2)]] show ?thesis
    by (simp add: store_report_def on_store_def)
qed

lemma preserves_store_report [preserves_rules]: "preserves (run_inv rid V L) store_report"
  unfolding preserves_def using store_report_ok by (metis snd_conv)

lemma preserves_save_section [preserves_rules]: "preserves (run_inv rid V L) (on_store (save_section str rid n section))"
proof -
  have e: "ensure_report_folder rid (g_fs g) = (Inr (), g_fs g)" if "run_inv rid V L g" for g :: "'a gen"
    using that by (auto simp: run_inv_def has_folder_def ensure_report_folder_def folder_of_def
        split: option.splits report_entry.splits)
  have "run_inv rid V L (snd (on_store (save_section str rid n section) g))" if i: "run_inv rid V L g" for g :: "'a gen"
  proof (cases "section_text str section")
    case (Inl err)
    with e [OF i] i show ?thesis by (simp add: on_store_def save_section_def)
  next
    case (Inr s)
    have "on_store (save_section str rid n section) g = on_store (change_folder rid (put_text (section_file n) s)) g"
      using e [OF i] Inr by (simp add: on_store_def save_section_def)
    with i show ?thesis using preserves_change unfolding preserves_def by metis
  qed
  then show ?thesis by (simp add: preserves_def)
qed

lemma preserves_assemble [preserves_rules]: "preserves (run_inv rid V L) (on_store (assemble_full_report str parse rid outline))"
  unfolding preserves_def
proof (intro allI impI)
  fix g :: "'a gen" assume i: "run_inv rid V L g"
  obtain r fs' where a: "assemble_full_report str parse rid outline (g_fs g) = (r, fs')" by fastforce
  then have "fs' = g_fs g \<or> (\<exists>f. fs' = snd (change_folder rid f (g_fs g)))"
    by (auto simp: assemble_full_report_def st_bind_def case_prod_unfold split: sum.splits)
  moreover have "run_inv rid V L (snd (on_store (change_folder rid f) g))" for f
    using i preserves_change unfolding preserves_def by blast
  then have "run_inv rid V L (g\<lparr>g_fs := snd (change_folder rid f (g_fs g))\<rparr>)" for f
    by (simp add: on_store_def case_prod_unfold Let_def)
  ultimately have "run_inv rid V L (g\<lparr>g_fs := fs'\<rparr>)"
    using i by auto
  with a show "run_inv rid V L (snd (on_store (assemble_full_report str parse rid outline) g))"
    by (simp add: on_store_def)
qed

lemmas preserves_kept [preserves_rules] = ri.kept

lemma preserves_planning [preserves_rules]: "preserves (run_inv rid V L) (planning_phase env ag rid cb)"
  unfolding planning_phase_def log_defs by (intro preserves_rules) simp_all

lemma preserves_finishing [preserves_rules]: "preserves (run_inv rid V L) (finishing_phase env rid outline cb)"
  unfolding finishing_phase_def Let_def log_defs by (intro preserves_rules keeps_log) simp_all

lemma preserves_open_logs [preserves_rules]: "preserves (run_inv rid V L) (open_logs env ag rid)"
  unfolding open_logs_def log_defs by (intro preserves_rules ri.preserves_keeps [OF keeps_ensure])

lemma preserves_sections [preserves_rules]:
  "preserves (run_inv rid V L) (section_loop env ag rid outline cb total_sections i sections generated)"
proof (induction sections arbitrary: i generated)
  case Nil
  have "section_loop env ag rid outline cb total_sections i [] generated = (\<lambda>g. (Inr (), g))"
    by (simp add: fun_eq_iff)
  then show ?case by (simp add: preserves_result)
next
  case (Cons x xs)
  have "preserves (run_inv rid V L) (\<lambda>g. section_loop env ag rid outline cb total_sections i (x # xs) generated g)"
    unfolding section_loop.simps Let_def log_defs
    by (intro preserves_rules keeps_log Cons.IH) (simp_all add: set_content_def)
  then show ?case by simp
qed

section \<open>Outcomes\<close>

lemma agent_log_ok: "has_folder rid g \<Longrightarrow> \<exists>g'. agent_log_entry env rid action stage details title n g = (Inr (), g')"
  by (auto simp: has_folder_def agent_log_entry_def now_def on_world_def on_store_def change_folder_def Let_def
      split: prod.splits)

text \<open>The report of the run, as the store shows it.\<close>

definition shown_report :: "pystr \<Rightarrow> 'w gen \<Rightarrow> Report" where
  "shown_report rid g = (g_report g)\<lparr>rp_markdown := read_markdown (g_fs g) rid (rp_markdown (g_report g))\<rparr>"

lemma stored_then_kept:
  assumes "run_inv rid V L g" and "store_report g = (Inr (), g1)" and "view g' = view g1"
  shows "get_report (g_fs g') rid = Inr (Some (shown_report rid g'))" "g_report g' = g_report g" "run_inv rid V L g'"
proof -
  obtain fs1 where s: "save_report (g_report g) (g_fs g) = (Inr (), fs1)" "g1 = g\<lparr>g_fs := fs1\<rparr>" "run_inv rid V L g1"
    using store_report_ok [OF assms(1)] assms(2) by auto
  have "get_report (g_fs g1) rid = Inr (Some (shown_report rid g1))"
    using get_report_save [OF s(1), of rid] assms(1) by (simp add: s(2) shown_report_def run_inv_def)
  then show "get_report (g_fs g') rid = Inr (Some (shown_report rid g'))"
    by (simp add: view_get_report [OF assms(3)] shown_report_def view_fields(1) [OF assms(3)])
  show "g_report g' = g_report g"
    using view_fields(1) [OF assms(3)] s(2) by simp
  show "run_inv rid V L g'"
    using run_inv_view [OF assms(3)] s(3) by blast
qed

lemma failure_handler_ok:
  assumes i: "run_inv rid V L g" and f: "failure_handler env rid e g = (r, g')"
  shows "r = Inr ()" "run_inv rid V L g'" "rp_status (g_report g') = REPORT_FAILED"
    "rp_error (g_report g') = PyStr (exn_msg e)" "get_report (g_fs g') rid = Inr (Some (shown_report rid g'))"
proof -
  let ?g1 = "g\<lparr>g_report := (g_report g)\<lparr>rp_status := REPORT_FAILED, rp_error := PyStr (exn_msg e)\<rparr>\<rparr>"
  have i1: "run_inv rid V L ?g1"
    using i by (auto simp: run_inv_def has_folder_def)
  have "has_folder rid ?g1" using i1 by (simp add: run_inv_def)
  from agent_log_ok [OF this] obtain g2 where l: "if_logger (log_error env rid (exn_msg e) ''failed'' PyNone) ?g1 = (Inr (), g2)"
    unfolding if_logger_def log_error_def by (metis (no_types))
  have v2: "view g2 = view ?g1"
    using unchangingD [OF keeps_if_logger [OF keeps_log] l [unfolded log_error_def]] i1 by (simp add: run_inv_def)
  have i2: "run_inv rid V L g2" by (rule run_inv_view [OF v2 i1])
  obtain g3 where s: "store_report g2 = (Inr (), g3)"
    using store_report_ok [OF i2] by blast
  obtain u where p: "put_progress env rid ''failed'' (- 1) (re_tr env ''progress.reportFailed'' [(''error'', PyStr (exn_msg e))]) PyNone g3 = (u, g')"
    and r: "r = Inr ()"
    using f l s by (auto simp: failure_handler_def with_report_def modify_def swallowing_def prod_eq_iff)
  have "run_inv rid V L g3"
    using store_report_ok [OF i2] s by auto
  with unchangingD [OF keeps_put_progress p] have "view g' = view g3"
    by (simp add: run_inv_def)
  note k = stored_then_kept [OF i2 s this]
  show "r = Inr ()" by (rule r)
  show "run_inv rid V L g'" "get_report (g_fs g') rid = Inr (Some (shown_report rid g'))"
    by (rule k)+
  show "rp_status (g_report g') = REPORT_FAILED" "rp_error (g_report g') = PyStr (exn_msg e)"
    using k(2) view_fields(1) [OF v2] by simp_all
qed

lemma prose_header: "prose (lit ''> '' @ s) \<noteq> []"
proof -
  obtain l ls where l: "split_on 10 (lit ''> '' @ s) = (62 # l) # ls"
    by (cases "split_on 10 s") (auto simp: lit_def)
  have hd: "hd (py_strip (62 # l)) = 62" "py_strip (62 # l) \<noteq> []"
    using nonspace_in_strip [of 62 "62 # l"] py_strip_decomp [of "62 # l"]
    by (auto simp: py_strip_def py_lstrip_def py_rstrip_def dropWhile_append split: if_splits)
  then have "is_prose (py_strip (62 # l))"
    using py_strip_idem [of "62 # l"]
    by (cases "py_strip (62 # l)") (auto simp: is_prose_def heading_of_def is_rule_def lit_def)
  then show ?thesis
    by (simp add: prose_def l)
qed

lemma assembled_nonempty:
  assumes "assemble_full_report str parse rid outline fs = (Inr md, fs')"
  shows "md \<noteq> []"
proof
  assume md: "md = []"
  obtain body where p: "post_process_report (out_title outline) (map sec_title (out_sections outline))
      (report_header str outline @ body) = Inr md"
    using assms by (auto simp: assemble_full_report_def st_bind_ok_iff)
  have "report_header str outline @ body = (lit ''# '' @ fstr str (out_title outline) @ [10]) @ 10 #
      (lit ''> '' @ fstr str (out_summary outline) @ [10, 10] @ lit ''---'' @ [10, 10] @ body)"
    by (simp add: report_header_def)
  then have "prose (report_header str outline @ body) \<noteq> []"
    by (simp only: prose_append_newline) (simp add: prose_header)
  with post_process_report_lines(3) [OF p] md show False
    by (simp add: prose_def)
qed

lemma finishing_phase_ok:
  fixes g :: "'w gen"
  assumes i: "run_inv rid V L g" and f: "finishing_phase env rid outline cb g = (Inr (), g')"
  shows "rp_status (g_report g') = REPORT_COMPLETED" "get_report (g_fs g') rid = Inr (Some (g_report g'))"
    "\<exists>(g1 :: 'w gen) (g2 :: 'w gen) md. view g1 = view g \<and> assemble_full_report (re_str env) (re_parse_int env) rid outline (g_fs g1) = (Inr md, g_fs g2)
       \<and> rp_markdown (g_report g') = PyStr md \<and> rp_outline (g_report g') = rp_outline (g_report g)"
proof -
  let ?done = "re_tr env ''progress.reportComplete'' []" and ?busy = "re_tr env ''progress.assemblingReport'' []"
  let ?complete = "\<lambda>md g. g\<lparr>g_report := (g_report g)\<lparr>rp_markdown := PyStr md, rp_status := REPORT_COMPLETED\<rparr>\<rparr>"
  let ?stamp = "\<lambda>t g. g\<lparr>g_report := (g_report g)\<lparr>rp_completed_at := PyStr t\<rparr>\<rparr>"
  obtain g1 g2 g3 g5 g7 g8 g9 g10 md t q where
    a: "call_back cb ''generating'' 95 ?busy g = (Inr (), g1)" and
    b: "put_progress env rid ''generating'' 95 ?busy PyNone g1 = (Inr (), g2)" and
    c: "on_store (assemble_full_report (re_str env) (re_parse_int env) rid outline) g2 = (Inr md, g3)" and
    e1: "now env (?complete md g3) = (Inr t, g5)" and
    h': "on_world (\<lambda>w. let (q, w) = re_elapsed env w in (Inr q, w)) (?stamp t g5) = (Inr q, g7)" and
    j: "if_logger (log_report_complete env rid (length (out_sections outline)) q) g7 = (Inr (), g8)" and
    k: "store_report g8 = (Inr (), g9)" and
    p: "put_progress env rid ''completed'' 100 ?done PyNone g9 = (Inr (), g10)" and
    q': "call_back cb ''completed'' 100 ?done g10 = (Inr (), g')"
    using f unfolding finishing_phase_def Let_def st_bind_ok_iff with_report_def modify_def by auto
  define g4 g6 where d: "g4 = ?complete md g3" and e2: "g6 = ?stamp t g5"
  note e = e1 [folded d] e2 and h = h' [folded e2]
  have hf: "has_folder rid g" using i by (simp add: run_inv_def)
  have v1: "view g1 = view g" by (rule unchangingD [OF keeps_callback a hf])
  have v2: "view g2 = view g" using unchangingD [OF keeps_put_progress b] view_has_folder [OF v1, of rid] v1 hf by simp
  have i3: "run_inv rid V L g3" by (rule preservesD [OF preserves_assemble c run_inv_view [OF v2 i]])
  then have i4: "run_inv rid V L g4" by (simp add: d run_inv_def has_folder_def)
  then have i5: "run_inv rid V L g5" using preservesD [OF ri.preserves_keeps [OF keeps_now] e(1)] by blast
  have r5: "g_report g5 = g_report g4"
    using view_fields(1) [OF unchangingD [OF keeps_now e(1), of rid]] i4 by (simp add: run_inv_def)
  have i6: "run_inv rid V L g6" using i5 by (simp add: e(2) run_inv_def has_folder_def)
  have v7: "view g7 = view g6" using unchangingD [OF keeps_world h, of rid] i6 by (simp add: run_inv_def)
  have i7: "run_inv rid V L g7" by (rule run_inv_view [OF v7 i6])
  have v8: "view g8 = view g7"
    using unchangingD [OF keeps_if_logger [OF keeps_log] j [unfolded log_report_complete_def]] i7 by (simp add: run_inv_def)
  have i8: "run_inv rid V L g8" by (rule run_inv_view [OF v8 i7])
  have hf9: "has_folder rid g9" using store_report_ok [OF i8] k by (auto simp: run_inv_def)
  have v10: "view g10 = view g9" by (rule unchangingD [OF keeps_put_progress p hf9])
  have "view g' = view g9"
    using unchangingD [OF keeps_callback q', of rid] view_has_folder [OF v10, of rid] hf9 v10 by simp
  note final = stored_then_kept [OF i8 k this]
  have rep: "g_report g' = (g_report g3)\<lparr>rp_markdown := PyStr md, rp_status := REPORT_COMPLETED, rp_completed_at := PyStr t\<rparr>"
    using final(2) view_fields(1) [OF v8] view_fields(1) [OF v7] r5 by (simp add: e(2) d)
  have asm: "assemble_full_report (re_str env) (re_parse_int env) rid outline (g_fs g2) = (Inr md, g_fs g3)"
    and r3: "g_report g3 = g_report g2"
    using c by (auto simp: on_store_def Let_def split: prod.splits)
  show "rp_status (g_report g') = REPORT_COMPLETED" by (simp add: rep)
  show "get_report (g_fs g') rid = Inr (Some (g_report g'))"
    using final(1) assembled_nonempty [OF asm] by (simp add: shown_report_def read_markdown_def rep)
  show "\<exists>(g1 :: 'w gen) (g2 :: 'w gen) md. view g1 = view g \<and> assemble_full_report (re_str env) (re_parse_int env) rid outline (g_fs g1) = (Inr md, g_fs g2)
       \<and> rp_markdown (g_report g') = PyStr md \<and> rp_outline (g_report g') = rp_outline (g_report g)"
    using v2 asm rep r3 view_fields(1) [OF v2]
    by (intro exI [of _ g2] exI [of _ g3] exI [of _ md]) simp
qed

lemma ensure_usable:
  assumes "usable fs rid"
  shows "\<exists>fs'. ensure_report_folder rid fs = (Inr (), fs') \<and> folder_of fs' = (folder_of fs)(rid \<mapsto> found_folder fs rid)
    \<and> legacy_json fs' = legacy_json fs"
proof (cases "dget fs rid")
  case None
  then show ?thesis
    by (auto simp: ensure_report_folder_def found_folder_def legacy_json_dset) (simp add: folder_of_def)
next
  case (Some entry)
  with assms show ?thesis
    by (cases entry) (auto simp: usable_def ensure_report_folder_def found_folder_def folder_of_def fun_eq_iff)
qed

lemma run_inv_other:
  assumes "run_inv rid (\<lambda>k. map_option folder_view (folder_of fs k)) (legacy_json fs) g" and "k \<noteq> rid"
  shows "get_report (g_fs g) k = get_report fs k"
  using assms by (intro get_report_view(2)) (simp_all add: run_inv_def)

text \<open>The state in which a run with the identifier \<open>rid\<close> starts.\<close>

definition run_start :: "report_agent \<Rightarrow> pystr \<Rightarrow> bool \<Rightarrow> reports \<Rightarrow> pystr \<times> 'w \<Rightarrow> 'w gen" where
  "run_start ag rid logger fs cw =
     \<lparr>g_fs = fs, g_w = snd cw, g_report = new_report rid ag (fst cw), g_done = [], g_logger = logger\<rparr>"

abbreviation run_view :: "pystr \<Rightarrow> reports \<Rightarrow> 'w gen \<Rightarrow> bool" where
  "run_view rid fs \<equiv> run_inv rid (\<lambda>k. map_option folder_view (folder_of fs k)) (legacy_json fs)"

definition after_folder :: "'w report_env \<Rightarrow> report_agent \<Rightarrow> pystr \<Rightarrow> 'w callback \<Rightarrow> ('w, unit) gproc" where
  "after_folder env ag rid cb g =
     st_bind (open_logs env ag rid g) (\<lambda>_ g. st_bind (planning_phase env ag rid cb g) (\<lambda>outline g.
     st_bind (section_loop env ag rid outline cb (length (out_sections outline)) 0 (out_sections outline) [] g) (\<lambda>_.
       finishing_phase env rid outline cb)))"

lemma body_after_folder:
  assumes "usable fs rid"
  obtains fs1 where "ensure_report_folder rid fs = (Inr (), fs1)"
    and "generate_body env ag rid cb (run_start ag rid logger fs cw) = after_folder env ag rid cb (run_start ag rid logger fs1 cw)"
    and "run_view rid fs (run_start ag rid logger fs1 cw)"
    and "folder_of fs1 rid = Some (found_folder fs rid)"
proof -
  obtain fs1 where e: "ensure_report_folder rid fs = (Inr (), fs1)" and
    f1: "folder_of fs1 = (folder_of fs)(rid \<mapsto> found_folder fs rid)" "legacy_json fs1 = legacy_json fs"
    using ensure_usable [OF assms] by blast
  show thesis
    by (rule that [of fs1]) (simp_all add: e f1 run_inv_def has_folder_def run_start_def new_report_def
        generate_body_def after_folder_def on_store_def)
qed

lemma after_folder_inv: "preserves (run_inv rid V L) (after_folder env ag rid cb)"
  unfolding after_folder_def by (intro preserves_rules)

lemma after_folder_ok:
  assumes "after_folder env ag rid cb g = (Inr (), g')"
  obtains outline g1 g2 g3 where "open_logs env ag rid g = (Inr (), g1)" "planning_phase env ag rid cb g1 = (Inr outline, g2)"
    "section_loop env ag rid outline cb (length (out_sections outline)) 0 (out_sections outline) [] g2 = (Inr (), g3)"
    "finishing_phase env rid outline cb g3 = (Inr (), g')"
  using assms by (auto simp: after_folder_def st_bind_ok_iff)

lemma generate_report_run:
  assumes "rid \<noteq> []"
  shows "generate_report env ag cb (Some rid) logger fs w =
    catching (generate_body env ag rid cb) (failure_handler env rid) (run_start ag rid logger fs (re_now env w))"
  using assms by (simp add: generate_report_def run_start_def case_prod_unfold Let_def)

lemma generate_report_lemma:
  assumes u: "usable fs rid" and "rid \<noteq> []" and gen: "generate_report env ag cb (Some rid) logger fs w = (r, g)"
  shows "r = Inr ()" "rp_report_id (g_report g) = PyStr rid"
    "rp_status (g_report g) = REPORT_COMPLETED \<and> get_report (g_fs g) rid = Inr (Some (g_report g))
       \<and> generate_body env ag rid cb (run_start ag rid logger fs (re_now env w)) = (Inr (), g)
     \<or> rp_status (g_report g) = REPORT_FAILED \<and> get_report (g_fs g) rid = Inr (Some (shown_report rid g))"
    "k \<noteq> rid \<Longrightarrow> get_report (g_fs g) k = get_report fs k"
proof -
  let ?g0 = "run_start ag rid logger fs (re_now env w)"
  obtain fs1 where b: "generate_body env ag rid cb ?g0 = after_folder env ag rid cb (run_start ag rid logger fs1 (re_now env w))"
    and i1: "run_view rid fs (run_start ag rid logger fs1 (re_now env w))"
    using body_after_folder [OF u] by metis
  obtain br gb where body: "generate_body env ag rid cb ?g0 = (br, gb)" by fastforce
  have ib: "run_view rid fs gb"
    by (rule preservesD [OF after_folder_inv body [unfolded b] i1])
  have run: "(case br of Inl e \<Rightarrow> failure_handler env rid e gb | Inr x \<Rightarrow> (Inr x, gb)) = (r, g)"
    using gen [unfolded generate_report_run [OF assms(2)] catching_def body] by (simp split: sum.splits)
  have all: "r = Inr () \<and> run_view rid fs g \<and>
    (rp_status (g_report g) = REPORT_COMPLETED \<and> get_report (g_fs g) rid = Inr (Some (g_report g))
       \<and> generate_body env ag rid cb ?g0 = (Inr (), g)
     \<or> rp_status (g_report g) = REPORT_FAILED \<and> get_report (g_fs g) rid = Inr (Some (shown_report rid g)))"
  proof (cases br)
    case (Inl e)
    with run have "failure_handler env rid e gb = (r, g)" by simp
    from failure_handler_ok [OF ib this] show ?thesis by simp
  next
    case (Inr x)
    with body b have "after_folder env ag rid cb (run_start ag rid logger fs1 (re_now env w)) = (Inr (), gb)" by simp
    then obtain outline ga gc g2 where
      pre: "open_logs env ag rid (run_start ag rid logger fs1 (re_now env w)) = (Inr (), ga)" "planning_phase env ag rid cb ga = (Inr outline, gc)"
        "section_loop env ag rid outline cb (length (out_sections outline)) 0 (out_sections outline) [] gc = (Inr (), g2)"
      and fin: "finishing_phase env rid outline cb g2 = (Inr (), gb)"
      by (rule after_folder_ok)
    have "run_view rid fs g2"
      by (rule preservesD [OF preserves_sections pre(3) preservesD [OF preserves_planning pre(2)
            preservesD [OF preserves_open_logs pre(1) i1]]])
    from finishing_phase_ok [OF this fin] ib Inr run body show ?thesis by simp
  qed
  show "r = Inr ()" using all by (rule conjunct1)
  show "rp_report_id (g_report g) = PyStr rid" using all by (simp add: run_inv_def)
  show "rp_status (g_report g) = REPORT_COMPLETED \<and> get_report (g_fs g) rid = Inr (Some (g_report g))
       \<and> generate_body env ag rid cb ?g0 = (Inr (), g)
     \<or> rp_status (g_report g) = REPORT_FAILED \<and> get_report (g_fs g) rid = Inr (Some (shown_report rid g))"
    using all by (elim conjE)
  show "k \<noteq> rid \<Longrightarrow> get_report (g_fs g) k = get_report fs k"
    using all run_inv_other by blast
qed

text \<open>
  C30: generating a report never raises, and always ends with a verdict: the report is completed or
  failed, and what a reader of the store then gets is that report (a failed one with the text of its
  folder, if it has none of its own).  Reports under other identifiers read as before.
\<close>

theorem generate_report_verdict:
  assumes "usable fs rid" and "rid \<noteq> []" and "k \<noteq> rid" and "generate_report env ag cb (Some rid) logger fs w = (r, g)"
  shows "r = Inr () \<and> rp_report_id (g_report g) = PyStr rid
    \<and> (rp_status (g_report g) = REPORT_COMPLETED \<and> get_report (g_fs g) rid = Inr (Some (g_report g))
       \<or> rp_status (g_report g) = REPORT_FAILED \<and> get_report (g_fs g) rid = Inr (Some (shown_report rid g)))
    \<and> get_report (g_fs g) k = get_report fs k"
  using generate_report_lemma [OF assms(1,2,4)] assms(3) by blast

end
