(* ===== verification/Report_React.thy ===== *)
theory Report_React
  imports Report_Verdicts
begin

text \<open>
  The ReACT loop of a section: how many tools it uses, when it accepts an answer, and what the
  language model is shown of its own earlier replies.
\<close>

section \<open>Histories without fabricated results\<close>

definition clean_message :: "(nat \<Rightarrow> bool) \<Rightarrow> pydict \<Rightarrow> bool" where
  "clean_message word m \<longleftrightarrow>
     (dget m (lit ''role'') = Some (PyStr (lit ''assistant'')) \<longrightarrow>
      (\<exists>c. dget m (lit ''content'') = Some (PyStr c) \<and> \<not> opens_result word c))"

definition clean_history :: "(nat \<Rightarrow> bool) \<Rightarrow> pydict list \<Rightarrow> bool" where
  "clean_history word ms \<longleftrightarrow> list_all (clean_message word) ms"

lemma clean_chat_msg [simp]:
  "clean_message word (chat_msg ''user'' c)" "clean_message word (chat_msg ''system'' c)"
  "clean_message word (chat_msg ''assistant'' c) = (\<not> opens_result word c)"
  by (simp_all add: clean_message_def chat_msg_def)

lemma clean_history_say:
  "clean_history word (rs_messages rs) \<Longrightarrow> \<not> opens_result word c \<Longrightarrow> clean_history word (rs_messages (say rs c msg))"
  by (simp add: clean_history_def say_def)

lemma say_fields [simp]: "rs_count (say rs c msg) = rs_count rs"
  by (simp add: say_def)

lemma no_angle_clean: "60 \<notin> set s \<Longrightarrow> \<not> opens_result word s"
  by (auto simp: opens_result_def open_tag_at_def starts_with_iff)

section \<open>One reply\<close>

text \<open>What may follow from a reply in a round that starts with at most \<open>k\<close> tool calls.\<close>

definition out_ok :: "(nat \<Rightarrow> bool) \<Rightarrow> nat \<Rightarrow> react_out \<Rightarrow> bool" where
  "out_ok word k out =
     (case out of
        Again rs \<Rightarrow> clean_history word (rs_messages rs) \<and> rs_count rs \<le> Suc k
      | Answer a rs \<Rightarrow> \<not> opens_result word a \<and> min_tool_calls \<le> rs_count rs \<and> rs_count rs \<le> k
      | GiveUp rs \<Rightarrow> clean_history word (rs_messages rs) \<and> rs_count rs \<le> k)"

lemma deliver_out: "deliver env rid title n rs a g = (Inr out, g') \<Longrightarrow> out = Answer a rs"
  by (auto simp: deliver_def st_bind_ok_iff)

lemma use_tool_out:
  "use_tool env ag rid title n ctx iteration rs response call g = (Inr out, g')
    \<Longrightarrow> \<exists>rs' obs. rs_messages rs' = rs_messages rs \<and> rs_count rs' = Suc (rs_count rs)
          \<and> out = Again (say rs' (strip_fake_tool_results (re_word env) response) obs)"
proof -
  assume "use_tool env ag rid title n ctx iteration rs response call g = (Inr out, g')"
  then obtain name obs where "out = Again (say (rs\<lparr>rs_count := Suc (rs_count rs), rs_used := List.insert name (rs_used rs)\<rparr>)
      (strip_fake_tool_results (re_word env) response) obs)"
    by (auto simp: use_tool_def st_bind_ok_iff Let_def)
  then show ?thesis
    by (intro exI [of _ "rs\<lparr>rs_count := Suc (rs_count rs), rs_used := List.insert name (rs_used rs)\<rparr>"] exI [of _ obs]) simp
qed

lemma react_reply_ok:
  assumes w: "word_class_ok (re_word env)" and h: "clean_history (re_word env) (rs_messages rs)" and c: "rs_count rs \<le> k"
    and r: "react_reply env ag rid title n ctx iteration rs response calls final g = (Inr out, g')"
  shows "out_ok (re_word env) k out"
proof -
  let ?c = "strip_fake_tool_results (re_word env) response"
  note clean = strip_fake_clean [OF w, of response]
  obtain g1 where
    "(if final then
       if rs_count rs < min_tool_calls then
         st_bind (insufficient env REACT_INSUFFICIENT_TOOLS_MSG rs, g1) (\<lambda>msg g. (Inr (Again (say rs ?c msg)), g))
       else deliver env rid title n rs (py_strip (last (split_str FINAL ?c))) g1
     else if calls \<noteq> [] then
       if MAX_TOOL_CALLS_PER_SECTION \<le> rs_count rs then
         st_bind (format_template REACT_TOOL_LIMIT_MSG
             [(''tool_calls_count'', nat_digits (rs_count rs)), (''max_tool_calls'', nat_digits MAX_TOOL_CALLS_PER_SECTION)], g1)
           (\<lambda>msg g. (Inr (Again (say rs ?c msg)), g))
       else use_tool env ag rid title n ctx iteration rs response (hd calls) g1
     else if rs_count rs < min_tool_calls then
       st_bind (insufficient env REACT_INSUFFICIENT_TOOLS_MSG_ALT rs, g1) (\<lambda>msg g. (Inr (Again (say rs ?c msg)), g))
     else deliver env rid title n (rs\<lparr>rs_messages := rs_messages rs @ [chat_msg ''assistant'' ?c]\<rparr>) ?c g1) = (Inr out, g')"
    using r by (auto simp: react_reply_def st_bind_ok_iff Let_def)
  then consider (again) msg where "out = Again (say rs ?c msg)"
    | (answer) "out = Answer (py_strip (last (split_str FINAL ?c))) rs" "min_tool_calls \<le> rs_count rs"
    | (plain) rs' where "out = Answer ?c rs'" "rs_count rs' = rs_count rs" "min_tool_calls \<le> rs_count rs"
    | (tool) rs' obs where "rs_messages rs' = rs_messages rs" "rs_count rs' = Suc (rs_count rs)" "out = Again (say rs' ?c obs)"
    by (auto simp: st_bind_ok_iff split: if_splits dest!: deliver_out use_tool_out)
  then show ?thesis
  proof cases
    case again
    with h c clean show ?thesis by (simp add: out_ok_def clean_history_say)
  next
    case answer
    with c final_answer_clean [OF w] show ?thesis by (simp add: out_ok_def)
  next
    case plain
    with c clean show ?thesis by (simp add: out_ok_def)
  next
    case tool
    with h c clean show ?thesis by (simp add: out_ok_def clean_history_say)
  qed
qed

lemma react_handle_ok:
  assumes w: "word_class_ok (re_word env)" and h: "clean_history (re_word env) (rs_messages rs)" and c: "rs_count rs \<le> k"
    and s: "react_handle env ag rid title n ctx iteration rs reply g = (Inr out, g')"
  shows "out_ok (re_word env) k out"
proof -
  have say: "out_ok (re_word env) k (Again (say rs' a msg))"
    if "rs_messages rs' = rs_messages rs" "rs_count rs' = rs_count rs" "\<not> opens_result (re_word env) a" for rs' a msg
    using that h c by (simp add: out_ok_def clean_history_say)
  have reply: "out_ok (re_word env) k out"
    if "react_reply env ag rid title n ctx iteration rs' response calls final g1 = (Inr out, g')"
      "rs_messages rs' = rs_messages rs" "rs_count rs' = rs_count rs" for rs' response calls final g1
    using react_reply_ok [OF w _ _ that(1), of k] that(2,3) h c by simp
  have empty: "\<not> opens_result (re_word env) EMPTY_REPLY"
    by (rule no_angle_clean) (simp add: EMPTY_REPLY_def)
  have give_up: "out_ok (re_word env) k (GiveUp rs)"
    using h c by (simp add: out_ok_def)
  show ?thesis
    using s give_up say [of rs EMPTY_REPLY] empty strip_fake_clean [OF w]
      say [of "rs\<lparr>rs_conflicts := Suc (rs_conflicts rs)\<rparr>"]
    by (auto simp: react_handle_def st_bind_ok_iff Let_def split: option.splits if_splits dest!: reply)
qed

lemma react_step_ok:
  assumes "word_class_ok (re_word env)" and "clean_history (re_word env) (rs_messages rs)" and "rs_count rs \<le> k"
    and "react_step env ag rid title n ctx cb iteration rs g = (Inr out, g')"
  shows "out_ok (re_word env) k out"
  using assms by (auto simp: react_step_def st_bind_ok_iff intro: react_handle_ok)

lemma react_loop_ok:
  assumes "word_class_ok (re_word env)" and "clean_history (re_word env) (rs_messages rs)" and "rs_count rs \<le> m"
    and "react_loop env ag rid title n ctx cb k rs g = (Inr out, g')"
  shows "out_ok (re_word env) (m + k) out \<and> (\<forall>rs'. out \<noteq> Again rs')"
  using assms(2-)
proof (induction k arbitrary: rs m g)
  case 0
  then show ?case by (auto simp: out_ok_def)
next
  case (Suc k)
  then obtain out1 g1 where step: "react_step env ag rid title n ctx cb (max_iterations - Suc k) rs g = (Inr out1, g1)"
    and rest: "(case out1 of Again rs \<Rightarrow> react_loop env ag rid title n ctx cb k rs g1 | _ \<Rightarrow> (Inr out1, g1)) = (Inr out, g')"
    by (auto simp: st_bind_ok_iff)
  have ok: "out_ok (re_word env) m out1"
    by (rule react_step_ok [OF assms(1) Suc.prems(1,2) step])
  show ?case
  proof (cases out1)
    case (Again rs1)
    with ok rest Suc.IH [of rs1 "Suc m" g1] show ?thesis by (simp add: out_ok_def)
  next
    case (Answer a rs1)
    with ok rest show ?thesis by (auto simp: out_ok_def)
  next
    case (GiveUp rs1)
    with ok rest show ?thesis by (auto simp: out_ok_def)
  qed
qed


section \<open>The requests to the language model\<close>

text \<open>Steps that send the language model nothing; \<open>sent\<close> reads the histories sent so far off the world.\<close>

definition silent :: "('w \<Rightarrow> pydict list list) \<Rightarrow> ('w, 'a) action \<Rightarrow> bool" where
  "silent sent f \<longleftrightarrow> (\<forall>w. sent (snd (f w)) = sent w)"

definition quiet :: "('w \<Rightarrow> pydict list list) \<Rightarrow> ('w, 'a) gproc \<Rightarrow> bool" where
  "quiet sent f \<longleftrightarrow> (\<forall>g. sent (g_w (snd (f g))) = sent (g_w g))"

definition silent_callback :: "('w \<Rightarrow> pydict list list) \<Rightarrow> 'w callback \<Rightarrow> bool" where
  "silent_callback sent cb \<longleftrightarrow> (\<forall>f stage p msg. cb = Some f \<longrightarrow> silent sent (f stage p msg))"

named_theorems quiet_rules

lemma quietD: "quiet sent f \<Longrightarrow> f g = (r, g') \<Longrightarrow> sent (g_w g') = sent (g_w g)"
  unfolding quiet_def by (metis snd_conv)

lemma quiet_bind [quiet_rules]:
  fixes f :: "('w, 'a) gproc"
  assumes "quiet sent f" and "\<And>x. quiet sent (h x)"
  shows "quiet sent (\<lambda>g. st_bind (f g) h)"
  unfolding quiet_def
proof
  fix g :: "'w gen"
  obtain r g1 where f: "f g = (r, g1)" by fastforce
  with assms show "sent (g_w (snd (st_bind (f g) h))) = sent (g_w g)"
    using quietD [OF assms(1) f] unfolding quiet_def by (cases r) simp_all
qed

lemma quiet_result [quiet_rules]: "quiet sent (\<lambda>g. (r, g))"
  by (simp add: quiet_def)

lemma quiet_bind_result [quiet_rules]:
  assumes "\<And>x. quiet sent (h x)"
  shows "quiet sent (\<lambda>g. st_bind (r, g) h)"
  using quiet_bind [OF quiet_result assms] .

lemma quiet_if [quiet_rules]: "quiet sent f \<Longrightarrow> quiet sent h \<Longrightarrow> quiet sent (\<lambda>g. if c then f g else h g)"
  by (cases c) simp_all

lemma quiet_option [quiet_rules]:
  "quiet sent f \<Longrightarrow> (\<And>x. quiet sent (h x)) \<Longrightarrow> quiet sent (\<lambda>g. case v of None \<Rightarrow> f g | Some x \<Rightarrow> h x g)"
  by (cases v) simp_all

lemma quiet_store [quiet_rules]: "quiet sent (on_store f)"
  by (simp add: quiet_def on_store_def case_prod_unfold Let_def)

lemma quiet_world: "silent sent f \<Longrightarrow> quiet sent (on_world f)"
  by (simp add: quiet_def silent_def on_world_def case_prod_unfold Let_def)

lemma quiet_if_logger [quiet_rules]: "quiet sent f \<Longrightarrow> quiet sent (if_logger f)"
  by (simp add: quiet_def if_logger_def)

lemma quiet_call_back [quiet_rules]: "silent_callback sent cb \<Longrightarrow> quiet sent (call_back cb stage p msg)"
  by (cases cb) (auto simp: quiet_def call_back_def silent_callback_def silent_def on_world_def case_prod_unfold Let_def)

locale chat_trace =
  fixes env :: "'w report_env" and sent :: "'w \<Rightarrow> pydict list list"
  assumes chat_sent: "sent (snd (re_chat env ms cap w)) = sent w @ [ms]"
    and silent_clock: "sent (snd (re_now env w)) = sent w" "sent (snd (re_elapsed env w)) = sent w"
    and silent_tools: "silent sent (re_insight_forge env a1 a2 a3 a4)" "silent sent (re_panorama_search env b1 b2 b3)"
      "silent sent (re_quick_search env c1 c2 c3)" "silent sent (re_interview_agents env d1 d2 d3 d4)"
      "silent sent (re_graph_statistics env e1)" "silent sent (re_entity_summary env f1 f2)"
      "silent sent (re_entities_by_type env g1 g2)"
begin

lemma quiet_now: "quiet sent (now env)"
  unfolding now_def by (rule quiet_world) (simp add: silent_def case_prod_unfold Let_def silent_clock)

lemma quiet_log: "quiet sent (agent_log_entry env rid action stage details title n)"
  unfolding agent_log_entry_def
  by (intro quiet_rules quiet_now quiet_world) (simp add: silent_def case_prod_unfold Let_def silent_clock)

lemma silent_dispatch: "silent sent (dispatch_tool env ag name params ctx)"
proof -
  have d: "silent sent (with_dict params f)" if "\<And>d. silent sent (f d)" for f :: "pydict \<Rightarrow> ('w, pystr) action"
    using that by (simp add: silent_def with_dict_def split: sum.splits)
  have j: "silent sent (dumped env f)" if "silent sent f" for f
    using that by (auto simp: silent_def dumped_def case_prod_unfold split: sum.splits) 
  have q: "silent sent (run_quick_search env ag d)" for d
    using silent_tools(3) by (simp add: silent_def run_quick_search_def split: sum.splits)
  have i: "silent sent (run_interview env ag d)" for d
    using silent_tools(4) by (simp add: silent_def run_interview_def split: sum.splits)
  have f: "silent sent (run_insight_forge env ag d ctx)" for d
    unfolding run_insight_forge_def by (rule silent_tools)
  have u: "silent sent (\<lambda>w. (Inr s, w))" for s :: pystr
    by (simp add: silent_def)
  show ?thesis
    unfolding dispatch_tool_def Let_def by (simp add: d j q i f u silent_tools)
qed

lemma quiet_tool: "quiet sent (on_world (\<lambda>w. let (result, w) = execute_tool env ag name params ctx w in (Inr result, w)))"
  using silent_dispatch [of ag name params ctx]
  by (intro quiet_world) (auto simp: silent_def execute_tool_def case_prod_unfold split: sum.splits)

lemma quiet_deliver: "quiet sent (deliver env rid title n rs a)"
  unfolding deliver_def log_defs by (intro quiet_rules quiet_log)

lemma quiet_use_tool: "quiet sent (use_tool env ag rid title n ctx iteration rs response call)"
  unfolding use_tool_def log_defs Let_def by (intro quiet_rules quiet_log quiet_tool [unfolded Let_def])

lemma quiet_reply: "quiet sent (react_reply env ag rid title n ctx iteration rs response calls final)"
  unfolding react_reply_def log_defs Let_def by (intro quiet_rules quiet_log quiet_deliver quiet_use_tool)

lemma quiet_handle: "quiet sent (react_handle env ag rid title n ctx iteration rs reply)"
  unfolding react_handle_def Let_def by (intro quiet_rules quiet_reply)

text \<open>One round sends at most the history it starts with.\<close>

lemma step_sends:
  assumes "silent_callback sent cb" and "react_step env ag rid title n ctx cb iteration rs g = (r, g')"
  shows "sent (g_w g') = sent (g_w g) \<or> sent (g_w g') = sent (g_w g) @ [rs_messages rs]"
proof -
  let ?msg = "re_tr env ''progress.deepSearchAndWrite''
            [(''current'', PyInt (int (rs_count rs))), (''max'', PyInt (int MAX_TOOL_CALLS_PER_SECTION))]"
  obtain r1 g1 where c: "call_back cb ''generating'' (20 * int iteration) ?msg g = (r1, g1)" by fastforce
  have s1: "sent (g_w g1) = sent (g_w g)"
    by (rule quietD [OF quiet_call_back [OF assms(1)] c])
  obtain r2 g2 where h: "on_world (re_chat env (rs_messages rs) (Some 4096)) g1 = (r2, g2)" by fastforce
  then have s2: "sent (g_w g2) = sent (g_w g1) @ [rs_messages rs]"
    using chat_sent [of "rs_messages rs" "Some 4096" "g_w g1"] by (auto simp: on_world_def Let_def split: prod.splits)
  show ?thesis
  proof (cases r1)
    case (Inl e)
    with assms(2) c s1 show ?thesis by (simp add: react_step_def)
  next
    case (Inr u)
    show ?thesis
    proof (cases r2)
      case (Inl e)
      with assms(2) c h s1 s2 Inr show ?thesis by (simp add: react_step_def)
    next
      case (Inr reply)
      with \<open>r1 = Inr u\<close> assms(2) c h have "react_handle env ag rid title n ctx iteration rs reply g2 = (r, g')"
        by (simp add: react_step_def)
      from quietD [OF quiet_handle this] s1 s2 show ?thesis by simp
    qed
  qed
qed

definition new_requests :: "nat \<Rightarrow> 'w gen \<Rightarrow> 'w gen \<Rightarrow> bool" where
  "new_requests k g g' \<longleftrightarrow> (\<exists>hs. sent (g_w g') = sent (g_w g) @ hs \<and> length hs \<le> k \<and> list_all (clean_history (re_word env)) hs)"

lemma new_requests_trans: "new_requests j g g1 \<Longrightarrow> new_requests k g1 g' \<Longrightarrow> new_requests (j + k) g g'"
  unfolding new_requests_def
proof (elim exE conjE)
  fix hs1 hs2
  assume "sent (g_w g1) = sent (g_w g) @ hs1" "length hs1 \<le> j" "list_all (clean_history (re_word env)) hs1"
    "sent (g_w g') = sent (g_w g1) @ hs2" "length hs2 \<le> k" "list_all (clean_history (re_word env)) hs2"
  then show "\<exists>hs. sent (g_w g') = sent (g_w g) @ hs \<and> length hs \<le> j + k \<and> list_all (clean_history (re_word env)) hs"
    by (intro exI [of _ "hs1 @ hs2"]) simp
qed

lemma new_requests_quiet: "quiet sent f \<Longrightarrow> f g = (r, g') \<Longrightarrow> new_requests 0 g g'"
  by (simp add: new_requests_def quietD)

lemma loop_sends:
  assumes "silent_callback sent cb" and w: "word_class_ok (re_word env)"
    and "clean_history (re_word env) (rs_messages rs)" and "react_loop env ag rid title n ctx cb k rs g = (r, g')"
  shows "new_requests k g g'"
  using assms(3,4)
proof (induction k arbitrary: rs g)
  case 0
  then show ?case by (auto simp: new_requests_def)
next
  case (Suc k)
  obtain r1 g1 where step: "react_step env ag rid title n ctx cb (max_iterations - Suc k) rs g = (r1, g1)" by fastforce
  have s1: "new_requests 1 g g1"
    using step_sends [OF assms(1) step] Suc.prems(1) by (auto simp: new_requests_def)
  have more: "new_requests (Suc k) g g'" if "new_requests k g1 g'"
    using new_requests_trans [OF s1 that] by simp
  show ?case
  proof (cases "\<exists>rs1. r1 = Inr (Again rs1)")
    case True
    then obtain rs1 where rs1: "r1 = Inr (Again rs1)" by blast
    have "out_ok (re_word env) (rs_count rs) (Again rs1)"
      using react_step_ok [OF w Suc.prems(1) order_refl] step rs1 by blast
    then have "clean_history (re_word env) (rs_messages rs1)"
      by (simp add: out_ok_def)
    moreover have "react_loop env ag rid title n ctx cb k rs1 g1 = (r, g')"
      using Suc.prems(2) step rs1 by simp
    ultimately show ?thesis using Suc.IH more by blast
  next
    case False
    then have "g' = g1"
      using Suc.prems(2) step by (cases r1) (auto split: react_out.splits)
    then show ?thesis
      using s1 by (auto simp: new_requests_def)
  qed
qed

lemma force_sends:
  assumes "clean_history (re_word env) (rs_messages rs)" and f: "force_answer env rid title n rs g = (r, g')"
  shows "new_requests 1 g g'"
proof -
  let ?ms = "rs_messages rs @ [chat_msg ''user'' REACT_FORCE_FINAL_MSG]"
  obtain r1 g1 where h: "on_world (re_chat env ?ms (Some 4096)) g = (r1, g1)" by fastforce
  then have "sent (g_w g1) = sent (g_w g) @ [?ms]"
    using chat_sent [of ?ms "Some 4096" "g_w g"] by (auto simp: on_world_def Let_def split: prod.splits)
  with assms(1) have s1: "new_requests 1 g g1"
    by (auto simp: new_requests_def clean_history_def)
  have "quiet sent (\<lambda>g. st_bind (if_logger (log_section_content env rid title n a m) g) (\<lambda>_ g. (Inr a, g)))" for a m
    unfolding log_defs by (intro quiet_rules quiet_log)
  then have "new_requests 0 g1 g'"
    using f h by (cases r1) (auto simp: force_answer_def Let_def new_requests_def dest: quietD)
  from new_requests_trans [OF s1 this] show ?thesis by simp
qed

lemma section_sends:
  assumes cb: "silent_callback sent cb" and w: "word_class_ok (re_word env)"
    and run: "generate_section_react env ag rid x outline previous cb n g = (r, g')"
  shows "new_requests 6 g g'"
proof -
  let ?title = "sec_title x"
  obtain r1 g1 where l: "if_logger (log_section_start env rid ?title n) g = (r1, g1)" by fastforce
  have q: "quiet sent (if_logger (log_section_start env rid ?title n))"
    unfolding log_defs by (intro quiet_rules quiet_log)
  have s1: "new_requests 0 g g1" by (rule new_requests_quiet [OF q l])
  have weaken: "new_requests 6 g g'" if "new_requests k g1 g'" "k \<le> 6" for k
    using new_requests_trans [OF s1 that(1)] that(2) by (auto simp: new_requests_def)
  show ?thesis
  proof (cases "\<exists>rs0. r1 = Inr () \<and> start_react env ag ?title outline previous = Inr rs0")
    case False
    then have "g' = g1"
      using run l by (cases r1; cases "start_react env ag ?title outline previous") (auto simp: generate_section_react_def Let_def)
    then show ?thesis using weaken [of 0] by (simp add: new_requests_def)
  next
    case True
    then obtain rs0 where rs0: "r1 = Inr ()" "start_react env ag ?title outline previous = Inr rs0" by blast
    obtain ctx where loop: "st_bind (react_loop env ag rid ?title n ctx cb max_iterations rs0 g1) (\<lambda>out.
        case out of Answer answer _ \<Rightarrow> Pair (Inr answer) | GiveUp rs \<Rightarrow> force_answer env rid ?title n rs
        | Again rs \<Rightarrow> force_answer env rid ?title n rs) = (r, g')"
      using run l rs0 by (auto simp: generate_section_react_def Let_def)
    have clean: "clean_history (re_word env) (rs_messages rs0)" "rs_count rs0 \<le> 0"
      using rs0(2) by (auto simp: start_react_def exn_simps clean_history_def)
    obtain r2 g2 where r2: "react_loop env ag rid ?title n ctx cb max_iterations rs0 g1 = (r2, g2)" by fastforce
    have s2: "new_requests 5 g1 g2"
      using loop_sends [OF cb w clean(1) r2] by (simp add: max_iterations_def)
    show ?thesis
    proof (cases "\<exists>rs. r2 = Inr (GiveUp rs)")
      case True
      then obtain rs where rs: "r2 = Inr (GiveUp rs)" by blast
      with react_loop_ok [OF w clean] r2 have "clean_history (re_word env) (rs_messages rs)"
        by (fastforce simp: out_ok_def)
      with force_sends loop r2 rs have "new_requests 1 g2 g'" by simp
      with new_requests_trans [OF s2 this] weaken [of 6] show ?thesis by simp
    next
      case False
      moreover have "r2 \<noteq> Inr (Again rs)" for rs
        using r2 react_loop_ok [OF w clean] by blast
      ultimately have "g' = g2"
        using loop r2 by (cases r2) (auto split: react_out.splits)
      with weaken [of 5] s2 show ?thesis by simp
    qed
  qed
qed

end

section \<open>Every environment, traced\<close>

definition trace_action :: "('w, 'a) action \<Rightarrow> ('w \<times> 'h, 'a) action" where
  "trace_action f x = (let (r, w) = f (fst x) in (r, (w, snd x)))"

definition trace_read :: "('w \<Rightarrow> 'a \<times> 'w) \<Rightarrow> 'w \<times> 'h \<Rightarrow> 'a \<times> ('w \<times> 'h)" where
  "trace_read f x = (let (r, w) = f (fst x) in (r, (w, snd x)))"

text \<open>The same environment over a world that also records the histories sent to the language model.\<close>

definition traced :: "'w report_env \<Rightarrow> ('w \<times> pydict list list) report_env" where
  "traced env =
     \<lparr>re_tr = re_tr env, re_str = re_str env, re_parse_int = re_parse_int env, re_loads = re_loads env,
      re_dumps = re_dumps env, re_word = re_word env, re_order = re_order env, re_language = re_language env,
      re_now = trace_read (re_now env), re_elapsed = trace_read (re_elapsed env), re_uuid_hex = trace_read (re_uuid_hex env),
      re_chat = (\<lambda>ms cap x. let (r, w) = re_chat env ms cap (fst x) in (r, (w, snd x @ [ms]))),
      re_chat_json = (\<lambda>ms. trace_action (re_chat_json env ms)),
      re_insight_forge = (\<lambda>a b c d. trace_action (re_insight_forge env a b c d)),
      re_panorama_search = (\<lambda>a b c. trace_action (re_panorama_search env a b c)),
      re_quick_search = (\<lambda>a b c. trace_action (re_quick_search env a b c)),
      re_interview_agents = (\<lambda>a b c d. trace_action (re_interview_agents env a b c d)),
      re_graph_statistics = (\<lambda>a. trace_action (re_graph_statistics env a)),
      re_entity_summary = (\<lambda>a b. trace_action (re_entity_summary env a b)),
      re_entities_by_type = (\<lambda>a b. trace_action (re_entities_by_type env a b)),
      re_simulation_context = (\<lambda>a b. trace_action (re_simulation_context env a b))\<rparr>"

definition traced_callback :: "'w callback \<Rightarrow> ('w \<times> pydict list list) callback" where
  "traced_callback cb = map_option (\<lambda>f stage p msg. trace_action (f stage p msg)) cb"

lemma snd_trace_action [simp]: "snd (snd (trace_action f x)) = snd x"
  by (simp add: trace_action_def case_prod_unfold Let_def)

lemma silent_traced_callback: "silent_callback snd (traced_callback cb)"
  by (auto simp: silent_callback_def traced_callback_def silent_def)

interpretation ct: chat_trace "traced env" snd for env
  by unfold_locales (simp_all add: traced_def silent_def trace_read_def case_prod_unfold Let_def)


end
