(* ===== verification/Report_Content.thy ===== *)
theory Report_Content
  imports Report_Verdicts
begin

text \<open>
  What is in a completed report: the section files of a run are read back in their order, and the
  assembled Markdown keeps the prose of every section.
\<close>

section \<open>Names of section files\<close>

definition two_digits :: "nat \<Rightarrow> pystr" where
  "two_digits n = [48 + n div 10, 48 + n mod 10]"

lemma section_file_two_digits: "n < 100 \<Longrightarrow> section_file n = lit ''section_'' @ two_digits n @ lit ''.md''"
proof -
  assume n: "n < 100"
  have d: "nat_digits m = [48 + m]" if "m < 10" for m
    using that by (subst nat_digits.simps) simp
  show ?thesis
  proof (cases "n < 10")
    case True
    then show ?thesis by (simp add: section_file_def two_digits_def d lit_def)
  next
    case False
    moreover from n have "n div 10 < 10" by simp
    ultimately have "nat_digits n = [48 + n div 10, 48 + n mod 10]"
      by (subst nat_digits.simps) (simp add: d)
    with False show ?thesis by (simp add: section_file_def two_digits_def)
  qed
qed

lemma lex_append_left: "(p @ x < p @ y) = (x < (y :: nat list))"
  by (induction p) simp_all

lemma two_digits_mono: "m < n \<Longrightarrow> n < 100 \<Longrightarrow> two_digits m @ s < two_digits n @ s"
proof -
  assume mn: "m < n" "n < 100"
  then have "m div 10 < n div 10 \<or> m div 10 = n div 10 \<and> m mod 10 < n mod 10"
    by (metis div_le_mono le_neq_implies_less less_imp_le mod_less_eq_dividend div_mult_mod_eq nat_add_left_cancel_less)
  then show ?thesis by (auto simp: two_digits_def)
qed

lemma section_file_mono: "m < n \<Longrightarrow> n < 100 \<Longrightarrow> section_file m < section_file n"
  by (simp add: section_file_two_digits lex_append_left two_digits_mono)

lemma section_file_inj: "m < 100 \<Longrightarrow> n < 100 \<Longrightarrow> section_file m = section_file n \<longleftrightarrow> m = n"
  using section_file_mono by (metis less_irrefl nat_neq_iff)

lemma section_file_found: "n < 100 \<Longrightarrow> is_section_file (section_file n)"
  by (simp add: section_file_two_digits is_section_file_def text_ends_iff)

lemma section_number_ok:
  assumes "n < 100" and "parse_int (two_digits n) = Some (int n)"
  shows "section_number parse_int (section_file n) = Inr (int n)"
proof -
  obtain a b where ab: "two_digits n = [a, b]" "48 \<le> a" "a \<le> 57" "48 \<le> b" "b \<le> 57"
    using assms(1) by (auto simp: two_digits_def)
  have "split_str (lit ''.md'') (section_file n) = [lit ''section_'' @ [a, b], []]"
    using ab by (simp add: section_file_two_digits [OF assms(1)] split_str.simps [of "[46, 109, 100]"] lit_def starts_with_def)
  moreover have "split_str (lit ''_'') (lit ''section_'' @ [a, b]) = [lit ''section'', [a, b]]"
    using ab by (simp add: split_str.simps [of "[95]"] lit_def starts_with_def)
  ultimately show ?thesis
    using assms(2) ab(1) by (simp add: section_number_def replace_sub_def)
qed

text \<open>A parser that reads the two digits of a section file's index, as \<^verbatim>\<open>int\<close> does.\<close>

definition reads_indices :: "(pystr \<Rightarrow> int option) \<Rightarrow> bool" where
  "reads_indices parse_int \<longleftrightarrow> (\<forall>n < 100. parse_int (two_digits n) = Some (int n))"

text \<open>The folder holds exactly the section files one to \<open>n\<close>.\<close>

definition holds_sections :: "report_folder \<Rightarrow> nat \<Rightarrow> bool" where
  "holds_sections d n \<longleftrightarrow>
     distinct (map fst (rf_texts d))
     \<and> {name \<in> fst ` set (rf_texts d). is_section_file name} = (\<lambda>j. section_file (Suc j)) ` {..<n}"

lemma map_res_all_ok: "(\<And>x. x \<in> set xs \<Longrightarrow> f x = Inr (h x)) \<Longrightarrow> map_res f xs = Inr (map h xs)"
  by (induction xs) simp_all

lemma generated_sections_in_order:
  assumes "folder_of fs rid = Some d" and "holds_sections d n" and "n < 100" and "reads_indices parse_int"
  shows "get_generated_sections parse_int fs rid =
    Inr (map (\<lambda>j. \<lparr>gs_filename = section_file (Suc j), gs_index = int (Suc j),
                   gs_content = read_text (dget_or (rf_texts d) (section_file (Suc j)) [])\<rparr>) [0 ..< n])"
proof -
  let ?names = "filter is_section_file (sort (map fst (rf_texts d)))" and ?files = "map (\<lambda>j. section_file (Suc j)) [0 ..< n]"
  have lt: "section_file (Suc i) < section_file (Suc j)" if "i < j" "j < n" for i j
    using that assms(3) by (intro section_file_mono) simp_all
  have "sorted_wrt (<) ?files"
    by (auto simp: sorted_wrt_iff_nth_less intro: lt)
  then have "sorted ?files" "distinct ?files"
    by (simp_all add: strict_sorted_iff)
  moreover have "sorted ?names" "distinct ?names"
    using assms(2) by (auto simp: holds_sections_def intro: sorted_wrt_filter)
  moreover have "set ?names = set ?files"
    using assms(2) by (auto simp: holds_sections_def atLeast0LessThan)
  ultimately have names: "?names = ?files"
    by (intro sorted_distinct_set_unique)
  have num: "section_number parse_int (section_file (Suc j)) = Inr (int (Suc j))" if "j < n" for j
    using that assms(3,4) by (intro section_number_ok) (simp_all add: reads_indices_def)
  show ?thesis
    unfolding get_generated_sections_def assms(1) option.case names
    by (subst map_res_all_ok [of _ _ "\<lambda>name. \<lparr>gs_filename = name, gs_index = the (case section_number parse_int name of Inr k \<Rightarrow> Some k | Inl e \<Rightarrow> None),
          gs_content = read_text (dget_or (rf_texts d) name [])\<rparr>"])
      (auto simp: num)
qed

lemma put_section_holds:
  assumes "holds_sections d i" and "i < 99"
  shows "holds_sections (put_text (section_file (Suc i)) s d) (Suc i)"
proof -
  let ?k = "section_file (Suc i)"
  have k: "is_section_file ?k" using assms(2) by (intro section_file_found) simp
  have "{name \<in> insert ?k S. is_section_file name} = insert ?k {name \<in> S. is_section_file name}" for S
    using k by auto
  with assms(1) show ?thesis
    by (simp add: holds_sections_def put_text_def distinct_update dom_update lessThan_Suc)
qed

section \<open>The sections of a run\<close>

text \<open>
  The first \<open>i\<close> sections of the report's outline are saved: each file holds the text of its section.
\<close>

definition saved_sections ::
  "(pyval \<Rightarrow> pystr) \<Rightarrow> pystr \<Rightarrow> pyval \<Rightarrow> pyval list \<Rightarrow> nat \<Rightarrow> 'w gen \<Rightarrow> bool" where
  "saved_sections str rid main_title titles i g \<longleftrightarrow>
     (\<exists>d outline. folder_of (g_fs g) rid = Some d \<and> holds_sections d i \<and> rp_outline (g_report g) = Some outline
        \<and> out_title outline = main_title \<and> map sec_title (out_sections outline) = titles
        \<and> (\<forall>j < i. \<exists>t. dget (rf_texts d) (section_file (Suc j)) = Some t \<and> section_text str (out_sections outline ! j) = Inr t))"

lemma saved_sections_view:
  assumes "view g' = view g" and "saved_sections str rid m ts i g"
  shows "saved_sections str rid m ts i g'"
proof -
  obtain d where d: "folder_of (g_fs g) rid = Some d" using assms(2) by (auto simp: saved_sections_def)
  with view_fields(5) [OF assms(1), of rid] obtain d' where d': "folder_of (g_fs g') rid = Some d'" "rf_texts d' = rf_texts d"
    by (auto simp: folder_view_def)
  with assms(2) d view_fields(1) [OF assms(1)] show ?thesis
    by (simp add: saved_sections_def holds_sections_def)
qed

lemma saved_sections_folder: "saved_sections str rid m ts i g \<Longrightarrow> has_folder rid g"
  by (auto simp: saved_sections_def has_folder_def)

interpretation ss: run_invariant rid "saved_sections str rid m ts i" for str rid m ts i
  by unfold_locales (rule saved_sections_folder, assumption, rule saved_sections_view)

lemma ss_keeps:
  assumes "unchanging rid f" and "f g = (r, g')" and "saved_sections str rid m ts i g"
  shows "saved_sections str rid m ts i g'"
  by (rule preservesD [OF ss.preserves_keeps [OF assms(1)] assms(2,3)])

lemma save_section_saves:
  assumes s: "saved_sections str rid m ts i g" and i: "i < length ts" "length ts < 100" and t: "sec_title x = ts ! i"
    and save: "save_section str rid (Suc i) (x\<lparr>sec_content := PyStr content\<rparr>) (g_fs g) = (Inr (), fs')"
  shows "saved_sections str rid m ts (Suc i) (g\<lparr>g_report := set_content i content (g_report g), g_fs := fs'\<rparr>)"
proof -
  obtain d outline where d: "folder_of (g_fs g) rid = Some d" "holds_sections d i" "rp_outline (g_report g) = Some outline"
    "out_title outline = m" "map sec_title (out_sections outline) = ts"
    and files: "\<And>j. j < i \<Longrightarrow> \<exists>t. dget (rf_texts d) (section_file (Suc j)) = Some t \<and> section_text str (out_sections outline ! j) = Inr t"
    using s by (auto simp: saved_sections_def)
  obtain fs1 md where e: "ensure_report_folder rid (g_fs g) = (Inr (), fs1)" and
    md: "section_text str (x\<lparr>sec_content := PyStr content\<rparr>) = Inr md" and
    c: "change_folder rid (put_text (section_file (Suc i)) md) fs1 = (Inr (), fs')"
    using save by (auto simp: save_section_def st_bind_ok_iff)
  have "fs1 = g_fs g"
    using e d(1) by (auto simp: ensure_report_folder_def folder_of_def split: option.splits report_entry.splits)
  with change_folder_ok(1) [OF c] d(1) have f: "folder_of fs' rid = Some (put_text (section_file (Suc i)) md d)"
    by (simp add: found_folder_def)
  let ?ss = "(out_sections outline)[i := (out_sections outline ! i)\<lparr>sec_content := PyStr content\<rparr>]"
  have len: "i < length (out_sections outline)" using i(1) d(5) by auto
  have x: "x\<lparr>sec_content := PyStr content\<rparr> = (out_sections outline ! i)\<lparr>sec_content := PyStr content\<rparr>"
    using t d(5) len by (cases x, cases "out_sections outline ! i") auto
  have "map sec_title ?ss = ts"
    using d(5) len by (auto intro!: nth_equalityI simp: nth_list_update)
  moreover have "\<exists>t. dget (rf_texts (put_text (section_file (Suc i)) md d)) (section_file (Suc j)) = Some t \<and> section_text str (?ss ! j) = Inr t"
    if "j < Suc i" for j
  proof (cases "j = i")
    case True
    then show ?thesis using md x len by (simp add: put_text_def)
  next
    case False
    with that have "j < i" by simp
    moreover from this i(1,2) have "section_file (Suc j) \<noteq> section_file (Suc i)"
      by (simp add: section_file_inj)
    ultimately show ?thesis using files [of j] by (simp add: put_text_def)
  qed
  moreover have "holds_sections (put_text (section_file (Suc i)) md d) (Suc i)"
    using put_section_holds [OF d(2)] i by simp
  ultimately show ?thesis
    using f d(3,4) by (simp add: saved_sections_def set_content_def)
qed

lemma section_loop_saves:
  assumes "section_loop env ag rid outline cb tot i rest generated g = (Inr (), g')"
    and "saved_sections (re_str env) rid m ts i g" and "map sec_title rest = drop i ts" and "length ts < 100"
    and "i + length rest = length ts"
  shows "saved_sections (re_str env) rid m ts (length ts) g'"
  using assms(1-3,5)
proof (induction rest arbitrary: i generated g)
  case Nil
  then show ?case by simp
next
  case (Cons x rest)
  let ?base = "base_progress i tot" and ?msg = "section_message env (sec_title x) i tot"
  let ?doned = "\<lambda>g. g\<lparr>g_done := g_done g @ [sec_title x]\<rparr>"
  obtain g1 g2 g3 g5 g7 g8 content full msg where
    a: "put_progress env rid ''generating'' ?base ?msg (sec_title x) g = (Inr (), g1)" and
    b: "call_back cb ''generating'' ?base ?msg g1 = (Inr (), g2)" and
    c: "generate_section_react env ag rid x outline generated (section_callback cb ?base tot) (Suc i) g2 = (Inr content, g3)" and
    d: "on_store (save_section (re_str env) rid (Suc i) (x\<lparr>sec_content := PyStr content\<rparr>))
          (g3\<lparr>g_report := set_content i content (g_report g3)\<rparr>) = (Inr (), g5)" and
    e: "if_logger (log_section_full_complete env rid (sec_title x) (Suc i) (py_strip full)) (?doned g5) = (Inr (), g7)" and
    f: "put_progress env rid ''generating'' (?base + int (70 div tot)) msg PyNone g7 = (Inr (), g8)" and
    rest: "section_loop env ag rid outline cb tot (Suc i) rest (generated @ [full]) g8 = (Inr (), g')"
    using Cons.prems(1) by (auto simp: Let_def st_bind_ok_iff with_report_def modify_def)
  have s3: "saved_sections (re_str env) rid m ts i g3"
    by (rule ss_keeps [OF keeps_section c ss_keeps [OF keeps_callback b ss_keeps [OF keeps_put_progress a Cons.prems(2)]]])
  obtain fs' where save: "save_section (re_str env) rid (Suc i) (x\<lparr>sec_content := PyStr content\<rparr>) (g_fs g3) = (Inr (), fs')"
    and g5: "g5 = g3\<lparr>g_report := set_content i content (g_report g3), g_fs := fs'\<rparr>"
    using d by (auto simp: on_store_def Let_def split: prod.splits)
  have i: "i < length ts" using Cons.prems(4) by simp
  have "sec_title x = ts ! i"
    using Cons.prems(3) i by (metis list.sel(1) list.simps(9) hd_drop_conv_nth)
  from save_section_saves [OF s3 i assms(4) this save] have "saved_sections (re_str env) rid m ts (Suc i) (?doned g5)"
    by (simp add: g5 saved_sections_def)
  from ss_keeps [OF keeps_if_logger [OF keeps_log] e [unfolded log_section_full_complete_def] this]
  have "saved_sections (re_str env) rid m ts (Suc i) g8"
    using f ss_keeps [OF keeps_put_progress] by blast
  moreover have "map sec_title rest = drop (Suc i) ts"
    using Cons.prems(3) by (metis drop_Suc list.sel(3) list.simps(9) tl_drop)
  ultimately show ?case
    using Cons.IH [OF rest] Cons.prems(4) by simp
qed

text \<open>The titles of the outline stay as they are while sections are generated, however many there are.\<close>

definition titled ::
  "pystr \<Rightarrow> reports \<Rightarrow> pyval \<Rightarrow> pyval list \<Rightarrow> 'w gen \<Rightarrow> bool" where
  "titled rid fs m ts g \<longleftrightarrow> run_view rid fs g
     \<and> (\<exists>outline. rp_outline (g_report g) = Some outline \<and> out_title outline = m \<and> map sec_title (out_sections outline) = ts)"

lemma titled_view: "view g' = view g \<Longrightarrow> titled rid fs m ts g \<Longrightarrow> titled rid fs m ts g'"
  unfolding titled_def using run_inv_view view_fields(1) by metis

interpretation ti: run_invariant rid "titled rid fs m ts" for rid fs m ts
  by unfold_locales (simp add: titled_def run_inv_def, rule titled_view)

lemma titled_content [preserves_rules]: "preserves (titled rid fs m ts) (with_report (set_content i content))"
proof -
  have "map sec_title (ss[i := (ss ! i)\<lparr>sec_content := PyStr content\<rparr>]) = map sec_title ss" for ss
    by (cases "i < length ss") (auto intro!: nth_equalityI simp: nth_list_update)
  then show ?thesis
    by (auto simp: preserves_def titled_def with_report_def modify_def set_content_def run_inv_def has_folder_def)
qed

lemma titled_done [preserves_rules]: "preserves (titled rid fs m ts) (modify (\<lambda>g. g\<lparr>g_done := f g\<rparr>))"
  by (auto simp: preserves_def titled_def modify_def run_inv_def has_folder_def)

lemma titled_save [preserves_rules]: "preserves (titled rid fs m ts :: 'w gen \<Rightarrow> bool) (on_store (save_section str rid n x))"
proof -
  have "g_report (snd (on_store f g)) = g_report g" for f :: "reports \<Rightarrow> unit res \<times> reports" and g :: "'w gen"
    by (simp add: on_store_def case_prod_unfold Let_def)
  moreover have "preserves (run_view rid fs :: 'w gen \<Rightarrow> bool) (on_store (save_section str rid n x))"
    by (rule preserves_save_section)
  ultimately show ?thesis by (simp add: preserves_def titled_def)
qed

lemmas titled_kept [preserves_rules] = ti.kept

lemma titled_sections: "preserves (titled rid fs m ts) (section_loop env ag rid outline cb tot i rest generated)"
proof (induction rest arbitrary: i generated)
  case Nil
  have "section_loop env ag rid outline cb tot i [] generated = (\<lambda>g. (Inr (), g))"
    by (simp add: fun_eq_iff)
  then show ?case by (simp add: preserves_result)
next
  case (Cons x rest)
  have "preserves (titled rid fs m ts) (\<lambda>g. section_loop env ag rid outline cb tot i (x # rest) generated g)"
    unfolding section_loop.simps Let_def log_defs by (intro preserves_rules keeps_log Cons.IH)
  then show ?case by simp
qed

section \<open>A fresh run\<close>

definition fresh_run :: "pystr \<Rightarrow> 'w gen \<Rightarrow> bool" where
  "fresh_run rid g \<longleftrightarrow>
     (\<exists>d. folder_of (g_fs g) rid = Some d \<and> holds_sections d 0) \<and> rp_report_id (g_report g) = PyStr rid
     \<and> rp_markdown (g_report g) = PyStr []"

lemma holds_sections_texts: "rf_texts d' = rf_texts d \<Longrightarrow> holds_sections d' n = holds_sections d n"
  by (simp add: holds_sections_def)

lemma fresh_run_view: "view g' = view g \<Longrightarrow> fresh_run rid g \<Longrightarrow> fresh_run rid g'"
proof -
  assume v: "view g' = view g" and f: "fresh_run rid g"
  then obtain d where d: "folder_of (g_fs g) rid = Some d" "holds_sections d 0" by (auto simp: fresh_run_def)
  with view_fields(5) [OF v, of rid] obtain d' where d': "folder_of (g_fs g') rid = Some d'" "rf_texts d' = rf_texts d"
    by (auto simp: folder_view_def)
  with f d(2) view_fields(1) [OF v] holds_sections_texts [OF d'(2), of 0] show ?thesis
    by (simp add: fresh_run_def)
qed

lemma fresh_run_folder: "fresh_run rid g \<Longrightarrow> has_folder rid g"
  by (auto simp: fresh_run_def has_folder_def)

interpretation fr: run_invariant rid "fresh_run rid" for rid
  by unfold_locales (rule fresh_run_folder, assumption, rule fresh_run_view)

lemma fresh_with_report [preserves_rules]:
  assumes "\<And>r. rp_report_id (f r) = rp_report_id r" and "\<And>r. rp_markdown (f r) = rp_markdown r"
  shows "preserves (fresh_run rid) (with_report f)"
  using assms by (auto simp: preserves_def fresh_run_def with_report_def modify_def)

lemma fresh_modify [preserves_rules]: "preserves (fresh_run rid) (modify (\<lambda>g. g\<lparr>g_logger := b\<rparr>))"
  by (auto simp: preserves_def fresh_run_def modify_def)

lemma fresh_store [preserves_rules]: "preserves (fresh_run rid) store_report"
  unfolding preserves_def
proof (intro allI impI)
  fix g :: "'a gen" assume i: "fresh_run rid g"
  then obtain d where d: "folder_of (g_fs g) rid = Some d" "holds_sections d 0" "rp_report_id (g_report g) = PyStr rid"
    "rp_markdown (g_report g) = PyStr []"
    by (auto simp: fresh_run_def)
  obtain fs' where s: "save_report (g_report g) (g_fs g) = (Inr (), fs')"
    using save_report_total [OF _ d(3,4)] d(1) by auto
  have "rf_texts (saved_folder (g_report g) d) = rf_texts d"
    using d(4) by (simp add: saved_folder_def Let_def split: option.splits)
  from holds_sections_texts [OF this, of 0] save_report_ok(1) [OF s d(3)] d s show "fresh_run rid (snd (store_report g))"
    by (simp add: fresh_run_def store_report_def on_store_def found_folder_def)
qed

lemma fresh_console [preserves_rules]:
  "preserves (fresh_run rid) (on_store (in_folder rid (\<lambda>d. if dhas (rf_texts d) CONSOLE_LOG then d else put_text CONSOLE_LOG [] d)))"
  unfolding preserves_def
proof (intro allI impI)
  let ?f = "\<lambda>d. if dhas (rf_texts d) CONSOLE_LOG then d else put_text CONSOLE_LOG [] d"
  fix g :: "'a gen" assume i: "fresh_run rid g"
  then obtain d where d: "folder_of (g_fs g) rid = Some d" "holds_sections d 0" "rp_report_id (g_report g) = PyStr rid"
    "rp_markdown (g_report g) = PyStr []"
    by (auto simp: fresh_run_def)
  obtain fs' where s: "in_folder rid ?f (g_fs g) = (Inr (), fs')"
    using in_folder_total [OF usable_folder] d(1) by (metis option.distinct(1))
  have "\<not> is_section_file CONSOLE_LOG"
    by (simp add: is_section_file_def CONSOLE_LOG_def lit_def starts_with_def)
  with d(2) have "holds_sections (?f d) 0"
    by (simp add: holds_sections_def put_text_def distinct_update dom_update)
  with in_folder_ok(1) [OF s] d s show "fresh_run rid (snd (on_store (in_folder rid ?f) g))"
    by (simp add: fresh_run_def on_store_def found_folder_def split: if_splits)
qed

lemmas fresh_kept [preserves_rules] = fr.kept

lemma fresh_open_logs: "preserves (fresh_run rid) (open_logs env ag rid)"
  unfolding open_logs_def log_defs by (intro preserves_rules fr.preserves_keeps [OF keeps_ensure])

lemma fresh_planning: "preserves (fresh_run rid) (planning_phase env ag rid cb)"
  unfolding planning_phase_def log_defs by (intro preserves_rules) simp_all

text \<open>The same, once the outline is known.\<close>

definition outlined :: "pystr \<Rightarrow> ReportOutline \<Rightarrow> 'w gen \<Rightarrow> bool" where
  "outlined rid outline g \<longleftrightarrow> fresh_run rid g \<and> rp_outline (g_report g) = Some outline"

lemma outlined_view: "view g' = view g \<Longrightarrow> outlined rid outline g \<Longrightarrow> outlined rid outline g'"
  unfolding outlined_def using fresh_run_view view_fields(1) by metis

lemma outlined_folder: "outlined rid outline g \<Longrightarrow> has_folder rid g"
  by (simp add: outlined_def fresh_run_folder)

interpretation ol: run_invariant rid "outlined rid outline" for rid outline
  by unfold_locales (rule outlined_folder, assumption, rule outlined_view)

lemma outlined_store [preserves_rules]: "preserves (outlined rid outline :: 'w gen \<Rightarrow> bool) store_report"
proof -
  have "g_report (snd (store_report g)) = g_report g" for g :: "'w gen"
    by (simp add: store_report_def on_store_def case_prod_unfold Let_def)
  moreover have "preserves (fresh_run rid :: 'w gen \<Rightarrow> bool) store_report" by (rule fresh_store)
  ultimately show ?thesis by (simp add: preserves_def outlined_def)
qed

lemma outlined_status [preserves_rules]: "preserves (outlined rid outline) (with_report (\<lambda>r. r\<lparr>rp_status := x\<rparr>))"
  by (auto simp: preserves_def outlined_def fresh_run_def with_report_def modify_def)

lemmas outlined_kept [preserves_rules] = ol.kept

text \<open>\<open>yields I f Q\<close>: from \<open>I\<close>, a normal result of \<open>f\<close> and the state it leaves are as \<open>Q\<close> says.\<close>

definition yields :: "('w gen \<Rightarrow> bool) \<Rightarrow> ('w, 'a) gproc \<Rightarrow> ('a \<Rightarrow> 'w gen \<Rightarrow> bool) \<Rightarrow> bool" where
  "yields I f Q \<longleftrightarrow> (\<forall>g x g'. I g \<and> f g = (Inr x, g') \<longrightarrow> Q x g')"

lemma yields_step: "preserves I f \<Longrightarrow> (\<And>x. yields I (h x) Q) \<Longrightarrow> yields I (\<lambda>g. st_bind (f g) h) Q"
  unfolding yields_def st_bind_ok_iff by (metis preservesD)

lemma outline_set: "fresh_run rid g \<Longrightarrow> outlined rid outline (g\<lparr>g_report := (g_report g)\<lparr>rp_outline := Some outline\<rparr>\<rparr>)"
  by (simp add: outlined_def fresh_run_def)

lemma yields_outline:
  "yields (outlined rid outline) h Q \<Longrightarrow>
   yields (fresh_run rid) (\<lambda>g. st_bind (with_report (\<lambda>r. r\<lparr>rp_outline := Some outline\<rparr>) g) (\<lambda>_. h)) Q"
  unfolding yields_def with_report_def modify_def by simp (blast intro: outline_set)

lemma yields_result: "yields (outlined rid x) (\<lambda>g. (Inr x, g)) (outlined rid)"
  by (simp add: yields_def)

lemma planning_yields: "yields (fresh_run rid) (planning_phase env ag rid cb) (outlined rid)"
  unfolding planning_phase_def log_defs
  by (rule yields_outline yields_result | (rule yields_step, (intro preserves_rules; simp)))+

section \<open>The text of a completed report\<close>

lemma replace_crlf_id: "13 \<notin> set s \<Longrightarrow> replace_crlf s = s"
  by (induction s rule: replace_crlf.induct) auto

lemma read_text_id: "13 \<notin> set s \<Longrightarrow> read_text s = s"
  by (simp add: read_text_def replace_crlf_id replace_cr_def cong: map_cong) (auto intro!: map_idI)

lemma replace_crlf_line: "\<exists>a'. replace_crlf (a @ 10 # b) = a' @ 10 # replace_crlf b"
proof (induction a rule: replace_crlf.induct)
  case (1 c d s)
  then show ?case by (cases "c = 13 \<and> d = 10") (auto simp: Cons_eq_append_conv intro: exI [of _ "_ # _"])
qed (cases b; auto)+

lemma read_text_line: "\<exists>a'. read_text (a @ 10 # b) = a' @ 10 # read_text b"
  using replace_crlf_line [of a b] by (auto simp: read_text_def replace_cr_def)

lemma clean_lines_char:
  assumes "c \<noteq> 42"
  shows "clean_lines title i skip lines = Inr cleaned \<Longrightarrow> list_all (\<lambda>l. c \<notin> set l) lines \<Longrightarrow> list_all (\<lambda>l. c \<notin> set l) cleaned"
proof (induction lines arbitrary: i skip cleaned)
  case (Cons line lines)
  have "c \<notin> set (bold t)" if "line_heading line = Some (level, t)" for level t
    using assms heading_title(3) [OF that] set_py_strip [of line] Cons.prems(2) by (auto simp: bold_def lit_def)
  with Cons show ?case
    by (auto simp: exn_simps split: option.splits if_splits)
qed simp

lemma set_split_on: "l \<in> set (split_on d s) \<Longrightarrow> set l \<subseteq> set s"
proof (induction s arbitrary: l)
  case (Cons x s)
  then show ?case by (cases "split_on d s") (fastforce split: if_splits)+
qed simp

lemma set_py_join: "set (py_join sep ls) \<subseteq> set sep \<union> \<Union> (set ` set ls)"
  by (induction sep ls rule: py_join.induct) auto

lemma clean_section_char:
  assumes "clean_section_content content title = Inr cleaned" and "c \<notin> set content" and "c \<noteq> 42" and "c \<noteq> 10"
  shows "c \<notin> set cleaned"
proof (cases "content = []")
  case False
  with assms obtain ls where ls: "clean_lines title 0 False (split_on 10 (py_strip content)) = Inr ls"
    "cleaned = py_join [10] (drop_rules (dropWhile blank ls))"
    by (auto simp: clean_section_content_def exn_simps)
  have "list_all (\<lambda>l. c \<notin> set l) (split_on 10 (py_strip content))"
    using assms(2) set_split_on set_py_strip [of content] by (fastforce simp: list_all_iff)
  from clean_lines_char [OF assms(3) ls(1) this] have "\<forall>l \<in> set (drop_rules (dropWhile blank ls)). c \<notin> set l"
    using set_drop_rules [of "dropWhile blank ls"] by (auto simp: list_all_iff dest: set_dropWhileD)
  then show ?thesis
    using set_py_join [of "[10]" "drop_rules (dropWhile blank ls)"] assms(4) by (auto simp: ls(2))
qed (use assms in \<open>simp add: clean_section_content_def\<close>)

lemma prose_Nil [simp]: "prose [] = []"
  by (simp add: prose_def)

text \<open>The prose of a section's content, and a content that universal newlines leave alone.\<close>

definition section_prose :: "ReportSection \<Rightarrow> pystr list" where
  "section_prose s = (case sec_content s of PyStr c \<Rightarrow> prose c | _ \<Rightarrow> [])"

definition no_cr :: "ReportSection \<Rightarrow> bool" where
  "no_cr s = (case sec_content s of PyStr c \<Rightarrow> 13 \<notin> set c | _ \<Rightarrow> True)"

lemma section_text_prose:
  assumes "section_text str s = Inr t" and "no_cr s"
  shows "\<exists>a. read_text t = a @ [10] \<and> subseq (section_prose s) (prose a)"
proof -
  obtain cleaned where t: "t = (lit ''## '' @ fstr str (sec_title s) @ [10]) @ 10 # (if cleaned \<noteq> [] then cleaned @ [10, 10] else [])"
    and c: "(case sec_content s of PyStr c \<Rightarrow> clean_section_content c (sec_title s)
      | v \<Rightarrow> if truthy v then Inl (Exn AttributeErr (lit ''object has no attribute strip'')) else Inr []) = Inr cleaned"
    using assms(1) by (auto simp: section_text_def exn_simps)
  have cl: "13 \<notin> set cleaned \<and> subseq (section_prose s) (prose cleaned)"
  proof (cases "sec_content s")
    case (PyStr x)
    with c assms(2) show ?thesis
      using clean_section_char [of x "sec_title s" cleaned 13] clean_section_prose [of x "sec_title s" cleaned]
      by (simp add: no_cr_def section_prose_def)
  qed (use c in \<open>auto simp: section_prose_def split: if_splits\<close>)
  obtain h where h: "read_text t = h @ 10 # read_text (if cleaned \<noteq> [] then cleaned @ [10, 10] else [])"
    unfolding t using read_text_line by blast
  show ?thesis
  proof (cases "cleaned = []")
    case True
    with cl have "section_prose s = []" by (auto simp: prose_def dest: list_emb_Nil2)
    with h True show ?thesis by (auto simp: read_text_id)
  next
    case False
    with cl have "read_text t = (h @ 10 # cleaned @ [10]) @ [10]"
      using h by (simp add: read_text_id)
    moreover have "subseq (section_prose s) (prose (h @ 10 # cleaned @ [10]))"
      using cl by (simp add: prose_append_newline list_emb_append2)
    ultimately show ?thesis by blast
  qed
qed

lemma prose_concat:
  assumes "list_all2 (\<lambda>s t. \<exists>a. t = a @ [10] \<and> subseq (section_prose s) (prose a)) ss ts"
  shows "subseq (concat (map section_prose ss)) (prose (h @ 10 # concat ts))"
  using assms
proof (induction ss ts arbitrary: h rule: list_all2_induct)
  case (Cons s ss t ts)
  then obtain a where a: "t = a @ [10]" "subseq (section_prose s) (prose a)" by blast
  have "prose (h @ 10 # concat (t # ts)) = prose h @ prose a @ prose (concat ts)"
    by (simp add: a(1) prose_append_newline)
  moreover have "subseq (concat (map section_prose ss)) (prose (concat ts))"
    using Cons.IH [of "[]"] prose_append_newline [of "[]" "concat ts"] by (simp add: prose_def)
  ultimately show ?case
    using a(2) list_emb_append_mono [of "(=)" "section_prose s" "prose a"] by (simp add: list_emb_append2)
qed simp

lemma saved_sections_start: "outlined rid outline g \<Longrightarrow> saved_sections str rid (out_title outline) (map sec_title (out_sections outline)) 0 g"
  by (auto simp: outlined_def fresh_run_def saved_sections_def)

lemma saved_sections_prose:
  assumes "saved_sections str rid m ts (length ts) g" and "rp_outline (g_report g) = Some outline"
    and "list_all no_cr (out_sections outline)" and "length ts < 100" and "reads_indices parse"
  shows "\<exists>secs. get_generated_sections parse (g_fs g) rid = Inr secs
    \<and> subseq (concat (map section_prose (out_sections outline))) (prose (h @ 10 # concat (map gs_content secs)))"
proof -
  obtain d where d: "folder_of (g_fs g) rid = Some d" "holds_sections d (length ts)" "map sec_title (out_sections outline) = ts"
    and files: "\<And>j. j < length ts \<Longrightarrow> \<exists>t. dget (rf_texts d) (section_file (Suc j)) = Some t \<and> section_text str (out_sections outline ! j) = Inr t"
    using assms(1,2) by (auto simp: saved_sections_def)
  have len: "length (out_sections outline) = length ts" using d(3) by auto
  let ?texts = "map (\<lambda>j. read_text (dget_or (rf_texts d) (section_file (Suc j)) [])) [0 ..< length ts]"
  have "list_all2 (\<lambda>s t. \<exists>a. t = a @ [10] \<and> subseq (section_prose s) (prose a)) (out_sections outline) ?texts"
  proof (rule list_all2_all_nthI)
    fix j assume j: "j < length (out_sections outline)"
    then obtain t where t: "dget (rf_texts d) (section_file (Suc j)) = Some t" "section_text str (out_sections outline ! j) = Inr t"
      using files len by auto
    have "no_cr (out_sections outline ! j)" using assms(3) j by (simp add: list_all_length)
    from section_text_prose [OF t(2) this] t(1) j len
    show "\<exists>a. ?texts ! j = a @ [10] \<and> subseq (section_prose (out_sections outline ! j)) (prose a)"
      by (simp add: dget_or_def dget_def)
  qed (simp add: len)
  from prose_concat [OF this] generated_sections_in_order [OF d(1,2) assms(4,5)] show ?thesis
    by (simp add: comp_def)
qed

lemma assembled_text:
  assumes "assemble_full_report str parse rid outline fs = (Inr md, fs')" and "get_generated_sections parse fs rid = Inr secs"
    and "subseq p (prose (report_header str outline @ concat (map gs_content secs)))"
  shows "list_all (allowed_line (out_title outline) (map sec_title (out_sections outline))) (split_on 10 md)"
    "blank_runs_ok 2 (split_on 10 md)" "subseq p (prose md)"
proof -
  have "post_process_report (out_title outline) (map sec_title (out_sections outline))
      (report_header str outline @ concat (map gs_content secs)) = Inr md"
    using assms(1,2) by (auto simp: assemble_full_report_def st_bind_ok_iff)
  note lines = post_process_report_lines [OF this]
  show "list_all (allowed_line (out_title outline) (map sec_title (out_sections outline))) (split_on 10 md)"
    "blank_runs_ok 2 (split_on 10 md)" by (rule lines)+
  show "subseq p (prose md)"
    using assms(3) lines(3) by (rule subseq_order.trans)
qed

text \<open>What a run into a new folder has done when it ends normally, up to assembling the report.\<close>

lemma completed_run:
  fixes env :: "'w report_env"
  assumes "usable fs rid" and "found_folder fs rid = empty_folder"
    and "generate_body env ag rid cb (run_start ag rid logger fs cw) = (Inr (), g)"
  obtains plan md and g2 g3 g4 :: "'w gen" where "view g3 = view g2"
    and "assemble_full_report (re_str env) (re_parse_int env) rid plan (g_fs g3) = (Inr md, g_fs g4)"
    and "rp_markdown (g_report g) = PyStr md" and "rp_outline (g_report g) = rp_outline (g_report g3)"
    and "titled rid fs (out_title plan) (map sec_title (out_sections plan)) g2"
    and "length (out_sections plan) < 100 \<longrightarrow>
      saved_sections (re_str env) rid (out_title plan) (map sec_title (out_sections plan)) (length (out_sections plan)) g3"
proof -
  let ?s = "\<lambda>fs. run_start ag rid logger fs cw"
  obtain fs1 where b: "generate_body env ag rid cb (?s fs) = after_folder env ag rid cb (?s fs1)"
    and i1: "run_view rid fs (?s fs1)" and f1: "folder_of fs1 rid = Some (found_folder fs rid)"
    using body_after_folder [OF assms(1), of env ag cb logger cw] by metis
  obtain plan ga gc g2 where
    pre: "open_logs env ag rid (?s fs1) = (Inr (), ga)" "planning_phase env ag rid cb ga = (Inr plan, gc)"
      "section_loop env ag rid plan cb (length (out_sections plan)) 0 (out_sections plan) [] gc = (Inr (), g2)"
    and fin: "finishing_phase env rid plan cb g2 = (Inr (), g)"
    using after_folder_ok [OF assms(3) [unfolded b]] by metis
  let ?ts = "map sec_title (out_sections plan)"
  have "fresh_run rid (?s fs1)"
    using f1 by (simp add: assms(2) fresh_run_def run_start_def new_report_def empty_folder_def holds_sections_def)
  from preservesD [OF fresh_open_logs pre(1) this] have planned: "outlined rid plan gc"
    using planning_yields pre(2) unfolding yields_def by blast
  have ic: "run_view rid fs gc"
    by (rule preservesD [OF preserves_planning pre(2) preservesD [OF preserves_open_logs pre(1) i1]])
  with planned have "titled rid fs (out_title plan) ?ts gc"
    by (simp add: titled_def outlined_def)
  then have t: "titled rid fs (out_title plan) ?ts g2"
    by (rule preservesD [OF titled_sections pre(3)])
  obtain g3 g4 :: "'w gen" and md where v: "view g3 = view g2"
    and asm: "assemble_full_report (re_str env) (re_parse_int env) rid plan (g_fs g3) = (Inr md, g_fs g4)"
    and md: "rp_markdown (g_report g) = PyStr md" "rp_outline (g_report g) = rp_outline (g_report g2)"
    using finishing_phase_ok(3) [OF preservesD [OF preserves_sections pre(3) ic] fin] by blast
  have "length (out_sections plan) < 100 \<longrightarrow> saved_sections (re_str env) rid (out_title plan) ?ts (length (out_sections plan)) g3"
    using saved_sections_view [OF v section_loop_saves [OF pre(3) saved_sections_start [OF planned]]] by simp
  with md(2) show thesis
    by (intro that [OF v asm md(1) _ t]) (simp_all add: view_fields(1) [OF v])
qed

text \<open>
  C32: a report generated into a new folder whose status is completed has its outline's sections in the
  assembled Markdown.  Every line of prose the sections' contents have is a line of the report, in the
  order of the outline; the report's only headings are its title and the titles of its sections, and it
  never has three blank lines in a row.  (Contents are taken without carriage returns, which reading the
  section files turns into newlines; section numbers have two digits.)
\<close>

theorem completed_report_text:
  fixes env :: "'w report_env"
  assumes "generate_report env ag cb (Some rid) logger fs w = (r, g)" and "rid \<noteq> []" and "dget fs rid = None"
    and "rp_status (g_report g) = REPORT_COMPLETED" and "rp_outline (g_report g) = Some outline"
    and "list_all no_cr (out_sections outline)" and "length (out_sections outline) < 100" and "reads_indices (re_parse_int env)"
  shows "\<exists>md. rp_markdown (g_report g) = PyStr md
    \<and> list_all (allowed_line (out_title outline) (map sec_title (out_sections outline))) (split_on 10 md)
    \<and> blank_runs_ok 2 (split_on 10 md)
    \<and> subseq (concat (map section_prose (out_sections outline))) (prose md)"
proof -
  have u: "usable fs rid" and e: "found_folder fs rid = empty_folder"
    using assms(3) by (simp_all add: usable_def found_folder_def folder_of_def)
  have body: "generate_body env ag rid cb (run_start ag rid logger fs (re_now env w)) = (Inr (), g)"
    using generate_report_lemma(3) [OF u assms(2,1)] assms(4) by auto
  obtain plan md and g2 g3 g4 :: "'w gen" where v: "view g3 = view g2"
    and asm: "assemble_full_report (re_str env) (re_parse_int env) rid plan (g_fs g3) = (Inr md, g_fs g4)"
    and md: "rp_markdown (g_report g) = PyStr md" "rp_outline (g_report g) = rp_outline (g_report g3)"
    and t: "titled rid fs (out_title plan) (map sec_title (out_sections plan)) g2"
    and s: "length (out_sections plan) < 100 \<longrightarrow>
      saved_sections (re_str env) rid (out_title plan) (map sec_title (out_sections plan)) (length (out_sections plan)) g3"
    by (rule completed_run [OF u e body])
  have same: "out_title outline = out_title plan" "map sec_title (out_sections outline) = map sec_title (out_sections plan)"
    using t assms(5) md(2) view_fields(1) [OF v] by (auto simp: titled_def)
  have len: "length (map sec_title (out_sections plan)) < 100"
    using assms(7) same(2) by (metis length_map)
  let ?h = "lit ''# '' @ fstr (re_str env) (out_title plan) @ [10, 10] @ lit ''> '' @ fstr (re_str env) (out_summary plan) @ [10, 10]
    @ lit ''---'' @ [10]"
  obtain secs where secs: "get_generated_sections (re_parse_int env) (g_fs g3) rid = Inr secs"
    "subseq (concat (map section_prose (out_sections outline))) (prose (?h @ 10 # concat (map gs_content secs)))"
    using saved_sections_prose [of "re_str env" rid "out_title plan" "map sec_title (out_sections plan)" g3, OF _ _ assms(6) len assms(8), where h = ?h] s len md(2) assms(5)
    by auto
  have "?h @ 10 # concat (map gs_content secs) = report_header (re_str env) plan @ concat (map gs_content secs)"
    by (simp add: report_header_def)
  from assembled_text [OF asm secs(1) secs(2) [unfolded this]] md(1) same show ?thesis by auto
qed

end
