(* ===== verification/Report_Completion.thy ===== *)
theory Report_Completion
  imports Report_Content
begin

text \<open>
  A report that is sure to be completed: with a model that answers but never calls a tool, every
  section ends in the forced answer and the run reaches \<^verbatim>\<open>COMPLETED\<close>.  \<open>succeeds\<close> is total
  correctness of the steps of a run.
\<close>

section \<open>Steps that succeed\<close>

definition succeeds :: "('w gen \<Rightarrow> bool) \<Rightarrow> ('w, 'a) gproc \<Rightarrow> ('a \<Rightarrow> 'w gen \<Rightarrow> bool) \<Rightarrow> bool" where
  "succeeds I f Q \<longleftrightarrow> (\<forall>g. I g \<longrightarrow> (\<exists>x g'. f g = (Inr x, g') \<and> Q x g'))"

definition normal_on :: "pystr \<Rightarrow> ('w, 'a) gproc \<Rightarrow> bool" where
  "normal_on rid f \<longleftrightarrow> succeeds (has_folder rid) f (\<lambda>_ _. True)"

named_theorems total_rules

lemma succeedsE:
  assumes "succeeds I f Q" and "I g"
  obtains x g' where "f g = (Inr x, g')" and "Q x g'"
  using assms by (auto simp: succeeds_def)

lemma succeeds_bind:
  assumes "succeeds I f R" and "\<And>x. succeeds (R x) (h x) Q"
  shows "succeeds I (\<lambda>g. st_bind (f g) h) Q"
  using assms unfolding succeeds_def by (metis st_bind_ok_iff)

lemma succeeds_seq: "succeeds I f (\<lambda>_. I) \<Longrightarrow> (\<And>x. succeeds I (h x) Q) \<Longrightarrow> succeeds I (\<lambda>g. st_bind (f g) h) Q"
  by (rule succeeds_bind)

lemma succeeds_preserved:
  assumes "preserves I f" and "\<And>g. I g \<Longrightarrow> has_folder rid g" and "normal_on rid f"
  shows "succeeds I f (\<lambda>_. I)"
  using assms unfolding succeeds_def normal_on_def by (metis preservesD)

lemma totalD: "normal_on rid f \<Longrightarrow> has_folder rid g \<Longrightarrow> \<exists>x g'. f g = (Inr x, g')"
  by (simp add: normal_on_def succeeds_def)

lemma totalD_unit: "normal_on rid f \<Longrightarrow> has_folder rid g \<Longrightarrow> \<exists>g'. f g = (Inr (), g')"
  by (auto dest: totalD)

lemma total_world: "(\<And>w. \<exists>x w'. f w = (Inr x, w')) \<Longrightarrow> normal_on rid (on_world f)"
  unfolding normal_on_def succeeds_def on_world_def by (metis case_prod_conv)

lemma total_now [total_rules]: "normal_on rid (now env)"
  unfolding now_def by (rule total_world) (simp add: case_prod_unfold Let_def)

lemma total_elapsed [total_rules]: "normal_on rid (on_world (\<lambda>w. let (q, w) = re_elapsed env w in (Inr q, w)))"
  by (rule total_world) (simp add: case_prod_unfold Let_def)

text \<open>A callback that never raises.\<close>

definition total_callback :: "'w callback \<Rightarrow> bool" where
  "total_callback cb \<longleftrightarrow> (\<forall>f stage p msg w. cb = Some f \<longrightarrow> (\<exists>w'. f stage p msg w = (Inr (), w')))"

lemma total_call_back [total_rules]: "total_callback cb \<Longrightarrow> normal_on rid (call_back cb stage p msg)"
proof (cases cb)
  case (Some f)
  assume "total_callback cb"
  with Some have "normal_on rid (on_world (f stage p msg))"
    by (intro total_world) (simp add: total_callback_def)
  then show ?thesis by (simp add: Some call_back_def normal_on_def succeeds_def)
qed (simp add: call_back_def normal_on_def succeeds_def)

lemma total_map_callback: "total_callback cb \<Longrightarrow> total_callback (map_option (\<lambda>f stage p msg. f stage (h p) msg) cb)"
  by (auto simp: total_callback_def)

lemma total_log [total_rules]: "normal_on rid (agent_log_entry env rid action stage details title n)"
  unfolding normal_on_def succeeds_def using agent_log_ok by blast

lemma total_if_logger [total_rules]: "normal_on rid f \<Longrightarrow> normal_on rid (if_logger f)"
  by (auto simp: normal_on_def succeeds_def if_logger_def)

lemma total_in_folder': "normal_on rid (\<lambda>g. on_store (in_folder rid (f g)) g)"
  unfolding normal_on_def succeeds_def
proof (intro allI impI)
  fix g :: "'a gen" assume "has_folder rid g"
  then obtain fs' where "in_folder rid (f g) (g_fs g) = (Inr (), fs')"
    using in_folder_total [OF usable_folder, of "g_fs g" rid] by (auto simp: has_folder_def)
  then show "\<exists>x g'. on_store (in_folder rid (f g)) g = (Inr x, g') \<and> True"
    by (simp add: on_store_def)
qed

lemma total_in_folder [total_rules]: "normal_on rid (on_store (in_folder rid f))"
  using total_in_folder' [of rid "\<lambda>_. f"] by simp

lemma total_ensure [total_rules]: "normal_on rid (on_store (ensure_report_folder rid))"
  by (auto simp: normal_on_def succeeds_def has_folder_def on_store_def ensure_report_folder_def folder_of_def
      split: option.splits report_entry.splits)

lemma total_save_outline [total_rules]: "normal_on rid (on_store (save_outline rid outline))"
  unfolding save_outline_def by (rule total_in_folder)

lemma total_modify [total_rules]: "normal_on rid (modify f)" "normal_on rid (with_report h)"
  by (simp_all add: normal_on_def succeeds_def modify_def with_report_def)

lemma total_result [total_rules]: "normal_on rid (\<lambda>g. (Inr x, g))" "normal_on rid (Pair (Inr x))"
  by (simp_all add: normal_on_def succeeds_def)

lemma total_keeps_seq:
  fixes f :: "('w, 'a) gproc"
  assumes "unchanging rid f" and "succeeds (has_folder rid) f (\<lambda>x _. P x)" and "\<And>x. P x \<Longrightarrow> succeeds (has_folder rid) (h x) (\<lambda>x _. Q x)"
  shows "succeeds (has_folder rid) (\<lambda>g. st_bind (f g) h) (\<lambda>x _. Q x)"
  unfolding succeeds_def
proof (intro allI impI)
  fix g :: "'w gen" assume hf: "has_folder rid g"
  then obtain x g1 where f: "f g = (Inr x, g1)" "P x" by (rule succeedsE [OF assms(2)])
  have "has_folder rid g1"
    using view_has_folder [OF unchangingD [OF assms(1) f(1) hf], of rid] hf by simp
  with assms(3) [OF f(2)] show "\<exists>y g'. st_bind (f g) h = (Inr y, g') \<and> Q y"
    by (auto simp: f(1) succeeds_def)
qed

lemma total_seq:
  "unchanging rid f \<Longrightarrow> normal_on rid f \<Longrightarrow> (\<And>x. succeeds (has_folder rid) (h x) (\<lambda>x _. Q x)) \<Longrightarrow>
   succeeds (has_folder rid) (\<lambda>g. st_bind (f g) h) (\<lambda>x _. Q x)"
  unfolding normal_on_def by (rule total_keeps_seq)

lemma total_put_progress [total_rules]: "normal_on rid (put_progress env rid status p msg current)"
  unfolding put_progress_def normal_on_def
  unfolding update_progress_def
  by (intro total_seq keeps_rules total_rules total_in_folder' [unfolded normal_on_def])

lemma total_store_report: "run_inv rid V L g \<Longrightarrow> \<exists>g'. store_report g = (Inr (), g')"
  using store_report_ok by blast

section \<open>A section without tools\<close>

text \<open>
  A model that answers every request with a text in which no tool call is found.  (With such a model
  no retrieval tool is ever run.)
\<close>

definition plain_model :: "'w report_env \<Rightarrow> bool" where
  "plain_model env \<longleftrightarrow>
     (\<forall>messages limit w. \<exists>s w'. re_chat env messages limit w = (Inr (Some s), w') \<and> parse_tool_calls (re_loads env) s = Inr [])"

lemma format_template_ok:
  "list_all (\<lambda>name. name \<in> fst ` set args) (template_fields tpl) \<Longrightarrow> \<exists>s. format_template tpl args = Inr s"
proof (induction tpl rule: template_fields.induct)
  case (3 name parts)
  then obtain v where "map_of args name = Some v"
    by (cases "map_of args name") (auto simp: map_of_eq_None_iff)
  with 3 show ?case by auto
qed auto

lemma insufficient_ok:
  "\<exists>s. insufficient env REACT_INSUFFICIENT_TOOLS_MSG rs = Inr s" "\<exists>s. insufficient env REACT_INSUFFICIENT_TOOLS_MSG_ALT rs = Inr s"
  unfolding insufficient_def
  by (rule format_template_ok, simp add: REACT_INSUFFICIENT_TOOLS_MSG_def REACT_INSUFFICIENT_TOOLS_MSG_ALT_def)+

lemma section_prompts_ok:
  "\<exists>s. format_template SECTION_SYSTEM_PROMPT_TEMPLATE
     [(''report_title'', a), (''report_summary'', b), (''simulation_requirement'', c), (''section_title'', d),
      (''tools_description'', e)] = Inr s"
  "\<exists>s. format_template SECTION_USER_PROMPT_TEMPLATE [(''previous_content'', a), (''section_title'', b)] = Inr s"
  by (rule format_template_ok, simp add: SECTION_SYSTEM_PROMPT_TEMPLATE_def SECTION_USER_PROMPT_TEMPLATE_def)+

lemma start_react_ok: "\<exists>rs. start_react env ag title outline previous = Inr rs \<and> rs_count rs = 0"
proof -
  obtain s1 s2 where "format_template SECTION_SYSTEM_PROMPT_TEMPLATE
       [(''report_title'', fstr (re_str env) (out_title outline)), (''report_summary'', fstr (re_str env) (out_summary outline)),
        (''simulation_requirement'', ag_requirement ag), (''section_title'', fstr (re_str env) title),
        (''tools_description'', get_tools_description define_tools)] = Inr s1"
    "format_template SECTION_USER_PROMPT_TEMPLATE
       [(''previous_content'', previous_content previous), (''section_title'', fstr (re_str env) title)] = Inr s2"
    using section_prompts_ok by blast
  then show ?thesis by (simp add: start_react_def)
qed

text \<open>Every round asks for tools once more, so that the loop gives up.\<close>

lemma plain_reply:
  assumes "has_folder rid g" and "rs_count rs = 0"
  shows "\<exists>rs' g'. react_reply env ag rid title n ctx i rs s [] final g = (Inr (Again rs'), g') \<and> rs_count rs' = 0"
proof -
  obtain m1 m2 where m: "insufficient env REACT_INSUFFICIENT_TOOLS_MSG rs = Inr m1" "insufficient env REACT_INSUFFICIENT_TOOLS_MSG_ALT rs = Inr m2"
    using insufficient_ok by blast
  have "normal_on rid (if_logger (log_llm_response env rid title n s (Suc i) False final))"
    unfolding log_defs by (intro total_rules)
  with assms(1) obtain g1 where "if_logger (log_llm_response env rid title n s (Suc i) False final) g = (Inr (), g1)"
    by (auto simp: normal_on_def succeeds_def)
  with m assms(2) show ?thesis
    by (cases final) (simp_all add: react_reply_def min_tool_calls_def say_def)
qed

lemma plain_step:
  assumes "plain_model env" and "total_callback cb" and "has_folder rid g" and "rs_count rs = 0"
  shows "\<exists>rs' g'. react_step env ag rid title n ctx cb i rs g = (Inr (Again rs'), g') \<and> rs_count rs' = 0 \<and> has_folder rid g'"
proof -
  let ?msg = "re_tr env ''progress.deepSearchAndWrite''
    [(''current'', PyInt (int (rs_count rs))), (''max'', PyInt (int MAX_TOOL_CALLS_PER_SECTION))]"
  obtain g1 where c: "call_back cb ''generating'' (20 * int i) ?msg g = (Inr (), g1)"
    using totalD_unit [OF total_call_back [OF assms(2)] assms(3)] by blast
  obtain s w' where s: "re_chat env (rs_messages rs) (Some 4096) (g_w g1) = (Inr (Some s), w')" "parse_tool_calls (re_loads env) s = Inr []"
    using assms(1) unfolding plain_model_def by blast
  have "has_folder rid (g1\<lparr>g_w := w'\<rparr>)"
    using view_has_folder [OF unchangingD [OF keeps_callback c assms(3)], of rid] assms(3) by (simp add: has_folder_def)
  from plain_reply [OF this assms(4)] obtain rs' g' where
    "react_reply env ag rid title n ctx i rs s [] (occurs FINAL s) (g1\<lparr>g_w := w'\<rparr>) = (Inr (Again rs'), g')" and rs': "rs_count rs' = 0"
    by blast
  then have r: "react_step env ag rid title n ctx cb i rs g = (Inr (Again rs'), g')"
    by (simp add: react_step_def c on_world_def s react_handle_def)
  with rs' show ?thesis
    using view_has_folder [OF unchangingD [OF keeps_step r assms(3)], of rid] assms(3) by blast
qed

lemma plain_loop:
  assumes "plain_model env" and "total_callback cb" and "has_folder rid g" and "rs_count rs = 0"
  shows "\<exists>rs' g'. react_loop env ag rid title n ctx cb k rs g = (Inr (GiveUp rs'), g')"
  using assms(3,4)
proof (induction k arbitrary: rs g)
  case (Suc k)
  from plain_step [OF assms(1,2) Suc.prems] obtain rs1 g1 where
    "react_step env ag rid title n ctx cb (max_iterations - Suc k) rs g = (Inr (Again rs1), g1)" "rs_count rs1 = 0" "has_folder rid g1"
    by blast
  with Suc.IH [of g1 rs1] show ?case by simp
qed simp

lemma plain_force:
  assumes "plain_model env"
  shows "normal_on rid (force_answer env rid title n rs)"
proof -
  have "normal_on rid (on_world (re_chat env messages limit))" for messages limit
    using assms by (intro total_world) (metis plain_model_def)
  then show ?thesis
    unfolding force_answer_def Let_def log_defs normal_on_def
    by (intro total_seq keeps_rules total_rules total_rules [unfolded normal_on_def]) (simp_all add: normal_on_def)
qed

lemma plain_section:
  assumes "plain_model env" and "total_callback cb"
  shows "normal_on rid (generate_section_react env ag rid x outline previous cb n)"
  unfolding normal_on_def succeeds_def
proof (intro allI impI)
  fix g :: "'a gen" assume hf: "has_folder rid g"
  obtain rs where rs: "start_react env ag (sec_title x) outline previous = Inr rs" "rs_count rs = 0"
    using start_react_ok by blast
  have "normal_on rid (if_logger (log_section_start env rid (sec_title x) n))"
    unfolding log_defs by (intro total_rules)
  with hf obtain g1 where l: "if_logger (log_section_start env rid (sec_title x) n) g = (Inr (), g1)"
    by (auto simp: normal_on_def succeeds_def)
  have v1: "view g1 = view g" by (rule unchangingD [OF keeps_if_logger [OF keeps_log] l [unfolded log_section_start_def] hf])
  then have hf1: "has_folder rid g1" using view_has_folder hf by blast
  let ?ctx = "[31456, 33410, 26631, 39064] @ lit '': '' @ fstr (re_str env) (sec_title x) @ [10] @ [27169, 25311, 38656, 27714] @ lit '': '' @ ag_requirement ag"
  obtain rs' g2 where r: "react_loop env ag rid (sec_title x) n ?ctx cb max_iterations rs g1 = (Inr (GiveUp rs'), g2)"
    using plain_loop [OF assms hf1 rs(2)] by blast
  have "has_folder rid g2" using view_has_folder [OF unchangingD [OF keeps_loop r hf1], of rid] hf1 by simp
  then obtain a g3 where "force_answer env rid (sec_title x) n rs' g2 = (Inr a, g3)"
    using totalD [OF plain_force [OF assms(1)]] by blast
  with l rs r show "\<exists>y g'. generate_section_react env ag rid x outline previous cb n g = (Inr y, g') \<and> True"
    by (simp add: generate_section_react_def)
qed

section \<open>A report without tools\<close>

lemma clean_lines_total: "\<exists>ls. clean_lines (PyStr t) i skip lines = Inr ls"
proof (induction lines arbitrary: i skip)
  case (Cons line lines)
  obtain l1 l2 where l: "clean_lines (PyStr t) (Suc i) True lines = Inr l1" "clean_lines (PyStr t) (Suc i) False lines = Inr l2"
    using Cons by blast
  show ?case
    by (cases skip) (auto simp: l same_title_def split: option.split)
qed simp

lemma section_text_total: "sec_title x = PyStr t \<Longrightarrow> sec_content x = PyStr c \<Longrightarrow> \<exists>s. section_text str x = Inr s"
  using clean_lines_total [of t 0 False] by (auto simp: section_text_def clean_section_content_def exn_simps)

lemma total_save_section:
  assumes "sec_title x = PyStr t" and "sec_content x = PyStr c"
  shows "normal_on rid (on_store (save_section str rid n x))"
  unfolding normal_on_def succeeds_def
proof (intro allI impI)
  fix g :: "'a gen" assume hf: "has_folder rid g"
  obtain s where "section_text str x = Inr s" using section_text_total [OF assms] by blast
  moreover have "ensure_report_folder rid (g_fs g) = (Inr (), g_fs g)"
    using hf by (auto simp: has_folder_def ensure_report_folder_def folder_of_def split: option.splits report_entry.splits)
  ultimately show "\<exists>y g'. on_store (save_section str rid n x) g = (Inr y, g') \<and> True"
    using hf by (auto simp: save_section_def on_store_def change_folder_def has_folder_def)
qed

lemma run_folder: "run_inv rid V L g \<Longrightarrow> has_folder rid g"
  by (simp add: run_inv_def)

lemma run_step:
  assumes "preserves (run_inv rid V L) f" and "normal_on rid f" and "\<And>x. succeeds (run_inv rid V L) (h x) Q"
  shows "succeeds (run_inv rid V L) (\<lambda>g. st_bind (f g) h) Q"
  by (rule succeeds_seq [OF succeeds_preserved [OF assms(1) run_folder assms(2)] assms(3)])

lemma run_last: "preserves (run_inv rid V L) f \<Longrightarrow> normal_on rid f \<Longrightarrow> succeeds (run_inv rid V L) f (\<lambda>_. run_inv rid V L)"
  using succeeds_preserved run_folder by blast

lemma run_store: "(\<And>x. succeeds (run_inv rid V L) (h x) Q) \<Longrightarrow> succeeds (run_inv rid V L) (\<lambda>g. st_bind (store_report g) h) Q"
  by (rule succeeds_seq) (unfold succeeds_def, use store_report_ok in blast)

definition string_titles :: "ReportSection list \<Rightarrow> bool" where
  "string_titles = list_all (\<lambda>s. \<exists>t. sec_title s = PyStr t)"

lemma plain_sections:
  assumes "plain_model env" and "total_callback cb"
  shows "string_titles rest \<Longrightarrow> succeeds (run_inv rid V L) (section_loop env ag rid outline cb tot i rest generated) (\<lambda>_. run_inv rid V L)"
proof (induction rest arbitrary: i generated)
  case Nil
  then show ?case by (simp add: succeeds_def)
next
  case (Cons x rest)
  then obtain t where t: "sec_title x = PyStr t" and rest: "string_titles rest" by (auto simp: string_titles_def)
  have cb: "total_callback (section_callback cb base tot)" for base
    unfolding section_callback_def using assms(2) by (rule total_map_callback)
  have "succeeds (run_inv rid V L) (\<lambda>g. section_loop env ag rid outline cb tot i (x # rest) generated g) (\<lambda>_. run_inv rid V L)"
    unfolding section_loop.simps Let_def log_defs
    by (intro run_step preserves_rules keeps_log total_rules plain_section assms cb total_save_section Cons.IH [OF rest])
      (simp_all add: set_content_def t)
  then show ?case by simp
qed

text \<open>
  What planning needs: the simulation's context can be read and shown to the model, and an outline the
  model gives has strings as titles.  (A failed or malformed answer leads to the default outline.)
\<close>

definition plannable :: "'w report_env \<Rightarrow> report_agent \<Rightarrow> bool" where
  "plannable env ag \<longleftrightarrow>
     (\<forall>w. \<exists>d w'. re_simulation_context env (ag_graph_id ag) (ag_requirement ag) w = (Inr d, w') \<and> (\<exists>p. plan_user_prompt env ag d = Inr p))
     \<and> (\<forall>messages w d w' outline. re_chat_json env messages w = (Inr d, w') \<and> planned_outline d = Inr outline
          \<longrightarrow> string_titles (out_sections outline) \<and> length (out_sections outline) < 100)"

lemma default_outline_ok: "string_titles (out_sections default_outline)" "length (out_sections default_outline) < 100"
  by (simp_all add: default_outline_def string_titles_def)

lemma plan_outline_ok:
  assumes "plannable env ag" and "total_callback cb"
  shows "succeeds (has_folder rid) (plan_outline env ag cb)
    (\<lambda>outline _. string_titles (out_sections outline) \<and> length (out_sections outline) < 100)"
proof -
  let ?read = "on_world (re_simulation_context env (ag_graph_id ag) (ag_requirement ag))"
  let ?good = "\<lambda>outline. string_titles (out_sections outline) \<and> length (out_sections outline) < 100"
  have read: "succeeds (has_folder rid) ?read (\<lambda>d _. \<exists>p. plan_user_prompt env ag d = Inr p)"
    unfolding succeeds_def
  proof (intro allI impI)
    fix g :: "'a gen"
    obtain d w' p where "re_simulation_context env (ag_graph_id ag) (ag_requirement ag) (g_w g) = (Inr d, w')" "plan_user_prompt env ag d = Inr p"
      using assms(1) unfolding plannable_def by blast
    then show "\<exists>x g'. ?read g = (Inr x, g') \<and> (\<exists>p. plan_user_prompt env ag x = Inr p)"
      by (simp add: on_world_def)
  qed
  have ask: "succeeds (has_folder rid) (catching (\<lambda>g. st_bind (on_world (re_chat_json env ms) g) (\<lambda>response g.
        st_bind (call_back cb st1 p1 m1 g) (\<lambda>_ g. st_bind (planned_outline response, g) (\<lambda>outline g.
        st_bind (call_back cb st2 p2 m2 g) (\<lambda>_ g. (Inr outline, g)))))) (\<lambda>e g. (Inr default_outline, g))) (\<lambda>outline _. ?good outline)"
    (is "succeeds _ (catching ?body _) _") for ms st1 p1 m1 st2 p2 m2
    unfolding succeeds_def
  proof (intro allI impI)
    fix g :: "'a gen"
    obtain r g' where b: "?body g = (r, g')" by fastforce
    show "\<exists>x g'. catching ?body (\<lambda>e g. (Inr default_outline, g)) g = (Inr x, g') \<and> ?good x"
    proof (cases r)
      case (Inl e)
      with b default_outline_ok show ?thesis by (simp add: catching_def)
    next
      case (Inr outline)
      with b obtain d g1 where d: "on_world (re_chat_json env ms) g = (Inr d, g1)" "planned_outline d = Inr outline"
        by (auto simp: st_bind_ok_iff)
      then obtain w' where "re_chat_json env ms (g_w g) = (Inr d, w')"
        by (auto simp: on_world_def Let_def split: prod.splits)
      with d(2) assms(1) have "?good outline" unfolding plannable_def by blast
      with b Inr show ?thesis by (simp add: catching_def)
    qed
  qed
  have prompt: "succeeds (has_folder rid) (\<lambda>g. st_bind (plan_user_prompt env ag d, g) h) (\<lambda>outline _. ?good outline)"
    if "\<exists>p. plan_user_prompt env ag d = Inr p" and "\<And>p. succeeds (has_folder rid) (h p) (\<lambda>outline _. ?good outline)"
    for d and h :: "pystr \<Rightarrow> ('a, ReportOutline) gproc"
    using that by (auto simp: succeeds_def)
  note silent = total_seq [OF keeps_callback total_call_back [OF assms(2)]]
  show ?thesis
    unfolding plan_outline_def
    by (rule silent, rule total_keeps_seq [OF keeps_world read], rule silent, rule prompt, assumption, rule ask)
qed

text \<open>What planning leaves: a good outline.\<close>

lemma planning_ok:
  assumes "plannable env ag" and "total_callback cb"
  shows "succeeds (run_inv rid V L) (planning_phase env ag rid cb)
    (\<lambda>outline g. run_inv rid V L g \<and> string_titles (out_sections outline) \<and> length (out_sections outline) < 100)"
proof -
  let ?good = "\<lambda>outline g. run_inv rid V L g \<and> string_titles (out_sections outline) \<and> length (out_sections outline) < 100"
  have plan: "succeeds (run_inv rid V L) (plan_outline env ag cb') ?good" if cb': "total_callback cb'" for cb'
    unfolding succeeds_def
  proof (intro allI impI)
    fix g :: "'a gen" assume i: "run_inv rid V L g"
    obtain outline g' where p: "plan_outline env ag cb' g = (Inr outline, g')" "string_titles (out_sections outline) \<and> length (out_sections outline) < 100"
      by (rule succeedsE [OF plan_outline_ok [OF assms(1) cb'] run_folder [OF i]])
    with preservesD [OF ri.preserves_keeps [OF keeps_plan] p(1) i]
    show "\<exists>x g'. plan_outline env ag cb' g = (Inr x, g') \<and> ?good x g'" by blast
  qed
  have plan_step: "succeeds (run_inv rid V L) (\<lambda>g. st_bind (plan_outline env ag cb' g) h) ?good"
    if "total_callback cb'" and "\<And>outline. string_titles (out_sections outline) \<and> length (out_sections outline) < 100 \<Longrightarrow> succeeds (run_inv rid V L) (h outline) ?good"
    for cb' and h :: "ReportOutline \<Rightarrow> ('a, ReportOutline) gproc"
    by (rule succeeds_bind [OF plan [OF that(1)]]) (use that(2) in \<open>auto simp: succeeds_def\<close>)
  have final: "succeeds (run_inv rid V L) (\<lambda>g. (Inr outline, g)) ?good"
    if "string_titles (out_sections outline) \<and> length (out_sections outline) < 100" for outline
    using that by (simp add: succeeds_def)
  show ?thesis
    unfolding planning_phase_def log_defs
    by (rule run_store | (rule plan_step, rule total_map_callback [OF assms(2)]) | (rule final, assumption)
        | (rule run_step, (intro preserves_rules; simp), (intro total_rules assms(2))))+
qed

text \<open>The last phase, given that the section files can be listed.\<close>

definition listable :: "(pystr \<Rightarrow> int option) \<Rightarrow> pystr \<Rightarrow> 'w gen \<Rightarrow> bool" where
  "listable parse rid g \<longleftrightarrow> has_folder rid g \<and> (\<exists>secs. get_generated_sections parse (g_fs g) rid = Inr secs)"

lemma sections_view:
  assumes "view g' = view g"
  shows "get_generated_sections parse (g_fs g') rid = get_generated_sections parse (g_fs g) rid"
  using view_fields(5) [OF assms, of rid]
  by (cases "folder_of (g_fs g) rid"; cases "folder_of (g_fs g') rid") (auto simp: get_generated_sections_def folder_view_def)

lemma listable_view: "view g' = view g \<Longrightarrow> listable parse rid g \<Longrightarrow> listable parse rid g'"
  using sections_view [of g' g] view_has_folder [of g' g rid] by (simp add: listable_def)

lemma assemble_ok:
  assumes "listable parse rid g" and "string_titles (out_sections outline)"
  shows "\<exists>md g'. on_store (assemble_full_report str parse rid outline) g = (Inr md, g')"
proof -
  obtain secs where s: "get_generated_sections parse (g_fs g) rid = Inr secs" using assms(1) by (auto simp: listable_def)
  have "list_all py_hashable (map sec_title (out_sections outline))"
    using assms(2) by (auto simp: string_titles_def list_all_iff)
  then show ?thesis
    using assms(1) s by (auto simp: assemble_full_report_def on_store_def post_process_report_def change_folder_def listable_def has_folder_def)
qed

lemma finishing_ok:
  fixes g :: "'w gen"
  assumes "run_inv rid V L g" and "listable (re_parse_int env) rid g" and "string_titles (out_sections outline)" and "total_callback cb"
  shows "\<exists>g'. finishing_phase env rid outline cb g = (Inr (), g')"
proof -
  let ?msg = "re_tr env ''progress.assemblingReport'' []"
  have hf: "has_folder rid g" using assms(1) by (rule run_folder)
  obtain g1 where 1: "call_back cb ''generating'' 95 ?msg g = (Inr (), g1)"
    using totalD_unit [OF total_call_back [OF assms(4)] hf] by blast
  have v1: "view g1 = view g" by (rule unchangingD [OF keeps_callback 1 hf])
  with hf have hf1: "has_folder rid g1" using view_has_folder by blast
  obtain g2 where 2: "put_progress env rid ''generating'' 95 ?msg PyNone g1 = (Inr (), g2)"
    using totalD_unit [OF total_put_progress hf1] by blast
  have v2: "view g2 = view g" using unchangingD [OF keeps_put_progress 2 hf1] v1 by simp
  obtain md g3 where 3: "on_store (assemble_full_report (re_str env) (re_parse_int env) rid outline) g2 = (Inr md, g3)"
    using assemble_ok [OF listable_view [OF v2 assms(2)] assms(3)] by blast
  have i3: "run_inv rid V L g3" by (rule preservesD [OF preserves_assemble 3 run_inv_view [OF v2 assms(1)]])
  have "succeeds (run_inv rid V L) (\<lambda>g. st_bind (with_report (\<lambda>r. r\<lparr>rp_markdown := PyStr md, rp_status := REPORT_COMPLETED\<rparr>) g) (\<lambda>_ g.
      st_bind (now env g) (\<lambda>completed_at g.
      st_bind (with_report (\<lambda>r. r\<lparr>rp_completed_at := PyStr completed_at\<rparr>) g) (\<lambda>_ g.
      st_bind (on_world (\<lambda>w. let (q, w) = re_elapsed env w in (Inr q, w)) g) (\<lambda>total_time g.
      st_bind (if_logger (log_report_complete env rid (length (out_sections outline)) total_time) g) (\<lambda>_ g.
      st_bind (store_report g) (\<lambda>_ g.
      st_bind (put_progress env rid ''completed'' 100 (re_tr env ''progress.reportComplete'' []) PyNone g) (\<lambda>_ g.
        call_back cb ''completed'' 100 (re_tr env ''progress.reportComplete'' []) g)))))))) (\<lambda>_. run_inv rid V L)"
    unfolding log_defs
    by (rule run_store | (rule run_step, (intro preserves_rules keeps_log; simp), (intro total_rules))
        | (rule run_last, intro preserves_rules, rule total_call_back [OF assms(4)]))+
  from this i3 show ?thesis
    by (rule succeedsE) (simp add: finishing_phase_def Let_def 1 2 3)
qed

lemma saved_listable:
  assumes "saved_sections str rid m ts n g" and "n < 100" and "reads_indices parse"
  shows "listable parse rid g"
proof -
  obtain d where "folder_of (g_fs g) rid = Some d" "holds_sections d n"
    using assms(1) by (auto simp: saved_sections_def)
  from generated_sections_in_order [OF this assms(2,3)] saved_sections_folder [OF assms(1)] show ?thesis
    by (simp add: listable_def)
qed

lemma open_logs_ok: "succeeds (run_inv rid V L) (open_logs env ag rid) (\<lambda>_. run_inv rid V L)"
  unfolding open_logs_def log_defs
  by (intro run_step run_last preserves_rules ri.preserves_keeps [OF keeps_ensure] total_rules)

lemma plain_body:
  fixes g :: "'w gen"
  assumes "plain_model env" and "plannable env ag" and "total_callback cb" and "reads_indices (re_parse_int env)"
    and i: "run_inv rid V L g" and fresh: "fresh_run rid g"
  shows "\<exists>g'. after_folder env ag rid cb g = (Inr (), g') \<and> rp_status (g_report g') = REPORT_COMPLETED"
proof -
  obtain g1 where 1: "open_logs env ag rid g = (Inr (), g1)" and i1: "run_inv rid V L g1"
    using succeedsE [OF open_logs_ok i] by (metis old.unit.exhaust)
  obtain plan g2 where 2: "planning_phase env ag rid cb g1 = (Inr plan, g2)" and i2: "run_inv rid V L g2"
    and plan: "string_titles (out_sections plan)" "length (map sec_title (out_sections plan)) < 100"
    using succeedsE [OF planning_ok [OF assms(2,3)] i1] by (metis length_map)
  have planned: "outlined rid plan g2"
    using planning_yields preservesD [OF fresh_open_logs 1 fresh] 2 unfolding yields_def by blast
  obtain g3 where 3: "section_loop env ag rid plan cb (length (out_sections plan)) 0 (out_sections plan) [] g2 = (Inr (), g3)"
    and i3: "run_inv rid V L g3"
    using succeedsE [OF plain_sections [OF assms(1,3) plan(1)] i2] by (metis old.unit.exhaust)
  have "saved_sections (re_str env) rid (out_title plan) (map sec_title (out_sections plan)) (length (map sec_title (out_sections plan))) g3"
    by (rule section_loop_saves [OF 3 saved_sections_start [OF planned] _ plan(2)]) simp_all
  from finishing_ok [OF i3 saved_listable [OF this plan(2) assms(4)] plan(1) assms(3)]
  obtain g4 where 4: "finishing_phase env rid plan cb g3 = (Inr (), g4)" by blast
  from finishing_phase_ok(1) [OF i3 4] 1 2 3 4 show ?thesis
    by (simp add: after_folder_def)
qed

text \<open>
  C31: a report is sure to be completed when the model answers every request with text that holds no
  tool call, the simulation's context can be read, planned titles are strings and the progress
  callback does not raise: however the model words its answers, and whether or not it gives a usable
  outline, the run ends with the status completed and the stored report is the one returned.
\<close>

theorem plain_report_completes:
  assumes "plain_model env" and "plannable env ag" and "total_callback cb" and "reads_indices (re_parse_int env)"
    and "rid \<noteq> []" and "dget fs rid = None"
  shows "\<exists>g. generate_report env ag cb (Some rid) logger fs w = (Inr (), g) \<and> rp_status (g_report g) = REPORT_COMPLETED
    \<and> get_report (g_fs g) rid = Inr (Some (g_report g))"
proof -
  have u: "usable fs rid" and e: "found_folder fs rid = empty_folder"
    using assms(6) by (simp_all add: usable_def found_folder_def folder_of_def)
  let ?s = "\<lambda>fs. run_start ag rid logger fs (re_now env w)"
  obtain fs1 where b: "generate_body env ag rid cb (?s fs) = after_folder env ag rid cb (?s fs1)"
    and i1: "run_view rid fs (?s fs1)" and f1: "folder_of fs1 rid = Some (found_folder fs rid)"
    using body_after_folder [OF u, of env ag cb logger "re_now env w"] by metis
  have "fresh_run rid (?s fs1)"
    using f1 by (simp add: e fresh_run_def run_start_def new_report_def empty_folder_def holds_sections_def)
  from plain_body [OF assms(1-4) i1 this] b obtain g where
    g: "generate_body env ag rid cb (?s fs) = (Inr (), g)" "rp_status (g_report g) = REPORT_COMPLETED" by auto
  then have "generate_report env ag cb (Some rid) logger fs w = (Inr (), g)"
    by (simp add: generate_report_run [OF assms(5)] catching_def)
  with g(2) generate_report_lemma(3) [OF u assms(5) this] show ?thesis by simp
qed

end
