(* ===== verification/Report_Runs.thy ===== *)
theory Report_Runs
  imports Report_Completion Report_React
begin

text \<open>
  Concrete runs of the report agent: an environment whose model answers every request with the same
  short text, and the consequences of the properties of the report agent there; a reply whose tool
  call is read but cannot be run.
\<close>

section \<open>A small environment\<close>

definition decimal :: "pystr \<Rightarrow> int option" where
  "decimal s = (if s \<noteq> [] \<and> list_all (\<lambda>c. 48 \<le> c \<and> c \<le> 57) s then Some (foldl (\<lambda>n c. 10 * n + (int c - 48)) 0 s) else None)"

lemma reads_decimal: "reads_indices decimal"
  unfolding reads_indices_def
proof (intro allI impI)
  fix n :: nat assume n: "n < 100"
  then have "int n = 10 * int (n div 10) + int (n mod 10)"
    by (metis mult_div_mod_eq of_nat_add of_nat_mult of_nat_numeral)
  with n show "decimal (two_digits n) = Some (int n)"
    by (simp add: decimal_def two_digits_def)
qed

definition demo_plan :: pydict where
  "demo_plan = [(lit ''title'', PyStr (lit ''Report'')), (lit ''summary'', PyStr (lit ''Summary'')),
     (lit ''sections'', PyList [PyDict [(lit ''title'', PyStr (lit ''First''))], PyDict [(lit ''title'', PyStr (lit ''Second''))]])]"

definition plain_env :: "nat report_env" where
  "plain_env =
     \<lparr>re_tr = (\<lambda>_ _. []), re_str = (\<lambda>_. []), re_parse_int = decimal, re_loads = (\<lambda>_. None), re_dumps = (\<lambda>_. []),
      re_word = (\<lambda>c. 97 \<le> c \<and> c \<le> 122), re_order = (\<lambda>xs. xs), re_language = [], re_now = (\<lambda>n. (lit ''now'', Suc n)),
      re_elapsed = (\<lambda>n. (0, n)), re_uuid_hex = (\<lambda>n. (lit ''0'', n)),
      re_chat = (\<lambda>_ _ n. (Inr (Some (lit ''ok'')), n)), re_chat_json = (\<lambda>_ n. (Inr demo_plan, n)),
      re_insight_forge = (\<lambda>_ _ _ _ n. (Inr [], n)), re_panorama_search = (\<lambda>_ _ _ n. (Inr [], n)),
      re_quick_search = (\<lambda>_ _ _ n. (Inr [], n)), re_interview_agents = (\<lambda>_ _ _ _ n. (Inr [], n)),
      re_graph_statistics = (\<lambda>_ n. (Inr (PyDict []), n)), re_entity_summary = (\<lambda>_ _ n. (Inr (PyDict []), n)),
      re_entities_by_type = (\<lambda>_ _ n. (Inr (PyList []), n)), re_simulation_context = (\<lambda>_ _ n. (Inr [], n))\<rparr>"

definition demo_agent :: report_agent where
  "demo_agent = \<lparr>ag_graph_id = lit ''g1'', ag_simulation_id = lit ''s1'', ag_requirement = lit ''why''\<rparr>"

lemma demo_plain: "plain_model plain_env"
proof -
  have "parse_tool_calls loads (lit ''ok'') = Inr []" for loads
    by (simp add: parse_tool_calls_def lit_def call_at_def CALL_OPEN_def starts_with_def map_filter_simps
        py_strip_def py_lstrip_def py_rstrip_def is_space_def name_prefix_def)
  then show ?thesis by (simp add: plain_model_def plain_env_def)
qed

lemma demo_plannable: "plannable plain_env demo_agent"
proof -
  have "\<exists>p. plan_user_prompt plain_env demo_agent [] = Inr p"
    unfolding plan_user_prompt_def
    by (simp add: param_def first_ten_def as_dict_def dget_or_def)
      (rule format_template_ok, simp add: PLAN_USER_PROMPT_TEMPLATE_def)
  moreover have "string_titles (out_sections outline) \<and> length (out_sections outline) < 100" if "planned_outline demo_plan = Inr outline" for outline
    using that by (auto simp: planned_outline_def demo_plan_def planned_section_def param_def dget_or_def iterate_def as_dict_def string_titles_def lit_def)
  ultimately show ?thesis by (simp add: plannable_def plain_env_def)
qed

lemma total_no_callback: "total_callback None"
  by (simp add: total_callback_def)

lemma demo_word: "word_class_ok (re_word plain_env)"
  by (simp add: word_class_ok_def plain_env_def is_space_def)

abbreviation demo_run :: "unit res \<times> nat gen" where
  "demo_run \<equiv> generate_report plain_env demo_agent None (Some (lit ''r1'')) False [] 0"

theorem plain_report_completes_witness:
  "\<exists>g. demo_run = (Inr (), g) \<and> rp_status (g_report g) = REPORT_COMPLETED
     \<and> get_report (g_fs g) (lit ''r1'') = Inr (Some (g_report g))"
  by (rule plain_report_completes [OF demo_plain demo_plannable total_no_callback])
    (simp_all add: plain_env_def reads_decimal lit_def dget_def)

theorem generate_report_verdict_witness:
  "fst demo_run = Inr () \<and> get_report (g_fs (snd demo_run)) (lit ''r2'') = get_report [] (lit ''r2'')"
  using generate_report_verdict [of "[]" "lit ''r1''" "lit ''r2''" plain_env demo_agent None False 0 "fst demo_run" "snd demo_run"]
  by (simp add: usable_def lit_def dget_def)


section \<open>The text of the small report\<close>

text \<open>Generating sections with contents of a kind \<open>P\<close> gives an outline with such contents only.\<close>

definition filled :: "(pystr \<Rightarrow> bool) \<Rightarrow> ReportSection \<Rightarrow> bool" where
  "filled P s = (case sec_content s of PyStr c \<Rightarrow> P c | _ \<Rightarrow> False)"

definition all_filled :: "pystr \<Rightarrow> (pystr \<Rightarrow> bool) \<Rightarrow> 'w gen \<Rightarrow> bool" where
  "all_filled rid P g \<longleftrightarrow> has_folder rid g \<and> (\<exists>outline. rp_outline (g_report g) = Some outline \<and> list_all (filled P) (out_sections outline))"

lemma all_filled_view: "view g' = view g \<Longrightarrow> all_filled rid P g \<Longrightarrow> all_filled rid P g'"
  unfolding all_filled_def using view_has_folder view_fields(1) by metis

interpretation af: run_invariant rid "all_filled rid P" for rid P
  by unfold_locales (simp add: all_filled_def, rule all_filled_view)

lemma all_filled_content: "P c \<Longrightarrow> all_filled rid P g \<Longrightarrow> all_filled rid P (g\<lparr>g_report := set_content i c (g_report g)\<rparr>)"
  by (cases "i < length (out_sections (the (rp_outline (g_report g))))")
    (auto simp: all_filled_def set_content_def has_folder_def list_all_length nth_list_update filled_def)

lemma demo_answer:
  assumes "has_folder rid g" and "generate_section_react plain_env ag rid x outline previous cb n g = (Inr c, g')" and "total_callback cb"
  shows "c = lit ''ok''"
proof -
  let ?ctx = "[31456, 33410, 26631, 39064] @ lit '': '' @ fstr (re_str plain_env) (sec_title x) @ [10] @ [27169, 25311, 38656, 27714] @ lit '': '' @ ag_requirement ag"
  obtain rs where rs: "start_react plain_env ag (sec_title x) outline previous = Inr rs" "rs_count rs = 0"
    using start_react_ok by blast
  obtain g1 out g2 where l: "if_logger (log_section_start plain_env rid (sec_title x) n) g = (Inr (), g1)"
    and r: "react_loop plain_env ag rid (sec_title x) n ?ctx cb max_iterations rs g1 = (Inr out, g2)"
    and f: "(case out of Answer answer _ \<Rightarrow> Pair (Inr answer) | GiveUp rs \<Rightarrow> force_answer plain_env rid (sec_title x) n rs
        | Again rs \<Rightarrow> force_answer plain_env rid (sec_title x) n rs) g2 = (Inr c, g')"
    using assms(2) rs(1) by (auto simp: generate_section_react_def Let_def st_bind_ok_iff)
  have v: "view g1 = view g" by (rule unchangingD [OF keeps_if_logger [OF keeps_log] l [unfolded log_section_start_def] assms(1)])
  with assms(1) have "has_folder rid g1" using view_has_folder by blast
  from plain_loop [OF demo_plain assms(3) this rs(2), of ag "sec_title x" n ?ctx max_iterations] r obtain rs' where "out = GiveUp rs'"
    by auto
  moreover have "\<not> occurs FINAL (lit ''ok'')"
    by (simp add: occurs_def FINAL_def lit_def starts_with_def)
  moreover have "re_chat plain_env messages limit w = (Inr (Some (lit ''ok'')), w)" for messages limit w
    by (simp add: plain_env_def)
  ultimately show ?thesis
    using f by (auto simp: force_answer_def st_bind_ok_iff on_world_def Let_def)
qed

lemma demo_sections:
  assumes "section_loop plain_env ag rid outline None tot i rest generated g = (Inr (), g')" and "all_filled rid (\<lambda>c. 13 \<notin> set c) g"
  shows "all_filled rid (\<lambda>c. 13 \<notin> set c) g'"
  using assms
proof (induction rest arbitrary: i generated g)
  case (Cons x rest)
  let ?I = "all_filled rid (\<lambda>c. 13 \<notin> set c)" and ?base = "base_progress i tot" and ?msg = "section_message plain_env (sec_title x) i tot"
  let ?content = "lit ''ok''"
  obtain g1 g3 g5 g7 g8 content full msg where
    a: "put_progress plain_env rid ''generating'' ?base ?msg (sec_title x) g = (Inr (), g1)" and
    c: "generate_section_react plain_env ag rid x outline generated (section_callback None ?base tot) (Suc i) g1 = (Inr content, g3)" and
    d: "on_store (save_section (re_str plain_env) rid (Suc i) (x\<lparr>sec_content := PyStr content\<rparr>))
          (g3\<lparr>g_report := set_content i content (g_report g3)\<rparr>) = (Inr (), g5)" and
    e: "if_logger (log_section_full_complete plain_env rid (sec_title x) (Suc i) (py_strip full)) (g5\<lparr>g_done := g_done g5 @ [sec_title x]\<rparr>) = (Inr (), g7)" and
    f: "put_progress plain_env rid ''generating'' (?base + int (70 div tot)) msg PyNone g7 = (Inr (), g8)" and
    rest: "section_loop plain_env ag rid outline None tot (Suc i) rest (generated @ [full]) g8 = (Inr (), g')"
    using Cons.prems(1) by (auto simp: Let_def st_bind_ok_iff with_report_def modify_def call_back_def)
  have i1: "?I g1" by (rule preservesD [OF af.preserves_keeps [OF keeps_put_progress] a Cons.prems(2)])
  have "total_callback (section_callback None ?base tot)" by (simp add: section_callback_def total_callback_def)
  with demo_answer [OF _ c] i1 have content: "content = ?content" by (simp add: all_filled_def)
  have "?I g3" by (rule preservesD [OF af.preserves_keeps [OF keeps_section] c i1])
  then have "?I (g3\<lparr>g_report := set_content i content (g_report g3)\<rparr>)"
    by (intro all_filled_content) (simp_all add: content lit_def)
  moreover obtain fs' where g5: "g5 = g3\<lparr>g_report := set_content i content (g_report g3), g_fs := fs'\<rparr>"
    and "save_section (re_str plain_env) rid (Suc i) (x\<lparr>sec_content := PyStr content\<rparr>) (g_fs g3) = (Inr (), fs')"
    using d by (auto simp: on_store_def Let_def split: prod.splits)
  then have "folder_of fs' rid \<noteq> None"
    by (auto simp: save_section_def st_bind_ok_iff dest!: change_folder_ok(1))
  ultimately have "?I (g5\<lparr>g_done := g_done g5 @ [sec_title x]\<rparr>)"
    by (simp add: g5 all_filled_def has_folder_def)
  from preservesD [OF af.preserves_keeps [OF keeps_if_logger [OF keeps_log]] e [unfolded log_section_full_complete_def] this]
  have "?I g8" by (rule preservesD [OF af.preserves_keeps [OF keeps_put_progress] f])
  with Cons.IH [OF rest] show ?case .
qed simp

lemma catching_ok_iff:
  "catching body h g = (Inr x, g') \<longleftrightarrow> body g = (Inr x, g') \<or> (\<exists>e g1. body g = (Inl e, g1) \<and> h e g1 = (Inr x, g'))"
  by (cases "body g"; cases "fst (body g)") (auto simp: catching_def)

lemma planned_contents:
  assumes "planning_phase env ag rid cb g = (Inr outline, g')"
  shows "list_all (filled (\<lambda>c. c = [])) (out_sections outline)"
proof -
  have default: "list_all (filled (\<lambda>c. c = [])) (out_sections default_outline)"
    by (simp add: default_outline_def filled_def)
  have planned: "list_all (filled (\<lambda>c. c = [])) (out_sections plan)" if p: "planned_outline d = Inr plan" for d plan
  proof -
    obtain xs where "map_res planned_section xs = Inr (out_sections plan)"
      using p by (auto simp: planned_outline_def exn_simps)
    moreover have "map_res planned_section xs = Inr ss \<Longrightarrow> list_all (filled (\<lambda>c. c = [])) ss" for ss
      by (induction xs arbitrary: ss) (auto simp: exn_simps planned_section_def filled_def split: sum.splits)
    ultimately show ?thesis by blast
  qed
  obtain cb' g1 g2 where "plan_outline env ag cb' g1 = (Inr outline, g2)"
    using assms by (auto simp: planning_phase_def st_bind_ok_iff)
  then show ?thesis
    using default planned by (auto simp: plan_outline_def st_bind_ok_iff catching_ok_iff)
qed

lemma demo_completed:
  "\<exists>g outline. demo_run = (Inr (), g) \<and> rp_status (g_report g) = REPORT_COMPLETED \<and> rp_outline (g_report g) = Some outline
     \<and> list_all no_cr (out_sections outline) \<and> length (out_sections outline) < 100"
proof -
  let ?rid = "lit ''r1''" and ?fs = "[] :: reports"
  let ?s = "\<lambda>fs. run_start demo_agent ?rid False fs (re_now plain_env 0)"
  have u: "usable ?fs ?rid" and e: "found_folder ?fs ?rid = empty_folder" and nz: "?rid \<noteq> []"
    by (simp_all add: usable_def found_folder_def folder_of_def dget_def lit_def)
  obtain fs1 where b: "generate_body plain_env demo_agent ?rid None (?s ?fs) = after_folder plain_env demo_agent ?rid None (?s fs1)"
    and i1: "run_view ?rid ?fs (?s fs1)" and f1: "folder_of fs1 ?rid = Some (found_folder ?fs ?rid)"
    using body_after_folder [OF u, of plain_env demo_agent None False "re_now plain_env 0"] by metis
  have fresh: "fresh_run ?rid (?s fs1)"
    using f1 by (simp add: e fresh_run_def run_start_def new_report_def empty_folder_def holds_sections_def)
  have "reads_indices (re_parse_int plain_env)" by (simp add: plain_env_def reads_decimal)
  from plain_body [OF demo_plain demo_plannable total_no_callback this i1 fresh] obtain g where
    g: "after_folder plain_env demo_agent ?rid None (?s fs1) = (Inr (), g)" "rp_status (g_report g) = REPORT_COMPLETED" by blast
  obtain plan ga gc g2 where
    pre: "open_logs plain_env demo_agent ?rid (?s fs1) = (Inr (), ga)" "planning_phase plain_env demo_agent ?rid None ga = (Inr plan, gc)"
      "section_loop plain_env demo_agent ?rid plan None (length (out_sections plan)) 0 (out_sections plan) [] gc = (Inr (), g2)"
    and fin: "finishing_phase plain_env ?rid plan None g2 = (Inr (), g)"
    using after_folder_ok [OF g(1)] by metis
  have ia: "run_view ?rid ?fs ga" by (rule preservesD [OF preserves_open_logs pre(1) i1])
  have planned: "outlined ?rid plan gc"
    using planning_yields preservesD [OF fresh_open_logs pre(1) fresh] pre(2) unfolding yields_def by blast
  have len: "length (out_sections plan) < 100" and ic: "run_view ?rid ?fs gc"
    using succeedsE [OF planning_ok [OF demo_plannable total_no_callback] ia] pre(2) by auto
  have i2: "run_view ?rid ?fs g2" and t: "titled ?rid ?fs (out_title plan) (map sec_title (out_sections plan)) g2"
    using preservesD [OF preserves_sections pre(3) ic] preservesD [OF titled_sections pre(3)] ic planned
    by (simp_all add: titled_def outlined_def)
  have "all_filled ?rid (\<lambda>c. 13 \<notin> set c) gc"
    using planned planned_contents [OF pre(2)] outlined_folder [OF planned]
    by (auto simp: all_filled_def outlined_def filled_def list_all_iff split: pyval.splits)
  from demo_sections [OF pre(3) this] t obtain outline where
    "rp_outline (g_report g2) = Some outline" "list_all (filled (\<lambda>c. 13 \<notin> set c)) (out_sections outline)"
    "map sec_title (out_sections outline) = map sec_title (out_sections plan)"
    by (auto simp: all_filled_def titled_def)
  moreover from this(2) have "list_all no_cr (out_sections outline)"
    by (auto simp: list_all_iff filled_def no_cr_def split: pyval.splits)
  moreover have "demo_run = (Inr (), g)"
    using b g(1) by (simp add: generate_report_run [OF nz] catching_def)
  ultimately show ?thesis
    using finishing_phase_ok(3) [OF i2 fin] g(2) len by (metis length_map)
qed

theorem completed_report_text_witness:
  "\<exists>g outline md. demo_run = (Inr (), g) \<and> rp_outline (g_report g) = Some outline \<and> rp_markdown (g_report g) = PyStr md
     \<and> blank_runs_ok 2 (split_on 10 md) \<and> subseq (concat (map section_prose (out_sections outline))) (prose md)"
proof -
  obtain g outline where g: "demo_run = (Inr (), g)" "rp_status (g_report g) = REPORT_COMPLETED" "rp_outline (g_report g) = Some outline"
    "list_all no_cr (out_sections outline)" "length (out_sections outline) < 100"
    using demo_completed by blast
  have "reads_indices (re_parse_int plain_env)" "lit ''r1'' \<noteq> []" "dget ([] :: reports) (lit ''r1'') = None"
    by (simp_all add: plain_env_def reads_decimal lit_def dget_def)
  from completed_report_text [OF g(1) this(2,3) g(2-5) this(1)] g(1,3) show ?thesis by blast
qed

section \<open>Rounds and tool calls\<close>

definition demo_gen :: "nat gen" where
  "demo_gen = \<lparr>g_fs = [(lit ''r1'', Folder empty_folder)], g_w = 0, g_report = new_report (lit ''r1'') demo_agent [], g_done = [], g_logger = False\<rparr>"

lemma demo_folder: "has_folder (lit ''r1'') demo_gen"
  by (simp add: demo_gen_def has_folder_def folder_of_def dget_def)


text \<open>The reply \<^verbatim>\<open><tool_call>{"tool":"quick_search"}</tool_call>\<close>, and the object in it.\<close>

definition tool_object :: pydict where
  "tool_object = [(lit ''tool'', PyStr (lit ''quick_search''))]"

definition tool_body :: pystr where
  "tool_body = [123, 34] @ lit ''tool'' @ [34, 58, 34] @ lit ''quick_search'' @ [34, 125]"

definition tagged_reply :: pystr where
  "tagged_reply = CALL_OPEN @ tool_body @ CALL_CLOSE"

text \<open>
  C40: the two forms of a tool call are not treated alike.  The bare object \<^verbatim>\<open>{"tool":"quick_search"}\<close>
  is accepted and its key becomes \<^verbatim>\<open>name\<close>; the same object between tags is accepted unchecked, and the
  round that would run it raises \<^verbatim>\<open>KeyError\<close> (the exception that makes the whole report fail).
\<close>

theorem tagged_call_not_normalised:
  assumes "re_loads env tool_body = Some (PyDict tool_object)" and "has_folder rid g" and "rs_count rs < MAX_TOOL_CALLS_PER_SECTION"
  shows "parse_tool_calls (re_loads env) tool_body = Inr [PyDict [(lit ''name'', PyStr (lit ''quick_search''))]]
    \<and> parse_tool_calls (re_loads env) tagged_reply = Inr [PyDict tool_object]
    \<and> fst (react_handle env ag rid title n ctx i rs (Some tagged_reply) g) = Inl (Exn KeyErr (lit ''name''))"
proof -
  have x1: "xml_calls tool_body = []"
    by (simp add: tool_body_def lit_def call_at_def CALL_OPEN_def starts_with_def)
  have x2: "xml_calls tagged_reply = [tool_body]"
    by (simp add: tagged_reply_def tool_body_def lit_def call_at_def CALL_OPEN_def CALL_CLOSE_def starts_with_def py_lstrip_def is_space_def)
  have s: "py_strip tool_body = tool_body"
    by (simp add: tool_body_def lit_def py_strip_def py_lstrip_def py_rstrip_def is_space_def)
  have b: "starts_with [123] tool_body" "text_ends [125] tool_body"
    by (simp_all add: tool_body_def lit_def starts_with_def text_ends_def)
  have v: "valid_tool_call tool_object = Inr (Some [(lit ''name'', PyStr (lit ''quick_search''))])"
    by (simp add: valid_tool_call_def tool_object_def dget_or_def dget_def dhas_def VALID_TOOL_NAMES_def lit_def)
  have 1: "parse_tool_calls (re_loads env) tool_body = Inr [PyDict [(lit ''name'', PyStr (lit ''quick_search''))]]"
    by (simp add: parse_tool_calls_def x1 s b try_bare_def assms(1) checked_call_def v)
  have 2: "parse_tool_calls (re_loads env) tagged_reply = Inr [PyDict tool_object]"
    by (simp add: parse_tool_calls_def x2 map_filter_simps assms(1))
  have f: "\<not> occurs FINAL tagged_reply"
    by (simp add: occurs_def FINAL_def tagged_reply_def tool_body_def CALL_OPEN_def CALL_CLOSE_def lit_def starts_with_def)
  have "normal_on rid (if_logger (log_llm_response env rid title n tagged_reply (Suc i) True False))"
    unfolding log_defs by (intro total_rules)
  from totalD_unit [OF this assms(2)] obtain g1 where
    l: "if_logger (log_llm_response env rid title n tagged_reply (Suc i) True False) g = (Inr (), g1)" by blast
  have "require_key tool_object ''name'' = Inl (Exn KeyErr (lit ''name''))"
    by (simp add: require_key_def tool_object_def dget_def lit_def)
  with l f 2 assms(3) have "fst (react_handle env ag rid title n ctx i rs (Some tagged_reply) g) = Inl (Exn KeyErr (lit ''name''))"
    by (simp add: react_handle_def react_reply_def use_tool_def as_dict_def)
  with 1 2 show ?thesis by blast
qed

theorem tagged_call_not_normalised_witness:
  "fst (react_handle (plain_env\<lparr>re_loads := (\<lambda>s. if s = tool_body then Some (PyDict tool_object) else None)\<rparr>) demo_agent (lit ''r1'')
      (PyStr (lit ''First'')) 1 [] 0 \<lparr>rs_messages = [], rs_count = 0, rs_conflicts = 0, rs_used = []\<rparr> (Some tagged_reply) demo_gen)
   = Inl (Exn KeyErr (lit ''name''))"
  using tagged_call_not_normalised [of "plain_env\<lparr>re_loads := (\<lambda>s. if s = tool_body then Some (PyDict tool_object) else None)\<rparr>"
      "lit ''r1''" demo_gen "\<lparr>rs_messages = [], rs_count = 0, rs_conflicts = 0, rs_used = []\<rparr>" demo_agent "PyStr (lit ''First'')" 1 "[]" 0]
  by (simp add: demo_folder MAX_TOOL_CALLS_PER_SECTION_def)

end
