(* ===== verification/Zep_Tools.thy ===== *)
theory Zep_Tools
  imports Report_Store Graph_Builder
begin

text \<open>
  The retrieval tools of \<^verbatim>\<open>app/services/zep_tools.py\<close> that the report agent calls: result classes and
  their rendering, search, reading a graph, statistics, and the tools \<^verbatim>\<open>insight_forge\<close>,
  \<^verbatim>\<open>panorama_search\<close> and \<^verbatim>\<open>quick_search\<close>.  The interview tool is not modelled.

  The Zep SDK, the language model, \<^verbatim>\<open>int(str)\<close>, \<^verbatim>\<open>str(value)\<close>, Unicode's lower case and the iteration
  order of a set are fields of \<open>tools_env\<close>.  The SDK types the fields of nodes and edges as optional
  strings; \<open>None\<close> is a missing value, and an identifier that is missing under both of its names is the
  empty string.  Queries come out of a model's tool call and are JSON values; slicing one that is
  neither string nor list raises, with the kind \<^verbatim>\<open>TypeError\<close> (a dict raises so before Python 3.12).
  A procedure that reads all pages of a graph gives \<open>None\<close> for an endless page chain.
\<close>

section \<open>Environment\<close>

record sdk_node =
  sn_uuid1 :: "pystr option"
  sn_uuid2 :: "pystr option"
  sn_name :: "pystr option"
  sn_labels :: "pystr list option"
  sn_summary :: "pystr option"
  sn_attributes :: "pydict option"

record sdk_edge =
  sk_uuid1 :: "pystr option"
  sk_uuid2 :: "pystr option"
  sk_name :: "pystr option"
  sk_fact :: "pystr option"
  sk_source :: "pystr option"
  sk_target :: "pystr option"
  sk_created_at :: "pystr option"
  sk_valid_at :: "pystr option"
  sk_invalid_at :: "pystr option"
  sk_expired_at :: "pystr option"

record search_reply =
  sy_edges :: "sdk_edge list option"
  sy_nodes :: "sdk_node list option"

record 'w tools_env =
  zt_float :: "pystr \<Rightarrow> rat option"
  zt_sleep :: "rat \<Rightarrow> 'w \<Rightarrow> 'w"
  zt_parse_int :: "pystr \<Rightarrow> int option"
  zt_str :: "pyval \<Rightarrow> pystr"
  zt_lower :: "pystr \<Rightarrow> pystr"
  zt_order :: "pystr list \<Rightarrow> pystr list"
  zt_search :: "pystr \<Rightarrow> pystr \<Rightarrow> int \<Rightarrow> pystr \<Rightarrow> ('w, search_reply) action"
  zt_node :: "pystr \<Rightarrow> ('w, sdk_node option) action"
  zt_nodes :: "pystr \<Rightarrow> int \<Rightarrow> pystr option \<Rightarrow> ('w, sdk_node page) action"
  zt_edges :: "pystr \<Rightarrow> int \<Rightarrow> pystr option \<Rightarrow> ('w, sdk_edge page) action"
  zt_chat_json :: "pydict list \<Rightarrow> ('w, pydict) action"

definition or_empty :: "pystr option \<Rightarrow> pystr" where
  "or_empty x = (case x of Some s \<Rightarrow> s | None \<Rightarrow> [])"

text \<open>\<^verbatim>\<open>x or y\<close> for optional strings, and an optional string as a JSON value and in an f-string.\<close>

definition or_text :: "pystr option \<Rightarrow> pystr \<Rightarrow> pystr" where
  "or_text x y = (if or_empty x \<noteq> [] then or_empty x else y)"

definition str_val :: "pystr option \<Rightarrow> pyval" where
  "str_val x = (case x of Some s \<Rightarrow> PyStr s | None \<Rightarrow> PyNone)"

definition opt_fmt :: "pystr option \<Rightarrow> pystr" where
  "opt_fmt x = (case x of Some s \<Rightarrow> s | None \<Rightarrow> lit ''None'')"

definition first_label :: "pystr list \<Rightarrow> pystr \<Rightarrow> pystr" where
  "first_label labels dflt = (case find (\<lambda>l. l \<notin> set default_labels) labels of Some l \<Rightarrow> l | None \<Rightarrow> dflt)"

definition numbered :: "(pystr \<Rightarrow> pystr) \<Rightarrow> pystr list \<Rightarrow> pystr list" where
  "numbered f xs = map (\<lambda>(i, x). nat_digits i @ lit ''. '' @ f x) (zip [1 ..< Suc (length xs)] xs)"

definition in_quotes :: "pystr \<Rightarrow> pystr" where
  "in_quotes s = [34] @ s @ [34]"

section \<open>Results\<close>

record edge_hit =
  eh_uuid :: pystr
  eh_name :: "pystr option"
  eh_fact :: "pystr option"
  eh_source :: "pystr option"
  eh_target :: "pystr option"

record node_hit =
  nh_uuid :: pystr
  nh_name :: "pystr option"
  nh_labels :: "pystr list option"
  nh_summary :: "pystr option"

record SearchResult =
  sr_facts :: "pystr list"
  sr_edges :: "edge_hit list"
  sr_nodes :: "node_hit list"
  sr_query :: pyval
  sr_total_count :: nat

definition edge_hit_dict :: "edge_hit \<Rightarrow> pydict" where
  "edge_hit_dict h = [(lit ''uuid'', PyStr (eh_uuid h)), (lit ''name'', str_val (eh_name h)), (lit ''fact'', str_val (eh_fact h)),
     (lit ''source_node_uuid'', str_val (eh_source h)), (lit ''target_node_uuid'', str_val (eh_target h))]"

definition node_hit_dict :: "node_hit \<Rightarrow> pydict" where
  "node_hit_dict h = [(lit ''uuid'', PyStr (nh_uuid h)), (lit ''name'', str_val (nh_name h)),
     (lit ''labels'', case nh_labels h of Some ls \<Rightarrow> PyList (map PyStr ls) | None \<Rightarrow> PyNone),
     (lit ''summary'', str_val (nh_summary h))]"

definition search_to_dict :: "SearchResult \<Rightarrow> pydict" where
  "search_to_dict r = [(lit ''facts'', PyList (map PyStr (sr_facts r))), (lit ''edges'', PyList (map (PyDict \<circ> edge_hit_dict) (sr_edges r))),
     (lit ''nodes'', PyList (map (PyDict \<circ> node_hit_dict) (sr_nodes r))), (lit ''query'', sr_query r),
     (lit ''total_count'', PyInt (int (sr_total_count r)))]"

definition search_to_text :: "(pyval \<Rightarrow> pystr) \<Rightarrow> SearchResult \<Rightarrow> pystr" where
  "search_to_text str r =
     py_join [10] ([[25628, 32034, 26597, 35810] @ lit '': '' @ fstr str (sr_query r), [25214, 21040] @ lit '' '' @ nat_digits (sr_total_count r) @ lit '' '' @ [26465, 30456, 20851, 20449, 24687]]
       @ (if sr_facts r = [] then [] else (10 # lit ''### '' @ [30456, 20851, 20107, 23454] @ lit '':'') # numbered (\<lambda>f. f) (sr_facts r)))"

record NodeInfo =
  ni_uuid :: pystr
  ni_name :: pystr
  ni_labels :: "pystr list"
  ni_summary :: pystr
  ni_attributes :: pydict

definition node_info_dict :: "NodeInfo \<Rightarrow> pydict" where
  "node_info_dict n = [(lit ''uuid'', PyStr (ni_uuid n)), (lit ''name'', PyStr (ni_name n)),
     (lit ''labels'', PyList (map PyStr (ni_labels n))), (lit ''summary'', PyStr (ni_summary n)),
     (lit ''attributes'', PyDict (ni_attributes n))]"

definition node_info_text :: "NodeInfo \<Rightarrow> pystr" where
  "node_info_text n = [23454, 20307] @ lit '': '' @ ni_name n @ lit '' ('' @ [31867, 22411] @ lit '': '' @ first_label (ni_labels n) ([26410, 30693, 31867, 22411]) @ lit '')'' @ [10]
     @ [25688, 35201] @ lit '': '' @ ni_summary n"

record EdgeInfo =
  ei_uuid :: pystr
  ei_name :: pystr
  ei_fact :: pystr
  ei_source :: pystr
  ei_target :: pystr
  ei_source_name :: "pystr option"
  ei_target_name :: "pystr option"
  ei_created_at :: "pystr option"
  ei_valid_at :: "pystr option"
  ei_invalid_at :: "pystr option"
  ei_expired_at :: "pystr option"

definition edge_info_dict :: "EdgeInfo \<Rightarrow> pydict" where
  "edge_info_dict e = [(lit ''uuid'', PyStr (ei_uuid e)), (lit ''name'', PyStr (ei_name e)), (lit ''fact'', PyStr (ei_fact e)),
     (lit ''source_node_uuid'', PyStr (ei_source e)), (lit ''target_node_uuid'', PyStr (ei_target e)),
     (lit ''source_node_name'', str_val (ei_source_name e)), (lit ''target_node_name'', str_val (ei_target_name e)),
     (lit ''created_at'', str_val (ei_created_at e)), (lit ''valid_at'', str_val (ei_valid_at e)),
     (lit ''invalid_at'', str_val (ei_invalid_at e)), (lit ''expired_at'', str_val (ei_expired_at e))]"

definition edge_info_text :: "bool \<Rightarrow> EdgeInfo \<Rightarrow> pystr" where
  "edge_info_text include_temporal e =
     [20851, 31995] @ lit '': '' @ or_text (ei_source_name e) (take 8 (ei_source e)) @ lit '' --['' @ ei_name e @ lit '']--> ''
     @ or_text (ei_target_name e) (take 8 (ei_target e)) @ [10] @ [20107, 23454] @ lit '': '' @ ei_fact e
     @ (if include_temporal
        then [10] @ [26102, 25928] @ lit '': '' @ or_text (ei_valid_at e) ([26410, 30693]) @ lit '' - '' @ or_text (ei_invalid_at e) ([33267, 20170])
             @ (if or_empty (ei_expired_at e) \<noteq> [] then lit '' ('' @ [24050, 36807, 26399] @ lit '': '' @ or_empty (ei_expired_at e) @ lit '')'' else [])
        else [])"

definition is_expired :: "EdgeInfo \<Rightarrow> bool" where
  "is_expired e \<longleftrightarrow> ei_expired_at e \<noteq> None"

definition is_invalid :: "EdgeInfo \<Rightarrow> bool" where
  "is_invalid e \<longleftrightarrow> ei_invalid_at e \<noteq> None"

record entity_insight =
  it_uuid :: pystr
  it_name :: pystr
  it_type :: pystr
  it_summary :: pystr
  it_related_facts :: "pystr list"

record InsightForgeResult =
  if_query :: pyval
  if_requirement :: pystr
  if_sub_queries :: "pyval list"
  if_semantic_facts :: "pystr list"
  if_entity_insights :: "entity_insight list"
  if_relationship_chains :: "pystr list"
  if_total_facts :: nat
  if_total_entities :: nat
  if_total_relationships :: nat

definition insight_dict :: "entity_insight \<Rightarrow> pydict" where
  "insight_dict i = [(lit ''uuid'', PyStr (it_uuid i)), (lit ''name'', PyStr (it_name i)), (lit ''type'', PyStr (it_type i)),
     (lit ''summary'', PyStr (it_summary i)), (lit ''related_facts'', PyList (map PyStr (it_related_facts i)))]"

definition forge_to_dict :: "InsightForgeResult \<Rightarrow> pydict" where
  "forge_to_dict r = [(lit ''query'', if_query r), (lit ''simulation_requirement'', PyStr (if_requirement r)),
     (lit ''sub_queries'', PyList (if_sub_queries r)), (lit ''semantic_facts'', PyList (map PyStr (if_semantic_facts r))),
     (lit ''entity_insights'', PyList (map (PyDict \<circ> insight_dict) (if_entity_insights r))),
     (lit ''relationship_chains'', PyList (map PyStr (if_relationship_chains r))),
     (lit ''total_facts'', PyInt (int (if_total_facts r))), (lit ''total_entities'', PyInt (int (if_total_entities r))),
     (lit ''total_relationships'', PyInt (int (if_total_relationships r)))]"

definition insight_lines :: "entity_insight \<Rightarrow> pystr list" where
  "insight_lines i =
     [lit ''- **'' @ it_name i @ lit ''** ('' @ it_type i @ lit '')'']
     @ (if it_summary i \<noteq> [] then [lit ''  '' @ [25688, 35201] @ lit '': '' @ in_quotes (it_summary i)] else [])
     @ (if it_related_facts i \<noteq> [] then [lit ''  '' @ [30456, 20851, 20107, 23454] @ lit '': '' @ nat_digits (length (it_related_facts i)) @ [26465]] else [])"

definition forge_to_text :: "(pyval \<Rightarrow> pystr) \<Rightarrow> InsightForgeResult \<Rightarrow> pystr" where
  "forge_to_text str r =
     py_join [10] (
       [lit ''## '' @ [26410, 26469, 39044, 27979, 28145, 24230, 20998, 26512], [20998, 26512, 38382, 39064] @ lit '': '' @ fstr str (if_query r), [39044, 27979, 22330, 26223] @ lit '': '' @ if_requirement r,
        10 # lit ''### '' @ [39044, 27979, 25968, 25454, 32479, 35745], lit ''- '' @ [30456, 20851, 39044, 27979, 20107, 23454] @ lit '': '' @ nat_digits (if_total_facts r) @ [26465],
        lit ''- '' @ [28041, 21450, 23454, 20307] @ lit '': '' @ nat_digits (if_total_entities r) @ [20010], lit ''- '' @ [20851, 31995, 38142] @ lit '': '' @ nat_digits (if_total_relationships r) @ [26465]]
       @ (if if_sub_queries r = [] then [] else (10 # lit ''### '' @ [20998, 26512, 30340, 23376, 38382, 39064]) # numbered (\<lambda>s. s) (map (fstr str) (if_sub_queries r)))
       @ (if if_semantic_facts r = [] then [] else (10 # lit ''### '' @ [12304, 20851, 38190, 20107, 23454, 12305] @ lit ''('' @ [35831, 22312, 25253, 21578, 20013, 24341, 29992, 36825, 20123, 21407, 25991] @ lit '')'') # numbered in_quotes (if_semantic_facts r))
       @ (if if_entity_insights r = [] then [] else (10 # lit ''### '' @ [12304, 26680, 24515, 23454, 20307, 12305]) # concat (map insight_lines (if_entity_insights r)))
       @ (if if_relationship_chains r = [] then [] else (10 # lit ''### '' @ [12304, 20851, 31995, 38142, 12305]) # map (\<lambda>c. lit ''- '' @ c) (if_relationship_chains r)))"

record PanoramaResult =
  pn_query :: pystr
  pn_all_nodes :: "NodeInfo list"
  pn_all_edges :: "EdgeInfo list"
  pn_active_facts :: "pystr list"
  pn_historical_facts :: "pystr list"
  pn_total_nodes :: nat
  pn_total_edges :: nat
  pn_active_count :: nat
  pn_historical_count :: nat

definition panorama_to_dict :: "PanoramaResult \<Rightarrow> pydict" where
  "panorama_to_dict r = [(lit ''query'', PyStr (pn_query r)), (lit ''all_nodes'', PyList (map (PyDict \<circ> node_info_dict) (pn_all_nodes r))),
     (lit ''all_edges'', PyList (map (PyDict \<circ> edge_info_dict) (pn_all_edges r))), (lit ''active_facts'', PyList (map PyStr (pn_active_facts r))),
     (lit ''historical_facts'', PyList (map PyStr (pn_historical_facts r))), (lit ''total_nodes'', PyInt (int (pn_total_nodes r))),
     (lit ''total_edges'', PyInt (int (pn_total_edges r))), (lit ''active_count'', PyInt (int (pn_active_count r))),
     (lit ''historical_count'', PyInt (int (pn_historical_count r)))]"

definition panorama_to_text :: "PanoramaResult \<Rightarrow> pystr" where
  "panorama_to_text r =
     py_join [10] (
       [lit ''## '' @ [24191, 24230, 25628, 32034, 32467, 26524, 65288, 26410, 26469, 20840, 26223, 35270, 22270, 65289], [26597, 35810] @ lit '': '' @ pn_query r, 10 # lit ''### '' @ [32479, 35745, 20449, 24687],
        lit ''- '' @ [24635, 33410, 28857, 25968] @ lit '': '' @ nat_digits (pn_total_nodes r), lit ''- '' @ [24635, 36793, 25968] @ lit '': '' @ nat_digits (pn_total_edges r),
        lit ''- '' @ [24403, 21069, 26377, 25928, 20107, 23454] @ lit '': '' @ nat_digits (pn_active_count r) @ [26465], lit ''- '' @ [21382, 21490] @ lit ''/'' @ [36807, 26399, 20107, 23454] @ lit '': '' @ nat_digits (pn_historical_count r) @ [26465]]
       @ (if pn_active_facts r = [] then [] else (10 # lit ''### '' @ [12304, 24403, 21069, 26377, 25928, 20107, 23454, 12305] @ lit ''('' @ [27169, 25311, 32467, 26524, 21407, 25991] @ lit '')'') # numbered in_quotes (pn_active_facts r))
       @ (if pn_historical_facts r = [] then [] else (10 # lit ''### '' @ [12304, 21382, 21490] @ lit ''/'' @ [36807, 26399, 20107, 23454, 12305] @ lit ''('' @ [28436, 21464, 36807, 31243, 35760, 24405] @ lit '')'') # numbered in_quotes (pn_historical_facts r))
       @ (if pn_all_nodes r = [] then [] else (10 # lit ''### '' @ [12304, 28041, 21450, 23454, 20307, 12305])
            # map (\<lambda>n. lit ''- **'' @ ni_name n @ lit ''** ('' @ first_label (ni_labels n) ([23454, 20307]) @ lit '')'') (pn_all_nodes r)))"

section \<open>Reading\<close>

text \<open>\<^verbatim>\<open>query[:50]\<close> in a log message: strings and lists can be sliced, other JSON values raise.\<close>

definition sliceable :: "pyval \<Rightarrow> unit res" where
  "sliceable v = (case v of PyStr _ \<Rightarrow> Inr () | PyList _ \<Rightarrow> Inr () | _ \<Rightarrow> Inl (Exn TypeErr (lit ''object is not subscriptable'')))"

definition tools_read :: "'w tools_env \<Rightarrow> ('w, 'a) action \<Rightarrow> ('w, 'a) action" where
  "tools_read env func = call_zep_read_with_retry (zt_float env) (zt_sleep env) 3 2 60 func"

definition hit_of_edge :: "sdk_edge \<Rightarrow> edge_hit" where
  "hit_of_edge e = \<lparr>eh_uuid = or_text (sk_uuid1 e) (or_empty (sk_uuid2 e)), eh_name = sk_name e, eh_fact = sk_fact e,
     eh_source = sk_source e, eh_target = sk_target e\<rparr>"

definition hit_of_node :: "sdk_node \<Rightarrow> node_hit" where
  "hit_of_node n = \<lparr>nh_uuid = or_text (sn_uuid1 n) (or_empty (sn_uuid2 n)), nh_name = sn_name n, nh_labels = sn_labels n, nh_summary = sn_summary n\<rparr>"

definition edge_facts :: "sdk_edge list \<Rightarrow> pystr list" where
  "edge_facts es = filter (\<lambda>f. f \<noteq> []) (map (or_empty \<circ> sk_fact) es)"

definition node_facts :: "sdk_node list \<Rightarrow> pystr list" where
  "node_facts ns = map (\<lambda>n. lit ''['' @ opt_fmt (sn_name n) @ lit '']: '' @ or_empty (sn_summary n)) (filter (\<lambda>n. or_empty (sn_summary n) \<noteq> []) ns)"

definition search_graph :: "'w tools_env \<Rightarrow> pystr \<Rightarrow> pyval \<Rightarrow> pyval \<Rightarrow> pystr \<Rightarrow> ('w, SearchResult) action" where
  "search_graph env graph_id query limit scope w =
     (case bind_res (sliceable query) (\<lambda>_. bind_res (normalize_zep_search_query query) (\<lambda>q.
        bind_res (normalize_zep_search_limit (zt_parse_int env) limit) (\<lambda>l. Inr (q, l)))) of
        Inl e \<Rightarrow> (Inl e, w)
      | Inr (zep_query, zep_limit) \<Rightarrow>
          st_bind (tools_read env (zt_search env graph_id zep_query zep_limit scope) w) (\<lambda>reply w.
          let es = or_nil (sy_edges reply); ns = or_nil (sy_nodes reply); facts = edge_facts es @ node_facts ns in
          (Inr \<lparr>sr_facts = facts, sr_edges = map hit_of_edge es, sr_nodes = map hit_of_node ns, sr_query = query,
                sr_total_count = length facts\<rparr>, w)))"

definition node_info_of :: "sdk_node \<Rightarrow> NodeInfo" where
  "node_info_of n = \<lparr>ni_uuid = or_text (sn_uuid1 n) (or_empty (sn_uuid2 n)), ni_name = or_empty (sn_name n), ni_labels = or_nil (sn_labels n),
     ni_summary = or_empty (sn_summary n), ni_attributes = or_nil (sn_attributes n)\<rparr>"

definition edge_info_of :: "bool \<Rightarrow> sdk_edge \<Rightarrow> EdgeInfo" where
  "edge_info_of include_temporal e =
     (let t = (\<lambda>f. if include_temporal then f e else None) in
      \<lparr>ei_uuid = or_text (sk_uuid1 e) (or_empty (sk_uuid2 e)), ei_name = or_empty (sk_name e), ei_fact = or_empty (sk_fact e),
       ei_source = or_empty (sk_source e), ei_target = or_empty (sk_target e), ei_source_name = None, ei_target_name = None,
       ei_created_at = t sk_created_at, ei_valid_at = t sk_valid_at, ei_invalid_at = t sk_invalid_at, ei_expired_at = t sk_expired_at\<rparr>)"

definition tools_all_nodes :: "'w tools_env \<Rightarrow> pystr \<Rightarrow> ('w, NodeInfo list) proc" where
  "tools_all_nodes env graph_id w =
     pbind (fetch_all_nodes (zt_float env) (zt_sleep env) (zt_nodes env) graph_id 100 None 3 2 w) (\<lambda>ns w. Some (Inr (map node_info_of ns), w))"

definition tools_all_edges :: "'w tools_env \<Rightarrow> pystr \<Rightarrow> bool \<Rightarrow> ('w, EdgeInfo list) proc" where
  "tools_all_edges env graph_id include_temporal w =
     pbind (fetch_all_edges (zt_float env) (zt_sleep env) (zt_edges env) graph_id 100 3 2 None w) (\<lambda>es w. Some (Inr (map (edge_info_of include_temporal) es), w))"

text \<open>A missing node and Zep's 404 give \<open>None\<close>; other errors are raised.\<close>

definition get_node_detail :: "'w tools_env \<Rightarrow> pystr \<Rightarrow> ('w, NodeInfo option) action" where
  "get_node_detail env node_uuid w =
     (case tools_read env (zt_node env node_uuid) w of
        (Inl e, w) \<Rightarrow> (if exn_kind e = NotFoundErr then Inr None else Inl e, w)
      | (Inr node, w) \<Rightarrow> (Inr (map_option node_info_of node), w))"

definition tools_node_edges :: "'w tools_env \<Rightarrow> pystr \<Rightarrow> pystr \<Rightarrow> ('w, EdgeInfo list) proc" where
  "tools_node_edges env graph_id node_uuid w =
     pbind (tools_all_edges env graph_id True w) (\<lambda>es w.
       Some (Inr (filter (\<lambda>e. ei_source e = node_uuid \<or> ei_target e = node_uuid) es), w))"

definition tools_entities_by_type :: "'w tools_env \<Rightarrow> pystr \<Rightarrow> pyval \<Rightarrow> ('w, NodeInfo list) proc" where
  "tools_entities_by_type env graph_id entity_type w =
     pbind (tools_all_nodes env graph_id w) (\<lambda>ns w. Some (Inr (filter (\<lambda>n. entity_type \<in> set (map PyStr (ni_labels n))) ns), w))"

definition get_entity_summary :: "'w tools_env \<Rightarrow> pystr \<Rightarrow> pyval \<Rightarrow> ('w, pydict) proc" where
  "get_entity_summary env graph_id entity_name w =
     pbind (Some (search_graph env graph_id entity_name (PyInt 20) (lit ''edges'') w)) (\<lambda>search_result w.
     pbind (tools_all_nodes env graph_id w) (\<lambda>all_nodes w.
     let name = (case entity_name of PyStr s \<Rightarrow> s | _ \<Rightarrow> []);
         entity_node = find (\<lambda>n. zt_lower env (ni_name n) = zt_lower env name) all_nodes in
     pbind (case entity_node of Some n \<Rightarrow> tools_node_edges env graph_id (ni_uuid n) w | None \<Rightarrow> Some (Inr [], w)) (\<lambda>related_edges w.
       Some (Inr [(lit ''entity_name'', entity_name),
                  (lit ''entity_info'', case entity_node of Some n \<Rightarrow> PyDict (node_info_dict n) | None \<Rightarrow> PyNone),
                  (lit ''related_facts'', PyList (map PyStr (sr_facts search_result))),
                  (lit ''related_edges'', PyList (map (PyDict \<circ> edge_info_dict) related_edges)),
                  (lit ''total_relations'', PyInt (int (length related_edges)))], w))))"

definition count_into :: "(pystr \<times> int) list \<Rightarrow> pystr \<Rightarrow> (pystr \<times> int) list" where
  "count_into d k = dset d k (dget_or d k 0 + 1)"

definition entity_types :: "NodeInfo list \<Rightarrow> (pystr \<times> int) list" where
  "entity_types nodes = foldl count_into [] (concat (map (\<lambda>n. filter (\<lambda>l. l \<notin> set default_labels) (ni_labels n)) nodes))"

definition relation_types :: "EdgeInfo list \<Rightarrow> (pystr \<times> int) list" where
  "relation_types edges = foldl count_into [] (map ei_name edges)"

definition graph_statistics :: "pystr \<Rightarrow> NodeInfo list \<Rightarrow> EdgeInfo list \<Rightarrow> pydict" where
  "graph_statistics graph_id nodes edges =
     [(lit ''graph_id'', PyStr graph_id), (lit ''total_nodes'', PyInt (int (length nodes))), (lit ''total_edges'', PyInt (int (length edges))),
      (lit ''entity_types'', PyDict (map (apsnd PyInt) (entity_types nodes))),
      (lit ''relation_types'', PyDict (map (apsnd PyInt) (relation_types edges)))]"

definition get_graph_statistics :: "'w tools_env \<Rightarrow> pystr \<Rightarrow> ('w, pydict) proc" where
  "get_graph_statistics env graph_id w =
     pbind (tools_all_nodes env graph_id w) (\<lambda>nodes w.
     pbind (tools_all_edges env graph_id True w) (\<lambda>edges w. Some (Inr (graph_statistics graph_id nodes edges), w)))"

definition context_entities :: "NodeInfo list \<Rightarrow> pydict list" where
  "context_entities nodes =
     List.map_filter (\<lambda>n. map_option (\<lambda>l. [(lit ''name'', PyStr (ni_name n)), (lit ''type'', PyStr l), (lit ''summary'', PyStr (ni_summary n))])
       (find (\<lambda>l. l \<notin> set default_labels) (ni_labels n))) nodes"

definition get_simulation_context :: "'w tools_env \<Rightarrow> pystr \<Rightarrow> pystr \<Rightarrow> int \<Rightarrow> ('w, pydict) proc" where
  "get_simulation_context env graph_id simulation_requirement limit w =
     pbind (Some (search_graph env graph_id (PyStr simulation_requirement) (PyInt limit) (lit ''edges'') w)) (\<lambda>search_result w.
     pbind (get_graph_statistics env graph_id w) (\<lambda>stats w.
     pbind (tools_all_nodes env graph_id w) (\<lambda>all_nodes w.
     let entities = context_entities all_nodes in
       Some (Inr [(lit ''simulation_requirement'', PyStr simulation_requirement),
                  (lit ''related_facts'', PyList (map PyStr (sr_facts search_result))),
                  (lit ''graph_statistics'', PyDict stats),
                  (lit ''entities'', PyList (map PyDict (py_slice entities 0 limit))),
                  (lit ''total_entities'', PyInt (int (length entities)))], w))))"

section \<open>Keywords and relevance\<close>

text \<open>\<^verbatim>\<open>s.split()\<close>.\<close>

function words :: "pystr \<Rightarrow> pystr list" where
  "words s =
     (let s = dropWhile is_space s in
      if s = [] then [] else takeWhile (\<lambda>c. \<not> is_space c) s # words (dropWhile (\<lambda>c. \<not> is_space c) s))"
  by pat_completeness auto
termination
proof (relation "measure length")
  fix s t :: pystr
  assume t: "t = dropWhile is_space s" and "t \<noteq> []"
  then have "\<not> is_space (hd t)" using hd_dropWhile by metis
  with \<open>t \<noteq> []\<close> have "length (dropWhile (\<lambda>c. \<not> is_space c) t) < length t"
    by (cases t) (auto simp: less_Suc_eq_le length_dropWhile_le)
  also have "\<dots> \<le> length s" by (simp add: t length_dropWhile_le)
  finally show "(dropWhile (\<lambda>c. \<not> is_space c) t, s) \<in> measure length" by simp
qed simp

definition query_words :: "(pystr \<Rightarrow> pystr) \<Rightarrow> pystr \<Rightarrow> pystr list" where
  "query_words lower query =
     filter (\<lambda>w. 1 < length w) (map py_strip (words (map (\<lambda>c. if c = 44 \<or> c = 65292 then 32 else c) (lower query))))"

definition relevance_score :: "(pystr \<Rightarrow> pystr) \<Rightarrow> pystr \<Rightarrow> pystr \<Rightarrow> nat" where
  "relevance_score lower query s =
     (if occurs (lower query) (lower s) then 100 else 0)
     + 10 * length (filter (\<lambda>k. occurs k (lower s)) (query_words lower query))"

definition match_score :: "(pystr \<Rightarrow> pystr) \<Rightarrow> pystr \<Rightarrow> pystr \<Rightarrow> nat" where
  "match_score lower query s =
     (if s = [] then 0
      else if occurs (lower query) (lower s) then 100
      else 10 * length (filter (\<lambda>k. occurs k (lower s)) (query_words lower query)))"

definition best_matches :: "('a \<Rightarrow> nat) \<Rightarrow> int \<Rightarrow> 'a list \<Rightarrow> 'a list" where
  "best_matches score limit xs = py_slice (sorted_desc score (filter (\<lambda>x. 0 < score x) xs)) 0 limit"

definition hit_of_edge_info :: "EdgeInfo \<Rightarrow> edge_hit" where
  "hit_of_edge_info e = \<lparr>eh_uuid = ei_uuid e, eh_name = Some (ei_name e), eh_fact = Some (ei_fact e), eh_source = Some (ei_source e), eh_target = Some (ei_target e)\<rparr>"

definition hit_of_node_info :: "NodeInfo \<Rightarrow> node_hit" where
  "hit_of_node_info n = \<lparr>nh_uuid = ni_uuid n, nh_name = Some (ni_name n), nh_labels = Some (ni_labels n), nh_summary = Some (ni_summary n)\<rparr>"

text \<open>Local keyword search: an exception while reading leaves what has been found so far.\<close>

definition local_search :: "'w tools_env \<Rightarrow> pystr \<Rightarrow> pystr \<Rightarrow> int \<Rightarrow> pystr \<Rightarrow> 'w \<Rightarrow> (SearchResult \<times> 'w) option" where
  "local_search env graph_id query limit scope w =
     (let result = (\<lambda>facts es ns. \<lparr>sr_facts = facts, sr_edges = es, sr_nodes = ns, sr_query = PyStr query, sr_total_count = length facts\<rparr>) in
      case (if scope \<in> set [lit ''edges'', lit ''both''] then tools_all_edges env graph_id True w else Some (Inr [], w)) of
        None \<Rightarrow> None
      | Some (Inl e, w) \<Rightarrow> Some (result [] [] [], w)
      | Some (Inr es, w) \<Rightarrow>
          let es = best_matches (\<lambda>e. match_score (zt_lower env) query (ei_fact e) + match_score (zt_lower env) query (ei_name e)) limit es;
              facts = filter (\<lambda>f. f \<noteq> []) (map ei_fact es); edges = map hit_of_edge_info es in
          (case (if scope \<in> set [lit ''nodes'', lit ''both''] then tools_all_nodes env graph_id w else Some (Inr [], w)) of
             None \<Rightarrow> None
           | Some (Inl e, w) \<Rightarrow> Some (result facts edges [], w)
           | Some (Inr ns, w) \<Rightarrow>
               let ns = best_matches (\<lambda>n. match_score (zt_lower env) query (ni_name n) + match_score (zt_lower env) query (ni_summary n)) limit ns in
               Some (result (facts @ map (\<lambda>n. lit ''['' @ ni_name n @ lit '']: '' @ ni_summary n) (filter (\<lambda>n. ni_summary n \<noteq> []) ns))
                       edges (map hit_of_node_info ns), w)))"

section \<open>InsightForge\<close>

definition SUB_QUERIES_SYSTEM :: pystr where
  "SUB_QUERIES_SYSTEM = [20320, 26159, 19968, 20010, 19987, 19994, 30340, 38382, 39064, 20998, 26512, 19987, 23478, 12290, 20320, 30340, 20219, 21153, 26159, 23558, 19968, 20010, 22797, 26434, 38382, 39064, 20998, 35299, 20026, 22810, 20010, 21487, 20197, 22312, 27169, 25311, 19990, 30028, 20013, 29420, 31435, 35266, 23519, 30340, 23376, 38382, 39064, 12290, 10, 10, 35201, 27714, 65306, 10] @ lit ''1. '' @ [27599, 20010, 23376, 38382, 39064, 24212, 35813, 36275, 22815, 20855, 20307, 65292, 21487, 20197, 22312, 27169, 25311, 19990, 30028, 20013, 25214, 21040, 30456, 20851, 30340] @ lit ''Agent'' @ [34892, 20026, 25110, 20107, 20214, 10] @ lit ''2. '' @ [23376, 38382, 39064, 24212, 35813, 35206, 30422, 21407, 38382, 39064, 30340, 19981, 21516, 32500, 24230, 65288, 22914, 65306, 35841, 12289, 20160, 20040, 12289, 20026, 20160, 20040, 12289, 24590, 20040, 26679, 12289, 20309, 26102, 12289, 20309, 22320, 65289, 10] @ lit ''3. '' @ [23376, 38382, 39064, 24212, 35813, 19982, 27169, 25311, 22330, 26223, 30456, 20851, 10] @ lit ''4. '' @ [36820, 22238] @ lit ''JSON'' @ [26684, 24335, 65306] @ [123, 34] @ lit ''sub_queries'' @ [34] @ lit '': ['' @ [34] @ [23376, 38382, 39064] @ lit ''1'' @ [34] @ lit '', '' @ [34] @ [23376, 38382, 39064] @ lit ''2'' @ [34] @ lit '', ...]'' @ [125]"

definition slice_upto :: "int \<Rightarrow> pyval \<Rightarrow> pyval list res" where
  "slice_upto n v =
     (case v of
        PyList xs \<Rightarrow> Inr (py_slice xs 0 n)
      | PyStr s \<Rightarrow> Inr (map (\<lambda>c. PyStr [c]) (py_slice s 0 n))
      | _ \<Rightarrow> Inl (Exn TypeErr (lit ''object is not subscriptable'')))"

text \<open>The line with the report context, which is empty for an empty context.\<close>

definition context_line :: "(pyval \<Rightarrow> pystr) \<Rightarrow> pyval \<Rightarrow> pystr res" where
  "context_line str ctx =
     (if truthy ctx
      then (case ctx of
              PyStr s \<Rightarrow> Inr ([25253, 21578, 19978, 19979, 25991, 65306] @ take 500 s)
            | PyList xs \<Rightarrow> Inr ([25253, 21578, 19978, 19979, 25991, 65306] @ str (PyList (take 500 xs)))
            | _ \<Rightarrow> Inl (Exn TypeErr (lit ''object is not subscriptable'')))
      else Inr [])"

definition prompt_message :: "string \<Rightarrow> pystr \<Rightarrow> pydict" where
  "prompt_message role content = [(lit ''role'', PyStr (lit role)), (lit ''content'', PyStr content)]"

definition fallback_queries :: "(pyval \<Rightarrow> pystr) \<Rightarrow> pyval \<Rightarrow> pyval list" where
  "fallback_queries str query =
     [query, PyStr (fstr str query @ lit '' '' @ [30340, 20027, 35201, 21442, 19982, 32773]), PyStr (fstr str query @ lit '' '' @ [30340, 21407, 22240, 21644, 24433, 21709]), PyStr (fstr str query @ lit '' '' @ [30340, 21457, 23637, 36807, 31243])]"

definition generate_sub_queries :: "'w tools_env \<Rightarrow> pyval \<Rightarrow> pystr \<Rightarrow> pyval \<Rightarrow> int \<Rightarrow> ('w, pyval list) action" where
  "generate_sub_queries env query simulation_requirement report_context max_queries w =
     (case context_line (zt_str env) report_context of
        Inl e \<Rightarrow> (Inl e, w)
      | Inr ctx \<Rightarrow>
          let user_prompt = [27169, 25311, 38656, 27714, 32972, 26223, 65306] @ [10] @ simulation_requirement @ [10, 10] @ ctx @ [10, 10]
                @ [35831, 23558, 20197, 19979, 38382, 39064, 20998, 35299, 20026] @ int_str max_queries @ [20010, 23376, 38382, 39064, 65306] @ [10] @ fstr (zt_str env) query @ [10, 10]
                @ [36820, 22238] @ lit ''JSON'' @ [26684, 24335, 30340, 23376, 38382, 39064, 21015, 34920, 12290] in
          (case st_bind (zt_chat_json env [prompt_message ''system'' SUB_QUERIES_SYSTEM, prompt_message ''user'' user_prompt] w)
                  (\<lambda>response w. (slice_upto max_queries (dget_or response (lit ''sub_queries'') (PyList [])), w)) of
             (Inr qs, w) \<Rightarrow> (Inr (map (PyStr \<circ> fstr (zt_str env)) qs), w)
           | (Inl e, w) \<Rightarrow> (Inr (py_slice (fallback_queries (zt_str env) query) 0 max_queries), w)))"

text \<open>Adding facts that have not been seen, and the searches of the sub-questions.\<close>

definition add_new :: "'a list \<Rightarrow> 'a list \<Rightarrow> 'a list" where
  "add_new seen xs = foldl (\<lambda>acc x. if x \<in> set acc then acc else acc @ [x]) seen xs"

fun forge_searches :: "'w tools_env \<Rightarrow> pystr \<Rightarrow> pyval list \<Rightarrow> pystr list \<Rightarrow> edge_hit list \<Rightarrow> ('w, pystr list \<times> edge_hit list) action" where
  "forge_searches env graph_id [] facts edges w = (Inr (facts, edges), w)"
| "forge_searches env graph_id (q # qs) facts edges w =
     st_bind (search_graph env graph_id q (PyInt 15) (lit ''edges'') w) (\<lambda>r.
       forge_searches env graph_id qs (add_new facts (sr_facts r)) (edges @ sr_edges r))"

definition hit_uuids :: "edge_hit list \<Rightarrow> pystr list" where
  "hit_uuids edges = filter (\<lambda>u. u \<noteq> []) (concat (map (\<lambda>h. [or_empty (eh_source h), or_empty (eh_target h)]) edges))"

text \<open>Reading the details of the entities; a node that cannot be read is skipped.\<close>

fun forge_entities ::
  "'w tools_env \<Rightarrow> pystr list \<Rightarrow> pystr list \<Rightarrow> 'w \<Rightarrow> (entity_insight list \<times> (pystr \<times> NodeInfo) list) \<times> 'w" where
  "forge_entities env all_facts [] w = (([], []), w)"
| "forge_entities env all_facts (u # us) w =
     (case get_node_detail env u w of
        (Inr (Some node), w) \<Rightarrow>
          (let insight = \<lparr>it_uuid = ni_uuid node, it_name = ni_name node, it_type = first_label (ni_labels node) ([23454, 20307]),
                          it_summary = ni_summary node,
                          it_related_facts = filter (\<lambda>f. occurs (zt_lower env (ni_name node)) (zt_lower env f)) all_facts\<rparr>;
               ((insights, nodes), w) = forge_entities env all_facts us w
           in ((insight # insights, (u, node) # nodes), w))
      | (_, w) \<Rightarrow> forge_entities env all_facts us w)"

text \<open>The name shown for an end of an edge; slicing a missing identifier raises.\<close>

definition end_name :: "(pystr \<times> NodeInfo) list \<Rightarrow> pystr option \<Rightarrow> pystr res" where
  "end_name nodes u =
     (case Option.bind u (dget nodes) of
        Some n \<Rightarrow> if ni_name n \<noteq> [] then Inr (ni_name n) else Inr (take 8 (or_empty u))
      | None \<Rightarrow> (case u of Some s \<Rightarrow> Inr (take 8 s) | None \<Rightarrow> Inl (Exn TypeErr (lit ''object is not subscriptable''))))"

definition chain_of :: "(pystr \<times> NodeInfo) list \<Rightarrow> edge_hit \<Rightarrow> pystr res" where
  "chain_of nodes h =
     bind_res (end_name nodes (eh_source h)) (\<lambda>s. bind_res (end_name nodes (eh_target h)) (\<lambda>t.
       Inr (s @ lit '' --['' @ opt_fmt (eh_name h) @ lit '']--> '' @ t)))"

definition insight_forge :: "'w tools_env \<Rightarrow> pystr \<Rightarrow> pyval \<Rightarrow> pystr \<Rightarrow> pyval \<Rightarrow> int \<Rightarrow> ('w, InsightForgeResult) action" where
  "insight_forge env graph_id query simulation_requirement report_context max_sub_queries w =
     st_bind (sliceable query, w) (\<lambda>_ w.
     st_bind (generate_sub_queries env query simulation_requirement report_context max_sub_queries w) (\<lambda>sub_queries w.
     st_bind (forge_searches env graph_id sub_queries [] [] w) (\<lambda>(facts, all_edges) w.
     st_bind (search_graph env graph_id query (PyInt 20) (lit ''edges'') w) (\<lambda>main_search w.
     let all_facts = add_new facts (sr_facts main_search);
         ((insights, nodes), w) = forge_entities env all_facts (zt_order env (add_new [] (hit_uuids all_edges))) w in
     st_bind (map_res (chain_of nodes) all_edges, w) (\<lambda>chains w.
     let relationship_chains = add_new [] chains in
       (Inr \<lparr>if_query = query, if_requirement = simulation_requirement, if_sub_queries = sub_queries,
             if_semantic_facts = all_facts, if_entity_insights = insights, if_relationship_chains = relationship_chains,
             if_total_facts = length all_facts, if_total_entities = length insights,
             if_total_relationships = length relationship_chains\<rparr>, w))))))"

section \<open>Panorama and quick search\<close>

definition is_historical :: "EdgeInfo \<Rightarrow> bool" where
  "is_historical e \<longleftrightarrow> is_expired e \<or> is_invalid e"

definition dated_fact :: "EdgeInfo \<Rightarrow> pystr" where
  "dated_fact e =
     lit ''['' @ or_text (ei_valid_at e) ([26410, 30693]) @ lit '' - ''
     @ or_text (ei_invalid_at e) (or_text (ei_expired_at e) ([26410, 30693])) @ lit ''] '' @ ei_fact e"

definition active_facts_of :: "EdgeInfo list \<Rightarrow> pystr list" where
  "active_facts_of es = map ei_fact (filter (\<lambda>e. ei_fact e \<noteq> [] \<and> \<not> is_historical e) es)"

definition historical_facts_of :: "EdgeInfo list \<Rightarrow> pystr list" where
  "historical_facts_of es = map dated_fact (filter (\<lambda>e. ei_fact e \<noteq> [] \<and> is_historical e) es)"

definition panorama_of :: "(pystr \<Rightarrow> pystr) \<Rightarrow> pystr \<Rightarrow> pyval \<Rightarrow> int \<Rightarrow> NodeInfo list \<Rightarrow> EdgeInfo list \<Rightarrow> PanoramaResult" where
  "panorama_of lower query include_expired limit nodes edges =
     (let active = sorted_desc (relevance_score lower query) (active_facts_of edges);
          historical = sorted_desc (relevance_score lower query) (historical_facts_of edges) in
      \<lparr>pn_query = query, pn_all_nodes = nodes, pn_all_edges = edges, pn_active_facts = py_slice active 0 limit,
       pn_historical_facts = (if truthy include_expired then py_slice historical 0 limit else []),
       pn_total_nodes = length nodes, pn_total_edges = length edges, pn_active_count = length active,
       pn_historical_count = length historical\<rparr>)"

definition panorama_search :: "'w tools_env \<Rightarrow> pystr \<Rightarrow> pyval \<Rightarrow> pyval \<Rightarrow> int \<Rightarrow> ('w, PanoramaResult) proc" where
  "panorama_search env graph_id query include_expired limit w =
     pbind (Some (sliceable query, w)) (\<lambda>_ w.
     pbind (tools_all_nodes env graph_id w) (\<lambda>nodes w.
     pbind (tools_all_edges env graph_id True w) (\<lambda>edges w.
       Some (case query of
               PyStr q \<Rightarrow> Inr (panorama_of (zt_lower env) q include_expired limit nodes edges)
             | _ \<Rightarrow> Inl (Exn AttributeErr (lit ''object has no attribute lower'')), w))))"

definition quick_search :: "'w tools_env \<Rightarrow> pystr \<Rightarrow> pyval \<Rightarrow> pyval \<Rightarrow> ('w, SearchResult) action" where
  "quick_search env graph_id query limit w =
     st_bind (sliceable query, w) (\<lambda>_. search_graph env graph_id query limit (lit ''edges''))"

end
