(* ===== verification/Zep_Retrieval.thy ===== *)
theory Zep_Retrieval
  imports Zep_Tools Entity_Reader
begin

text \<open>
  What the retrieval tools of \<^verbatim>\<open>app/services/zep_tools.py\<close> return.

  Statements about several reads need a service whose answers do not change meanwhile: its
  reply to a request is fixed, while the world (clocks, connections, counters) may do anything.  The
  locale \<open>steady_reader\<close> says that retrying does not change such a reply; the retry wrapper of the
  tools satisfies it.  The centre is \<open>insight_forge_collects\<close>, a total specification of
  \<^verbatim>\<open>insight_forge\<close>, and \<open>panorama_search_ranks\<close>, the ranking of \<^verbatim>\<open>panorama_search\<close>.
\<close>

section \<open>Steady reads\<close>

locale steady_reader = retrying_reader read
  for read :: "('w, 'a) action \<Rightarrow> ('w, 'a) action" +
  assumes read_steady: "(\<And>w. fst (operation w) = r) \<Longrightarrow> fst (read operation w) = r"
begin

lemma steady_run:
  assumes "\<And>w. fst (operation w) = r"
  shows "\<exists>w'. read operation w = (r, w')"
proof -
  have "fst (read operation w) = r" by (rule read_steady) (rule assms)
  then show ?thesis by (cases "read operation w") simp
qed

end

lemma zep_attempts_steady:
  assumes op: "\<And>w. fst (operation w) = r" and "attempt \<le> m"
  shows "fst (zep_attempts fl operation sleep d0 dmax attempt m w) = r"
  using \<open>attempt \<le> m\<close>
proof (induction "m - attempt" arbitrary: attempt w)
  case 0
  then show ?case
    using op [of w] by (subst zep_attempts.simps) (auto split: prod.splits sum.splits)
next
  case (Suc k)
  then have "fst (zep_attempts fl operation sleep d0 dmax (Suc attempt) m w1) = r" for w1
    by simp
  with Suc.prems show ?case
    using op [of w] by (subst zep_attempts.simps) (auto split: prod.splits sum.splits)
qed

lemma tools_reader: "steady_reader (tools_read env)"
proof -
  have "retrying_reader (tools_read env)"
    unfolding tools_read_def by (rule zep_read.retrying_reader_axioms)
  moreover have "fst (tools_read env operation w) = r" if "\<And>w. fst (operation w) = r" for operation r w
    using zep_attempts_steady [where operation = operation, OF that] by (simp add: tools_read_def call_zep_read_with_retry_def)
  ultimately show ?thesis
    by (intro steady_reader.intro steady_reader_axioms.intro) blast+
qed

interpretation tools_reader: steady_reader "tools_read env" for env
  by (rule tools_reader)

section \<open>First occurrences\<close>

definition first_occurrences :: "'a list \<Rightarrow> 'a list" where
  "first_occurrences xs = rev (remdups (rev xs))"

lemma set_first_occurrences [simp]: "set (first_occurrences xs) = set xs"
  by (simp add: first_occurrences_def)

lemma distinct_first_occurrences [simp]: "distinct (first_occurrences xs)"
  by (simp add: first_occurrences_def)

lemma first_occurrences_Nil [simp]: "first_occurrences [] = []"
  by (simp add: first_occurrences_def)

lemma first_occurrences_snoc:
  "first_occurrences (xs @ [x]) = (if x \<in> set xs then first_occurrences xs else first_occurrences xs @ [x])"
  by (simp add: first_occurrences_def)

lemma add_new_first_occurrences: "add_new (first_occurrences ys) xs = first_occurrences (ys @ xs)"
proof (induction xs rule: rev_induct)
  case Nil
  then show ?case by (simp add: add_new_def)
next
  case (snoc x xs)
  then have "add_new (first_occurrences ys) (xs @ [x])
      = (if x \<in> set (ys @ xs) then first_occurrences (ys @ xs) else first_occurrences (ys @ xs) @ [x])"
    by (simp add: add_new_def)
  then show ?case using first_occurrences_snoc [of "ys @ xs" x] by simp
qed

lemma add_new_Nil: "add_new [] xs = first_occurrences xs"
  using add_new_first_occurrences [of "[]" xs] by simp

section \<open>Searching a steady graph\<close>

text \<open>The text a search sends, and the facts and edges of a reply.\<close>

definition sent :: "pystr \<Rightarrow> pystr" where
  "sent s = take MAX_ZEP_SEARCH_QUERY_CHARS (py_strip s)"

definition reply_edges :: "search_reply \<Rightarrow> edge_hit list" where
  "reply_edges reply = map hit_of_edge (or_nil (sy_edges reply))"

definition reply_facts :: "search_reply \<Rightarrow> pystr list" where
  "reply_facts reply = edge_facts (or_nil (sy_edges reply)) @ node_facts (or_nil (sy_nodes reply))"

lemma search_graph_steady:
  assumes "\<And>w. fst (zt_search env g (sent s) l scope w) = Inr reply" and "py_strip s \<noteq> []"
    and "1 \<le> l" "l \<le> MAX_ZEP_SEARCH_RESULTS"
  shows "\<exists>w'. search_graph env g (PyStr s) (PyInt l) scope w
    = (Inr \<lparr>sr_facts = reply_facts reply, sr_edges = reply_edges reply, sr_nodes = map hit_of_node (or_nil (sy_nodes reply)),
         sr_query = PyStr s, sr_total_count = length (reply_facts reply)\<rparr>, w')"
proof -
  obtain w' where "tools_read env (zt_search env g (sent s) l scope) w = (Inr reply, w')"
    using tools_reader.steady_run [where operation = "zt_search env g (sent s) l scope", OF assms(1)] by blast
  with assms(2-) show ?thesis
    by (simp add: search_graph_def sliceable_def normalize_zep_search_query_def normalize_zep_search_limit_def py_int_def
        reply_facts_def reply_edges_def Let_def flip: sent_def)
qed

lemma forge_searches_steady:
  assumes search: "\<And>s l w. fst (zt_search env g s l (lit ''edges'') w) = Inr (reply s l)"
    and "\<forall>s \<in> set subs. py_strip s \<noteq> []"
  shows "\<exists>w'. forge_searches env g (map PyStr subs) (first_occurrences fs) hs w
    = (Inr (first_occurrences (fs @ concat (map (\<lambda>s. reply_facts (reply (sent s) 15)) subs)),
            hs @ concat (map (\<lambda>s. reply_edges (reply (sent s) 15)) subs)), w')"
  using assms(2)
proof (induction subs arbitrary: fs hs w)
  case Nil
  then show ?case by simp
next
  case (Cons s subs)
  from Cons.prems obtain w1 where "search_graph env g (PyStr s) (PyInt 15) (lit ''edges'') w
    = (Inr \<lparr>sr_facts = reply_facts (reply (sent s) 15), sr_edges = reply_edges (reply (sent s) 15),
         sr_nodes = map hit_of_node (or_nil (sy_nodes (reply (sent s) 15))),
         sr_query = PyStr s, sr_total_count = length (reply_facts (reply (sent s) 15))\<rparr>, w1)"
    using search_graph_steady [of env g s 15, OF search] by (auto simp: MAX_ZEP_SEARCH_RESULTS_def)
  with Cons.IH [of "fs @ reply_facts (reply (sent s) 15)" "hs @ reply_edges (reply (sent s) 15)" w1] Cons.prems show ?case
    by (simp add: add_new_first_occurrences)
qed

section \<open>Entities and relations\<close>

text \<open>The node behind an identifier, what is reported about it, and how a relation is written.\<close>

definition readable :: "(pystr \<Rightarrow> sdk_node option res) \<Rightarrow> pystr \<Rightarrow> NodeInfo option" where
  "readable found u = (case found u of Inr (Some n) \<Rightarrow> Some (node_info_of n) | _ \<Rightarrow> None)"

definition insight_of :: "(pystr \<Rightarrow> pystr) \<Rightarrow> pystr list \<Rightarrow> NodeInfo \<Rightarrow> entity_insight" where
  "insight_of lower facts n = \<lparr>it_uuid = ni_uuid n, it_name = ni_name n, it_type = first_label (ni_labels n) [23454, 20307], it_summary = ni_summary n,
     it_related_facts = filter (\<lambda>f. occurs (lower (ni_name n)) (lower f)) facts\<rparr>"

definition shown_name :: "(pystr \<Rightarrow> sdk_node option res) \<Rightarrow> pystr \<Rightarrow> pystr" where
  "shown_name found u =
     (case readable found u of
        Some n \<Rightarrow> if u \<noteq> [] \<and> ni_name n \<noteq> [] then ni_name n else take 8 u
      | None \<Rightarrow> take 8 u)"

definition chain_text :: "(pystr \<Rightarrow> sdk_node option res) \<Rightarrow> edge_hit \<Rightarrow> pystr" where
  "chain_text found h = shown_name found (or_empty (eh_source h)) @ lit '' --['' @ opt_fmt (eh_name h) @ lit '']--> ''
     @ shown_name found (or_empty (eh_target h))"

definition two_ended :: "edge_hit \<Rightarrow> bool" where
  "two_ended h \<longleftrightarrow> eh_source h \<noteq> None \<and> eh_target h \<noteq> None"

lemma get_node_detail_steady:
  assumes "\<And>w. fst (zt_node env u w) = found u"
  shows "\<exists>w'. get_node_detail env u w = (case found u of
      Inl e \<Rightarrow> if exn_kind e = NotFoundErr then Inr None else Inl e
    | Inr n \<Rightarrow> Inr (map_option node_info_of n), w')"
proof -
  obtain w' where "tools_read env (zt_node env u) w = (found u, w')"
    using tools_reader.steady_run [where operation = "zt_node env u", OF assms] by blast
  then show ?thesis by (auto simp: get_node_detail_def split: sum.splits)
qed

lemma forge_entities_steady:
  assumes "\<And>u w. fst (zt_node env u w) = found u"
  shows "\<exists>w'. forge_entities env facts us w
    = ((map (insight_of (zt_lower env) facts) (List.map_filter (readable found) us),
        List.map_filter (\<lambda>u. map_option (Pair u) (readable found u)) us), w')"
proof (induction us arbitrary: w)
  case Nil
  then show ?case by (simp add: map_filter_simps)
next
  case (Cons u us)
  obtain w1 where detail: "get_node_detail env u w = (case found u of
      Inl e \<Rightarrow> if exn_kind e = NotFoundErr then Inr None else Inl e
    | Inr n \<Rightarrow> Inr (map_option node_info_of n), w1)"
    using get_node_detail_steady [of env u found, OF assms] by blast
  from Cons.IH [of w1] show ?case
    by (auto simp: detail readable_def insight_of_def map_filter_simps split: sum.splits option.splits)
qed

lemma dget_readable:
  "dget (List.map_filter (\<lambda>u. map_option (Pair u) (f u)) us) u = (if u \<in> set us then f u else None)"
  by (induction us) (auto simp: dget_def map_filter_simps split: option.splits)

lemma end_name_steady:
  assumes "set us = U" and "v \<noteq> [] \<longrightarrow> v \<in> U" and "[] \<notin> U"
  shows "end_name (List.map_filter (\<lambda>u. map_option (Pair u) (readable found u)) us) (Some v) = Inr (shown_name found v)"
  using assms by (auto simp: end_name_def dget_readable shown_name_def or_empty_def split: option.splits)

lemma chains_steady:
  assumes "set us = set (hit_uuids hs)" and "list_all two_ended hs"
  shows "map_res (chain_of (List.map_filter (\<lambda>u. map_option (Pair u) (readable found u)) us)) hs = Inr (map (chain_text found) hs)"
proof -
  let ?nodes = "List.map_filter (\<lambda>u. map_option (Pair u) (readable found u)) us"
  have "chain_of ?nodes h = Inr (chain_text found h)" if h: "h \<in> set hs" for h
  proof -
    from assms(2) h obtain s t where st: "eh_source h = Some s" "eh_target h = Some t"
      by (auto simp: list_all_iff two_ended_def)
    with h have "s \<noteq> [] \<longrightarrow> s \<in> set (hit_uuids hs)" "t \<noteq> [] \<longrightarrow> t \<in> set (hit_uuids hs)" "[] \<notin> set (hit_uuids hs)"
      by (force simp: hit_uuids_def or_empty_def)+
    then show ?thesis
      by (simp add: chain_of_def st end_name_steady [OF assms(1)] chain_text_def or_empty_def [of "Some _"])
  qed
  then show ?thesis by (induction hs) auto
qed

section \<open>InsightForge\<close>

lemma py_slice_upto_length: "0 \<le> n \<Longrightarrow> int (length (py_slice xs 0 n)) \<le> n"
  using py_index_le [of "length xs" n] by (auto simp: py_slice_def py_index_def Let_def)

lemma py_slice_map: "py_slice (map f xs) i j = map f (py_slice xs i j)"
  by (simp add: py_slice_def Let_def take_map drop_map)

lemma slice_upto_length: "slice_upto n v = Inr qs \<Longrightarrow> 0 \<le> n \<Longrightarrow> int (length qs) \<le> n"
  by (auto simp: slice_upto_def py_slice_upto_length split: pyval.splits)

lemma sub_queries_or_fallback:
  "\<exists>subs w1. (case st_bind y (\<lambda>response w. (slice_upto n (f response), w)) of
        (Inr qs, w) \<Rightarrow> (Inr (map (PyStr \<circ> str) qs), w)
      | (Inl e, w) \<Rightarrow> (Inr (map PyStr (py_slice fall 0 n)), w)) = (Inr (map PyStr subs), w1) \<and> (0 \<le> n \<longrightarrow> int (length subs) \<le> n)"
proof (cases "st_bind y (\<lambda>response w. (slice_upto n (f response), w))")
  case (Pair r w1)
  show ?thesis
  proof (cases r)
    case (Inl e)
    with Pair show ?thesis
      by (intro exI [of _ "py_slice fall 0 n"] exI [of _ w1]) (simp add: py_slice_upto_length)
  next
    case (Inr qs)
    with Pair have "0 \<le> n \<longrightarrow> int (length qs) \<le> n"
      by (auto simp: st_bind_def slice_upto_length split: prod.splits sum.splits)
    with Pair Inr show ?thesis
      by (intro exI [of _ "map str qs"] exI [of _ w1]) simp
  qed
qed

text \<open>For a question and context that are strings there are always sub-questions, at most as many as asked for.\<close>

lemma generate_sub_queries_texts:
  "\<exists>subs w1. generate_sub_queries env (PyStr q) req (PyStr ctx) n w = (Inr (map PyStr subs), w1) \<and> (0 \<le> n \<longrightarrow> int (length subs) \<le> n)"
proof -
  let ?fall = "[q, q @ lit '' '' @ [30340, 20027, 35201, 21442, 19982, 32773], q @ lit '' '' @ [30340, 21407, 22240, 21644, 24433, 21709],
    q @ lit '' '' @ [30340, 21457, 23637, 36807, 31243]]"
  have fall: "fallback_queries (zt_str env) (PyStr q) = map PyStr ?fall"
    by (simp add: fallback_queries_def fstr_def)
  obtain line where line: "context_line (zt_str env) (PyStr ctx) = Inr line"
    by (cases "ctx = []") (auto simp: context_line_def)
  show ?thesis
    unfolding generate_sub_queries_def line fall py_slice_map Let_def sum.case
    by (rule sub_queries_or_fallback)
qed

text \<open>
  C35: let the graph's answers be fixed, and let the sub-questions that the language model (or, when it
  fails, the fall-back) gives be non-blank strings.  Then \<^verbatim>\<open>insight_forge\<close> returns, whatever the world
  does, having asked at most the requested number of sub-questions.  Its facts are the facts found for the sub-questions and then for the question itself, each
  once, at its first place.  Its entities are exactly the readable ends of the edges found for
  the sub-questions, each once, in some order, with the facts that mention them; a node that cannot
  be read is left out.  Its relations are those edges, written with the names of their ends, each once and in order.  The
  edges found for the question itself contribute facts only.
\<close>

theorem insight_forge_collects:
  fixes subs :: "pystr list"
  assumes search: "\<And>s l w. fst (zt_search env g s l (lit ''edges'') w) = Inr (reply s l)"
    and node: "\<And>u w. fst (zt_node env u w) = found u"
    and order: "\<And>us. distinct us \<Longrightarrow> mset (zt_order env us) = mset us"
    and subs: "generate_sub_queries env (PyStr q) req (PyStr ctx) n w = (Inr (map PyStr subs), w1)"
    and nonblank: "\<forall>s \<in> set (q # subs). py_strip s \<noteq> []"
    and ends: "list_all two_ended hits"
    and hits: "hits = concat (map (\<lambda>s. reply_edges (reply (sent s) 15)) subs)"
    and facts: "facts = first_occurrences (concat (map (\<lambda>s. reply_facts (reply (sent s) 15)) subs) @ reply_facts (reply (sent q) 20))"
  shows "\<exists>r w'. insight_forge env g (PyStr q) req (PyStr ctx) n w = (Inr r, w')
    \<and> if_sub_queries r = map PyStr subs \<and> (0 \<le> n \<longrightarrow> int (length subs) \<le> n)
    \<and> if_semantic_facts r = facts \<and> if_total_facts r = length facts
    \<and> mset (if_entity_insights r) = mset (map (insight_of (zt_lower env) facts) (List.map_filter (readable found) (first_occurrences (hit_uuids hits))))
    \<and> if_total_entities r = length (if_entity_insights r)
    \<and> if_relationship_chains r = first_occurrences (map (chain_text found) hits)
    \<and> if_total_relationships r = length (if_relationship_chains r)"
proof -
  let ?us = "zt_order env (first_occurrences (hit_uuids hits))"
  let ?fs = "concat (map (\<lambda>s. reply_facts (reply (sent s) 15)) subs)"
  obtain w2 where s1: "forge_searches env g (map PyStr subs) [] [] w1 = (Inr (first_occurrences ?fs, hits), w2)"
    using forge_searches_steady [OF search, of subs "[]" "[]" w1] nonblank by (auto simp: hits)
  obtain w3 where s2: "search_graph env g (PyStr q) (PyInt 20) (lit ''edges'') w2
    = (Inr \<lparr>sr_facts = reply_facts (reply (sent q) 20), sr_edges = reply_edges (reply (sent q) 20),
         sr_nodes = map hit_of_node (or_nil (sy_nodes (reply (sent q) 20))),
         sr_query = PyStr q, sr_total_count = length (reply_facts (reply (sent q) 20))\<rparr>, w3)"
    using search_graph_steady [of env g q 20, OF search] nonblank by (auto simp: MAX_ZEP_SEARCH_RESULTS_def)
  obtain w4 where s3: "forge_entities env facts ?us w3
    = ((map (insight_of (zt_lower env) facts) (List.map_filter (readable found) ?us), List.map_filter (\<lambda>u. map_option (Pair u) (readable found u)) ?us), w4)"
    using forge_entities_steady [OF node] by blast
  have perm: "mset ?us = mset (first_occurrences (hit_uuids hits))" by (rule order) simp
  then have "set ?us = set (hit_uuids hits)" by (metis set_mset_mset set_first_occurrences)
  note chains = chains_steady [OF this ends, of found]
  have run: "insight_forge env g (PyStr q) req (PyStr ctx) n w
    = (Inr \<lparr>if_query = PyStr q, if_requirement = req, if_sub_queries = map PyStr subs, if_semantic_facts = facts,
         if_entity_insights = map (insight_of (zt_lower env) facts) (List.map_filter (readable found) ?us),
         if_relationship_chains = first_occurrences (map (chain_text found) hits), if_total_facts = length facts,
         if_total_entities = length (map (insight_of (zt_lower env) facts) (List.map_filter (readable found) ?us)),
         if_total_relationships = length (first_occurrences (map (chain_text found) hits))\<rparr>, w4)"
    using s3 by (simp add: insight_forge_def sliceable_def subs s1 s2 add_new_Nil add_new_first_occurrences chains Let_def flip: facts)
  have "mset (List.map_filter (readable found) ?us) = mset (List.map_filter (readable found) (first_occurrences (hit_uuids hits)))"
    by (simp add: map_filter_def mset_map mset_filter perm)
  moreover have "0 \<le> n \<longrightarrow> int (length subs) \<le> n"
    using generate_sub_queries_texts [of env q req ctx n w] subs by (auto dest!: map_eq_imp_length_eq)
  ultimately show ?thesis using run by simp
qed

section \<open>Panorama\<close>

text \<open>The \<open>n\<close> best of a list: in descending order, ties in their old order, nothing better left out.\<close>

definition best_of :: "('a \<Rightarrow> nat) \<Rightarrow> nat \<Rightarrow> 'a list \<Rightarrow> 'a list \<Rightarrow> bool" where
  "best_of score n xs ys \<longleftrightarrow> sorted_wrt (\<lambda>a b. score b \<le> score a) ys \<and> mset ys \<subseteq># mset xs \<and> length ys = min n (length xs)
     \<and> (\<forall>k. prefix (filter (\<lambda>x. score x = k) ys) (filter (\<lambda>x. score x = k) xs))
     \<and> (\<forall>y \<in> set ys. \<forall>x \<in># mset xs - mset ys. score x \<le> score y)"

lemma best_of_take: "best_of score n xs (take n (sorted_desc score xs))"
proof -
  let ?zs = "sorted_desc score xs"
  have split: "mset xs = mset (take n ?zs) + mset (drop n ?zs)"
    using mset_sorted_desc [of score xs] by (metis append_take_drop_id mset_append)
  have ord: "sorted_wrt (\<lambda>a b. score b \<le> score a) (take n ?zs @ drop n ?zs)"
    by (simp add: sorted_desc_sorted)
  have "prefix (filter (\<lambda>x. score x = k) (take n ?zs)) (filter (\<lambda>x. score x = k) xs)" for k
    using filter_mono_prefix [OF take_is_prefix, of "\<lambda>x. score x = k" n ?zs] by (simp add: sorted_desc_stable)
  moreover have "min (length xs) n = min n (length xs)" by simp
  ultimately show ?thesis
    using ord unfolding best_of_def split sorted_wrt_append by auto
qed

text \<open>
  C36: \<^verbatim>\<open>panorama_search\<close> with a limit \<open>n\<close> returns all nodes and edges of the graph.  Every edge with a fact
  is counted once, as historical when it has an end or expiry time and as current otherwise; an edge
  without a fact is not counted.  The current facts shown are the \<open>n\<close> most relevant ones, most
  relevant first, equally relevant ones in the graph's order; so are the historical ones, with
  their times, unless they were not asked for: then they are counted and not shown.
\<close>

theorem panorama_search_ranks:
  assumes "tools_all_nodes env g w = Some (Inr ns, w1)" and "tools_all_edges env g True w1 = Some (Inr es, w2)"
  shows "\<exists>r. panorama_search env g (PyStr q) include_expired (int n) w = Some (Inr r, w2)
    \<and> pn_all_nodes r = ns \<and> pn_all_edges r = es \<and> pn_total_nodes r = length ns \<and> pn_total_edges r = length es
    \<and> best_of (relevance_score (zt_lower env) q) n (map ei_fact (filter (\<lambda>e. ei_fact e \<noteq> [] \<and> ei_expired_at e = None \<and> ei_invalid_at e = None) es))
        (pn_active_facts r)
    \<and> (if truthy include_expired
       then best_of (relevance_score (zt_lower env) q) n
         (map dated_fact (filter (\<lambda>e. ei_fact e \<noteq> [] \<and> (ei_expired_at e \<noteq> None \<or> ei_invalid_at e \<noteq> None)) es)) (pn_historical_facts r)
       else pn_historical_facts r = [])
    \<and> pn_active_count r = length (filter (\<lambda>e. ei_fact e \<noteq> [] \<and> ei_expired_at e = None \<and> ei_invalid_at e = None) es)
    \<and> pn_active_count r + pn_historical_count r = length (filter (\<lambda>e. ei_fact e \<noteq> []) es)"
proof -
  have cut: "py_slice xs 0 (int n) = take n xs" for xs :: "pystr list"
    using py_slice_nat [of xs 0 n] by simp
  have "length (filter (\<lambda>e. ei_fact e \<noteq> [] \<and> ei_expired_at e = None \<and> ei_invalid_at e = None) es)
      + length (filter (\<lambda>e. ei_fact e \<noteq> [] \<and> (ei_expired_at e \<noteq> None \<or> ei_invalid_at e \<noteq> None)) es)
      = length (filter (\<lambda>e. ei_fact e \<noteq> []) es)"
    by (induction es) auto
  then show ?thesis
    using assms
    by (simp add: best_of_take panorama_search_def sliceable_def panorama_of_def active_facts_of_def historical_facts_of_def is_historical_def
        is_expired_def is_invalid_def cut Let_def)
qed

section \<open>Statistics\<close>

text \<open>The counters of \<^verbatim>\<open>get_graph_statistics\<close> count occurrences, with one entry per name that occurs.\<close>

lemma dget_or_count: "dget_or (foldl count_into d xs) k 0 = dget_or d k 0 + int (count_list xs k)"
proof (induction xs arbitrary: d)
  case Nil
  then show ?case by simp
next
  case (Cons x xs)
  have "dget_or (count_into d x) k 0 = dget_or d k 0 + (if x = k then 1 else 0)"
    by (simp add: count_into_def dget_or_dget)
  then show ?case by (simp add: Cons.IH)
qed

lemma dset_keys: "fst ` set (dset d k v) = insert k (fst ` set d)"
  by (induction d) auto

lemma keys_count: "fst ` set (foldl count_into d xs) = fst ` set d \<union> set xs"
  by (induction xs arbitrary: d) (auto simp: count_into_def dset_keys)

theorem graph_statistics_count:
  "dget_or (relation_types es) k 0 = int (length (filter (\<lambda>e. ei_name e = k) es))"
  "set (map fst (relation_types es)) = set (map ei_name es)"
  "dget_or (entity_types ns) k 0 = (if k \<in> set default_labels then 0 else int (count_list (concat (map ni_labels ns)) k))"
proof -
  have "count_list (map ei_name es) k = length (filter (\<lambda>e. ei_name e = k) es)" by (induction es) auto
  then show "dget_or (relation_types es) k 0 = int (length (filter (\<lambda>e. ei_name e = k) es))"
    by (simp add: relation_types_def dget_or_count) (simp add: dget_or_def)
  show "set (map fst (relation_types es)) = set (map ei_name es)"
    using keys_count [of "[]" "map ei_name es"] by (simp add: relation_types_def)
  have "count_list (filter (\<lambda>l. l \<notin> set default_labels) ls) k = (if k \<in> set default_labels then 0 else count_list ls k)" for ls :: "pystr list"
    by (induction ls) auto
  moreover have "concat (map (\<lambda>n. filter (\<lambda>l. l \<notin> set default_labels) (ni_labels n)) ns)
      = filter (\<lambda>l. l \<notin> set default_labels) (concat (map ni_labels ns))"
    by (simp add: filter_concat comp_def)
  ultimately show "dget_or (entity_types ns) k 0 = (if k \<in> set default_labels then 0 else int (count_list (concat (map ni_labels ns)) k))"
    by (simp add: entity_types_def dget_or_count) (simp add: dget_or_def)
qed

section \<open>A forum\<close>

text \<open>
  A graph with two edges, one of which has ended.  Its search answers every question with both, and
  of its nodes only one can be read.
\<close>

definition edge_between :: "string \<Rightarrow> string \<Rightarrow> string \<Rightarrow> pystr option \<Rightarrow> sdk_edge" where
  "edge_between u f v ended = \<lparr>sk_uuid1 = Some (lit u @ lit v), sk_uuid2 = None, sk_name = Some (lit ''TRUSTS''), sk_fact = Some (lit f),
     sk_source = Some (lit u), sk_target = Some (lit v), sk_created_at = None, sk_valid_at = None, sk_invalid_at = ended, sk_expired_at = None\<rparr>"

definition mia :: sdk_node where
  "mia = \<lparr>sn_uuid1 = Some (lit ''a''), sn_uuid2 = None, sn_name = Some (lit ''Mia''), sn_labels = Some [lit ''Entity'', lit ''Student''],
     sn_summary = None, sn_attributes = None\<rparr>"

definition forum_edges :: "sdk_edge list" where
  "forum_edges = [edge_between ''a'' ''mia trusts bo'' ''b'' None, edge_between ''b'' ''bo trusts mia'' ''a'' (Some (lit ''May'')),
     edge_between ''a'' ''mia trusts bo'' ''b'' None]"

definition forum_node :: "pystr \<Rightarrow> sdk_node option res" where
  "forum_node u = (if u = lit ''a'' then Inr (Some mia) else Inl (Exn NotFoundErr []))"

definition forum :: "nat tools_env" where
  "forum = \<lparr>zt_float = \<lambda>_. None, zt_sleep = \<lambda>_ w. Suc w, zt_parse_int = \<lambda>_. None, zt_str = \<lambda>_. [], zt_lower = py_lower, zt_order = rev,
     zt_search = \<lambda>_ _ _ _ w. (Inr \<lparr>sy_edges = Some forum_edges, sy_nodes = None\<rparr>, Suc w), zt_node = \<lambda>u w. (forum_node u, Suc w),
     zt_nodes = \<lambda>_ _ _ w. (Inr (one_page [mia]), w), zt_edges = \<lambda>_ _ _ w. (Inr (one_page forum_edges), w),
     zt_chat_json = \<lambda>_ w. (Inr [(lit ''sub_queries'', PyList [PyStr (lit ''who''), PyStr (lit ''why'')])], Suc w)\<rparr>"

lemma forum_sub_queries:
  "generate_sub_queries forum (PyStr (lit ''trust'')) [] (PyStr []) 5 0 = (Inr (map PyStr [lit ''who'', lit ''why'']), 1)"
proof -
  have "zt_chat_json forum messages 0 = (Inr [(lit ''sub_queries'', PyList [PyStr (lit ''who''), PyStr (lit ''why'')])], 1)" for messages
    by (simp add: forum_def)
  then show ?thesis
    by (simp add: generate_sub_queries_def context_line_def slice_upto_def py_slice_def py_index_def fstr_def dget_or_def Let_def)
qed

lemma forum_texts: "py_strip (lit ''trust'') \<noteq> []" "py_strip (lit ''who'') \<noteq> []" "py_strip (lit ''why'') \<noteq> []"
  by (simp_all add: py_strip_eq_Nil_iff lit_def is_space_def)

definition forum_reply :: search_reply where
  "forum_reply = \<lparr>sy_edges = Some forum_edges, sy_nodes = None\<rparr>"

lemma forum_found:
  "list_all two_ended (concat (map (\<lambda>_. reply_edges forum_reply) [lit ''who'', lit ''why'']))"
  "first_occurrences (concat (map (\<lambda>_. reply_facts forum_reply) [lit ''who'', lit ''why'']) @ reply_facts forum_reply)
    = [lit ''mia trusts bo'', lit ''bo trusts mia'']"
  "first_occurrences (map (chain_text forum_node) (concat (map (\<lambda>_. reply_edges forum_reply) [lit ''who'', lit ''why''])))
    = [lit ''Mia --[TRUSTS]--> b'', lit ''b --[TRUSTS]--> Mia'']"
  "map it_name (map (insight_of py_lower [lit ''mia trusts bo'', lit ''bo trusts mia'']) (List.map_filter (readable forum_node)
      (first_occurrences (hit_uuids (concat (map (\<lambda>_. reply_edges forum_reply) [lit ''who'', lit ''why'']))))))
    = [lit ''Mia'']"
  by (simp_all add: lit_def two_ended_def reply_edges_def reply_facts_def forum_reply_def forum_edges_def edge_between_def hit_of_edge_def
      edge_facts_def node_facts_def or_nil_def or_empty_def first_occurrences_def chain_text_def shown_name_def readable_def forum_node_def
      mia_def node_info_of_def or_text_def opt_fmt_def hit_uuids_def insight_of_def map_filter_simps)

theorem insight_forge_collects_witness:
  "\<exists>r w'. insight_forge forum (lit ''g'') (PyStr (lit ''trust'')) [] (PyStr []) 5 0 = (Inr r, w')
    \<and> if_semantic_facts r = [lit ''mia trusts bo'', lit ''bo trusts mia'']
    \<and> image_mset it_name (mset (if_entity_insights r)) = {#lit ''Mia''#}
    \<and> if_relationship_chains r = [lit ''Mia --[TRUSTS]--> b'', lit ''b --[TRUSTS]--> Mia'']"
proof -
  have "fst (zt_search forum (lit ''g'') s l (lit ''edges'') w) = Inr forum_reply" "fst (zt_node forum u w) = forum_node u"
    "mset (zt_order forum us) = mset us" for s l w u us
    by (simp_all add: forum_def forum_reply_def)
  note run = insight_forge_collects [where reply = "\<lambda>_ _. forum_reply", OF this forum_sub_queries _ forum_found(1) refl refl]
  have low: "zt_lower forum = py_lower" by (simp add: forum_def)
  obtain r w' where "insight_forge forum (lit ''g'') (PyStr (lit ''trust'')) [] (PyStr []) 5 0 = (Inr r, w')"
    and facts: "if_semantic_facts r = [lit ''mia trusts bo'', lit ''bo trusts mia'']"
    and who: "mset (if_entity_insights r) = mset (map (insight_of py_lower [lit ''mia trusts bo'', lit ''bo trusts mia''])
      (List.map_filter (readable forum_node) (first_occurrences (hit_uuids (concat (map (\<lambda>_. reply_edges forum_reply) [lit ''who'', lit ''why'']))))))"
    and "if_relationship_chains r = [lit ''Mia --[TRUSTS]--> b'', lit ''b --[TRUSTS]--> Mia'']"
    using run forum_texts unfolding low forum_found(2,3) by auto
  moreover have "image_mset it_name (mset (if_entity_insights r)) = {#lit ''Mia''#}"
    using forum_found(4) by (simp only: who flip: mset_map) simp
  ultimately show ?thesis by blast
qed

lemma forum_reads:
  "tools_all_nodes forum g w = Some (Inr [node_info_of mia], w)"
  "tools_all_edges forum g True w = Some (Inr (map (edge_info_of True) forum_edges), w)"
  by (simp_all add: tools_all_nodes_def tools_all_edges_def fetch_all_nodes_def fetch_all_edges_def fetch_all_def forum_def
      single_page page_read.read_ok)

theorem panorama_search_ranks_witness:
  "\<exists>r. panorama_search forum (lit ''g'') (PyStr (lit ''trust'')) (PyBool True) 1 0 = Some (Inr r, 0)
    \<and> pn_active_facts r = [lit ''mia trusts bo''] \<and> pn_active_count r = 2 \<and> pn_historical_count r = 1"
proof -
  have f: "filter (\<lambda>e. ei_fact e \<noteq> [] \<and> ei_expired_at e = None \<and> ei_invalid_at e = None) (map (edge_info_of True) forum_edges)
      = map (edge_info_of True) [edge_between ''a'' ''mia trusts bo'' ''b'' None, edge_between ''a'' ''mia trusts bo'' ''b'' None]"
    "length (filter (\<lambda>e. ei_fact e \<noteq> []) (map (edge_info_of True) forum_edges)) = 3"
    "ei_fact (edge_info_of True (edge_between ''a'' ''mia trusts bo'' ''b'' None)) = lit ''mia trusts bo''"
    by (simp_all add: forum_edges_def edge_between_def edge_info_of_def or_empty_def lit_def)
  have one: "ys = [x]" if "best_of score (Suc 0) [x, x] ys" for score :: "pystr \<Rightarrow> nat" and x ys
    using that by (auto simp: best_of_def length_Suc_conv)
  obtain r where "panorama_search forum (lit ''g'') (PyStr (lit ''trust'')) (PyBool True) (int (Suc 0)) 0 = Some (Inr r, 0)"
    and "best_of (relevance_score (zt_lower forum) (lit ''trust'')) (Suc 0) [lit ''mia trusts bo'', lit ''mia trusts bo''] (pn_active_facts r)"
    and "pn_active_count r = 2" "pn_active_count r + pn_historical_count r = 3"
    using panorama_search_ranks [OF forum_reads(1) [of "lit ''g''" 0] forum_reads(2), of "lit ''trust''" "PyBool True" "Suc 0"]
    unfolding f by (auto simp: f)
  then show ?thesis using one by (intro exI [of _ r]) auto
qed

end
