(* ===== verification/Spec2Isabelle.thy ===== *)
theory Spec2Isabelle
  imports Prelude Zep_Access Backoff Zep_Paging Text_Chunks Ontology Stores Task_Manager Agent_Activity
    Memory_Updater Updater_Drain Updater_Faults Memory_Manager Project_Store Simulation_Manager
    Run_State Action_Log Action_Queries Simulation_Runner Runner_Barrier Runner_Runs Graph_Lifecycle Graph_Guards Graph_Runs
    Simulation_IPC IPC_Handlers IPC_Mailbox IPC_Service IPC_Refinement IPC_Runs Runner_Interviews
    Simulation_Rounds Simulation_Logs Entity_Reader Ontology_Generator Ontology_Valid
    Graph_Builder Graph_Batches Graph_Build Graph_Verdicts Build_Runs
    Py_Text LLM_Client Report_Text Report_Store Report_Prompts Tool_Calls Report_Agent
    Report_Frames Report_Verdicts Report_React Report_Content Report_Completion Report_Runs
    Zep_Tools Zep_Retrieval
begin

text \<open>
  Verification library of the robin-swarm backend (\<^verbatim>\<open>src/services/robin-swarm/backend/app\<close>).

  The backend turns documents into a knowledge graph held by Zep Cloud, prepares and runs social
  simulations over it as subprocesses, streams what the agents do back into the graph, and
  answers queries about runs.  A run is owned by \<^verbatim>\<open>SimulationRunner\<close>; while it runs, a monitor
  thread tails the action logs and hands each action to the run's \<^verbatim>\<open>ZepGraphMemoryUpdater\<close>, whose
  worker thread batches them into episodes.  Finishing a run means draining that updater first:
  this barrier is the program's central safety rule and the centre of this library.

  \<^bold>\<open>Conventions\<close> (\<^verbatim>\<open>Prelude\<close>).  Strings are lists of code points, so that slices, lengths and the
  Chinese literals of the source are exact; \<open>lit\<close> builds ASCII ones.  A value read from JSON is a
  \<open>pyval\<close>; floats are rationals, so rounding of binary floating point is not modelled.  A dict is
  an association list.  An exception is a value \<open>Exn kind message\<close>; code that may raise returns
  \<open>exn + 'a\<close>, and code that changes state before raising returns the changed state as well.  Calls
  into Zep, the clock, \<^verbatim>\<open>json.loads\<close> and the like are arguments (often fields of an environment
  record) over a world \<open>'w\<close>.  Locked sections are single functions; threads are interleaved by
  step relations.

  \<^bold>\<open>Zep access\<close>.  \<^verbatim>\<open>Zep_Access\<close> models \<^verbatim>\<open>utils/zep.py\<close> (query and limit normalisation, client
  configuration, which errors are retried, the retry loop), \<^verbatim>\<open>Zep_Paging\<close> models
  \<^verbatim>\<open>utils/zep_paging.py\<close> (a \<open>partial_function\<close>, so that an endless page chain is \<open>None\<close>; it is proved
  to end whenever the service has finitely many cursors), and \<^verbatim>\<open>Backoff\<close> models \<^verbatim>\<open>utils/retry.py\<close>.

  \<^bold>\<open>Documents\<close>.  \<^verbatim>\<open>Text_Chunks\<close> models \<^verbatim>\<open>utils/file_parser.py\<close> and \<^verbatim>\<open>services/text_processor.py\<close>: the
  chunk loop is partial, it is proved to tile the text when it ends, and an overlap for which it
  does not end is exhibited.  \<^verbatim>\<open>Ontology\<close> models \<^verbatim>\<open>utils/ontology.py\<close>.

  \<^bold>\<open>Stores\<close>.  \<^verbatim>\<open>Stores\<close> states what a document store promises as locales; \<^verbatim>\<open>Task_Manager\<close>
  (\<^verbatim>\<open>models/task.py\<close>), \<^verbatim>\<open>Project_Store\<close> (\<^verbatim>\<open>models/project.py\<close>) and \<^verbatim>\<open>Simulation_Manager\<close>
  (\<^verbatim>\<open>services/simulation_manager.py\<close>) model the stores, with round trips of the documents, the
  task registry's invariant, and the two outcomes of \<^verbatim>\<open>prepare_simulation\<close>.

  \<^bold>\<open>Graph memory\<close>.  \<^verbatim>\<open>Agent_Activity\<close>, \<^verbatim>\<open>Memory_Updater\<close> and \<^verbatim>\<open>Memory_Manager\<close> model
  \<^verbatim>\<open>services/zep_graph_memory_updater.py\<close>: how an activity is described and packed into episodes, the
  updater with its queue, buffers and worker, and the registry of updaters.  \<open>worker_step\<close> is one
  pass of the worker's loop; a stop is given the number \<open>k\<close> of passes that happen while it waits
  in \<^verbatim>\<open>join\<close>, and every statement holds for every \<open>k\<close>; \<open>worker_fuel\<close> passes are enough for the
  worker to end.  \<^verbatim>\<open>Updater_Drain\<close> proves over all reachable updaters that no activity is lost and
  that a stop which returns normally has delivered everything; \<^verbatim>\<open>Updater_Faults\<close> treats failures.
  The interface the runner uses is the locale \<open>updater_registry\<close>.

  \<^bold>\<open>Runs\<close>.  \<^verbatim>\<open>Run_State\<close>, \<^verbatim>\<open>Action_Log\<close>, \<^verbatim>\<open>Action_Queries\<close> and \<^verbatim>\<open>Simulation_Runner\<close> model
  \<^verbatim>\<open>services/simulation_runner.py\<close>: run state documents, the incremental log reader, the history
  queries, and starting, monitoring, stopping and shutting down a run.  \<^verbatim>\<open>Runner_Barrier\<close> proves the
  ingestion barrier in a locale over the registry interface, for every interleaving of the
  runner's sections, and interprets it on the updater registry; \<^verbatim>\<open>Runner_Runs\<close> has a complete
  concrete run and two ways in which a start goes wrong.

  \<^bold>\<open>Simulations\<close>.  \<^verbatim>\<open>Simulation_Rounds\<close> models the rounds of \<^verbatim>\<open>scripts/run_parallel_simulation.py\<close> and the action logger
  of \<^verbatim>\<open>scripts/action_logger.py\<close>; \<^verbatim>\<open>Simulation_Logs\<close> proves the shape of the log a simulation writes and that
  the runner, reading the whole of it, counts exactly its actions.

  \<^bold>\<open>Interviews\<close>.  \<^verbatim>\<open>Simulation_IPC\<close> models \<^verbatim>\<open>services/simulation_ipc.py\<close> and \<^verbatim>\<open>IPC_Handlers\<close> the command handlers of the
  simulation scripts.  \<^verbatim>\<open>IPC_Mailbox\<close> has the abstract mail box and the contract \<open>command_server\<close> of a
  handler pass, \<^verbatim>\<open>IPC_Service\<close> follows whole exchanges inside that contract, and \<^verbatim>\<open>IPC_Refinement\<close> proves
  that the directory refines the mail box, that a call returns, that it gets its own answer, and
  what the waiting mode serves; \<^verbatim>\<open>IPC_Runs\<close> has concrete exchanges.  \<^verbatim>\<open>Runner_Interviews\<close> models the interview
  operations of the runner.  Polling loops are partial; they are proved to return once sleeping
  lets time pass.

  \<^bold>\<open>Graph life cycle\<close>.  \<^verbatim>\<open>Graph_Lifecycle\<close> models \<^verbatim>\<open>utils/zep_lifecycle.py\<close> and the guarded sections of the handlers in
  \<^verbatim>\<open>api/graph.py\<close>, \<^verbatim>\<open>api/simulation.py\<close> and \<^verbatim>\<open>api/report.py\<close>.  \<^verbatim>\<open>Graph_Guards\<close> proves over all reachable servers that a
  graph is deleted only when unused and never used after its deletion; \<^verbatim>\<open>Graph_Runs\<close> shows a deletion
  that goes through and a report that overlaps another simulation's writer.

  \<^bold>\<open>Building graphs\<close>.  \<^verbatim>\<open>Ontology_Generator\<close> and \<^verbatim>\<open>Ontology_Valid\<close> treat \<^verbatim>\<open>services/ontology_generator.py\<close>: whatever the
  language model answers, the validated ontology is within Zep's limits.  \<^verbatim>\<open>Graph_Builder\<close> and \<^verbatim>\<open>Graph_Build\<close>
  model \<^verbatim>\<open>services/graph_builder.py\<close> and the build handler with its background job in \<^verbatim>\<open>api/graph.py\<close>.
  \<^verbatim>\<open>Graph_Batches\<close> proves that a submission puts every chunk into one batch, once and in order, although
  replies may be lost; \<^verbatim>\<open>Graph_Verdicts\<close> proves what a finished job means; \<^verbatim>\<open>Build_Runs\<close> is a concrete service.
  \<^verbatim>\<open>Entity_Reader\<close> models \<^verbatim>\<open>services/zep_entity_reader.py\<close> and specifies the selection of entities.

  \<^bold>\<open>Reports\<close>.  \<^verbatim>\<open>Py_Text\<close> has Python's text primitives, \<^verbatim>\<open>LLM_Client\<close> models \<^verbatim>\<open>utils/llm_client.py\<close> and
  \<^verbatim>\<open>utils/openai_chat_compat.py\<close>.  \<^verbatim>\<open>Report_Text\<close>, \<^verbatim>\<open>Report_Store\<close>, \<^verbatim>\<open>Report_Prompts\<close>, \<^verbatim>\<open>Tool_Calls\<close> and \<^verbatim>\<open>Report_Agent\<close> model
  \<^verbatim>\<open>services/report_agent.py\<close>: the text clean-up, the report folders, the prompts, the reading of tool
  calls, and the agent with its planning, its ReACT loop, the generation of a report and the chat.
  \<^verbatim>\<open>Report_Frames\<close> has the rules for what a step leaves alone (locale \<open>run_invariant\<close>), on which
  \<^verbatim>\<open>Report_Verdicts\<close> (a run ends completed or failed and stored as such), \<^verbatim>\<open>Report_React\<close> (tool calls and
  requests of a section), \<^verbatim>\<open>Report_Content\<close> (what a completed report contains) and \<^verbatim>\<open>Report_Completion\<close> (a
  report that is sure to be completed) rest; \<^verbatim>\<open>Report_Runs\<close> has concrete runs.

  \<^bold>\<open>Retrieval\<close>.  \<^verbatim>\<open>Zep_Tools\<close> models \<^verbatim>\<open>services/zep_tools.py\<close> apart from its interview tool; the report agent takes
  the tools as parameters.  \<^verbatim>\<open>Zep_Retrieval\<close> specifies \<^verbatim>\<open>insight_forge\<close> completely for a service with fixed
  answers, and the ranking of \<^verbatim>\<open>panorama_search\<close>.

  \<^bold>\<open>Not modelled\<close>.  Process creation and signals, file handles and encodings, log clean-up and the
  console log handler; the interview tool of the report agent; the profile and configuration
  generators; the HTTP handlers apart from the guarded sections and the build handler; model and
  environment creation in the simulation scripts; configuration and translations; the trading,
  research and machine learning code, and the services in other languages.
\<close>

end
